(* ===== verification/Prelude.thy ===== *)
theory Prelude
  imports Main "HOL-Library.AList" "HOL-Library.Char_ord" "HOL-Library.List_Lexorder"
    "HOL-Library.State_Monad"
begin

text \<open>
  Shared vocabulary of the development.

  \<^item> Go maps. A \<^verbatim>\<open>map[K]V\<close> is an association list with distinct keys; writing a key is
    \<^const>\<open>AList.update\<close>, deleting one is \<^const>\<open>AList.delete\<close>, and a \<^verbatim>\<open>range\<close> loop visits
    the entries in the order of the list. Go leaves that order open; a theorem for every list is
    a theorem for every iteration order.
  \<^item> Go strings. A string is a list of bytes; the functions of the packages \<^verbatim>\<open>strings\<close>,
    \<^verbatim>\<open>sort\<close> and \<^verbatim>\<open>fmt\<close> that the sources use are defined here.
  \<^item> Effects. A computation that talks to the cluster is a value of
    \<^typ>\<open>('s, 'a) state\<close> over the list of calls issued so far; \<open>calls_in\<close> and \<open>returns\<close> are
    the two judgements the component proofs use about such computations.
\<close>

named_theorems calls_intro \<open>introduction rules for the judgement calls_in\<close>
named_theorems returns_intro \<open>introduction rules for the judgement returns\<close>

section \<open>Go maps as association lists\<close>

type_synonym ('k, 'v) gomap = "('k \<times> 'v) list"

abbreviation keys :: "('k, 'v) gomap \<Rightarrow> 'k list" where
  "keys m \<equiv> map fst m"

abbreviation wf_map :: "('k, 'v) gomap \<Rightarrow> bool" where
  "wf_map m \<equiv> distinct (keys m)"

text \<open>Reading a key that is absent yields the zero value of the element type.\<close>

definition get_or :: "'v \<Rightarrow> ('k, 'v) gomap \<Rightarrow> 'k \<Rightarrow> 'v" where
  "get_or d m k = (case map_of m k of None \<Rightarrow> d | Some v \<Rightarrow> v)"

abbreviation flag :: "('k, bool) gomap \<Rightarrow> 'k \<Rightarrow> bool" where
  "flag m k \<equiv> get_or False m k"

abbreviation str_of :: "('k, string) gomap \<Rightarrow> 'k \<Rightarrow> string" where
  "str_of m k \<equiv> get_or [] m k"

text \<open>\<^verbatim>\<open>for k, v := range src { dst[k] = v }\<close>\<close>

definition copy_into :: "('k, 'v) gomap \<Rightarrow> ('k, 'v) gomap \<Rightarrow> ('k, 'v) gomap" where
  "copy_into src dst = fold (\<lambda>(k, v). AList.update k v) src dst"

text \<open>\<^verbatim>\<open>reflect.DeepEqual\<close> on two maps that are both not nil.\<close>

definition map_eq :: "('k, 'v) gomap \<Rightarrow> ('k, 'v) gomap \<Rightarrow> bool" where
  "map_eq m n \<longleftrightarrow> list_all (\<lambda>k. map_of m k = map_of n k) (keys m @ keys n)"

text \<open>A map one of whose values is replaced in place.\<close>

definition adjust :: "'k \<Rightarrow> ('v \<Rightarrow> 'v) \<Rightarrow> ('k, 'v) gomap \<Rightarrow> ('k, 'v) gomap" where
  "adjust k f m = (case map_of m k of None \<Rightarrow> m | Some v \<Rightarrow> AList.update k (f v) m)"

lemma map_eq_iff: "map_eq m n \<longleftrightarrow> map_of m = map_of n"
proof
  assume *: "map_eq m n"
  show "map_of m = map_of n"
  proof
    fix k
    show "map_of m k = map_of n k"
    proof (cases "k \<in> set (keys m) \<union> set (keys n)")
      case True
      with * show ?thesis by (auto simp: map_eq_def list_all_iff)
    next
      case False
      then have "map_of m k = None" and "map_of n k = None"
        by (simp_all add: map_of_eq_None_iff)
      then show ?thesis by simp
    qed
  qed
qed (simp add: map_eq_def list_all_iff)

lemma map_of_update [simp]: "map_of (AList.update k v m) = (map_of m)(k \<mapsto> v)"
  by (rule update_conv')

lemma keys_update_set [simp]: "set (keys (AList.update k v m)) = insert k (set (keys m))"
  by (simp add: dom_update)

lemma wf_update [simp]: "wf_map m \<Longrightarrow> wf_map (AList.update k v m)"
  by (rule distinct_update)

lemma wf_delete [simp]: "wf_map m \<Longrightarrow> wf_map (AList.delete k m)"
  by (rule distinct_delete)

lemma wf_copy_into: "wf_map dst \<Longrightarrow> wf_map (copy_into src dst)"
  unfolding copy_into_def by (induction src arbitrary: dst) (auto simp: split_beta)

lemma map_of_copy_into:
  "wf_map src \<Longrightarrow> map_of (copy_into src dst) = map_of dst ++ map_of src"
proof (induction src arbitrary: dst)
  case Nil
  then show ?case by (simp add: copy_into_def)
next
  case (Cons p src)
  obtain k v where p: "p = (k, v)" by (cases p)
  from Cons.prems p have k: "map_of src k = None"
    by (simp add: map_of_eq_None_iff)
  have "map_of (copy_into (p # src) dst) = map_of (AList.update k v dst) ++ map_of src"
    using Cons p by (simp add: copy_into_def)
  also have "\<dots> = map_of dst ++ map_of (p # src)"
    using k p by (auto simp: map_add_def fun_eq_iff split: option.splits)
  finally show ?case .
qed

lemma keys_copy_into: "set (keys (copy_into src dst)) = set (keys dst) \<union> set (keys src)"
  unfolding copy_into_def by (induction src arbitrary: dst) (auto simp: dom_update split_beta)

lemma copy_into_value:
  "map_of (copy_into src dst) k = Some v \<Longrightarrow> (k, v) \<in> set src \<or> map_of dst k = Some v"
  unfolding copy_into_def
  by (induction src arbitrary: dst) (fastforce simp: split_beta split: if_splits)+

lemma keys_adjust [simp]: "keys (adjust k f m) = keys m"
proof (cases "map_of m k")
  case (Some v)
  then have "k \<in> fst ` set m" by (metis domI dom_map_of_conv_image_fst)
  with Some show ?thesis by (simp add: adjust_def update_keys)
qed (simp add: adjust_def)

lemma map_of_adjust: "map_of (adjust k f m) x = (if x = k then map_option f (map_of m k) else map_of m x)"
  by (simp add: adjust_def split: option.splits)

lemma map_of_some_iff: "wf_map m \<Longrightarrow> map_of m k = Some v \<longleftrightarrow> (k, v) \<in> set m"
  by simp

lemma find_SomeD: "find P xs = Some x \<Longrightarrow> P x \<and> x \<in> set xs"
  by (metis find_Some_iff nth_mem)

lemma in_update: "(a, b) \<in> set (AList.update k v m) \<Longrightarrow> a = k \<and> b = v \<or> (a, b) \<in> set m"
  by (induction m) (auto split: if_splits)

lemma in_copy_into: "(a, b) \<in> set (copy_into src dst) \<Longrightarrow> (a, b) \<in> set src \<or> (a, b) \<in> set dst"
  unfolding copy_into_def
proof (induction src arbitrary: dst)
  case (Cons p src)
  then have "(a, b) \<in> set src \<or> (a, b) \<in> set (AList.update (fst p) (snd p) dst)"
    by (simp add: split_beta)
  then show ?case by (cases p) (auto dest: in_update)
qed simp

section \<open>Go strings\<close>

definition HasPrefix :: "string \<Rightarrow> string \<Rightarrow> bool" where
  "HasPrefix s p \<longleftrightarrow> take (length p) s = p"

definition HasSuffix :: "string \<Rightarrow> string \<Rightarrow> bool" where
  "HasSuffix s p \<longleftrightarrow> HasPrefix (rev s) (rev p)"

fun str_contains :: "string \<Rightarrow> string \<Rightarrow> bool" where
  "str_contains [] p \<longleftrightarrow> p = []"
| "str_contains (c # s) p \<longleftrightarrow> HasPrefix (c # s) p \<or> str_contains s p"

text \<open>\<^verbatim>\<open>strings.Split\<close> with a separator of one byte, the only kind the sources use. The result
  is never empty.\<close>

fun split_on :: "char \<Rightarrow> string \<Rightarrow> string list" where
  "split_on sep [] = [[]]"
| "split_on sep (c # s) =
     (if c = sep then [] # split_on sep s
      else (case split_on sep s of [] \<Rightarrow> [[c]] | w # ws \<Rightarrow> (c # w) # ws))"

definition split_first :: "char \<Rightarrow> string \<Rightarrow> string" where
  "split_first sep s = hd (split_on sep s)"

definition split_last :: "char \<Rightarrow> string \<Rightarrow> string" where
  "split_last sep s = last (split_on sep s)"

fun join :: "string \<Rightarrow> string list \<Rightarrow> string" where
  "join sep [] = []"
| "join sep [s] = s"
| "join sep (s # ss) = s @ sep @ join sep ss"

text \<open>\<^verbatim>\<open>strings.ReplaceAll\<close> for a pattern that is not empty.\<close>

function replace_all :: "string \<Rightarrow> string \<Rightarrow> string \<Rightarrow> string" where
  "replace_all [] old new = []"
| "replace_all (c # s) old new =
     (if old \<noteq> [] \<and> HasPrefix (c # s) old
      then new @ replace_all (drop (length old) (c # s)) old new
      else c # replace_all s old new)"
  by pat_completeness auto
termination
  by (relation "measure (\<lambda>(s, old, new). length s)") (auto simp: neq_Nil_conv)

definition cut_prefix :: "string \<Rightarrow> string \<Rightarrow> string" where
  "cut_prefix s p = (if HasPrefix s p then drop (length p) s else s)"

definition digits10 :: string where
  "digits10 = ''0123456789''"

definition digit :: "int \<Rightarrow> char" where
  "digit n = digits10 ! nat n"

function show_pos :: "int \<Rightarrow> string" where
  "show_pos n = (if n < 10 then [digit n] else show_pos (n div 10) @ [digit (n mod 10)])"
  by pat_completeness auto
termination
  by (relation "measure nat") auto

declare show_pos.simps [simp del]

text \<open>\<^verbatim>\<open>fmt.Sprint\<close> and \<^verbatim>\<open>%d\<close> of an integer.\<close>

definition show_int :: "int \<Rightarrow> string" where
  "show_int i = (if i < 0 then CHR ''-'' # show_pos (- i) else show_pos i)"

definition show_nat :: "nat \<Rightarrow> string" where
  "show_nat n = show_int (int n)"

definition show_bool :: "bool \<Rightarrow> string" where
  "show_bool b = (if b then ''true'' else ''false'')"

text \<open>\<^verbatim>\<open>"%s: %v"\<close>: how \<^verbatim>\<open>errors.Wrap\<close> renders a wrapped error.\<close>

definition wrap :: "string \<Rightarrow> string \<Rightarrow> string" where
  "wrap err msg = msg @ '': '' @ err"

text \<open>\<^verbatim>\<open>'s'\<close>: a value between single quotes, as most messages print it.\<close>

definition quoted :: "string \<Rightarrow> string" where
  "quoted s = [CHR 39] @ s @ [CHR 39]"

lemma HasPrefix_append [simp]: "HasPrefix (p @ s) p"
  by (simp add: HasPrefix_def)

lemma HasPrefix_iff: "HasPrefix s p \<longleftrightarrow> (\<exists>r. s = p @ r)"
  by (metis HasPrefix_append HasPrefix_def append_take_drop_id)

lemma HasSuffix_append [simp]: "HasSuffix (s @ p) p"
  by (simp add: HasSuffix_def)

lemma HasSuffix_iff: "HasSuffix s p \<longleftrightarrow> (\<exists>r. s = r @ p)"
  by (metis HasPrefix_iff HasSuffix_append HasSuffix_def rev_append rev_rev_ident)

lemma split_on_nonempty [simp]: "split_on sep s \<noteq> []"
  by (induction s) (auto split: list.splits)

lemma split_first_no_sep: "sep \<notin> set s \<Longrightarrow> split_first sep s = s"
proof -
  have "sep \<notin> set s \<Longrightarrow> split_on sep s = [s]" by (induction s) auto
  then show "sep \<notin> set s \<Longrightarrow> split_first sep s = s" by (simp add: split_first_def)
qed

lemma split_on_append: "sep \<notin> set s \<Longrightarrow> split_on sep (s @ sep # t) = s # split_on sep t"
  by (induction s) auto

lemma split_first_append: "sep \<notin> set s \<Longrightarrow> split_first sep (s @ sep # t) = s"
  by (simp add: split_first_def split_on_append)

lemma split_join: "ss \<noteq> [] \<Longrightarrow> \<forall>s \<in> set ss. sep \<notin> set s \<Longrightarrow> split_on sep (join [sep] ss) = ss"
proof (induction "[sep]" ss rule: join.induct)
  case (2 s)
  then show ?case using split_first_no_sep by (induction s) auto
next
  case (3 s v va)
  then show ?case by (simp add: split_on_append)
qed simp

lemma digit_cases: "0 \<le> n \<Longrightarrow> n < 10 \<Longrightarrow> digit n \<in> set digits10"
  unfolding digit_def by (rule nth_mem) (simp add: digits10_def nat_less_iff)

lemma digit_inj: "0 \<le> m \<Longrightarrow> m < 10 \<Longrightarrow> 0 \<le> n \<Longrightarrow> n < 10 \<Longrightarrow> digit m = digit n \<Longrightarrow> m = n"
  unfolding digit_def by (subst (asm) nth_eq_iff_index_eq) (simp_all add: digits10_def nat_less_iff)

lemma show_pos_step:
  "0 \<le> n \<Longrightarrow> show_pos n = (if n < 10 then [] else show_pos (n div 10)) @ [digit (n mod 10)]"
  by (subst show_pos.simps) simp

lemma show_pos_nonempty [simp]: "show_pos n \<noteq> []"
  by (subst show_pos.simps) simp

lemma show_pos_digits: "0 \<le> n \<Longrightarrow> set (show_pos n) \<subseteq> set digits10"
proof (induction n rule: show_pos.induct)
  case (1 n)
  have d: "digit (n mod 10) \<in> set digits10" by (rule digit_cases) simp_all
  show ?case
  proof (cases "n < 10")
    case True
    with 1(2) d show ?thesis by (simp add: show_pos_step)
  next
    case False
    with 1 have "set (show_pos (n div 10)) \<subseteq> set digits10" by simp
    with False 1(2) d show ?thesis by (simp add: show_pos_step)
  qed
qed

lemma show_pos_inj: "0 \<le> m \<Longrightarrow> 0 \<le> n \<Longrightarrow> show_pos m = show_pos n \<Longrightarrow> m = n"
proof (induction m arbitrary: n rule: show_pos.induct)
  case (1 m)
  let ?hi = "\<lambda>k. if k < 10 then [] else show_pos (k div 10)"
  from 1 have eq: "?hi m @ [digit (m mod 10)] = ?hi n @ [digit (n mod 10)]"
    by (metis show_pos_step)
  then have lo: "m mod 10 = n mod 10"
    by (intro digit_inj) simp_all
  from eq have hi: "?hi m = ?hi n" by simp
  have "m div 10 = n div 10"
  proof (cases "m < 10")
    case True
    with hi have "n < 10" by (metis show_pos_nonempty)
    with True 1 show ?thesis by simp
  next
    case False
    with hi have "\<not> n < 10" by (metis show_pos_nonempty)
    with False hi have "show_pos (m div 10) = show_pos (n div 10)" by simp
    with False 1 show ?thesis by simp
  qed
  with lo show ?case by (metis div_mult_mod_eq)
qed

lemma show_pos_no_char: "0 \<le> n \<Longrightarrow> c \<notin> set digits10 \<Longrightarrow> c \<notin> set (show_pos n)"
  by (rule contra_subsetD [OF show_pos_digits])

lemma show_int_inj [simp]: "show_int i = show_int j \<longleftrightarrow> i = j"
proof
  assume eq: "show_int i = show_int j"
  have nodash: "0 \<le> n \<Longrightarrow> CHR ''-'' \<notin> set (show_pos n)" for n
    by (rule show_pos_no_char) (simp_all add: digits10_def)
  show "i = j"
  proof (cases "i < 0"; cases "j < 0")
    assume "\<not> i < 0" "j < 0"
    with eq nodash [of i] show ?thesis by (auto simp: show_int_def)
  next
    assume "i < 0" "\<not> j < 0"
    with eq nodash [of j] show ?thesis
      by (metis linorder_not_less list.set_intros(1) show_int_def)
  qed (use eq show_pos_inj [of i j] show_pos_inj [of "- i" "- j"] in \<open>auto simp: show_int_def\<close>)
qed simp

lemma show_int_no_char:
  "c \<notin> set digits10 \<Longrightarrow> c \<noteq> CHR ''-'' \<Longrightarrow> c \<notin> set (show_int i)"
  using show_pos_no_char [of i c] show_pos_no_char [of "- i" c]
  by (auto simp: show_int_def)

lemma show_int_no_dot [simp]: "CHR ''.'' \<notin> set (show_int i)"
  by (rule show_int_no_char) (simp_all add: digits10_def)

section \<open>Computations over a call history\<close>

text \<open>\<open>calls_in P m\<close>: \<open>m\<close> only appends calls, and every call it issues satisfies \<open>P\<close>.\<close>

definition calls_in :: "('c \<Rightarrow> bool) \<Rightarrow> ('c list, 'a) state \<Rightarrow> bool" where
  "calls_in P m \<longleftrightarrow> (\<forall>h. \<exists>cs. snd (run_state m h) = h @ cs \<and> list_all P cs)"

text \<open>\<open>returns Q m\<close>: every result of \<open>m\<close> satisfies \<open>Q\<close>.\<close>

definition returns :: "('a \<Rightarrow> bool) \<Rightarrow> ('s, 'a) state \<Rightarrow> bool" where
  "returns Q m \<longleftrightarrow> (\<forall>h. Q (fst (run_state m h)))"

lemma calls_in_return [calls_intro]: "calls_in P (State_Monad.return x)"
  by (auto simp: calls_in_def)

lemma calls_in_bind [calls_intro]:
  assumes "calls_in P m" and "\<And>x. calls_in P (f x)"
  shows "calls_in P (m \<bind> f)"
  unfolding calls_in_def
proof
  fix h
  obtain x h1 where m: "run_state m h = (x, h1)" by (cases "run_state m h")
  from assms(1) m obtain cs where cs: "h1 = h @ cs" "list_all P cs"
    unfolding calls_in_def by (metis snd_conv)
  from assms(2) [of x] obtain ds where ds: "snd (run_state (f x) h1) = h1 @ ds" "list_all P ds"
    unfolding calls_in_def by metis
  from m cs ds show "\<exists>cs. snd (run_state (m \<bind> f) h) = h @ cs \<and> list_all P cs"
    by (intro exI [of _ "cs @ ds"]) simp
qed

lemma calls_in_mono: "calls_in P m \<Longrightarrow> (\<And>c. P c \<Longrightarrow> Q c) \<Longrightarrow> calls_in Q m"
  unfolding calls_in_def list_all_iff by metis

lemma calls_in_if [calls_intro]:
  "(b \<Longrightarrow> calls_in P m) \<Longrightarrow> (\<not> b \<Longrightarrow> calls_in P n) \<Longrightarrow> calls_in P (if b then m else n)"
  by simp

lemma calls_in_option [calls_intro]:
  "(x = None \<Longrightarrow> calls_in P m) \<Longrightarrow> (\<And>y. x = Some y \<Longrightarrow> calls_in P (f y)) \<Longrightarrow>
   calls_in P (case x of None \<Rightarrow> m | Some y \<Rightarrow> f y)"
  by (cases x) simp_all

lemma calls_in_sum [calls_intro]:
  "(\<And>y. x = Inl y \<Longrightarrow> calls_in P (f y)) \<Longrightarrow> (\<And>y. x = Inr y \<Longrightarrow> calls_in P (g y)) \<Longrightarrow>
   calls_in P (case x of Inl y \<Rightarrow> f y | Inr y \<Rightarrow> g y)"
  by (cases x) simp_all

lemma calls_in_prod [calls_intro]:
  "(\<And>a b. x = (a, b) \<Longrightarrow> calls_in P (f a b)) \<Longrightarrow> calls_in P (case x of (a, b) \<Rightarrow> f a b)"
  by (cases x) simp

lemma calls_in_let [calls_intro]: "calls_in P (f x) \<Longrightarrow> calls_in P (Let x f)"
  by simp

lemma returns_return [returns_intro]: "Q x \<Longrightarrow> returns Q (State_Monad.return x)"
  by (simp add: returns_def)

lemma returns_bind [returns_intro]: "(\<And>x. returns Q (f x)) \<Longrightarrow> returns Q (m \<bind> f)"
  by (auto simp: returns_def split: prod.splits)

lemma returns_bind_strong:
  "returns R m \<Longrightarrow> (\<And>x. R x \<Longrightarrow> returns Q (f x)) \<Longrightarrow> returns Q (m \<bind> f)"
  unfolding returns_def by (simp add: split_beta)

lemma returns_if [returns_intro]:
  "(b \<Longrightarrow> returns P m) \<Longrightarrow> (\<not> b \<Longrightarrow> returns P n) \<Longrightarrow> returns P (if b then m else n)"
  by simp

lemma returns_option [returns_intro]:
  "(x = None \<Longrightarrow> returns P m) \<Longrightarrow> (\<And>y. x = Some y \<Longrightarrow> returns P (f y)) \<Longrightarrow>
   returns P (case x of None \<Rightarrow> m | Some y \<Rightarrow> f y)"
  by (cases x) simp_all

lemma returns_sum [returns_intro]:
  "(\<And>y. x = Inl y \<Longrightarrow> returns P (f y)) \<Longrightarrow> (\<And>y. x = Inr y \<Longrightarrow> returns P (g y)) \<Longrightarrow>
   returns P (case x of Inl y \<Rightarrow> f y | Inr y \<Rightarrow> g y)"
  by (cases x) simp_all

lemma returns_prod [returns_intro]:
  "(\<And>a b. x = (a, b) \<Longrightarrow> returns P (f a b)) \<Longrightarrow> returns P (case x of (a, b) \<Rightarrow> f a b)"
  by (cases x) simp

lemma returns_let [returns_intro]: "returns P (f x) \<Longrightarrow> returns P (Let x f)"
  by simp

section \<open>Loops over a list\<close>

text \<open>A Go loop whose body updates local variables and talks to the cluster.\<close>

fun for_each :: "('a \<Rightarrow> 'b \<Rightarrow> ('s, 'b) state) \<Rightarrow> 'a list \<Rightarrow> 'b \<Rightarrow> ('s, 'b) state" where
  "for_each body [] s = State_Monad.return s"
| "for_each body (x # xs) s = body x s \<bind> for_each body xs"

lemma calls_in_for_each [calls_intro]:
  "(\<And>x s. x \<in> set xs \<Longrightarrow> calls_in P (body x s)) \<Longrightarrow> calls_in P (for_each body xs s)"
  by (induction xs arbitrary: s) (auto intro!: calls_intro)

text \<open>The contract of a loop body: a relation between the variables before and after an iteration
  that is reflexive and transitive carries over to the whole loop.\<close>

locale loop_body =
  fixes body :: "'a \<Rightarrow> 'b \<Rightarrow> ('s, 'b) state"
    and rel :: "'a list \<Rightarrow> 'b \<Rightarrow> 'b \<Rightarrow> bool"
  assumes rel_done: "rel [] s s"
    and rel_step: "run_state (body x s) h = (s1, h1) \<Longrightarrow> rel xs s1 s2 \<Longrightarrow> rel (x # xs) s s2"
begin

lemma loop: "run_state (for_each body xs s) h = (s', h') \<Longrightarrow> rel xs s s'"
proof (induction xs arbitrary: s h)
  case Nil
  then show ?case by (simp add: rel_done)
next
  case (Cons x xs)
  obtain s1 h1 where x: "run_state (body x s) h = (s1, h1)" by (cases "run_state (body x s) h")
  with Cons.prems have "run_state (for_each body xs s1) h1 = (s', h')" by simp
  then have "rel xs s1 s'" by (rule Cons.IH)
  with x show ?case by (rule rel_step)
qed

end

end
