(* ===== verification/Task_Types.thy ===== *)
theory Task_Types
  imports Prelude
begin

text \<open>
  The custom resource \<^verbatim>\<open>CephOsdRemoveTask\<close>:
  \<^verbatim>\<open>src/pkg/apis/ceph.pelagia.lcm/v1alpha1/task_types.go\<close>. A Go pointer is an \<^typ>\<open>'a option\<close>,
  a Go map a \<^typ>\<open>('k, 'v) gomap\<close>. The two phase types are Go strings; each constant is a
  constructor, and any other string is the last constructor.
\<close>

section \<open>Specification\<close>

record DeviceCleanupSpec =
  dcs_Device :: string
  dcs_SkipDeviceCleanup :: bool

record OsdCleanupSpec =
  ocs_ID :: int
  ocs_SkipDeviceCleanup :: bool

record NodeCleanUpSpec =
  ncs_CompleteCleanup :: bool
  ncs_DropFromCrush :: bool
  ncs_CleanupStrayPartitions :: bool
  ncs_CleanupByDevice :: "DeviceCleanupSpec list"
  ncs_CleanupByOsd :: "OsdCleanupSpec list"

text \<open>A nil map of nodes differs from an empty one under \<^verbatim>\<open>reflect.DeepEqual\<close>, so the nodes
  are optional.\<close>

type_synonym task_nodes = "(string, NodeCleanUpSpec) gomap option"

record CephOsdRemoveTaskSpec =
  ts_Nodes :: task_nodes
  ts_Approve :: bool
  ts_Resolved :: bool

section \<open>Status\<close>

datatype TaskPhase =
    TaskPhaseApproveWaiting
  | TaskPhaseAborted
  | TaskPhaseCompleted
  | TaskPhaseCompletedWithWarnings
  | TaskPhaseFailed
  | TaskPhasePending
  | TaskPhaseWaitingOperator
  | TaskPhaseProcessing
  | TaskPhaseValidating
  | TaskPhaseValidationFailed
  | TaskPhaseOther string

fun show_TaskPhase :: "TaskPhase \<Rightarrow> string" where
  "show_TaskPhase TaskPhaseApproveWaiting = ''ApproveWaiting''"
| "show_TaskPhase TaskPhaseAborted = ''Aborted''"
| "show_TaskPhase TaskPhaseCompleted = ''Completed''"
| "show_TaskPhase TaskPhaseCompletedWithWarnings = ''CompletedWithWarnings''"
| "show_TaskPhase TaskPhaseFailed = ''Failed''"
| "show_TaskPhase TaskPhasePending = ''Pending''"
| "show_TaskPhase TaskPhaseWaitingOperator = ''WaitingOperator''"
| "show_TaskPhase TaskPhaseProcessing = ''Processing''"
| "show_TaskPhase TaskPhaseValidating = ''Validating''"
| "show_TaskPhase TaskPhaseValidationFailed = ''ValidationFailed''"
| "show_TaskPhase (TaskPhaseOther s) = s"

datatype RemovePhase =
    RemovePending
  | RemoveWaitingRebalance
  | RemoveInProgress
  | RemoveStray
  | RemoveCompleted
  | RemoveFinished
  | RemoveFailed
  | RemoveSkipped
  | RemoveOther string

fun show_RemovePhase :: "RemovePhase \<Rightarrow> string" where
  "show_RemovePhase RemovePending = ''Pending''"
| "show_RemovePhase RemoveWaitingRebalance = ''Rebalancing''"
| "show_RemovePhase RemoveInProgress = ''Removing''"
| "show_RemovePhase RemoveStray = ''RemovingStray''"
| "show_RemovePhase RemoveCompleted = ''Completed''"
| "show_RemovePhase RemoveFinished = ''Removed''"
| "show_RemovePhase RemoveFailed = ''Failed''"
| "show_RemovePhase RemoveSkipped = ''Skipped''"
| "show_RemovePhase (RemoveOther s) = s"

record RemoveStatus =
  rs_Status :: RemovePhase
  rs_Name :: string
  rs_Error :: string
  rs_StartedAt :: string
  rs_FinishedAt :: string

text \<open>\<^verbatim>\<open>&RemoveStatus{}\<close>\<close>

definition RemoveStatus0 :: RemoveStatus where
  "RemoveStatus0 = \<lparr>rs_Status = RemoveOther [], rs_Name = [], rs_Error = [], rs_StartedAt = [],
     rs_FinishedAt = []\<rparr>"

record RemoveResult =
  rr_OsdRemoveStatus :: "RemoveStatus option"
  rr_DeployRemoveStatus :: "RemoveStatus option"
  rr_DeviceCleanUpJob :: "RemoveStatus option"

record DeviceInfo =
  di_Rotational :: bool
  di_Path :: string
  di_ID :: string
  di_Partition :: string
  di_PartedBy :: string
  di_Type :: string
  di_Zap :: bool
  di_Alive :: bool
  di_Raw :: bool

text \<open>\<^verbatim>\<open>DeviceInfo{}\<close>\<close>

definition DeviceInfo0 :: DeviceInfo where
  "DeviceInfo0 = \<lparr>di_Rotational = False, di_Path = [], di_ID = [], di_Partition = [],
     di_PartedBy = [], di_Type = [], di_Zap = False, di_Alive = False, di_Raw = False\<rparr>"

type_synonym device_map = "(string, DeviceInfo) gomap"

record OsdMapping =
  om_UUID :: string
  om_ClusterFSID :: string
  om_HostDirectory :: string
  om_InCrushMap :: bool
  om_DeviceMapping :: device_map
  om_SkipDeviceCleanupJob :: bool
  om_RemoveStatus :: "RemoveResult option"

text \<open>\<^verbatim>\<open>OsdMapping{}\<close>\<close>

definition OsdMapping0 :: OsdMapping where
  "OsdMapping0 = \<lparr>om_UUID = [], om_ClusterFSID = [], om_HostDirectory = [], om_InCrushMap = False,
     om_DeviceMapping = [], om_SkipDeviceCleanupJob = False, om_RemoveStatus = None\<rparr>"

type_synonym osd_map = "(string, OsdMapping) gomap"

record HostMapping =
  hm_CompleteCleanup :: bool
  hm_DropFromCrush :: bool
  hm_OsdMapping :: osd_map
  hm_NodeIsDown :: bool
  hm_VolumesInfoMissed :: bool
  hm_HostRemoveStatus :: "RemoveStatus option"

text \<open>\<^verbatim>\<open>HostMapping{}\<close>\<close>

definition HostMapping0 :: HostMapping where
  "HostMapping0 = \<lparr>hm_CompleteCleanup = False, hm_DropFromCrush = False, hm_OsdMapping = [],
     hm_NodeIsDown = False, hm_VolumesInfoMissed = False, hm_HostRemoveStatus = None\<rparr>"

type_synonym cleanup_map = "(string, HostMapping) gomap"

record TaskRemoveInfo =
  tri_CleanupMap :: cleanup_map
  tri_Issues :: "string list"
  tri_Warnings :: "string list"

record CephClusterSpecVersion =
  csv_ResourceVersion :: string
  csv_Generation :: int

record CephOsdRemoveTaskCondition =
  tc_Timestamp :: string
  tc_Phase :: TaskPhase
  tc_Nodes :: task_nodes
  tc_CephClusterSpecVersion :: "CephClusterSpecVersion option"

record CephOsdRemoveTaskStatus =
  st_Phase :: TaskPhase
  st_PhaseInfo :: string
  st_RemoveInfo :: "TaskRemoveInfo option"
  st_Messages :: "string list"
  st_Conditions :: "CephOsdRemoveTaskCondition list"

section \<open>The resource\<close>

record OwnerReference =
  or_APIVersion :: string
  or_Kind :: string
  or_Name :: string
  or_UID :: string

record CephOsdRemoveTask =
  task_Name :: string
  task_Namespace :: string
  task_UID :: string
  task_CreationTimestamp :: int
  task_OwnerReferences :: "OwnerReference list"
  task_Spec :: "CephOsdRemoveTaskSpec option"
  task_Status :: "CephOsdRemoveTaskStatus option"

text \<open>\<^verbatim>\<open>reflect.DeepEqual\<close> on two maps of nodes.\<close>

fun nodes_eq :: "task_nodes \<Rightarrow> task_nodes \<Rightarrow> bool" where
  "nodes_eq None None = True"
| "nodes_eq (Some m) (Some n) = map_eq m n"
| "nodes_eq _ _ = False"

lemma nodes_eq_refl [simp]: "nodes_eq m m"
  by (cases m) (simp_all add: map_eq_iff)

lemma nodes_eq_sym: "nodes_eq m n = nodes_eq n m"
  by (cases m; cases n) (auto simp: map_eq_iff)

section \<open>Reading a remove info\<close>

definition osd_at :: "cleanup_map \<Rightarrow> string \<Rightarrow> string \<Rightarrow> OsdMapping option" where
  "osd_at m host osd = Option.bind (map_of m host) (\<lambda>hm. map_of (hm_OsdMapping hm) osd)"

definition job_status :: "OsdMapping \<Rightarrow> RemoveStatus option" where
  "job_status om = Option.bind (om_RemoveStatus om) rr_DeviceCleanUpJob"

definition job_phase :: "OsdMapping \<Rightarrow> RemovePhase option" where
  "job_phase om = map_option rs_Status (job_status om)"

definition osd_status :: "OsdMapping \<Rightarrow> RemoveStatus option" where
  "osd_status om = Option.bind (om_RemoveStatus om) rr_OsdRemoveStatus"

definition osd_phase :: "OsdMapping \<Rightarrow> RemovePhase option" where
  "osd_phase om = map_option rs_Status (osd_status om)"

definition deploy_status :: "OsdMapping \<Rightarrow> RemoveStatus option" where
  "deploy_status om = Option.bind (om_RemoveStatus om) rr_DeployRemoveStatus"

definition wf_remove_info :: "TaskRemoveInfo \<Rightarrow> bool" where
  "wf_remove_info ri \<longleftrightarrow> wf_map (tri_CleanupMap ri) \<and>
     list_all (\<lambda>(_, hm). wf_map (hm_OsdMapping hm) \<and>
       list_all (\<lambda>(_, om). wf_map (om_DeviceMapping om)) (hm_OsdMapping hm)) (tri_CleanupMap ri)"

end
