(* ===== verification/Ceph_Types.thy ===== *)
theory Ceph_Types
  imports Prelude
begin

text \<open>
  The data that the Ceph command line and the disk daemon report: the structures of
  \<^verbatim>\<open>src/pkg/common/ceph_types.go\<close> and \<^verbatim>\<open>src/pkg/common/disk_daemon_types.go\<close> that the OSD
  life-cycle code reads. Field names are the Go names behind a short prefix, because Isabelle
  keeps the selectors of all records in one name space.
\<close>

section \<open>Ceph command line\<close>

record OsdMetadataInfo =
  omd_Devices :: string
  omd_DevicePathes :: string
  omd_DeviceIDs :: string
  omd_Hostname :: string
  omd_BluestoreDevices :: string
  omd_BluestoreDeviceType :: string
  omd_BluestorePartition :: string
  omd_MetadataDiskUsed :: string
  omd_MetadataDevices :: string
  omd_MetadataDeviceType :: string
  omd_MetadataPartition :: string
  omd_OsdID :: int

record OsdInfo =
  oi_OsdID :: int
  oi_UUID :: string
  oi_Up :: int
  oi_In :: int

text \<open>The nodes of \<^verbatim>\<open>ceph osd tree\<close>; the two floating-point weights are not read by any
  modelled code and are left out.\<close>

record OsdTreeNode =
  otn_ID :: int
  otn_Name :: string
  otn_Type :: string
  otn_Children :: "int list"
  otn_DeviceClass :: string
  otn_Status :: string

record OsdTree =
  ot_Nodes :: "OsdTreeNode list"

section \<open>Disk daemon\<close>

record BlockDeviceInfo =
  bdi_Kname :: string
  bdi_Serial :: string
  bdi_Type :: string
  bdi_Fstype :: string
  bdi_Rotational :: bool
  bdi_MajMin :: string
  bdi_Symlinks :: "string list"
  bdi_Parent :: "string list"
  bdi_Childrens :: "string list"

datatype DiskDaemonState =
    DiskDaemonStateOk
  | DiskDaemonStateFailed
  | DiskDaemonStateInProgress
  | DiskDaemonStateSkipped

record DiskDaemonDisksReport =
  ddr_BlockInfo :: "(string, BlockDeviceInfo) gomap"
  ddr_Aliases :: "(string, string) gomap"
  ddr_DiskToOsd :: "(string, string list) gomap"

record OsdDevice =
  od_Name :: string
  od_DeviceID :: string
  od_DeviceSymlinks :: "string list"
  od_Rotational :: bool
  od_RelatedPartition :: string
  od_PartedBy :: string
  od_Raw :: bool

record OsdPartition =
  op_Partition :: string
  op_PartitionSymlinks :: "string list"
  op_Type :: string
  op_Exists :: bool
  op_Lvm :: bool

record OsdDaemonInfo =
  odi_OsdUUID :: string
  odi_ClusterFSID :: string
  odi_Devices :: "OsdDevice list"
  odi_Partitions :: "OsdPartition list"

record DiskDaemonOsdsReport =
  dor_Warnings :: "string list"
  dor_Osds :: "(string, OsdDaemonInfo list) gomap"

record DiskDaemonReport =
  dr_State :: DiskDaemonState
  dr_LastRun :: string
  dr_Issues :: "string list"
  dr_DisksReport :: "DiskDaemonDisksReport option"
  dr_OsdsReport :: "DiskDaemonOsdsReport option"

end
