(* ===== verification/Kube_Types.thy ===== *)
theory Kube_Types
  imports Task_Types Ceph_Types
begin

text \<open>
  The objects of the Kubernetes and Rook interfaces with the fields that the modelled code reads
  or writes, the parts of \<^verbatim>\<open>CephDeploymentHealth\<close>, \<^verbatim>\<open>CephDeployment\<close> and
  \<^verbatim>\<open>CephDeploymentMaintenance\<close> the task code relies on, and the controller's configuration.
\<close>

section \<open>Kubernetes objects\<close>

record Deployment =
  dep_Generation :: int
  dep_SpecReplicas :: "int option"
  dep_Replicas :: int
  dep_UpdatedReplicas :: int
  dep_ReadyReplicas :: int
  dep_AvailableReplicas :: int
  dep_ObservedGeneration :: int

record DaemonSet =
  ds_NumberReady :: int
  ds_CurrentNumberScheduled :: int
  ds_DesiredNumberScheduled :: int
  ds_NumberAvailable :: int
  ds_UpdatedNumberScheduled :: int

record KubeNode =
  kn_Name :: string
  kn_Labels :: "(string, string) gomap"
  kn_Annotations :: "(string, string) gomap"
  kn_Taints :: "string list"

record Pod =
  pod_Name :: string
  pod_Namespace :: string
  pod_Deleting :: bool
  pod_Running :: bool
  pod_Conditions :: "(string \<times> string) list"
  pod_Containers :: "string list"
  pod_ContainerStatuses :: "(string \<times> bool) list"

record Volume =
  vol_Name :: string
  vol_HostPath :: string
  vol_Type :: "string option"

record VolumeMount =
  vm_Name :: string
  vm_MountPath :: string
  vm_ReadOnly :: bool

record 'script Container =
  con_Name :: string
  con_Image :: string
  con_Privileged :: bool
  con_DropCapabilities :: "string list"
  con_VolumeMounts :: "VolumeMount list"
  con_Command :: "'script"
  con_Env :: "(string \<times> string) list"

record 'script Job =
  job_Name :: string
  job_Namespace :: string
  job_Labels :: "(string, string) gomap"
  job_OwnerReferences :: "OwnerReference list"
  job_BackoffLimit :: int
  job_ActiveDeadlineSeconds :: int
  job_PodName :: string
  job_RunAsUser :: int
  job_NodeSelector :: "(string, string) gomap"
  job_Containers :: "'script Container list"
  job_Volumes :: "Volume list"
  job_RestartPolicy :: string

record JobStatus =
  js_Active :: int
  js_Succeeded :: int
  js_Failed :: int
  js_Conditions :: "string list"

section \<open>Rook objects\<close>

record CephDevice =
  cd_Name :: string
  cd_FullPath :: string
  cd_Config :: "(string, string) gomap"

record CephNode =
  cn_Name :: string
  cn_Config :: "(string, string) gomap"
  cn_Devices :: "CephDevice list"
  cn_DeviceFilter :: string
  cn_DevicePathFilter :: string
  cn_UseAllDevices :: "bool option"
  cn_VolumeClaimTemplates :: "string list"

record ClusterStatus =
  cls_FSID :: "string option"
  cls_CephImage :: "string option"

record CephCluster =
  cc_Name :: string
  cc_Namespace :: string
  cc_Generation :: int
  cc_ResourceVersion :: string
  cc_ExternalEnable :: bool
  cc_DataDirHostPath :: string
  cc_StorageNodes :: "CephNode list"
  cc_Status :: ClusterStatus

section \<open>Pelagia objects\<close>

datatype DaemonState =
    DaemonStateOk
  | DaemonStateFailed
  | DaemonStateSkipped
  | DaemonStateOther string

record DaemonStatus =
  dst_Status :: DaemonState
  dst_Issues :: "string list"
  dst_Messages :: "string list"

record OsdSpecAnalysisState =
  osa_DiskDaemon :: DaemonStatus
  osa_CephClusterSpecGeneration :: "int option"
  osa_SpecAnalysis :: "(string, DaemonStatus) gomap"

record RookCephObjectsStatus =
  rco_CephCluster :: "ClusterStatus option"

record CephDeploymentHealthReport =
  hrp_RookOperator :: DaemonStatus
  hrp_RookCephObjects :: "RookCephObjectsStatus option"
  hrp_OsdAnalysis :: "OsdSpecAnalysisState option"

record CephDeploymentHealth =
  cdh_Name :: string
  cdh_Namespace :: string
  cdh_UID :: string
  cdh_HealthReport :: "CephDeploymentHealthReport option"

datatype CephDeploymentPhase =
    PhaseCreating
  | PhaseDeploying
  | PhaseValidation
  | PhaseReady
  | PhaseOnHold
  | PhaseMaintenance
  | PhaseDeleting
  | PhaseFailed
  | PhaseOther string

datatype CephDeploymentMaintenanceState =
    MaintenanceIdle
  | MaintenanceActing
  | MaintenanceFailing
  | MaintenanceOther string

record CephDeploymentMaintenanceStatus =
  mnt_State :: CephDeploymentMaintenanceState
  mnt_LastStateCheck :: string
  mnt_Message :: string

record CephDeploymentMaintenance =
  cdm_Status :: "CephDeploymentMaintenanceStatus option"

section \<open>Configuration\<close>

text \<open>Durations are nanoseconds, as in Go. Log levels are those of \<^verbatim>\<open>zerolog\<close>. Node affinities and
  tolerations are opaque to the controllers, which only copy them into other objects; the model
  carries them by their serialised form. A pointer of \<^verbatim>\<open>LcmConfig\<close> is an option; a controller
  dereferences it through the accessors \<open>lc_DeployParams\<close>, \<open>lc_HealthParams\<close> and \<open>lc_TaskParams\<close>.\<close>

datatype LogLevel =
    TraceLevel
  | DebugLevel
  | InfoLevel
  | WarnLevel
  | ErrorLevel
  | FatalLevel
  | PanicLevel
  | NoLevel
  | Disabled

type_synonym NodeAffinity = string
type_synonym Toleration = string

record TaskParams =
  tp_LogLevel :: LogLevel
  tp_OsdPgRebalanceTimeout :: int
  tp_AllowToRemoveManuallyCreatedLVM :: bool

record HealthParams =
  hp_LogLevel :: LogLevel
  hp_ChecksSkip :: "string list"
  hp_CephIssuesToIgnore :: "string list"
  hp_UsageDetailsClassesFilter :: string
  hp_UsageDetailsPoolsFilter :: string

record CommonParams =
  cp_BaseGatewayName :: string
  cp_BaseGatewayNamespace :: string
  cp_DiskDaemonPlacementLabel :: string
  cp_DiskDaemonPort :: int
  cp_RgwPublicAccessLabel :: string
  cp_GatewayAPIEnabled :: bool
  cp_KeepIngress :: bool
  cp_LcmFullMode :: bool

record CSIDeployParams =
  csi_Manage :: bool
  csi_KubeletPath :: string
  csi_CreateDefaultRBDDriver :: bool
  csi_CreateDefaultCephFSDriver :: bool
  csi_CreateDefaultNFSDriver :: bool
  csi_KeepExisting :: bool
  csi_DeployCSIAddons :: bool
  csi_ControllerPluginNodeAffinity :: "NodeAffinity option"
  csi_ControllerPluginToleration :: "Toleration list"
  csi_NodePluginNodeAffinity :: "NodeAffinity option"
  csi_NodePluginToleration :: "Toleration list"

record DeployParams =
  dp_LogLevel :: LogLevel
  dp_CephImage :: string
  dp_CephRelease :: string
  dp_RookImage :: string
  dp_NetPolEnabled :: bool
  dp_OpenstackCephSharedNamespace :: string
  dp_CephDaemonsetPlacementLabelExclude :: string
  dp_DrainRequestLabelKey :: string
  dp_DrainReadyLabelKey :: string
  dp_CSIParams :: CSIDeployParams
  dp_ManageVolumeSnapshotClasses :: bool

record LcmConfig =
  lc_RookNamespace :: string
  lc_CommonParams :: CommonParams
  lc_HealthParamsPtr :: "HealthParams option"
  lc_TaskParamsPtr :: "TaskParams option"
  lc_DeployParamsPtr :: "DeployParams option"

abbreviation lc_HealthParams :: "LcmConfig \<Rightarrow> HealthParams" where
  "lc_HealthParams c \<equiv> the (lc_HealthParamsPtr c)"

abbreviation lc_TaskParams :: "LcmConfig \<Rightarrow> TaskParams" where
  "lc_TaskParams c \<equiv> the (lc_TaskParamsPtr c)"

abbreviation lc_DeployParams :: "LcmConfig \<Rightarrow> DeployParams" where
  "lc_DeployParams c \<equiv> the (lc_DeployParamsPtr c)"

end
