(* ===== verification/Cleanup_Script.thy ===== *)
theory Cleanup_Script
  imports Kube_Types
begin

text \<open>
  The bash templates of \<^verbatim>\<open>src/pkg/controller/osdremove-task/cleanup_job.go\<close> (lines 36 to 133).
  A template is a constructor whose arguments are its holes, in the order of the \<^verbatim>\<open>%s\<close> and
  \<^verbatim>\<open>%v\<close> verbs; \<open>NoScript\<close> is the empty string. The meaning of a script is the list of
  destructive operations it performs on a node, as a function of what the script's own tests find
  there: the \<^verbatim>\<open>exit 0\<close> lines end the whole script, inner part included. Scripts run under
  \<^verbatim>\<open>set -xe\<close>; the operations listed are those of a run in which no command fails.
\<close>

datatype script =
    NoScript
  | HostDirectoryCleanup string bool
  | DiskRawCleanup string bool script
  | DiskCleanup string bool script
  | PartitionCleanup string bool script
  | DmSetupTableClean string script

datatype disk_op =
    BluestoreZap string
  | SgdiskZapAll string
  | ZeroHead string
  | BlkDiscard string
  | PartProbe string
  | DmRemove string
  | LvRemove string
  | CephVolumeZap string
  | RmRf string

text \<open>What the tests of the scripts find on the node.\<close>

record node_view =
  nv_Children :: "string \<Rightarrow> string list"   \<comment> \<open>\<^verbatim>\<open>lsblk\<close> children of a disk\<close>
  nv_LvDir :: "string \<Rightarrow> string"           \<comment> \<open>logical volume directory of a mapper name\<close>
  nv_IsSymlink :: "string \<Rightarrow> bool"        \<comment> \<open>\<^verbatim>\<open>test -h\<close>\<close>
  nv_IsLvm :: "string \<Rightarrow> bool"            \<comment> \<open>\<^verbatim>\<open>lsblk -o type\<close> says \<^verbatim>\<open>lvm\<close>\<close>
  nv_Readlink :: "string \<Rightarrow> string"        \<comment> \<open>\<^verbatim>\<open>readlink -f\<close>\<close>
  nv_IsBlock :: "string \<Rightarrow> bool"          \<comment> \<open>\<^verbatim>\<open>test -b\<close>\<close>
  nv_MapperName :: "string \<Rightarrow> string"      \<comment> \<open>\<^verbatim>\<open>dmsetup info -o name\<close>\<close>
  nv_OpenCount :: "string \<Rightarrow> nat"         \<comment> \<open>\<^verbatim>\<open>dmsetup info -o open\<close>\<close>
  nv_IsDir :: "string \<Rightarrow> bool"            \<comment> \<open>\<^verbatim>\<open>test -d\<close>\<close>

definition wipe_disk :: "string \<Rightarrow> bool \<Rightarrow> disk_op list" where
  "wipe_disk dev rotational =
     [SgdiskZapAll dev, if rotational then ZeroHead dev else BlkDiscard dev, PartProbe dev]"

fun script_ops :: "node_view \<Rightarrow> script \<Rightarrow> disk_op list" where
  "script_ops nv NoScript = []"
| "script_ops nv (HostDirectoryCleanup dir raw) =
     (if \<not> nv_IsDir nv dir then []
      else if \<not> raw \<and> (nv_IsBlock nv (dir @ ''/block'') \<or> nv_IsBlock nv (dir @ ''/block.db'')) then []
      else [RmRf dir])"
| "script_ops nv (DiskRawCleanup dev rotational inner) =
     BluestoreZap dev # wipe_disk dev rotational @ script_ops nv inner"
| "script_ops nv (DiskCleanup dev rotational inner) =
     concat (map (\<lambda>c. [DmRemove c, RmRf (nv_LvDir nv c), RmRf (''/dev/mapper/'' @ c), LvRemove (nv_LvDir nv c)])
       (nv_Children nv dev))
     @ script_ops nv inner @ wipe_disk dev rotational"
| "script_ops nv (PartitionCleanup part destroy inner) =
     (if \<not> nv_IsSymlink nv part then []
      else if \<not> nv_IsLvm nv part \<or> \<not> destroy then [CephVolumeZap part]
      else [DmRemove (nv_Readlink nv part), RmRf part, RmRf (nv_Readlink nv part), LvRemove part]
           @ script_ops nv inner)"
| "script_ops nv (DmSetupTableClean dm inner) =
     (if \<not> nv_IsBlock nv dm then []
      else (if nv_OpenCount nv (nv_MapperName nv dm) = 0
            then [DmRemove (nv_MapperName nv dm), RmRf (nv_LvDir nv (nv_MapperName nv dm)),
                  RmRf (''/dev/mapper/'' @ nv_MapperName nv dm)]
            else [])
           @ script_ops nv inner)"

text \<open>The whole disk behind an operation, for the operations that wipe one.\<close>

fun wiped_disk :: "disk_op \<Rightarrow> string option" where
  "wiped_disk (BluestoreZap d) = Some d"
| "wiped_disk (SgdiskZapAll d) = Some d"
| "wiped_disk (ZeroHead d) = Some d"
| "wiped_disk (BlkDiscard d) = Some d"
| "wiped_disk _ = None"

fun wipes :: "script \<Rightarrow> string set" where
  "wipes NoScript = {}"
| "wipes (HostDirectoryCleanup _ _) = {}"
| "wipes (DiskRawCleanup dev _ inner) = insert dev (wipes inner)"
| "wipes (DiskCleanup dev _ inner) = insert dev (wipes inner)"
| "wipes (PartitionCleanup _ _ inner) = wipes inner"
| "wipes (DmSetupTableClean _ inner) = wipes inner"

lemma wiped_in_wipes:
  "op \<in> set (script_ops nv s) \<Longrightarrow> wiped_disk op = Some d \<Longrightarrow> d \<in> wipes s"
  by (induction s) (auto simp: wipe_disk_def split: if_splits)

end
