(* ===== verification/Deploy_Types.thy ===== *)
theory Deploy_Types
  imports Kube_Types
begin

text \<open>
  The data of the deployment controller: \<^verbatim>\<open>CephDeployment\<close> and its parts
  (\<^verbatim>\<open>apis/ceph.pelagia.lcm/v1alpha1/deployment_types.go\<close>), the Rook specifications that it embeds,
  the Kubernetes objects the controller writes and the calls it issues for them.
\<close>

section \<open>Embedded specifications\<close>

text \<open>A JSON document; numbers are kept as they are written.\<close>

datatype json =
    JNull
  | JBool bool
  | JNumber string
  | JString string
  | JArray "json list"
  | JObject "(string \<times> json) list"

text \<open>\<^verbatim>\<open>runtime.RawExtension\<close>: JSON that is not decoded yet or an object. Of the object it matters
  whether it is of the expected kind (\<open>Some (Some spec)\<close>) or of another one (\<open>Some None\<close>).\<close>

record 'a RawExtension =
  re_Raw :: "string option"
  re_Object :: "'a option option"

text \<open>\<^verbatim>\<open>cephv1.PoolSpec\<close>; \<open>pl_Rest\<close> stands for the fields the controller only copies,
  and the target size ratio is a decimal fraction given by its digits and the number of places.\<close>

record PoolSpec =
  pl_FailureDomain :: string
  pl_DeviceClass :: string
  pl_ReplicatedSize :: nat
  pl_TargetSizeRatio :: "int \<times> nat"
  pl_DataChunks :: nat
  pl_CodingChunks :: nat
  pl_EnableCrushUpdates :: "bool option"
  pl_Rest :: string

record NamedPoolSpec =
  np_Name :: string
  np_PoolSpec :: PoolSpec

record FilesystemSpec =
  fs_MetadataPool :: NamedPoolSpec
  fs_DataPools :: "NamedPoolSpec list"
  fs_ActiveCount :: int

record PlacementStorageClassSpec =
  psc_Name :: string
  psc_DataPoolName :: string

record PoolPlacementSpec =
  pp_Name :: string
  pp_Default :: bool
  pp_MetadataPoolName :: string
  pp_DataPoolName :: string
  pp_DataNonECPoolName :: string
  pp_StorageClasses :: "PlacementStorageClassSpec list"

record ObjectSharedPoolsSpec =
  sp_MetadataPoolName :: string
  sp_DataPoolName :: string
  sp_PoolPlacements :: "PoolPlacementSpec list"

record ObjectZoneSpec =
  oz_ZoneGroup :: string
  oz_MetadataPool :: PoolSpec
  oz_DataPool :: PoolSpec
  oz_SharedPools :: ObjectSharedPoolsSpec

record ObjectStoreSpec =
  os_MetadataPool :: PoolSpec
  os_DataPool :: PoolSpec
  os_SharedPools :: ObjectSharedPoolsSpec
  os_ZoneName :: string
  os_Port :: int
  os_SecurePort :: int
  os_Instances :: int
  os_ExternalRgwEndpoints :: "string list"
  os_Hosting :: bool

text \<open>\<^verbatim>\<open>cephv1.ClusterSpec\<close>\<close>

record AddressRanges =
  ar_Public :: "string list"
  ar_Cluster :: "string list"

record NetworkSpec =
  nw_Provider :: string
  nw_AddressRanges :: "AddressRanges option"
  nw_Selectors :: "(string, string) gomap"
  nw_HostNetwork :: bool

record CephxConfig =
  cx_DaemonKeyGeneration :: nat
  cx_DaemonKeyRotationPolicy :: string
  cx_DaemonKeyType :: string
  cx_AllowedCiphers :: "string list"
  cx_CSIKeyType :: string
  cx_CSIKeepPriorKeyCountMax :: nat
  cx_Rest :: string

record ClusterSpec =
  cs_Image :: string
  cs_ExternalEnable :: bool
  cs_Network :: NetworkSpec
  cs_StorageNodes :: "CephNode list"
  cs_CephX :: CephxConfig
  cs_Annotations :: "(string, (string, string) gomap) gomap"
  cs_CleanupConfirmation :: string
  cs_AllowUninstallWithVolumes :: bool
  cs_Rest :: string

section \<open>CephDeployment\<close>

record CephDeploymentNode =
  dn_Node :: CephNode
  dn_Roles :: "string list"
  dn_Crush :: "(string, string) gomap"
  dn_NodeGroup :: "string list"
  dn_NodesByLabel :: string
  dn_MonitorIP :: string

record CephStorageClassSpec =
  sco_Default :: bool
  sco_ReclaimPolicy :: string

record CephPool =
  cpl_Name :: string
  cpl_UseAsFullName :: bool
  cpl_Role :: string
  cpl_PreserveOnDelete :: bool
  cpl_StorageClassOpts :: CephStorageClassSpec
  cpl_PoolSpec :: "PoolSpec RawExtension"

text \<open>\<^verbatim>\<open>cephv1.ClientSpec\<close>, of which the name matters, and the item of \<^verbatim>\<open>cephxClients\<close>.\<close>

record ClientSpec =
  cli_Name :: string
  cli_Rest :: string

record CephClient =
  ccl_Role :: string
  ccl_Spec :: "ClientSpec RawExtension"

text \<open>An item with a name and an embedded specification: a file system, a realm, a zone group, a
  zone or a user of the object storage. The specifications of a realm, a CSI driver and the CSI
  operator are opaque, that of a zone group is the name of its realm, that of a user the name of its
  store, that of a route the list of its host names.\<close>

record 'a named_spec =
  ns_Name :: string
  ns_Spec :: "'a RawExtension"

record CephObjectStore =
  rgw_Name :: string
  rgw_ServedByIngress :: bool
  rgw_UsedForOpenstack :: bool
  rgw_Spec :: "ObjectStoreSpec RawExtension"

record CephDeploymentHTTPRoute =
  hr_Name :: string
  hr_ObjectStoreName :: string
  hr_Spec :: "string list RawExtension"

record CephObjectStorage =
  ost_Rgws :: "CephObjectStore list"
  ost_Users :: "string named_spec list"
  ost_GatewayHTTPRoutes :: "CephDeploymentHTTPRoute list"
  ost_Realms :: "string named_spec list"
  ost_Zonegroups :: "string named_spec list"
  ost_Zones :: "ObjectZoneSpec named_spec list"

record CephDeploymentExtraOpts =
  eo_DeviceLabels :: "(string, (string, string) gomap) gomap option"
  eo_EnableProgressEvents :: bool
  eo_PreventClusterDestroy :: bool
  eo_OsdRestartReason :: string
  eo_DisableOsKeys :: bool

text \<open>The CSI section: the operator configuration and the drivers with their type.\<close>

record CephCSI =
  csi_OperatorConfig :: "string RawExtension option"
  csi_Drivers :: "(string \<times> string RawExtension) list"

record CephDeploymentIngressTLSConfig =
  itl_Domain :: string
  itl_Hostname :: string

text \<open>The configuration of the ingress and its TLS part are pointers.\<close>

record CephDeploymentSpec =
  sps_Cluster :: "ClusterSpec RawExtension option"
  sps_BlockStorage :: "CephPool list option"
  sps_Clients :: "CephClient list"
  sps_ExtraOpts :: "CephDeploymentExtraOpts option"
  sps_Nodes :: "CephDeploymentNode list"
  sps_ObjectStorage :: "CephObjectStorage option"
  sps_RBDMirrorPeers :: "string list option"
  sps_RookConfig :: "(string, string) gomap"
  sps_SharedFilesystem :: "FilesystemSpec named_spec list option"
  sps_CSIResources :: "CephCSI option"
  sps_IngressConfig :: "CephDeploymentIngressTLSConfig option option"
  sps_OldClients :: "ClientSpec RawExtension list"

datatype ValidationResult = ValidationFailed | ValidationSucceed | ValidationUnset

record CephDeploymentValidation =
  val_Result :: ValidationResult
  val_LastValidatedGeneration :: int
  val_Messages :: "string list"

record ObjectReference =
  obr_Kind :: string
  obr_Name :: string
  obr_Namespace :: string

record CephDeploymentStatus =
  dps_Phase :: CephDeploymentPhase
  dps_Message :: string
  dps_Validation :: CephDeploymentValidation
  dps_ClusterVersion :: string
  dps_LastRun :: string
  dps_ObjectsRefs :: "ObjectReference list"

record CephDeployment =
  cdp_Name :: string
  cdp_Namespace :: string
  cdp_UID :: string
  cdp_Generation :: int
  cdp_Labels :: "(string, string) gomap"
  cdp_Finalizers :: "string list"
  cdp_Deleting :: bool
  cdp_Spec :: CephDeploymentSpec
  cdp_Status :: CephDeploymentStatus

section \<open>Objects the controller writes\<close>

record DeploymentContainer =
  dc_Name :: string
  dc_Image :: string
  dc_Command :: "string list"
  dc_DropCapabilities :: "string list"
  dc_AllowPrivilegeEscalation :: "bool option"
  dc_ReadOnlyRootFilesystem :: "bool option"
  dc_ImagePullPolicy :: string
  dc_TerminationMessagePath :: string
  dc_TerminationMessagePolicy :: string

record DeploymentSpec =
  dsp_MatchLabels :: "(string, string) gomap"
  dsp_Replicas :: "int option"
  dsp_RevisionHistoryLimit :: "int option"
  dsp_ProgressDeadlineSeconds :: "int option"
  dsp_Strategy :: string
  dsp_PodLabels :: "(string, string) gomap"
  dsp_Containers :: "DeploymentContainer list"
  dsp_DNSPolicy :: string
  dsp_RestartPolicy :: string
  dsp_TerminationGracePeriodSeconds :: "int option"
  dsp_SchedulerName :: string

record AppDeployment =
  ad_Name :: string
  ad_Namespace :: string
  ad_Labels :: "(string, string) gomap"
  ad_OwnerReferences :: "OwnerReference list"
  ad_Spec :: DeploymentSpec
  ad_Status :: Deployment

record AppDaemonSet =
  as_Name :: string
  as_Namespace :: string
  as_Image :: string
  as_Status :: DaemonSet

record RookCluster =
  rk_Name :: string
  rk_Namespace :: string
  rk_Labels :: "(string, string) gomap"
  rk_Annotations :: "(string, string) gomap"
  rk_Spec :: ClusterSpec

record BlockPool =
  bp_Name :: string
  bp_Namespace :: string
  bp_Labels :: "(string, string) gomap"
  bp_Annotations :: "(string, string) gomap"
  bp_Spec :: NamedPoolSpec
  bp_Phase :: "string option"

record SubObject =
  so_Kind :: string
  so_Name :: string
  so_Namespace :: string
  so_OwnerReferences :: "OwnerReference list"
  so_Labels :: "(string, string) gomap"

record KubeConfigMap =
  kcm_Name :: string
  kcm_Namespace :: string
  kcm_Labels :: "(string, string) gomap"
  kcm_Annotations :: "(string, string) gomap"
  kcm_Data :: "(string, string) gomap"

text \<open>An entry of \<^verbatim>\<open>ceph config dump\<close>\<close>

record cephConfigOptionDump =
  cod_Section :: string
  cod_Name :: string
  cod_Value :: string

record VolumeAttachment =
  va_Name :: string
  va_Attacher :: string
  va_NodeName :: string

section \<open>Calls of the deployment controller\<close>

datatype deploy_call =
    ListCephDeployments string
  | ReadCephDeployment string string
  | UpdateCephDeployment CephDeployment
  | UpdateCephDeploymentStatus string string CephDeploymentStatus
  | GetSubObject string string string
  | CreateSubObject SubObject
  | UpdateSubObject SubObject
  | DeleteSubObject string string string
  | GetConfigMap string string
  | CreateConfigMap KubeConfigMap
  | UpdateConfigMap KubeConfigMap
  | GetSecret string string
  | ListNodesByLabel string
  | UpdateNode KubeNode
  | ListDeployments string string
  | CreateAppDeployment string AppDeployment
  | UpdateAppDeployment string AppDeployment
  | UpdateAppDaemonSet string AppDaemonSet
  | UpdateCephCluster RookCluster
  | DeleteCephCluster string string
  | ListBlockPools string
  | CreateBlockPool BlockPool
  | UpdateBlockPool BlockPool
  | DeleteBlockPool string string
  | ListOpenstackStatus string
  | LookupEnv string
  | ListVolumeAttachments
  | DeleteVolumeAttachment string
  | DeletePod string string

end
