(* ===== verification/Cluster_Api.thy ===== *)
theory Cluster_Api
  imports Cleanup_Script Deploy_Types
begin

text \<open>
  The outside world of the controllers. Every interaction is a \<open>call\<close>; a computation appends
  the calls it issues to the history, and the answer to a call is given by an \<open>env\<close>, a record of
  functions of the history so far. The environment is arbitrary: it may answer the same call
  differently at different times. The record also carries the functions of libraries whose code is
  not part of the repository: the decoding of JSON into each structure, the label selector and
  regular expression matchers, the RFC 3339 rendering and reading of a time, Rook's
  \<^verbatim>\<open>TruncateNodeName\<close> and the lookup of an object's kind in the scheme.
\<close>

section \<open>Calls\<close>

datatype call =
    Now
  | Sleep int
  | ListPods string string string
  | Exec string string string string
  | GetDeployment string string
  | UpdateScale string string int
  | DeleteDeployment string string
  | GetJob string string
  | DeleteJob string string
  | CreateJob "script Job"
  | ListNodes
  | GetKubeNode string
  | GetDaemonSet string string
  | GetTask string string
  | ListTasks string
  | UpdateTask CephOsdRemoveTask
  | DeleteTask string string
  | UpdateTaskStatus string string CephOsdRemoveTaskStatus
  | ListHealths string
  | GetCephCluster string string
  | GetCephDeployment string string
  | GetMaintenance string string
  | Manage deploy_call

type_synonym hist = "call list"
type_synonym 'a io = "(hist, 'a) state"

datatype api_error =
    NotFound (err_msg: string)
  | NoMatch (err_msg: string)
  | NotRegistered (err_msg: string)
  | ApiError (err_msg: string)

definition is_not_found :: "api_error \<Rightarrow> bool" where
  "is_not_found e \<longleftrightarrow> (case e of NotFound _ \<Rightarrow> True | _ \<Rightarrow> False)"

record env =
  e_Now :: "hist \<Rightarrow> int"
  e_FormatTime :: "int \<Rightarrow> string"
  e_ParseTime :: "string \<Rightarrow> int option"
  e_ListPods :: "hist \<Rightarrow> string \<Rightarrow> string \<Rightarrow> string \<Rightarrow> string + Pod list"
  e_Exec :: "hist \<Rightarrow> string \<Rightarrow> string \<Rightarrow> string \<Rightarrow> string \<Rightarrow> string \<times> string \<times> string option"
  e_GetDeployment :: "hist \<Rightarrow> string \<Rightarrow> string \<Rightarrow> api_error + Deployment"
  e_UpdateScale :: "hist \<Rightarrow> string \<Rightarrow> string \<Rightarrow> int \<Rightarrow> api_error option"
  e_DeleteDeployment :: "hist \<Rightarrow> string \<Rightarrow> string \<Rightarrow> api_error option"
  e_GetJob :: "hist \<Rightarrow> string \<Rightarrow> string \<Rightarrow> api_error + JobStatus"
  e_DeleteJob :: "hist \<Rightarrow> string \<Rightarrow> string \<Rightarrow> api_error option"
  e_CreateJob :: "hist \<Rightarrow> script Job \<Rightarrow> api_error option"
  e_ListNodes :: "hist \<Rightarrow> api_error + KubeNode list"
  e_GetNode :: "hist \<Rightarrow> string \<Rightarrow> api_error + KubeNode"
  e_GetDaemonSet :: "hist \<Rightarrow> string \<Rightarrow> string \<Rightarrow> api_error + DaemonSet"
  e_GetTask :: "hist \<Rightarrow> string \<Rightarrow> string \<Rightarrow> api_error + CephOsdRemoveTask"
  e_ListTasks :: "hist \<Rightarrow> string \<Rightarrow> api_error + CephOsdRemoveTask list"
  e_UpdateTask :: "hist \<Rightarrow> CephOsdRemoveTask \<Rightarrow> api_error option"
  e_DeleteTask :: "hist \<Rightarrow> string \<Rightarrow> string \<Rightarrow> api_error option"
  e_UpdateTaskStatus :: "hist \<Rightarrow> string \<Rightarrow> string \<Rightarrow> CephOsdRemoveTaskStatus \<Rightarrow> api_error option"
  e_ListHealths :: "hist \<Rightarrow> string \<Rightarrow> api_error + CephDeploymentHealth list"
  e_GetCephCluster :: "hist \<Rightarrow> string \<Rightarrow> string \<Rightarrow> api_error + CephCluster"
  e_GetCephDeployment :: "hist \<Rightarrow> string \<Rightarrow> string \<Rightarrow> api_error + CephDeploymentPhase"
  e_GetMaintenance :: "hist \<Rightarrow> string \<Rightarrow> string \<Rightarrow> api_error + CephDeploymentMaintenance"
  e_OsdTree :: "string \<Rightarrow> string + OsdTree"
  e_OsdMetadata :: "string \<Rightarrow> string + OsdMetadataInfo list"
  e_OsdInfos :: "string \<Rightarrow> string + OsdInfo list"
  e_OsdInfo :: "string \<Rightarrow> string + OsdInfo"
  e_PgStats :: "string \<Rightarrow> string + nat option"
  e_DiskReport :: "string \<Rightarrow> string + DiskDaemonReport"
  e_SelectorMatches :: "string \<Rightarrow> (string, string) gomap \<Rightarrow> bool"
  e_Regexp :: "string \<Rightarrow> (string \<Rightarrow> bool) option"
  e_TruncateNodeName :: "string \<Rightarrow> string \<Rightarrow> string"
  e_GVK :: "string \<Rightarrow> string + string \<times> string"

text \<open>The documented behaviour of \<^verbatim>\<open>time\<close>: reading back a rendered instant gives that instant,
  truncated to whole seconds.\<close>

definition time_roundtrip :: "env \<Rightarrow> bool" where
  "time_roundtrip E \<longleftrightarrow>
     (\<forall>t. e_FormatTime E t \<noteq> [] \<and>
          e_ParseTime E (e_FormatTime E t) = Some (t - t mod 1000000000))"

section \<open>Issuing a call\<close>

definition issue :: "call \<Rightarrow> (hist \<Rightarrow> 'a) \<Rightarrow> 'a io" where
  "issue c f = State (\<lambda>h. (f h, h @ [c]))"

lemma run_issue [simp]: "run_state (issue c f) h = (f h, h @ [c])"
  by (simp add: issue_def)

lemma calls_in_issue [calls_intro]: "P c \<Longrightarrow> calls_in P (issue c f)"
  by (auto simp: calls_in_def intro: exI [of _ "[c]"])

definition GetCurrentTimeString :: "env \<Rightarrow> string io" where
  "GetCurrentTimeString E = issue Now (\<lambda>h. e_FormatTime E (e_Now E h))"

definition time_Since :: "env \<Rightarrow> int \<Rightarrow> int io" where
  "time_Since E t = issue Now (\<lambda>h. e_Now E h - t)"

section \<open>Retrying\<close>

fun retry_loop :: "nat \<Rightarrow> int \<Rightarrow> nat \<Rightarrow> 'a \<Rightarrow> string option \<Rightarrow> ('a \<times> string option) io \<Rightarrow>
    ('a \<times> string option) io" where
  "retry_loop tries interval 0 output err f =
     State_Monad.return (output, map_option (\<lambda>e. wrap e
       (''Retries ('' @ show_nat tries @ ''/'' @ show_nat tries @ '') exceeded'')) err)"
| "retry_loop tries interval (Suc n) output err f = do {
     (output', err') \<leftarrow> f;
     case err' of
       None \<Rightarrow> State_Monad.return (output', None)
     | Some e \<Rightarrow>
         if n = 0 then retry_loop tries interval n output' (Some e) f
         else do {
           _ \<leftarrow> issue (Sleep interval) (\<lambda>_. ());
           retry_loop tries interval n output' (Some e) f
         }
   }"

text \<open>\<open>zero\<close> is the nil value of the output before the first attempt.\<close>

definition RunFuncWithRetry :: "nat \<Rightarrow> int \<Rightarrow> 'a \<Rightarrow> ('a \<times> string option) io \<Rightarrow>
    ('a \<times> string option) io" where
  "RunFuncWithRetry tries interval zero f = retry_loop tries interval tries zero None f"

text \<open>The functional meaning of the loop: the first result without an error.\<close>

lemma retry_loop_first_success:
  "run_state f h = ((x, None), h') \<Longrightarrow> run_state (retry_loop t i (Suc n) d e f) h = ((x, None), h')"
  by simp

lemma retry_loop_calls:
  assumes "calls_in P f" and "\<And>i. P (Sleep i)"
  shows "calls_in P (retry_loop t i n d e f)"
proof (induction n arbitrary: d e)
  case 0
  show ?case by (simp add: calls_in_return)
next
  case (Suc n)
  show ?case
    by (auto intro!: calls_intro assms Suc.IH split: option.splits)
qed

lemma RunFuncWithRetry_calls [calls_intro]:
  "calls_in P f \<Longrightarrow> (\<And>i. P (Sleep i)) \<Longrightarrow> calls_in P (RunFuncWithRetry t i d f)"
  unfolding RunFuncWithRetry_def by (rule retry_loop_calls)

text \<open>A successful run returns an output that some attempt returned.\<close>

lemma retry_loop_returns:
  assumes f: "returns (\<lambda>(x, e). e = None \<longrightarrow> Q x) f" and e: "n = 0 \<longrightarrow> e \<noteq> None"
  shows "returns (\<lambda>(x, e). e = None \<longrightarrow> Q x) (retry_loop t i n d e f)"
  using e
proof (induction n arbitrary: d e)
  case 0
  then show ?case by (auto simp: returns_def)
next
  case (Suc n)
  show ?case
    unfolding retry_loop.simps
  proof (rule returns_bind_strong [OF f], goal_cases)
    case (1 p)
    obtain x e where p: "p = (x, e)" by (cases p)
    show ?case
    proof (cases e)
      case None
      with 1 p show ?thesis by (simp add: returns_return)
    next
      case (Some a)
      have "returns (\<lambda>(x, e). e = None \<longrightarrow> Q x) (retry_loop t i n x (Some a) f)"
        by (rule Suc.IH) simp
      with p Some show ?thesis by (simp add: returns_bind returns_return)
    qed
  qed
qed

lemma RunFuncWithRetry_returns:
  assumes "returns (\<lambda>(x, e). e = None \<longrightarrow> Q x) f"
  shows "returns (\<lambda>(x, e). e = None \<longrightarrow> Q x) (RunFuncWithRetry (Suc t) i d f)"
  unfolding RunFuncWithRetry_def by (rule retry_loop_returns [OF assms]) simp

text \<open>When every attempt fails, the loop makes exactly \<open>tries\<close> of them and reports the last
  error with the number of attempts.\<close>

lemma retry_loop_all_fail:
  assumes "\<And>h. \<exists>x h'. run_state f h = ((x, Some err), h')" and "n = 0 \<longrightarrow> e = Some err"
  shows "snd (fst (run_state (retry_loop t i n d e f) h)) =
    Some (wrap err (''Retries ('' @ show_nat t @ ''/'' @ show_nat t @ '') exceeded''))"
  using assms(2)
proof (induction n arbitrary: d e h)
  case 0
  then show ?case by simp
next
  case (Suc n)
  obtain x h' where "run_state f h = ((x, Some err), h')" using assms(1) by blast
  then show ?case using Suc by simp
qed

section \<open>Rendering a duration\<close>

fun strip_zeros :: "string \<Rightarrow> string" where
  "strip_zeros [] = []"
| "strip_zeros (c # s) = (case strip_zeros s of [] \<Rightarrow> if c = CHR ''0'' then [] else [c] | r \<Rightarrow> c # r)"

definition fmt_frac :: "int \<Rightarrow> nat \<Rightarrow> string" where
  "fmt_frac v prec =
     (let ds = show_int (v mod 10 ^ prec);
          r = strip_zeros (replicate (prec - length ds) CHR ''0'' @ ds)
      in if r = [] then [] else CHR ''.'' # r)"

text \<open>\<^verbatim>\<open>Duration.String\<close>\<close>

definition show_duration :: "int \<Rightarrow> string" where
  "show_duration d =
     (let u = \<bar>d\<bar>;
          secs = u div 1000000000;
          s = show_int (secs mod 60) @ fmt_frac u 9 @ ''s'';
          mins = secs div 60;
          body =
            (if u = 0 then ''0s''
             else if u < 1000 then show_int u @ ''ns''
             else if u < 1000000 then show_int (u div 1000) @ fmt_frac u 3 @ [CHR 0xC2, CHR 0xB5] @ ''s''
             else if u < 1000000000 then show_int (u div 1000000) @ fmt_frac u 6 @ ''ms''
             else if mins = 0 then s
             else if mins div 60 = 0 then show_int mins @ ''m'' @ s
             else show_int (mins div 60) @ ''h'' @ show_int (mins mod 60) @ ''m'' @ s)
      in if d < 0 then CHR ''-'' # body else body)"

end
