(* ===== verification/Common.thy ===== *)
theory Common
  imports Cluster_Api
begin

text \<open>
  \<^verbatim>\<open>src/pkg/common\<close>: constants, device names, node and job predicates, the execution of commands
  in pods and the helpers that scale and read deployments.
\<close>

section \<open>Constants (vars.go)\<close>

definition PelagiaToolBox :: string where "PelagiaToolBox = ''pelagia-ceph-toolbox''"
definition PelagiaDiskDaemon :: string where "PelagiaDiskDaemon = ''pelagia-disk-daemon''"
definition RookCephOperatorName :: string where "RookCephOperatorName = ''rook-ceph-operator''"
definition DefaultDataDirHostPath :: string where "DefaultDataDirHostPath = ''/var/lib/rook''"
definition StrayOsdNodeMarker :: string where "StrayOsdNodeMarker = ''__stray''"
definition RookLVMarker :: string where "RookLVMarker = ''osd-''"
definition DiskCleanupTimeout :: int where "DiskCleanupTimeout = 3600"
definition DefaultImmediateRequeueInterval :: int where
  "DefaultImmediateRequeueInterval = 1000000000"
definition PelagiaComponentsLabel :: string where "PelagiaComponentsLabel = ''ceph.pelagia.lcm''"

definition PelagiaResourceLabels :: "string \<Rightarrow> (string, string) gomap" where
  "PelagiaResourceLabels controllerName =
     [(''app.kubernetes.io/part-of'', PelagiaComponentsLabel),
      (''app.kubernetes.io/created-by'', controllerName),
      (''app.kubernetes.io/managed-by'', controllerName)]"

section \<open>General helpers (general_utils.go)\<close>

fun Contains :: "'a list \<Rightarrow> 'a \<Rightarrow> bool" where
  "Contains [] s = False"
| "Contains (v # list) s = (if v = s then True else Contains list s)"

lemma Contains_iff [simp]: "Contains xs s \<longleftrightarrow> s \<in> set xs"
  by (induction xs) auto

definition ExtendLabels :: "(string, string) gomap \<Rightarrow> (string, string) gomap \<Rightarrow> (string, string) gomap" where
  "ExtendLabels resourceLabels extraLabels = copy_into extraLabels resourceLabels"

section \<open>Devices (lcm\_utils.go)\<close>

definition PathDevPrepended :: "string \<Rightarrow> string" where
  "PathDevPrepended name = (if \<not> HasPrefix name ''/dev/'' then ''/dev/'' @ name else name)"

lemma PathDevPrepended_prefix [simp]: "HasPrefix (PathDevPrepended name) ''/dev/''"
  by (simp add: PathDevPrepended_def HasPrefix_def)

lemma PathDevPrepended_idem [simp]: "PathDevPrepended (PathDevPrepended name) = PathDevPrepended name"
  using PathDevPrepended_prefix [of name] unfolding PathDevPrepended_def [of "PathDevPrepended name"]
  by simp

definition IsNodeWithDiskDaemon :: "env \<Rightarrow> KubeNode \<Rightarrow> string \<Rightarrow> bool" where
  "IsNodeWithDiskDaemon E node lcmDiskDaemonLabel =
     (if length (kn_Labels node) > 0 then e_SelectorMatches E lcmDiskDaemonLabel (kn_Labels node)
      else False)"

text \<open>The search climbs the parents of a block device. A report whose parents form a cycle makes
  the Go recursion run forever, so the model is a partial function: \<open>None\<close> is divergence, \<open>Inl\<close>
  an error.\<close>

definition block_type :: "DiskDaemonDisksReport \<Rightarrow> string \<Rightarrow> string" where
  "block_type rep dev = (case map_of (ddr_BlockInfo rep) dev of None \<Rightarrow> [] | Some b \<Rightarrow> bdi_Type b)"

definition block_parents :: "DiskDaemonDisksReport \<Rightarrow> string \<Rightarrow> string list" where
  "block_parents rep dev = (case map_of (ddr_BlockInfo rep) dev of None \<Rightarrow> [] | Some b \<Rightarrow> bdi_Parent b)"

partial_function (option) FindDiskName ::
    "string \<Rightarrow> DiskDaemonDisksReport \<Rightarrow> (string + string) option" where
  "FindDiskName name rep =
     (case map_of (ddr_Aliases rep) (PathDevPrepended name) of
        None \<Rightarrow> Some (Inl (''device '' @ quoted (PathDevPrepended name) @ '' is not found on a node''))
      | Some curBlockDev \<Rightarrow>
          if block_type rep curBlockDev = ''disk'' then Some (Inr curBlockDev)
          else (case block_parents rep curBlockDev of
                  [] \<Rightarrow> Some (Inl (''device '' @ quoted (PathDevPrepended name) @ '' is not found on a node''))
                | [parent] \<Rightarrow> FindDiskName parent rep
                | parents \<Rightarrow> Some (Inl (''detected multidisk setup, which is not supported: '' @ join '','' parents))))"

declare FindDiskName.simps [code]

section \<open>Kubernetes helpers (k8s\_utils.go)\<close>

definition unavailable_taints :: "string list" where
  "unavailable_taints = [''node.kubernetes.io/unreachable'', ''node.kubernetes.io/unschedulable'',
     ''node.kubernetes.io/not-ready'', ''node.kubernetes.io/out-of-service'']"

fun taint_reason :: "string \<Rightarrow> string list \<Rightarrow> bool \<times> string" where
  "taint_reason name [] = (True, [])"
| "taint_reason name (taint # taints) =
     (if taint \<in> set unavailable_taints
      then (False, ''node '' @ quoted name @ '' has '' @ quoted taint @ '' taint, assuming node is not available'')
      else taint_reason name taints)"

definition IsNodeAvailable :: "KubeNode \<Rightarrow> bool \<times> string" where
  "IsNodeAvailable node = taint_reason (kn_Name node) (kn_Taints node)"

lemma IsNodeAvailable_iff: "fst (IsNodeAvailable node) \<longleftrightarrow> set (kn_Taints node) \<inter> set unavailable_taints = {}"
proof -
  have "fst (taint_reason name ts) \<longleftrightarrow> set ts \<inter> set unavailable_taints = {}" for name ts
    by (induction ts) auto
  then show ?thesis by (simp add: IsNodeAvailable_def)
qed

definition JobConditionsFailed :: "JobStatus \<Rightarrow> bool" where
  "JobConditionsFailed js \<longleftrightarrow> list_ex (\<lambda>c. c = ''Failed'') (js_Conditions js)"

definition IsDaemonSetReady :: "DaemonSet \<Rightarrow> bool" where
  "IsDaemonSetReady ds \<longleftrightarrow> ds_NumberReady ds > 0 \<and>
     ds_CurrentNumberScheduled ds = ds_DesiredNumberScheduled ds \<and>
     ds_DesiredNumberScheduled ds = ds_NumberReady ds \<and>
     ds_NumberReady ds = ds_NumberAvailable ds \<and>
     ds_NumberAvailable ds = ds_UpdatedNumberScheduled ds"

definition IsDeploymentReady :: "Deployment \<Rightarrow> bool" where
  "IsDeploymentReady deploy =
     (let replicas = (case dep_SpecReplicas deploy of None \<Rightarrow> 1 | Some r \<Rightarrow> r)
      in dep_Replicas deploy > 0 \<and>
         dep_Replicas deploy = replicas \<and>
         dep_UpdatedReplicas deploy = dep_Replicas deploy \<and>
         dep_ReadyReplicas deploy = dep_Replicas deploy \<and>
         dep_AvailableReplicas deploy = dep_Replicas deploy \<and>
         dep_Generation deploy = dep_ObservedGeneration deploy)"

definition GetObjectOwnerRef :: "env \<Rightarrow> string \<Rightarrow> string \<Rightarrow> string \<Rightarrow> string + OwnerReference list" where
  "GetObjectOwnerRef E go_type name uid =
     (case e_GVK E go_type of
        Inl err \<Rightarrow> Inl (wrap err ''failed to get GVK for object'')
      | Inr (apiVersion, kind) \<Rightarrow>
          Inr [\<lparr>or_APIVersion = apiVersion, or_Kind = kind, or_Name = name, or_UID = uid\<rparr>])"

definition GetNodeList :: "env \<Rightarrow> (api_error + KubeNode list) io" where
  "GetNodeList E = issue ListNodes (e_ListNodes E)"

definition GetNode :: "env \<Rightarrow> string \<Rightarrow> (api_error + KubeNode) io" where
  "GetNode E nodename = issue (GetKubeNode nodename) (\<lambda>h. e_GetNode E h nodename)"

definition ScaleDeployment :: "env \<Rightarrow> string \<Rightarrow> string \<Rightarrow> int \<Rightarrow> api_error option io" where
  "ScaleDeployment E deployName namespace replicas =
     issue (UpdateScale namespace deployName replicas) (\<lambda>h. e_UpdateScale E h namespace deployName replicas)"

section \<open>Commands in pods (pod\_exec.go, cli\_utils.go)\<close>

record ExecConfig =
  ec_Namespace :: string
  ec_Command :: string
  ec_ContainerName :: string
  ec_Nodename :: string
  ec_Labels :: "string list"

text \<open>The state of the search for a pod: the container name it has settled on, whether a pod was
  found and whether a ready one was, and the result.\<close>

record pod_search =
  ps_Container :: string
  ps_Found :: bool
  ps_Ready :: bool
  ps_Result :: "Pod option"

fun findPod_conditions :: "Pod \<Rightarrow> (string \<times> string) list \<Rightarrow> pod_search \<Rightarrow> pod_search" where
  "findPod_conditions pod [] s = s"
| "findPod_conditions pod ((ty, st) # conds) s =
     (if ty = ''Ready'' \<and> st = ''True'' then
        let container = (if ps_Container s = [] \<and> pod_Containers pod \<noteq> [] then hd (pod_Containers pod)
                         else ps_Container s);
            s' = s\<lparr>ps_Container := container, ps_Ready := True\<rparr>
        in if list_ex (\<lambda>(name, ready). name = container \<and> ready) (pod_ContainerStatuses pod)
           then s'\<lparr>ps_Result := Some pod\<rparr>
           else findPod_conditions pod conds s'
      else findPod_conditions pod conds s)"

fun findPod_loop :: "Pod list \<Rightarrow> pod_search \<Rightarrow> pod_search" where
  "findPod_loop [] s = s"
| "findPod_loop (pod # pods) s =
     (if pod_Deleting pod then findPod_loop pods (s\<lparr>ps_Found := True\<rparr>)
      else if pod_Running pod then
        let s' = findPod_conditions pod (pod_Conditions pod) (s\<lparr>ps_Found := True\<rparr>)
        in if ps_Result s' \<noteq> None then s' else findPod_loop pods s'
      else findPod_loop pods s)"

definition findPod :: "env \<Rightarrow> ExecConfig \<Rightarrow> (string + Pod \<times> string) io" where
  "findPod E e =
     (let labelSelector = join '','' (ec_Labels e);
          podSelector0 = (if ec_Labels e \<noteq> [] then ''label(s): '' @ quoted labelSelector
                          else ''no labels specified'');
          fieldSelector = (if ec_Nodename e \<noteq> [] then ''spec.nodeName='' @ ec_Nodename e else []);
          podSelector = (if ec_Nodename e \<noteq> [] then podSelector0 @ '', field: '' @ quoted fieldSelector
                         else podSelector0)
      in do {
        r \<leftarrow> issue (ListPods (ec_Namespace e) labelSelector fieldSelector)
               (\<lambda>h. e_ListPods E h (ec_Namespace e) labelSelector fieldSelector);
        State_Monad.return (case r of
          Inl err \<Rightarrow> Inl (wrap err ''failed to get pods list'')
        | Inr pods \<Rightarrow>
            if pods = [] then
              Inl (''no pods found matching criteria ('' @ podSelector @ '') in namespace '' @ quoted (ec_Namespace e))
            else
              let s = findPod_loop pods \<lparr>ps_Container = ec_ContainerName e, ps_Found = False,
                        ps_Ready = False, ps_Result = None\<rparr>
              in case ps_Result s of
                   Some pod \<Rightarrow> Inr (pod, ps_Container s)
                 | None \<Rightarrow>
                     if \<not> ps_Found s \<or> \<not> ps_Ready s then
                       Inl (''no running ready pod matching criteria ('' @ podSelector @ '') in namespace '' @ quoted (ec_Namespace e))
                     else
                       Inl (''no ready container '' @ quoted (ps_Container s) @ '' found for pod matching criteria ('' @ podSelector @ '') in namespace '' @ quoted (ec_Namespace e)))
      })"

text \<open>\<^verbatim>\<open>validate\<close> followed by \<^verbatim>\<open>RunPodCommand\<close>. The callers always pass a client configuration,
  so the branch that builds one is not reached.\<close>

definition runPodCommandWithValidation :: "env \<Rightarrow> ExecConfig \<Rightarrow> (string \<times> string \<times> string option) io" where
  "runPodCommandWithValidation E e =
     (if ec_Command e = [] then State_Monad.return ([], [], Some ''command is not specified'')
      else
        let e = (if ec_Namespace e = [] then e\<lparr>ec_Namespace := ''default''\<rparr> else e)
        in do {
          r \<leftarrow> findPod E e;
          case r of
            Inl err \<Rightarrow> State_Monad.return ([], [], Some (wrap err ''failed to find pod to run command''))
          | Inr (pod, container) \<Rightarrow>
              issue (Exec (pod_Namespace pod) (pod_Name pod) container (ec_Command e))
                (\<lambda>h. e_Exec E h (pod_Namespace pod) (pod_Name pod) container (ec_Command e))
        })"

definition RunPodCmdAndCheckError :: "env \<Rightarrow> ExecConfig \<Rightarrow> (string \<times> string \<times> string option) io" where
  "RunPodCmdAndCheckError E e = do {
     (stdOut, stdErr, err) \<leftarrow> runPodCommandWithValidation E e;
     State_Monad.return (case err of
       None \<Rightarrow> (stdOut, stdErr, None)
     | Some er \<Rightarrow>
         let msg = ''failed to run command '' @ quoted (ec_Command e);
             msg = (if ec_Nodename e \<noteq> [] then msg @ '' on node '' @ quoted (ec_Nodename e) else msg);
             msg = (if stdErr \<noteq> [] then msg @ '' (stdErr: '' @ stdErr @ '')'' else msg)
         in (stdOut, stdErr, Some (wrap er msg)))
   }"

definition toolbox_config :: "string \<Rightarrow> string \<Rightarrow> ExecConfig" where
  "toolbox_config namespace command = \<lparr>ec_Namespace = namespace, ec_Command = command,
     ec_ContainerName = [], ec_Nodename = [], ec_Labels = [''app='' @ PelagiaToolBox]\<rparr>"

definition RunCephToolboxCLI :: "env \<Rightarrow> string \<Rightarrow> string \<Rightarrow> (string \<times> string option) io" where
  "RunCephToolboxCLI E namespace command = do {
     (output, stdErr, err) \<leftarrow> RunPodCmdAndCheckError E (toolbox_config namespace command);
     State_Monad.return (output, err)
   }"

text \<open>The decoder is the \<^verbatim>\<open>json.Unmarshal\<close> of the target structure.\<close>

definition RunAndParseCephToolboxCLI ::
    "env \<Rightarrow> string \<Rightarrow> string \<Rightarrow> (string \<Rightarrow> string + 'a) \<Rightarrow> (string + 'a) io" where
  "RunAndParseCephToolboxCLI E namespace command decode = do {
     (output, err) \<leftarrow> RunCephToolboxCLI E namespace command;
     State_Monad.return (case err of
       Some e \<Rightarrow> Inl e
     | None \<Rightarrow> (case decode output of
         Inl e \<Rightarrow> Inl (wrap e (''failed to parse output for command '' @ quoted command))
       | Inr x \<Rightarrow> Inr x))
   }"

definition RunAndParseDiskDaemonCLI ::
    "env \<Rightarrow> string \<Rightarrow> string \<Rightarrow> string \<Rightarrow> (string \<Rightarrow> string + 'a) \<Rightarrow> (string + 'a) io" where
  "RunAndParseDiskDaemonCLI E namespace nodeName command decode = do {
     (output, stdErr, err) \<leftarrow> RunPodCmdAndCheckError E \<lparr>ec_Namespace = namespace, ec_Command = command,
        ec_ContainerName = [], ec_Nodename = nodeName, ec_Labels = [''app='' @ PelagiaDiskDaemon]\<rparr>;
     State_Monad.return (case err of
       Some e \<Rightarrow> Inl e
     | None \<Rightarrow> (case decode output of
         Inl e \<Rightarrow> Inl (wrap e (''failed to parse output for command '' @ quoted command))
       | Inr x \<Rightarrow> Inr x))
   }"

section \<open>Lemmas\<close>

lemma findPod_calls [calls_intro]: "(\<And>a b c. P (ListPods a b c)) \<Longrightarrow> calls_in P (findPod E e)"
  unfolding findPod_def by (auto intro!: calls_intro simp: Let_def)

lemma RunPodCmdAndCheckError_calls [calls_intro]:
  assumes "\<And>a b c. P (ListPods a b c)" and "\<And>a b c. P (Exec a b c (ec_Command e))"
  shows "calls_in P (RunPodCmdAndCheckError E e)"
proof -
  have "calls_in P (runPodCommandWithValidation E e)"
    unfolding runPodCommandWithValidation_def Let_def
    by (auto intro!: calls_intro assms split: sum.splits)
  then show ?thesis unfolding RunPodCmdAndCheckError_def by (auto intro!: calls_intro)
qed

lemma RunCephToolboxCLI_calls [calls_intro]:
  "(\<And>a b c. P (ListPods a b c)) \<Longrightarrow> (\<And>a b c. P (Exec a b c command)) \<Longrightarrow>
   calls_in P (RunCephToolboxCLI E namespace command)"
  unfolding RunCephToolboxCLI_def by (auto intro!: calls_intro simp: toolbox_config_def)

lemma RunAndParseCephToolboxCLI_calls [calls_intro]:
  "(\<And>a b c. P (ListPods a b c)) \<Longrightarrow> (\<And>a b c. P (Exec a b c command)) \<Longrightarrow>
   calls_in P (RunAndParseCephToolboxCLI E namespace command decode)"
  unfolding RunAndParseCephToolboxCLI_def by (auto intro!: calls_intro)

lemma RunAndParseDiskDaemonCLI_calls [calls_intro]:
  "(\<And>a b c. P (ListPods a b c)) \<Longrightarrow> (\<And>a b c. P (Exec a b c command)) \<Longrightarrow>
   calls_in P (RunAndParseDiskDaemonCLI E namespace node command decode)"
  unfolding RunAndParseDiskDaemonCLI_def by (auto intro!: calls_intro)

lemma GetCurrentTimeString_calls [calls_intro]: "P Now \<Longrightarrow> calls_in P (GetCurrentTimeString E)"
  unfolding GetCurrentTimeString_def by (rule calls_in_issue)

lemma time_Since_calls [calls_intro]: "P Now \<Longrightarrow> calls_in P (time_Since E t)"
  unfolding time_Since_def by (rule calls_in_issue)

lemma ScaleDeployment_calls [calls_intro]:
  "P (UpdateScale namespace name n) \<Longrightarrow> calls_in P (ScaleDeployment E name namespace n)"
  unfolding ScaleDeployment_def by (rule calls_in_issue)

lemma GetNodeList_calls [calls_intro]: "P ListNodes \<Longrightarrow> calls_in P (GetNodeList E)"
  unfolding GetNodeList_def by (rule calls_in_issue)

lemma GetNode_calls [calls_intro]: "P (GetKubeNode n) \<Longrightarrow> calls_in P (GetNode E n)"
  unfolding GetNode_def by (rule calls_in_issue)

text \<open>A pod that a command runs in.\<close>

definition pod_usable :: "string \<Rightarrow> Pod \<Rightarrow> bool" where
  "pod_usable container pod \<longleftrightarrow> \<not> pod_Deleting pod \<and> pod_Running pod \<and>
     (''Ready'', ''True'') \<in> set (pod_Conditions pod) \<and>
     (container, True) \<in> set (pod_ContainerStatuses pod)"

lemma findPod_conditions_result:
  assumes "ps_Result (findPod_conditions pod conds s) = Some p" and "ps_Result s = None"
  shows "p = pod \<and> (''Ready'', ''True'') \<in> set conds \<and>
    (ps_Container (findPod_conditions pod conds s), True) \<in> set (pod_ContainerStatuses pod)"
  using assms
proof (induction pod conds s rule: findPod_conditions.induct)
  case (2 pod ty st conds s)
  then show ?case by (auto simp: Let_def list_ex_iff split: if_splits)
qed simp

lemma findPod_loop_result:
  assumes "ps_Result (findPod_loop pods s) = Some p" and "ps_Result s = None"
  shows "p \<in> set pods \<and> pod_usable (ps_Container (findPod_loop pods s)) p"
  using assms
proof (induction pods s rule: findPod_loop.induct)
  case (2 pod pods s)
  let ?s = "findPod_conditions pod (pod_Conditions pod) (s\<lparr>ps_Found := True\<rparr>)"
  show ?case
  proof (cases "\<not> pod_Deleting pod \<and> pod_Running pod \<and> ps_Result ?s \<noteq> None")
    case True
    with 2(4,5) findPod_conditions_result [of pod "pod_Conditions pod" "s\<lparr>ps_Found := True\<rparr>" p]
    show ?thesis by (simp add: Let_def pod_usable_def)
  next
    case False
    with 2 show ?thesis by (auto simp: Let_def split: if_splits)
  qed
qed simp

text \<open>Whatever the parents of a block device are, a disk name that is found names a disk.\<close>

lemma FindDiskName_disk:
  assumes "FindDiskName name rep = Some (Inr d)"
  shows "block_type rep d = ''disk''"
proof -
  let ?P = "\<lambda>(name :: string) rep r. \<forall>d. r = Inr d \<longrightarrow> block_type rep d = ''disk''"
  have "?P name rep (Inr d :: string + string)"
  proof (rule FindDiskName.raw_induct [where P = ?P, OF _ assms])
    fix f :: "string \<Rightarrow> DiskDaemonDisksReport \<Rightarrow> (string + string) option" and name rep r
    assume IH: "\<And>name rep r. f name rep = Some r \<Longrightarrow> ?P name rep r"
      and "(case map_of (ddr_Aliases rep) (PathDevPrepended name) of
        None \<Rightarrow> Some (Inl (''device '' @ quoted (PathDevPrepended name) @ '' is not found on a node''))
      | Some curBlockDev \<Rightarrow>
          if block_type rep curBlockDev = ''disk'' then Some (Inr curBlockDev)
          else (case block_parents rep curBlockDev of
                  [] \<Rightarrow> Some (Inl (''device '' @ quoted (PathDevPrepended name) @ '' is not found on a node''))
                | [parent] \<Rightarrow> f parent rep
                | parents \<Rightarrow> Some (Inl (''detected multidisk setup, which is not supported: '' @ join '','' parents)))) = Some r"
    then show "?P name rep r" by (auto split: option.splits if_splits list.splits)
  qed
  then show ?thesis by simp
qed

text \<open>When a rank decreases from every device to its only parent, the search returns.\<close>

lemma FindDiskName_terminates:
  assumes "\<And>n dev p. map_of (ddr_Aliases rep) (PathDevPrepended n) = Some dev \<Longrightarrow>
      block_parents rep dev = [p] \<Longrightarrow> (rank p :: nat) < rank n"
  shows "\<exists>r. FindDiskName name rep = Some r"
proof (induction "rank name" arbitrary: name rule: less_induct)
  case less
  have IH: "\<exists>r. FindDiskName p rep = Some r"
    if "map_of (ddr_Aliases rep) (PathDevPrepended name) = Some dev" and "block_parents rep dev = [p]" for dev p
    using that assms less by blast
  then show ?case
    by (subst FindDiskName.simps) (auto split: option.splits list.splits)
qed

end
