(* ===== verification/Task_Phase.thy ===== *)
theory Task_Phase
  imports Common
begin

text \<open>
  The configuration a reconcile run works on (\<^verbatim>\<open>osdremove-task/task_types.go\<close>) and the functions
  that build a new task status (\<^verbatim>\<open>osdremove-task/phase.go\<close>). The logger, the context and the API
  clients of the Go structure are the environment; the flag \<^verbatim>\<open>requeueNow\<close>, which the handlers
  set, is part of their results.
\<close>

record taskConfig =
  tk_task :: CephOsdRemoveTask
  tk_cephCluster :: CephCluster
  tk_cephHealthOsdAnalysis :: OsdSpecAnalysisState
  tk_cephDeploymentPhase :: "CephDeploymentPhase option"

record cephOsdRemoveConfig =
  rc_lcmConfig :: LcmConfig
  rc_taskConfig :: taskConfig

definition requeueAfterInterval :: int where
  "requeueAfterInterval = 60000000000"

definition diskCleanupJobLabel :: string where
  "diskCleanupJobLabel = ''pelagia-lcm-cleanup-disks''"

text \<open>The status behind the pointer. \<open>Reconcile\<close> builds a configuration only from a task that has
  a status, so the nil case does not arise in a run.\<close>

definition status_of :: "CephOsdRemoveTask \<Rightarrow> CephOsdRemoveTaskStatus" where
  "status_of task = (case task_Status task of
     Some s \<Rightarrow> s
   | None \<Rightarrow> \<lparr>st_Phase = TaskPhaseOther [], st_PhaseInfo = [], st_RemoveInfo = None, st_Messages = [],
       st_Conditions = []\<rparr>)"

definition spec_nodes :: "CephOsdRemoveTask \<Rightarrow> task_nodes" where
  "spec_nodes task = Option.bind (task_Spec task) ts_Nodes"

definition approved :: "CephOsdRemoveTask \<Rightarrow> bool" where
  "approved task \<longleftrightarrow> (case task_Spec task of None \<Rightarrow> False | Some sp \<Rightarrow> ts_Approve sp)"

definition prepareAbortStatus :: "env \<Rightarrow> CephOsdRemoveTaskStatus \<Rightarrow> string \<Rightarrow> CephOsdRemoveTaskStatus io" where
  "prepareAbortStatus E cephTaskStatus reason = do {
     now \<leftarrow> GetCurrentTimeString E;
     State_Monad.return (cephTaskStatus\<lparr>
       st_Phase := TaskPhaseAborted,
       st_PhaseInfo := reason,
       st_Messages := st_Messages cephTaskStatus @ [reason],
       st_Conditions := st_Conditions cephTaskStatus @
         [\<lparr>tc_Timestamp = now, tc_Phase = TaskPhaseAborted, tc_Nodes = None, tc_CephClusterSpecVersion = None\<rparr>]\<rparr>)
   }"

definition prepareInitStatus :: "env \<Rightarrow> CephOsdRemoveTask \<Rightarrow> CephOsdRemoveTaskStatus io" where
  "prepareInitStatus E cephTask = do {
     now \<leftarrow> GetCurrentTimeString E;
     let nodes = (case spec_nodes cephTask of
                    Some ns \<Rightarrow> if length ns > 0 then Some ns else None
                  | None \<Rightarrow> None);
     State_Monad.return \<lparr>st_Phase = TaskPhasePending, st_PhaseInfo = ''initializing'', st_RemoveInfo = None,
       st_Messages = [''initiated''],
       st_Conditions = [\<lparr>tc_Timestamp = now, tc_Phase = TaskPhasePending, tc_Nodes = nodes,
         tc_CephClusterSpecVersion = None\<rparr>]\<rparr>
   }"

definition moveTaskPhase :: "env \<Rightarrow> taskConfig \<Rightarrow> TaskPhase \<Rightarrow> string \<Rightarrow> TaskRemoveInfo option \<Rightarrow>
    CephOsdRemoveTaskStatus io" where
  "moveTaskPhase E t newPhase reason removeInfo = do {
     now \<leftarrow> GetCurrentTimeString E;
     let st = status_of (tk_task t);
     State_Monad.return (st\<lparr>
       st_Phase := newPhase,
       st_PhaseInfo := reason,
       st_Messages := st_Messages st @
         [''cephosdremovetask moved to '' @ quoted (show_TaskPhase newPhase) @ '' phase: '' @ reason],
       st_RemoveInfo := removeInfo,
       st_Conditions := st_Conditions st @
         [\<lparr>tc_Timestamp = now, tc_Phase = newPhase, tc_Nodes = spec_nodes (tk_task t),
           tc_CephClusterSpecVersion = Some \<lparr>csv_ResourceVersion = cc_ResourceVersion (tk_cephCluster t),
             csv_Generation = cc_Generation (tk_cephCluster t)\<rparr>\<rparr>]\<rparr>)
   }"

section \<open>The shape of a status\<close>

text \<open>A task status records its history: the phase is the phase of the last condition.\<close>

definition wf_status :: "CephOsdRemoveTaskStatus \<Rightarrow> bool" where
  "wf_status st \<longleftrightarrow> st_Conditions st \<noteq> [] \<and> tc_Phase (last (st_Conditions st)) = st_Phase st"

definition approval_state :: "TaskPhase \<Rightarrow> bool" where
  "approval_state p \<longleftrightarrow> p = TaskPhaseWaitingOperator \<or> p = TaskPhaseProcessing"

lemma moveTaskPhase_fields:
  assumes "run_state (moveTaskPhase E t p reason ri) h = (st, h')"
  shows "st_Phase st = p" "st_RemoveInfo st = ri" "st_PhaseInfo st = reason"
    "butlast (st_Conditions st) = st_Conditions (status_of (tk_task t))"
    "tc_Phase (last (st_Conditions st)) = p"
    "tc_Nodes (last (st_Conditions st)) = spec_nodes (tk_task t)"
    "map_option csv_Generation (tc_CephClusterSpecVersion (last (st_Conditions st)))
       = Some (cc_Generation (tk_cephCluster t))"
    "wf_status st" "h' = h @ [Now]"
  using assms by (auto simp: moveTaskPhase_def GetCurrentTimeString_def Let_def wf_status_def)

lemma prepareAbortStatus_fields:
  assumes "run_state (prepareAbortStatus E s reason) h = (st, h')"
  shows "st_Phase st = TaskPhaseAborted" "st_RemoveInfo st = st_RemoveInfo s" "wf_status st"
    "butlast (st_Conditions st) = st_Conditions s" "h' = h @ [Now]"
  using assms by (auto simp: prepareAbortStatus_def GetCurrentTimeString_def wf_status_def)

lemma prepareInitStatus_fields:
  assumes "run_state (prepareInitStatus E task) h = (st, h')"
  shows "st_Phase st = TaskPhasePending" "wf_status st" "length (st_Conditions st) = 1"
    "st_RemoveInfo st = None" "h' = h @ [Now]"
  using assms by (auto simp: prepareInitStatus_def GetCurrentTimeString_def Let_def wf_status_def)

lemma phase_calls [calls_intro]:
  assumes "P Now"
  shows "calls_in P (moveTaskPhase E t p reason ri)" "calls_in P (prepareAbortStatus E s reason)"
    "calls_in P (prepareInitStatus E task)"
  unfolding moveTaskPhase_def prepareAbortStatus_def prepareInitStatus_def Let_def
  by (auto intro!: calls_intro assms)

end
