(* ===== verification/Osd_Helpers.thy ===== *)
theory Osd_Helpers
  imports Task_Phase
begin

text \<open>
  The helpers of the validation: \<^verbatim>\<open>osdremove-task/helpers.go\<close>, the cluster queries of
  \<^verbatim>\<open>osdremove-task/utils.go\<close> and the device functions at the end of
  \<^verbatim>\<open>osdremove-task/spec_handler.go\<close>.
\<close>

section \<open>helpers.go\<close>

fun in_devices :: "string \<Rightarrow> OsdDevice list \<Rightarrow> bool" where
  "in_devices lookForDev [] = False"
| "in_devices lookForDev (dev # devs) =
     (if PathDevPrepended lookForDev = od_Name dev then True
      else if Contains (od_DeviceSymlinks dev) lookForDev then True
      else in_devices lookForDev devs)"

fun in_partitions :: "string \<Rightarrow> OsdPartition list \<Rightarrow> bool" where
  "in_partitions lookForDev [] = False"
| "in_partitions lookForDev (part # parts) =
     (if lookForDev = op_Partition part then True
      else if Contains (op_PartitionSymlinks part) lookForDev then True
      else in_partitions lookForDev parts)"

definition checkDisksOrPartition :: "OsdDaemonInfo \<Rightarrow> string \<Rightarrow> bool" where
  "checkDisksOrPartition info lookForDev =
     (if in_devices lookForDev (odi_Devices info) then True
      else in_partitions lookForDev (odi_Partitions info))"

fun fillDevicePathOrID :: "bool \<Rightarrow> string list \<Rightarrow> device_map \<Rightarrow> device_map" where
  "fillDevicePathOrID byId [] devices = devices"
| "fillDevicePathOrID byId (dev # devArray) devices =
     fillDevicePathOrID byId devArray
       (case split_on CHR ''='' dev of
          [name, val] \<Rightarrow>
            (case map_of devices (PathDevPrepended name) of
               None \<Rightarrow> devices
             | Some info \<Rightarrow> AList.update (PathDevPrepended name)
                 (if byId then info\<lparr>di_ID := val\<rparr> else info\<lparr>di_Path := val\<rparr>) devices)
        | _ \<Rightarrow> devices)"

definition fillDevicesInfoFromMetadata :: "OsdMetadataInfo \<Rightarrow> device_map" where
  "fillDevicesInfoFromMetadata m =
     (let blockDevice = PathDevPrepended (split_first CHR '','' (omd_BluestoreDevices m));
          devices = [(blockDevice, DeviceInfo0\<lparr>di_Rotational := omd_BluestoreDeviceType m = ''hdd'',
                       di_Type := ''block'', di_Partition := omd_BluestorePartition m\<rparr>)];
          devices =
            (if omd_MetadataDiskUsed m = ''1'' then
               AList.update (PathDevPrepended (split_first CHR '','' (omd_MetadataDevices m)))
                 (DeviceInfo0\<lparr>di_Rotational := omd_MetadataDeviceType m = ''hdd'', di_Type := ''db'',
                    di_Partition := omd_MetadataPartition m\<rparr>) devices
             else devices);
          devices = fillDevicePathOrID False (split_on CHR '','' (omd_DevicePathes m)) devices
      in fillDevicePathOrID True (split_on CHR '','' (omd_DeviceIDs m)) devices)"

record mappingConfig =
  mc_nodeInSpec :: bool
  mc_nodeAvailable :: bool
  mc_host :: string
  mc_osdsToClean :: "int list"
  mc_osdsMetadataFromCluster :: "OsdMetadataInfo list"
  mc_osdMetadataMap :: "(int, nat) gomap"
  mc_osdUUIDMap :: "(string, string) gomap"
  mc_clusterFSID :: string
  mc_clusterNamespace :: string
  mc_clusterHostDir :: string

text \<open>\<^verbatim>\<open>"%s/%s/%s_%s"\<close>\<close>

definition host_directory :: "string \<Rightarrow> string \<Rightarrow> string \<Rightarrow> string \<Rightarrow> string" where
  "host_directory dir ns fsid uuid = dir @ ''/'' @ ns @ ''/'' @ fsid @ ''_'' @ uuid"

definition node_msg :: "string \<Rightarrow> string \<Rightarrow> string" where
  "node_msg host msg = ''[node '' @ quoted host @ ''] '' @ msg"

text \<open>A Go slice read at an index: out of range is a panic, here \<open>None\<close>.\<close>

definition at :: "'a list \<Rightarrow> nat \<Rightarrow> 'a option" where
  "at xs i = (if i < length xs then Some (xs ! i) else None)"

fun fillOsdMapping_loop :: "mappingConfig \<Rightarrow> int list \<Rightarrow> osd_map \<times> string list \<Rightarrow>
    (osd_map \<times> string list) option" where
  "fillOsdMapping_loop c [] (osdMapping, warnings) = Some (osdMapping, warnings)"
| "fillOsdMapping_loop c (osd # osds) (osdMapping, warnings) =
     (case map_of (mc_osdMetadataMap c) osd of
        Some osdMetaIdx \<Rightarrow> do {
          meta \<leftarrow> at (mc_osdsMetadataFromCluster c) osdMetaIdx;
          let deviceMapping0 = fillDevicesInfoFromMetadata meta;
          let deviceMapping = (if \<not> mc_nodeAvailable c
                               then map (\<lambda>(dev, m). (dev, m\<lparr>di_Alive := False\<rparr>)) deviceMapping0
                               else deviceMapping0);
          let uuid = str_of (mc_osdUUIDMap c) (show_int osd);
          fillOsdMapping_loop c osds
            (AList.update (show_int osd)
               (OsdMapping0\<lparr>om_UUID := uuid, om_ClusterFSID := mc_clusterFSID c, om_InCrushMap := True,
                  om_DeviceMapping := deviceMapping,
                  om_HostDirectory := host_directory (mc_clusterHostDir c) (mc_clusterNamespace c)
                    (mc_clusterFSID c) uuid\<rparr>) osdMapping,
             warnings)
        }
      | None \<Rightarrow> fillOsdMapping_loop c osds
          (osdMapping, warnings @ [node_msg (mc_host c) (''node has no osd id '' @ quoted (show_int osd) @ '', skipping'')]))"

definition fillOsdMappingFromOsdMeta :: "mappingConfig \<Rightarrow> (osd_map \<times> string list) option" where
  "fillOsdMappingFromOsdMeta c =
     fillOsdMapping_loop c (mc_osdsToClean c)
       ([], [node_msg (mc_host c)
          (if mc_nodeAvailable c then ''node is available, but has no disk daemon running, device cleanup jobs will be skipped''
           else if mc_nodeInSpec c then ''node is not available, but present in spec, device cleanup jobs will be skipped''
           else ''node is not available, device cleanup jobs will be skipped'')])"

definition isStrayOsdID :: "string \<Rightarrow> bool" where
  "isStrayOsdID osdID = HasSuffix osdID StrayOsdNodeMarker"

definition getReportWarningsInNodeFormat :: "HostMapping \<Rightarrow> string \<Rightarrow> string list \<Rightarrow> string list" where
  "getReportWarningsInNodeFormat hostMapping host reportWarnings =
     (if hm_CompleteCleanup hostMapping \<or> hm_DropFromCrush hostMapping
      then map (node_msg host) reportWarnings
      else concat (map (\<lambda>osd.
             let osdID = (if isStrayOsdID osd then split_first CHR ''.'' osd else osd)
             in map (node_msg host)
                  (filter (\<lambda>warning. str_contains warning (''osd '' @ quoted osdID)) reportWarnings))
           (keys (hm_OsdMapping hostMapping))))"

section \<open>utils.go\<close>

definition retriesForFailedCommand :: nat where "retriesForFailedCommand = 5"
definition commandRetryRunTimeout :: int where "commandRetryRunTimeout = 30000000000"
definition diskDaemonRetryTimeout :: int where "diskDaemonRetryTimeout = 10000000000"

definition cluster_ns :: "cephOsdRemoveConfig \<Rightarrow> string" where
  "cluster_ns c = cc_Namespace (tk_cephCluster (rc_taskConfig c))"

definition getNodeReport :: "env \<Rightarrow> cephOsdRemoveConfig \<Rightarrow> string \<Rightarrow>
    (DiskDaemonReport option \<times> string option) io" where
  "getNodeReport E c hostName =
     (let cmd = PelagiaDiskDaemon @ '' --osd-report --port ''
                @ show_int (cp_DiskDaemonPort (lc_CommonParams (rc_lcmConfig c)))
      in do {
        (report, err) \<leftarrow> RunFuncWithRetry retriesForFailedCommand diskDaemonRetryTimeout None (do {
          r \<leftarrow> RunAndParseDiskDaemonCLI E (task_Namespace (tk_task (rc_taskConfig c))) hostName cmd (e_DiskReport E);
          State_Monad.return (case r of
            Inl daemonErr \<Rightarrow> (None, Some daemonErr)
          | Inr report \<Rightarrow>
              if dr_State report = DiskDaemonStateInProgress
              then (None, Some ''node report is not prepared yet'')
              else (Some report, None))
        });
        State_Monad.return (case err of Some e \<Rightarrow> (None, Some e) | None \<Rightarrow> (report, None))
      })"

text \<open>The second component is the list of issues; a report is returned only with no issues.\<close>

definition tryToGetNodeOsdsReportOrIssues :: "env \<Rightarrow> cephOsdRemoveConfig \<Rightarrow> string \<Rightarrow>
    (DiskDaemonOsdsReport option \<times> string list) io" where
  "tryToGetNodeOsdsReportOrIssues E c host = do {
     (nodeReport, err) \<leftarrow> getNodeReport E c host;
     State_Monad.return (case (err, nodeReport) of
       (Some e, _) \<Rightarrow> (None, [node_msg host (''failed to get node osds report: '' @ e)])
     | (None, None) \<Rightarrow> (None, [node_msg host ''node osds report is not available, check daemon logs on related node''])
     | (None, Some report) \<Rightarrow>
         if length (dr_Issues report) > 0 then (None, map (node_msg host) (dr_Issues report))
         else case dr_OsdsReport report of
           None \<Rightarrow> (None, [node_msg host ''node osds report is not available, check daemon logs on related node''])
         | Some rep \<Rightarrow> (Some rep, []))
   }"

definition getOsdHostsFromCluster :: "env \<Rightarrow> cephOsdRemoveConfig \<Rightarrow> (string + (string, int list) gomap) io" where
  "getOsdHostsFromCluster E c = do {
     r \<leftarrow> RunAndParseCephToolboxCLI E (cluster_ns c) ''ceph osd tree -f json'' (e_OsdTree E);
     State_Monad.return (case r of
       Inl err \<Rightarrow> Inl err
     | Inr osdTree \<Rightarrow>
         Inr (fold (\<lambda>node hosts. if otn_Type node = ''host''
                                then AList.update (otn_Name node) (otn_Children node) hosts else hosts)
                (ot_Nodes osdTree) []))
   }"

definition getOsdInfo :: "env \<Rightarrow> cephOsdRemoveConfig \<Rightarrow> string \<Rightarrow> (string + OsdInfo) io" where
  "getOsdInfo E c osdID =
     RunAndParseCephToolboxCLI E (cluster_ns c) (''ceph osd info '' @ osdID @ '' --format json'') (e_OsdInfo E)"

definition checkPgsForOsd :: "env \<Rightarrow> cephOsdRemoveConfig \<Rightarrow> string \<Rightarrow> (bool \<times> string option) io" where
  "checkPgsForOsd E c osdID = do {
     r \<leftarrow> RunAndParseCephToolboxCLI E (cluster_ns c) (''ceph pg ls-by-osd '' @ osdID @ '' --format json'') (e_PgStats E);
     State_Monad.return (case r of
       Inl err \<Rightarrow>
         if str_contains err (''osd '' @ osdID @ '' is not up'') then (False, None) else (False, Some err)
     | Inr pgStats \<Rightarrow> (case pgStats of Some n \<Rightarrow> (n > 0, None) | None \<Rightarrow> (False, None)))
   }"

definition checkOperatorStopped :: "env \<Rightarrow> cephOsdRemoveConfig \<Rightarrow> bool io" where
  "checkOperatorStopped E c = do {
     r \<leftarrow> issue (GetDeployment (cluster_ns c) RookCephOperatorName)
            (\<lambda>h. e_GetDeployment E h (cluster_ns c) RookCephOperatorName);
     State_Monad.return (case r of
       Inl err \<Rightarrow> False
     | Inr deploy \<Rightarrow> dep_Replicas deploy = 0 \<and> dep_ReadyReplicas deploy = 0 \<and> dep_AvailableReplicas deploy = 0)
   }"

definition removeOsdDeployment :: "env \<Rightarrow> cephOsdRemoveConfig \<Rightarrow> string \<Rightarrow> string option io" where
  "removeOsdDeployment E c deployName = do {
     err \<leftarrow> issue (DeleteDeployment (cluster_ns c) deployName)
              (\<lambda>h. e_DeleteDeployment E h (cluster_ns c) deployName);
     State_Monad.return (case err of
       None \<Rightarrow> None
     | Some e \<Rightarrow> if is_not_found e then None
                else Some (wrap (err_msg e) (''failed to delete osd deployment '' @ quoted deployName)))
   }"

end
