(* ===== verification/Spec_Devices.thy ===== *)
theory Spec_Devices
  imports Osd_Helpers
begin

text \<open>
  The device functions of \<^verbatim>\<open>osdremove-task/spec_handler.go\<close>: the devices of an OSD as the disk
  daemon sees them, the devices a node's storage specification uses, whether an OSD uses one of
  those, and which devices a cleanup may zap.
\<close>

section \<open>Devices of an OSD\<close>

fun device_path :: "string \<Rightarrow> string list \<Rightarrow> string" where
  "device_path devPath [] = devPath"
| "device_path devPath (symlink # symlinks) =
     (if HasPrefix symlink ''/dev/disk/by-path/'' then symlink
      else if HasPrefix symlink ''/dev/disk/by-id/lvm'' then device_path devPath symlinks
      else device_path symlink symlinks)"

fun usage_type :: "string \<Rightarrow> OsdPartition list \<Rightarrow> string" where
  "usage_type related [] = []"
| "usage_type related (part # parts) =
     (if op_Partition part = related then op_Type part else usage_type related parts)"

definition device_info :: "OsdDaemonInfo \<Rightarrow> OsdDevice \<Rightarrow> DeviceInfo" where
  "device_info info dev =
     (let di = DeviceInfo0\<lparr>di_ID := od_DeviceID dev, di_Rotational := od_Rotational dev,
            di_Path := device_path (od_Name dev) (od_DeviceSymlinks dev),
            di_Partition := od_RelatedPartition dev,
            di_Type := usage_type (od_RelatedPartition dev) (odi_Partitions info),
            di_Alive := True, di_PartedBy := od_PartedBy dev, di_Raw := od_Raw dev\<rparr>
      in if od_Raw dev then di\<lparr>di_Type := ''block'', di_Partition := od_Name dev\<rparr> else di)"

definition getDevsInfoFromDaemonInfo :: "OsdDaemonInfo \<Rightarrow> device_map" where
  "getDevsInfoFromDaemonInfo info =
     fold (\<lambda>dev newInfo. AList.update (od_Name dev) (device_info info dev) newInfo) (odi_Devices info) []"

section \<open>Devices of the specification\<close>

record usedDevices =
  ud_DeviceFilter :: string
  ud_DevicePathFilter :: string
  ud_Devices :: "(string, string) gomap"

text \<open>The zero value, for a host that is not in the specification.\<close>

definition usedDevices0 :: usedDevices where
  "usedDevices0 = \<lparr>ud_DeviceFilter = [], ud_DevicePathFilter = [], ud_Devices = []\<rparr>"

definition used_by_device :: "CephDevice \<Rightarrow> (string, string) gomap \<Rightarrow> (string, string) gomap" where
  "used_by_device device devs =
     (let devs = (if cd_Name device \<noteq> [] then AList.update (PathDevPrepended (cd_Name device)) ''block'' devs
                  else if cd_FullPath device \<noteq> [] then AList.update (cd_FullPath device) ''block'' devs
                  else devs);
          meta = str_of (cd_Config device) ''metadataDevice''
      in if meta \<noteq> [] then AList.update (PathDevPrepended meta) ''db'' devs else devs)"

definition getListUsedDevices :: "CephNode \<Rightarrow> usedDevices" where
  "getListUsedDevices node =
     (let devs = (case map_of (cn_Config node) ''metadataDevice'' of
                    None \<Rightarrow> [] | Some dev \<Rightarrow> [(PathDevPrepended dev, ''db'')])
      in if cn_Devices node = [] then
           \<lparr>ud_DeviceFilter = cn_DeviceFilter node, ud_DevicePathFilter = cn_DevicePathFilter node,
            ud_Devices = devs\<rparr>
         else
           \<lparr>ud_DeviceFilter = [], ud_DevicePathFilter = [],
            ud_Devices = fold used_by_device (cn_Devices node) devs\<rparr>)"

section \<open>Is an OSD in the specification?\<close>

type_synonym names_by_type = "(string, string list) gomap"

definition dev_names :: "OsdDevice \<Rightarrow> string list" where
  "dev_names dev = [od_Name dev, PathDevPrepended (od_Name dev)] @ od_DeviceSymlinks dev"

definition part_names :: "OsdPartition \<Rightarrow> string list" where
  "part_names part = [op_Partition part] @ op_PartitionSymlinks part"

definition collect_names :: "OsdDaemonInfo \<Rightarrow> string \<Rightarrow> OsdDevice \<Rightarrow> names_by_type \<times> names_by_type \<Rightarrow>
    names_by_type \<times> names_by_type" where
  "collect_names info lookForDev dev maps =
     (case maps of (devMapping, partMapping) \<Rightarrow>
        if od_Raw dev then
          (if lookForDev = [] \<or> Contains (dev_names dev) (PathDevPrepended lookForDev)
           then (AList.update ''block'' (dev_names dev) devMapping, partMapping)
           else (devMapping, partMapping))
        else
          (case find (\<lambda>part. op_Partition part = od_RelatedPartition dev) (odi_Partitions info) of
             None \<Rightarrow> (devMapping, partMapping)
           | Some part \<Rightarrow>
               if lookForDev = [] \<or> Contains (dev_names dev) (PathDevPrepended lookForDev)
                  \<or> Contains (part_names part) (PathDevPrepended lookForDev)
               then (AList.update (op_Type part) (dev_names dev) devMapping,
                     AList.update (op_Type part) (part_names part) partMapping)
               else (devMapping, partMapping)))"

definition found_by_name :: "usedDevices \<Rightarrow> names_by_type \<Rightarrow> names_by_type \<Rightarrow> string \<Rightarrow> string" where
  "found_by_name specDevs devMapping partMapping devType =
     (let fromDev = (case find (\<lambda>dev. map_of (ud_Devices specDevs) dev \<noteq> None) (get_or [] devMapping devType) of
                       None \<Rightarrow> [] | Some dev \<Rightarrow> dev)
      in case find (\<lambda>p. map_of (ud_Devices specDevs) p = Some devType) (get_or [] partMapping devType) of
           None \<Rightarrow> fromDev | Some p \<Rightarrow> p)"

fun search_types :: "usedDevices \<Rightarrow> names_by_type \<Rightarrow> names_by_type \<Rightarrow> string list \<Rightarrow> string \<times> string \<times> bool" where
  "search_types specDevs devMapping partMapping [] = ([], [], False)"
| "search_types specDevs devMapping partMapping (devType # devTypes) =
     (let foundInSpec = found_by_name specDevs devMapping partMapping devType
      in if foundInSpec \<noteq> [] then (foundInSpec, devType, True)
         else search_types specDevs devMapping partMapping devTypes)"

text \<open>\<open>None\<close> is the panic of \<^verbatim>\<open>regexp.MustCompile\<close> on a malformed filter.\<close>

definition inSpec :: "env \<Rightarrow> OsdDaemonInfo \<Rightarrow> usedDevices \<Rightarrow> string \<Rightarrow> (string \<times> string \<times> bool) option" where
  "inSpec E info specDevs lookForDev =
     (case fold (collect_names info lookForDev) (odi_Devices info) ([], []) of
        (devMapping, partMapping) \<Rightarrow>
          (case map_of devMapping ''block'' of
             None \<Rightarrow> Some (search_types specDevs devMapping partMapping [''block'', ''db''])
           | Some devNames \<Rightarrow>
               if ud_DeviceFilter specDevs \<noteq> [] \<or> ud_DevicePathFilter specDevs \<noteq> [] then
                 let filt = (if ud_DeviceFilter specDevs \<noteq> [] then ud_DeviceFilter specDevs
                             else ud_DevicePathFilter specDevs)
                 in case e_Regexp E filt of
                      None \<Rightarrow> None
                    | Some matches \<Rightarrow>
                        if list_ex (\<lambda>name. matches (if ud_DeviceFilter specDevs \<noteq> []
                                                    then cut_prefix name ''/dev/'' else name)) devNames
                           \<or> list_ex matches (get_or [] partMapping ''block'')
                        then Some (filt, ''block'', True)
                        else Some (search_types specDevs devMapping partMapping [''db''])
               else Some (search_types specDevs devMapping partMapping [''block'', ''db''])))"

section \<open>Zapping\<close>

definition isLvmRookMade :: "string \<Rightarrow> bool" where
  "isLvmRookMade lvmPartition = HasPrefix (split_last CHR ''/'' lvmPartition) RookLVMarker"

text \<open>The decision for one device: its new entry and the warnings about it.\<close>

definition zap_device :: "string \<Rightarrow> string \<Rightarrow> (string, bool) gomap \<Rightarrow> bool \<Rightarrow> string \<Rightarrow> DeviceInfo \<Rightarrow>
    DeviceInfo \<times> string list" where
  "zap_device host osd lockedDevices allowToRemoveAllLvms device dm =
     (if \<not> di_Alive dm then (dm, [])
      else if di_Raw dm then (dm\<lparr>di_Zap := True\<rparr>, [])
      else if di_PartedBy dm \<noteq> [] then
        (dm\<lparr>di_Zap := False\<rparr>,
         [node_msg host (''found osd '' @ di_Type dm @ '' partition '' @ quoted (di_Partition dm) @ '' for osd '' @ quoted osd
            @ '', which is placed on top of another partition '' @ quoted (di_PartedBy dm) @ '', skipping disk zap'')])
      else
        let allowLvmDrop = (isLvmRookMade (di_Partition dm) \<or> allowToRemoveAllLvms)
        in (dm\<lparr>di_Zap := (if flag lockedDevices device then False else allowLvmDrop)\<rparr>,
            if \<not> allowLvmDrop then
              [node_msg host (''found osd '' @ di_Type dm @ '' partition '' @ quoted (di_Partition dm) @ '' for osd '' @ quoted osd
                 @ '', which is created not by rook, skipping disk/partition zap'')]
            else []))"

definition checkDeviceZapping :: "string \<Rightarrow> osd_map \<Rightarrow> (string, bool) gomap \<Rightarrow> bool \<Rightarrow> osd_map \<times> string list" where
  "checkDeviceZapping host osdMapping lockedDevices allowToRemoveAllLvms =
     (let zap = zap_device host;
          visit = (\<lambda>osd m. map (\<lambda>(dev, dm). (dev, zap osd lockedDevices allowToRemoveAllLvms dev dm)) (om_DeviceMapping m))
      in (map (\<lambda>(osd, m). (osd, if om_SkipDeviceCleanupJob m then m
                               else m\<lparr>om_DeviceMapping := map (\<lambda>(dev, r). (dev, fst r)) (visit osd m)\<rparr>)) osdMapping,
          concat (map (\<lambda>(osd, m). if om_SkipDeviceCleanupJob m then []
                                 else concat (map (\<lambda>(dev, r). snd r) (visit osd m))) osdMapping)))"

section \<open>Lemmas\<close>

text \<open>The devices that may be zapped: a raw disk, or a device whose volume Rook made (or whose
  removal the configuration allows), not parted and not locked by another user.\<close>

definition zap_allowed :: "(string, bool) gomap \<Rightarrow> bool \<Rightarrow> string \<Rightarrow> DeviceInfo \<Rightarrow> bool" where
  "zap_allowed lockedDevices allowToRemoveAllLvms device dm \<longleftrightarrow>
     di_Alive dm \<and>
     (di_Raw dm \<or>
      di_PartedBy dm = [] \<and> \<not> flag lockedDevices device \<and>
      (isLvmRookMade (di_Partition dm) \<or> allowToRemoveAllLvms))"

text \<open>No device of the map is marked yet: how the mapping looks before the decision.\<close>

definition unzapped :: "osd_map \<Rightarrow> bool" where
  "unzapped m \<longleftrightarrow> (\<forall>(osd, om) \<in> set m. \<forall>(dev, dm) \<in> set (om_DeviceMapping om). \<not> di_Zap dm)"

lemma zap_device_allowed:
  "\<not> di_Zap dm \<Longrightarrow>
   di_Zap (fst (zap_device host osd locked allow dev dm)) \<longleftrightarrow> zap_allowed locked allow dev dm"
  by (auto simp: zap_device_def zap_allowed_def Let_def)

lemma zap_device_frame:
  "fst (zap_device host osd locked allow dev dm) = dm\<lparr>di_Zap := di_Zap (fst (zap_device host osd locked allow dev dm))\<rparr>"
  by (auto simp: zap_device_def Let_def)

lemma checkDeviceZapping_keys [simp]:
  "keys (fst (checkDeviceZapping host m locked allow)) = keys m"
  by (simp add: checkDeviceZapping_def Let_def split_beta comp_def)

lemma checkDeviceZapping_device:
  assumes "(osd, om') \<in> set (fst (checkDeviceZapping host m locked allow))"
    and "(dev, dm') \<in> set (om_DeviceMapping om')"
  obtains om dm where "(osd, om) \<in> set m" "(dev, dm) \<in> set (om_DeviceMapping om)"
    "dm' = (if om_SkipDeviceCleanupJob om then dm else fst (zap_device host osd locked allow dev dm))"
    "om' = om\<lparr>om_DeviceMapping := om_DeviceMapping om'\<rparr>"
proof -
  from assms(1) obtain om where om: "(osd, om) \<in> set m"
    and om': "om' = (if om_SkipDeviceCleanupJob om then om
      else om\<lparr>om_DeviceMapping := map (\<lambda>(dev, dm). (dev, fst (zap_device host osd locked allow dev dm))) (om_DeviceMapping om)\<rparr>)"
    by (auto simp: checkDeviceZapping_def Let_def comp_def split_beta)
  from assms(2) om' obtain dm where "(dev, dm) \<in> set (om_DeviceMapping om)"
    "dm' = (if om_SkipDeviceCleanupJob om then dm else fst (zap_device host osd locked allow dev dm))"
    by (auto split: if_splits)
  with om om' show ?thesis by (intro that) (auto split: if_splits)
qed

lemma checkDeviceZapping_safe:
  assumes "unzapped m"
    and "(osd, om) \<in> set (fst (checkDeviceZapping host m locked allow))"
    and "(dev, dm) \<in> set (om_DeviceMapping om)" and "di_Zap dm"
  shows "zap_allowed locked allow dev dm \<and> \<not> om_SkipDeviceCleanupJob om"
  using assms(2,3)
proof (rule checkDeviceZapping_device)
  fix om0 dm0
  assume *: "(osd, om0) \<in> set m" "(dev, dm0) \<in> set (om_DeviceMapping om0)"
    "dm = (if om_SkipDeviceCleanupJob om0 then dm0 else fst (zap_device host osd locked allow dev dm0))"
    "om = om0\<lparr>om_DeviceMapping := om_DeviceMapping om\<rparr>"
  from * assms(1) have z: "\<not> di_Zap dm0" by (auto simp: unzapped_def)
  with * assms(4) have skip: "\<not> om_SkipDeviceCleanupJob om0" by auto
  with * assms(4) z have "zap_allowed locked allow dev dm0"
    using zap_device_allowed by metis
  moreover have "dm = dm0\<lparr>di_Zap := di_Zap dm\<rparr>"
    using * skip zap_device_frame by metis
  ultimately have "zap_allowed locked allow dev dm"
    by (metis (no_types, lifting) DeviceInfo.select_convs DeviceInfo.surjective DeviceInfo.update_convs(7) zap_allowed_def)
  moreover have "om_SkipDeviceCleanupJob om = om_SkipDeviceCleanupJob om0"
    using *(4) by (metis OsdMapping.select_convs(6) OsdMapping.surjective OsdMapping.update_convs(5))
  ultimately show ?thesis using skip by simp
qed

lemma getDevsInfo_entry:
  assumes "(dev, dm) \<in> set (getDevsInfoFromDaemonInfo info)"
  shows "\<exists>d \<in> set (odi_Devices info). dev = od_Name d \<and> dm = device_info info d"
proof -
  have "(dev, dm) \<in> set (fold (\<lambda>dev newInfo. AList.update (od_Name dev) (device_info info dev) newInfo) ds m) \<Longrightarrow>
      (\<exists>d \<in> set ds. dev = od_Name d \<and> dm = device_info info d) \<or> (dev, dm) \<in> set m" for ds m
    by (induction ds arbitrary: m) (auto dest: in_update)
  with assms show ?thesis unfolding getDevsInfoFromDaemonInfo_def by fastforce
qed

lemma wf_getDevsInfo [simp]: "wf_map (getDevsInfoFromDaemonInfo info)"
proof -
  have "wf_map m \<Longrightarrow> wf_map (fold (\<lambda>dev newInfo. AList.update (od_Name dev) (device_info info dev) newInfo) ds m)" for ds m
    by (induction ds arbitrary: m) auto
  then show ?thesis unfolding getDevsInfoFromDaemonInfo_def by simp
qed

lemma getDevsInfo_unzapped: "(dev, dm) \<in> set (getDevsInfoFromDaemonInfo info) \<Longrightarrow> \<not> di_Zap dm \<and> di_Alive dm"
proof -
  have "\<not> di_Zap (device_info info d) \<and> di_Alive (device_info info d)" for d
    by (simp add: device_info_def DeviceInfo0_def Let_def)
  then show "(dev, dm) \<in> set (getDevsInfoFromDaemonInfo info) \<Longrightarrow> \<not> di_Zap dm \<and> di_Alive dm"
    by (auto dest!: getDevsInfo_entry)
qed

lemma search_types_found:
  "search_types sd dm pm ts = (name, ty, True) \<Longrightarrow> name \<noteq> [] \<and> ty \<in> set ts \<and> map_of (ud_Devices sd) name \<noteq> None"
proof (induction ts)
  case (Cons t ts)
  show ?case
  proof (cases "found_by_name sd dm pm t = []")
    case True
    with Cons show ?thesis by (simp add: Let_def)
  next
    case False
    then have "map_of (ud_Devices sd) (found_by_name sd dm pm t) \<noteq> None"
      by (auto simp: found_by_name_def Let_def split: option.splits dest!: find_SomeD)
    with Cons False show ?thesis by (auto simp: Let_def)
  qed
qed simp

end
