(* ===== verification/Cleanup_Job.thy ===== *)
theory Cleanup_Job
  imports Spec_Devices
begin

text \<open>
  The device cleanup job: \<^verbatim>\<open>osdremove-task/cleanup_job.go\<close>. One container per device, in the
  order of the device names, each with the script that \<open>cleanup_script\<close> selects.
\<close>

definition ControllerName :: string where
  "ControllerName = ''pelagia-osdremove-task-controller''"

definition baseResourceLabels :: "(string, string) gomap" where
  "baseResourceLabels = PelagiaResourceLabels ControllerName"

section \<open>The script of one device\<close>

definition cleanup_script :: "bool \<Rightarrow> string \<Rightarrow> string \<Rightarrow> DeviceInfo \<Rightarrow> script" where
  "cleanup_script allowManualLVM hostOsdDirectory device deviceInfo =
     (let hostDirCleanUpMacros =
            (if hostOsdDirectory \<noteq> [] then HostDirectoryCleanup hostOsdDirectory (di_Raw deviceInfo) else NoScript)
      in if \<not> di_Alive deviceInfo then
           (if device = di_Partition deviceInfo then hostDirCleanUpMacros
            else DmSetupTableClean (di_Partition deviceInfo) hostDirCleanUpMacros)
         else
           let destroyLVM = (isLvmRookMade (di_Partition deviceInfo) \<or> allowManualLVM)
           in if di_Raw deviceInfo then
                DiskRawCleanup (di_Path deviceInfo) (di_Rotational deviceInfo) hostDirCleanUpMacros
              else if di_Zap deviceInfo \<and> destroyLVM then
                PartitionCleanup (di_Partition deviceInfo) destroyLVM
                  (DiskCleanup (di_Path deviceInfo) (di_Rotational deviceInfo) hostDirCleanUpMacros)
              else
                PartitionCleanup (di_Partition deviceInfo) destroyLVM hostDirCleanUpMacros)"

section \<open>The job\<close>

definition base_volumes :: "Volume list" where
  "base_volumes = [\<lparr>vol_Name = ''host-dev'', vol_HostPath = ''/dev'', vol_Type = None\<rparr>,
     \<lparr>vol_Name = ''run-udev'', vol_HostPath = ''/run/udev'', vol_Type = Some ''Directory''\<rparr>]"

definition base_mounts :: "VolumeMount list" where
  "base_mounts = [\<lparr>vm_Name = ''host-dev'', vm_MountPath = ''/dev'', vm_ReadOnly = False\<rparr>,
     \<lparr>vm_Name = ''run-udev'', vm_MountPath = ''/run/udev'', vm_ReadOnly = True\<rparr>]"

definition device_broken :: "DeviceInfo \<Rightarrow> bool" where
  "device_broken di \<longleftrightarrow> di_Partition di = [] \<or> di_Path di = []"

definition device_label :: "string \<Rightarrow> string" where
  "device_label device = (if HasPrefix device ''/dev/'' then replace_all device ''/dev/'' [] else device)"

definition cleanup_container :: "bool \<Rightarrow> string \<Rightarrow> string \<Rightarrow> VolumeMount list \<Rightarrow> device_map \<Rightarrow> nat \<times> string \<Rightarrow>
    script Container" where
  "cleanup_container allowManualLVM podImage hostOsdDirectory mounts devices p =
     (case p of (idx, device) \<Rightarrow>
        \<lparr>con_Name = ''cleanup-run-'' @ show_nat idx, con_Image = podImage, con_Privileged = True,
         con_DropCapabilities = [''NET_RAW''], con_VolumeMounts = mounts,
         con_Command = cleanup_script allowManualLVM hostOsdDirectory device (get_or DeviceInfo0 devices device),
         con_Env = [(''DEVICE_NAME'', device), (''DM_DISABLE_UDEV'', ''1'')]\<rparr>)"

definition createCleanupJob :: "env \<Rightarrow> script Job \<Rightarrow> string option io" where
  "createCleanupJob E job = do {
     (_, err) \<leftarrow> RunFuncWithRetry retriesForFailedCommand commandRetryRunTimeout () (do {
       r \<leftarrow> issue (GetJob (job_Namespace job) (job_Name job)) (\<lambda>h. e_GetJob E h (job_Namespace job) (job_Name job));
       let create = do {
         e \<leftarrow> issue (CreateJob job) (\<lambda>h. e_CreateJob E h job);
         State_Monad.return ((), map_option err_msg e)
       };
       case r of
         Inl e \<Rightarrow> if is_not_found e then create else State_Monad.return ((), Some (err_msg e))
       | Inr presentJob \<Rightarrow>
           if js_Active presentJob > 0 then State_Monad.return ((), Some ''waiting old job'')
           else do {
             e \<leftarrow> issue (DeleteJob (job_Namespace job) (job_Name job)) (\<lambda>h. e_DeleteJob E h (job_Namespace job) (job_Name job));
             case e of
               Some er \<Rightarrow> State_Monad.return ((), Some (err_msg er))
             | None \<Rightarrow> create
           }
     });
     State_Monad.return err
   }"

definition cleanup_job :: "env \<Rightarrow> cephOsdRemoveConfig \<Rightarrow> string \<Rightarrow> string \<Rightarrow> string \<Rightarrow> string \<Rightarrow> OwnerReference list \<Rightarrow>
    device_map \<Rightarrow> script Job" where
  "cleanup_job E c host osdID hostOsdDirectory podImage ownerRefs devices =
     (let cluster = tk_cephCluster (rc_taskConfig c);
          task = tk_task (rc_taskConfig c);
          hostDataPath = (if cc_DataDirHostPath cluster \<noteq> [] then cc_DataDirHostPath cluster else DefaultDataDirHostPath);
          mountDir = (hostOsdDirectory \<noteq> [] \<and> hostDataPath \<noteq> [] \<and> HasPrefix hostOsdDirectory hostDataPath);
          volumes = (if mountDir then base_volumes @ [\<lparr>vol_Name = ''host-rook'', vol_HostPath = hostDataPath, vol_Type = None\<rparr>]
                     else base_volumes);
          mounts = (if mountDir then base_mounts @ [\<lparr>vm_Name = ''host-rook'', vm_MountPath = hostDataPath, vm_ReadOnly = False\<rparr>]
                    else base_mounts);
          osdIDToUse = (if isStrayOsdID osdID then replace_all osdID ''__'' [] else osdID);
          labels = ExtendLabels [(''app'', diskCleanupJobLabel), (''rook-cluster'', cc_Name cluster), (''host'', host),
                     (''osd'', osdIDToUse), (''task'', task_Name task)] baseResourceLabels;
          good = filter (\<lambda>(_, di). \<not> device_broken di) devices;
          devicesList = sort (keys good)
      in \<lparr>job_Name = e_TruncateNodeName E ''device-cleanup-job-%s'' (host @ ''-'' @ osdIDToUse),
          job_Namespace = task_Namespace task,
          job_Labels = fold (\<lambda>(device, _). AList.update (device_label device) ''true'') good labels,
          job_OwnerReferences = ownerRefs,
          job_BackoffLimit = 0,
          job_ActiveDeadlineSeconds = DiskCleanupTimeout,
          job_PodName = diskCleanupJobLabel,
          job_RunAsUser = 0,
          job_NodeSelector = [(''kubernetes.io/hostname'', host)],
          job_Containers = map (cleanup_container (tp_AllowToRemoveManuallyCreatedLVM (lc_TaskParams (rc_lcmConfig c)))
            podImage hostOsdDirectory mounts devices) (zip [1..<Suc (length devicesList)] devicesList),
          job_Volumes = volumes,
          job_RestartPolicy = ''Never''\<rparr>)"

text \<open>The result is the job's name, which is empty when the job could not even be named, and the
  error.\<close>

definition runCleanupJob :: "env \<Rightarrow> cephOsdRemoveConfig \<Rightarrow> string \<Rightarrow> string \<Rightarrow> string \<Rightarrow> device_map \<Rightarrow>
    (string \<times> string option) io" where
  "runCleanupJob E c host osdID hostOsdDirectory devices =
     (let task = tk_task (rc_taskConfig c)
      in case GetObjectOwnerRef E ''CephOsdRemoveTask'' (task_Name task) (task_UID task) of
           Inl err \<Rightarrow> State_Monad.return ([], Some (wrap err ''failed to get CephOsdRemoveTask owner refs''))
         | Inr ownerRefs \<Rightarrow>
             (case cls_CephImage (cc_Status (tk_cephCluster (rc_taskConfig c))) of
                None \<Rightarrow> State_Monad.return ([], Some ''failed to determine ceph cluster image, no current used image in status'')
              | Some podImage \<Rightarrow>
                  if podImage = [] then
                    State_Monad.return ([], Some ''failed to determine ceph cluster image, no current used image in status'')
                  else
                    let job = cleanup_job E c host osdID hostOsdDirectory podImage ownerRefs devices
                    in if list_ex (\<lambda>(_, di). device_broken di) devices then
                         State_Monad.return (job_Name job, Some ''partition or device path missed in provided info'')
                       else do {
                         err \<leftarrow> createCleanupJob E job;
                         State_Monad.return (job_Name job, err)
                       }))"

definition getCleanupJob :: "env \<Rightarrow> cephOsdRemoveConfig \<Rightarrow> string \<Rightarrow> (JobStatus \<times> string option) io" where
  "getCleanupJob E c jobName =
     (let ns = task_Namespace (tk_task (rc_taskConfig c));
          zero = \<lparr>js_Active = 0, js_Succeeded = 0, js_Failed = 0, js_Conditions = []\<rparr>
      in RunFuncWithRetry retriesForFailedCommand commandRetryRunTimeout zero (do {
           r \<leftarrow> issue (GetJob ns jobName) (\<lambda>h. e_GetJob E h ns jobName);
           State_Monad.return (case r of Inl e \<Rightarrow> (zero, Some (err_msg e)) | Inr job \<Rightarrow> (job, None))
         }))"

section \<open>Lemmas\<close>

lemma createCleanupJob_calls [calls_intro]:
  assumes "\<And>a b. P (GetJob a b)" "\<And>i. P (Sleep i)"
    "P (DeleteJob (job_Namespace job) (job_Name job))" "P (CreateJob job)"
  shows "calls_in P (createCleanupJob E job)"
  unfolding createCleanupJob_def Let_def
  by (intro calls_intro assms)

lemma getCleanupJob_calls [calls_intro]:
  "(\<And>a b. P (GetJob a b)) \<Longrightarrow> (\<And>i. P (Sleep i)) \<Longrightarrow> calls_in P (getCleanupJob E c name)"
  unfolding getCleanupJob_def Let_def by (auto intro!: calls_intro)

text \<open>A script wipes a whole disk only for a raw device, or for a device marked for zapping whose
  volume may be destroyed, and then only that device's own path.\<close>

lemma cleanup_script_wipes:
  "wipes (cleanup_script allow dir device di) =
     (if di_Alive di \<and> (di_Raw di \<or> di_Zap di \<and> (isLvmRookMade (di_Partition di) \<or> allow))
      then {di_Path di} else {})"
  by (auto simp: cleanup_script_def Let_def)

end
