(* ===== verification/Executor.thy ===== *)
theory Executor
  imports Cleanup_Job
begin

text \<open>
  The executor of an approved task: \<^verbatim>\<open>osdremove-task/executor.go\<close>. Each function of the file is
  a definition of the same name; the loops of \<^verbatim>\<open>processOsdRemoveTask\<close> are the definitions
  \<open>collect_osd\<close>, \<open>collect_host\<close>, \<open>drop_host\<close>, \<open>finished_step\<close>, \<open>stray_step\<close>, \<open>remove_step\<close>,
  \<open>rebalance_step\<close> and \<open>pending_loop\<close>, in the order of the source.

  The waiting times are compared as durations: the source subtracts two \<^verbatim>\<open>Duration.Minutes()\<close>
  values, and since that conversion is monotone the sign of the difference is the same.
\<close>

section \<open>Commands\<close>

definition ceph_with_retry :: "env \<Rightarrow> cephOsdRemoveConfig \<Rightarrow> string \<Rightarrow> string option io" where
  "ceph_with_retry E c cmd = do {
     (_, err) \<leftarrow> RunFuncWithRetry retriesForFailedCommand commandRetryRunTimeout () (do {
       (_, cmdErr) \<leftarrow> RunCephToolboxCLI E (cluster_ns c) cmd;
       State_Monad.return ((), cmdErr)
     });
     State_Monad.return err
   }"

definition deploy_name :: "string \<Rightarrow> string" where
  "deploy_name osdID = ''rook-ceph-osd-'' @ osdID"

text \<open>Scaling a deployment that does not exist is not an error.\<close>

definition scale_down_with_retry :: "env \<Rightarrow> cephOsdRemoveConfig \<Rightarrow> string \<Rightarrow> string option io" where
  "scale_down_with_retry E c osdID = do {
     (_, err) \<leftarrow> RunFuncWithRetry retriesForFailedCommand commandRetryRunTimeout () (do {
       scaleErr \<leftarrow> ScaleDeployment E (deploy_name osdID) (cluster_ns c) 0;
       State_Monad.return ((), case scaleErr of None \<Rightarrow> None
         | Some e \<Rightarrow> if is_not_found e then None else Some (err_msg e))
     });
     State_Monad.return err
   }"

definition base_id :: "string \<Rightarrow> string" where
  "base_id osdID = (if isStrayOsdID osdID then split_first CHR ''.'' osdID else osdID)"

definition cmd_crush_remove :: "string \<Rightarrow> string" where
  "cmd_crush_remove host = ''ceph osd crush remove '' @ host"
definition cmd_purge :: "string \<Rightarrow> string" where
  "cmd_purge osdID = ''ceph osd purge '' @ osdID @ '' --force --yes-i-really-mean-it''"
definition cmd_auth_del :: "string \<Rightarrow> string" where
  "cmd_auth_del osdID = ''ceph auth del osd.'' @ osdID"
definition cmd_reweight :: "string \<Rightarrow> string" where
  "cmd_reweight osdID = ''ceph osd crush reweight osd.'' @ osdID @ '' 0.0''"
definition cmd_ok_to_stop :: "string \<Rightarrow> string" where
  "cmd_ok_to_stop osdID = ''ceph osd ok-to-stop '' @ osdID"
definition cmd_osd_info :: "string \<Rightarrow> string" where
  "cmd_osd_info osdID = ''ceph osd info '' @ osdID @ '' --format json''"
definition cmd_pg_ls :: "string \<Rightarrow> string" where
  "cmd_pg_ls osdID = ''ceph pg ls-by-osd '' @ osdID @ '' --format json''"
definition cmd_osd_ls :: string where
  "cmd_osd_ls = ''ceph osd ls''"

section \<open>Removal of one OSD\<close>

definition removeHostFromCrush :: "env \<Rightarrow> cephOsdRemoveConfig \<Rightarrow> string \<Rightarrow> RemoveStatus io" where
  "removeHostFromCrush E c host = do {
     startedAt \<leftarrow> GetCurrentTimeString E;
     let status = RemoveStatus0\<lparr>rs_StartedAt := startedAt\<rparr>;
     err \<leftarrow> ceph_with_retry E c (cmd_crush_remove host);
     case err of
       Some e \<Rightarrow> State_Monad.return (status\<lparr>rs_Status := RemoveFailed, rs_Error := e\<rparr>)
     | None \<Rightarrow> do {
         finishedAt \<leftarrow> GetCurrentTimeString E;
         State_Monad.return (status\<lparr>rs_Status := RemoveFinished, rs_FinishedAt := finishedAt\<rparr>)
       }
   }"

definition removeDeployment :: "env \<Rightarrow> cephOsdRemoveConfig \<Rightarrow> string \<Rightarrow> RemoveStatus io" where
  "removeDeployment E c osdID = do {
     let deployName = deploy_name (base_id osdID);
     startedAt \<leftarrow> GetCurrentTimeString E;
     let status = RemoveStatus0\<lparr>rs_Name := deployName, rs_Status := RemoveFinished, rs_StartedAt := startedAt\<rparr>;
     (_, err) \<leftarrow> RunFuncWithRetry retriesForFailedCommand commandRetryRunTimeout () (do {
       apiErr \<leftarrow> removeOsdDeployment E c deployName;
       State_Monad.return ((), apiErr)
     });
     case err of
       Some e \<Rightarrow> State_Monad.return (status\<lparr>rs_Status := RemoveFailed, rs_Error := e\<rparr>)
     | None \<Rightarrow> do {
         finishedAt \<leftarrow> GetCurrentTimeString E;
         State_Monad.return (status\<lparr>rs_FinishedAt := finishedAt\<rparr>)
       }
   }"

definition failed_with :: "RemoveStatus \<Rightarrow> string \<Rightarrow> RemoveStatus" where
  "failed_with status e = status\<lparr>rs_Status := RemoveFailed, rs_Error := e\<rparr>"

definition removeStray :: "env \<Rightarrow> cephOsdRemoveConfig \<Rightarrow> string \<Rightarrow> RemoveStatus \<Rightarrow> RemoveStatus io" where
  "removeStray E c osdID0 curRemoveStatus = do {
     let osdID = split_first CHR ''.'' osdID0;
     (dropOsdEntriesAllowed, err) \<leftarrow> RunFuncWithRetry retriesForFailedCommand commandRetryRunTimeout False (do {
       (osdLsOutput, cmdErr) \<leftarrow> RunCephToolboxCLI E (cluster_ns c) cmd_osd_ls;
       State_Monad.return (case cmdErr of
         Some e \<Rightarrow> (False, Some e)
       | None \<Rightarrow> (\<not> Contains (split_on (CHR 10) osdLsOutput) osdID, None))
     });
     case err of
       Some e \<Rightarrow> State_Monad.return (failed_with curRemoveStatus e)
     | None \<Rightarrow>
         if dropOsdEntriesAllowed then do {
           startedAt \<leftarrow> GetCurrentTimeString E;
           let status = curRemoveStatus\<lparr>rs_StartedAt := startedAt\<rparr>;
           err \<leftarrow> scale_down_with_retry E c osdID;
           case err of
             Some e \<Rightarrow> State_Monad.return (failed_with status e)
           | None \<Rightarrow> do {
               err \<leftarrow> ceph_with_retry E c (cmd_auth_del osdID);
               case err of
                 Some e \<Rightarrow> State_Monad.return (failed_with status e)
               | None \<Rightarrow> do {
                   finishedAt \<leftarrow> GetCurrentTimeString E;
                   State_Monad.return (status\<lparr>rs_Status := RemoveFinished, rs_FinishedAt := finishedAt\<rparr>)
                 }
             }
         }
         else State_Monad.return (curRemoveStatus\<lparr>rs_Status := RemoveSkipped\<rparr>)
   }"

definition removeFromCrush :: "env \<Rightarrow> cephOsdRemoveConfig \<Rightarrow> string \<Rightarrow> RemoveStatus \<Rightarrow> RemoveStatus io" where
  "removeFromCrush E c osdID0 curRemoveStatus = do {
     let osdID = base_id osdID0;
     err \<leftarrow> scale_down_with_retry E c osdID;
     case err of
       Some e \<Rightarrow> State_Monad.return (failed_with curRemoveStatus e)
     | None \<Rightarrow> do {
         err \<leftarrow> ceph_with_retry E c (cmd_purge osdID);
         case err of
           Some e \<Rightarrow> State_Monad.return (failed_with curRemoveStatus e)
         | None \<Rightarrow> do {
             err \<leftarrow> ceph_with_retry E c (cmd_auth_del osdID);
             case err of
               Some e \<Rightarrow> State_Monad.return (failed_with curRemoveStatus e)
             | None \<Rightarrow> do {
                 finishedAt \<leftarrow> GetCurrentTimeString E;
                 State_Monad.return (curRemoveStatus\<lparr>rs_Status := RemoveFinished, rs_FinishedAt := finishedAt\<rparr>)
               }
           }
       }
   }"

definition rebalance_timeout :: "cephOsdRemoveConfig \<Rightarrow> int" where
  "rebalance_timeout c = tp_OsdPgRebalanceTimeout (lc_TaskParams (rc_lcmConfig c))"

definition checkRebalance :: "env \<Rightarrow> cephOsdRemoveConfig \<Rightarrow> string \<Rightarrow> RemoveStatus \<Rightarrow> RemoveStatus io" where
  "checkRebalance E c osdID curRemoveStatus = do {
     (pgsForOsdPresent, err) \<leftarrow> RunFuncWithRetry retriesForFailedCommand commandRetryRunTimeout False
       (checkPgsForOsd E c osdID);
     case err of
       Some e \<Rightarrow> State_Monad.return (failed_with curRemoveStatus e)
     | None \<Rightarrow>
         if pgsForOsdPresent then
           (case e_ParseTime E (rs_StartedAt curRemoveStatus) of
              None \<Rightarrow> State_Monad.return curRemoveStatus
            | Some timeStart \<Rightarrow> do {
                since \<leftarrow> time_Since E timeStart;
                if rebalance_timeout c - since > 0 then State_Monad.return curRemoveStatus
                else State_Monad.return (failed_with curRemoveStatus
                  (''timeout ('' @ show_duration (rebalance_timeout c) @ '') reached for waiting pg rebalance''))
              })
         else State_Monad.return (curRemoveStatus\<lparr>rs_Status := RemoveInProgress\<rparr>)
   }"

text \<open>The result of \<^verbatim>\<open>ok-to-stop\<close> being refused: still pending while the timeout has not passed.
  The waiting time is \<open>Inl\<close> when the recorded start cannot be read.\<close>

definition ok_to_stop_refused :: "env \<Rightarrow> cephOsdRemoveConfig \<Rightarrow> string \<Rightarrow> RemoveStatus option \<Rightarrow> RemoveStatus io" where
  "ok_to_stop_refused E c osdID curRemoveStatus = do {
     let startedAt = (case curRemoveStatus of None \<Rightarrow> [] | Some s \<Rightarrow> rs_StartedAt s);
     waitLeft \<leftarrow>
       (if startedAt = [] then State_Monad.return (Some (rebalance_timeout c))
        else case e_ParseTime E startedAt of
               None \<Rightarrow> State_Monad.return None
             | Some timeStart \<Rightarrow> do {
                 since \<leftarrow> time_Since E timeStart;
                 State_Monad.return (Some (rebalance_timeout c - since))
               });
     case waitLeft of
       None \<Rightarrow> State_Monad.return (case curRemoveStatus of Some s \<Rightarrow> s | None \<Rightarrow> RemoveStatus0)
     | Some w \<Rightarrow>
         if w > 0 then
           if startedAt = [] then do {
             now \<leftarrow> GetCurrentTimeString E;
             State_Monad.return (RemoveStatus0\<lparr>rs_Status := RemovePending, rs_StartedAt := now\<rparr>)
           }
           else State_Monad.return (RemoveStatus0\<lparr>rs_Status := RemovePending\<rparr>)
         else State_Monad.return (RemoveStatus0\<lparr>rs_Status := RemoveFailed, rs_Error :=
           ''timeout ('' @ show_duration (rebalance_timeout c) @ '') reached for waiting ok-to-stop on osd '' @ quoted osdID\<rparr>)
   }"

definition reweight_osd :: "env \<Rightarrow> cephOsdRemoveConfig \<Rightarrow> string \<Rightarrow> RemovePhase \<Rightarrow> RemoveStatus io" where
  "reweight_osd E c osdID phase = do {
     err \<leftarrow> ceph_with_retry E c (cmd_reweight osdID);
     case err of
       Some e \<Rightarrow> State_Monad.return (RemoveStatus0\<lparr>rs_Status := RemoveFailed, rs_Error := e\<rparr>)
     | None \<Rightarrow> do {
         now \<leftarrow> GetCurrentTimeString E;
         State_Monad.return (RemoveStatus0\<lparr>rs_Status := phase, rs_StartedAt := now\<rparr>)
       }
   }"

definition tryToMoveOsdOut :: "env \<Rightarrow> cephOsdRemoveConfig \<Rightarrow> string \<Rightarrow> RemoveStatus option \<Rightarrow> RemoveStatus io" where
  "tryToMoveOsdOut E c osdID curRemoveStatus = do {
     (osdInfoOut, err) \<leftarrow> RunFuncWithRetry retriesForFailedCommand commandRetryRunTimeout None (do {
       r \<leftarrow> getOsdInfo E c osdID;
       State_Monad.return (case r of Inl e \<Rightarrow> (None, Some e) | Inr info \<Rightarrow> (Some info, None))
     });
     case (err, osdInfoOut) of
       (Some e, _) \<Rightarrow> State_Monad.return (RemoveStatus0\<lparr>rs_Status := RemoveFailed, rs_Error := e\<rparr>)
     | (None, None) \<Rightarrow> State_Monad.return RemoveStatus0
     | (None, Some osdInfo) \<Rightarrow>
         if oi_In osdInfo = 1 then
           if oi_Up osdInfo = 1 then do {
             (_, cliErr) \<leftarrow> RunCephToolboxCLI E (cluster_ns c) (cmd_ok_to_stop osdID);
             case cliErr of
               Some _ \<Rightarrow> ok_to_stop_refused E c osdID curRemoveStatus
             | None \<Rightarrow> reweight_osd E c osdID RemoveWaitingRebalance
           }
           else reweight_osd E c osdID RemoveInProgress
         else do {
           now \<leftarrow> GetCurrentTimeString E;
           State_Monad.return (RemoveStatus0\<lparr>rs_StartedAt := now, rs_Status :=
             (if oi_Up osdInfo = 1 then RemoveWaitingRebalance else RemoveInProgress)\<rparr>)
         }
   }"

section \<open>The device cleanup job of one OSD\<close>

text \<open>Whether another OSD that uses the same device keeps it from being zapped.\<close>

definition blocks_zap :: "OsdMapping \<Rightarrow> bool" where
  "blocks_zap om \<longleftrightarrow> om_SkipDeviceCleanupJob om \<or>
     (case job_phase om of
        None \<Rightarrow> True
      | Some ph \<Rightarrow> ph \<noteq> RemoveCompleted \<and> ph \<noteq> RemoveSkipped)"

definition unzap :: "OsdMapping \<Rightarrow> device_map \<Rightarrow> device_map" where
  "unzap om m = fold (\<lambda>device m. case map_of m device of
       Some v \<Rightarrow> if di_Zap v \<and> blocks_zap om then AList.update device (v\<lparr>di_Zap := False\<rparr>) m else m
     | None \<Rightarrow> m) (keys (om_DeviceMapping om)) m"

fun getJobData_loop :: "string \<Rightarrow> osd_map \<Rightarrow> device_map \<Rightarrow> bool \<times> device_map" where
  "getJobData_loop curOsdID [] curOsdDeviceMap = (False, curOsdDeviceMap)"
| "getJobData_loop curOsdID ((osdID, om) # rest) curOsdDeviceMap =
     (if osdID = curOsdID then getJobData_loop curOsdID rest curOsdDeviceMap
      else if job_phase om = Some RemoveInProgress then (True, curOsdDeviceMap)
      else getJobData_loop curOsdID rest (unzap om curOsdDeviceMap))"

definition getJobData :: "string \<Rightarrow> osd_map \<Rightarrow> bool \<times> device_map" where
  "getJobData curOsdID hostOsdMapping =
     getJobData_loop curOsdID hostOsdMapping (om_DeviceMapping (get_or OsdMapping0 hostOsdMapping curOsdID))"

definition handleJobRun :: "env \<Rightarrow> cephOsdRemoveConfig \<Rightarrow> string \<Rightarrow> string \<Rightarrow> osd_map \<Rightarrow> RemoveStatus io" where
  "handleJobRun E c osdID host hostOsdMapping =
     (let om = get_or OsdMapping0 hostOsdMapping osdID;
          fresh =
            (case getJobData osdID hostOsdMapping of (parallelJobDetected, jobData) \<Rightarrow>
               if parallelJobDetected then State_Monad.return (RemoveStatus0\<lparr>rs_Status := RemovePending\<rparr>)
               else if length jobData = 0 then State_Monad.return (RemoveStatus0\<lparr>rs_Status := RemoveSkipped\<rparr>)
               else do {
                 (jobName, err) \<leftarrow> runCleanupJob E c host osdID (om_HostDirectory om) jobData;
                 case err of
                   Some e \<Rightarrow> State_Monad.return (RemoveStatus0\<lparr>rs_Name := jobName, rs_Status := RemoveFailed,
                     rs_Error := ''failed to run job: '' @ e\<rparr>)
                 | None \<Rightarrow> do {
                     now \<leftarrow> GetCurrentTimeString E;
                     State_Monad.return (RemoveStatus0\<lparr>rs_Name := jobName, rs_Status := RemoveInProgress,
                       rs_StartedAt := now\<rparr>)
                   }
               })
      in case job_status om of
           None \<Rightarrow> fresh
         | Some curStatus \<Rightarrow>
             if rs_Status curStatus = RemovePending then fresh
             else do {
               (job, err) \<leftarrow> getCleanupJob E c (rs_Name curStatus);
               case err of
                 Some e \<Rightarrow> State_Monad.return (curStatus\<lparr>rs_Error := ''failed to get job info: '' @ e, rs_Status := RemoveFailed\<rparr>)
               | None \<Rightarrow>
                   if js_Active job > 0 then State_Monad.return curStatus
                   else if js_Failed job > 0 \<or> JobConditionsFailed job then
                     State_Monad.return (curStatus\<lparr>rs_Error := ''job failed, check logs'', rs_Status := RemoveFailed\<rparr>)
                   else if js_Succeeded job > 0 then do {
                     now \<leftarrow> GetCurrentTimeString E;
                     State_Monad.return (curStatus\<lparr>rs_Status := RemoveCompleted, rs_FinishedAt := now\<rparr>)
                   }
                   else State_Monad.return curStatus
             })"

section \<open>One run over the cleanup map\<close>

type_synonym host_osd = "string \<times> string"
type_synonym req_map = "(RemovePhase, host_osd list) gomap"

definition add_req :: "RemovePhase \<Rightarrow> host_osd \<Rightarrow> req_map \<Rightarrow> req_map" where
  "add_req ph pair req = AList.update ph (get_or [] req ph @ [pair]) req"

definition req_of :: "req_map \<Rightarrow> RemovePhase \<Rightarrow> host_osd list" where
  "req_of req ph = get_or [] req ph"

definition empty_req :: req_map where
  "empty_req = [(RemovePending, []), (RemoveWaitingRebalance, []), (RemoveInProgress, []), (RemoveFinished, []),
     (RemoveFailed, [])]"

definition update_osd :: "host_osd \<Rightarrow> (OsdMapping \<Rightarrow> OsdMapping) \<Rightarrow> cleanup_map \<Rightarrow> cleanup_map" where
  "update_osd p f m = adjust (fst p) (\<lambda>hm. hm\<lparr>hm_OsdMapping := adjust (snd p) f (hm_OsdMapping hm)\<rparr>) m"

definition set_osd_status :: "RemoveStatus \<Rightarrow> OsdMapping \<Rightarrow> OsdMapping" where
  "set_osd_status st om = om\<lparr>om_RemoveStatus := map_option (\<lambda>rr. rr\<lparr>rr_OsdRemoveStatus := Some st\<rparr>) (om_RemoveStatus om)\<rparr>"
definition set_job_status :: "RemoveStatus \<Rightarrow> OsdMapping \<Rightarrow> OsdMapping" where
  "set_job_status st om = om\<lparr>om_RemoveStatus := map_option (\<lambda>rr. rr\<lparr>rr_DeviceCleanUpJob := Some st\<rparr>) (om_RemoveStatus om)\<rparr>"
definition set_deploy_status :: "RemoveStatus \<Rightarrow> OsdMapping \<Rightarrow> OsdMapping" where
  "set_deploy_status st om = om\<lparr>om_RemoveStatus := map_option (\<lambda>rr. rr\<lparr>rr_DeployRemoveStatus := Some st\<rparr>) (om_RemoveStatus om)\<rparr>"

text \<open>The status an OSD gets in the first run.\<close>

definition initial_phase :: "string \<Rightarrow> string \<Rightarrow> OsdMapping \<Rightarrow> RemovePhase" where
  "initial_phase host osdID om =
     (if isStrayOsdID osdID \<or> host = StrayOsdNodeMarker
      then (if om_InCrushMap om then RemoveInProgress else RemoveStray)
      else RemovePending)"

definition init_osd :: "string \<Rightarrow> string \<Rightarrow> OsdMapping \<Rightarrow> OsdMapping" where
  "init_osd host osdID om = (case om_RemoveStatus om of
     Some _ \<Rightarrow> om
   | None \<Rightarrow> om\<lparr>om_RemoveStatus := Some \<lparr>rr_OsdRemoveStatus = Some (RemoveStatus0\<lparr>rs_Status := initial_phase host osdID om\<rparr>),
       rr_DeployRemoveStatus = None, rr_DeviceCleanUpJob = None\<rparr>\<rparr>)"

definition collect_osd :: "string \<Rightarrow> string \<times> OsdMapping \<Rightarrow> cleanup_map \<times> req_map \<times> int \<Rightarrow> cleanup_map \<times> req_map \<times> int" where
  "collect_osd host p acc =
     (case (p, acc) of ((osdID, osdMap), (info, req, osdsNotCompleted)) \<Rightarrow>
        (case om_RemoveStatus osdMap of
           None \<Rightarrow>
             (update_osd (host, osdID) (\<lambda>_. init_osd host osdID osdMap) info,
              add_req (initial_phase host osdID osdMap) (host, osdID) req,
              osdsNotCompleted)
         | Some rr \<Rightarrow>
             (case rr_OsdRemoveStatus rr of
                None \<Rightarrow> (info, req, osdsNotCompleted)
              | Some st \<Rightarrow>
                  (info,
                   (if rs_Status st = RemoveSkipped then add_req RemoveFinished (host, osdID) req
                    else add_req (rs_Status st) (host, osdID) req),
                   (if rs_Status st = RemoveFinished \<or> rs_Status st = RemoveSkipped
                    then osdsNotCompleted - 1 else osdsNotCompleted)))))"

definition collect_host :: "string \<times> HostMapping \<Rightarrow> cleanup_map \<times> req_map \<times> string list \<Rightarrow>
    cleanup_map \<times> req_map \<times> string list" where
  "collect_host p acc =
     (case (p, acc) of ((host, hostMap), (info, req, hostsToRemove)) \<Rightarrow>
        (case fold (collect_osd host) (hm_OsdMapping hostMap) (info, req, int (length (hm_OsdMapping hostMap))) of
           (info', req', osdsNotCompleted) \<Rightarrow>
             (info', req',
              if (hm_CompleteCleanup hostMap \<or> hm_DropFromCrush hostMap) \<and> osdsNotCompleted = 0
                 \<and> hm_HostRemoveStatus hostMap = None
              then hostsToRemove @ [host] else hostsToRemove)))"

definition drop_host :: "env \<Rightarrow> cephOsdRemoveConfig \<Rightarrow> string \<Rightarrow> TaskRemoveInfo \<Rightarrow> TaskRemoveInfo io" where
  "drop_host E c host info = do {
     newStatus \<leftarrow> removeHostFromCrush E c host;
     let info = (if rs_Error newStatus \<noteq> [] then info\<lparr>tri_Warnings := tri_Warnings info @
           [node_msg host (''failed to remove node from crush map: '' @ rs_Error newStatus)]\<rparr> else info);
     State_Monad.return (info\<lparr>tri_CleanupMap :=
       adjust host (\<lambda>hm. hm\<lparr>hm_HostRemoveStatus := Some newStatus\<rparr>) (tri_CleanupMap info)\<rparr>)
   }"

text \<open>The local variables of the run: the new remove info, the number of unfinished requests, the
  requeue flag and the issues.\<close>

record run_vars =
  rv_info :: TaskRemoveInfo
  rv_notCompleted :: nat
  rv_requeueNow :: bool
  rv_issues :: "string list"

definition on_osd :: "host_osd \<Rightarrow> (OsdMapping \<Rightarrow> OsdMapping) \<Rightarrow> run_vars \<Rightarrow> run_vars" where
  "on_osd p f v = v\<lparr>rv_info := (rv_info v)\<lparr>tri_CleanupMap := update_osd p f (tri_CleanupMap (rv_info v))\<rparr>\<rparr>"

definition bump :: "run_vars \<Rightarrow> run_vars" where
  "bump v = v\<lparr>rv_notCompleted := Suc (rv_notCompleted v)\<rparr>"

definition add_issue :: "string \<Rightarrow> run_vars \<Rightarrow> run_vars" where
  "add_issue msg v = v\<lparr>rv_issues := rv_issues v @ [msg]\<rparr>"

definition host_at :: "run_vars \<Rightarrow> host_osd \<Rightarrow> HostMapping" where
  "host_at v p = get_or HostMapping0 (tri_CleanupMap (rv_info v)) (fst p)"

definition osd_in :: "run_vars \<Rightarrow> host_osd \<Rightarrow> OsdMapping" where
  "osd_in v p = get_or OsdMapping0 (hm_OsdMapping (host_at v p)) (snd p)"

text \<open>After the device cleanup of a removed OSD: its deployment.\<close>

definition deployment_step :: "env \<Rightarrow> cephOsdRemoveConfig \<Rightarrow> host_osd \<Rightarrow> run_vars \<Rightarrow> run_vars io" where
  "deployment_step E c p v =
     (let om = osd_in v p
      in case deploy_status om of
           None \<Rightarrow>
             if osd_phase om = Some RemoveFinished \<and> \<not> om_SkipDeviceCleanupJob om then do {
               st \<leftarrow> removeDeployment E c (snd p);
               State_Monad.return (on_osd p (set_deploy_status st) (bump v))
             }
             else State_Monad.return (on_osd p (set_deploy_status (RemoveStatus0\<lparr>rs_Status := RemoveSkipped\<rparr>)) v)
         | Some st \<Rightarrow>
             if rs_Status st = RemoveFailed then
               State_Monad.return (add_issue (node_msg (fst p) (''failed to remove deployment '' @ quoted (deploy_name (snd p)))) v)
             else State_Monad.return v)"

definition finished_step :: "env \<Rightarrow> cephOsdRemoveConfig \<Rightarrow> req_map \<Rightarrow> host_osd \<Rightarrow> run_vars \<Rightarrow> run_vars io" where
  "finished_step E c req p v =
     (let hm = host_at v p; om = osd_in v p; job = job_status om
      in if job = None \<or> job_phase om = Some RemoveInProgress \<or> job_phase om = Some RemovePending then
           if job = None \<and> (hm_NodeIsDown hm \<or> hm_VolumesInfoMissed hm \<or> hm_DropFromCrush hm
                \<or> length (om_DeviceMapping om) = 0)
              \<or> om_SkipDeviceCleanupJob om
           then deployment_step E c p (on_osd p (set_job_status (RemoveStatus0\<lparr>rs_Status := RemoveSkipped\<rparr>)) v)
           else do {
             st \<leftarrow> handleJobRun E c (snd p) (fst p) (hm_OsdMapping hm);
             let v' = on_osd p (set_job_status st) v;
             if rs_Status st \<noteq> RemoveCompleted then
               State_Monad.return
                 (if req_of req RemoveWaitingRebalance = [] \<and> req_of req RemovePending = []
                  then (bump v')\<lparr>rv_requeueNow := False\<rparr> else bump v')
             else deployment_step E c p v'
           }
         else if job_phase om = Some RemoveFailed then
           let name = (case job of Some s \<Rightarrow> rs_Name s | None \<Rightarrow> [])
           in State_Monad.return
                (add_issue (node_msg (fst p) (''deployment '' @ quoted (deploy_name (snd p)) @ '' is not removed, because job '' @ quoted name @ '' is failed''))
                  (add_issue (node_msg (fst p) (''disk cleanup job '' @ quoted name @ '' has failed, clean up disk/partitions manually'')) v))
         else if job_phase om \<noteq> Some RemoveCompleted \<and> job_phase om \<noteq> Some RemoveSkipped then
           let s = (case job of Some s \<Rightarrow> s | None \<Rightarrow> RemoveStatus0);
               msg = ''unexpected remove status '' @ quoted (show_RemovePhase (rs_Status s)) @ '' for device cleanup job ''
                     @ quoted (rs_Name s) @ '', deployment remove for osd '' @ quoted (snd p) @ '' on node '' @ quoted (fst p) @ '' skipped''
           in State_Monad.return (v\<lparr>rv_info := (rv_info v)\<lparr>tri_Warnings := tri_Warnings (rv_info v) @ [msg]\<rparr>\<rparr>)
         else deployment_step E c p v)"

definition cur_status :: "run_vars \<Rightarrow> host_osd \<Rightarrow> RemoveStatus" where
  "cur_status v p = (case osd_status (osd_in v p) of Some s \<Rightarrow> s | None \<Rightarrow> RemoveStatus0)"

definition stray_step :: "env \<Rightarrow> cephOsdRemoveConfig \<Rightarrow> host_osd \<Rightarrow> run_vars \<Rightarrow> run_vars io" where
  "stray_step E c p v = do {
     newStatus \<leftarrow> removeStray E c (snd p) (cur_status v p);
     State_Monad.return (on_osd p (set_osd_status newStatus) (bump v))
   }"

definition remove_step :: "env \<Rightarrow> cephOsdRemoveConfig \<Rightarrow> host_osd \<Rightarrow> run_vars \<Rightarrow> run_vars io" where
  "remove_step E c p v = do {
     newStatus \<leftarrow> removeFromCrush E c (snd p) (cur_status v p);
     State_Monad.return (on_osd p (set_osd_status newStatus) (bump v))
   }"

definition rebalance_step :: "env \<Rightarrow> cephOsdRemoveConfig \<Rightarrow> host_osd \<Rightarrow> run_vars \<Rightarrow> run_vars io" where
  "rebalance_step E c p v = do {
     newStatus \<leftarrow> checkRebalance E c (snd p) (cur_status v p);
     let v' = on_osd p (set_osd_status newStatus) (bump v);
     State_Monad.return (if rs_Status newStatus \<noteq> RemoveInProgress then v'\<lparr>rv_requeueNow := False\<rparr> else v')
   }"

definition reset_started :: "OsdMapping \<Rightarrow> OsdMapping" where
  "reset_started om = (case osd_status om of
     None \<Rightarrow> om | Some s \<Rightarrow> set_osd_status (s\<lparr>rs_StartedAt := []\<rparr>) om)"

fun pending_loop :: "env \<Rightarrow> cephOsdRemoveConfig \<Rightarrow> host_osd list \<Rightarrow> (string, string) gomap \<Rightarrow> run_vars \<Rightarrow>
    ((string, string) gomap \<times> run_vars) io" where
  "pending_loop E c [] waitingOsd v = State_Monad.return (waitingOsd, v)"
| "pending_loop E c (p # ps) waitingOsd v = do {
     newStatus \<leftarrow> tryToMoveOsdOut E c (snd p) (osd_status (osd_in v p));
     let v' = on_osd p (set_osd_status newStatus) (bump v);
     if rs_Status newStatus = RemovePending then
       pending_loop E c ps (AList.update (snd p) (fst p) waitingOsd) v'
     else State_Monad.return ([], fold (\<lambda>(osd, host). on_osd (host, osd) reset_started) waitingOsd v')
   }"

definition collect :: "cleanup_map \<Rightarrow> cleanup_map \<times> req_map \<times> string list" where
  "collect m = fold collect_host m (m, empty_req, [])"

definition drop_pending_if_failed :: "req_map \<Rightarrow> req_map" where
  "drop_pending_if_failed req =
     (if req_of req RemoveFailed \<noteq> [] \<and> req_of req RemovePending \<noteq> []
      then AList.update RemovePending [] req else req)"

definition failed_issues :: "req_map \<Rightarrow> string list" where
  "failed_issues req = map (\<lambda>(host, osd). node_msg host (''failed to remove osd '' @ quoted osd)) (req_of req RemoveFailed)"

definition save_issues :: "run_vars \<Rightarrow> run_vars" where
  "save_issues v = v\<lparr>rv_info := (rv_info v)\<lparr>tri_Issues := sort (rv_issues v)\<rparr>\<rparr>"

text \<open>The part of the run after the hosts: the result is whether the task is finished, the new
  remove info and the requeue flag.\<close>

definition process_osds :: "env \<Rightarrow> cephOsdRemoveConfig \<Rightarrow> req_map \<Rightarrow> TaskRemoveInfo \<Rightarrow>
    (bool \<times> TaskRemoveInfo \<times> bool) io" where
  "process_osds E c req0 newRemoveInfo = do {
     let req = drop_pending_if_failed req0;
     v1 \<leftarrow> for_each (finished_step E c req) (req_of req RemoveFinished)
       \<lparr>rv_info = newRemoveInfo, rv_notCompleted = 0, rv_requeueNow = True, rv_issues = failed_issues req\<rparr>;
     v2 \<leftarrow> for_each (stray_step E c) (req_of req RemoveStray) (save_issues v1);
     v3 \<leftarrow> for_each (remove_step E c) (req_of req RemoveInProgress) v2;
     v4 \<leftarrow> for_each (rebalance_step E c) (req_of req RemoveWaitingRebalance) v3;
     if req_of req RemoveWaitingRebalance \<noteq> [] then
       State_Monad.return (False, rv_info v4, rv_requeueNow v4)
     else do {
       (waitingOsd, v5) \<leftarrow> pending_loop E c (req_of req RemovePending) [] v4;
       State_Monad.return
         (if rv_notCompleted v5 = 0 then (True, rv_info v5, rv_requeueNow v5)
          else (False, rv_info v5, rv_requeueNow v5 \<and> waitingOsd = []))
     }
   }"

definition processOsdRemoveTask :: "env \<Rightarrow> cephOsdRemoveConfig \<Rightarrow> TaskRemoveInfo \<Rightarrow>
    (bool \<times> TaskRemoveInfo \<times> bool) io" where
  "processOsdRemoveTask E c removeInfo =
     (case collect (tri_CleanupMap removeInfo) of (info, req, hostsToRemove) \<Rightarrow>
        let newRemoveInfo = removeInfo\<lparr>tri_CleanupMap := info\<rparr>
        in if hostsToRemove \<noteq> [] then do {
             newRemoveInfo \<leftarrow> for_each (drop_host E c) hostsToRemove newRemoveInfo;
             State_Monad.return (False, newRemoveInfo, True)
           }
           else process_osds E c req newRemoveInfo)"

end
