(* ===== verification/Removal_Steps.thy ===== *)
theory Removal_Steps
  imports Executor
begin

text \<open>
  What one operation of the executor does: the phase it returns and the calls it issues. The
  phases an OSD and its cleanup job may move between are the relations \<open>osd_step\<close> and \<open>job_step\<close>.
\<close>

section \<open>Calls of the operations\<close>

text \<open>A call that reads the cluster, waits or looks at the clock.\<close>

fun harmless :: "call \<Rightarrow> bool" where
  "harmless Now = True"
| "harmless (Sleep _) = True"
| "harmless (ListPods _ _ _) = True"
| "harmless (GetJob _ _) = True"
| "harmless _ = False"

text \<open>The Ceph command of a call.\<close>

fun ceph_cmd :: "call \<Rightarrow> string option" where
  "ceph_cmd (Exec _ _ _ cmd) = Some cmd"
| "ceph_cmd _ = None"

definition runs :: "string \<Rightarrow> call \<Rightarrow> bool" where
  "runs cmd c \<longleftrightarrow> ceph_cmd c = Some cmd"

lemma runs_Exec [simp]: "runs cmd (Exec a b d x) \<longleftrightarrow> x = cmd"
  by (auto simp: runs_def)

lemma runs_other [simp]: "harmless c \<Longrightarrow> \<not> runs cmd c"
  by (cases c) (simp_all add: runs_def)

lemma runs_rest [simp]:
  "\<not> runs cmd (DeleteDeployment a b)" "\<not> runs cmd (DeleteJob a b)" "\<not> runs cmd (CreateJob job)"
  "\<not> runs cmd (UpdateScale a b n)"
  by (simp_all add: runs_def)

lemma ceph_with_retry_calls [calls_intro]:
  assumes "\<And>c. harmless c \<Longrightarrow> P c" and "\<And>a b d. P (Exec a b d cmd)"
  shows "calls_in P (ceph_with_retry E c cmd)"
  unfolding ceph_with_retry_def by (auto intro!: calls_intro assms)

lemma scale_down_with_retry_calls [calls_intro]:
  assumes "\<And>c. harmless c \<Longrightarrow> P c" and "P (UpdateScale (cluster_ns c) (deploy_name osdID) 0)"
  shows "calls_in P (scale_down_with_retry E c osdID)"
  unfolding scale_down_with_retry_def by (auto intro!: calls_intro assms)

lemma removeHostFromCrush_calls [calls_intro]:
  assumes "\<And>c. harmless c \<Longrightarrow> P c" and "\<And>a b d. P (Exec a b d (cmd_crush_remove host))"
  shows "calls_in P (removeHostFromCrush E c host)"
  unfolding removeHostFromCrush_def Let_def by (intro calls_intro assms) simp_all

lemma removeDeployment_calls [calls_intro]:
  assumes "\<And>c. harmless c \<Longrightarrow> P c" and "P (DeleteDeployment (cluster_ns c) (deploy_name (base_id osdID)))"
  shows "calls_in P (removeDeployment E c osdID)"
  unfolding removeDeployment_def removeOsdDeployment_def Let_def by (intro calls_intro assms) simp_all

lemma removeStray_calls [calls_intro]:
  fixes osdID0
  defines "osdID \<equiv> split_first CHR ''.'' osdID0"
  assumes "\<And>c. harmless c \<Longrightarrow> P c" and "P (UpdateScale (cluster_ns c) (deploy_name osdID) 0)"
    and "\<And>a b d. P (Exec a b d cmd_osd_ls)" and "\<And>a b d. P (Exec a b d (cmd_auth_del osdID))"
  shows "calls_in P (removeStray E c osdID0 st)"
  unfolding removeStray_def Let_def by (intro calls_intro assms [unfolded osdID_def]) simp_all

lemma removeFromCrush_calls [calls_intro]:
  fixes osdID0
  defines "osdID \<equiv> base_id osdID0"
  assumes "\<And>c. harmless c \<Longrightarrow> P c" and "P (UpdateScale (cluster_ns c) (deploy_name osdID) 0)"
    and "\<And>a b d. P (Exec a b d (cmd_purge osdID))" and "\<And>a b d. P (Exec a b d (cmd_auth_del osdID))"
  shows "calls_in P (removeFromCrush E c osdID0 st)"
  unfolding removeFromCrush_def Let_def by (intro calls_intro assms [unfolded osdID_def]) simp_all

lemma checkRebalance_calls [calls_intro]:
  assumes "\<And>c. harmless c \<Longrightarrow> P c" and "\<And>a b d. P (Exec a b d (cmd_pg_ls osdID))"
  shows "calls_in P (checkRebalance E c osdID st)"
  unfolding checkRebalance_def checkPgsForOsd_def Let_def
  by (intro calls_intro assms assms(2) [unfolded cmd_pg_ls_def]) simp_all

lemma ok_to_stop_refused_calls [calls_intro]:
  "(\<And>c. harmless c \<Longrightarrow> P c) \<Longrightarrow> calls_in P (ok_to_stop_refused E c osdID st)"
  unfolding ok_to_stop_refused_def Let_def by (intro calls_intro) simp_all

lemma tryToMoveOsdOut_calls [calls_intro]:
  assumes "\<And>c. harmless c \<Longrightarrow> P c" and "\<And>a b d. P (Exec a b d (cmd_osd_info osdID))"
    and "\<And>a b d. P (Exec a b d (cmd_ok_to_stop osdID))" and "\<And>a b d. P (Exec a b d (cmd_reweight osdID))"
  shows "calls_in P (tryToMoveOsdOut E c osdID st)"
  unfolding tryToMoveOsdOut_def reweight_osd_def getOsdInfo_def
  by (intro calls_intro assms assms(2) [unfolded cmd_osd_info_def]) simp_all

section \<open>Phases of an OSD\<close>

text \<open>The moves one operation may make.\<close>

inductive osd_step :: "RemovePhase \<Rightarrow> RemovePhase \<Rightarrow> bool" where
  wait_stop: "osd_step RemovePending RemovePending"
| out_up: "osd_step RemovePending RemoveWaitingRebalance"
| out_down: "osd_step RemovePending RemoveInProgress"
| out_failed: "osd_step RemovePending RemoveFailed"
| wait_pgs: "osd_step RemoveWaitingRebalance RemoveWaitingRebalance"
| rebalanced: "osd_step RemoveWaitingRebalance RemoveInProgress"
| rebalance_failed: "osd_step RemoveWaitingRebalance RemoveFailed"
| purged: "osd_step RemoveInProgress RemoveFinished"
| purge_failed: "osd_step RemoveInProgress RemoveFailed"
| stray_gone: "osd_step RemoveStray RemoveFinished"
| stray_in_crush: "osd_step RemoveStray RemoveSkipped"
| stray_failed: "osd_step RemoveStray RemoveFailed"

inductive_simps osd_step_simps [simp]:
  "osd_step RemovePending ph" "osd_step RemoveWaitingRebalance ph" "osd_step RemoveInProgress ph"
  "osd_step RemoveStray ph" "osd_step RemoveFinished ph" "osd_step RemoveSkipped ph"
  "osd_step RemoveFailed ph"

text \<open>A phase that no operation leaves.\<close>

definition osd_final :: "RemovePhase \<Rightarrow> bool" where
  "osd_final ph \<longleftrightarrow> ph = RemoveFinished \<or> ph = RemoveSkipped \<or> ph = RemoveFailed"

lemma osd_final_iff: "(\<nexists>ph'. osd_step ph ph') \<longleftrightarrow> osd_final ph \<or> ph = RemoveCompleted \<or> (\<exists>s. ph = RemoveOther s)"
  by (cases ph) (auto simp: osd_final_def elim: osd_step.cases)

lemma failed_with_simps [simp]:
  "rs_Status (failed_with s e) = RemoveFailed" "rs_Error (failed_with s e) = e"
  "rs_StartedAt (failed_with s e) = rs_StartedAt s"
  by (simp_all add: failed_with_def)

lemma removeStray_phase:
  "returns (\<lambda>s. osd_step RemoveStray (rs_Status s)) (removeStray E c osdID st)"
  unfolding removeStray_def Let_def by (intro returns_intro) simp_all

lemma removeFromCrush_phase:
  "returns (\<lambda>s. osd_step RemoveInProgress (rs_Status s)) (removeFromCrush E c osdID st)"
  unfolding removeFromCrush_def Let_def by (intro returns_intro) simp_all

lemma checkRebalance_phase:
  "rs_Status st = RemoveWaitingRebalance \<Longrightarrow>
   returns (\<lambda>s. osd_step RemoveWaitingRebalance (rs_Status s)) (checkRebalance E c osdID st)"
  unfolding checkRebalance_def by (intro returns_intro) simp_all

lemma ok_to_stop_refused_phase:
  assumes "map_option rs_Status st = Some RemovePending"
  shows "returns (\<lambda>s. rs_Status s = RemovePending \<or> rs_Status s = RemoveFailed) (ok_to_stop_refused E c osdID st)"
  unfolding ok_to_stop_refused_def Let_def
  using assms by (intro returns_intro) (auto split: option.splits)

lemma reweight_osd_phase:
  "returns (\<lambda>s. rs_Status s = ph \<or> rs_Status s = RemoveFailed) (reweight_osd E c osdID ph)"
  unfolding reweight_osd_def by (intro returns_intro) simp_all

lemma returns_mono: "returns P m \<Longrightarrow> (\<And>x. P x \<Longrightarrow> Q x) \<Longrightarrow> returns Q m"
  by (simp add: returns_def)

lemma getOsdInfo_retry:
  "returns (\<lambda>(x, e). e = None \<longrightarrow> x \<noteq> None)
     (RunFuncWithRetry retriesForFailedCommand t None (do {
       r \<leftarrow> getOsdInfo E c osdID;
       State_Monad.return (case r of Inl e \<Rightarrow> (None, Some e) | Inr info \<Rightarrow> (Some info, None))
     }))"
proof -
  have 5: "retriesForFailedCommand = Suc 4" by (simp add: retriesForFailedCommand_def)
  show ?thesis
    unfolding 5
    by (rule RunFuncWithRetry_returns) (auto intro!: returns_intro split: sum.splits)
qed

lemma tryToMoveOsdOut_phase:
  assumes "map_option rs_Status st = Some RemovePending"
  shows "returns (\<lambda>s. osd_step RemovePending (rs_Status s)) (tryToMoveOsdOut E c osdID st)"
proof -
  have refused: "returns (\<lambda>s. osd_step RemovePending (rs_Status s)) (ok_to_stop_refused E c osdID st)"
    by (rule returns_mono [OF ok_to_stop_refused_phase [OF assms]]) auto
  have reweight: "returns (\<lambda>s. osd_step RemovePending (rs_Status s)) (reweight_osd E c osdID ph)"
    if "ph = RemoveWaitingRebalance \<or> ph = RemoveInProgress" for ph
    by (rule returns_mono [OF reweight_osd_phase]) (use that in auto)
  show ?thesis
    unfolding tryToMoveOsdOut_def
  proof (rule returns_bind_strong [OF getOsdInfo_retry], goal_cases)
    case (1 p)
    then show ?case
      by (cases p) (auto intro!: returns_intro refused [unfolded osd_step_simps]
        reweight [unfolded osd_step_simps] split: option.splits)
  qed
qed

section \<open>The device cleanup job\<close>

inductive job_step :: "RemovePhase option \<Rightarrow> RemovePhase \<Rightarrow> bool" where
  delay: "ph = None \<or> ph = Some RemovePending \<Longrightarrow> job_step ph RemovePending"
| skip: "ph = None \<or> ph = Some RemovePending \<or> ph = Some RemoveInProgress \<Longrightarrow> job_step ph RemoveSkipped"
| run: "ph = None \<or> ph = Some RemovePending \<Longrightarrow> job_step ph RemoveInProgress"
| not_run: "ph = None \<or> ph = Some RemovePending \<Longrightarrow> job_step ph RemoveFailed"
| running: "job_step (Some RemoveInProgress) RemoveInProgress"
| succeeded: "job_step (Some RemoveInProgress) RemoveCompleted"
| failed: "job_step (Some RemoveInProgress) RemoveFailed"

definition job_open :: "OsdMapping \<Rightarrow> bool" where
  "job_open om \<longleftrightarrow> job_phase om = None \<or> job_phase om = Some RemovePending \<or> job_phase om = Some RemoveInProgress"

lemma unzap_map_of:
  "map_of (unzap om m) d = (case map_of m d of None \<Rightarrow> None
     | Some v \<Rightarrow> Some (if d \<in> set (keys (om_DeviceMapping om)) \<and> blocks_zap om then v\<lparr>di_Zap := False\<rparr> else v))"
proof -
  have "map_of (fold (\<lambda>device m. case map_of m device of
       Some v \<Rightarrow> if di_Zap v \<and> b then AList.update device (v\<lparr>di_Zap := False\<rparr>) m else m
     | None \<Rightarrow> m) ds m) d = (case map_of m d of None \<Rightarrow> None
       | Some v \<Rightarrow> Some (if d \<in> set ds \<and> b then v\<lparr>di_Zap := False\<rparr> else v))" for ds b and m :: device_map
    by (induction ds arbitrary: m) (auto split: option.splits)
  then show ?thesis unfolding unzap_def .
qed

definition other_jobs :: "string \<Rightarrow> osd_map \<Rightarrow> bool" where
  "other_jobs curOsdID osds \<longleftrightarrow>
     list_ex (\<lambda>(osdID, om). osdID \<noteq> curOsdID \<and> job_phase om = Some RemoveInProgress) osds"

text \<open>Whether another OSD of the host uses the device and still blocks it.\<close>

definition shared_blocked :: "string \<Rightarrow> osd_map \<Rightarrow> string \<Rightarrow> bool" where
  "shared_blocked curOsdID osds device \<longleftrightarrow>
     list_ex (\<lambda>(osdID, om). osdID \<noteq> curOsdID \<and> blocks_zap om \<and> device \<in> set (keys (om_DeviceMapping om))) osds"

lemma getJobData_loop_parallel: "fst (getJobData_loop cur osds m) \<longleftrightarrow> other_jobs cur osds"
  by (induction cur osds m rule: getJobData_loop.induct) (auto simp: other_jobs_def)

lemma getJobData_loop_devices:
  "\<not> other_jobs cur osds \<Longrightarrow> map_of (snd (getJobData_loop cur osds m)) d =
     map_option (\<lambda>v. if shared_blocked cur osds d then v\<lparr>di_Zap := False\<rparr> else v) (map_of m d)"
proof (induction cur osds m rule: getJobData_loop.induct)
  case (1 cur m)
  then show ?case by (cases "map_of m d") (simp_all add: shared_blocked_def)
next
  case (2 cur osdID om rest m)
  then show ?case
    by (cases "map_of m d") (auto simp: other_jobs_def shared_blocked_def unzap_map_of)
qed

lemma getJobData_parallel: "fst (getJobData cur osds) \<longleftrightarrow> other_jobs cur osds"
  by (simp add: getJobData_def getJobData_loop_parallel)

lemma getJobData_devices:
  "\<not> other_jobs cur osds \<Longrightarrow> map_of (snd (getJobData cur osds)) d =
     map_option (\<lambda>v. if shared_blocked cur osds d then v\<lparr>di_Zap := False\<rparr> else v)
       (map_of (om_DeviceMapping (get_or OsdMapping0 osds cur)) d)"
  by (simp add: getJobData_def getJobData_loop_devices)

definition allow_manual_lvm :: "cephOsdRemoveConfig \<Rightarrow> bool" where
  "allow_manual_lvm c = tp_AllowToRemoveManuallyCreatedLVM (lc_TaskParams (rc_lcmConfig c))"

text \<open>The disks a cleanup job may wipe.\<close>

definition wipe_allowed :: "cephOsdRemoveConfig \<Rightarrow> string \<Rightarrow> osd_map \<Rightarrow> string \<Rightarrow> bool" where
  "wipe_allowed c osdID osds disk \<longleftrightarrow>
     (\<exists>dev v. map_of (om_DeviceMapping (get_or OsdMapping0 osds osdID)) dev = Some v \<and>
        di_Path v = disk \<and> di_Alive v \<and>
        (di_Raw v \<or> di_Zap v \<and> \<not> shared_blocked osdID osds dev \<and>
           (isLvmRookMade (di_Partition v) \<or> allow_manual_lvm c)))"

definition safe_job :: "cephOsdRemoveConfig \<Rightarrow> string \<Rightarrow> string \<Rightarrow> osd_map \<Rightarrow> script Job \<Rightarrow> bool" where
  "safe_job c host osdID osds job \<longleftrightarrow>
     \<not> other_jobs osdID osds \<and> job_NodeSelector job = [(''kubernetes.io/hostname'', host)] \<and>
     (\<forall>con \<in> set (job_Containers job). \<forall>disk \<in> wipes (con_Command con). wipe_allowed c osdID osds disk)"

lemma cleanup_job_containers:
  assumes "con \<in> set (job_Containers (cleanup_job E c host osdID dir img refs devices))"
  shows "\<exists>dev v. map_of devices dev = Some v \<and> con_Command con = cleanup_script (allow_manual_lvm c) dir dev v"
proof -
  from assms obtain i dev where dev: "dev \<in> set (keys (filter (\<lambda>(_, di). \<not> device_broken di) devices))"
    and con: "con_Command con = cleanup_script (allow_manual_lvm c) dir dev (get_or DeviceInfo0 devices dev)"
    by (auto simp: cleanup_job_def Let_def cleanup_container_def allow_manual_lvm_def dest!: set_zip_rightD)
  from dev have "dev \<in> fst ` set devices" by auto
  then obtain v where "map_of devices dev = Some v"
    by (metis domD dom_map_of_conv_image_fst)
  with con show ?thesis by (auto simp: get_or_def)
qed

lemma cleanup_job_safe:
  assumes "\<not> other_jobs osdID osds"
  shows "safe_job c host osdID osds (cleanup_job E c host osdID dir img refs (snd (getJobData osdID osds)))"
  unfolding safe_job_def
proof (intro conjI ballI assms)
  fix con disk
  assume "con \<in> set (job_Containers (cleanup_job E c host osdID dir img refs (snd (getJobData osdID osds))))"
    and disk: "disk \<in> wipes (con_Command con)"
  then obtain dev v where v: "map_of (snd (getJobData osdID osds)) dev = Some v"
    and con: "con_Command con = cleanup_script (allow_manual_lvm c) dir dev v"
    using cleanup_job_containers by blast
  from v obtain w where "map_of (om_DeviceMapping (get_or OsdMapping0 osds osdID)) dev = Some w"
    and "v = (if shared_blocked osdID osds dev then w\<lparr>di_Zap := False\<rparr> else w)"
    using getJobData_devices [OF assms, of dev] by auto
  with disk con show "wipe_allowed c osdID osds disk"
    unfolding wipe_allowed_def
    by (intro exI [of _ dev] exI [of _ w]) (auto simp: cleanup_script_wipes split: if_splits)
qed (simp add: cleanup_job_def Let_def)

lemma runCleanupJob_calls:
  assumes "\<And>c. harmless c \<Longrightarrow> P c" and "\<And>a b. P (DeleteJob a b)"
    and "\<And>img refs. P (CreateJob (cleanup_job E c host osdID dir img refs devices))"
  shows "calls_in P (runCleanupJob E c host osdID dir devices)"
  unfolding runCleanupJob_def Let_def by (intro calls_intro assms) simp_all

lemma handleJobRun_calls [calls_intro]:
  assumes "\<And>c. harmless c \<Longrightarrow> P c" and "\<And>a b. P (DeleteJob a b)"
    and "\<And>job. safe_job c host osdID osds job \<Longrightarrow> P (CreateJob job)"
  shows "calls_in P (handleJobRun E c osdID host osds)"
proof -
  obtain par devs where data: "getJobData osdID osds = (par, devs)" by fastforce
  have run: "calls_in P (runCleanupJob E c host osdID dir devs)" if "\<not> par" for dir
  proof (rule runCleanupJob_calls)
    show "P (CreateJob (cleanup_job E c host osdID dir img refs devs))" for img refs
      using that data getJobData_parallel [of osdID osds] cleanup_job_safe [of osdID osds c host E dir img refs]
      by (simp add: assms(3))
  qed (simp_all add: assms)
  show ?thesis
    unfolding handleJobRun_def Let_def data by (intro calls_intro assms) (simp_all add: run)
qed

lemma handleJobRun_phase:
  fixes osds osdID
  defines "om \<equiv> get_or OsdMapping0 osds osdID"
  assumes "job_open om"
  shows "returns (\<lambda>s. job_step (job_phase om) (rs_Status s) \<and>
    (rs_Status s = RemoveInProgress \<longrightarrow> job_phase om = Some RemoveInProgress \<or> \<not> other_jobs osdID osds))
    (handleJobRun E c osdID host osds)"
  unfolding handleJobRun_def Let_def
  using assms getJobData_parallel [of osdID osds]
  by (intro returns_intro) (auto simp: job_open_def job_phase_def intro: job_step.intros)

end
