(* ===== verification/Removal_Map.thy ===== *)
theory Removal_Map
  imports Removal_Steps
begin

text \<open>
  The cleanup map of a task and the first loop of \<^verbatim>\<open>processOsdRemoveTask\<close>: how an update of one OSD
  acts on the map, and which OSDs and hosts \<open>collect\<close> selects.
\<close>

section \<open>The cleanup map\<close>

definition wf_cleanup :: "cleanup_map \<Rightarrow> bool" where
  "wf_cleanup m \<longleftrightarrow> wf_map m \<and> list_all (\<lambda>(_, hm). wf_map (hm_OsdMapping hm)) m"

lemma adjust_comp [simp]: "adjust k g (adjust k f m) = adjust k (g \<circ> f) m"
  by (auto simp: adjust_def split: option.splits)

lemma adjust_id [simp]: "adjust k (\<lambda>x. x) m = m"
  by (auto simp: adjust_def update_triv split: option.splits)

lemma update_osd_comp [simp]: "update_osd p g (update_osd p f m) = update_osd p (g \<circ> f) m"
  by (simp add: update_osd_def comp_def)

lemma update_osd_id [simp]: "update_osd p (\<lambda>x. x) m = m"
  by (simp add: update_osd_def)

lemma osd_at_update_osd:
  "osd_at (update_osd p f m) h d =
     (if (h, d) = p then map_option f (osd_at m h d) else osd_at m h d)"
  by (cases p; cases "map_of m (fst p)") (auto simp: osd_at_def update_osd_def map_of_adjust)

text \<open>The parts of the map that no OSD update touches.\<close>

definition frame :: "cleanup_map \<Rightarrow> cleanup_map \<Rightarrow> bool" where
  "frame m m' \<longleftrightarrow> keys m' = keys m \<and>
     (\<forall>h hm hm'. map_of m h = Some hm \<longrightarrow> map_of m' h = Some hm' \<longrightarrow>
        keys (hm_OsdMapping hm') = keys (hm_OsdMapping hm) \<and>
        hm' = hm\<lparr>hm_OsdMapping := hm_OsdMapping hm'\<rparr>)"

lemma frame_refl [simp]: "frame m m"
  by (simp add: frame_def)

lemma frame_trans:
  assumes "frame m m'" and "frame m' m''"
  shows "frame m m''"
  unfolding frame_def
proof (intro conjI allI impI)
  fix h hm hm''
  assume *: "map_of m h = Some hm" "map_of m'' h = Some hm''"
  then have "h \<in> set (keys m)" by (metis domI dom_map_of_conv_image_fst list.set_map)
  with assms(1) have "h \<in> fst ` set m'" by (metis frame_def list.set_map)
  then obtain hm' where hm': "map_of m' h = Some hm'" by (metis domD dom_map_of_conv_image_fst)
  with * assms have 1: "keys (hm_OsdMapping hm') = keys (hm_OsdMapping hm)"
      "hm' = hm\<lparr>hm_OsdMapping := hm_OsdMapping hm'\<rparr>"
    and 2: "keys (hm_OsdMapping hm'') = keys (hm_OsdMapping hm')"
      "hm'' = hm'\<lparr>hm_OsdMapping := hm_OsdMapping hm''\<rparr>"
    by (simp_all add: frame_def)
  from 1(1) 2(1) show "keys (hm_OsdMapping hm'') = keys (hm_OsdMapping hm)" by simp
  show "hm'' = hm\<lparr>hm_OsdMapping := hm_OsdMapping hm''\<rparr>"
    by (subst 2(2), subst 1(2)) simp
qed (use assms in \<open>simp add: frame_def\<close>)

lemma frame_update_osd [simp]: "frame m (update_osd p f m)"
  unfolding frame_def update_osd_def by (auto simp: map_of_adjust)

lemma frame_wf: "frame m m' \<Longrightarrow> wf_cleanup m \<Longrightarrow> wf_cleanup m'"
  unfolding wf_cleanup_def list_all_iff
proof (intro conjI ballI)
  assume f: "frame m m'" and wf: "wf_map m \<and> (\<forall>x\<in>set m. case x of (_, hm) \<Rightarrow> wf_map (hm_OsdMapping hm))"
  show wf': "wf_map m'" using f wf by (metis frame_def)
  fix x assume "x \<in> set m'"
  moreover obtain h hm' where x: "x = (h, hm')" by (cases x)
  ultimately have hm': "map_of m' h = Some hm'" using wf' by simp
  have "h \<in> set (keys m)" using f \<open>x \<in> set m'\<close> x by (metis frame_def fst_conv image_eqI list.set_map)
  then obtain hm where hm: "map_of m h = Some hm"
    by (metis domD dom_map_of_conv_image_fst list.set_map)
  then have "(h, hm) \<in> set m" by (rule map_of_SomeD)
  with wf have "wf_map (hm_OsdMapping hm)" by fastforce
  with f hm hm' x show "case x of (_, hm) \<Rightarrow> wf_map (hm_OsdMapping hm)" by (simp add: frame_def)
qed

lemma frame_osd_at:
  assumes f: "frame m m'" and "osd_at m' h d = Some om'"
  shows "\<exists>om. osd_at m h d = Some om"
proof -
  from assms(2) obtain hm' where hm': "map_of m' h = Some hm'" "map_of (hm_OsdMapping hm') d = Some om'"
    by (auto simp: osd_at_def bind_eq_Some_conv)
  then have "h \<in> set (keys m')" by (metis domI dom_map_of_conv_image_fst list.set_map)
  with f have "h \<in> fst ` set m" by (metis frame_def list.set_map)
  then obtain hm where hm: "map_of m h = Some hm" by (metis domD dom_map_of_conv_image_fst)
  with f hm' have "keys (hm_OsdMapping hm') = keys (hm_OsdMapping hm)" by (simp add: frame_def)
  moreover have "d \<in> set (keys (hm_OsdMapping hm'))" using hm'(2) by (metis domI dom_map_of_conv_image_fst list.set_map)
  ultimately have "map_of (hm_OsdMapping hm) d \<noteq> None" by (simp add: map_of_eq_None_iff)
  with hm show ?thesis by (auto simp: osd_at_def)
qed

lemma osd_at_in:
  assumes "wf_cleanup m"
  shows "osd_at m h d = Some om \<longleftrightarrow> (\<exists>hm. (h, hm) \<in> set m \<and> (d, om) \<in> set (hm_OsdMapping hm))"
  using assms unfolding osd_at_def wf_cleanup_def list_all_iff
  by (fastforce simp: bind_eq_Some_conv)

section \<open>Collecting the requests\<close>

text \<open>The list an OSD is put into.\<close>

definition req_phase :: "string \<Rightarrow> string \<Rightarrow> OsdMapping \<Rightarrow> RemovePhase option" where
  "req_phase host osdID om =
     map_option (\<lambda>ph. if ph = RemoveSkipped then RemoveFinished else ph) (osd_phase (init_osd host osdID om))"

definition requested :: "cleanup_map \<Rightarrow> RemovePhase \<Rightarrow> host_osd list" where
  "requested m ph = concat (map (\<lambda>(h, hm). map (\<lambda>(d, om). (h, d))
     (filter (\<lambda>(d, om). req_phase h d om = Some ph) (hm_OsdMapping hm))) m)"

definition osd_done :: "OsdMapping \<Rightarrow> bool" where
  "osd_done om \<longleftrightarrow> osd_phase om = Some RemoveFinished \<or> osd_phase om = Some RemoveSkipped"

definition host_done :: "HostMapping \<Rightarrow> bool" where
  "host_done hm \<longleftrightarrow> (hm_CompleteCleanup hm \<or> hm_DropFromCrush hm) \<and> hm_HostRemoveStatus hm = None \<and>
     list_all (\<lambda>(_, om). osd_done om) (hm_OsdMapping hm)"

lemma initial_phase_not_final [simp]:
  "initial_phase h d om \<noteq> RemoveSkipped" "initial_phase h d om \<noteq> RemoveFinished"
  by (simp_all add: initial_phase_def)

lemma req_of_add_req: "req_of (add_req ph p req) ph' = (if ph' = ph then req_of req ph @ [p] else req_of req ph')"
  by (simp add: req_of_def add_req_def get_or_def)

lemma req_of_empty [simp]: "req_of empty_req ph = []"
  by (simp add: req_of_def empty_req_def get_or_def)

lemma collect_osd_req:
  "req_of (fst (snd (fold (collect_osd h) osds (info, req, n)))) ph =
     req_of req ph @ map (\<lambda>(d, om). (h, d)) (filter (\<lambda>(d, om). req_phase h d om = Some ph) osds)"
proof (induction osds arbitrary: info req n)
  case (Cons p osds)
  obtain d om where p: "p = (d, om)" by (cases p)
  show ?case
    using Cons
    by (auto simp: p collect_osd_def req_phase_def init_osd_def osd_phase_def osd_status_def req_of_add_req
        split: option.splits)
qed simp

lemma collect_osd_count:
  "snd (snd (fold (collect_osd h) osds (info, req, n))) =
     n - int (length (filter (\<lambda>(d, om). osd_done om) osds))"
proof (induction osds arbitrary: info req n)
  case (Cons p osds)
  obtain d om where p: "p = (d, om)" by (cases p)
  show ?case
    using Cons
    by (auto simp: p collect_osd_def osd_done_def osd_phase_def osd_status_def split: option.splits)
qed simp

lemma all_done_iff:
  "int (length osds) - int (length (filter P osds)) = 0 \<longleftrightarrow> list_all P osds"
proof -
  have "length (filter P osds) + length (filter (\<lambda>x. \<not> P x) osds) = length osds"
    by (rule sum_length_filter_compl)
  then have "int (length osds) - int (length (filter P osds)) = 0 \<longleftrightarrow> length (filter (\<lambda>x. \<not> P x) osds) = 0"
    by linarith
  also have "\<dots> \<longleftrightarrow> list_all P osds" by (simp add: filter_empty_conv list_all_iff)
  finally show ?thesis .
qed

lemma collect_host_simp:
  "collect_host (h, hm) (info, req, hosts) =
     (fst (fold (collect_osd h) (hm_OsdMapping hm) (info, req, int (length (hm_OsdMapping hm)))),
      fst (snd (fold (collect_osd h) (hm_OsdMapping hm) (info, req, int (length (hm_OsdMapping hm))))),
      if host_done hm then hosts @ [h] else hosts)"
proof -
  have "snd (snd (fold (collect_osd h) (hm_OsdMapping hm) (info, req, int (length (hm_OsdMapping hm))))) = 0 \<longleftrightarrow>
      list_all (\<lambda>(_, om). osd_done om) (hm_OsdMapping hm)"
    by (simp only: collect_osd_count all_done_iff)
  then show ?thesis by (auto simp: collect_host_def host_done_def split_beta)
qed

lemma collect_req: "req_of (fst (snd (collect m))) ph = requested m ph"
proof -
  have "req_of (fst (snd (fold collect_host ms (info, req, hosts)))) ph = req_of req ph @ requested ms ph"
    for ms info req hosts
  proof (induction ms arbitrary: info req hosts)
    case (Cons p ms)
    then show ?case by (cases p) (simp add: collect_host_simp collect_osd_req requested_def)
  qed (simp add: requested_def)
  then show ?thesis by (simp add: collect_def)
qed

lemma collect_hosts: "snd (snd (collect m)) = map fst (filter (\<lambda>(_, hm). host_done hm) m)"
proof -
  have "snd (snd (fold collect_host ms (info, req, hosts))) = hosts @ map fst (filter (\<lambda>(_, hm). host_done hm) ms)"
    for ms info req hosts
  proof (induction ms arbitrary: info req hosts)
    case (Cons p ms)
    then show ?case by (cases p) (simp add: collect_host_simp)
  qed simp
  then show ?thesis by (simp add: collect_def)
qed

text \<open>The map after collecting: every OSD without a status has its initial one.\<close>

lemma collect_osd_info:
  assumes "wf_map osds" and "\<And>d om. (d, om) \<in> set osds \<Longrightarrow> osd_at info h d = Some om"
  shows "osd_at (fst (fold (collect_osd h) osds (info, req, n))) h' d =
      (if h' = h \<and> d \<in> set (keys osds) then map_option (init_osd h d) (osd_at info h d) else osd_at info h' d)
    \<and> frame info (fst (fold (collect_osd h) osds (info, req, n)))"
  using assms
proof (induction osds arbitrary: info req n)
  case (Cons p osds)
  obtain e om where p: "p = (e, om)" by (cases p)
  obtain info' req' n' where step: "collect_osd h p (info, req, n) = (info', req', n')" by (metis prod_cases3)
  have at_e: "osd_at info h e = Some om" using Cons.prems p by simp
  have info': "osd_at info' h'' d'' = (if (h'', d'') = (h, e) then Some (init_osd h e om) else osd_at info h'' d'')"
    and fr: "frame info info'" for h'' d''
    using step at_e
    by (auto simp: p collect_osd_def init_osd_def osd_at_update_osd split: option.splits if_splits)
  have e: "e \<notin> set (keys osds)" using Cons.prems(1) p by simp
  have *: "osd_at (fst (fold (collect_osd h) osds (info', req', n'))) h' d =
      (if h' = h \<and> d \<in> set (keys osds) then map_option (init_osd h d) (osd_at info' h d) else osd_at info' h' d)
    \<and> frame info' (fst (fold (collect_osd h) osds (info', req', n')))"
  proof (rule Cons.IH)
    show "wf_map osds" using Cons.prems(1) by simp
    show "osd_at info' h d = Some om" if "(d, om) \<in> set osds" for d om
      using that e Cons.prems(2) by (force simp: info')
  qed
  with fr e at_e show ?case
    by (auto simp: step [unfolded p] p info' intro: frame_trans)
qed simp

lemma collect_hosts_info:
  assumes "wf_cleanup ms"
    and "\<And>h hm d om. (h, hm) \<in> set ms \<Longrightarrow> (d, om) \<in> set (hm_OsdMapping hm) \<Longrightarrow> osd_at info h d = Some om"
  shows "osd_at (fst (fold collect_host ms (info, req, hosts))) h' d' =
      (if osd_at ms h' d' \<noteq> None then map_option (init_osd h' d') (osd_at info h' d') else osd_at info h' d')
    \<and> frame info (fst (fold collect_host ms (info, req, hosts)))"
  using assms
proof (induction ms arbitrary: info req hosts)
  case Nil
  then show ?case by (simp add: osd_at_def)
next
  case (Cons p ms)
  obtain h hm where p: "p = (h, hm)" by (cases p)
  let ?n = "int (length (hm_OsdMapping hm))"
  let ?info = "fst (fold (collect_osd h) (hm_OsdMapping hm) (info, req, ?n))"
  have wfo: "wf_map (hm_OsdMapping hm)" and wfm: "wf_cleanup ms" and h: "h \<notin> fst ` set ms"
    using Cons.prems(1) p by (auto simp: wf_cleanup_def)
  have here: "osd_at info h d = Some om" if "(d, om) \<in> set (hm_OsdMapping hm)" for d om
    using that Cons.prems(2) [of h hm d om] p by simp
  have info: "osd_at ?info h' d =
      (if h' = h \<and> d \<in> set (keys (hm_OsdMapping hm)) then map_option (init_osd h d) (osd_at info h d)
       else osd_at info h' d)"
    and fr: "frame info ?info" for h' d
    using collect_osd_info [OF wfo here, where h' = h' and d = d and req = req and n = ?n] by simp_all
  have "osd_at (fst (fold collect_host ms (?info, req', hosts'))) h' d' =
      (if osd_at ms h' d' \<noteq> None then map_option (init_osd h' d') (osd_at ?info h' d') else osd_at ?info h' d')
    \<and> frame ?info (fst (fold collect_host ms (?info, req', hosts')))" for req' hosts'
  proof (rule Cons.IH [OF wfm])
    fix h2 hm2 d om assume *: "(h2, hm2) \<in> set ms" "(d, om) \<in> set (hm_OsdMapping hm2)"
    then have "h2 \<noteq> h" using h by force
    with * show "osd_at ?info h2 d = Some om" using Cons.prems(2) [of h2 hm2 d om] by (simp add: info)
  qed
  moreover have "osd_at (p # ms) h' d' = (if h' = h then map_of (hm_OsdMapping hm) d' else osd_at ms h' d')"
    by (simp add: osd_at_def p)
  moreover have "map_of (hm_OsdMapping hm) d' = None \<longleftrightarrow> d' \<notin> set (keys (hm_OsdMapping hm))"
    by (simp add: map_of_eq_None_iff)
  moreover have "map_of ms h = None" using h by (simp add: map_of_eq_None_iff)
  then have "osd_at ms h d' = None" by (simp add: osd_at_def)
  ultimately show ?case
    using frame_trans [OF fr]
    by (auto simp: p collect_host_simp info)
qed

lemma collect_info:
  assumes "wf_cleanup m"
  shows "osd_at (fst (collect m)) h d = map_option (init_osd h d) (osd_at m h d)"
    and "frame m (fst (collect m))"
proof -
  have *: "osd_at m h d = Some om" if "(h, hm) \<in> set m" "(d, om) \<in> set (hm_OsdMapping hm)" for h hm d om
    using that assms osd_at_in by blast
  have c: "osd_at (fst (collect m)) h d =
      (if osd_at m h d \<noteq> None then map_option (init_osd h d) (osd_at m h d) else osd_at m h d)
    \<and> frame m (fst (collect m))"
    unfolding collect_def by (rule collect_hosts_info [OF assms *])
  then show "frame m (fst (collect m))" by simp
  from c show "osd_at (fst (collect m)) h d = map_option (init_osd h d) (osd_at m h d)"
    by (auto split: if_splits)
qed

lemma requested_iff:
  assumes "wf_cleanup m"
  shows "(h, d) \<in> set (requested m ph) \<longleftrightarrow> (\<exists>om. osd_at m h d = Some om \<and> req_phase h d om = Some ph)"
  unfolding osd_at_in [OF assms] by (force simp: requested_def)

lemma requested_distinct:
  assumes "wf_cleanup m"
  shows "distinct (requested m ph)"
proof -
  have hosts: "h \<in> fst ` set ms" if "(h, d) \<in> set (requested ms ph)" for h d ms
    using that by (force simp: requested_def)
  have "wf_cleanup ms \<Longrightarrow> distinct (requested ms ph)" for ms
  proof (induction ms)
    case (Cons p ms)
    obtain h hm where p: "p = (h, hm)" by (cases p)
    let ?here = "map (\<lambda>(d, om). (h, d)) (filter (\<lambda>(d, om). req_phase h d om = Some ph) (hm_OsdMapping hm))"
    have "distinct (map (\<lambda>(d, om). (h, d)) osds)" if "wf_map osds" for osds :: osd_map
      using that by (induction osds) force+
    moreover have "wf_map (filter (\<lambda>(d, om). req_phase h d om = Some ph) (hm_OsdMapping hm))"
      using Cons.prems p by (auto simp: wf_cleanup_def distinct_map intro: inj_on_subset)
    ultimately have "distinct ?here" by blast
    moreover have "requested (p # ms) ph = ?here @ requested ms ph"
      by (simp add: requested_def p)
    moreover have "h \<notin> fst ` set ms" "wf_cleanup ms" using Cons.prems p by (auto simp: wf_cleanup_def)
    moreover have "set ?here \<subseteq> {h} \<times> UNIV" by auto
    ultimately show ?case using Cons.IH hosts by fastforce
  qed (simp add: requested_def)
  then show ?thesis using assms by blast
qed

end
