(* ===== verification/Removal_Run.thy ===== *)
theory Removal_Run
  imports Removal_Map
begin

text \<open>
  What one run of \<^verbatim>\<open>processOsdRemoveTask\<close> does to the cleanup map as a whole. Every loop of the run
  visits a list of OSDs and changes only the OSD it visits; that contract is the locale
  \<open>osd_loop\<close>, interpreted on each loop body of the executor.
\<close>

section \<open>Loops over OSDs\<close>

abbreviation cmap :: "run_vars \<Rightarrow> cleanup_map" where
  "cmap v \<equiv> tri_CleanupMap (rv_info v)"

text \<open>Each visited OSD changes as \<open>R\<close> allows, nothing else changes.\<close>

definition changes :: "(OsdMapping \<Rightarrow> OsdMapping \<Rightarrow> bool) \<Rightarrow> host_osd list \<Rightarrow> cleanup_map \<Rightarrow> cleanup_map \<Rightarrow> bool" where
  "changes R xs m m' \<longleftrightarrow> frame m m' \<and> (distinct xs \<longrightarrow>
     (\<forall>h d. rel_option (\<lambda>om om'. if (h, d) \<in> set xs then R om om' else om' = om) (osd_at m h d) (osd_at m' h d)))"

lemma changes_Nil: "changes R [] m m"
  by (simp add: changes_def option.rel_refl)

lemma changes_update:
  assumes "\<And>om. osd_at m (fst p) (snd p) = Some om \<Longrightarrow> R om (f om)" and "changes R xs (update_osd p f m) m'"
  shows "changes R (p # xs) m m'"
  unfolding changes_def
proof (intro conjI impI allI)
  show "frame m m'"
    using assms(2) by (auto simp: changes_def intro: frame_trans [OF frame_update_osd])
  fix h d assume "distinct (p # xs)"
  then have "p \<notin> set xs" and
    "rel_option (\<lambda>om om'. if (h, d) \<in> set xs then R om om' else om' = om) (osd_at (update_osd p f m) h d) (osd_at m' h d)"
    using assms(2) by (simp_all add: changes_def)
  then show "rel_option (\<lambda>om om'. if (h, d) \<in> set (p # xs) then R om om' else om' = om) (osd_at m h d) (osd_at m' h d)"
    using assms(1)
    by (cases "osd_at m h d"; cases "osd_at m' h d"; cases "(h, d) = p") (auto simp: osd_at_update_osd)
qed

lemma changes_other:
  assumes "changes R xs m m'" and "distinct xs" and "(h, d) \<notin> set xs"
  shows "osd_at m' h d = osd_at m h d"
proof -
  from assms(1,2) have "rel_option (\<lambda>om om'. if (h, d) \<in> set xs then R om om' else om' = om) (osd_at m h d) (osd_at m' h d)"
    by (simp only: changes_def)
  with assms(3) show ?thesis by (cases "osd_at m h d"; cases "osd_at m' h d") simp_all
qed

lemma changes_visited:
  assumes "changes R xs m m'" and "distinct xs" and "(h, d) \<in> set xs" and "osd_at m h d = Some om"
  shows "\<exists>om'. osd_at m' h d = Some om' \<and> R om om'"
proof -
  from assms(1,2) have "rel_option (\<lambda>om om'. if (h, d) \<in> set xs then R om om' else om' = om) (osd_at m h d) (osd_at m' h d)"
    by (simp only: changes_def)
  with assms(3,4) show ?thesis by (auto simp: option_rel_Some1)
qed

locale osd_loop =
  fixes body :: "host_osd \<Rightarrow> run_vars \<Rightarrow> run_vars io"
    and R :: "OsdMapping \<Rightarrow> OsdMapping \<Rightarrow> bool"
  assumes visits: "run_state (body p v) h = (v', h') \<Longrightarrow>
    \<exists>f. cmap v' = update_osd p f (cmap v) \<and> (\<forall>om. osd_at (cmap v) (fst p) (snd p) = Some om \<longrightarrow> R om (f om))"

sublocale osd_loop \<subseteq> loop_body body "\<lambda>xs v v'. changes R xs (cmap v) (cmap v')"
proof
  fix x s h s1 h1 xs s2
  assume "run_state (body x s) h = (s1, h1)" and "changes R xs (cmap s1) (cmap s2)"
  then show "changes R (x # xs) (cmap s) (cmap s2)"
    using visits changes_update by metis
qed (simp add: changes_Nil)

lemma on_osd_simps [simp]:
  "cmap (on_osd p f v) = update_osd p f (cmap v)" "rv_notCompleted (on_osd p f v) = rv_notCompleted v"
  "rv_issues (on_osd p f v) = rv_issues v"
  by (simp_all add: on_osd_def)

lemma bump_simps [simp]:
  "rv_info (bump v) = rv_info v" "rv_notCompleted (bump v) = Suc (rv_notCompleted v)" "rv_issues (bump v) = rv_issues v"
  by (simp_all add: bump_def)

lemma add_issue_simps [simp]:
  "rv_info (add_issue msg v) = rv_info v" "rv_notCompleted (add_issue msg v) = rv_notCompleted v"
  "rv_issues (add_issue msg v) = rv_issues v @ [msg]"
  by (simp_all add: add_issue_def)

lemma host_at_bump [simp]: "osd_in (bump v) p = osd_in v p"
  by (simp add: osd_in_def host_at_def)

lemma osd_in_at: "osd_at (cmap v) (fst p) (snd p) = Some om \<Longrightarrow> osd_in v p = om"
  by (auto simp: osd_in_def host_at_def osd_at_def get_or_def bind_eq_Some_conv)

text \<open>An OSD whose own status is replaced by one a step may lead to.\<close>

definition moved :: "RemovePhase \<Rightarrow> OsdMapping \<Rightarrow> OsdMapping \<Rightarrow> bool" where
  "moved ph om om' \<longleftrightarrow> (\<exists>s. om' = set_osd_status s om \<and> (osd_phase om = Some ph \<longrightarrow> osd_step ph (rs_Status s)))"

lemma osd_phase_Some: "osd_phase om = Some ph \<longleftrightarrow> (\<exists>s. osd_status om = Some s \<and> rs_Status s = ph)"
  by (auto simp: osd_phase_def)

lemma returns_run: "returns P m \<Longrightarrow> run_state m h = (x, h') \<Longrightarrow> P x"
  by (metis fst_conv returns_def)

interpretation stray: osd_loop "stray_step E c" "moved RemoveStray" for E c
proof
  fix p v h v' h'
  assume "run_state (stray_step E c p v) h = (v', h')"
  then obtain s h1 where s: "run_state (removeStray E c (snd p) (cur_status v p)) h = (s, h1)"
    and v': "v' = on_osd p (set_osd_status s) (bump v)"
    by (auto simp: stray_step_def split: prod.splits)
  from returns_run [OF removeStray_phase s] v'
  show "\<exists>f. cmap v' = update_osd p f (cmap v) \<and>
      (\<forall>om. osd_at (cmap v) (fst p) (snd p) = Some om \<longrightarrow> moved RemoveStray om (f om))"
    unfolding moved_def by (intro exI [of _ "set_osd_status s"]) auto
qed

interpretation purge: osd_loop "remove_step E c" "moved RemoveInProgress" for E c
proof
  fix p v h v' h'
  assume "run_state (remove_step E c p v) h = (v', h')"
  then obtain s h1 where s: "run_state (removeFromCrush E c (snd p) (cur_status v p)) h = (s, h1)"
    and v': "v' = on_osd p (set_osd_status s) (bump v)"
    by (auto simp: remove_step_def split: prod.splits)
  from returns_run [OF removeFromCrush_phase s] v'
  show "\<exists>f. cmap v' = update_osd p f (cmap v) \<and>
      (\<forall>om. osd_at (cmap v) (fst p) (snd p) = Some om \<longrightarrow> moved RemoveInProgress om (f om))"
    unfolding moved_def by (intro exI [of _ "set_osd_status s"]) auto
qed

lemma cur_status_phase:
  assumes "osd_at (cmap v) (fst p) (snd p) = Some om" and "osd_phase om = Some ph"
  shows "rs_Status (cur_status v p) = ph"
  using assms(2) by (auto simp: cur_status_def osd_in_at [OF assms(1)] osd_phase_Some)

interpretation rebalance: osd_loop "rebalance_step E c" "moved RemoveWaitingRebalance" for E c
proof
  fix p v h v' h'
  assume "run_state (rebalance_step E c p v) h = (v', h')"
  then obtain s h1 where s: "run_state (checkRebalance E c (snd p) (cur_status v p)) h = (s, h1)"
    and v': "cmap v' = update_osd p (set_osd_status s) (cmap v)"
    by (auto simp: rebalance_step_def Let_def split: prod.splits if_splits)
  have "osd_step RemoveWaitingRebalance (rs_Status s)"
    if "osd_at (cmap v) (fst p) (snd p) = Some om" "osd_phase om = Some RemoveWaitingRebalance" for om
    using returns_run [OF checkRebalance_phase s] cur_status_phase [OF that] by blast
  with v' show "\<exists>f. cmap v' = update_osd p f (cmap v) \<and>
      (\<forall>om. osd_at (cmap v) (fst p) (snd p) = Some om \<longrightarrow> moved RemoveWaitingRebalance om (f om))"
    unfolding moved_def by (intro exI [of _ "set_osd_status s"]) auto
qed

section \<open>The loop over the removed OSDs\<close>

lemma removeDeployment_phase:
  "returns (\<lambda>s. rs_Status s = RemoveFinished \<or> rs_Status s = RemoveFailed) (removeDeployment E c osdID)"
  unfolding removeDeployment_def Let_def by (intro returns_intro) simp_all

lemma deployment_step_cases:
  assumes "run_state (deployment_step E c p v) h = (v', h')"
  obtains (removed) s where "deploy_status (osd_in v p) = None" "rs_Status s = RemoveFinished \<or> rs_Status s = RemoveFailed"
      "v' = on_osd p (set_deploy_status s) (bump v)"
  | (skipped) "deploy_status (osd_in v p) = None"
      "v' = on_osd p (set_deploy_status (RemoveStatus0\<lparr>rs_Status := RemoveSkipped\<rparr>)) v"
  | (failed) msg s where "deploy_status (osd_in v p) = Some s" "rs_Status s = RemoveFailed" "v' = add_issue msg v"
  | (kept) s where "deploy_status (osd_in v p) = Some s" "rs_Status s \<noteq> RemoveFailed" "v' = v"
proof (cases "deploy_status (osd_in v p)")
  case None
  show ?thesis
  proof (cases "osd_phase (osd_in v p) = Some RemoveFinished \<and> \<not> om_SkipDeviceCleanupJob (osd_in v p)")
    case True
    then obtain s h1 where "run_state (removeDeployment E c (snd p)) h = (s, h1)"
      and "v' = on_osd p (set_deploy_status s) (bump v)"
      using assms None by (auto simp: deployment_step_def Let_def split: prod.splits)
    with None show ?thesis using returns_run [OF removeDeployment_phase] removed by blast
  next
    case False
    then show ?thesis using assms None skipped by (auto simp: deployment_step_def Let_def)
  qed
next
  case (Some s)
  then show ?thesis
    using assms failed kept by (auto simp: deployment_step_def Let_def split: if_splits)
qed

lemma finished_step_cases:
  assumes run: "run_state (finished_step E c req p v) h = (v', h')"
  obtains (waiting) st where "job_open (osd_in v p)" "job_step (job_phase (osd_in v p)) (rs_Status st)"
      "rs_Status st = RemoveInProgress \<Longrightarrow> job_phase (osd_in v p) = Some RemoveInProgress \<or>
         \<not> other_jobs (snd p) (hm_OsdMapping (host_at v p))"
      "rs_Status st \<noteq> RemoveCompleted"
      "cmap v' = update_osd p (set_job_status st) (cmap v)" "rv_notCompleted v' = Suc (rv_notCompleted v)"
      "rv_issues v' = rv_issues v"
  | (closed) st h1 where "job_open (osd_in v p)" "job_step (job_phase (osd_in v p)) (rs_Status st)"
      "rs_Status st = RemoveCompleted \<or> rs_Status st = RemoveSkipped"
      "run_state (deployment_step E c p (on_osd p (set_job_status st) v)) h1 = (v', h')"
  | (job_failed) "job_phase (osd_in v p) = Some RemoveFailed" "cmap v' = cmap v" "rv_issues v' \<noteq> []"
      "set (rv_issues v) \<subseteq> set (rv_issues v')" "rv_notCompleted v' = rv_notCompleted v"
  | (odd_job) ph where "job_phase (osd_in v p) = Some ph" "\<not> job_open (osd_in v p)"
      "ph \<notin> {RemoveFailed, RemoveCompleted, RemoveSkipped}" "cmap v' = cmap v" "rv_issues v' = rv_issues v"
      "rv_notCompleted v' = rv_notCompleted v"
  | (job_done) "job_phase (osd_in v p) = Some RemoveCompleted \<or> job_phase (osd_in v p) = Some RemoveSkipped"
      "run_state (deployment_step E c p v) h = (v', h')"
proof -
  let ?om = "osd_in v p" and ?hm = "host_at v p"
  have none: "job_status ?om = None \<longleftrightarrow> job_phase ?om = None" by (simp add: job_phase_def)
  show ?thesis
  proof (cases "job_open ?om")
    case True
    let ?skip = "job_status ?om = None \<and> (hm_NodeIsDown ?hm \<or> hm_VolumesInfoMissed ?hm \<or> hm_DropFromCrush ?hm
      \<or> length (om_DeviceMapping ?om) = 0) \<or> om_SkipDeviceCleanupJob ?om"
    have *: "finished_step E c req p v =
      (if ?skip then deployment_step E c p (on_osd p (set_job_status (RemoveStatus0\<lparr>rs_Status := RemoveSkipped\<rparr>)) v)
       else do {
         st \<leftarrow> handleJobRun E c (snd p) (fst p) (hm_OsdMapping ?hm);
         let v' = on_osd p (set_job_status st) v;
         if rs_Status st \<noteq> RemoveCompleted then
           State_Monad.return
             (if req_of req RemoveWaitingRebalance = [] \<and> req_of req RemovePending = []
              then (bump v')\<lparr>rv_requeueNow := False\<rparr> else bump v')
         else deployment_step E c p v'
       })"
      using True by (auto simp: finished_step_def Let_def job_open_def none)
    show ?thesis
    proof (cases ?skip)
      case s: True
      have "job_step (job_phase ?om) RemoveSkipped"
        using True by (auto simp: job_open_def intro: job_step.skip)
      with run s True show ?thesis
        by (intro closed [of "RemoveStatus0\<lparr>rs_Status := RemoveSkipped\<rparr>" h]) (simp_all add: *)
    next
      case s: False
      obtain st h1 where st: "run_state (handleJobRun E c (snd p) (fst p) (hm_OsdMapping ?hm)) h = (st, h1)"
        by fastforce
      from run * s have run': "run_state (do {
         st \<leftarrow> handleJobRun E c (snd p) (fst p) (hm_OsdMapping ?hm);
         let v' = on_osd p (set_job_status st) v;
         if rs_Status st \<noteq> RemoveCompleted then
           State_Monad.return
             (if req_of req RemoveWaitingRebalance = [] \<and> req_of req RemovePending = []
              then (bump v')\<lparr>rv_requeueNow := False\<rparr> else bump v')
         else deployment_step E c p v'
       }) h = (v', h')" by (simp only: if_False)
      have ph: "job_step (job_phase ?om) (rs_Status st)"
          "rs_Status st = RemoveInProgress \<Longrightarrow> job_phase ?om = Some RemoveInProgress \<or> \<not> other_jobs (snd p) (hm_OsdMapping ?hm)"
        using returns_run [OF handleJobRun_phase st] True by (auto simp: osd_in_def)
      show ?thesis
      proof (cases "rs_Status st = RemoveCompleted")
        case c: True
        with run' st have "run_state (deployment_step E c p (on_osd p (set_job_status st) v)) h1 = (v', h')"
          by (simp add: Let_def)
        with True ph c show ?thesis by (intro closed [of st h1]) simp_all
      next
        case c: False
        show ?thesis
          by (rule waiting [of st]) (use run' st True ph c in \<open>auto simp: Let_def split: if_splits\<close>)
      qed
    qed
  next
    case False
    then have "\<exists>ph. job_phase ?om = Some ph" by (auto simp: job_open_def)
    with run False job_failed odd_job job_done show ?thesis
      by (fastforce simp: finished_step_def Let_def none job_open_def split: if_splits)
  qed
qed

lemma set_status_frame [simp]:
  "osd_status (set_job_status s om) = osd_status om" "osd_status (set_deploy_status s om) = osd_status om"
  "job_status (set_osd_status s om) = job_status om" "job_status (set_deploy_status s om) = job_status om"
  "deploy_status (set_osd_status s om) = deploy_status om" "deploy_status (set_job_status s om) = deploy_status om"
  by (cases "om_RemoveStatus om";
      simp add: osd_status_def job_status_def deploy_status_def set_osd_status_def set_job_status_def set_deploy_status_def)+

lemma set_status_same [simp]:
  "osd_status (set_osd_status s om) = (if om_RemoveStatus om = None then None else Some s)"
  "job_status (set_job_status s om) = (if om_RemoveStatus om = None then None else Some s)"
  "deploy_status (set_deploy_status s om) = (if om_RemoveStatus om = None then None else Some s)"
  by (cases "om_RemoveStatus om";
      simp add: osd_status_def job_status_def deploy_status_def set_osd_status_def set_job_status_def set_deploy_status_def)+

lemma set_status_rest [simp]:
  "om_RemoveStatus (set_osd_status s om) = None \<longleftrightarrow> om_RemoveStatus om = None"
  "om_RemoveStatus (set_job_status s om) = None \<longleftrightarrow> om_RemoveStatus om = None"
  "om_RemoveStatus (set_deploy_status s om) = None \<longleftrightarrow> om_RemoveStatus om = None"
  "om_DeviceMapping (set_osd_status s om) = om_DeviceMapping om"
  "om_DeviceMapping (set_job_status s om) = om_DeviceMapping om"
  "om_DeviceMapping (set_deploy_status s om) = om_DeviceMapping om"
  by (simp_all add: set_osd_status_def set_job_status_def set_deploy_status_def)

lemma no_status [simp]: "om_RemoveStatus om = None \<Longrightarrow> job_status om = None"
  "om_RemoveStatus om = None \<Longrightarrow> deploy_status om = None" "om_RemoveStatus om = None \<Longrightarrow> osd_status om = None"
  by (simp_all add: job_status_def deploy_status_def osd_status_def)

text \<open>How the step changes an OSD: its own status stays, the job makes at most one step and the
  deployment status is written at most once.\<close>

definition job_moved :: "OsdMapping \<Rightarrow> OsdMapping \<Rightarrow> bool" where
  "job_moved om om' \<longleftrightarrow> osd_status om' = osd_status om \<and> om_DeviceMapping om' = om_DeviceMapping om \<and>
     (job_status om' = job_status om \<or>
        job_open om \<and> (\<exists>s. job_status om' = Some s \<and> job_step (job_phase om) (rs_Status s))) \<and>
     (deploy_status om' = deploy_status om \<or> deploy_status om = None)"

lemma job_moved_refl [simp]: "job_moved om om"
  by (simp add: job_moved_def)

lemma job_moved_deploy:
  "job_moved om om' \<Longrightarrow> deploy_status om' = None \<Longrightarrow> job_moved om (set_deploy_status s om')"
  by (auto simp: job_moved_def)

lemma job_moved_job:
  "job_open om \<Longrightarrow> job_step (job_phase om) (rs_Status s) \<Longrightarrow> job_moved om (set_job_status s om)"
  by (cases "om_RemoveStatus om") (auto simp: job_moved_def)

lemma osd_in_on_osd:
  assumes "osd_at (cmap v) (fst p) (snd p) = Some om"
  shows "osd_in (on_osd p f v) p = f om"
  by (rule osd_in_at) (simp add: osd_at_update_osd assms)

lemma deployment_step_visits:
  assumes "run_state (deployment_step E c p v) h = (v', h')"
  shows "\<exists>f. cmap v' = update_osd p f (cmap v) \<and>
    (\<forall>om om0. osd_at (cmap v) (fst p) (snd p) = Some om \<longrightarrow> job_moved om0 om \<longrightarrow> job_moved om0 (f om))"
  using assms
proof (cases rule: deployment_step_cases)
  case (removed s)
  then show ?thesis
    by (intro exI [of _ "set_deploy_status s"]) (auto intro: job_moved_deploy dest: osd_in_at)
next
  case skipped
  then show ?thesis
    by (intro exI [of _ "set_deploy_status (RemoveStatus0\<lparr>rs_Status := RemoveSkipped\<rparr>)"])
      (auto intro: job_moved_deploy dest: osd_in_at)
qed (auto intro!: exI [of _ "\<lambda>x. x"])

interpretation finished: osd_loop "finished_step E c req" job_moved for E c req
proof
  fix p v h v' h'
  assume "run_state (finished_step E c req p v) h = (v', h')"
  then show "\<exists>f. cmap v' = update_osd p f (cmap v) \<and>
      (\<forall>om. osd_at (cmap v) (fst p) (snd p) = Some om \<longrightarrow> job_moved om (f om))"
  proof (cases rule: finished_step_cases)
    case (waiting st)
    then show ?thesis
      by (intro exI [of _ "set_job_status st"]) (auto intro: job_moved_job dest: osd_in_at)
  next
    case (closed st h1)
    from deployment_step_visits [OF closed(4)] obtain f where
      f: "cmap v' = update_osd p (f \<circ> set_job_status st) (cmap v)"
        "\<And>om om0. osd_at (cmap v) (fst p) (snd p) = Some om \<Longrightarrow> job_moved om0 (set_job_status st om) \<Longrightarrow>
           job_moved om0 (f (set_job_status st om))"
      by (auto simp: osd_at_update_osd)
    from f closed(1,2) show ?thesis
      by (intro exI [of _ "f \<circ> set_job_status st"]) (auto intro: job_moved_job dest: osd_in_at)
  next
    case job_done
    then show ?thesis using deployment_step_visits [OF job_done(2)] job_moved_refl by metis
  qed (auto intro!: exI [of _ "\<lambda>x. x"])
qed

text \<open>At most one cleanup job runs on a host.\<close>

definition one_job :: "cleanup_map \<Rightarrow> bool" where
  "one_job m \<longleftrightarrow> (\<forall>h d d' om om'. osd_at m h d = Some om \<longrightarrow> osd_at m h d' = Some om' \<longrightarrow>
     job_phase om = Some RemoveInProgress \<longrightarrow> job_phase om' = Some RemoveInProgress \<longrightarrow> d = d')"

lemma one_job_update:
  assumes "one_job m"
    and "\<And>om. osd_at m (fst p) (snd p) = Some om \<Longrightarrow> job_phase (f om) = Some RemoveInProgress \<Longrightarrow>
      job_phase om = Some RemoveInProgress \<or>
      (\<forall>d om'. d \<noteq> snd p \<longrightarrow> osd_at m (fst p) d = Some om' \<longrightarrow> job_phase om' \<noteq> Some RemoveInProgress)"
  shows "one_job (update_osd p f m)"
  unfolding one_job_def
proof (intro allI impI)
  have old: "\<exists>om0. osd_at m h d = Some om0 \<and> (job_phase om0 = Some RemoveInProgress \<or>
      (h, d) = p \<and> (\<forall>d2 om'. d2 \<noteq> d \<longrightarrow> osd_at m h d2 = Some om' \<longrightarrow> job_phase om' \<noteq> Some RemoveInProgress))"
    if "osd_at (update_osd p f m) h d = Some om" "job_phase om = Some RemoveInProgress" for h d om
    using that assms(2) by (auto simp: osd_at_update_osd split: if_splits)
  fix h d d' om om'
  assume A: "osd_at (update_osd p f m) h d = Some om" "job_phase om = Some RemoveInProgress"
    and B: "osd_at (update_osd p f m) h d' = Some om'" "job_phase om' = Some RemoveInProgress"
  from old [OF A] obtain om0 where a: "osd_at m h d = Some om0"
    "job_phase om0 = Some RemoveInProgress \<or> (h, d) = p \<and>
       (\<forall>d2 om'. d2 \<noteq> d \<longrightarrow> osd_at m h d2 = Some om' \<longrightarrow> job_phase om' \<noteq> Some RemoveInProgress)" by blast
  from old [OF B] obtain om0' where b: "osd_at m h d' = Some om0'"
    "job_phase om0' = Some RemoveInProgress \<or> (h, d') = p \<and>
       (\<forall>d2 om'. d2 \<noteq> d' \<longrightarrow> osd_at m h d2 = Some om' \<longrightarrow> job_phase om' \<noteq> Some RemoveInProgress)" by blast
  show "d = d'"
  proof (rule ccontr)
    assume "d \<noteq> d'"
    with a b have "job_phase om0 = Some RemoveInProgress" "job_phase om0' = Some RemoveInProgress" by auto
    with assms(1) a(1) b(1) \<open>d \<noteq> d'\<close> show False unfolding one_job_def by blast
  qed
qed

lemma no_other_jobs:
  assumes "\<not> other_jobs (snd p) (hm_OsdMapping (host_at v p))" and "d \<noteq> snd p"
    and "osd_at (cmap v) (fst p) d = Some om'"
  shows "job_phase om' \<noteq> Some RemoveInProgress"
proof -
  from assms(3) have "(d, om') \<in> set (hm_OsdMapping (host_at v p))"
    by (auto simp: host_at_def osd_at_def get_or_def bind_eq_Some_conv dest: map_of_SomeD)
  with assms(1,2) show ?thesis by (auto simp: other_jobs_def list_ex_iff)
qed

lemma deployment_step_jobs:
  assumes "run_state (deployment_step E c p v) h = (v', h')"
  shows "\<exists>f. cmap v' = update_osd p f (cmap v) \<and> (\<forall>om. job_status (f om) = job_status om)"
  using assms
  by (cases rule: deployment_step_cases)
    (auto intro: exI [of _ "set_deploy_status _"] exI [of _ "\<lambda>x. x"])

interpretation jobs: loop_body "finished_step E c req" "\<lambda>xs v v'. one_job (cmap v) \<longrightarrow> one_job (cmap v')" for E c req
proof
  fix p v h v1 h1 xs v2
  assume run: "run_state (finished_step E c req p v) h = (v1, h1)" and IH: "one_job (cmap v1) \<longrightarrow> one_job (cmap v2)"
  have "one_job (cmap v1)" if one: "one_job (cmap v)"
    using run
  proof (cases rule: finished_step_cases)
    case (waiting st)
    show ?thesis
      unfolding waiting(5)
    proof (rule one_job_update [OF one])
      fix om
      assume om: "osd_at (cmap v) (fst p) (snd p) = Some om" and
        "job_phase (set_job_status st om) = Some RemoveInProgress"
      then have "rs_Status st = RemoveInProgress" by (auto simp: job_phase_def split: if_splits)
      with waiting(3) om show "job_phase om = Some RemoveInProgress \<or>
          (\<forall>d om'. d \<noteq> snd p \<longrightarrow> osd_at (cmap v) (fst p) d = Some om' \<longrightarrow> job_phase om' \<noteq> Some RemoveInProgress)"
        using no_other_jobs osd_in_at by metis
    qed
  next
    case (closed st h1)
    from deployment_step_jobs [OF closed(4)] obtain f where
      f: "cmap v1 = update_osd p (f \<circ> set_job_status st) (cmap v)" "\<And>om. job_status (f om) = job_status om"
      by auto
    show ?thesis
      unfolding f(1) by (rule one_job_update [OF one]) (use closed(3) in \<open>auto simp: job_phase_def f(2) split: if_splits\<close>)
  next
    case job_done
    from deployment_step_jobs [OF job_done(2)] obtain f where
      f: "cmap v1 = update_osd p f (cmap v)" "\<And>om. job_status (f om) = job_status om"
      by auto
    show ?thesis unfolding f(1) by (rule one_job_update [OF one]) (simp add: job_phase_def f(2))
  qed (simp_all add: one)
  with IH show "one_job (cmap v) \<longrightarrow> one_job (cmap v2)" by blast
qed simp

text \<open>An OSD with nothing left to do, and one whose job status is none the executor writes.\<close>

definition settled :: "OsdMapping \<Rightarrow> bool" where
  "settled om \<longleftrightarrow> (job_phase om = Some RemoveCompleted \<or> job_phase om = Some RemoveSkipped) \<and>
     (\<exists>s. deploy_status om = Some s \<and> rs_Status s \<noteq> RemoveFailed)"

definition known_job :: "OsdMapping \<Rightarrow> bool" where
  "known_job om \<longleftrightarrow> job_open om \<or> job_phase om \<in> {Some RemoveFailed, Some RemoveCompleted, Some RemoveSkipped}"

definition quiet :: "host_osd list \<Rightarrow> run_vars \<Rightarrow> run_vars \<Rightarrow> bool" where
  "quiet xs v v' \<longleftrightarrow> changes job_moved xs (cmap v) (cmap v') \<and>
     rv_notCompleted v \<le> rv_notCompleted v' \<and> set (rv_issues v) \<subseteq> set (rv_issues v') \<and>
     (distinct xs \<and> rv_notCompleted v' = rv_notCompleted v \<and> rv_issues v' = [] \<longrightarrow>
        (\<forall>(h, d) \<in> set xs. \<forall>om om'. osd_at (cmap v) h d = Some om \<longrightarrow> osd_at (cmap v') h d = Some om' \<longrightarrow>
           om_RemoveStatus om \<noteq> None \<longrightarrow> known_job om \<longrightarrow> settled om'))"

lemma deployment_step_quiet:
  assumes "run_state (deployment_step E c p v) h = (v', h')"
  shows "rv_notCompleted v \<le> rv_notCompleted v' \<and> set (rv_issues v) \<subseteq> set (rv_issues v') \<and>
    (rv_notCompleted v' = rv_notCompleted v \<longrightarrow> rv_issues v' = [] \<longrightarrow>
       (\<forall>om om'. osd_at (cmap v) (fst p) (snd p) = Some om \<longrightarrow> osd_at (cmap v') (fst p) (snd p) = Some om' \<longrightarrow>
          om_RemoveStatus om \<noteq> None \<longrightarrow>
          job_phase om = Some RemoveCompleted \<or> job_phase om = Some RemoveSkipped \<longrightarrow> settled om'))"
  using assms
proof (cases rule: deployment_step_cases)
  case skipped
  then show ?thesis by (auto simp: osd_at_update_osd settled_def job_phase_def)
next
  case (kept s)
  then show ?thesis using osd_in_at by (fastforce simp: settled_def)
qed auto

lemma finished_step_quiet:
  assumes "run_state (finished_step E c req p v) h = (v', h')"
  shows "rv_notCompleted v \<le> rv_notCompleted v' \<and> set (rv_issues v) \<subseteq> set (rv_issues v') \<and>
    (rv_notCompleted v' = rv_notCompleted v \<longrightarrow> rv_issues v' = [] \<longrightarrow>
       (\<forall>om om'. osd_at (cmap v) (fst p) (snd p) = Some om \<longrightarrow> osd_at (cmap v') (fst p) (snd p) = Some om' \<longrightarrow>
          om_RemoveStatus om \<noteq> None \<longrightarrow> known_job om \<longrightarrow> settled om'))"
  using assms
proof (cases rule: finished_step_cases)
  case (closed st h1)
  from deployment_step_quiet [OF closed(4)] closed(3) show ?thesis
    by (auto simp: osd_at_update_osd job_phase_def)
next
  case (odd_job ph)
  then show ?thesis by (auto simp: known_job_def dest: osd_in_at)
next
  case job_done
  from deployment_step_quiet [OF job_done(2)] job_done(1) show ?thesis
    using osd_in_at by fastforce
qed auto

interpretation quiet: loop_body "finished_step E c req" quiet for E c req
proof
  fix p v h v1 h1 xs v2
  assume run: "run_state (finished_step E c req p v) h = (v1, h1)" and IH: "quiet xs v1 v2"
  note q = finished_step_quiet [OF run]
  obtain f where f: "cmap v1 = update_osd p f (cmap v)"
    "\<And>om. osd_at (cmap v) (fst p) (snd p) = Some om \<Longrightarrow> job_moved om (f om)"
    using finished.visits [OF run] by blast
  have ch: "changes job_moved (p # xs) (cmap v) (cmap v2)"
    using IH f by (auto simp: quiet_def intro: changes_update)
  have "settled om'"
    if nd: "distinct (p # xs)" "rv_notCompleted v2 = rv_notCompleted v" "rv_issues v2 = []"
      and hd: "(h, d) \<in> set (p # xs)" "osd_at (cmap v) h d = Some om" "osd_at (cmap v2) h d = Some om'"
        "om_RemoveStatus om \<noteq> None" "known_job om"
    for h d om om'
  proof -
    have same: "rv_notCompleted v2 = rv_notCompleted v1" "rv_notCompleted v1 = rv_notCompleted v" "rv_issues v1 = []"
      using nd q IH by (auto simp: quiet_def)
    show ?thesis
    proof (cases "(h, d) = p")
      case True
      then have "osd_at (cmap v1) h d = Some om'"
        using nd(1) IH hd(3) changes_other [of job_moved xs "cmap v1" "cmap v2" h d] by (simp add: quiet_def)
      with True q same hd show ?thesis by auto
    next
      case False
      then have "(h, d) \<in> set xs" "osd_at (cmap v1) h d = Some om"
        using hd f(1) by (auto simp: osd_at_update_osd)
      with IH same nd hd show ?thesis by (auto simp: quiet_def)
    qed
  qed
  then have "\<forall>(h, d) \<in> set (p # xs). \<forall>om om'. osd_at (cmap v) h d = Some om \<longrightarrow> osd_at (cmap v2) h d = Some om' \<longrightarrow>
      om_RemoveStatus om \<noteq> None \<longrightarrow> known_job om \<longrightarrow> settled om'"
    if "distinct (p # xs)" "rv_notCompleted v2 = rv_notCompleted v" "rv_issues v2 = []"
    using that by fast
  moreover have "rv_notCompleted v \<le> rv_notCompleted v2" "set (rv_issues v) \<subseteq> set (rv_issues v2)"
    using q IH by (auto simp: quiet_def)
  ultimately show "quiet (p # xs) v v2" using ch unfolding quiet_def by blast
qed (simp add: quiet_def changes_Nil)

end
