(* ===== verification/Removal_Guarantees.thy ===== *)
theory Removal_Guarantees
  imports Removal_Run
begin

text \<open>
  The guarantees of one run of the executor: which phases OSDs and cleanup jobs move between, which
  commands are issued and when a run reports the task finished.
\<close>

section \<open>Counting the open requests\<close>

definition counted :: "'a list \<Rightarrow> run_vars \<Rightarrow> run_vars \<Rightarrow> bool" where
  "counted xs v v' \<longleftrightarrow> rv_notCompleted v' = rv_notCompleted v + length xs \<and>
     tri_Issues (rv_info v') = tri_Issues (rv_info v) \<and> tri_Warnings (rv_info v') = tri_Warnings (rv_info v)"

lemma counted_step:
  assumes "rv_notCompleted v1 = Suc (rv_notCompleted v)" "tri_Issues (rv_info v1) = tri_Issues (rv_info v)"
    "tri_Warnings (rv_info v1) = tri_Warnings (rv_info v)" "counted xs v1 v2"
  shows "counted (x # xs) v v2"
  using assms by (simp add: counted_def)

lemma on_osd_info [simp]:
  "tri_Issues (rv_info (on_osd p f v)) = tri_Issues (rv_info v)"
  "tri_Warnings (rv_info (on_osd p f v)) = tri_Warnings (rv_info v)"
  by (simp_all add: on_osd_def)

interpretation stray_count: loop_body "stray_step E c" counted for E c
  by unfold_locales (auto simp: stray_step_def counted_def split: prod.splits)

interpretation purge_count: loop_body "remove_step E c" counted for E c
  by unfold_locales (auto simp: remove_step_def counted_def split: prod.splits)

interpretation rebalance_count: loop_body "rebalance_step E c" counted for E c
  by unfold_locales (auto simp: rebalance_step_def counted_def Let_def split: prod.splits if_splits)

section \<open>The loop over the pending OSDs\<close>

lemma reset_started_eq:
  "reset_started om = (case osd_status om of None \<Rightarrow> om | Some s \<Rightarrow> set_osd_status (s\<lparr>rs_StartedAt := []\<rparr>) om)"
  by (rule reset_started_def)

lemma set_osd_status_twice [simp]: "set_osd_status s (set_osd_status s' om) = set_osd_status s om"
  by (cases "om_RemoveStatus om") (simp_all add: set_osd_status_def)

lemma reset_started_idem [simp]: "reset_started (reset_started om) = reset_started om"
  by (cases "osd_status om"; cases "om_RemoveStatus om") (simp_all add: reset_started_def)

lemma reset_moved:
  assumes "moved RemovePending om om'"
  shows "moved RemovePending om (reset_started om')"
proof -
  from assms obtain s where s: "om' = set_osd_status s om"
    "osd_phase om = Some RemovePending \<longrightarrow> osd_step RemovePending (rs_Status s)"
    by (auto simp: moved_def)
  show ?thesis
  proof (cases "om_RemoveStatus om")
    case None
    with s show ?thesis by (auto simp: moved_def reset_started_def osd_phase_def)
  next
    case (Some r)
    with s show ?thesis
      by (auto simp: moved_def reset_started_def intro!: exI [of _ "s\<lparr>rs_StartedAt := []\<rparr>"])
  qed
qed

abbreviation reset_all :: "(string, string) gomap \<Rightarrow> run_vars \<Rightarrow> run_vars" where
  "reset_all w v \<equiv> fold (\<lambda>(osd, host). on_osd (host, osd) reset_started) w v"

lemma reset_all:
  "frame (cmap v) (cmap (reset_all w v))"
  "osd_at (cmap (reset_all w v)) h d =
     (if (d, h) \<in> set w then map_option reset_started (osd_at (cmap v) h d) else osd_at (cmap v) h d)"
  "rv_notCompleted (reset_all w v) = rv_notCompleted v"
  "tri_Issues (rv_info (reset_all w v)) = tri_Issues (rv_info v)"
proof (induction w arbitrary: v)
  case (Cons p w)
  obtain osd host where p: "p = (osd, host)" by (cases p)
  {
    case 1
    show ?case using Cons(1) [of "on_osd (host, osd) reset_started v"] frame_trans [OF frame_update_osd]
      by (auto simp: p)
  next
    case 2
    show ?case using Cons(2) [of "on_osd (host, osd) reset_started v"]
      by (cases "osd_at (cmap v) h d") (auto simp: p osd_at_update_osd)
  next
    case 3
    show ?case using Cons(3) by (simp add: p)
  next
    case 4
    show ?case using Cons(4) by (simp add: p)
  }
qed simp_all

definition pending_change :: "host_osd list \<Rightarrow> (string, string) gomap \<Rightarrow> string \<Rightarrow> string \<Rightarrow> OsdMapping \<Rightarrow> OsdMapping \<Rightarrow> bool" where
  "pending_change ps w h d om om' \<longleftrightarrow> om' = om \<or>
     (if (h, d) \<in> set ps then moved RemovePending om om' else om' = reset_started om \<and> (d, h) \<in> set w)"

lemma pending_loop_changes:
  assumes "run_state (pending_loop E c ps w v) hist = ((w', v'), hist')"
    and "distinct ps" and "\<forall>(d, h) \<in> set w. (h, d) \<notin> set ps"
  shows "frame (cmap v) (cmap v') \<and>
    (\<forall>h d om. osd_at (cmap v) h d = Some om \<longrightarrow>
       (\<exists>om'. osd_at (cmap v') h d = Some om' \<and> pending_change ps w h d om om')) \<and>
    rv_notCompleted v + (if ps = [] then 0 else 1) \<le> rv_notCompleted v' \<and>
    tri_Issues (rv_info v') = tri_Issues (rv_info v)"
  using assms
proof (induction ps arbitrary: w v hist)
  case Nil
  then show ?case by (auto simp: pending_change_def)
next
  case (Cons p ps)
  obtain s h1 where s: "run_state (tryToMoveOsdOut E c (snd p) (osd_status (osd_in v p))) hist = (s, h1)"
    by fastforce
  let ?v = "on_osd p (set_osd_status s) (bump v)"
  have mv: "moved RemovePending om (set_osd_status s om)" if "osd_at (cmap v) (fst p) (snd p) = Some om" for om
    using returns_run [OF tryToMoveOsdOut_phase s] osd_in_at [OF that]
    by (auto simp: moved_def osd_phase_def)
  show ?case
  proof (cases "rs_Status s = RemovePending")
    case True
    let ?w = "AList.update (snd p) (fst p) w"
    have "run_state (pending_loop E c ps ?w ?v) h1 = ((w', v'), hist')"
      using Cons.prems(1) s True by (simp add: Let_def)
    moreover have "\<forall>(d, h) \<in> set ?w. (h, d) \<notin> set ps"
      using Cons.prems(2,3) by (cases p) (auto dest: in_update)
    ultimately have IH: "frame (cmap ?v) (cmap v')"
      "\<And>h d om. osd_at (cmap ?v) h d = Some om \<Longrightarrow>
         \<exists>om'. osd_at (cmap v') h d = Some om' \<and> pending_change ps ?w h d om om'"
      "rv_notCompleted ?v + (if ps = [] then 0 else 1) \<le> rv_notCompleted v'"
      "tri_Issues (rv_info v') = tri_Issues (rv_info ?v)"
      using Cons.IH [of ?w ?v h1] Cons.prems(2) by simp_all
    have "\<exists>om'. osd_at (cmap v') h d = Some om' \<and> pending_change (p # ps) w h d om om'"
      if om: "osd_at (cmap v) h d = Some om" for h d om
    proof (cases "(h, d) = p")
      case p: True
      then obtain om' where "osd_at (cmap v') h d = Some om'" "pending_change ps ?w h d (set_osd_status s om) om'"
        using IH(2) [of h d "set_osd_status s om"] om by (auto simp: osd_at_update_osd)
      moreover from p om have "moved RemovePending om (set_osd_status s om)" using mv by auto
      ultimately show ?thesis
        using p Cons.prems(2) reset_moved by (auto simp: pending_change_def)
    next
      case False
      then have "osd_at (cmap ?v) h d = Some om" using om by (simp add: osd_at_update_osd)
      with IH(2) obtain om' where "osd_at (cmap v') h d = Some om'" "pending_change ps ?w h d om om'" by blast
      moreover have "(d, h) \<in> set ?w \<Longrightarrow> (d, h) \<in> set w" using False by (cases p) (auto dest: in_update)
      ultimately show ?thesis using False Cons.prems(3) by (auto simp: pending_change_def split: if_splits)
    qed
    with IH show ?thesis using frame_trans [OF frame_update_osd] by (auto split: if_splits)
  next
    case False
    then have v': "v' = reset_all w ?v" using Cons.prems(1) s by (simp add: Let_def)
    have "\<exists>om'. osd_at (cmap v') h d = Some om' \<and> pending_change (p # ps) w h d om om'"
      if "osd_at (cmap v) h d = Some om" for h d om
      using that mv Cons.prems(2,3) by (cases p) (auto simp: v' reset_all osd_at_update_osd pending_change_def)
    moreover have "frame (cmap v) (cmap v')"
      unfolding v' by (rule frame_trans [OF _ reset_all(1)]) simp
    ultimately show ?thesis by (simp add: v' reset_all)
  qed
qed

section \<open>The whole run\<close>

lemma req_of_drop:
  "req_of (drop_pending_if_failed req) ph =
     (if ph = RemovePending \<and> req_of req RemoveFailed \<noteq> [] then [] else req_of req ph)"
  by (auto simp: drop_pending_if_failed_def req_of_def get_or_def)

lemma save_issues_simps [simp]:
  "cmap (save_issues v) = cmap v" "rv_notCompleted (save_issues v) = rv_notCompleted v"
  "tri_Issues (rv_info (save_issues v)) = sort (rv_issues v)"
  by (simp_all add: save_issues_def)

text \<open>The change of one OSD in a run, by the list it was put into.\<close>

definition run_change :: "RemovePhase option \<Rightarrow> OsdMapping \<Rightarrow> OsdMapping \<Rightarrow> bool" where
  "run_change rp om om' \<longleftrightarrow>
     (case rp of
        Some RemoveFinished \<Rightarrow> job_moved om om'
      | Some RemoveStray \<Rightarrow> moved RemoveStray om om'
      | Some RemoveInProgress \<Rightarrow> moved RemoveInProgress om om'
      | Some RemoveWaitingRebalance \<Rightarrow> moved RemoveWaitingRebalance om om'
      | Some RemovePending \<Rightarrow> om' = om \<or> moved RemovePending om om'
      | _ \<Rightarrow> om' = om)"

text \<open>The states a run goes through.\<close>

lemma process_osds_stages:
  assumes run: "run_state (process_osds E c req0 ri) h = ((fin, ri', rq), h')"
  defines "req \<equiv> drop_pending_if_failed req0"
  obtains v0 v1 v2 v3 v4 v5 where
    "rv_info v0 = ri" "rv_notCompleted v0 = 0" "rv_issues v0 = failed_issues req" "rv_info v5 = ri'"
    "quiet (req_of req RemoveFinished) v0 v1"
    "one_job (cmap v0) \<longrightarrow> one_job (cmap v1)"
    "changes (moved RemoveStray) (req_of req RemoveStray) (cmap v1) (cmap v2)"
    "changes (moved RemoveInProgress) (req_of req RemoveInProgress) (cmap v2) (cmap v3)"
    "changes (moved RemoveWaitingRebalance) (req_of req RemoveWaitingRebalance) (cmap v3) (cmap v4)"
    "counted (req_of req RemoveStray) (save_issues v1) v2" "counted (req_of req RemoveInProgress) v2 v3"
    "counted (req_of req RemoveWaitingRebalance) v3 v4"
    "req_of req RemoveWaitingRebalance \<noteq> [] \<Longrightarrow> v5 = v4 \<and> \<not> fin"
    "req_of req RemoveWaitingRebalance = [] \<Longrightarrow>
       (\<exists>w' h1 h2. run_state (pending_loop E c (req_of req RemovePending) [] v4) h1 = ((w', v5), h2)) \<and>
       (fin \<longleftrightarrow> rv_notCompleted v5 = 0)"
proof -
  let ?v0 = "\<lparr>rv_info = ri, rv_notCompleted = 0, rv_requeueNow = True, rv_issues = failed_issues req\<rparr>"
  obtain v1 h1 where 1: "run_state (for_each (finished_step E c req) (req_of req RemoveFinished) ?v0) h = (v1, h1)"
    by fastforce
  obtain v2 h2 where 2: "run_state (for_each (stray_step E c) (req_of req RemoveStray) (save_issues v1)) h1 = (v2, h2)"
    by fastforce
  obtain v3 h3 where 3: "run_state (for_each (remove_step E c) (req_of req RemoveInProgress) v2) h2 = (v3, h3)"
    by fastforce
  obtain v4 h4 where 4: "run_state (for_each (rebalance_step E c) (req_of req RemoveWaitingRebalance) v3) h3 = (v4, h4)"
    by fastforce
  obtain w5 v5 h5 where 5: "run_state (pending_loop E c (req_of req RemovePending) [] v4) h4 = ((w5, v5), h5)"
    by (metis prod.exhaust)
  define v where "v = (if req_of req RemoveWaitingRebalance \<noteq> [] then v4 else v5)"
  note unfolded = run [unfolded process_osds_def Let_def, folded req_def]
  from unfolded 1 2 3 4 5 have res: "rv_info v = ri'"
    "req_of req RemoveWaitingRebalance \<noteq> [] \<Longrightarrow> \<not> fin"
    "req_of req RemoveWaitingRebalance = [] \<Longrightarrow> fin \<longleftrightarrow> rv_notCompleted v = 0"
    by (auto simp: v_def split: if_splits)
  show ?thesis
  proof (rule that [of ?v0 v v1 v2 v3 v4])
    show "quiet (req_of req RemoveFinished) ?v0 v1" by (rule quiet.loop [OF 1])
    show "one_job (cmap ?v0) \<longrightarrow> one_job (cmap v1)" by (rule jobs.loop [OF 1])
    show "changes (moved RemoveStray) (req_of req RemoveStray) (cmap v1) (cmap v2)"
      using stray.loop [OF 2] by simp
    show "changes (moved RemoveInProgress) (req_of req RemoveInProgress) (cmap v2) (cmap v3)"
      by (rule purge.loop [OF 3])
    show "changes (moved RemoveWaitingRebalance) (req_of req RemoveWaitingRebalance) (cmap v3) (cmap v4)"
      by (rule rebalance.loop [OF 4])
    show "counted (req_of req RemoveStray) (save_issues v1) v2" by (rule stray_count.loop [OF 2])
    show "counted (req_of req RemoveInProgress) v2 v3" by (rule purge_count.loop [OF 3])
    show "counted (req_of req RemoveWaitingRebalance) v3 v4" by (rule rebalance_count.loop [OF 4])
  qed (use res 5 in \<open>auto simp: v_def\<close>)
qed

lemma quiet_changes: "quiet xs v v' \<Longrightarrow> changes job_moved xs (cmap v) (cmap v')"
  by (simp add: quiet_def)

lemma stage:
  assumes "changes R xs m m'" and "distinct xs" and "osd_at m h d = Some om"
  shows "\<exists>om'. osd_at m' h d = Some om' \<and> (if (h, d) \<in> set xs then R om om' else om' = om)"
  using assms changes_other changes_visited by (cases "(h, d) \<in> set xs") fastforce+

text \<open>The lists of a run over a well-formed map.\<close>

lemma run_lists:
  assumes wf: "wf_cleanup m" and col: "collect m = (info, req, hosts)"
  defines "L \<equiv> req_of (drop_pending_if_failed req)"
  shows "distinct (L ph)" and "(h, d) \<in> set (L ph) \<Longrightarrow> osd_at m h d = Some om \<Longrightarrow> req_phase h d om = Some ph"
    and "osd_at m h d = Some om \<Longrightarrow> req_phase h d om = Some ph \<Longrightarrow> ph \<noteq> RemovePending \<Longrightarrow> (h, d) \<in> set (L ph)"
    and "osd_at m h d = Some om \<Longrightarrow> req_phase h d om = Some RemovePending \<Longrightarrow> requested m RemoveFailed = [] \<Longrightarrow>
      (h, d) \<in> set (L RemovePending)"
proof -
  have req: "req_of req = requested m" using collect_req [of m] col by auto
  show "distinct (L ph)" using requested_distinct [OF wf] by (simp add: L_def req_of_drop req)
  show "(h, d) \<in> set (L ph) \<Longrightarrow> osd_at m h d = Some om \<Longrightarrow> req_phase h d om = Some ph"
    using requested_iff [OF wf] by (auto simp: L_def req_of_drop req split: if_splits)
  show "osd_at m h d = Some om \<Longrightarrow> req_phase h d om = Some ph \<Longrightarrow> ph \<noteq> RemovePending \<Longrightarrow> (h, d) \<in> set (L ph)"
    using requested_iff [OF wf] by (auto simp: L_def req_of_drop req)
  show "osd_at m h d = Some om \<Longrightarrow> req_phase h d om = Some RemovePending \<Longrightarrow> requested m RemoveFailed = [] \<Longrightarrow>
      (h, d) \<in> set (L RemovePending)"
    using requested_iff [OF wf] by (auto simp: L_def req_of_drop req)
qed

lemma process_osds_changes:
  assumes wf: "wf_cleanup m" and col: "collect m = (info, req, hosts)" and info: "tri_CleanupMap ri = info"
    and run: "run_state (process_osds E c req ri) hist = ((fin, ri', rq), hist')"
    and at: "osd_at m h d = Some om"
  shows "\<exists>om'. osd_at (tri_CleanupMap ri') h d = Some om' \<and> run_change (req_phase h d om) (init_osd h d om) om'"
  using run
proof (cases rule: process_osds_stages)
  case (1 v0 v1 v2 v3 v4 v5)
  let ?L = "req_of (drop_pending_if_failed req)" and ?q = "(h, d)"
  note L = run_lists(1) [OF wf col] and in_L = run_lists(2) [OF wf col _ at]
  note out_L = run_lists(3) [OF wf col at]
  have at0: "osd_at (cmap v0) h d = Some (init_osd h d om)"
    using collect_info(1) [OF wf, of h d] col at info 1(1) by simp
  obtain om1 where om1: "osd_at (cmap v1) h d = Some om1"
    "if ?q \<in> set (?L RemoveFinished) then job_moved (init_osd h d om) om1 else om1 = init_osd h d om"
    using stage [OF quiet_changes [OF 1(5)] L at0] by blast
  obtain om2 where om2: "osd_at (cmap v2) h d = Some om2"
    "if ?q \<in> set (?L RemoveStray) then moved RemoveStray om1 om2 else om2 = om1"
    using stage [OF 1(7) L om1(1)] by blast
  obtain om3 where om3: "osd_at (cmap v3) h d = Some om3"
    "if ?q \<in> set (?L RemoveInProgress) then moved RemoveInProgress om2 om3 else om3 = om2"
    using stage [OF 1(8) L om2(1)] by blast
  obtain om4 where om4: "osd_at (cmap v4) h d = Some om4"
    "if ?q \<in> set (?L RemoveWaitingRebalance) then moved RemoveWaitingRebalance om3 om4 else om4 = om3"
    using stage [OF 1(9) L om3(1)] by blast
  have "\<exists>om5. osd_at (cmap v5) h d = Some om5 \<and>
      (if ?q \<in> set (?L RemovePending) then om5 = om4 \<or> moved RemovePending om4 om5 else om5 = om4)"
  proof (cases "?L RemoveWaitingRebalance = []")
    case True
    with 1(14) obtain w' h1 h2 where "run_state (pending_loop E c (?L RemovePending) [] v4) h1 = ((w', v5), h2)" by blast
    from pending_loop_changes [OF this L] om4(1) show ?thesis
      by (fastforce simp: pending_change_def)
  next
    case False
    with 1(13) om4(1) show ?thesis by auto
  qed
  then obtain om5 where om5: "osd_at (tri_CleanupMap ri') h d = Some om5"
    "if ?q \<in> set (?L RemovePending) then om5 = om4 \<or> moved RemovePending om4 om5 else om5 = om4"
    using 1(4) by auto
  have "run_change (req_phase h d om) (init_osd h d om) om5"
  proof (cases "req_phase h d om")
    case None
    with in_L have "?q \<notin> set (?L ph)" for ph by fastforce
    with None om1(2) om2(2) om3(2) om4(2) om5(2) show ?thesis by (simp add: run_change_def)
  next
    case (Some ph)
    with in_L have "?q \<in> set (?L ph') \<Longrightarrow> ph' = ph" for ph' by fastforce
    then have L': "?q \<in> set (?L ph') \<longleftrightarrow> ph' = ph \<and> ?q \<in> set (?L ph)" for ph' by blast
    show ?thesis
      using Some om1(2) om2(2) om3(2) om4(2) om5(2) out_L [OF Some]
      unfolding L' [of RemoveFinished] L' [of RemoveStray] L' [of RemoveInProgress]
        L' [of RemoveWaitingRebalance] L' [of RemovePending]
      by (cases ph) (auto simp: run_change_def split: if_splits)
  qed
  with om5(1) show ?thesis by blast
qed

text \<open>Dropping hosts leaves every OSD as it is.\<close>

interpretation drop: loop_body "drop_host E c"
  "\<lambda>xs v v'. keys (tri_CleanupMap v') = keys (tri_CleanupMap v) \<and> osd_at (tri_CleanupMap v') = osd_at (tri_CleanupMap v)
     \<and> tri_Issues v' = tri_Issues v" for E c
proof
  fix x v h v1 h1 xs v2
  assume run: "run_state (drop_host E c x v) h = (v1, h1)"
    and IH: "keys (tri_CleanupMap v2) = keys (tri_CleanupMap v1) \<and> osd_at (tri_CleanupMap v2) = osd_at (tri_CleanupMap v1)
      \<and> tri_Issues v2 = tri_Issues v1"
  obtain st h2 where st: "run_state (removeHostFromCrush E c x) h = (st, h2)" by fastforce
  have "tri_CleanupMap v1 = adjust x (\<lambda>hm. hm\<lparr>hm_HostRemoveStatus := Some st\<rparr>) (tri_CleanupMap v)"
    and "tri_Issues v1 = tri_Issues v"
    using run st by (auto simp: drop_host_def Let_def)
  moreover have "osd_at (adjust x (\<lambda>hm. hm\<lparr>hm_HostRemoveStatus := Some st\<rparr>) m) = osd_at m" for m
    by (intro ext) (auto simp: osd_at_def map_of_adjust bind_map_option comp_def)
  ultimately show "keys (tri_CleanupMap v2) = keys (tri_CleanupMap v) \<and> osd_at (tri_CleanupMap v2) = osd_at (tri_CleanupMap v)
      \<and> tri_Issues v2 = tri_Issues v"
    using IH by simp
qed simp

lemma processOsdRemoveTask_cases:
  assumes run: "run_state (processOsdRemoveTask E c ri) h = ((fin, ri', rq), h')"
    and col: "collect (tri_CleanupMap ri) = (info, req, hosts)"
  obtains (hosts) "hosts \<noteq> []" "\<not> fin" "rq" "osd_at (tri_CleanupMap ri') = osd_at info"
      "run_state (for_each (drop_host E c) hosts (ri\<lparr>tri_CleanupMap := info\<rparr>)) h = (ri', h')"
  | (osds) "hosts = []" "run_state (process_osds E c req (ri\<lparr>tri_CleanupMap := info\<rparr>)) h = ((fin, ri', rq), h')"
proof (cases "hosts = []")
  case True
  with assms osds show ?thesis by (simp add: processOsdRemoveTask_def)
next
  case False
  obtain ri1 h1 where 1: "run_state (for_each (drop_host E c) hosts (ri\<lparr>tri_CleanupMap := info\<rparr>)) h = (ri1, h1)"
    by fastforce
  with False assms have "ri' = ri1" "h' = h1" "\<not> fin" rq by (auto simp: processOsdRemoveTask_def)
  with 1 False hosts drop.loop [OF 1] show ?thesis by simp
qed

lemma run_change_always:
  assumes wf: "wf_cleanup (tri_CleanupMap ri)"
    and run: "run_state (processOsdRemoveTask E c ri) hist = ((fin, ri', rq), hist')"
    and at: "osd_at (tri_CleanupMap ri) h d = Some om"
  shows "\<exists>om'. osd_at (tri_CleanupMap ri') h d = Some om' \<and>
    (om' = init_osd h d om \<or> run_change (req_phase h d om) (init_osd h d om) om')"
proof -
  obtain info req hosts where col: "collect (tri_CleanupMap ri) = (info, req, hosts)" by (metis prod_cases3)
  from run col show ?thesis
  proof (cases rule: processOsdRemoveTask_cases)
    case hosts
    with collect_info(1) [OF wf, of h d] col at show ?thesis by simp
  next
    case osds
    from process_osds_changes [OF wf col _ osds(2) at] show ?thesis by auto
  qed
qed

lemma osd_phase_set [simp]:
  "osd_phase (set_osd_status s om) = (if om_RemoveStatus om = None then None else Some (rs_Status s))"
  by (simp add: osd_phase_def)

lemma run_change_phase:
  assumes "run_change (req_phase h d om) (init_osd h d om) om'"
  shows "osd_phase om' = osd_phase (init_osd h d om) \<or>
    (\<exists>ph ph'. osd_phase (init_osd h d om) = Some ph \<and> osd_phase om' = Some ph' \<and> osd_step ph ph')"
proof -
  let ?om = "init_osd h d om"
  have mv: "osd_phase om' = osd_phase ?om \<or>
      (\<exists>ph ph'. osd_phase ?om = Some ph \<and> osd_phase om' = Some ph' \<and> osd_step ph ph')"
    if "moved ph ?om om'" "osd_phase ?om = Some ph" for ph
    using that by (cases "om_RemoveStatus ?om") (auto simp: moved_def osd_phase_def)
  show ?thesis
  proof (cases "req_phase h d om")
    case (Some ph)
    then have "osd_phase ?om = Some ph" if "ph \<noteq> RemoveFinished"
      using that by (auto simp: req_phase_def split: if_splits)
    with assms Some mv show ?thesis
      by (cases ph) (auto simp: run_change_def job_moved_def osd_phase_def)
  qed (use assms in \<open>simp add: run_change_def\<close>)
qed

lemma process_osds_frame:
  assumes wf: "wf_cleanup m" and col: "collect m = (info, req, hosts)"
    and run: "run_state (process_osds E c req ri) hist = ((fin, ri', rq), hist')"
  shows "frame (tri_CleanupMap ri) (tri_CleanupMap ri')"
  using run
proof (cases rule: process_osds_stages)
  case (1 v0 v1 v2 v3 v4 v5)
  let ?L = "req_of (drop_pending_if_failed req)"
  have "frame (cmap v4) (cmap v5)"
  proof (cases "?L RemoveWaitingRebalance = []")
    case True
    with 1(14) obtain w' h1 h2 where "run_state (pending_loop E c (?L RemovePending) [] v4) h1 = ((w', v5), h2)" by blast
    from pending_loop_changes [OF this run_lists(1) [OF wf col]] show ?thesis by simp
  next
    case False
    with 1(13) show ?thesis by simp
  qed
  moreover have "frame (cmap v0) (cmap v1)" "frame (cmap v1) (cmap v2)" "frame (cmap v2) (cmap v3)" "frame (cmap v3) (cmap v4)"
    using quiet_changes [OF 1(5)] 1(7-9) by (simp_all add: changes_def)
  ultimately show ?thesis using frame_trans 1(1,4) by metis
qed

lemma wf_cleanup_adjust:
  assumes "wf_cleanup m" and "\<And>hm. hm_OsdMapping (f hm) = hm_OsdMapping hm"
  shows "wf_cleanup (adjust x f m)"
proof -
  have "wf_map (hm_OsdMapping hm)" if "(h, hm) \<in> set (AList.update x (f hx) m)" "map_of m x = Some hx" for h hm hx
    using in_update [OF that(1)] map_of_SomeD [OF that(2)] assms unfolding wf_cleanup_def list_all_iff by fastforce
  then show ?thesis
    using assms unfolding wf_cleanup_def list_all_iff
    by (auto simp: adjust_def split: option.splits)
qed

interpretation drop_wf: loop_body "drop_host E c"
  "\<lambda>xs v v'. wf_cleanup (tri_CleanupMap v) \<longrightarrow> wf_cleanup (tri_CleanupMap v')" for E c
proof
  fix x v h v1 h1 xs v2
  assume run: "run_state (drop_host E c x v) h = (v1, h1)"
    and IH: "wf_cleanup (tri_CleanupMap v1) \<longrightarrow> wf_cleanup (tri_CleanupMap v2)"
  obtain st h2 where st: "run_state (removeHostFromCrush E c x) h = (st, h2)" by fastforce
  have "tri_CleanupMap v1 = adjust x (\<lambda>hm. hm\<lparr>hm_HostRemoveStatus := Some st\<rparr>) (tri_CleanupMap v)"
    using run st by (auto simp: drop_host_def Let_def)
  with IH show "wf_cleanup (tri_CleanupMap v) \<longrightarrow> wf_cleanup (tri_CleanupMap v2)"
    using wf_cleanup_adjust by simp
qed simp

section \<open>The invariant of a cleanup map\<close>

text \<open>The statuses the executor itself writes.\<close>

definition wf_osd :: "OsdMapping \<Rightarrow> bool" where
  "wf_osd om \<longleftrightarrow> om_RemoveStatus om = None \<or>
     osd_phase om \<in> {Some RemovePending, Some RemoveWaitingRebalance, Some RemoveInProgress, Some RemoveStray,
       Some RemoveFinished, Some RemoveSkipped, Some RemoveFailed} \<and> known_job om"

definition wf_run :: "cleanup_map \<Rightarrow> bool" where
  "wf_run m \<longleftrightarrow> wf_cleanup m \<and> list_all (\<lambda>(_, hm). list_all (\<lambda>(_, om). wf_osd om) (hm_OsdMapping hm)) m"

lemma wf_run_iff:
  "wf_run m \<longleftrightarrow> wf_cleanup m \<and> (\<forall>h d om. osd_at m h d = Some om \<longrightarrow> wf_osd om)"
proof (cases "wf_cleanup m")
  case True
  then show ?thesis by (force simp: wf_run_def list_all_iff osd_at_in)
qed (simp add: wf_run_def)

lemma wf_osd_init: "wf_osd om \<Longrightarrow> wf_osd (init_osd h d om)"
  by (cases "om_RemoveStatus om")
    (auto simp: wf_osd_def init_osd_def osd_phase_def osd_status_def known_job_def job_open_def job_phase_def
      job_status_def initial_phase_def)

lemma wf_osd_moved:
  assumes "moved ph om om'" and "osd_phase om = Some ph" and "wf_osd om"
  shows "wf_osd om'"
proof -
  from assms(1,2) obtain s where om': "om' = set_osd_status s om" and "osd_step ph (rs_Status s)"
    by (auto simp: moved_def)
  then have "rs_Status s \<in> {RemovePending, RemoveWaitingRebalance, RemoveInProgress, RemoveFinished, RemoveSkipped, RemoveFailed}"
    by (auto elim: osd_step.cases)
  with assms(3) show ?thesis by (auto simp: om' wf_osd_def known_job_def job_open_def job_phase_def)
qed

lemma wf_osd_job_moved: "job_moved om om' \<Longrightarrow> wf_osd om \<Longrightarrow> om_RemoveStatus om \<noteq> None \<Longrightarrow> wf_osd om'"
proof -
  assume mv: "job_moved om om'" and wf: "wf_osd om" and ne: "om_RemoveStatus om \<noteq> None"
  have phase: "osd_phase om' = osd_phase om" using mv by (simp add: job_moved_def osd_phase_def)
  have new: "job_step ph x \<Longrightarrow> x \<in> {RemovePending, RemoveSkipped, RemoveInProgress, RemoveFailed, RemoveCompleted}" for ph x
    by (erule job_step.cases) simp_all
  have "known_job om'"
  proof (cases "job_status om' = job_status om")
    case True
    with wf ne show ?thesis by (simp add: wf_osd_def known_job_def job_open_def job_phase_def)
  next
    case False
    with mv obtain s where "job_status om' = Some s" "job_step (job_phase om) (rs_Status s)"
      by (auto simp: job_moved_def)
    with new show ?thesis by (fastforce simp: known_job_def job_open_def job_phase_def)
  qed
  with wf ne show "wf_osd om'" by (simp add: wf_osd_def phase)
qed

lemma init_osd_status [simp]: "om_RemoveStatus (init_osd h d om) \<noteq> None"
  by (simp add: init_osd_def split: option.splits)

lemma wf_osd_run_change:
  assumes "run_change (req_phase h d om) (init_osd h d om) om'" and "wf_osd om"
  shows "wf_osd om'"
proof (cases "req_phase h d om")
  case (Some ph)
  then have "osd_phase (init_osd h d om) = Some ph" if "ph \<noteq> RemoveFinished"
    using that by (auto simp: req_phase_def split: if_splits)
  with Some assms wf_osd_init [OF assms(2)] show ?thesis
    by (cases ph) (auto simp: run_change_def intro: wf_osd_moved wf_osd_job_moved [OF _ _ init_osd_status])
qed (use assms wf_osd_init in \<open>auto simp: run_change_def\<close>)

lemma run_wf_cleanup:
  assumes wf: "wf_cleanup (tri_CleanupMap ri)"
    and run: "run_state (processOsdRemoveTask E c ri) hist = ((fin, ri', rq), hist')"
  shows "wf_cleanup (tri_CleanupMap ri')"
proof -
  obtain info req hosts where col: "collect (tri_CleanupMap ri) = (info, req, hosts)" by (metis prod_cases3)
  then have info: "wf_cleanup info" using collect_info(2) [OF wf] frame_wf wf by simp
  from run col show ?thesis
  proof (cases rule: processOsdRemoveTask_cases)
    case hosts
    with drop_wf.loop [OF hosts(5)] info show ?thesis by simp
  next
    case osds
    with process_osds_frame [OF wf col osds(2)] info frame_wf show ?thesis by simp
  qed
qed

lemma run_osd_at_None:
  assumes wf: "wf_cleanup (tri_CleanupMap ri)"
    and run: "run_state (processOsdRemoveTask E c ri) hist = ((fin, ri', rq), hist')"
    and at: "osd_at (tri_CleanupMap ri) h d = None"
  shows "osd_at (tri_CleanupMap ri') h d = None"
proof -
  have fr: "osd_at m' h d = None" if "frame m m'" and "osd_at m h d = None" for m m'
    using frame_osd_at [OF that(1)] that(2) by (cases "osd_at m' h d") fastforce+
  obtain info req hosts where col: "collect (tri_CleanupMap ri) = (info, req, hosts)" by (metis prod_cases3)
  then have info: "osd_at info h d = None" using collect_info(1) [OF wf, of h d] at by simp
  from run col show ?thesis
  proof (cases rule: processOsdRemoveTask_cases)
    case hosts
    with info show ?thesis by simp
  next
    case osds
    with process_osds_frame [OF wf col osds(2)] info fr show ?thesis by simp
  qed
qed

end
