(* ===== verification/Removal_Commands.thy ===== *)
theory Removal_Commands
  imports Removal_Guarantees
begin

text \<open>
  The commands one run of the executor sends to the cluster: which OSDs are purged, which one is
  taken out and which hosts are dropped.
\<close>

section \<open>Calls of the loops\<close>

lemma deployment_step_calls [calls_intro]:
  assumes "\<And>c. harmless c \<Longrightarrow> P c" and "\<And>a b. P (DeleteDeployment a b)"
  shows "calls_in P (deployment_step E c p v)"
  unfolding deployment_step_def Let_def by (intro calls_intro assms)

lemma finished_step_calls [calls_intro]:
  assumes "\<And>c. harmless c \<Longrightarrow> P c" and "\<And>a b. P (DeleteDeployment a b)" and "\<And>a b. P (DeleteJob a b)"
    and "\<And>job. P (CreateJob job)"
  shows "calls_in P (finished_step E c req p v)"
  unfolding finished_step_def Let_def by (intro calls_intro) (simp_all add: assms)

lemma stray_step_calls [calls_intro]:
  assumes "\<And>c. harmless c \<Longrightarrow> P c" and "\<And>a b n. P (UpdateScale a b n)"
    and "\<And>a b d. P (Exec a b d cmd_osd_ls)" and "\<And>a b d x. P (Exec a b d (cmd_auth_del x))"
  shows "calls_in P (stray_step E c p v)"
  unfolding stray_step_def by (intro calls_intro assms)

lemma remove_step_calls [calls_intro]:
  assumes "\<And>c. harmless c \<Longrightarrow> P c" and "\<And>a b n. P (UpdateScale a b n)"
    and "\<And>a b d. P (Exec a b d (cmd_purge (base_id (snd p))))" and "\<And>a b d x. P (Exec a b d (cmd_auth_del x))"
  shows "calls_in P (remove_step E c p v)"
  unfolding remove_step_def by (intro calls_intro assms)

lemma rebalance_step_calls [calls_intro]:
  assumes "\<And>c. harmless c \<Longrightarrow> P c" and "\<And>a b d x. P (Exec a b d (cmd_pg_ls x))"
  shows "calls_in P (rebalance_step E c p v)"
  unfolding rebalance_step_def Let_def by (intro calls_intro assms)

lemma drop_host_calls [calls_intro]:
  assumes "\<And>c. harmless c \<Longrightarrow> P c" and "\<And>a b d. P (Exec a b d (cmd_crush_remove host))"
  shows "calls_in P (drop_host E c host v)"
  unfolding drop_host_def Let_def by (intro calls_intro assms)

lemma pending_loop_calls [calls_intro]:
  assumes "\<And>c. harmless c \<Longrightarrow> P c" and "\<And>a b d x. P (Exec a b d (cmd_osd_info x))"
    and "\<And>a b d x. P (Exec a b d (cmd_ok_to_stop x))"
    and "\<And>a b d p. p \<in> set ps \<Longrightarrow> P (Exec a b d (cmd_reweight (snd p)))"
  shows "calls_in P (pending_loop E c ps w v)"
  using assms(4)
proof (induction ps arbitrary: w v)
  case Nil
  show ?case by (simp add: calls_in_return)
next
  case (Cons p ps)
  show ?case
    unfolding pending_loop.simps Let_def by (intro calls_intro Cons.IH) (simp_all add: assms(1-3) Cons.prems)
qed

text \<open>Every call of a run, by the list its OSD is in.\<close>

lemma process_osds_calls:
  fixes req0
  defines "L \<equiv> req_of (drop_pending_if_failed req0)"
  assumes "\<And>c. harmless c \<Longrightarrow> P c" and "\<And>a b. P (DeleteDeployment a b)" and "\<And>a b. P (DeleteJob a b)"
    and "\<And>job. P (CreateJob job)" and "\<And>a b n. P (UpdateScale a b n)"
    and "\<And>a b d. P (Exec a b d cmd_osd_ls)" and "\<And>a b d x. P (Exec a b d (cmd_auth_del x))"
    and "\<And>a b d x. P (Exec a b d (cmd_pg_ls x))" and "\<And>a b d x. P (Exec a b d (cmd_osd_info x))"
    and "\<And>a b d x. P (Exec a b d (cmd_ok_to_stop x))"
    and "\<And>a b d p. p \<in> set (L RemoveInProgress) \<Longrightarrow> P (Exec a b d (cmd_purge (base_id (snd p))))"
    and "\<And>a b d p. L RemoveWaitingRebalance = [] \<Longrightarrow> p \<in> set (L RemovePending) \<Longrightarrow> P (Exec a b d (cmd_reweight (snd p)))"
  shows "calls_in P (process_osds E c req0 ri)"
  unfolding process_osds_def Let_def by (intro calls_intro) (simp_all add: assms(2-) [unfolded L_def])

section \<open>Reading a run\<close>

definition run_info :: "env \<Rightarrow> cephOsdRemoveConfig \<Rightarrow> TaskRemoveInfo \<Rightarrow> hist \<Rightarrow> TaskRemoveInfo" where
  "run_info E c ri h = fst (snd (fst (run_state (processOsdRemoveTask E c ri) h)))"

definition run_finished :: "env \<Rightarrow> cephOsdRemoveConfig \<Rightarrow> TaskRemoveInfo \<Rightarrow> hist \<Rightarrow> bool" where
  "run_finished E c ri h = fst (fst (run_state (processOsdRemoveTask E c ri) h))"

definition run_calls :: "env \<Rightarrow> cephOsdRemoveConfig \<Rightarrow> TaskRemoveInfo \<Rightarrow> hist \<Rightarrow> call list" where
  "run_calls E c ri h = drop (length h) (snd (run_state (processOsdRemoveTask E c ri) h))"

lemma run_unfold:
  obtains rq h' where "run_state (processOsdRemoveTask E c ri) h = ((run_finished E c ri h, run_info E c ri h, rq), h')"
  by (cases "run_state (processOsdRemoveTask E c ri) h") (auto simp: run_finished_def run_info_def)

lemma calls_in_drop: "calls_in P m \<Longrightarrow> x \<in> set (drop (length h) (snd (run_state m h))) \<Longrightarrow> P x"
  unfolding calls_in_def list_all_iff by (metis append_eq_conv_conj)

lemma processOsdRemoveTask_calls:
  fixes ri :: TaskRemoveInfo
  defines "m \<equiv> tri_CleanupMap ri"
  assumes harmless: "\<And>c. harmless c \<Longrightarrow> P c" and other: "\<And>a b. P (DeleteDeployment a b)" "\<And>a b. P (DeleteJob a b)"
    "\<And>job. P (CreateJob job)" "\<And>a b n. P (UpdateScale a b n)"
    "\<And>a b d. P (Exec a b d cmd_osd_ls)" "\<And>a b d x. P (Exec a b d (cmd_auth_del x))"
    "\<And>a b d x. P (Exec a b d (cmd_pg_ls x))" "\<And>a b d x. P (Exec a b d (cmd_osd_info x))"
    "\<And>a b d x. P (Exec a b d (cmd_ok_to_stop x))"
    and drop: "\<And>a b d h hm. (h, hm) \<in> set m \<Longrightarrow> host_done hm \<Longrightarrow> P (Exec a b d (cmd_crush_remove h))"
    and purge: "\<And>a b d p. p \<in> set (requested m RemoveInProgress) \<Longrightarrow> P (Exec a b d (cmd_purge (base_id (snd p))))"
    and out: "\<And>a b d p. requested m RemoveWaitingRebalance = [] \<Longrightarrow> requested m RemoveFailed = [] \<Longrightarrow>
      p \<in> set (requested m RemovePending) \<Longrightarrow> P (Exec a b d (cmd_reweight (snd p)))"
  shows "calls_in P (processOsdRemoveTask E c ri)"
proof -
  obtain info req hosts where col: "collect m = (info, req, hosts)" by (metis prod_cases3)
  have req: "req_of req = requested m" using collect_req [of m] col by auto
  have hosts: "hosts = map fst (filter (\<lambda>(_, hm). host_done hm) m)" using collect_hosts [of m] col by simp
  have 1: "calls_in P (process_osds E c req ri')" for ri'
    by (rule process_osds_calls) (simp_all add: harmless other purge out req_of_drop req split: if_splits)
  have 2: "calls_in P (for_each (drop_host E c) hosts ri')" for ri'
    by (intro calls_intro) (auto simp: hosts harmless intro: drop)
  show ?thesis
    unfolding processOsdRemoveTask_def m_def [symmetric] col Let_def prod.case
    by (intro calls_intro 1 2)
qed

section \<open>Taking an OSD out\<close>

text \<open>\<open>effects Q m\<close>: the result of \<open>m\<close> and the calls it appends satisfy \<open>Q\<close>.\<close>

definition effects :: "('a \<Rightarrow> call list \<Rightarrow> bool) \<Rightarrow> 'a io \<Rightarrow> bool" where
  "effects Q m \<longleftrightarrow> (\<forall>h. \<exists>cs. snd (run_state m h) = h @ cs \<and> Q (fst (run_state m h)) cs)"

lemma effects_bind:
  assumes m: "effects R m" and f: "\<And>x. effects (\<lambda>y ds. \<forall>cs. R x cs \<longrightarrow> Q y (cs @ ds)) (f x)"
  shows "effects Q (m \<bind> f)"
  unfolding effects_def
proof
  fix h
  obtain x h1 where x: "run_state m h = (x, h1)" by fastforce
  with m obtain cs where cs: "h1 = h @ cs" "R x cs" unfolding effects_def by (metis fst_conv snd_conv)
  obtain y h2 where y: "run_state (f x) h1 = (y, h2)" by fastforce
  with f [of x] obtain ds where "h2 = h1 @ ds" "\<forall>cs. R x cs \<longrightarrow> Q y (cs @ ds)"
    unfolding effects_def by (metis fst_conv snd_conv)
  with x y cs show "\<exists>cs. snd (run_state (m \<bind> f) h) = h @ cs \<and> Q (fst (run_state (m \<bind> f) h)) cs"
    by (intro exI [of _ "cs @ ds"]) simp
qed

lemma effects_calls: "calls_in P m \<Longrightarrow> returns R m \<Longrightarrow> effects (\<lambda>x cs. R x \<and> list_all P cs) m"
  unfolding effects_def calls_in_def returns_def by metis

lemma effects_mono: "effects Q m \<Longrightarrow> (\<And>x cs. Q x cs \<Longrightarrow> R x cs) \<Longrightarrow> effects R m"
  unfolding effects_def by metis

lemma effects_return: "Q x [] \<Longrightarrow> effects Q (State_Monad.return x)"
  by (simp add: effects_def)

definition reweighted :: "call list \<Rightarrow> string set" where
  "reweighted cs = {osdID. \<exists>c \<in> set cs. runs (cmd_reweight osdID) c}"

lemma reweighted_append [simp]: "reweighted (cs @ ds) = reweighted cs \<union> reweighted ds"
  by (auto simp: reweighted_def)

lemma reweighted_empty [simp]: "reweighted [] = {}"
  by (simp add: reweighted_def)

abbreviation keeps_weight :: "call \<Rightarrow> bool" where
  "keeps_weight c \<equiv> \<forall>osdID. \<not> runs (cmd_reweight osdID) c"

lemma reweighted_none: "list_all keeps_weight cs \<Longrightarrow> reweighted cs = {}"
  by (auto simp: reweighted_def list_all_iff)

lemmas cmd_defs = cmd_crush_remove_def cmd_purge_def cmd_auth_del_def cmd_reweight_def cmd_ok_to_stop_def
  cmd_osd_info_def cmd_pg_ls_def cmd_osd_ls_def

lemma cmd_reweight_inj [simp]: "cmd_reweight a = cmd_reweight b \<longleftrightarrow> a = b"
  by (simp add: cmd_defs)

lemma cmd_purge_inj [simp]: "cmd_purge a = cmd_purge b \<longleftrightarrow> a = b"
  by (simp add: cmd_defs)

lemma cmd_crush_remove_inj [simp]: "cmd_crush_remove a = cmd_crush_remove b \<longleftrightarrow> a = b"
  by (simp add: cmd_defs)

lemma cmd_distinct [simp]:
  "cmd_reweight a \<noteq> cmd_purge b" "cmd_reweight a \<noteq> cmd_crush_remove b" "cmd_reweight a \<noteq> cmd_auth_del b"
  "cmd_reweight a \<noteq> cmd_ok_to_stop b" "cmd_reweight a \<noteq> cmd_osd_info b" "cmd_reweight a \<noteq> cmd_pg_ls b"
  "cmd_reweight a \<noteq> cmd_osd_ls" "cmd_purge a \<noteq> cmd_crush_remove b" "cmd_purge a \<noteq> cmd_auth_del b"
  "cmd_purge a \<noteq> cmd_ok_to_stop b" "cmd_purge a \<noteq> cmd_osd_info b" "cmd_purge a \<noteq> cmd_pg_ls b"
  "cmd_purge a \<noteq> cmd_osd_ls" "cmd_crush_remove a \<noteq> cmd_auth_del b" "cmd_crush_remove a \<noteq> cmd_ok_to_stop b"
  "cmd_crush_remove a \<noteq> cmd_osd_info b" "cmd_crush_remove a \<noteq> cmd_pg_ls b" "cmd_crush_remove a \<noteq> cmd_osd_ls"
  by (simp_all add: cmd_defs)

lemmas cmd_distinct_sym [simp] = cmd_distinct [symmetric]

definition out_ok :: "string \<Rightarrow> RemoveStatus \<Rightarrow> call list \<Rightarrow> bool" where
  "out_ok osdID s cs \<longleftrightarrow> reweighted cs \<subseteq> {osdID} \<and> (rs_Status s = RemovePending \<longrightarrow> reweighted cs = {})"

lemma out_ok_bind:
  assumes "calls_in keeps_weight m" and "\<And>x. effects (out_ok osdID) (f x)"
  shows "effects (out_ok osdID) (m \<bind> f)"
proof (rule effects_bind)
  show "effects (\<lambda>x cs. True \<and> list_all keeps_weight cs) m"
    by (rule effects_calls [OF assms(1)]) (simp add: returns_def)
  show "effects (\<lambda>y ds. \<forall>cs. True \<and> list_all keeps_weight cs \<longrightarrow> out_ok osdID y (cs @ ds)) (f x)" for x
    by (rule effects_mono [OF assms(2)]) (auto simp: out_ok_def dest: reweighted_none)
qed

lemma out_ok_quiet: "calls_in keeps_weight m \<Longrightarrow> effects (out_ok osdID) m"
  by (rule effects_mono [OF effects_calls [where R = "\<lambda>_. True"]])
    (auto simp: returns_def out_ok_def dest: reweighted_none)

lemma reweight_osd_out:
  assumes "ph \<noteq> RemovePending"
  shows "effects (out_ok osdID) (reweight_osd E c osdID ph)"
proof -
  have "calls_in (\<lambda>c. \<forall>x. runs (cmd_reweight x) c \<longrightarrow> x = osdID) (reweight_osd E c osdID ph)"
    unfolding reweight_osd_def by (intro calls_intro) auto
  from effects_calls [OF this reweight_osd_phase] show ?thesis
    by (rule effects_mono) (use assms in \<open>auto simp: out_ok_def reweighted_def list_all_iff\<close>)
qed

lemma tryToMoveOsdOut_out: "effects (out_ok osdID) (tryToMoveOsdOut E c osdID st)"
proof -
  have 1: "calls_in keeps_weight (getOsdInfo E c osdID)"
    unfolding getOsdInfo_def cmd_osd_info_def [symmetric] by (intro calls_intro) simp_all
  have 2: "calls_in keeps_weight (RunCephToolboxCLI E ns (cmd_ok_to_stop osdID))" for ns
    by (intro calls_intro) simp_all
  have 3: "calls_in keeps_weight (ok_to_stop_refused E c osdID st)" by (intro calls_intro) simp
  have 4: "calls_in keeps_weight (GetCurrentTimeString E)" by (intro calls_intro) simp
  show ?thesis
    unfolding tryToMoveOsdOut_def
    by (rule out_ok_bind, intro calls_intro 1, simp)
      (auto intro!: out_ok_bind [OF 2] out_ok_quiet [OF 3] out_ok_bind [OF 4] reweight_osd_out
        out_ok_quiet [OF calls_in_return] split: option.splits)
qed

lemma pending_loop_out:
  "effects (\<lambda>_ cs. \<exists>osdID. reweighted cs \<subseteq> {osdID}) (pending_loop E c ps w v)"
proof (induction ps arbitrary: w v)
  case Nil
  show ?case by (simp add: effects_return)
next
  case (Cons p ps)
  show ?case
    unfolding pending_loop.simps
  proof (rule effects_bind [OF tryToMoveOsdOut_out], goal_cases)
    case (1 s)
    let ?v = "on_osd p (set_osd_status s) (bump v)"
    show ?case
    proof (cases "rs_Status s = RemovePending")
      case True
      have "effects (\<lambda>y ds. \<forall>cs. out_ok (snd p) s cs \<longrightarrow> (\<exists>osdID. reweighted (cs @ ds) \<subseteq> {osdID}))
          (pending_loop E c ps (AList.update (snd p) (fst p) w) ?v)"
        by (rule effects_mono [OF Cons.IH]) (use True in \<open>auto simp: out_ok_def\<close>)
      with True show ?thesis by (simp add: Let_def)
    next
      case False
      then show ?thesis by (auto simp: Let_def out_ok_def intro!: effects_return)
    qed
  qed
qed

abbreviation single_out :: "'a \<Rightarrow> call list \<Rightarrow> bool" where
  "single_out x cs \<equiv> \<exists>osdID. reweighted cs \<subseteq> {osdID}"

lemma single_out_bind:
  assumes "calls_in keeps_weight m" and "\<And>x. effects single_out (f x)"
  shows "effects single_out (m \<bind> f)"
proof (rule effects_bind)
  show "effects (\<lambda>x cs. True \<and> list_all keeps_weight cs) m"
    by (rule effects_calls [OF assms(1)]) (simp add: returns_def)
  show "effects (\<lambda>y ds. \<forall>cs. True \<and> list_all keeps_weight cs \<longrightarrow> single_out y (cs @ ds)) (f x)" for x
    by (rule effects_mono [OF assms(2)]) (auto dest: reweighted_none)
qed

lemma single_out_quiet: "calls_in keeps_weight m \<Longrightarrow> effects single_out m"
  by (rule effects_mono [OF effects_calls [where R = "\<lambda>_. True"]])
    (auto simp: returns_def dest: reweighted_none)

lemma single_out_then: "effects single_out m \<Longrightarrow> effects single_out (m \<bind> (\<lambda>x. State_Monad.return (g x)))"
  by (erule effects_bind) (simp add: effects_return)

lemma processOsdRemoveTask_out: "effects single_out (processOsdRemoveTask E c ri)"
proof -
  have steps:
    "calls_in keeps_weight (for_each (finished_step E c req) xs v)"
    "calls_in keeps_weight (for_each (stray_step E c) xs v)"
    "calls_in keeps_weight (for_each (remove_step E c) xs v)"
    "calls_in keeps_weight (for_each (rebalance_step E c) xs v)" for req xs v
    by (intro calls_intro; simp)+
  have hosts: "calls_in keeps_weight (for_each (drop_host E c) hs ri')" for hs ri'
    by (intro calls_intro) simp_all
  have osds: "effects single_out (process_osds E c req ri')" for req ri'
    unfolding process_osds_def Let_def split_def
    by (rule single_out_bind [OF steps(1)], rule single_out_bind [OF steps(2)], rule single_out_bind [OF steps(3)],
        rule single_out_bind [OF steps(4)])
      (simp add: single_out_quiet [OF calls_in_return] single_out_then [OF pending_loop_out])
  show ?thesis
    unfolding processOsdRemoveTask_def Let_def split_def
    by (auto intro!: osds single_out_then single_out_quiet [OF hosts])
qed

end
