(* ===== verification/Scenario.thy ===== *)
theory Scenario
  imports Task_Phase
begin

text \<open>
  A small concrete cluster, on which the theorems of the development are applied. Every command
  succeeds with an empty output, one OSD is up and in, no placement group is left on it, and the
  clock shows one second per call issued so far.
\<close>

definition sc_pod :: Pod where
  "sc_pod = \<lparr>pod_Name = ''toolbox'', pod_Namespace = ''rook'', pod_Deleting = False, pod_Running = True,
     pod_Conditions = [(''Ready'', ''True'')], pod_Containers = [''c''], pod_ContainerStatuses = [(''c'', True)]\<rparr>"

definition sc_osd_info :: OsdInfo where
  "sc_osd_info = \<lparr>oi_OsdID = 0, oi_UUID = ''u'', oi_Up = 1, oi_In = 1\<rparr>"

definition sc_deployment :: Deployment where
  "sc_deployment = \<lparr>dep_Generation = 1, dep_SpecReplicas = Some 0, dep_Replicas = 0, dep_UpdatedReplicas = 0,
     dep_ReadyReplicas = 0, dep_AvailableReplicas = 0, dep_ObservedGeneration = 1\<rparr>"

definition sc_cluster :: CephCluster where
  "sc_cluster = \<lparr>cc_Name = ''cluster'', cc_Namespace = ''rook'', cc_Generation = 4, cc_ResourceVersion = ''7'',
     cc_ExternalEnable = False, cc_DataDirHostPath = [], cc_StorageNodes = [],
     cc_Status = \<lparr>cls_FSID = Some ''fsid'', cls_CephImage = Some ''ceph''\<rparr>\<rparr>"

text \<open>A rendering of instants that can be read back.\<close>

definition sc_format :: "int \<Rightarrow> string" where
  "sc_format t = (let s = t div 1000000000 in
     if s < 0 then replicate (nat (- s)) CHR ''-'' else CHR ''+'' # replicate (nat s) CHR ''+'')"

definition sc_parse :: "string \<Rightarrow> int option" where
  "sc_parse s = (case s of [] \<Rightarrow> None
     | c # r \<Rightarrow> Some (1000000000 * (if c = CHR ''-'' then - int (length s) else int (length r))))"

definition sc_env :: env where
  "sc_env = \<lparr>e_Now = (\<lambda>h. 1000000000 * int (length h)), e_FormatTime = sc_format, e_ParseTime = sc_parse,
     e_ListPods = (\<lambda>_ _ _ _. Inr [sc_pod]), e_Exec = (\<lambda>_ _ _ _ _. ([], [], None)),
     e_GetDeployment = (\<lambda>_ _ _. Inr sc_deployment), e_UpdateScale = (\<lambda>_ _ _ _. None),
     e_DeleteDeployment = (\<lambda>_ _ _. None), e_GetJob = (\<lambda>_ _ _. Inl (NotFound ''no job'')),
     e_DeleteJob = (\<lambda>_ _ _. None), e_CreateJob = (\<lambda>_ _. None), e_ListNodes = (\<lambda>_. Inr []),
     e_GetNode = (\<lambda>_ _. Inl (NotFound ''no node'')), e_GetDaemonSet = (\<lambda>_ _ _. Inl (NotFound ''no daemonset'')),
     e_GetTask = (\<lambda>_ _ _. Inl (NotFound ''no task'')), e_ListTasks = (\<lambda>_ _. Inr []),
     e_UpdateTask = (\<lambda>_ _. None), e_DeleteTask = (\<lambda>_ _ _. None), e_UpdateTaskStatus = (\<lambda>_ _ _ _. None),
     e_ListHealths = (\<lambda>_ _. Inr []), e_GetCephCluster = (\<lambda>_ _ _. Inr sc_cluster),
     e_GetCephDeployment = (\<lambda>_ _ _. Inl (NotFound ''none'')),
     e_GetMaintenance = (\<lambda>_ _ _. Inl (NotFound ''none'')),
     e_OsdTree = (\<lambda>_. Inr \<lparr>ot_Nodes = []\<rparr>), e_OsdMetadata = (\<lambda>_. Inr []), e_OsdInfos = (\<lambda>_. Inr []),
     e_OsdInfo = (\<lambda>_. Inr sc_osd_info), e_PgStats = (\<lambda>_. Inr (Some 0)), e_DiskReport = (\<lambda>_. Inl ''no report''),
     e_SelectorMatches = (\<lambda>_ _. True), e_Regexp = (\<lambda>_. Some (\<lambda>_. False)), e_TruncateNodeName = (\<lambda>f s. s),
     e_GVK = (\<lambda>_. Inr (''v1'', ''Kind''))\<rparr>"

lemma sc_time_roundtrip: "time_roundtrip sc_env"
proof -
  have "sc_format t \<noteq> [] \<and> sc_parse (sc_format t) = Some (1000000000 * (t div 1000000000))" for t
  proof (cases "t div 1000000000 < 0")
    case True
    then obtain n where "nat (- (t div 1000000000)) = Suc n" by (cases "nat (- (t div 1000000000))") auto
    with True show ?thesis by (simp add: sc_format_def sc_parse_def Let_def)
  qed (simp add: sc_format_def sc_parse_def Let_def)
  then show ?thesis by (simp add: time_roundtrip_def sc_env_def minus_mod_eq_mult_div)
qed

definition sc_params :: LcmConfig where
  "sc_params = \<lparr>lc_RookNamespace = ''rook'',
     lc_CommonParams = \<lparr>cp_BaseGatewayName = [], cp_BaseGatewayNamespace = [], cp_DiskDaemonPlacementLabel = ''disk'',
       cp_DiskDaemonPort = 9999, cp_RgwPublicAccessLabel = [], cp_GatewayAPIEnabled = False,
       cp_KeepIngress = False, cp_LcmFullMode = True\<rparr>,
     lc_HealthParamsPtr = Some \<lparr>hp_LogLevel = InfoLevel, hp_ChecksSkip = [], hp_CephIssuesToIgnore = [],
       hp_UsageDetailsClassesFilter = [], hp_UsageDetailsPoolsFilter = []\<rparr>,
     lc_TaskParamsPtr = Some \<lparr>tp_LogLevel = InfoLevel, tp_OsdPgRebalanceTimeout = 1800000000000,
       tp_AllowToRemoveManuallyCreatedLVM = False\<rparr>,
     lc_DeployParamsPtr = Some \<lparr>dp_LogLevel = InfoLevel, dp_CephImage = ''ceph:v19.2.3'', dp_CephRelease = ''squid'',
       dp_RookImage = ''rook:v1.18'', dp_NetPolEnabled = False, dp_OpenstackCephSharedNamespace = [],
       dp_CephDaemonsetPlacementLabelExclude = [], dp_DrainRequestLabelKey = ''drain-request'',
       dp_DrainReadyLabelKey = ''drain-ready'',
       dp_CSIParams = \<lparr>csi_Manage = True, csi_KubeletPath = [], csi_CreateDefaultRBDDriver = True,
         csi_CreateDefaultCephFSDriver = True, csi_CreateDefaultNFSDriver = False, csi_KeepExisting = True,
         csi_DeployCSIAddons = False, csi_ControllerPluginNodeAffinity = None, csi_ControllerPluginToleration = [],
         csi_NodePluginNodeAffinity = None, csi_NodePluginToleration = []\<rparr>,
       dp_ManageVolumeSnapshotClasses = True\<rparr>\<rparr>"

definition sc_daemon :: DaemonStatus where
  "sc_daemon = \<lparr>dst_Status = DaemonStateOk, dst_Issues = [], dst_Messages = []\<rparr>"

definition sc_task :: CephOsdRemoveTask where
  "sc_task = \<lparr>task_Name = ''task'', task_Namespace = ''pelagia'', task_UID = ''1'', task_CreationTimestamp = 10,
     task_OwnerReferences = [], task_Spec = None, task_Status = None\<rparr>"

definition sc_config :: cephOsdRemoveConfig where
  "sc_config = \<lparr>rc_lcmConfig = sc_params,
     rc_taskConfig = \<lparr>tk_task = sc_task, tk_cephCluster = sc_cluster,
       tk_cephHealthOsdAnalysis = \<lparr>osa_DiskDaemon = sc_daemon, osa_CephClusterSpecGeneration = Some 4, osa_SpecAnalysis = []\<rparr>,
       tk_cephDeploymentPhase = None\<rparr>\<rparr>"

text \<open>OSDs in the middle of a removal.\<close>

definition sc_device :: DeviceInfo where
  "sc_device = DeviceInfo0\<lparr>di_Path := ''/dev/vdb'', di_Partition := ''/dev/ceph-1/osd-block-1'', di_Type := ''block'',
     di_Zap := True, di_Alive := True\<rparr>"

definition sc_osd :: OsdMapping where
  "sc_osd = OsdMapping0\<lparr>om_UUID := ''u'', om_InCrushMap := True, om_DeviceMapping := [(''/dev/vdb'', sc_device)]\<rparr>"

definition sc_status :: "RemovePhase \<Rightarrow> RemoveStatus" where
  "sc_status ph = RemoveStatus0\<lparr>rs_Status := ph\<rparr>"

definition sc_osd_in :: "RemovePhase \<Rightarrow> RemovePhase option \<Rightarrow> RemovePhase option \<Rightarrow> OsdMapping" where
  "sc_osd_in ph job deploy = sc_osd\<lparr>om_RemoveStatus := Some \<lparr>rr_OsdRemoveStatus = Some (sc_status ph),
     rr_DeployRemoveStatus = map_option sc_status deploy, rr_DeviceCleanUpJob = map_option sc_status job\<rparr>\<rparr>"

definition sc_info :: "osd_map \<Rightarrow> TaskRemoveInfo" where
  "sc_info osds = \<lparr>tri_CleanupMap = [(''node-a'', HostMapping0\<lparr>hm_CompleteCleanup := True, hm_OsdMapping := osds\<rparr>)],
     tri_Issues = [], tri_Warnings = []\<rparr>"

end
