(* ===== verification/Executor_Theorems.thy ===== *)
theory Executor_Theorems
  imports Removal_Commands Scenario
begin

text \<open>
  The theorems about the executor of an approved task, each over the result of one run
  (\<open>run_info\<close>), its verdict (\<open>run_finished\<close>) and the calls it issues (\<open>run_calls\<close>).
\<close>

section \<open>When a run reports the task finished\<close>

lemma quiet_settled:
  assumes "quiet xs v v'" and "distinct xs" "rv_notCompleted v' = rv_notCompleted v" "rv_issues v' = []"
    and "(h, d) \<in> set xs" "osd_at (cmap v) h d = Some om" "osd_at (cmap v') h d = Some om'"
    "om_RemoveStatus om \<noteq> None" "known_job om"
  shows "settled om'"
  using assms unfolding quiet_def by blast

lemma process_osds_settled:
  assumes wf: "wf_run m" and col: "collect m = (info, req, hosts)"
    and run: "run_state (process_osds E c req (ri\<lparr>tri_CleanupMap := info\<rparr>)) hist = ((True, ri', rq), hist')"
    and clean: "tri_Issues ri' = []" and at: "osd_at m h d = Some om"
  shows "\<exists>om'. osd_at (tri_CleanupMap ri') h d = Some om' \<and> osd_done om' \<and> settled om'"
  using run
proof (cases rule: process_osds_stages)
  case (1 v0 v1 v2 v3 v4 v5)
  let ?L = "req_of (drop_pending_if_failed req)"
  have wfc: "wf_cleanup m" using wf by (simp add: wf_run_def)
  note L = run_lists [OF wfc col]
  have reb: "?L RemoveWaitingRebalance = []" using 1(13) by blast
  with 1(14) obtain w' h1 h2 where pend: "run_state (pending_loop E c (?L RemovePending) [] v4) h1 = ((w', v5), h2)"
    and zero: "rv_notCompleted v5 = 0" by auto
  note pl = pending_loop_changes [OF pend L(1)]
  have empty: "?L RemovePending = []" "?L RemoveInProgress = []" "?L RemoveStray = []" and n1: "rv_notCompleted v1 = 0"
    using pl zero 1(10-12) by (auto simp: counted_def split: if_splits)
  have issues: "rv_issues v1 = []"
    using pl 1(4,10-12) clean by (simp add: counted_def) (metis set_empty set_sort)
  then have "failed_issues (drop_pending_if_failed req) = []" using 1(3,5) by (simp add: quiet_def)
  then have failed: "?L RemoveFailed = []" by (simp add: failed_issues_def)
  then have rf: "requested m RemoveFailed = []" using collect_req [of m RemoveFailed] col by (simp add: req_of_drop)
  let ?om = "init_osd h d om"
  have wfo: "wf_osd ?om" using wf at wf_osd_init by (simp add: wf_run_iff)
  have fin: "osd_done ?om"
  proof (rule ccontr)
    assume nd: "\<not> osd_done ?om"
    with wfo obtain ph where ph: "osd_phase ?om = Some ph" "ph \<in> {RemovePending, RemoveWaitingRebalance, RemoveInProgress,
        RemoveStray, RemoveFailed}" by (auto simp: wf_osd_def osd_done_def)
    then have rp: "req_phase h d om = Some ph" by (auto simp: req_phase_def)
    with ph(2) L(3) [OF at rp] L(4) [OF at _ rf] empty reb failed show False by auto
  qed
  then have "req_phase h d om = Some RemoveFinished" by (auto simp: req_phase_def osd_done_def)
  then have inL: "(h, d) \<in> set (?L RemoveFinished)" using L(3) [OF at] by simp
  have at0: "osd_at (cmap v0) h d = Some ?om" using collect_info(1) [OF wfc, of h d] col at 1(1) by simp
  obtain om1 where om1: "osd_at (cmap v1) h d = Some om1" "job_moved ?om om1"
    using changes_visited [OF quiet_changes [OF 1(5)] L(1) inL at0] by blast
  have "settled om1"
    by (rule quiet_settled [OF 1(5) L(1) _ issues inL at0 om1(1)])
      (use wfo n1 1(2) in \<open>auto simp: wf_osd_def init_osd_status\<close>)
  moreover have "osd_done om1" using fin om1(2) by (simp add: osd_done_def job_moved_def osd_phase_def)
  moreover have "osd_at (cmap v2) h d = Some om1" "osd_at (cmap v3) h d = osd_at (cmap v2) h d"
      "osd_at (cmap v4) h d = osd_at (cmap v3) h d"
    using changes_other [OF 1(7) L(1), of h d] changes_other [OF 1(8) L(1), of h d]
      changes_other [OF 1(9) L(1), of h d] empty reb om1(1) by simp_all
  moreover have "cmap v5 = cmap v4" using pend empty(1) by simp
  ultimately show ?thesis using 1(4) by auto
qed

section \<open>Phases\<close>

text \<open>C28. One run of the executor keeps every OSD of the cleanup map and moves its phase along the
  removal state machine: an OSD keeps its phase or makes exactly one step of \<open>osd_step\<close>, starting
  from the phase the run gives it when it has none yet.\<close>

theorem run_osd_phases:
  assumes "wf_cleanup (tri_CleanupMap ri)" and "osd_at (tri_CleanupMap ri) host osdID = Some om"
  shows "\<exists>om'. osd_at (tri_CleanupMap (run_info E c ri h)) host osdID = Some om' \<and>
    (osd_phase om' = osd_phase (init_osd host osdID om) \<or>
     (\<exists>ph ph'. osd_phase (init_osd host osdID om) = Some ph \<and> osd_phase om' = Some ph' \<and> osd_step ph ph'))"
proof -
  obtain rq h' where "run_state (processOsdRemoveTask E c ri) h = ((run_finished E c ri h, run_info E c ri h, rq), h')"
    by (rule run_unfold)
  from run_change_always [OF assms(1) this assms(2)] run_change_phase show ?thesis by metis
qed

theorem run_osd_phases_witness:
  "osd_phase (init_osd ''node-a'' ''0'' sc_osd) = Some RemovePending \<and>
   (\<exists>om'. osd_at (tri_CleanupMap (run_info sc_env sc_config (sc_info [(''0'', sc_osd)]) [])) ''node-a'' ''0'' = Some om' \<and>
     (osd_phase om' = Some RemovePending \<or> (\<exists>ph'. osd_phase om' = Some ph' \<and> osd_step RemovePending ph')))"
proof -
  have 1: "wf_cleanup (tri_CleanupMap (sc_info [(''0'', sc_osd)]))" by code_simp
  have 2: "osd_at (tri_CleanupMap (sc_info [(''0'', sc_osd)])) ''node-a'' ''0'' = Some sc_osd" by code_simp
  have 3: "osd_phase (init_osd ''node-a'' ''0'' sc_osd) = Some RemovePending" by code_simp
  from run_osd_phases [OF 1 2, of sc_env sc_config "[]"] 3 show ?thesis by auto
qed

lemma run_settled:
  assumes "wf_run (tri_CleanupMap ri)" and "run_finished E c ri h" and "tri_Issues (run_info E c ri h) = []"
    and "osd_at (tri_CleanupMap ri) host osdID = Some om"
  shows "\<exists>om'. osd_at (tri_CleanupMap (run_info E c ri h)) host osdID = Some om' \<and> osd_done om' \<and> settled om'"
proof -
  obtain rq h' where run: "run_state (processOsdRemoveTask E c ri) h = ((True, run_info E c ri h, rq), h')"
    using run_unfold assms(2) by metis
  obtain info req hosts where col: "collect (tri_CleanupMap ri) = (info, req, hosts)" by (metis prod_cases3)
  from run col show ?thesis
    by (cases rule: processOsdRemoveTask_cases) (use process_osds_settled [OF assms(1) col _ assms(3,4)] in blast)+
qed

text \<open>A run that reports the task finished without issues has finished every OSD: each OSD is removed
  or, for a stray one that is still in the cluster, skipped, its cleanup job has completed or was
  skipped, and its deployment is removed or kept on purpose.\<close>

theorem run_finished_settled:
  assumes "wf_run (tri_CleanupMap ri)" and "run_finished E c ri h" and "tri_Issues (run_info E c ri h) = []"
    and "osd_at (tri_CleanupMap ri) host osdID = Some om"
  shows "\<exists>om'. osd_at (tri_CleanupMap (run_info E c ri h)) host osdID = Some om' \<and> osd_done om' \<and> settled om'"
  using assms by (rule run_settled)

theorem run_finished_settled_witness:
  "\<exists>om'. osd_at (tri_CleanupMap (run_info sc_env sc_config
       (sc_info [(''0'', sc_osd_in RemoveFinished (Some RemoveCompleted) (Some RemoveFinished))]\<lparr>tri_CleanupMap :=
         [(''node-a'', HostMapping0\<lparr>hm_OsdMapping := [(''0'', sc_osd_in RemoveFinished (Some RemoveCompleted) (Some RemoveFinished))]\<rparr>)]\<rparr>) []))
     ''node-a'' ''0'' = Some om' \<and> osd_done om' \<and> settled om'"
  by (rule run_finished_settled [where om = "sc_osd_in RemoveFinished (Some RemoveCompleted) (Some RemoveFinished)"]) code_simp+

section \<open>Cleanup jobs\<close>

definition keeps_jobs :: "cleanup_map \<Rightarrow> cleanup_map \<Rightarrow> bool" where
  "keeps_jobs m m' \<longleftrightarrow> (\<forall>h d om'. osd_at m' h d = Some om' \<longrightarrow>
     (\<exists>om. osd_at m h d = Some om \<and> job_status om' = job_status om))"

lemma keeps_jobs_one: "keeps_jobs m m' \<Longrightarrow> one_job m \<Longrightarrow> one_job m'"
  unfolding keeps_jobs_def one_job_def job_phase_def by metis

lemma changes_keeps_jobs:
  assumes "changes (moved ph) xs m m'" and "distinct xs"
  shows "keeps_jobs m m'"
  unfolding keeps_jobs_def
proof (intro allI impI)
  fix h d om' assume om': "osd_at m' h d = Some om'"
  from assms have "rel_option (\<lambda>om om'. if (h, d) \<in> set xs then moved ph om om' else om' = om) (osd_at m h d) (osd_at m' h d)"
    by (simp only: changes_def)
  with om' show "\<exists>om. osd_at m h d = Some om \<and> job_status om' = job_status om"
    by (auto simp: option_rel_Some2 moved_def split: if_splits)
qed

lemma job_status_reset [simp]: "job_status (reset_started om) = job_status om"
  by (simp add: reset_started_def split: option.splits)

lemma pending_keeps_jobs:
  assumes "run_state (pending_loop E c ps [] v) hist = ((w', v'), hist')" and "distinct ps"
  shows "keeps_jobs (cmap v) (cmap v')"
  unfolding keeps_jobs_def
proof (intro allI impI)
  fix h d om' assume om': "osd_at (cmap v') h d = Some om'"
  note pl = pending_loop_changes [OF assms(1,2)]
  from pl om' obtain om where om: "osd_at (cmap v) h d = Some om" using frame_osd_at by fastforce
  with pl om' have "pending_change ps [] h d om om'" by fastforce
  then have "job_status om' = job_status om" by (auto simp: pending_change_def moved_def split: if_splits)
  with om show "\<exists>om. osd_at (cmap v) h d = Some om \<and> job_status om' = job_status om" by blast
qed

lemma process_osds_one_job:
  assumes wf: "wf_cleanup m" and col: "collect m = (info, req, hosts)" and one: "one_job (tri_CleanupMap ri)"
    and run: "run_state (process_osds E c req ri) hist = ((fin, ri', rq), hist')"
  shows "one_job (tri_CleanupMap ri')"
  using run
proof (cases rule: process_osds_stages)
  case (1 v0 v1 v2 v3 v4 v5)
  let ?L = "req_of (drop_pending_if_failed req)"
  note L = run_lists(1) [OF wf col]
  have "one_job (cmap v1)" using 1(1,6) one by simp
  then have "one_job (cmap v4)"
    using keeps_jobs_one changes_keeps_jobs [OF 1(7) L] changes_keeps_jobs [OF 1(8) L] changes_keeps_jobs [OF 1(9) L]
    by blast
  moreover have "keeps_jobs (cmap v4) (cmap v5)" if "?L RemoveWaitingRebalance = []"
    using 1(14) [OF that] pending_keeps_jobs L by blast
  ultimately show ?thesis using 1(4,13) keeps_jobs_one by (cases "?L RemoveWaitingRebalance = []") auto
qed

lemma run_one_job:
  assumes "wf_cleanup (tri_CleanupMap ri)" and "one_job (tri_CleanupMap ri)"
  shows "one_job (tri_CleanupMap (run_info E c ri h))"
proof -
  obtain rq h' where run: "run_state (processOsdRemoveTask E c ri) h = ((run_finished E c ri h, run_info E c ri h, rq), h')"
    by (rule run_unfold)
  obtain info req hosts where col: "collect (tri_CleanupMap ri) = (info, req, hosts)" by (metis prod_cases3)
  have job: "job_status (init_osd host d om) = job_status om" for host d om
    by (cases "om_RemoveStatus om") (simp_all add: init_osd_def job_status_def)
  have "keeps_jobs (tri_CleanupMap ri) info"
    using collect_info(1) [OF assms(1)] col by (auto simp: keeps_jobs_def job)
  then have info: "one_job info" using assms(2) keeps_jobs_one by blast
  from run col show ?thesis
  proof (cases rule: processOsdRemoveTask_cases)
    case hosts
    with info show ?thesis by (simp add: one_job_def)
  next
    case osds
    show ?thesis by (rule process_osds_one_job [OF assms(1) col _ osds(2)]) (simp add: info)
  qed
qed

text \<open>On every host at most one device cleanup job runs at a time: a run of the executor keeps this,
  whichever order the OSDs are visited in.\<close>

theorem run_one_job_per_host:
  assumes "wf_cleanup (tri_CleanupMap ri)" and "one_job (tri_CleanupMap ri)"
  shows "one_job (tri_CleanupMap (run_info E c ri h))"
  using assms by (rule run_one_job)

theorem run_one_job_per_host_witness:
  "one_job (tri_CleanupMap (run_info sc_env sc_config
     (sc_info [(''0'', sc_osd_in RemoveFinished None None), (''1'', sc_osd_in RemoveFinished None None)]) []))"
proof (rule run_one_job_per_host)
  show "wf_cleanup (tri_CleanupMap (sc_info [(''0'', sc_osd_in RemoveFinished None None), (''1'', sc_osd_in RemoveFinished None None)]))"
    by code_simp
  show "one_job (tri_CleanupMap (sc_info [(''0'', sc_osd_in RemoveFinished None None), (''1'', sc_osd_in RemoveFinished None None)]))"
    by (auto simp: one_job_def sc_info_def osd_at_def sc_osd_in_def job_phase_def job_status_def bind_eq_Some_conv split: if_splits)
qed

section \<open>Invariants of the cleanup map\<close>

lemma run_wf_run:
  assumes "wf_run (tri_CleanupMap ri)"
  shows "wf_run (tri_CleanupMap (run_info E c ri h)) \<and>
    (\<forall>host osdID. osd_at (tri_CleanupMap (run_info E c ri h)) host osdID = None \<longleftrightarrow>
       osd_at (tri_CleanupMap ri) host osdID = None)"
proof -
  let ?m = "tri_CleanupMap ri" and ?m' = "tri_CleanupMap (run_info E c ri h)"
  have wf: "wf_cleanup ?m" using assms by (simp add: wf_run_def)
  obtain rq h' where run: "run_state (processOsdRemoveTask E c ri) h = ((run_finished E c ri h, run_info E c ri h, rq), h')"
    by (rule run_unfold)
  have none: "osd_at ?m' host d = None \<longleftrightarrow> osd_at ?m host d = None" for host d
    using run_osd_at_None [OF wf run, of host d] run_change_always [OF wf run, of host d]
    by (cases "osd_at ?m host d") fastforce+
  have "wf_osd om'" if om': "osd_at ?m' host d = Some om'" for host d om'
  proof -
    from none om' obtain om where om: "osd_at ?m host d = Some om" by (metis option.exhaust)
    with assms have "wf_osd om" by (simp add: wf_run_iff)
    with run_change_always [OF wf run om] om' show ?thesis using wf_osd_init wf_osd_run_change by auto
  qed
  with none run_wf_cleanup [OF wf run] show ?thesis by (auto simp: wf_run_iff)
qed



section \<open>Commands\<close>

lemma run_calls_in:
  "calls_in P (processOsdRemoveTask E c ri) \<Longrightarrow> x \<in> set (run_calls E c ri h) \<Longrightarrow> P x"
  unfolding run_calls_def by (rule calls_in_drop)

lemma requested_not_final:
  assumes "wf_cleanup m" and "(host, d) \<in> set (requested m ph)" and "ph \<noteq> RemoveFinished"
  shows "\<exists>om. osd_at m host d = Some om \<and> osd_phase (init_osd host d om) = Some ph"
proof -
  from assms obtain om where om: "osd_at m host d = Some om" "req_phase host d om = Some ph"
    using requested_iff by blast
  from om(2) assms(3) have "osd_phase (init_osd host d om) = Some ph"
    by (auto simp: req_phase_def split: if_splits)
  with om(1) show ?thesis by blast
qed

text \<open>An OSD is purged from the cluster only when its removal is in progress, that is after it was taken
  out and its placement groups have left it, or when it is a stray one that is in the CRUSH map.\<close>

theorem purge_only_in_progress:
  assumes "wf_cleanup (tri_CleanupMap ri)" and "x \<in> set (run_calls E c ri h)" and "runs (cmd_purge osdID) x"
  shows "\<exists>host d om. base_id d = osdID \<and> osd_at (tri_CleanupMap ri) host d = Some om \<and>
    osd_phase (init_osd host d om) = Some RemoveInProgress"
proof -
  let ?m = "tri_CleanupMap ri"
  let ?P = "\<lambda>x. \<forall>osdID. runs (cmd_purge osdID) x \<longrightarrow> (\<exists>p \<in> set (requested ?m RemoveInProgress). base_id (snd p) = osdID)"
  have "calls_in ?P (processOsdRemoveTask E c ri)"
    by (rule processOsdRemoveTask_calls) auto
  from run_calls_in [OF this assms(2)] assms(3) obtain host d where
    "(host, d) \<in> set (requested ?m RemoveInProgress)" "base_id d = osdID" by auto
  with requested_not_final [OF assms(1)] show ?thesis by blast
qed

theorem purge_only_in_progress_witness:
  "\<exists>host d om. base_id d = ''0'' \<and>
    osd_at (tri_CleanupMap (sc_info [(''0'', sc_osd_in RemoveInProgress None None)])) host d = Some om \<and>
    osd_phase (init_osd host d om) = Some RemoveInProgress"
  by (rule purge_only_in_progress [where E = sc_env and c = sc_config and h = "[]" and
        x = "Exec ''rook'' ''toolbox'' ''c'' (cmd_purge ''0'')"]) code_simp+

text \<open>C8. One run takes at most one OSD out of the cluster, and none while another one is still rebalancing
  or has failed.\<close>

theorem at_most_one_out:
  "\<exists>osdID. reweighted (run_calls E c ri h) \<subseteq>
     (if requested (tri_CleanupMap ri) RemoveWaitingRebalance = [] \<and> requested (tri_CleanupMap ri) RemoveFailed = []
      then {osdID} else {})"
proof (cases "requested (tri_CleanupMap ri) RemoveWaitingRebalance = [] \<and> requested (tri_CleanupMap ri) RemoveFailed = []")
  case True
  obtain cs where "snd (run_state (processOsdRemoveTask E c ri) h) = h @ cs" "\<exists>osdID. reweighted cs \<subseteq> {osdID}"
    using processOsdRemoveTask_out [of E c ri] unfolding effects_def by blast
  with True show ?thesis by (simp add: run_calls_def)
next
  case False
  have "calls_in keeps_weight (processOsdRemoveTask E c ri)"
    by (rule processOsdRemoveTask_calls) (use False in auto)
  then have "reweighted (run_calls E c ri h) = {}"
    using run_calls_in by (fastforce simp: reweighted_def)
  with False show ?thesis by simp
qed

text \<open>C30. A host is removed from the CRUSH map only when the task asks for the whole host and every OSD of it
  in the cleanup map has been removed or skipped.\<close>

theorem host_dropped_only_when_done:
  assumes "x \<in> set (run_calls E c ri h)" and "runs (cmd_crush_remove host) x"
  shows "\<exists>hm. (host, hm) \<in> set (tri_CleanupMap ri) \<and> host_done hm"
proof -
  have "calls_in (\<lambda>x. \<forall>host. runs (cmd_crush_remove host) x \<longrightarrow>
      (\<exists>hm. (host, hm) \<in> set (tri_CleanupMap ri) \<and> host_done hm)) (processOsdRemoveTask E c ri)"
    by (rule processOsdRemoveTask_calls) auto
  from run_calls_in [OF this assms(1)] assms(2) show ?thesis by blast
qed

theorem host_dropped_only_when_done_witness:
  "\<exists>hm. (''node-a'', hm) \<in> set (tri_CleanupMap (sc_info [(''0'', sc_osd_in RemoveFinished None None)])) \<and> host_done hm"
  by (rule host_dropped_only_when_done [where E = sc_env and c = sc_config and h = "[]" and
        x = "Exec ''rook'' ''toolbox'' ''c'' (cmd_crush_remove ''node-a'')"]) code_simp+

section \<open>Disks\<close>


definition sc_node :: node_view where
  "sc_node = \<lparr>nv_Children = (\<lambda>_. []), nv_LvDir = (\<lambda>s. s), nv_IsSymlink = (\<lambda>_. True), nv_IsLvm = (\<lambda>_. True),
     nv_Readlink = (\<lambda>s. s), nv_IsBlock = (\<lambda>_. True), nv_MapperName = (\<lambda>s. s), nv_OpenCount = (\<lambda>_. 0),
     nv_IsDir = (\<lambda>_. True)\<rparr>"

definition sc_removed :: osd_map where
  "sc_removed = [(''0'', sc_osd_in RemoveFinished None None), (''1'', sc_osd_in RemoveFinished (Some RemoveCompleted) None)]"

definition sc_job :: "script Job" where
  "sc_job = cleanup_job sc_env sc_config ''node-a'' ''0'' [] ''ceph''
     [\<lparr>or_APIVersion = ''v1'', or_Kind = ''Kind'', or_Name = ''task'', or_UID = ''1''\<rparr>] [(''/dev/vdb'', sc_device)]"


section \<open>Waiting for an OSD to be stoppable\<close>

text \<open>The waiting time for \<^verbatim>\<open>ok-to-stop\<close> is lost at every second refusal: when the start of the wait is
  recorded and the timeout has not passed, the new status is a pending one with no start, as if the
  OSD had never waited, and the next refusal starts the wait again.\<close>

theorem ok_to_stop_wait_is_forgotten:
  assumes "rs_StartedAt st \<noteq> []" and "e_ParseTime E (rs_StartedAt st) = Some start"
    and "e_Now E h - start < rebalance_timeout c"
  shows "fst (run_state (ok_to_stop_refused E c osdID (Some st)) h) = RemoveStatus0\<lparr>rs_Status := RemovePending\<rparr> \<and>
    (0 < rebalance_timeout c \<longrightarrow>
     fst (run_state (ok_to_stop_refused E c osdID (Some (RemoveStatus0\<lparr>rs_Status := RemovePending\<rparr>))) h') =
       RemoveStatus0\<lparr>rs_Status := RemovePending, rs_StartedAt := e_FormatTime E (e_Now E h')\<rparr>)"
  using assms by (simp add: ok_to_stop_refused_def time_Since_def GetCurrentTimeString_def RemoveStatus0_def)

theorem ok_to_stop_wait_is_forgotten_witness:
  "fst (run_state (ok_to_stop_refused sc_env sc_config ''0'' (Some ((sc_status RemovePending)\<lparr>rs_StartedAt := ''+++''\<rparr>))) []) =
     RemoveStatus0\<lparr>rs_Status := RemovePending\<rparr>"
  by (rule ok_to_stop_wait_is_forgotten [where start = 2000000000, THEN conjunct1]) code_simp+

end
