(* ===== verification/Spec_Hosts.thy ===== *)
theory Spec_Hosts
  imports Spec_Devices
begin

text \<open>
  What the two validation modes of \<^verbatim>\<open>osdremove-task/spec_handler.go\<close> share: the view of the cluster,
  the information about a host, the test whether an OSD volume on a host belongs to the cluster, and
  the recording of an OSD in the mapping of its host.

  A Go panic (a slice index out of range, a malformed regular expression) is \<open>None\<close>. The bodies of
  the loops over the volumes of a host are pure functions; only the loop over the hosts talks to
  the cluster.
\<close>

section \<open>Loops that may panic\<close>

fun fold_opt :: "('a \<Rightarrow> 'b \<Rightarrow> 'b option) \<Rightarrow> 'a list \<Rightarrow> 'b \<Rightarrow> 'b option" where
  "fold_opt f [] s = Some s"
| "fold_opt f (x # xs) s = Option.bind (f x s) (fold_opt f xs)"

fun try_each :: "('a \<Rightarrow> 'b \<Rightarrow> ('s, 'b option) state) \<Rightarrow> 'a list \<Rightarrow> 'b \<Rightarrow> ('s, 'b option) state" where
  "try_each body [] s = State_Monad.return (Some s)"
| "try_each body (x # xs) s = do {
     r \<leftarrow> body x s;
     case r of None \<Rightarrow> State_Monad.return None | Some s' \<Rightarrow> try_each body xs s'
   }"

text \<open>The contract of a loop body: what it keeps on the elements of the loop, the loop keeps.\<close>

locale kept_on =
  fixes body :: "'a \<Rightarrow> 'b \<Rightarrow> 'b option" and good :: "'a \<Rightarrow> bool" and inv :: "'b \<Rightarrow> bool"
  assumes kept_on: "body x s = Some s' \<Longrightarrow> good x \<Longrightarrow> inv s \<Longrightarrow> inv s'"
begin

lemma loop: "fold_opt body xs s = Some s' \<Longrightarrow> list_all good xs \<Longrightarrow> inv s \<Longrightarrow> inv s'"
proof (induction xs arbitrary: s)
  case (Cons x xs)
  then show ?case using kept_on by (auto simp: bind_eq_Some_conv)
qed simp

end

locale kept_by =
  fixes body :: "'a \<Rightarrow> 'b \<Rightarrow> 'b option" and inv :: "'b \<Rightarrow> bool"
  assumes kept: "body x s = Some s' \<Longrightarrow> inv s \<Longrightarrow> inv s'"

sublocale kept_by \<subseteq> on: kept_on body "\<lambda>_. True" inv
  by unfold_locales (rule kept)

context kept_by
begin

lemma loop: "fold_opt body xs s = Some s' \<Longrightarrow> inv s \<Longrightarrow> inv s'"
  by (rule on.loop) (simp_all add: list_all_iff)

end

locale kept_by_io =
  fixes body :: "'a \<Rightarrow> 'b \<Rightarrow> ('s, 'b option) state" and good :: "'a \<Rightarrow> bool" and inv :: "'b \<Rightarrow> bool"
  assumes kept: "run_state (body x s) h = (Some s', h') \<Longrightarrow> good x \<Longrightarrow> inv s \<Longrightarrow> inv s'"
begin

lemma loop: "run_state (try_each body xs s) h = (Some s', h') \<Longrightarrow> list_all good xs \<Longrightarrow> inv s \<Longrightarrow> inv s'"
proof (induction xs arbitrary: s h)
  case (Cons x xs)
  obtain r h1 where r: "run_state (body x s) h = (r, h1)" by fastforce
  with Cons.prems obtain s1 where r1: "r = Some s1" "run_state (try_each body xs s1) h1 = (Some s', h')"
    by (auto split: option.splits)
  have "inv s1" by (rule kept [of x s h s1 h1]) (use r r1 Cons.prems in simp_all)
  with Cons.IH [OF r1(2)] Cons.prems(2) show ?case by simp
qed simp

end

section \<open>The view of the cluster\<close>

record osdHostInfo =
  hi_inSpec :: bool
  hi_specIdx :: nat
  hi_inCrush :: bool
  hi_crushOsds :: "int list"
  hi_labeled :: bool
  hi_available :: bool

definition osdHostInfo0 :: osdHostInfo where
  "osdHostInfo0 = \<lparr>hi_inSpec = False, hi_specIdx = 0, hi_inCrush = False, hi_crushOsds = [], hi_labeled = False,
     hi_available = False\<rparr>"

type_synonym host_infos = "(string, osdHostInfo) gomap"

record cluster_view =
  cv_metadata :: "OsdMetadataInfo list"
  cv_metadataMap :: "(int, nat) gomap"
  cv_uuidMap :: "(string, string) gomap"
  cv_fsid :: string
  cv_namespace :: string
  cv_hostDir :: string

text \<open>The file system id. \<open>Reconcile\<close> goes on only when the cluster status has one.\<close>

definition cluster_fsid :: "CephCluster \<Rightarrow> string" where
  "cluster_fsid cl = (case cls_FSID (cc_Status cl) of Some f \<Rightarrow> f | None \<Rightarrow> [])"

definition metadata_map :: "OsdMetadataInfo list \<Rightarrow> (int, nat) gomap" where
  "metadata_map ms = fold (\<lambda>(i, m). AList.update (omd_OsdID m) i) (zip [0..<length ms] ms) []"

definition stray_osds :: "OsdMetadataInfo list \<Rightarrow> (string, bool) gomap" where
  "stray_osds ms = fold (\<lambda>m s. if omd_Hostname m = [] then AList.update (show_int (omd_OsdID m)) True s else s) ms []"

definition uuid_map :: "OsdInfo list \<Rightarrow> (string, string) gomap" where
  "uuid_map infos = fold (\<lambda>osd. AList.update (show_int (oi_OsdID osd)) (oi_UUID osd)) infos []"

definition cluster_view_of :: "CephCluster \<Rightarrow> OsdMetadataInfo list \<Rightarrow> OsdInfo list \<Rightarrow> cluster_view" where
  "cluster_view_of cl ms infos = \<lparr>cv_metadata = ms, cv_metadataMap = metadata_map ms, cv_uuidMap = uuid_map infos,
     cv_fsid = cluster_fsid cl, cv_namespace = cc_Namespace cl,
     cv_hostDir = (if cc_DataDirHostPath cl \<noteq> [] then cc_DataDirHostPath cl else DefaultDataDirHostPath)\<rparr>"

text \<open>The devices of an OSD according to its metadata. An OSD without metadata reads the first
  entry, as the zero index of the Go map does.\<close>

definition meta_devices :: "cluster_view \<Rightarrow> int \<Rightarrow> device_map option" where
  "meta_devices cv osd = map_option fillDevicesInfoFromMetadata (at (cv_metadata cv) (get_or 0 (cv_metadataMap cv) osd))"

definition crush_osd :: "cluster_view \<Rightarrow> string \<Rightarrow> device_map \<Rightarrow> OsdMapping" where
  "crush_osd cv osd devices = OsdMapping0\<lparr>om_UUID := str_of (cv_uuidMap cv) osd, om_ClusterFSID := cv_fsid cv,
     om_InCrushMap := True, om_DeviceMapping := devices,
     om_HostDirectory := host_directory (cv_hostDir cv) (cv_namespace cv) (cv_fsid cv) (str_of (cv_uuidMap cv) osd)\<rparr>"

definition known_osds :: "int list \<Rightarrow> (string, int) gomap" where
  "known_osds osds = fold (\<lambda>osd. AList.update (show_int osd) osd) osds []"

definition db_partition_of :: "device_map \<Rightarrow> OsdPartition list \<Rightarrow> bool" where
  "db_partition_of devices parts = list_ex (\<lambda>(_, info). di_Type info = ''db'' \<and>
     list_ex (\<lambda>part. di_Partition info = op_Partition part \<and> op_Type part = ''db'') parts) devices"

definition checkFromCrush :: "cluster_view \<Rightarrow> (string, int) gomap \<Rightarrow> string \<Rightarrow> OsdDaemonInfo \<Rightarrow> bool option" where
  "checkFromCrush cv known osd info =
     (case map_of known osd of
        None \<Rightarrow> Some False
      | Some osdInt \<Rightarrow>
          if odi_OsdUUID info \<noteq> [] \<and> odi_ClusterFSID info \<noteq> [] then
            Some (odi_OsdUUID info = str_of (cv_uuidMap cv) osd \<and> odi_ClusterFSID info = cv_fsid cv)
          else map_option (\<lambda>devices. db_partition_of devices (odi_Partitions info)) (meta_devices cv osdInt))"

text \<open>The identity of a volume that lost it, when it is known to be in the cluster.\<close>

definition identify :: "cluster_view \<Rightarrow> bool \<Rightarrow> string \<Rightarrow> OsdDaemonInfo \<Rightarrow> OsdDaemonInfo" where
  "identify cv inCluster osd info =
     (let info = (if odi_ClusterFSID info = [] \<and> inCluster then info\<lparr>odi_ClusterFSID := cv_fsid cv\<rparr> else info)
      in if odi_OsdUUID info = [] \<and> inCluster then info\<lparr>odi_OsdUUID := str_of (cv_uuidMap cv) osd\<rparr> else info)"

definition stray_key :: "string \<Rightarrow> string \<Rightarrow> string" where
  "stray_key osd uuid = (if uuid = [] then osd @ ''.'' @ StrayOsdNodeMarker
     else osd @ ''.'' @ uuid @ ''.'' @ StrayOsdNodeMarker)"

definition stray_warning :: "string \<Rightarrow> string \<Rightarrow> string \<Rightarrow> string" where
  "stray_warning host osd uuid =
     node_msg host (''found stray osd uuid '' @ quoted uuid @ '', id '' @ quoted osd @ '', will be cleaned up'')"

definition volume_osd :: "cluster_view \<Rightarrow> OsdDaemonInfo \<Rightarrow> bool \<Rightarrow> bool \<Rightarrow> device_map \<Rightarrow> OsdMapping" where
  "volume_osd cv info inCrush skip devices = OsdMapping0\<lparr>om_UUID := odi_OsdUUID info, om_ClusterFSID := odi_ClusterFSID info,
     om_HostDirectory := (if odi_ClusterFSID info \<noteq> [] \<and> odi_OsdUUID info \<noteq> []
       then host_directory (cv_hostDir cv) (cv_namespace cv) (odi_ClusterFSID info) (odi_OsdUUID info) else []),
     om_InCrushMap := inCrush, om_SkipDeviceCleanupJob := skip, om_DeviceMapping := devices\<rparr>"

definition put_osd :: "string \<Rightarrow> OsdMapping \<Rightarrow> osd_map \<Rightarrow> osd_map" where
  "put_osd key om m =
     (case map_of m key of
        Some present \<Rightarrow> AList.update key (present\<lparr>om_DeviceMapping := copy_into (om_DeviceMapping om) (om_DeviceMapping present)\<rparr>) m
      | None \<Rightarrow> AList.update key om m)"

definition lock_devices :: "OsdDaemonInfo \<Rightarrow> (string, bool) gomap \<Rightarrow> (string, bool) gomap" where
  "lock_devices info lock = fold (\<lambda>dev. AList.update (od_Name dev) True) (odi_Devices info) lock"

text \<open>A volume that is found in the specification: all its devices are locked when the block device
  is the one found. Otherwise the loop of the source stops after its first device.\<close>

definition lock_in_spec :: "OsdDaemonInfo \<Rightarrow> string \<Rightarrow> (string, bool) gomap \<Rightarrow> (string, bool) gomap" where
  "lock_in_spec info devType lock =
     (if devType = ''block'' then lock_devices info lock
      else case odi_Devices info of
             [] \<Rightarrow> lock
           | dev # _ \<Rightarrow>
               if list_ex (\<lambda>part. op_Partition part = od_RelatedPartition dev \<and> op_Type part = devType) (odi_Partitions info)
               then AList.update (od_Name dev) True lock else lock)"

section \<open>The specification analysis of a host\<close>

datatype gate = Pass | GateIssue string | GateWarning string

definition spec_analyse_gate :: "(string, DaemonStatus) gomap \<Rightarrow> string \<Rightarrow> gate" where
  "spec_analyse_gate specAnalyse host =
     (case map_of specAnalyse host of
        None \<Rightarrow> GateIssue (node_msg host ''spec analyse status is not available yet'')
      | Some state \<Rightarrow>
          if length (dst_Issues state) > 0 then
            GateIssue (node_msg host ''spec analyse status has failed, resolve it first'')
          else if dst_Status state = DaemonStateSkipped then
            GateWarning (node_msg host ''spec analyse status skipped, skipping lcm actions'')
          else Pass)"

section \<open>The result of a validation\<close>

record check_vars =
  ck_CleanupMap :: cleanup_map
  ck_Issues :: "string list"
  ck_Warnings :: "string list"
  ck_stray :: "(string, bool) gomap"

definition ck_warn :: "string list \<Rightarrow> check_vars \<Rightarrow> check_vars" where
  "ck_warn ws s = s\<lparr>ck_Warnings := ck_Warnings s @ ws\<rparr>"

definition ck_issue :: "string list \<Rightarrow> check_vars \<Rightarrow> check_vars" where
  "ck_issue is s = s\<lparr>ck_Issues := ck_Issues s @ is\<rparr>"

definition ck_put :: "string \<Rightarrow> HostMapping \<Rightarrow> check_vars \<Rightarrow> check_vars" where
  "ck_put host hm s = s\<lparr>ck_CleanupMap := AList.update host hm (ck_CleanupMap s)\<rparr>"

definition ck_result :: "check_vars \<Rightarrow> TaskRemoveInfo" where
  "ck_result s = \<lparr>tri_CleanupMap = ck_CleanupMap s, tri_Issues = sort (ck_Issues s), tri_Warnings = sort (ck_Warnings s)\<rparr>"

text \<open>The local variables while the volumes of one host are checked.\<close>

record volume_vars =
  vv_osds :: osd_map
  vv_lock :: "(string, bool) gomap"
  vv_warnings :: "string list"
  vv_stray :: "(string, bool) gomap"

definition volumes :: "DiskDaemonOsdsReport \<Rightarrow> (string \<times> OsdDaemonInfo) list" where
  "volumes rep = concat (map (\<lambda>(osd, infos). map (Pair osd) infos) (dor_Osds rep))"

end
