(* ===== verification/Spec_Verify.thy ===== *)
theory Spec_Verify
  imports Spec_Hosts
begin

text \<open>
  The validation of a task that names its nodes: \<^verbatim>\<open>verifyOsdsForCleanUp\<close> of
  \<^verbatim>\<open>osdremove-task/spec_handler.go\<close>.
\<close>

section \<open>A host without a disk daemon\<close>

definition meta_config :: "cluster_view \<Rightarrow> string \<Rightarrow> bool \<Rightarrow> bool \<Rightarrow> int list \<Rightarrow> mappingConfig" where
  "meta_config cv host nodeInSpec available osds = \<lparr>mc_nodeInSpec = nodeInSpec, mc_nodeAvailable = available, mc_host = host,
     mc_osdsToClean = osds, mc_osdsMetadataFromCluster = cv_metadata cv, mc_osdMetadataMap = cv_metadataMap cv,
     mc_osdUUIDMap = cv_uuidMap cv, mc_clusterFSID = cv_fsid cv, mc_clusterNamespace = cv_namespace cv,
     mc_clusterHostDir = cv_hostDir cv\<rparr>"

definition whole_host :: "NodeCleanUpSpec \<Rightarrow> bool" where
  "whole_host spec \<longleftrightarrow> ncs_CompleteCleanup spec \<or> ncs_DropFromCrush spec"

definition verify_from_meta :: "cluster_view \<Rightarrow> string \<Rightarrow> osdHostInfo \<Rightarrow> NodeCleanUpSpec \<Rightarrow> HostMapping \<Rightarrow> check_vars \<Rightarrow>
    check_vars option" where
  "verify_from_meta cv host hi spec hostMapping s =
     (if hi_available hi \<and> hi_inSpec hi then
        Some (ck_warn [node_msg host ''node is available, but present in spec, has no disk daemon running, skipping''] s)
      else if hi_available hi \<and> length (ncs_CleanupByDevice spec) > 0 then
        Some (ck_warn [node_msg host ''node is available, but has no disk daemon running, cleanup by device is not possible, use by id or complete remove, skipping''] s)
      else if \<not> hi_available hi \<and> length (ncs_CleanupByDevice spec) > 0 then
        Some (ck_warn [node_msg host ''node is not available, cleanup by device is not possible, skipping''] s)
      else do {
        (osdMap, runtimeWarnings) \<leftarrow>
          (if whole_host spec then
             fillOsdMappingFromOsdMeta (meta_config cv host False (hi_available hi) (hi_crushOsds hi))
           else
             fillOsdMappingFromOsdMeta (meta_config cv host (hi_inSpec hi) (hi_available hi) (map ocs_ID (ncs_CleanupByOsd spec))));
        let s' = (if length osdMap > 0 \<or> whole_host spec
                  then ck_put host (hostMapping\<lparr>hm_OsdMapping := osdMap,
                         hm_VolumesInfoMissed := (if hi_available hi then True else hm_VolumesInfoMissed hostMapping)\<rparr>) s
                  else s);
        Some (ck_warn runtimeWarnings s')
      })"

section \<open>The whole host or its stray volumes\<close>

definition verify_whole_volume :: "env \<Rightarrow> cluster_view \<Rightarrow> string \<Rightarrow> osdHostInfo \<Rightarrow> NodeCleanUpSpec \<Rightarrow> usedDevices \<Rightarrow>
    (string, int) gomap \<Rightarrow> string \<times> OsdDaemonInfo \<Rightarrow> volume_vars \<Rightarrow> volume_vars option" where
  "verify_whole_volume E cv host hi spec used known vol v =
     (case vol of (osd, info) \<Rightarrow> do {
        osdInCrush \<leftarrow> checkFromCrush cv known osd info;
        if ncs_CleanupStrayPartitions spec \<and> osdInCrush then
          if hi_inSpec hi then do {
            (_, _, inspec) \<leftarrow> inSpec E info used [];
            Some (if inspec then v\<lparr>vv_lock := lock_devices info (vv_lock v)\<rparr> else v)
          }
          else Some v
        else do {
          let strayInCrush = (flag (vv_stray v) osd \<and> odi_OsdUUID info = str_of (cv_uuidMap cv) osd);
          let info = identify cv (strayInCrush \<or> osdInCrush) osd info;
          let osdKey = (if \<not> osdInCrush then stray_key osd (odi_OsdUUID info) else osd);
          let v = (if \<not> osdInCrush then v\<lparr>vv_warnings := vv_warnings v @ [stray_warning host osd (odi_OsdUUID info)],
                     vv_stray := (if strayInCrush \<or> odi_OsdUUID info = str_of (cv_uuidMap cv) osd
                                  then AList.update osd False (vv_stray v) else vv_stray v)\<rparr> else v);
          Some (v\<lparr>vv_osds := put_osd osdKey (volume_osd cv info (strayInCrush \<or> osdInCrush) False
                    (getDevsInfoFromDaemonInfo info)) (vv_osds v)\<rparr>)
        }
      })"

definition verify_whole :: "env \<Rightarrow> cluster_view \<Rightarrow> string \<Rightarrow> osdHostInfo \<Rightarrow> NodeCleanUpSpec \<Rightarrow> usedDevices \<Rightarrow>
    (string, int) gomap \<Rightarrow> DiskDaemonOsdsReport \<Rightarrow> volume_vars \<Rightarrow> volume_vars option" where
  "verify_whole E cv host hi spec used known rep v = do {
     v \<leftarrow> (if \<not> ncs_CleanupStrayPartitions spec
          then fold_opt (\<lambda>(osdStr, osdInt) v. do {
                 devices \<leftarrow> meta_devices cv osdInt;
                 Some (v\<lparr>vv_osds := AList.update osdStr (crush_osd cv osdStr devices) (vv_osds v)\<rparr>)
               }) known v
          else Some v);
     fold_opt (verify_whole_volume E cv host hi spec used known) (volumes rep) v
   }"

section \<open>OSDs by number\<close>

record by_osd_vars =
  bo_devices :: device_map
  bo_allowed :: bool
  bo_vars :: volume_vars

definition bo_lock :: "((string, bool) gomap \<Rightarrow> (string, bool) gomap) \<Rightarrow> by_osd_vars \<Rightarrow> by_osd_vars" where
  "bo_lock f s = s\<lparr>bo_vars := (bo_vars s)\<lparr>vv_lock := f (vv_lock (bo_vars s))\<rparr>\<rparr>"

definition bo_warn :: "string \<Rightarrow> by_osd_vars \<Rightarrow> by_osd_vars" where
  "bo_warn w s = s\<lparr>bo_vars := (bo_vars s)\<lparr>vv_warnings := vv_warnings (bo_vars s) @ [w]\<rparr>\<rparr>"

definition verify_osd_volume :: "env \<Rightarrow> cluster_view \<Rightarrow> string \<Rightarrow> osdHostInfo \<Rightarrow> NodeCleanUpSpec \<Rightarrow> usedDevices \<Rightarrow>
    (string, int) gomap \<Rightarrow> OsdCleanupSpec \<Rightarrow> string \<times> OsdDaemonInfo \<Rightarrow> by_osd_vars \<Rightarrow> by_osd_vars option" where
  "verify_osd_volume E cv host hi spec used known osdToRemove vol s =
     (case vol of (osd, info) \<Rightarrow>
        if show_int (ocs_ID osdToRemove) \<noteq> osd then
          Some (if list_ex (\<lambda>item. show_int (ocs_ID item) = osd) (ncs_CleanupByOsd spec) then s
                else bo_lock (lock_devices info) s)
        else do {
          fromCrush \<leftarrow> checkFromCrush cv known osd info;
          if \<not> fromCrush then Some (bo_lock (lock_devices info) s)
          else do {
            let take = (\<lambda>s. s\<lparr>bo_devices := copy_into (getDevsInfoFromDaemonInfo info) (bo_devices s)\<rparr>);
            if hi_inSpec hi then do {
              (inSpecName, devType, inspec) \<leftarrow> inSpec E info used [];
              if inspec then
                let s = bo_lock (lock_in_spec info devType) s
                in if devType = ''block'' then
                     Some (bo_warn (node_msg host (''osd with id '' @ quoted osd @ '' is associated with block device ''
                       @ quoted inSpecName @ '', which is present in spec, can'' @ [CHR 39] @ ''t cleanup, skipping'')) (s\<lparr>bo_allowed := False\<rparr>))
                   else
                     Some (take (bo_warn (node_msg host (''osd with id '' @ quoted osd @ '' is associated with metadata device ''
                       @ quoted inSpecName @ '', which is present in spec, disk zap will be skipped'')) s))
              else Some (take s)
            }
            else Some (take s)
          }
        })"

definition verify_by_osd_one :: "env \<Rightarrow> cluster_view \<Rightarrow> string \<Rightarrow> osdHostInfo \<Rightarrow> NodeCleanUpSpec \<Rightarrow> usedDevices \<Rightarrow>
    (string, int) gomap \<Rightarrow> DiskDaemonOsdsReport \<Rightarrow> OsdCleanupSpec \<Rightarrow> volume_vars \<Rightarrow> volume_vars option" where
  "verify_by_osd_one E cv host hi spec used known rep osdToRemove v =
     (let osdStr = show_int (ocs_ID osdToRemove)
      in case map_of known osdStr of
           None \<Rightarrow> Some (v\<lparr>vv_warnings := vv_warnings v @ [node_msg host (''osd with id '' @ quoted osdStr @ '' is not found on a node, skipping'')]\<rparr>)
         | Some _ \<Rightarrow> do {
             devicesInfo \<leftarrow> meta_devices cv (ocs_ID osdToRemove);
             s \<leftarrow> fold_opt (verify_osd_volume E cv host hi spec used known osdToRemove) (volumes rep)
                   \<lparr>bo_devices = devicesInfo, bo_allowed = True, bo_vars = v\<rparr>;
             let v = bo_vars s;
             Some (if bo_allowed s then
                     v\<lparr>vv_warnings := vv_warnings v @ (if ocs_SkipDeviceCleanup osdToRemove
                         then [node_msg host (''osd with id '' @ quoted osdStr @ '' has '' @ quoted ''skip device clean up''
                                @ '' flag set in spec. Related deployment should be removed manually as well'')] else []),
                       vv_osds := AList.update osdStr ((crush_osd cv osdStr (bo_devices s))\<lparr>
                         om_SkipDeviceCleanupJob := ocs_SkipDeviceCleanup osdToRemove\<rparr>) (vv_osds v)\<rparr>
                   else v)
           })"

definition verify_by_osd :: "env \<Rightarrow> cluster_view \<Rightarrow> string \<Rightarrow> osdHostInfo \<Rightarrow> NodeCleanUpSpec \<Rightarrow> usedDevices \<Rightarrow>
    (string, int) gomap \<Rightarrow> DiskDaemonOsdsReport \<Rightarrow> volume_vars \<Rightarrow> volume_vars option" where
  "verify_by_osd E cv host hi spec used known rep =
     fold_opt (verify_by_osd_one E cv host hi spec used known rep) (ncs_CleanupByOsd spec)"

section \<open>OSDs by device\<close>

text \<open>The result of one volume: go on, or leave the search for this device (\<^verbatim>\<open>continue DevLoop\<close>).\<close>

record by_dev_vars =
  bd_found :: bool
  bd_deny :: "string list"
  bd_vars :: volume_vars

definition verify_dev_volume :: "env \<Rightarrow> cluster_view \<Rightarrow> string \<Rightarrow> osdHostInfo \<Rightarrow> usedDevices \<Rightarrow>
    (string, int) gomap \<Rightarrow> DeviceCleanupSpec \<Rightarrow> string \<times> OsdDaemonInfo \<Rightarrow> by_dev_vars \<Rightarrow> (bool \<times> by_dev_vars) option" where
  "verify_dev_volume E cv host hi used known devConfig vol s =
     (case vol of (osd, info) \<Rightarrow>
        let v = bd_vars s; devToRemove = dcs_Device devConfig
        in if \<not> checkDisksOrPartition info devToRemove then do {
             (_, _, inspec) \<leftarrow> inSpec E info used [];
             Some (False, if inspec then s\<lparr>bd_vars := v\<lparr>vv_lock := lock_devices info (vv_lock v)\<rparr>\<rparr> else s)
           }
           else do {
             (deviceInSpec, _, inspec) \<leftarrow> (if hi_inSpec hi then inSpec E info used devToRemove else Some ([], [], False));
             if inspec then
               Some (True, s\<lparr>bd_deny := bd_deny s @ map od_Name (odi_Devices info),
                 bd_vars := v\<lparr>vv_lock := lock_devices info (vv_lock v),
                   vv_warnings := vv_warnings v @ [node_msg host (''device '' @ quoted devToRemove
                     @ '' is marked for clean up, but present in spec as '' @ quoted deviceInSpec)]\<rparr>\<rparr>)
             else do {
               osdInCrush \<leftarrow> checkFromCrush cv known osd info;
               let strayInCrush = (flag (vv_stray v) osd \<and> odi_OsdUUID info = str_of (cv_uuidMap cv) osd);
               let info = identify cv (strayInCrush \<or> osdInCrush) osd info;
               let osdKey = (if \<not> osdInCrush then stray_key osd (odi_OsdUUID info) else osd);
               let devsMap = getDevsInfoFromDaemonInfo info;
               devsMap \<leftarrow> (if osdInCrush then do {
                    devicesInfo \<leftarrow> meta_devices cv (get_or 0 known osd);
                    Some (copy_into (filter (\<lambda>(dev, _). map_of devsMap dev = None) devicesInfo) devsMap)
                  } else Some devsMap);
               let v = (if \<not> osdInCrush then v\<lparr>vv_warnings := vv_warnings v @ [stray_warning host osd (odi_OsdUUID info)],
                          vv_stray := (if strayInCrush \<or> odi_OsdUUID info = str_of (cv_uuidMap cv) osd
                                       then AList.update osd False (vv_stray v) else vv_stray v)\<rparr> else v);
               let v = (if dcs_SkipDeviceCleanup devConfig \<and> osdInCrush
                        then v\<lparr>vv_warnings := vv_warnings v @ [node_msg host (''device '' @ quoted devToRemove @ '' has set ''
                               @ quoted ''skip device clean up'' @ '' flag set in spec. Related osd deployment (osd id ''
                               @ quoted osd @ '') should be removed manually as well'')]\<rparr> else v);
               Some (False, s\<lparr>bd_found := True, bd_vars := v\<lparr>vv_osds := put_osd osdKey
                 (volume_osd cv info (strayInCrush \<or> osdInCrush) (dcs_SkipDeviceCleanup devConfig) devsMap) (vv_osds v)\<rparr>\<rparr>)
             }
           })"

fun verify_dev_volumes :: "env \<Rightarrow> cluster_view \<Rightarrow> string \<Rightarrow> osdHostInfo \<Rightarrow> usedDevices \<Rightarrow> (string, int) gomap \<Rightarrow>
    DeviceCleanupSpec \<Rightarrow> (string \<times> OsdDaemonInfo) list \<Rightarrow> by_dev_vars \<Rightarrow> (bool \<times> by_dev_vars) option" where
  "verify_dev_volumes E cv host hi used known devConfig [] s = Some (False, s)"
| "verify_dev_volumes E cv host hi used known devConfig (vol # vols) s = do {
     (stop, s') \<leftarrow> verify_dev_volume E cv host hi used known devConfig vol s;
     if stop then Some (True, s') else verify_dev_volumes E cv host hi used known devConfig vols s'
   }"

definition verify_by_dev_one :: "env \<Rightarrow> cluster_view \<Rightarrow> string \<Rightarrow> osdHostInfo \<Rightarrow> usedDevices \<Rightarrow>
    (string, int) gomap \<Rightarrow> DiskDaemonOsdsReport \<Rightarrow> DeviceCleanupSpec \<Rightarrow> by_dev_vars \<Rightarrow> by_dev_vars option" where
  "verify_by_dev_one E cv host hi used known rep devConfig s = do {
     (stopped, s') \<leftarrow> verify_dev_volumes E cv host hi used known devConfig (volumes rep) (s\<lparr>bd_found := False\<rparr>);
     Some (if stopped \<or> bd_found s' then s'
           else s'\<lparr>bd_vars := (bd_vars s')\<lparr>vv_warnings := vv_warnings (bd_vars s') @ [node_msg host (''device ''
             @ quoted (dcs_Device devConfig) @ '' is not found on a node or has no osd partitions to cleanup, skipping'')]\<rparr>\<rparr>)
   }"

definition drop_denied :: "string list \<Rightarrow> osd_map \<Rightarrow> osd_map" where
  "drop_denied deny m = fold (\<lambda>denyDev. filter (\<lambda>(_, om). map_of (om_DeviceMapping om) denyDev = None)) deny m"

definition verify_by_dev :: "env \<Rightarrow> cluster_view \<Rightarrow> string \<Rightarrow> osdHostInfo \<Rightarrow> NodeCleanUpSpec \<Rightarrow> usedDevices \<Rightarrow>
    (string, int) gomap \<Rightarrow> DiskDaemonOsdsReport \<Rightarrow> volume_vars \<Rightarrow> volume_vars option" where
  "verify_by_dev E cv host hi spec used known rep v = do {
     s \<leftarrow> fold_opt (verify_by_dev_one E cv host hi used known rep) (ncs_CleanupByDevice spec)
           \<lparr>bd_found = False, bd_deny = [], bd_vars = v\<rparr>;
     Some ((bd_vars s)\<lparr>vv_osds := drop_denied (bd_deny s) (vv_osds (bd_vars s))\<rparr>)
   }"

section \<open>One host\<close>

definition verify_volumes :: "env \<Rightarrow> cluster_view \<Rightarrow> string \<Rightarrow> osdHostInfo \<Rightarrow> NodeCleanUpSpec \<Rightarrow> usedDevices \<Rightarrow>
    DiskDaemonOsdsReport \<Rightarrow> (string, bool) gomap \<Rightarrow> volume_vars option" where
  "verify_volumes E cv host hi spec used rep stray =
     (let known = (if hi_inCrush hi then known_osds (hi_crushOsds hi) else []);
          v = \<lparr>vv_osds = [], vv_lock = [], vv_warnings = [], vv_stray = stray\<rparr>
      in if whole_host spec \<or> ncs_CleanupStrayPartitions spec then verify_whole E cv host hi spec used known rep v
         else if length (ncs_CleanupByOsd spec) > 0 then verify_by_osd E cv host hi spec used known rep v
         else if length (ncs_CleanupByDevice spec) > 0 then verify_by_dev E cv host hi spec used known rep v
         else Some v)"

definition verify_finish :: "bool \<Rightarrow> string \<Rightarrow> NodeCleanUpSpec \<Rightarrow> HostMapping \<Rightarrow> DiskDaemonOsdsReport \<Rightarrow> volume_vars \<Rightarrow>
    check_vars \<Rightarrow> check_vars" where
  "verify_finish allowLvm host spec hostMapping rep v s =
     (let s = (ck_warn (vv_warnings v) s)\<lparr>ck_stray := vv_stray v\<rparr>
      in if length (vv_osds v) > 0 \<or> whole_host spec then
           let (osdMapping, warn) = (if ncs_DropFromCrush spec then (vv_osds v, [])
                                     else checkDeviceZapping host (vv_osds v) (vv_lock v) allowLvm);
               hostMapping = hostMapping\<lparr>hm_OsdMapping := osdMapping\<rparr>
           in ck_put host hostMapping (ck_warn (getReportWarningsInNodeFormat hostMapping host (dor_Warnings rep)) (ck_warn warn s))
         else s)"

text \<open>The checks before the volumes: the first that applies ends the work on the host.\<close>

definition verify_guard :: "(string, DaemonStatus) gomap \<Rightarrow> string \<Rightarrow> osdHostInfo \<Rightarrow> NodeCleanUpSpec \<Rightarrow> gate" where
  "verify_guard specAnalyse host hi spec =
     (case (if hi_inSpec hi \<and> hi_labeled hi \<and> hi_available hi then spec_analyse_gate specAnalyse host else Pass) of
        Pass \<Rightarrow>
          if ncs_CleanupStrayPartitions spec \<and> hi_available hi \<and> \<not> hi_labeled hi then
            GateWarning (node_msg host ''node is available, but has no disk daemon running, cleanup stray paritions is not possible, use by id or complete remove, skipping'')
          else if ncs_CleanupStrayPartitions spec \<and> \<not> hi_available hi then
            GateWarning (node_msg host ''node is not available, cleanup stray paritions is not possible, skipping'')
          else if \<not> hi_inCrush hi \<and> \<not> ncs_CleanupStrayPartitions spec then
            GateWarning (node_msg host ''node is not present in Ceph cluster crush map, skipping'')
          else if hi_inSpec hi \<and> whole_host spec then
            GateWarning (node_msg host ''node is present in spec, complete host remove from crush map is not possible, skipping'')
          else Pass
      | g \<Rightarrow> g)"

definition verify_host :: "env \<Rightarrow> cephOsdRemoveConfig \<Rightarrow> cluster_view \<Rightarrow> CephNode list \<Rightarrow> host_infos \<Rightarrow>
    string \<times> NodeCleanUpSpec \<Rightarrow> check_vars \<Rightarrow> check_vars option io" where
  "verify_host E c cv nodesList osdsHosts p s =
     (case p of (host, spec) \<Rightarrow>
        let hi = get_or osdHostInfo0 osdsHosts host
        in if host = StrayOsdNodeMarker then State_Monad.return (Some s)
           else (case verify_guard (osa_SpecAnalysis (tk_cephHealthOsdAnalysis (rc_taskConfig c))) host hi spec of
             GateIssue msg \<Rightarrow> State_Monad.return (Some (ck_issue [msg] s))
           | GateWarning msg \<Rightarrow> State_Monad.return (Some (ck_warn [msg] s))
           | Pass \<Rightarrow>
               let hostMapping = HostMapping0\<lparr>hm_CompleteCleanup := ncs_CompleteCleanup spec,
                     hm_DropFromCrush := ncs_DropFromCrush spec, hm_NodeIsDown := \<not> hi_available hi\<rparr>
               in if \<not> hi_available hi \<or> \<not> hi_labeled hi then
                    State_Monad.return (verify_from_meta cv host hi spec hostMapping s)
                  else do {
                    (osdsReport, issues) \<leftarrow> tryToGetNodeOsdsReportOrIssues E c host;
                    State_Monad.return
                      (case osdsReport of
                         None \<Rightarrow> Some (ck_issue issues s)
                       | Some rep \<Rightarrow> do {
                           used \<leftarrow> (if hi_inSpec hi then map_option getListUsedDevices (at nodesList (hi_specIdx hi))
                                    else Some usedDevices0);
                           v \<leftarrow> verify_volumes E cv host hi spec used rep (ck_stray s);
                           Some (verify_finish (tp_AllowToRemoveManuallyCreatedLVM (lc_TaskParams (rc_lcmConfig c)))
                             host spec hostMapping rep v s)
                         })
                  }))"

section \<open>Stray OSDs of the CRUSH map\<close>

definition stray_osd_mapping :: "cluster_view \<Rightarrow> string \<Rightarrow> OsdMapping" where
  "stray_osd_mapping cv osdID = OsdMapping0\<lparr>om_UUID := str_of (cv_uuidMap cv) osdID, om_ClusterFSID := cv_fsid cv,
     om_InCrushMap := True\<rparr>"

definition verify_stray_osd :: "cluster_view \<Rightarrow> (string, bool) gomap \<Rightarrow> OsdCleanupSpec \<Rightarrow> osd_map \<times> string list \<Rightarrow>
    osd_map \<times> string list" where
  "verify_stray_osd cv stray strayOsd acc =
     (case acc of (strayOsdMapping, warnings) \<Rightarrow>
        let osdID = show_int (ocs_ID strayOsd)
        in case map_of stray osdID of
             Some needToRemove \<Rightarrow>
               (if needToRemove then AList.update osdID (stray_osd_mapping cv osdID) strayOsdMapping else strayOsdMapping, warnings)
           | None \<Rightarrow> (strayOsdMapping, warnings @ [''['' @ StrayOsdNodeMarker @ ''] stray osd with id '' @ quoted osdID
               @ '' is not found in crush map'']))"

definition verify_strays :: "cluster_view \<Rightarrow> (string, NodeCleanUpSpec) gomap \<Rightarrow> check_vars \<Rightarrow> check_vars" where
  "verify_strays cv nodesFromTask s =
     (case map_of nodesFromTask StrayOsdNodeMarker of
        None \<Rightarrow> s
      | Some strayRemove \<Rightarrow>
          if length (ncs_CleanupByOsd strayRemove) = 0 then
            ck_warn [''['' @ StrayOsdNodeMarker @ ''] stray which are present in crush map is possible to remove only be osd id''] s
          else
            (case fold (verify_stray_osd cv (ck_stray s)) (ncs_CleanupByOsd strayRemove) ([], []) of
               (strayOsdMapping, warnings) \<Rightarrow>
                 let s = ck_warn warnings s
                 in if length strayOsdMapping > 0
                    then ck_put StrayOsdNodeMarker (HostMapping0\<lparr>hm_OsdMapping := strayOsdMapping\<rparr>) s else s))"

definition verifyOsdsForCleanUp :: "env \<Rightarrow> cephOsdRemoveConfig \<Rightarrow> (string, NodeCleanUpSpec) gomap \<Rightarrow> CephNode list \<Rightarrow>
    host_infos \<Rightarrow> OsdMetadataInfo list \<Rightarrow> OsdInfo list \<Rightarrow> TaskRemoveInfo option io" where
  "verifyOsdsForCleanUp E c nodesFromTask nodesList osdsHosts osdsMetadata osdInfo = do {
     let cv = cluster_view_of (tk_cephCluster (rc_taskConfig c)) osdsMetadata osdInfo;
     r \<leftarrow> try_each (verify_host E c cv nodesList osdsHosts) nodesFromTask
           \<lparr>ck_CleanupMap = [], ck_Issues = [], ck_Warnings = [], ck_stray = stray_osds osdsMetadata\<rparr>;
     State_Monad.return (map_option (\<lambda>s. ck_result (verify_strays cv nodesFromTask s)) r)
   }"

end
