(* ===== verification/Spec_Find.thy ===== *)
theory Spec_Find
  imports Spec_Verify
begin

text \<open>
  The validation of a task that names no nodes: \<^verbatim>\<open>findOsdsForCleanUp\<close> of
  \<^verbatim>\<open>osdremove-task/spec_handler.go\<close>, and the choice between the two modes, \<^verbatim>\<open>getOsdsForCleanup\<close>.

  The source keeps the devices of an OSD in one map that the mapping of the OSD may share: once a
  mapping was created for a volume of the OSD, writes to either are seen in both. The variable
  \<open>fo_shared\<close> lists the mappings that share the map \<open>fo_devices\<close>.
\<close>

section \<open>One OSD of a report\<close>

record find_vars =
  fi_osds :: osd_map
  fi_lock :: "(string, bool) gomap"
  fi_warnings :: "string list"
  fi_stray :: "(string, bool) gomap"
  fi_known :: "(string, int) gomap"

record find_osd_vars =
  fo_devices :: device_map
  fo_shared :: "string list"
  fo_allowed :: bool
  fo_vars :: find_vars

definition fo_osds :: "find_osd_vars \<Rightarrow> osd_map" where
  "fo_osds s = fi_osds (fo_vars s)"

definition fo_map :: "(osd_map \<Rightarrow> osd_map) \<Rightarrow> find_osd_vars \<Rightarrow> find_osd_vars" where
  "fo_map f s = s\<lparr>fo_vars := (fo_vars s)\<lparr>fi_osds := f (fi_osds (fo_vars s))\<rparr>\<rparr>"

text \<open>Writing devices into the map of the OSD, and so into every mapping that shares it.\<close>

definition write_devices :: "device_map \<Rightarrow> find_osd_vars \<Rightarrow> find_osd_vars" where
  "write_devices devs s =
     (let m = copy_into devs (fo_devices s)
      in fo_map (\<lambda>osds. fold (\<lambda>key. adjust key (\<lambda>om. om\<lparr>om_DeviceMapping := m\<rparr>)) (fo_shared s) osds) (s\<lparr>fo_devices := m\<rparr>))"

definition find_put :: "string \<Rightarrow> bool \<Rightarrow> OsdMapping \<Rightarrow> find_osd_vars \<Rightarrow> find_osd_vars" where
  "find_put key fromCrushAndHost om s =
     (case map_of (fo_osds s) key of
        Some present \<Rightarrow>
          if key \<in> set (fo_shared s) then write_devices (om_DeviceMapping om) s
          else fo_map (put_osd key om) s
      | None \<Rightarrow>
          if fromCrushAndHost then
            let s = write_devices (om_DeviceMapping om) s
            in fo_map (AList.update key (om\<lparr>om_DeviceMapping := fo_devices s\<rparr>)) (s\<lparr>fo_shared := key # fo_shared s\<rparr>)
          else fo_map (AList.update key om) s)"

text \<open>A volume of an OSD of the cluster on a host of the specification.\<close>

definition find_own_volume :: "env \<Rightarrow> usedDevices \<Rightarrow> OsdDaemonInfo \<Rightarrow> find_osd_vars \<Rightarrow> find_osd_vars option" where
  "find_own_volume E used info s = do {
     (_, devType, inspec) \<leftarrow> inSpec E info used [];
     let s = (if inspec then s\<lparr>fo_vars := (fo_vars s)\<lparr>fi_lock := lock_in_spec info devType (fi_lock (fo_vars s))\<rparr>,
                fo_allowed := (if devType = ''block'' then False else fo_allowed s)\<rparr> else s);
     Some (if fo_allowed s then write_devices (getDevsInfoFromDaemonInfo info) s else s)
   }"

text \<open>Any other volume: it is to be cleaned up.\<close>

definition find_other_volume :: "cluster_view \<Rightarrow> string \<Rightarrow> string \<Rightarrow> bool \<Rightarrow> OsdDaemonInfo \<Rightarrow> find_osd_vars \<Rightarrow> find_osd_vars" where
  "find_other_volume cv host osd fromCrushAndHost info s =
     (let v = fo_vars s;
          inCrushAndStray = (flag (fi_stray v) osd \<and> odi_OsdUUID info = str_of (cv_uuidMap cv) osd);
          info = identify cv (inCrushAndStray \<or> fromCrushAndHost) osd info;
          isStray = (inCrushAndStray \<or> \<not> fromCrushAndHost);
          osdKey = (if isStray then stray_key osd (odi_OsdUUID info) else osd);
          s = (if isStray then s\<lparr>fo_vars := v\<lparr>fi_warnings := fi_warnings v @ [stray_warning host osd (odi_OsdUUID info)],
                 fi_stray := AList.delete osd (fi_stray v)\<rparr>\<rparr> else s)
      in find_put osdKey fromCrushAndHost
           (volume_osd cv info (inCrushAndStray \<or> fromCrushAndHost) False (getDevsInfoFromDaemonInfo info)) s)"

definition find_volume :: "env \<Rightarrow> cluster_view \<Rightarrow> string \<Rightarrow> osdHostInfo \<Rightarrow> usedDevices \<Rightarrow> string \<Rightarrow> OsdDaemonInfo \<Rightarrow>
    find_osd_vars \<Rightarrow> find_osd_vars option" where
  "find_volume E cv host hi used osd info s = do {
     fromCrushAndHost \<leftarrow> checkFromCrush cv (fi_known (fo_vars s)) osd info;
     if fromCrushAndHost \<and> hi_inSpec hi then find_own_volume E used info s
     else Some (find_other_volume cv host osd fromCrushAndHost info s)
   }"

text \<open>The devices the metadata expects but no volume was found for.\<close>

definition add_expected :: "string list \<Rightarrow> device_map \<Rightarrow> device_map \<Rightarrow> device_map" where
  "add_expected expected meta devices =
     fold (\<lambda>dev m. if map_of m dev = None then AList.update dev (get_or DeviceInfo0 meta dev) m else m) expected devices"

text \<open>After the volumes of an OSD: the decision about the OSD itself.\<close>

definition close_osd :: "cluster_view \<Rightarrow> osdHostInfo \<Rightarrow> string \<Rightarrow> string list \<Rightarrow> find_osd_vars \<Rightarrow> find_vars" where
  "close_osd cv hi osd expected s =
     (let v = (if hi_inSpec hi \<and> fo_allowed s
               then (fo_vars s)\<lparr>fi_osds := AList.update osd (crush_osd cv osd (fo_devices s)) (fi_osds (fo_vars s))\<rparr>
               else fo_vars s)
      in if hi_inCrush hi \<and> length expected > 0 then
           if \<not> fo_allowed s then v\<lparr>fi_known := AList.delete osd (fi_known v)\<rparr>
           else case map_of (fi_osds v) osd of
             None \<Rightarrow> v
           | Some mapping \<Rightarrow>
               v\<lparr>fi_osds := AList.update osd (mapping\<lparr>om_DeviceMapping :=
                   add_expected expected (fo_devices s) (om_DeviceMapping mapping)\<rparr>) (fi_osds v),
                 fi_known := AList.delete osd (fi_known v)\<rparr>
         else v)"

definition find_meta :: "cluster_view \<Rightarrow> osdHostInfo \<Rightarrow> (string, int) gomap \<Rightarrow> string \<Rightarrow> device_map option" where
  "find_meta cv hi known osd =
     (if hi_inCrush hi then case map_of known osd of Some osdInt \<Rightarrow> meta_devices cv osdInt | None \<Rightarrow> Some []
      else Some [])"

definition find_osd :: "env \<Rightarrow> cluster_view \<Rightarrow> string \<Rightarrow> osdHostInfo \<Rightarrow> usedDevices \<Rightarrow> string \<times> OsdDaemonInfo list \<Rightarrow>
    find_vars \<Rightarrow> find_vars option" where
  "find_osd E cv host hi used p v =
     (case p of (osd, infos) \<Rightarrow> do {
        meta \<leftarrow> find_meta cv hi (fi_known v) osd;
        s \<leftarrow> fold_opt (find_volume E cv host hi used osd) infos
              \<lparr>fo_devices = meta, fo_shared = [], fo_allowed = (length meta > 0), fo_vars = v\<rparr>;
        Some (close_osd cv hi osd (keys meta) s)
      })"

section \<open>One host\<close>

definition find_volumes :: "env \<Rightarrow> cluster_view \<Rightarrow> string \<Rightarrow> osdHostInfo \<Rightarrow> usedDevices \<Rightarrow> DiskDaemonOsdsReport \<Rightarrow>
    (string, bool) gomap \<Rightarrow> find_vars option" where
  "find_volumes E cv host hi used rep stray = do {
     v \<leftarrow> fold_opt (find_osd E cv host hi used) (dor_Osds rep)
           \<lparr>fi_osds = [], fi_lock = [], fi_warnings = [], fi_stray = stray, fi_known = known_osds (hi_crushOsds hi)\<rparr>;
     osds \<leftarrow> fold_opt (\<lambda>(osdString, osdInt) osds. do {
               devices \<leftarrow> meta_devices cv osdInt;
               Some (AList.update osdString (crush_osd cv osdString devices) osds)
             }) (fi_known v) (fi_osds v);
     Some (v\<lparr>fi_osds := osds\<rparr>)
   }"

definition find_record :: "string \<Rightarrow> osdHostInfo \<Rightarrow> HostMapping \<Rightarrow> check_vars \<Rightarrow> check_vars" where
  "find_record host hi hostMapping s =
     (if length (hm_OsdMapping hostMapping) > 0 \<or> (hi_inCrush hi \<and> hm_CompleteCleanup hostMapping)
      then ck_put host hostMapping s else s)"

definition find_finish :: "bool \<Rightarrow> string \<Rightarrow> osdHostInfo \<Rightarrow> HostMapping \<Rightarrow> DiskDaemonOsdsReport \<Rightarrow> find_vars \<Rightarrow>
    check_vars \<Rightarrow> check_vars" where
  "find_finish allowLvm host hi hostMapping rep v s =
     (case checkDeviceZapping host (fi_osds v) (fi_lock v) allowLvm of
        (osdMapping, warn) \<Rightarrow>
          let s = (ck_warn warn (ck_warn (fi_warnings v) s))\<lparr>ck_stray := fi_stray v\<rparr>
          in if length osdMapping > 0 then
               let hostMapping = hostMapping\<lparr>hm_OsdMapping := osdMapping\<rparr>
               in find_record host hi hostMapping
                    (ck_warn (getReportWarningsInNodeFormat hostMapping host (dor_Warnings rep)) s)
             else find_record host hi hostMapping s)"

definition find_from_meta :: "cluster_view \<Rightarrow> string \<Rightarrow> osdHostInfo \<Rightarrow> HostMapping \<Rightarrow> check_vars \<Rightarrow> check_vars option" where
  "find_from_meta cv host hi hostMapping s =
     (if hi_inSpec hi then
        Some (ck_warn [node_msg host
          (if hi_available hi
           then ''node is available and present in spec, but has no disk daemon running, unable to run auto cleanup, skipping''
           else ''node is present in spec, but is not available, unable to auto detect osds to remove, please specify manually'')] s)
      else if hi_inCrush hi then do {
        (osdMapping, warnings) \<leftarrow> fillOsdMappingFromOsdMeta (meta_config cv host (hi_inSpec hi) (hi_available hi) (hi_crushOsds hi));
        Some (find_record host hi (hostMapping\<lparr>hm_VolumesInfoMissed := hi_available hi, hm_OsdMapping := osdMapping\<rparr>) (ck_warn warnings s))
      }
      else Some (find_record host hi hostMapping s))"

definition find_host :: "env \<Rightarrow> cephOsdRemoveConfig \<Rightarrow> cluster_view \<Rightarrow> CephNode list \<Rightarrow> string \<times> osdHostInfo \<Rightarrow> check_vars \<Rightarrow>
    check_vars option io" where
  "find_host E c cv nodesList p s =
     (case p of (host, hi) \<Rightarrow>
        let hostMapping = HostMapping0\<lparr>hm_CompleteCleanup := \<not> hi_inSpec hi, hm_NodeIsDown := \<not> hi_available hi\<rparr>
        in if hi_available hi \<and> hi_labeled hi then
             (case (if hi_inSpec hi then spec_analyse_gate (osa_SpecAnalysis (tk_cephHealthOsdAnalysis (rc_taskConfig c))) host
                    else Pass) of
                GateIssue msg \<Rightarrow> State_Monad.return (Some (ck_issue [msg] s))
              | GateWarning msg \<Rightarrow> State_Monad.return (Some (ck_warn [msg] s))
              | Pass \<Rightarrow>
                  (case (if hi_inSpec hi then map_option getListUsedDevices (at nodesList (hi_specIdx hi))
                         else Some usedDevices0) of
                     None \<Rightarrow> State_Monad.return None
                   | Some used \<Rightarrow> do {
                       (osdsReport, issues) \<leftarrow> tryToGetNodeOsdsReportOrIssues E c host;
                       State_Monad.return
                         (case osdsReport of
                            None \<Rightarrow> Some (ck_issue issues s)
                          | Some rep \<Rightarrow> do {
                              v \<leftarrow> find_volumes E cv host hi used rep (ck_stray s);
                              Some (find_finish (tp_AllowToRemoveManuallyCreatedLVM (lc_TaskParams (rc_lcmConfig c)))
                                host hi hostMapping rep v s)
                            })
                     }))
           else State_Monad.return (find_from_meta cv host hi hostMapping s))"

section \<open>The rest\<close>

definition stray_found_warning :: string where
  "stray_found_warning = ''[stray] detected stray osds, but impossible to determine related host/device (probably disk(s) removed or host(s) down), device cleanup jobs will be skipped''"

definition find_strays :: "cluster_view \<Rightarrow> check_vars \<Rightarrow> check_vars" where
  "find_strays cv s =
     (let strayOsdMapping = map (\<lambda>(strayOsd, _). (strayOsd, stray_osd_mapping cv strayOsd)) (ck_stray s)
      in if length strayOsdMapping > 0
         then ck_put StrayOsdNodeMarker (HostMapping0\<lparr>hm_OsdMapping := strayOsdMapping\<rparr>) (ck_warn [stray_found_warning] s)
         else s)"

definition findOsdsForCleanUp :: "env \<Rightarrow> cephOsdRemoveConfig \<Rightarrow> CephNode list \<Rightarrow> host_infos \<Rightarrow> OsdMetadataInfo list \<Rightarrow>
    OsdInfo list \<Rightarrow> TaskRemoveInfo option io" where
  "findOsdsForCleanUp E c nodesList osdsHosts osdsMetadata osdInfo = do {
     let cv = cluster_view_of (tk_cephCluster (rc_taskConfig c)) osdsMetadata osdInfo;
     r \<leftarrow> try_each (find_host E c cv nodesList) osdsHosts
           \<lparr>ck_CleanupMap = [], ck_Issues = [], ck_Warnings = [], ck_stray = stray_osds osdsMetadata\<rparr>;
     State_Monad.return (map_option (\<lambda>s. ck_result (find_strays cv s)) r)
   }"

section \<open>Choosing the hosts\<close>

definition pickHost :: "(string, NodeCleanUpSpec) gomap \<Rightarrow> string \<Rightarrow> bool" where
  "pickHost nodesFromTaskSpec hostname =
     (if hostname = [] then False
      else if length nodesFromTaskSpec > 0 then map_of nodesFromTaskSpec hostname \<noteq> None
      else True)"

definition add_crush_host :: "(string, NodeCleanUpSpec) gomap \<Rightarrow> string \<times> int list \<Rightarrow> host_infos \<Rightarrow> host_infos" where
  "add_crush_host nodes p infos =
     (if pickHost nodes (fst p)
      then AList.update (fst p) (osdHostInfo0\<lparr>hi_crushOsds := snd p, hi_inCrush := True\<rparr>) infos else infos)"

definition add_spec_host :: "(string, NodeCleanUpSpec) gomap \<Rightarrow> nat \<times> CephNode \<Rightarrow> host_infos \<Rightarrow> host_infos" where
  "add_spec_host nodes p infos =
     (let name = cn_Name (snd p)
      in if pickHost nodes name
         then AList.update name ((get_or osdHostInfo0 infos name)\<lparr>hi_inSpec := True, hi_specIdx := fst p\<rparr>) infos
         else infos)"

definition add_kube_host :: "env \<Rightarrow> string \<Rightarrow> (string, NodeCleanUpSpec) gomap \<Rightarrow> KubeNode \<Rightarrow> host_infos \<Rightarrow> host_infos" where
  "add_kube_host E label nodes node infos =
     (let name = kn_Name node; labeled = IsNodeWithDiskDaemon E node label
      in if pickHost nodes name \<and> (map_of infos name \<noteq> None \<or> labeled)
         then AList.update name ((get_or osdHostInfo0 infos name)\<lparr>hi_labeled := labeled,
                hi_available := fst (IsNodeAvailable node)\<rparr>) infos
         else infos)"

definition host_infos_of :: "env \<Rightarrow> cephOsdRemoveConfig \<Rightarrow> (string, NodeCleanUpSpec) gomap \<Rightarrow> (string, int list) gomap \<Rightarrow>
    KubeNode list \<Rightarrow> host_infos" where
  "host_infos_of E c nodes hostsFromCluster nodesList =
     (let specNodes = cc_StorageNodes (tk_cephCluster (rc_taskConfig c));
          infos = fold (add_crush_host nodes) hostsFromCluster [];
          infos = fold (add_spec_host nodes) (zip [0..<length specNodes] specNodes) infos
      in fold (add_kube_host E (cp_DiskDaemonPlacementLabel (lc_CommonParams (rc_lcmConfig c))) nodes) nodesList infos)"

definition getOsdsForCleanup :: "env \<Rightarrow> cephOsdRemoveConfig \<Rightarrow> (string, int list) gomap \<Rightarrow> OsdMetadataInfo list \<Rightarrow>
    OsdInfo list \<Rightarrow> KubeNode list \<Rightarrow> TaskRemoveInfo option io" where
  "getOsdsForCleanup E c hostsFromCluster osdsMetadata osdInfo nodesList =
     (let specNodes = cc_StorageNodes (tk_cephCluster (rc_taskConfig c));
          nodes = (case spec_nodes (tk_task (rc_taskConfig c)) of Some ns \<Rightarrow> ns | None \<Rightarrow> []);
          osdsHosts = host_infos_of E c nodes hostsFromCluster nodesList
      in if length nodes > 0 then verifyOsdsForCleanUp E c nodes specNodes osdsHosts osdsMetadata osdInfo
         else findOsdsForCleanUp E c specNodes osdsHosts osdsMetadata osdInfo)"

end
