(* ===== verification/Spec_Lemmas.thy ===== *)
theory Spec_Lemmas
  imports Spec_Find Removal_Guarantees
begin

text \<open>
  What a validation leaves in the cleanup map: well-formed maps, OSDs without a removal status, and
  devices marked for zapping only by \<open>checkDeviceZapping\<close>. The loops of the two modes are instances
  of the locale \<open>kept_by\<close> with that invariant.
\<close>

section \<open>OSDs as the validation builds them\<close>

definition plain_devices :: "device_map \<Rightarrow> bool" where
  "plain_devices m \<longleftrightarrow> list_all (\<lambda>(_, dm). \<not> di_Zap dm) m"

definition plain_osd :: "OsdMapping \<Rightarrow> bool" where
  "plain_osd om \<longleftrightarrow> om_RemoveStatus om = None \<and> plain_devices (om_DeviceMapping om)"

definition plain_osds :: "osd_map \<Rightarrow> bool" where
  "plain_osds m \<longleftrightarrow> wf_map m \<and> list_all (\<lambda>(_, om). plain_osd om) m"

named_theorems plain \<open>closure of the plain maps\<close>

lemma plain_devices_update [plain]: "plain_devices m \<Longrightarrow> \<not> di_Zap dm \<Longrightarrow> plain_devices (AList.update d dm m)"
  unfolding plain_devices_def list_all_iff by (auto dest!: in_update)

lemma plain_devices_copy [plain]: "plain_devices m \<Longrightarrow> plain_devices n \<Longrightarrow> plain_devices (copy_into m n)"
  unfolding plain_devices_def list_all_iff by (auto dest!: in_copy_into)

lemma plain_devices_filter [plain]: "plain_devices m \<Longrightarrow> plain_devices (filter P m)"
  by (simp add: plain_devices_def list_all_iff)

lemma plain_devices_get: "plain_devices m \<Longrightarrow> \<not> di_Zap (get_or DeviceInfo0 m d)"
  by (auto simp: plain_devices_def list_all_iff get_or_def DeviceInfo0_def dest: map_of_SomeD split: option.splits)

lemma plain_getDevs [plain]: "plain_devices (getDevsInfoFromDaemonInfo info)"
  unfolding plain_devices_def list_all_iff using getDevsInfo_unzapped by fastforce

lemma plain_fillDevicePathOrID: "plain_devices m \<Longrightarrow> plain_devices (fillDevicePathOrID b ds m)"
proof (induction b ds m rule: fillDevicePathOrID.induct)
  case (2 b dev ds m)
  have "\<not> di_Zap info" if "map_of m k = Some info" for k info
    using that 2(2) by (auto simp: plain_devices_def list_all_iff dest: map_of_SomeD)
  then have "plain_devices (case split_on CHR ''='' dev of
      [name, val] \<Rightarrow> (case map_of m (PathDevPrepended name) of None \<Rightarrow> m
        | Some info \<Rightarrow> AList.update (PathDevPrepended name) (if b then info\<lparr>di_ID := val\<rparr> else info\<lparr>di_Path := val\<rparr>) m)
    | _ \<Rightarrow> m)"
    using 2(2) by (auto intro!: plain split: list.splits option.splits)
  from 2(1) [OF this] show ?case by simp
qed simp

lemma plain_fillDevices [plain]: "plain_devices (fillDevicesInfoFromMetadata m)"
  unfolding fillDevicesInfoFromMetadata_def Let_def
  by (intro plain_fillDevicePathOrID) (simp add: DeviceInfo0_def plain_devices_def)

lemma plain_meta_devices: "meta_devices cv osd = Some devices \<Longrightarrow> plain_devices devices"
  by (auto simp: meta_devices_def plain)

lemma plain_crush_osd [plain]: "plain_devices devices \<Longrightarrow> plain_osd (crush_osd cv osd devices)"
  by (simp add: plain_osd_def crush_osd_def OsdMapping0_def)

lemma plain_skip [plain]: "plain_osd om \<Longrightarrow> plain_osd (om\<lparr>om_SkipDeviceCleanupJob := b\<rparr>)"
  by (simp add: plain_osd_def)

lemma plain_volume_osd [plain]: "plain_devices devices \<Longrightarrow> plain_osd (volume_osd cv info b skip devices)"
  by (simp add: plain_osd_def volume_osd_def OsdMapping0_def)

lemma plain_set_devices [plain]: "plain_osd om \<Longrightarrow> plain_devices m \<Longrightarrow> plain_osd (om\<lparr>om_DeviceMapping := m\<rparr>)"
  by (simp add: plain_osd_def)

lemma plain_osd_devices [plain]: "plain_osd om \<Longrightarrow> plain_devices (om_DeviceMapping om)"
  by (simp add: plain_osd_def)

lemma plain_osds_Nil [plain]: "plain_osds []"
  by (simp add: plain_osds_def)

lemma plain_osds_update [plain]: "plain_osds m \<Longrightarrow> plain_osd om \<Longrightarrow> plain_osds (AList.update k om m)"
  unfolding plain_osds_def list_all_iff by (auto dest!: in_update)

lemma plain_osds_at: "plain_osds m \<Longrightarrow> map_of m k = Some om \<Longrightarrow> plain_osd om"
  unfolding plain_osds_def list_all_iff by (auto dest: map_of_SomeD)

lemma plain_put_osd [plain]: "plain_osds m \<Longrightarrow> plain_osd om \<Longrightarrow> plain_osds (put_osd k om m)"
  by (auto simp: put_osd_def intro!: plain dest: plain_osds_at split: option.splits)

lemma plain_osds_filter [plain]: "plain_osds m \<Longrightarrow> plain_osds (filter P m)"
  unfolding plain_osds_def list_all_iff by (auto simp: distinct_map intro: inj_on_subset)

lemma plain_drop_denied [plain]: "plain_osds m \<Longrightarrow> plain_osds (drop_denied deny m)"
  unfolding drop_denied_def by (induction deny arbitrary: m) (auto intro: plain)

lemma plain_adjust [plain]:
  "plain_osds m \<Longrightarrow> (\<And>om. plain_osd om \<Longrightarrow> plain_osd (f om)) \<Longrightarrow> plain_osds (adjust k f m)"
  by (auto simp: adjust_def intro!: plain dest: plain_osds_at split: option.splits)

lemma plain_fillOsdMapping:
  assumes "fillOsdMapping_loop c osds (m, ws) = Some (m', ws')" and "plain_osds m"
  shows "plain_osds m'"
  using assms
proof (induction osds arbitrary: m ws)
  case (Cons osd osds)
  have dead: "plain_devices (map (\<lambda>(dev, m). (dev, m\<lparr>di_Alive := False\<rparr>)) ds)" if "plain_devices ds" for ds
    using that by (auto simp: plain_devices_def list_all_iff)
  from Cons show ?case
    by (auto simp: bind_eq_Some_conv Let_def split: option.splits if_splits
        elim!: Cons.IH intro!: plain dead simp: plain_osd_def OsdMapping0_def)
qed simp

lemma plain_fillOsdMappingFromOsdMeta:
  "fillOsdMappingFromOsdMeta c = Some (m, ws) \<Longrightarrow> plain_osds m"
  unfolding fillOsdMappingFromOsdMeta_def by (erule plain_fillOsdMapping) (simp add: plain)

section \<open>The loops of the first mode\<close>

interpretation whole_known: kept_by "\<lambda>(osdStr, osdInt) v. do {
     devices \<leftarrow> meta_devices cv osdInt;
     Some (v\<lparr>vv_osds := AList.update osdStr (crush_osd cv osdStr devices) (vv_osds v)\<rparr>)
   }" "\<lambda>v. plain_osds (vv_osds v)" for cv
proof
  fix x v v'
  assume run: "(case x of (osdStr, osdInt) \<Rightarrow> \<lambda>v. do {
      devices \<leftarrow> meta_devices cv osdInt;
      Some (v\<lparr>vv_osds := AList.update osdStr (crush_osd cv osdStr devices) (vv_osds v)\<rparr>)
    }) v = Some v'" and inv: "plain_osds (vv_osds v)"
  from run obtain devices where "meta_devices cv (snd x) = Some devices"
    and "v' = v\<lparr>vv_osds := AList.update (fst x) (crush_osd cv (fst x) devices) (vv_osds v)\<rparr>"
    by (auto simp: bind_eq_Some_conv split_beta)
  with inv show "plain_osds (vv_osds v')"
    by (simp add: plain_osds_update plain_crush_osd plain_meta_devices)
qed

interpretation whole_volume: kept_by "verify_whole_volume E cv host hi spec used known" "\<lambda>v. plain_osds (vv_osds v)"
  for E cv host hi spec used known
  by unfold_locales
    (auto simp: verify_whole_volume_def Let_def bind_eq_Some_conv intro!: plain split: if_splits prod.splits)

interpretation osd_volume: kept_by "verify_osd_volume E cv host hi spec used known osdToRemove"
  "\<lambda>s. plain_osds (vv_osds (bo_vars s)) \<and> plain_devices (bo_devices s)" for E cv host hi spec used known osdToRemove
  by unfold_locales
    (auto simp: verify_osd_volume_def Let_def bind_eq_Some_conv bo_lock_def bo_warn_def intro!: plain
      split: if_splits prod.splits)

lemma by_osd_one_cases:
  assumes "verify_by_osd_one E cv host hi spec used known rep osdToRemove v = Some v'"
  obtains (unknown) "vv_osds v' = vv_osds v"
  | (searched) ds s where "meta_devices cv (ocs_ID osdToRemove) = Some ds"
      "fold_opt (verify_osd_volume E cv host hi spec used known osdToRemove) (volumes rep)
        \<lparr>bo_devices = ds, bo_allowed = True, bo_vars = v\<rparr> = Some s"
      "v' = bo_vars s \<and> \<not> bo_allowed s \<or>
       bo_allowed s \<and> vv_osds v' = AList.update (show_int (ocs_ID osdToRemove))
        ((crush_osd cv (show_int (ocs_ID osdToRemove)) (bo_devices s))\<lparr>om_SkipDeviceCleanupJob := ocs_SkipDeviceCleanup osdToRemove\<rparr>)
        (vv_osds (bo_vars s))"
proof (cases "map_of known (show_int (ocs_ID osdToRemove))")
  case None
  with assms have "vv_osds v' = vv_osds v" by (auto simp: verify_by_osd_one_def Let_def)
  then show ?thesis by (rule unknown)
next
  case (Some i)
  with assms obtain ds s where ds: "meta_devices cv (ocs_ID osdToRemove) = Some ds"
    and s: "fold_opt (verify_osd_volume E cv host hi spec used known osdToRemove) (volumes rep)
        \<lparr>bo_devices = ds, bo_allowed = True, bo_vars = v\<rparr> = Some s"
    by (auto simp: verify_by_osd_one_def Let_def bind_eq_Some_conv)
  with assms Some have "v' = bo_vars s \<and> \<not> bo_allowed s \<or>
       bo_allowed s \<and> vv_osds v' = AList.update (show_int (ocs_ID osdToRemove))
        ((crush_osd cv (show_int (ocs_ID osdToRemove)) (bo_devices s))\<lparr>om_SkipDeviceCleanupJob := ocs_SkipDeviceCleanup osdToRemove\<rparr>)
        (vv_osds (bo_vars s))"
    by (cases "bo_allowed s") (auto simp: verify_by_osd_one_def Let_def)
  with ds s show ?thesis by (rule searched)
qed

interpretation by_osd: kept_by "verify_by_osd_one E cv host hi spec used known rep" "\<lambda>v. plain_osds (vv_osds v)"
  for E cv host hi spec used known rep
proof
  fix osdToRemove v v'
  assume run: "verify_by_osd_one E cv host hi spec used known rep osdToRemove v = Some v'" and inv: "plain_osds (vv_osds v)"
  from run show "plain_osds (vv_osds v')"
  proof (cases rule: by_osd_one_cases)
    case unknown
    with inv show ?thesis by simp
  next
    case (searched ds s)
    have "plain_osds (vv_osds (bo_vars s)) \<and> plain_devices (bo_devices s)"
      by (rule osd_volume.loop [OF searched(2)]) (use inv plain_meta_devices [OF searched(1)] in simp)
    with searched(3) show ?thesis by (auto intro!: plain)
  qed
qed

lemma dev_volume_kept:
  assumes run: "verify_dev_volume E cv host hi used known devConfig vol s = Some (stop, s')"
    and inv: "plain_osds (vv_osds (bd_vars s))"
  shows "plain_osds (vv_osds (bd_vars s'))"
proof -
  obtain osd info where vol: "vol = (osd, info)" by (cases vol)
  have merged: "plain_devices (copy_into (filter P devicesInfo) (getDevsInfoFromDaemonInfo i))"
    if "meta_devices cv osdInt = Some devicesInfo" for P devicesInfo i osdInt
    using plain_meta_devices [OF that] by (intro plain)
  show ?thesis
    using run inv
    by (auto simp: verify_dev_volume_def vol Let_def bind_eq_Some_conv
        intro!: plain_put_osd plain_volume_osd plain_getDevs elim: merged split: if_splits prod.splits)
qed

lemma dev_volumes_kept:
  "verify_dev_volumes E cv host hi used known devConfig vols s = Some (stop, s') \<Longrightarrow>
   plain_osds (vv_osds (bd_vars s)) \<Longrightarrow> plain_osds (vv_osds (bd_vars s'))"
proof (induction vols arbitrary: s)
  case (Cons vol vols)
  from Cons.prems(1) obtain st s1 where 1: "verify_dev_volume E cv host hi used known devConfig vol s = Some (st, s1)"
    and 2: "(if st then Some (True, s1) else verify_dev_volumes E cv host hi used known devConfig vols s1) = Some (stop, s')"
    by (auto simp: bind_eq_Some_conv)
  from dev_volume_kept [OF 1 Cons.prems(2)] 2 Cons.IH show ?case by (auto split: if_splits)
qed simp

interpretation by_dev: kept_by "verify_by_dev_one E cv host hi used known rep" "\<lambda>s. plain_osds (vv_osds (bd_vars s))"
  for E cv host hi used known rep
proof
  fix devConfig s s'
  assume run: "verify_by_dev_one E cv host hi used known rep devConfig s = Some s'" and inv: "plain_osds (vv_osds (bd_vars s))"
  from run obtain stop s1
    where "verify_dev_volumes E cv host hi used known devConfig (volumes rep) (s\<lparr>bd_found := False\<rparr>) = Some (stop, s1)"
    by (cases "verify_dev_volumes E cv host hi used known devConfig (volumes rep) (s\<lparr>bd_found := False\<rparr>)")
      (auto simp: verify_by_dev_one_def)
  moreover from run this have "vv_osds (bd_vars s') = vv_osds (bd_vars s1)"
    by (simp add: verify_by_dev_one_def split: if_splits) (simp_all add: eq_commute)
  ultimately show "plain_osds (vv_osds (bd_vars s'))" using dev_volumes_kept [of E cv host hi used known devConfig "volumes rep" "s\<lparr>bd_found := False\<rparr>" stop s1] inv
    by simp
qed

lemma verify_volumes_plain:
  assumes "verify_volumes E cv host hi spec used rep stray = Some v"
  shows "plain_osds (vv_osds v)"
proof -
  define known where "known = (if hi_inCrush hi then known_osds (hi_crushOsds hi) else [])"
  let ?v = "\<lparr>vv_osds = [], vv_lock = [], vv_warnings = [], vv_stray = stray\<rparr>"
  have 0: "plain_osds (vv_osds ?v)" by (simp add: plain)
  consider (whole) "verify_whole E cv host hi spec used known rep ?v = Some v"
    | (osd) "verify_by_osd E cv host hi spec used known rep ?v = Some v"
    | (dev) "verify_by_dev E cv host hi spec used known rep ?v = Some v"
    | (none) "v = ?v"
    using assms unfolding verify_volumes_def Let_def known_def [symmetric] by (metis option.inject)
  then show ?thesis
  proof cases
    case whole
    then show ?thesis
      using 0 whole_known.loop [of cv known ?v] whole_volume.loop
      by (auto simp: verify_whole_def bind_eq_Some_conv split: if_split_asm)
  next
    case osd
    then show ?thesis using by_osd.loop 0 by (auto simp: verify_by_osd_def)
  next
    case dev
    then obtain s where "fold_opt (verify_by_dev_one E cv host hi used known rep) (ncs_CleanupByDevice spec)
        \<lparr>bd_found = False, bd_deny = [], bd_vars = ?v\<rparr> = Some s"
      and "vv_osds v = drop_denied (bd_deny s) (vv_osds (bd_vars s))"
      by (auto simp: verify_by_dev_def bind_eq_Some_conv)
    moreover from by_dev.loop [OF calculation(1)] 0 have "plain_osds (vv_osds (bd_vars s))" by simp
    ultimately show ?thesis by (simp add: plain_drop_denied)
  qed (use 0 in simp)
qed

end
