(* ===== verification/Spec_Result.thy ===== *)
theory Spec_Result
  imports Spec_Lemmas
begin

text \<open>
  The cleanup map a validation ends with. \<open>fresh\<close>: the maps are well formed, nothing has a removal
  status yet, and a device is marked for zapping only where that is safe. \<open>follows_task\<close>: in the
  mode that names the nodes, every host of the map is one the task names, treated the way the task
  asks for.
\<close>

section \<open>Fresh cleanup maps\<close>

definition safe_zap :: "bool \<Rightarrow> OsdMapping \<Rightarrow> DeviceInfo \<Rightarrow> bool" where
  "safe_zap allowLvm om dm \<longleftrightarrow> \<not> om_SkipDeviceCleanupJob om \<and> di_Alive dm \<and>
     (di_Raw dm \<or> di_PartedBy dm = [] \<and> (isLvmRookMade (di_Partition dm) \<or> allowLvm))"

definition fresh_osd :: "bool \<Rightarrow> OsdMapping \<Rightarrow> bool" where
  "fresh_osd allowLvm om \<longleftrightarrow> om_RemoveStatus om = None \<and>
     list_all (\<lambda>(_, dm). di_Zap dm \<longrightarrow> safe_zap allowLvm om dm) (om_DeviceMapping om)"

definition fresh_osds :: "bool \<Rightarrow> osd_map \<Rightarrow> bool" where
  "fresh_osds allowLvm m \<longleftrightarrow> wf_map m \<and> list_all (\<lambda>(_, om). fresh_osd allowLvm om) m"

definition fresh_host :: "bool \<Rightarrow> HostMapping \<Rightarrow> bool" where
  "fresh_host allowLvm hm \<longleftrightarrow> hm_HostRemoveStatus hm = None \<and> fresh_osds allowLvm (hm_OsdMapping hm)"

definition fresh :: "bool \<Rightarrow> cleanup_map \<Rightarrow> bool" where
  "fresh allowLvm m \<longleftrightarrow> wf_map m \<and> list_all (\<lambda>(_, hm). fresh_host allowLvm hm) m"

lemma fresh_Nil [simp]: "fresh allowLvm []"
  by (simp add: fresh_def)

lemma fresh_put: "fresh allowLvm m \<Longrightarrow> fresh_host allowLvm hm \<Longrightarrow> fresh allowLvm (AList.update h hm m)"
  unfolding fresh_def list_all_iff by (auto dest!: in_update)

lemma plain_fresh: "plain_osds m \<Longrightarrow> fresh_osds allowLvm m"
  by (auto simp: plain_osds_def fresh_osds_def fresh_osd_def plain_osd_def plain_devices_def list_all_iff)

lemma plain_unzapped: "plain_osds m \<Longrightarrow> unzapped m"
  by (auto simp: plain_osds_def plain_osd_def plain_devices_def list_all_iff unzapped_def)

lemma checkDeviceZapping_status:
  assumes "(osd, om') \<in> set (fst (checkDeviceZapping host m locked allow))"
  shows "\<exists>om. (osd, om) \<in> set m \<and> om_RemoveStatus om' = om_RemoveStatus om"
  using assms by (auto simp: checkDeviceZapping_def Let_def comp_def split_beta split: if_splits)

lemma zapped_fresh:
  assumes "plain_osds m"
  shows "fresh_osds allow (fst (checkDeviceZapping host m locked allow))"
proof -
  have "fresh_osd allow om" if om: "(osd, om) \<in> set (fst (checkDeviceZapping host m locked allow))" for osd om
  proof -
    have "safe_zap allow om dm" if "(dev, dm) \<in> set (om_DeviceMapping om)" "di_Zap dm" for dev dm
      using checkDeviceZapping_safe [OF plain_unzapped [OF assms] om that] by (auto simp: zap_allowed_def safe_zap_def)
    moreover have "om_RemoveStatus om = None"
      using checkDeviceZapping_status [OF om] assms by (auto simp: plain_osds_def plain_osd_def list_all_iff)
    ultimately show ?thesis by (auto simp: fresh_osd_def list_all_iff)
  qed
  moreover have "wf_map m" using assms by (simp add: plain_osds_def)
  ultimately show ?thesis by (auto simp: fresh_osds_def list_all_iff)
qed

text \<open>A fresh map is a state the executor can start from.\<close>

lemma fresh_at:
  assumes "fresh allow m" and "osd_at m h d = Some om"
  shows "fresh_osd allow om"
proof -
  from assms have wf: "wf_cleanup m"
    by (auto simp: fresh_def fresh_host_def fresh_osds_def wf_cleanup_def list_all_iff)
  from assms show ?thesis
    unfolding osd_at_in [OF wf] by (fastforce simp: fresh_def fresh_host_def fresh_osds_def list_all_iff)
qed

lemma fresh_wf_run: "fresh allow m \<Longrightarrow> wf_run m"
  by (fastforce simp: fresh_def fresh_host_def fresh_osds_def fresh_osd_def wf_run_def wf_cleanup_def wf_osd_def list_all_iff)

lemma fresh_one_job: "fresh allow m \<Longrightarrow> one_job m"
  unfolding one_job_def by (auto dest!: fresh_at simp: fresh_osd_def job_phase_def job_status_def)

section \<open>Which OSDs a host is asked for\<close>

definition requested_ids :: "NodeCleanUpSpec \<Rightarrow> string set" where
  "requested_ids spec = (\<lambda>osd. show_int (ocs_ID osd)) ` set (ncs_CleanupByOsd spec)"

definition by_osd_mode :: "NodeCleanUpSpec \<Rightarrow> bool" where
  "by_osd_mode spec \<longleftrightarrow> \<not> whole_host spec \<and> \<not> ncs_CleanupStrayPartitions spec \<and> ncs_CleanupByOsd spec \<noteq> []"

text \<open>The keys of a host's mapping: the OSDs the task names, or stray volumes only.\<close>

definition asked_for :: "NodeCleanUpSpec \<Rightarrow> osd_map \<Rightarrow> bool" where
  "asked_for spec m \<longleftrightarrow>
     (by_osd_mode spec \<longrightarrow> set (keys m) \<subseteq> requested_ids spec) \<and>
     (ncs_CleanupStrayPartitions spec \<longrightarrow> list_all isStrayOsdID (keys m))"

lemma asked_for_keys: "keys m = keys m' \<Longrightarrow> asked_for spec m \<longleftrightarrow> asked_for spec m'"
  by (simp add: asked_for_def)

lemma keys_put_osd: "set (keys (put_osd k om m)) = insert k (set (keys m))"
  unfolding put_osd_def by (cases "map_of m k") (simp_all only: option.case keys_update_set)

lemma stray_key_stray: "isStrayOsdID (stray_key osd uuid)"
proof -
  have "stray_key osd uuid = (if uuid = [] then osd @ ''.'' else osd @ ''.'' @ uuid @ ''.'') @ StrayOsdNodeMarker"
    by (simp add: stray_key_def)
  then show ?thesis unfolding isStrayOsdID_def by (metis HasSuffix_append)
qed

interpretation stray_volume: kept_on "verify_whole_volume E cv host hi spec used known" "\<lambda>_. ncs_CleanupStrayPartitions spec"
  "\<lambda>v. list_all isStrayOsdID (keys (vv_osds v))" for E cv host hi spec used known
  by unfold_locales
    (auto simp: verify_whole_volume_def Let_def bind_eq_Some_conv list_all_iff keys_put_osd stray_key_stray
      simp flip: set_map split: if_splits prod.splits)

interpretation requested_volume: kept_by "verify_osd_volume E cv host hi spec used known osdToRemove"
  "\<lambda>s. vv_osds (bo_vars s) = osds" for E cv host hi spec used known osdToRemove osds
  by unfold_locales
    (auto simp: verify_osd_volume_def Let_def bind_eq_Some_conv bo_lock_def bo_warn_def split: if_splits prod.splits)


interpretation requested_osd: kept_on "verify_by_osd_one E cv host hi spec used known rep"
  "\<lambda>osd. show_int (ocs_ID osd) \<in> requested_ids spec" "\<lambda>v. set (keys (vv_osds v)) \<subseteq> requested_ids spec"
  for E cv host hi spec used known rep
proof
  fix osdToRemove v v'
  assume run: "verify_by_osd_one E cv host hi spec used known rep osdToRemove v = Some v'"
    and good: "show_int (ocs_ID osdToRemove) \<in> requested_ids spec" and inv: "set (keys (vv_osds v)) \<subseteq> requested_ids spec"
  from run show "set (keys (vv_osds v')) \<subseteq> requested_ids spec"
  proof (cases rule: by_osd_one_cases)
    case unknown
    with inv show ?thesis by simp
  next
    case (searched ds s)
    from requested_volume.loop [OF searched(2)] have "vv_osds (bo_vars s) = vv_osds v" by simp
    with searched(3) inv good show ?thesis by (metis insert_subset keys_update_set)
  qed
qed

lemma asked_volumes:
  assumes run: "verify_volumes E cv host hi spec used rep stray = Some v"
  shows "asked_for spec (vv_osds v)"
  unfolding asked_for_def
proof (intro conjI impI)
  define known where "known = (if hi_inCrush hi then known_osds (hi_crushOsds hi) else [])"
  let ?v = "\<lparr>vv_osds = [], vv_lock = [], vv_warnings = [], vv_stray = stray\<rparr>"
  note run' = run [unfolded verify_volumes_def Let_def, folded known_def]
  {
    assume "by_osd_mode spec"
    with run' have "fold_opt (verify_by_osd_one E cv host hi spec used known rep) (ncs_CleanupByOsd spec) ?v = Some v"
      by (simp add: by_osd_mode_def verify_by_osd_def)
    from requested_osd.loop [OF this] show "set (keys (vv_osds v)) \<subseteq> requested_ids spec"
      by (simp add: list_all_iff requested_ids_def)
  next
    assume "ncs_CleanupStrayPartitions spec"
    with run' have "fold_opt (verify_whole_volume E cv host hi spec used known) (volumes rep) ?v = Some v"
      by (simp add: verify_whole_def)
    from stray_volume.loop [OF this] \<open>ncs_CleanupStrayPartitions spec\<close> show "list_all isStrayOsdID (keys (vv_osds v))"
      by (simp add: list_all_iff)
  }
qed

lemma fillOsdMapping_keys:
  "fillOsdMapping_loop c osds (m, ws) = Some (m', ws') \<Longrightarrow> set (keys m') \<subseteq> set (keys m) \<union> show_int ` set osds"
proof (induction osds arbitrary: m ws)
  case (Cons osd osds)
  show ?case
  proof (cases "map_of (mc_osdMetadataMap c) osd")
    case None
    with Cons.prems have "fillOsdMapping_loop c osds (m, ws @ [node_msg (mc_host c)
        (''node has no osd id '' @ quoted (show_int osd) @ '', skipping'')]) = Some (m', ws')" by simp
    from Cons.IH [OF this] show ?thesis by auto
  next
    case (Some i)
    with Cons.prems obtain om where "fillOsdMapping_loop c osds (AList.update (show_int osd) om m, ws) = Some (m', ws')"
      by (auto simp: bind_eq_Some_conv Let_def simp del: fillOsdMapping_loop.simps(1))
    from Cons.IH [OF this] show ?thesis unfolding keys_update_set by auto
  qed
qed simp

lemma asked_from_meta:
  assumes "fillOsdMappingFromOsdMeta (meta_config cv host b a (map ocs_ID (ncs_CleanupByOsd spec))) = Some (m, ws)"
  shows "set (keys m) \<subseteq> requested_ids spec"
  using fillOsdMapping_keys [OF assms [unfolded fillOsdMappingFromOsdMeta_def]]
  by (simp add: meta_config_def requested_ids_def image_image)

end
