(* ===== verification/Spec_Named.thy ===== *)
theory Spec_Named
  imports Spec_Result
begin

text \<open>
  The mode of the validation that names the nodes: the result of every host keeps \<open>fresh\<close> and
  \<open>follows_task\<close>, so the result of the whole validation has them.
\<close>

section \<open>What a host's entry owes to the task\<close>

definition follows_spec :: "NodeCleanUpSpec \<Rightarrow> osdHostInfo \<Rightarrow> HostMapping \<Rightarrow> bool" where
  "follows_spec spec hi hm \<longleftrightarrow>
     hm_CompleteCleanup hm = ncs_CompleteCleanup spec \<and> hm_DropFromCrush hm = ncs_DropFromCrush spec \<and>
     hm_NodeIsDown hm = (\<not> hi_available hi) \<and> (whole_host spec \<longrightarrow> \<not> hi_inSpec hi) \<and>
     (\<not> ncs_CleanupStrayPartitions spec \<longrightarrow> hi_inCrush hi) \<and> asked_for spec (hm_OsdMapping hm)"

definition follows_entry :: "(string, NodeCleanUpSpec) gomap \<Rightarrow> host_infos \<Rightarrow> string \<Rightarrow> HostMapping \<Rightarrow> bool" where
  "follows_entry nodes infos host hm \<longleftrightarrow> (\<exists>spec. map_of nodes host = Some spec \<and>
     (if host = StrayOsdNodeMarker
      then \<not> hm_CompleteCleanup hm \<and> \<not> hm_DropFromCrush hm \<and> set (keys (hm_OsdMapping hm)) \<subseteq> requested_ids spec
      else follows_spec spec (get_or osdHostInfo0 infos host) hm))"

definition follows_task :: "(string, NodeCleanUpSpec) gomap \<Rightarrow> host_infos \<Rightarrow> cleanup_map \<Rightarrow> bool" where
  "follows_task nodes infos m \<longleftrightarrow> list_all (\<lambda>(host, hm). follows_entry nodes infos host hm) m"

lemma follows_put:
  "follows_task nodes infos m \<Longrightarrow> follows_entry nodes infos host hm \<Longrightarrow> follows_task nodes infos (AList.update host hm m)"
  unfolding follows_task_def list_all_iff by (auto dest!: in_update)

section \<open>One host\<close>

lemma guard_pass:
  assumes "verify_guard sa host hi spec = Pass"
  shows "whole_host spec \<Longrightarrow> \<not> hi_inSpec hi" and "\<not> ncs_CleanupStrayPartitions spec \<Longrightarrow> hi_inCrush hi"
    and "ncs_CleanupStrayPartitions spec \<Longrightarrow> hi_available hi \<and> hi_labeled hi"
  using assms by (auto simp: verify_guard_def split: gate.splits if_splits)

definition new_mapping :: "NodeCleanUpSpec \<Rightarrow> osdHostInfo \<Rightarrow> HostMapping" where
  "new_mapping spec hi = HostMapping0\<lparr>hm_CompleteCleanup := ncs_CompleteCleanup spec,
     hm_DropFromCrush := ncs_DropFromCrush spec, hm_NodeIsDown := \<not> hi_available hi\<rparr>"

text \<open>An entry with the flags of the task and OSDs as the validation builds them.\<close>

definition entry :: "bool \<Rightarrow> NodeCleanUpSpec \<Rightarrow> osdHostInfo \<Rightarrow> HostMapping \<Rightarrow> bool" where
  "entry allowLvm spec hi hm \<longleftrightarrow> (\<exists>osds b. hm = (new_mapping spec hi)\<lparr>hm_OsdMapping := osds, hm_VolumesInfoMissed := b\<rparr> \<and>
     fresh_osds allowLvm osds \<and> asked_for spec osds)"

lemma entry_fresh: "entry allowLvm spec hi hm \<Longrightarrow> fresh_host allowLvm hm"
  by (auto simp: entry_def new_mapping_def HostMapping0_def fresh_host_def)

lemma entry_follows: "entry allowLvm spec hi hm \<Longrightarrow> verify_guard sa host hi spec = Pass \<Longrightarrow> follows_spec spec hi hm"
  using guard_pass [of sa host hi spec]
  by (auto simp: entry_def new_mapping_def HostMapping0_def follows_spec_def)

text \<open>A step on one host changes at most the entry of that host.\<close>

definition puts :: "bool \<Rightarrow> NodeCleanUpSpec \<Rightarrow> osdHostInfo \<Rightarrow> string \<Rightarrow> check_vars \<Rightarrow> check_vars \<Rightarrow> bool" where
  "puts allowLvm spec hi host s s' \<longleftrightarrow> ck_CleanupMap s' = ck_CleanupMap s \<or>
     (\<exists>hm. entry allowLvm spec hi hm \<and> ck_CleanupMap s' = AList.update host hm (ck_CleanupMap s))"

lemma ck_map [simp]:
  "ck_CleanupMap (ck_warn ws s) = ck_CleanupMap s" "ck_CleanupMap (ck_issue ws s) = ck_CleanupMap s"
  "ck_CleanupMap (ck_put host hm s) = AList.update host hm (ck_CleanupMap s)"
  by (simp_all add: ck_warn_def ck_issue_def ck_put_def)

lemma verify_from_meta_puts:
  assumes run: "verify_from_meta cv host hi spec (new_mapping spec hi) s = Some s'"
    and not_stray: "\<not> ncs_CleanupStrayPartitions spec"
  shows "puts allowLvm spec hi host s s'"
proof -
  let ?m = "\<lambda>m. (new_mapping spec hi)\<lparr>hm_OsdMapping := m,
    hm_VolumesInfoMissed := (if hi_available hi then True else hm_VolumesInfoMissed (new_mapping spec hi))\<rparr>"
  from run consider "ck_CleanupMap s' = ck_CleanupMap s"
    | b a osds m ws where "fillOsdMappingFromOsdMeta (meta_config cv host b a osds) = Some (m, ws)"
        "whole_host spec \<or> osds = map ocs_ID (ncs_CleanupByOsd spec)"
        "ck_CleanupMap s' = AList.update host (?m m) (ck_CleanupMap s)"
    by (simp add: verify_from_meta_def Let_def split: if_split_asm)
      (auto simp: bind_eq_Some_conv split: if_split_asm)
  then show ?thesis
  proof cases
    case (2 b a osds m ws)
    from plain_fresh [OF plain_fillOsdMappingFromOsdMeta [OF 2(1)]] have "fresh_osds allowLvm m" .
    moreover have "asked_for spec m"
      using 2(1,2) not_stray asked_from_meta [of cv host b a spec m ws] unfolding asked_for_def by_osd_mode_def by metis
    ultimately have "entry allowLvm spec hi (?m m)" unfolding entry_def by blast
    with 2(3) show ?thesis unfolding puts_def by blast
  qed (simp add: puts_def)
qed

lemma verify_finish_puts:
  assumes "plain_osds (vv_osds v)" and "asked_for spec (vv_osds v)"
  shows "puts allowLvm spec hi host s (verify_finish allowLvm host spec (new_mapping spec hi) rep v s)"
proof -
  let ?r = "if ncs_DropFromCrush spec then (vv_osds v, []) else checkDeviceZapping host (vv_osds v) (vv_lock v) allowLvm"
  have fr: "fresh_osds allowLvm (fst ?r)" using assms(1) plain_fresh zapped_fresh by simp
  have as: "asked_for spec (fst ?r)" using assms(2) asked_for_keys [OF checkDeviceZapping_keys] by simp
  have "(new_mapping spec hi)\<lparr>hm_OsdMapping := fst ?r\<rparr>
      = (new_mapping spec hi)\<lparr>hm_OsdMapping := fst ?r, hm_VolumesInfoMissed := False\<rparr>"
    by (simp add: new_mapping_def HostMapping0_def)
  with fr as have "entry allowLvm spec hi ((new_mapping spec hi)\<lparr>hm_OsdMapping := fst ?r\<rparr>)"
    unfolding entry_def by blast
  then show ?thesis
    unfolding verify_finish_def Let_def puts_def split_beta by (auto simp del: fst_conv)
qed

lemma verify_host_puts:
  assumes run: "run_state (verify_host E c cv nodesList infos (host, spec) s) h = (Some s', h')"
  defines "hi \<equiv> get_or osdHostInfo0 infos host"
    and "allowLvm \<equiv> tp_AllowToRemoveManuallyCreatedLVM (lc_TaskParams (rc_lcmConfig c))"
    and "sa \<equiv> osa_SpecAnalysis (tk_cephHealthOsdAnalysis (rc_taskConfig c))"
  shows "ck_CleanupMap s' = ck_CleanupMap s \<or>
    host \<noteq> StrayOsdNodeMarker \<and> verify_guard sa host hi spec = Pass \<and> puts allowLvm spec hi host s s'"
proof (cases "host \<noteq> StrayOsdNodeMarker \<and> verify_guard sa host hi spec = Pass")
  case True
  have "puts allowLvm spec hi host s s'"
  proof (cases "hi_available hi \<and> hi_labeled hi")
    case False
    with True have "\<not> ncs_CleanupStrayPartitions spec" using guard_pass(3) by blast
    moreover have "verify_from_meta cv host hi spec (new_mapping spec hi) s = Some s'"
      using run True False by (simp add: verify_host_def Let_def new_mapping_def flip: hi_def sa_def split: if_splits)
    ultimately show ?thesis by (rule verify_from_meta_puts [rotated])
  next
    case av: True
    obtain r iss h1 where r: "run_state (tryToGetNodeOsdsReportOrIssues E c host) h = ((r, iss), h1)"
      by (metis surj_pair)
    show ?thesis
    proof (cases r)
      case None
      with run True av r show ?thesis by (simp add: verify_host_def Let_def puts_def flip: hi_def sa_def) auto
    next
      case (Some rep)
      with run True av r obtain used v where v: "verify_volumes E cv host hi spec used rep (ck_stray s) = Some v"
        and s': "s' = verify_finish allowLvm host spec (new_mapping spec hi) rep v s"
        by (auto simp: verify_host_def Let_def new_mapping_def bind_eq_Some_conv simp flip: hi_def sa_def allowLvm_def)
      from verify_finish_puts [OF verify_volumes_plain [OF v] asked_volumes [OF v]] s' show ?thesis by simp
    qed
  qed
  with True show ?thesis by simp
next
  case False
  with run show ?thesis
    by (auto simp: verify_host_def Let_def simp flip: hi_def sa_def split: if_splits gate.splits)
qed

section \<open>The whole validation\<close>

interpretation named_hosts: kept_by_io "verify_host E c cv nodesList infos" "\<lambda>(host, spec). map_of nodes host = Some spec"
  "\<lambda>s. fresh (tp_AllowToRemoveManuallyCreatedLVM (lc_TaskParams (rc_lcmConfig c))) (ck_CleanupMap s) \<and>
     follows_task nodes infos (ck_CleanupMap s)"
  for E c cv nodesList infos nodes
proof
  fix x s h s' h'
  let ?a = "tp_AllowToRemoveManuallyCreatedLVM (lc_TaskParams (rc_lcmConfig c))"
  assume run: "run_state (verify_host E c cv nodesList infos x s) h = (Some s', h')"
    and good: "case x of (host, spec) \<Rightarrow> map_of nodes host = Some spec"
    and inv: "fresh ?a (ck_CleanupMap s) \<and> follows_task nodes infos (ck_CleanupMap s)"
  obtain host spec where x: "x = (host, spec)" by (cases x)
  from verify_host_puts [OF run [unfolded x]]
  show "fresh ?a (ck_CleanupMap s') \<and> follows_task nodes infos (ck_CleanupMap s')"
  proof (elim disjE conjE)
    assume "ck_CleanupMap s' = ck_CleanupMap s"
    with inv show ?thesis by simp
  next
    assume ns: "host \<noteq> StrayOsdNodeMarker" and pass: "verify_guard (osa_SpecAnalysis (tk_cephHealthOsdAnalysis (rc_taskConfig c))) host
        (get_or osdHostInfo0 infos host) spec = Pass"
      and "puts ?a spec (get_or osdHostInfo0 infos host) host s s'"
    then consider "ck_CleanupMap s' = ck_CleanupMap s"
      | hm where "entry ?a spec (get_or osdHostInfo0 infos host) hm" "ck_CleanupMap s' = AList.update host hm (ck_CleanupMap s)"
      unfolding puts_def by blast
    then show ?thesis
    proof cases
      case (2 hm)
      then have "follows_entry nodes infos host hm"
        using entry_follows [OF 2(1) pass] good ns by (simp add: x follows_entry_def)
      with 2 inv entry_fresh fresh_put follows_put show ?thesis by simp
    qed (use inv in simp)
  qed
qed

lemma verify_stray_fold:
  assumes "fold (verify_stray_osd cv stray) osds (m, ws) = (m', ws')" and "plain_osds m"
  shows "plain_osds m' \<and> set (keys m') \<subseteq> set (keys m) \<union> (\<lambda>osd. show_int (ocs_ID osd)) ` set osds"
  using assms
proof (induction osds arbitrary: m ws)
  case (Cons osd osds)
  obtain m1 ws1 where 1: "verify_stray_osd cv stray osd (m, ws) = (m1, ws1)" by fastforce
  then have "m1 = m \<or> m1 = AList.update (show_int (ocs_ID osd)) (stray_osd_mapping cv (show_int (ocs_ID osd))) m"
    by (auto simp: verify_stray_osd_def Let_def split: option.splits if_splits)
  moreover have "plain_osd (stray_osd_mapping cv k)" for k
    by (simp add: stray_osd_mapping_def plain_osd_def plain_devices_def OsdMapping0_def)
  ultimately have "plain_osds m1" and "set (keys m1) \<subseteq> insert (show_int (ocs_ID osd)) (set (keys m))"
    using Cons.prems(2) by (auto simp: plain_osds_update dest!: in_update)
  with Cons.IH [of m1 ws1] Cons.prems(1) 1 show ?case by (simp del: set_map) blast
qed simp

lemma verify_strays_kept:
  assumes "fresh a (ck_CleanupMap s)" and "follows_task nodes infos (ck_CleanupMap s)"
  shows "fresh a (ck_CleanupMap (verify_strays cv nodes s)) \<and> follows_task nodes infos (ck_CleanupMap (verify_strays cv nodes s))"
proof (cases "map_of nodes StrayOsdNodeMarker")
  case (Some spec)
  obtain m ws where m: "fold (verify_stray_osd cv (ck_stray s)) (ncs_CleanupByOsd spec) ([], []) = (m, ws)" by fastforce
  have "plain_osds m" and ks: "set (keys m) \<subseteq> requested_ids spec"
    using verify_stray_fold [OF m plain_osds_Nil] by (simp_all add: requested_ids_def)
  then have "fresh_host a (HostMapping0\<lparr>hm_OsdMapping := m\<rparr>)"
    by (simp add: fresh_host_def HostMapping0_def plain_fresh)
  moreover have "follows_entry nodes infos StrayOsdNodeMarker (HostMapping0\<lparr>hm_OsdMapping := m\<rparr>)"
    using Some ks by (simp add: follows_entry_def HostMapping0_def)
  ultimately show ?thesis using assms Some m
    by (auto simp: verify_strays_def Let_def fresh_put follows_put)
qed (use assms in \<open>simp add: verify_strays_def\<close>)

lemma verifyOsdsForCleanUp_result:
  assumes run: "run_state (verifyOsdsForCleanUp E c nodes nodesList infos ms is) h = (Some ri, h')"
    and wf: "wf_map nodes"
  shows "fresh (tp_AllowToRemoveManuallyCreatedLVM (lc_TaskParams (rc_lcmConfig c))) (tri_CleanupMap ri) \<and>
    follows_task nodes infos (tri_CleanupMap ri)"
proof -
  let ?cv = "cluster_view_of (tk_cephCluster (rc_taskConfig c)) ms is"
  from run obtain s where s: "run_state (try_each (verify_host E c ?cv nodesList infos) nodes
      \<lparr>ck_CleanupMap = [], ck_Issues = [], ck_Warnings = [], ck_stray = stray_osds ms\<rparr>) h = (Some s, h')"
    and ri: "ri = ck_result (verify_strays ?cv nodes s)"
    by (auto simp: verifyOsdsForCleanUp_def Let_def split: prod.splits)
  have "list_all (\<lambda>(host, spec). map_of nodes host = Some spec) nodes" using wf by (auto simp: list_all_iff)
  from named_hosts.loop [OF s this] have
    "fresh (tp_AllowToRemoveManuallyCreatedLVM (lc_TaskParams (rc_lcmConfig c))) (ck_CleanupMap s) \<and>
     follows_task nodes infos (ck_CleanupMap s)"
    by (simp add: follows_task_def)
  then show ?thesis unfolding ri ck_result_def TaskRemoveInfo.select_convs by (elim conjE) (rule verify_strays_kept)
qed

end
