(* ===== verification/Spec_Auto.thy ===== *)
theory Spec_Auto
  imports Spec_Named
begin

text \<open>
  The mode of the validation that finds the OSDs to remove by itself: its result is \<open>fresh\<close>, a host
  is marked for complete cleanup only if it is not in the storage specification, and an OSD whose
  block device is in the specification is left alone.
\<close>

section \<open>Closure of the maps\<close>

definition fo_ok :: "find_osd_vars \<Rightarrow> bool" where
  "fo_ok s \<longleftrightarrow> plain_osds (fo_osds s) \<and> plain_devices (fo_devices s) \<and> wf_map (fi_stray (fo_vars s))"

lemma fo_map_simps [simp]:
  "fo_osds (fo_map f s) = f (fo_osds s)" "fo_devices (fo_map f s) = fo_devices s"
  "fo_shared (fo_map f s) = fo_shared s" "fo_allowed (fo_map f s) = fo_allowed s"
  "fi_stray (fo_vars (fo_map f s)) = fi_stray (fo_vars s)" "fi_known (fo_vars (fo_map f s)) = fi_known (fo_vars s)"
  "fi_lock (fo_vars (fo_map f s)) = fi_lock (fo_vars s)"
  by (simp_all add: fo_map_def fo_osds_def)

lemma plain_share:
  "plain_osds m \<Longrightarrow> plain_devices ds \<Longrightarrow> plain_osds (fold (\<lambda>key. adjust key (\<lambda>om. om\<lparr>om_DeviceMapping := ds\<rparr>)) ks m)"
proof (induction ks arbitrary: m)
  case (Cons k ks)
  then have "plain_osds (adjust k (\<lambda>om. om\<lparr>om_DeviceMapping := ds\<rparr>) m)" by (intro plain_adjust plain_set_devices)
  with Cons show ?case by simp
qed simp

lemma write_devices_simps [simp]:
  "fo_devices (write_devices ds s) = copy_into ds (fo_devices s)"
  "fo_osds (write_devices ds s) = fold (\<lambda>key. adjust key (\<lambda>om. om\<lparr>om_DeviceMapping := copy_into ds (fo_devices s)\<rparr>)) (fo_shared s) (fo_osds s)"
  "fi_stray (fo_vars (write_devices ds s)) = fi_stray (fo_vars s)" "fi_known (fo_vars (write_devices ds s)) = fi_known (fo_vars s)"
  "fo_allowed (write_devices ds s) = fo_allowed s" "fo_shared (write_devices ds s) = fo_shared s"
  by (simp_all add: write_devices_def Let_def fo_osds_def fo_map_def)

lemma fo_ok_write: "fo_ok s \<Longrightarrow> plain_devices ds \<Longrightarrow> fo_ok (write_devices ds s)"
  by (simp add: fo_ok_def plain_share plain_devices_copy)

lemma fo_ok_put: "fo_ok s \<Longrightarrow> plain_osd om \<Longrightarrow> fo_ok (find_put key b om s)"
  by (auto simp: find_put_def Let_def fo_ok_write plain_osd_devices split: option.splits)
    (auto simp: fo_ok_def fo_osds_def [of "_\<lparr>fo_shared := _\<rparr>"] plain_share plain_devices_copy plain_osd_devices plain
      simp flip: fo_osds_def)

lemma fo_ok_vars:
  assumes "fo_ok s"
  shows "fo_ok (s\<lparr>fo_vars := (fo_vars s)\<lparr>fi_lock := l\<rparr>, fo_allowed := b\<rparr>)"
    and "fo_ok (s\<lparr>fo_vars := (fo_vars s)\<lparr>fi_warnings := w, fi_stray := AList.delete osd (fi_stray (fo_vars s))\<rparr>\<rparr>)"
  using assms by (simp_all add: fo_ok_def fo_osds_def)

lemma own_volume_cases:
  assumes "find_own_volume E used info s = Some s'"
  obtains name ty inspec where "inSpec E info used [] = Some (name, ty, inspec)"
    "s' = (let s = (if inspec then s\<lparr>fo_vars := (fo_vars s)\<lparr>fi_lock := lock_in_spec info ty (fi_lock (fo_vars s))\<rparr>,
              fo_allowed := (if ty = ''block'' then False else fo_allowed s)\<rparr> else s)
           in if fo_allowed s then write_devices (getDevsInfoFromDaemonInfo info) s else s)"
proof (cases "inSpec E info used []")
  case (Some r)
  obtain name ty inspec where "r = (name, ty, inspec)" by (cases r)
  with assms Some show ?thesis by (intro that [of name ty inspec]) (simp_all only: find_own_volume_def Let_def bind.simps prod.case option.inject)
qed (use assms in \<open>simp add: find_own_volume_def\<close>)

lemma fo_ok_own:
  assumes "find_own_volume E used info s = Some s'" and "fo_ok s"
  shows "fo_ok s'"
  using assms(1)
proof (cases rule: own_volume_cases)
  case (1 name ty inspec)
  then show ?thesis using assms(2) by (simp add: Let_def fo_ok_write fo_ok_vars plain_getDevs)
qed

lemma fo_ok_other: "fo_ok s \<Longrightarrow> fo_ok (find_other_volume cv host osd b info s)"
  unfolding find_other_volume_def Let_def by (intro fo_ok_put plain) (simp add: fo_ok_vars)

interpretation found_volume: kept_by "find_volume E cv host hi used osd" fo_ok for E cv host hi used osd
proof
  fix info s s'
  assume run: "find_volume E cv host hi used osd info s = Some s'" and inv: "fo_ok s"
  then obtain b where "find_own_volume E used info s = Some s' \<or> s' = find_other_volume cv host osd b info s"
    by (auto simp: find_volume_def bind_eq_Some_conv split: if_split_asm)
  with inv fo_ok_own fo_ok_other show "fo_ok s'" by auto
qed

definition fi_ok :: "find_vars \<Rightarrow> bool" where
  "fi_ok v \<longleftrightarrow> plain_osds (fi_osds v) \<and> wf_map (fi_stray v)"

lemma plain_add_expected:
  assumes "plain_devices meta" and "plain_devices ds"
  shows "plain_devices (add_expected expected meta ds)"
  unfolding add_expected_def using assms(2)
  by (induction expected arbitrary: ds) (auto intro!: plain_devices_update plain_devices_get assms(1))

lemma plain_find_meta: "find_meta cv hi known osd = Some meta \<Longrightarrow> plain_devices meta"
  by (auto simp: find_meta_def plain_devices_def [of "[]"] split: option.splits if_split_asm dest: plain_meta_devices)

lemma fi_ok_close: "fo_ok s \<Longrightarrow> fi_ok (close_osd cv hi osd expected s)"
proof -
  assume ok: "fo_ok s"
  define v where "v = (if hi_inSpec hi \<and> fo_allowed s
    then (fo_vars s)\<lparr>fi_osds := AList.update osd (crush_osd cv osd (fo_devices s)) (fi_osds (fo_vars s))\<rparr> else fo_vars s)"
  have v: "fi_ok v" using ok by (auto simp: v_def fo_ok_def fi_ok_def fo_osds_def intro!: plain)
  have "fi_ok (v\<lparr>fi_osds := AList.update osd (om\<lparr>om_DeviceMapping :=
      add_expected expected (fo_devices s) (om_DeviceMapping om)\<rparr>) (fi_osds v), fi_known := k\<rparr>)"
    if "map_of (fi_osds v) osd = Some om" for om k
  proof -
    have "plain_osd om" using v that by (auto simp: fi_ok_def dest: plain_osds_at)
    then show ?thesis using v ok by (simp add: fi_ok_def fo_ok_def plain plain_add_expected)
  qed
  with v show ?thesis unfolding close_osd_def Let_def v_def [symmetric] by (auto simp: fi_ok_def split: option.splits)
qed

interpretation found_osd: kept_by "find_osd E cv host hi used" fi_ok for E cv host hi used
proof
  fix p v v'
  assume run: "find_osd E cv host hi used p v = Some v'" and inv: "fi_ok v"
  obtain osd infos where p: "p = (osd, infos)" by (cases p)
  let ?s0 = "\<lambda>meta. \<lparr>fo_devices = meta, fo_shared = [], fo_allowed = (length meta > 0), fo_vars = v\<rparr>"
  from run p obtain meta s where meta: "find_meta cv hi (fi_known v) osd = Some meta"
    and s: "fold_opt (find_volume E cv host hi used osd) infos (?s0 meta) = Some s"
    and v': "v' = close_osd cv hi osd (keys meta) s"
    by (auto simp: find_osd_def bind_eq_Some_conv)
  have "fo_ok (?s0 meta)" using inv plain_find_meta [OF meta] by (simp add: fo_ok_def fi_ok_def fo_osds_def)
  from fi_ok_close [OF found_volume.loop [OF s this]] v' show "fi_ok v'" by simp
qed

interpretation lost_osds: kept_by "\<lambda>(osdString, osdInt) osds. do {
     devices \<leftarrow> meta_devices cv osdInt;
     Some (AList.update osdString (crush_osd cv osdString devices) osds)
   }" plain_osds for cv
proof
  fix x m m'
  assume run: "(case x of (osdString, osdInt) \<Rightarrow> \<lambda>osds. do {
      devices \<leftarrow> meta_devices cv osdInt;
      Some (AList.update osdString (crush_osd cv osdString devices) osds)
    }) m = Some m'" and inv: "plain_osds m"
  from run obtain devices where "meta_devices cv (snd x) = Some devices"
    and "m' = AList.update (fst x) (crush_osd cv (fst x) devices) m"
    by (auto simp: bind_eq_Some_conv split_beta)
  with inv show "plain_osds m'" by (simp add: plain_osds_update plain_crush_osd plain_meta_devices)
qed

lemma find_volumes_ok:
  assumes run: "find_volumes E cv host hi used rep stray = Some v" and wf: "wf_map stray"
  shows "fi_ok v"
proof -
  let ?v = "\<lparr>fi_osds = [], fi_lock = [], fi_warnings = [], fi_stray = stray, fi_known = known_osds (hi_crushOsds hi)\<rparr>"
  from run obtain v0 osds where v0: "fold_opt (find_osd E cv host hi used) (dor_Osds rep) ?v = Some v0"
    and osds: "fold_opt (\<lambda>(osdString, osdInt) osds. do {
               devices \<leftarrow> meta_devices cv osdInt;
               Some (AList.update osdString (crush_osd cv osdString devices) osds)
             }) (fi_known v0) (fi_osds v0) = Some osds" and v: "v = v0\<lparr>fi_osds := osds\<rparr>"
    by (auto simp: find_volumes_def bind_eq_Some_conv)
  have "fi_ok v0" by (rule found_osd.loop [OF v0]) (use wf in \<open>simp add: fi_ok_def plain_osds_Nil\<close>)
  with lost_osds.loop [OF osds] v show ?thesis by (simp add: fi_ok_def)
qed

section \<open>The whole validation\<close>

text \<open>An entry of the map: a host is removed as a whole exactly if it is not in the specification.\<close>

definition auto_entry :: "host_infos \<Rightarrow> string \<Rightarrow> HostMapping \<Rightarrow> bool" where
  "auto_entry infos host hm \<longleftrightarrow> \<not> hm_DropFromCrush hm \<and>
     (if host = StrayOsdNodeMarker \<and> \<not> hm_CompleteCleanup hm then True
      else \<exists>hi. map_of infos host = Some hi \<and> hm_CompleteCleanup hm = (\<not> hi_inSpec hi) \<and>
        hm_NodeIsDown hm = (\<not> hi_available hi))"

definition auto_map :: "host_infos \<Rightarrow> cleanup_map \<Rightarrow> bool" where
  "auto_map infos m \<longleftrightarrow> list_all (\<lambda>(host, hm). auto_entry infos host hm) m"

lemma auto_put: "auto_map infos m \<Longrightarrow> auto_entry infos host hm \<Longrightarrow> auto_map infos (AList.update host hm m)"
  unfolding auto_map_def list_all_iff by (auto dest!: in_update)

definition auto_mapping :: "osdHostInfo \<Rightarrow> HostMapping" where
  "auto_mapping hi = HostMapping0\<lparr>hm_CompleteCleanup := \<not> hi_inSpec hi, hm_NodeIsDown := \<not> hi_available hi\<rparr>"

definition finds :: "bool \<Rightarrow> osdHostInfo \<Rightarrow> string \<Rightarrow> check_vars \<Rightarrow> check_vars \<Rightarrow> bool" where
  "finds allowLvm hi host s s' \<longleftrightarrow> (ck_CleanupMap s' = ck_CleanupMap s \<or>
     (\<exists>osds b. fresh_osds allowLvm osds \<and> ck_CleanupMap s' = AList.update host
        ((auto_mapping hi)\<lparr>hm_OsdMapping := osds, hm_VolumesInfoMissed := b\<rparr>) (ck_CleanupMap s)))"

lemma finds_record:
  assumes "fresh_osds allowLvm osds" and "ck_CleanupMap s1 = ck_CleanupMap s"
    and "hm = (auto_mapping hi)\<lparr>hm_OsdMapping := osds, hm_VolumesInfoMissed := b\<rparr>"
  shows "finds allowLvm hi host s (find_record host hi hm s1)"
  using assms unfolding finds_def find_record_def by auto

lemma auto_mapping_id: "auto_mapping hi = (auto_mapping hi)\<lparr>hm_OsdMapping := [], hm_VolumesInfoMissed := False\<rparr>"
  "(auto_mapping hi)\<lparr>hm_OsdMapping := osds\<rparr> = (auto_mapping hi)\<lparr>hm_OsdMapping := osds, hm_VolumesInfoMissed := False\<rparr>"
  by (simp_all add: auto_mapping_def HostMapping0_def)

lemma fresh_osds_Nil [simp]: "fresh_osds allowLvm []"
  by (simp add: fresh_osds_def)

lemma find_finish_finds:
  assumes "fi_ok v"
  shows "finds allowLvm hi host s (find_finish allowLvm host hi (auto_mapping hi) rep v s)"
    and "ck_stray (find_finish allowLvm host hi (auto_mapping hi) rep v s) = fi_stray v"
proof -
  obtain osds ws where z: "checkDeviceZapping host (fi_osds v) (fi_lock v) allowLvm = (osds, ws)" by fastforce
  have fr: "fresh_osds allowLvm osds" using zapped_fresh [of "fi_osds v" allowLvm host "fi_lock v"] assms z by (simp add: fi_ok_def)
  show "finds allowLvm hi host s (find_finish allowLvm host hi (auto_mapping hi) rep v s)"
    unfolding find_finish_def z prod.case Let_def
    by (auto intro!: finds_record [OF fr _ auto_mapping_id(2)] finds_record [OF fresh_osds_Nil _ auto_mapping_id(1)])
  show "ck_stray (find_finish allowLvm host hi (auto_mapping hi) rep v s) = fi_stray v"
    by (simp add: find_finish_def z Let_def find_record_def ck_put_def ck_warn_def)
qed

lemma find_from_meta_finds:
  assumes run: "find_from_meta cv host hi (auto_mapping hi) s = Some s'"
  shows "finds allowLvm hi host s s' \<and> ck_stray s' = ck_stray s"
proof (cases "hi_inSpec hi")
  case True
  with run show ?thesis by (auto simp: find_from_meta_def finds_def ck_warn_def)
next
  case ns: False
  show ?thesis
  proof (cases "hi_inCrush hi")
    case True
    with run ns obtain m ws where m: "fillOsdMappingFromOsdMeta (meta_config cv host (hi_inSpec hi) (hi_available hi) (hi_crushOsds hi)) = Some (m, ws)"
      and s': "s' = find_record host hi ((auto_mapping hi)\<lparr>hm_VolumesInfoMissed := hi_available hi, hm_OsdMapping := m\<rparr>) (ck_warn ws s)"
      by (auto simp: find_from_meta_def bind_eq_Some_conv)
    have "finds allowLvm hi host s s'" unfolding s'
      by (rule finds_record [OF plain_fresh [OF plain_fillOsdMappingFromOsdMeta [OF m]], where b = "hi_available hi"])
        (simp_all add: auto_mapping_def HostMapping0_def)
    then show ?thesis by (simp add: s' find_record_def ck_put_def ck_warn_def)
  next
    case False
    with run ns have s': "s' = find_record host hi (auto_mapping hi) s" by (simp add: find_from_meta_def)
    have "finds allowLvm hi host s s'" unfolding s' by (rule finds_record [OF fresh_osds_Nil _ auto_mapping_id(1)]) simp
    then show ?thesis by (simp add: s' find_record_def ck_put_def)
  qed
qed

lemma find_host_finds:
  assumes run: "run_state (find_host E c cv nodesList (host, hi) s) h = (Some s', h')" and wf: "wf_map (ck_stray s)"
  shows "finds (tp_AllowToRemoveManuallyCreatedLVM (lc_TaskParams (rc_lcmConfig c))) hi host s s' \<and> wf_map (ck_stray s')"
proof (cases "hi_available hi \<and> hi_labeled hi")
  case False
  with run have "find_from_meta cv host hi (auto_mapping hi) s = Some s'"
    by (auto simp: find_host_def Let_def auto_mapping_def)
  from find_from_meta_finds [OF this] wf show ?thesis by simp
next
  case True
  obtain r iss h1 where r: "run_state (tryToGetNodeOsdsReportOrIssues E c host) h = ((r, iss), h1)" by (metis surj_pair)
  define g where "g = (if hi_inSpec hi then spec_analyse_gate (osa_SpecAnalysis (tk_cephHealthOsdAnalysis (rc_taskConfig c))) host else Pass)"
  define u where "u = (if hi_inSpec hi then map_option getListUsedDevices (at nodesList (hi_specIdx hi)) else Some usedDevices0)"
  note run' = run [unfolded find_host_def Let_def prod.case auto_mapping_def [symmetric] g_def [symmetric] u_def [symmetric]]
  consider "ck_CleanupMap s' = ck_CleanupMap s" "ck_stray s' = ck_stray s"
    | rep used v where "find_volumes E cv host hi used rep (ck_stray s) = Some v"
        "s' = find_finish (tp_AllowToRemoveManuallyCreatedLVM (lc_TaskParams (rc_lcmConfig c))) host hi (auto_mapping hi) rep v s"
    using run' True r by (cases g; cases u; cases r) (auto simp: bind_eq_Some_conv ck_issue_def ck_warn_def)
  then show ?thesis
  proof cases
    case (2 rep used v)
    from find_volumes_ok [OF 2(1) wf] have ok: "fi_ok v" .
    from find_finish_finds [OF this] 2(2) ok show ?thesis by (simp add: fi_ok_def)
  qed (use wf in \<open>simp add: finds_def\<close>)
qed

interpretation found_hosts: kept_by_io "find_host E c cv nodesList" "\<lambda>(host, hi). map_of infos host = Some hi"
  "\<lambda>s. fresh (tp_AllowToRemoveManuallyCreatedLVM (lc_TaskParams (rc_lcmConfig c))) (ck_CleanupMap s) \<and>
     auto_map infos (ck_CleanupMap s) \<and> wf_map (ck_stray s)"
  for E c cv nodesList infos
proof
  fix x s h s' h'
  let ?a = "tp_AllowToRemoveManuallyCreatedLVM (lc_TaskParams (rc_lcmConfig c))"
  assume run: "run_state (find_host E c cv nodesList x s) h = (Some s', h')"
    and good: "case x of (host, hi) \<Rightarrow> map_of infos host = Some hi"
    and inv: "fresh ?a (ck_CleanupMap s) \<and> auto_map infos (ck_CleanupMap s) \<and> wf_map (ck_stray s)"
  obtain host hi where x: "x = (host, hi)" by (cases x)
  have f: "finds ?a hi host s s'" and w: "wf_map (ck_stray s')" using find_host_finds [OF run [unfolded x]] inv by simp_all
  from f consider "ck_CleanupMap s' = ck_CleanupMap s"
    | osds b where "fresh_osds ?a osds" "ck_CleanupMap s' = AList.update host
        ((auto_mapping hi)\<lparr>hm_OsdMapping := osds, hm_VolumesInfoMissed := b\<rparr>) (ck_CleanupMap s)"
    unfolding finds_def by blast
  then show "fresh ?a (ck_CleanupMap s') \<and> auto_map infos (ck_CleanupMap s') \<and> wf_map (ck_stray s')"
  proof cases
    case (2 osds b)
    let ?hm = "(auto_mapping hi)\<lparr>hm_OsdMapping := osds, hm_VolumesInfoMissed := b\<rparr>"
    have "fresh_host ?a ?hm" using 2(1) by (simp add: fresh_host_def auto_mapping_def HostMapping0_def)
    moreover have "auto_entry infos host ?hm" using good by (simp add: x auto_entry_def auto_mapping_def HostMapping0_def)
    ultimately show ?thesis using inv w 2(2) fresh_put auto_put by simp
  qed (use inv w in simp)
qed

lemma wf_stray_osds: "wf_map (stray_osds ms)"
proof -
  have "wf_map m \<Longrightarrow> wf_map (fold (\<lambda>m s. if omd_Hostname m = [] then AList.update (show_int (omd_OsdID m)) True s else s) ms m)" for m
    by (induction ms arbitrary: m) auto
  then show ?thesis by (simp add: stray_osds_def)
qed

lemma find_strays_kept:
  assumes "fresh a (ck_CleanupMap s)" and "auto_map infos (ck_CleanupMap s)" and "wf_map (ck_stray s)"
  shows "fresh a (ck_CleanupMap (find_strays cv s)) \<and> auto_map infos (ck_CleanupMap (find_strays cv s))"
proof -
  let ?m = "map (\<lambda>(strayOsd, _). (strayOsd, stray_osd_mapping cv strayOsd)) (ck_stray s)"
  have "plain_osds ?m" using assms(3)
    by (auto simp: plain_osds_def list_all_iff plain_osd_def plain_devices_def stray_osd_mapping_def OsdMapping0_def comp_def split_beta)
  then have "fresh_host a (HostMapping0\<lparr>hm_OsdMapping := ?m\<rparr>)" by (simp add: fresh_host_def HostMapping0_def plain_fresh)
  moreover have "auto_entry infos StrayOsdNodeMarker (HostMapping0\<lparr>hm_OsdMapping := ?m\<rparr>)"
    by (simp add: auto_entry_def HostMapping0_def)
  ultimately show ?thesis using assms by (auto simp: find_strays_def Let_def fresh_put auto_put)
qed

lemma findOsdsForCleanUp_result:
  assumes run: "run_state (findOsdsForCleanUp E c nodesList infos ms is) h = (Some ri, h')" and wf: "wf_map infos"
  shows "fresh (tp_AllowToRemoveManuallyCreatedLVM (lc_TaskParams (rc_lcmConfig c))) (tri_CleanupMap ri) \<and>
    auto_map infos (tri_CleanupMap ri)"
proof -
  let ?cv = "cluster_view_of (tk_cephCluster (rc_taskConfig c)) ms is"
  from run obtain s where s: "run_state (try_each (find_host E c ?cv nodesList) infos
      \<lparr>ck_CleanupMap = [], ck_Issues = [], ck_Warnings = [], ck_stray = stray_osds ms\<rparr>) h = (Some s, h')"
    and ri: "ri = ck_result (find_strays ?cv s)"
    by (auto simp: findOsdsForCleanUp_def Let_def split: prod.splits)
  have "list_all (\<lambda>(host, hi). map_of infos host = Some hi) infos" using wf by (auto simp: list_all_iff)
  from found_hosts.loop [OF s this] have
    "fresh (tp_AllowToRemoveManuallyCreatedLVM (lc_TaskParams (rc_lcmConfig c))) (ck_CleanupMap s) \<and>
     auto_map infos (ck_CleanupMap s) \<and> wf_map (ck_stray s)"
    using wf_stray_osds by (simp add: auto_map_def)
  then show ?thesis unfolding ri ck_result_def TaskRemoveInfo.select_convs by (elim conjE) (rule find_strays_kept)
qed

end
