(* ===== verification/Spec_Keep.thy ===== *)
theory Spec_Keep
  imports Spec_Auto
begin

text \<open>
  An OSD whose block device is in the storage specification of its host stays: neither mode of the
  validation plans its removal.
\<close>

section \<open>One element of a loop\<close>

lemma fold_opt_append: "fold_opt f (xs @ ys) s = Option.bind (fold_opt f xs s) (fold_opt f ys)"
  by (induction xs arbitrary: s) (auto split: Option.bind_splits)

lemma fold_opt_at:
  assumes "fold_opt f xs s = Some s'" and "x \<in> set xs"
  obtains ys zs s1 s2 where "xs = ys @ x # zs" "fold_opt f ys s = Some s1" "f x s1 = Some s2" "fold_opt f zs s2 = Some s'"
proof -
  obtain ys zs where xs: "xs = ys @ x # zs" using split_list [OF assms(2)] by blast
  with assms(1) show ?thesis by (auto simp: fold_opt_append bind_eq_Some_conv intro: that)
qed

section \<open>By OSD number\<close>

lemma own_block_denied:
  assumes "verify_osd_volume E cv host hi spec used known osdToRemove (show_int (ocs_ID osdToRemove), info) s = Some s'"
    and "hi_inSpec hi" "checkFromCrush cv known (show_int (ocs_ID osdToRemove)) info = Some True"
    and "inSpec E info used [] = Some (name, ''block'', True)"
  shows "\<not> bo_allowed s'"
  using assms by (auto simp: verify_osd_volume_def Let_def bo_warn_def)

interpretation denied_stays: kept_by "verify_osd_volume E cv host hi spec used known osdToRemove" "\<lambda>s. \<not> bo_allowed s"
  for E cv host hi spec used known osdToRemove
  by unfold_locales
    (auto simp: verify_osd_volume_def Let_def bind_eq_Some_conv bo_lock_def bo_warn_def split: if_splits prod.splits)

interpretation spared_osd: kept_by "verify_by_osd_one E cv host hi spec used known rep"
  "\<lambda>v. hi_inSpec hi \<and> (osd, info) \<in> set (volumes rep) \<and> checkFromCrush cv known osd info = Some True \<and>
     inSpec E info used [] = Some (name, ''block'', True) \<longrightarrow> map_of (vv_osds v) osd = None"
  for E cv host hi spec used known rep osd info name
proof
  fix osdToRemove v v'
  assume run: "verify_by_osd_one E cv host hi spec used known rep osdToRemove v = Some v'"
    and inv: "hi_inSpec hi \<and> (osd, info) \<in> set (volumes rep) \<and> checkFromCrush cv known osd info = Some True \<and>
     inSpec E info used [] = Some (name, ''block'', True) \<longrightarrow> map_of (vv_osds v) osd = None"
  show "hi_inSpec hi \<and> (osd, info) \<in> set (volumes rep) \<and> checkFromCrush cv known osd info = Some True \<and>
     inSpec E info used [] = Some (name, ''block'', True) \<longrightarrow> map_of (vv_osds v') osd = None"
  proof (intro impI, elim conjE)
    assume *: "hi_inSpec hi" "(osd, info) \<in> set (volumes rep)" "checkFromCrush cv known osd info = Some True"
      "inSpec E info used [] = Some (name, ''block'', True)"
    from run show "map_of (vv_osds v') osd = None"
    proof (cases rule: by_osd_one_cases)
      case unknown
      with inv * show ?thesis by simp
    next
      case (searched ds s)
      from requested_volume.loop [OF searched(2)] have same: "vv_osds (bo_vars s) = vv_osds v" by simp
      show ?thesis
      proof (cases "osd = show_int (ocs_ID osdToRemove)")
        case True
        from fold_opt_at [OF searched(2) *(2)] own_block_denied [of E cv host hi spec used known osdToRemove info] * True
        have "\<not> bo_allowed s" using denied_stays.loop by metis
        with searched(3) same inv * show ?thesis by auto
      next
        case False
        with searched(3) same inv * show ?thesis by auto
      qed
    qed
  qed
qed

section \<open>In the automatic mode\<close>

lemma stray_key_dot: "CHR ''.'' \<in> set (stray_key osd uuid)"
  by (simp add: stray_key_def)

lemma keys_share [simp]:
  "set (keys (fold (\<lambda>key. adjust key (\<lambda>om. om\<lparr>om_DeviceMapping := ds\<rparr>)) ks m)) = set (keys m)"
  by (induction ks arbitrary: m) (simp_all del: set_map)

lemma keys_find_put: "set (keys (fo_osds (find_put key b om s))) = insert key (set (keys (fo_osds s)))"
proof -
  have "map_of (fo_osds s) key = Some present \<Longrightarrow> insert key (set (keys (fo_osds s))) = set (keys (fo_osds s))" for present
    by (force dest: map_of_SomeD)
  moreover have "fo_osds (t\<lparr>fo_shared := k\<rparr>) = fo_osds t" for t k by (simp add: fo_osds_def)
  ultimately show ?thesis
    by (auto simp: find_put_def Let_def keys_put_osd simp del: set_map split: option.splits)
qed

lemma find_put_vars [simp]: "fi_known (fo_vars (find_put key b om s)) = fi_known (fo_vars s)"
  "fo_allowed (find_put key b om s) = fo_allowed s"
  by (auto simp: find_put_def Let_def fo_map_def split: option.splits)

lemma find_other_known [simp]: "fi_known (fo_vars (find_other_volume cv host osd b info s)) = fi_known (fo_vars s)"
  "fo_allowed (find_other_volume cv host osd b info s) = fo_allowed s"
  by (simp_all add: find_other_volume_def Let_def)

lemma find_other_keys:
  assumes "CHR ''.'' \<notin> set x" and "x \<noteq> osd \<or> \<not> b"
  shows "x \<in> set (keys (fo_osds (find_other_volume cv host osd b info s))) \<longleftrightarrow> x \<in> set (keys (fo_osds s))"
  unfolding find_other_volume_def Let_def keys_find_put
  using assms stray_key_dot by (auto simp: fo_osds_def simp del: set_map)

lemma find_own_keys:
  assumes "find_own_volume E used info s = Some s'"
  shows "set (keys (fo_osds s')) = set (keys (fo_osds s))" "fi_known (fo_vars s') = fi_known (fo_vars s)"
    "fo_allowed s' \<Longrightarrow> fo_allowed s"
proof -
  from assms obtain name ty inspec where 1: "inSpec E info used [] = Some (name, ty, inspec)"
    "s' = (let s = (if inspec then s\<lparr>fo_vars := (fo_vars s)\<lparr>fi_lock := lock_in_spec info ty (fi_lock (fo_vars s))\<rparr>,
              fo_allowed := (if ty = ''block'' then False else fo_allowed s)\<rparr> else s)
           in if fo_allowed s then write_devices (getDevsInfoFromDaemonInfo info) s else s)"
    by (rule own_volume_cases)
  have eq: "fo_osds (s\<lparr>fo_vars := (fo_vars s)\<lparr>fi_lock := l\<rparr>, fo_allowed := b\<rparr>) = fo_osds s" for l b by (simp add: fo_osds_def)
  show "set (keys (fo_osds s')) = set (keys (fo_osds s))" by (simp add: 1(2) Let_def eq del: set_map)
  show "fi_known (fo_vars s') = fi_known (fo_vars s)" by (simp add: 1(2) Let_def)
  show "fo_allowed s' \<Longrightarrow> fo_allowed s" by (simp add: 1(2) Let_def split: if_splits)
qed

text \<open>The volumes of another OSD, and those of an OSD on a host of the specification, leave the keys
  of numbered OSDs as they are.\<close>

interpretation numbered: kept_by "find_volume E cv host hi used osd"
  "\<lambda>s. fi_known (fo_vars s) = known \<and>
     (CHR ''.'' \<notin> set x \<and> (x \<noteq> osd \<or> hi_inSpec hi) \<longrightarrow> x \<notin> set (keys (fo_osds s)))"
  for E cv host hi used osd x known
  by unfold_locales
    (auto simp: find_volume_def bind_eq_Some_conv find_other_keys find_own_keys simp del: set_map split: if_split_asm)

interpretation refused: kept_by "find_volume E cv host hi used osd" "\<lambda>s. \<not> fo_allowed s" for E cv host hi used osd
  by unfold_locales (auto simp: find_volume_def bind_eq_Some_conv split: if_split_asm dest: find_own_keys(3))

lemma refuse_block:
  assumes "find_volume E cv host hi used osd info s = Some s'" and "hi_inSpec hi"
    and "checkFromCrush cv (fi_known (fo_vars s)) osd info = Some True" and "inSpec E info used [] = Some (name, ''block'', True)"
  shows "\<not> fo_allowed s'"
  using assms by (auto simp: find_volume_def find_own_volume_def Let_def)

lemma meta_devices_nonempty: "meta_devices cv i = Some ds \<Longrightarrow> ds \<noteq> []"
proof -
  have "m \<noteq> [] \<Longrightarrow> fillDevicePathOrID b devs m \<noteq> []" for b devs m
    by (induction b devs m rule: fillDevicePathOrID.induct) (auto split: list.splits option.splits simp: update_nonempty)
  then show "meta_devices cv i = Some ds \<Longrightarrow> ds \<noteq> []"
    by (auto simp: meta_devices_def fillDevicesInfoFromMetadata_def Let_def)
qed

lemma checkFromCrush_cong: "map_of k osd = map_of k' osd \<Longrightarrow> checkFromCrush cv k osd info = checkFromCrush cv k' osd info"
  by (simp add: checkFromCrush_def)

lemma close_osd_other:
  assumes "x \<noteq> osd"
  shows "map_of (fi_osds (close_osd cv hi osd expected s)) x = map_of (fo_osds s) x"
    and "map_of (fi_known (close_osd cv hi osd expected s)) x = map_of (fi_known (fo_vars s)) x"
  using assms by (auto simp: close_osd_def Let_def fo_osds_def delete_conv split: option.splits)

text \<open>The work on one OSD does not touch another numbered OSD.\<close>

interpretation untouched: kept_on "find_osd E cv host hi used" "\<lambda>p. fst p \<noteq> x"
  "\<lambda>v. CHR ''.'' \<notin> set x \<longrightarrow> map_of (fi_osds v) x = None \<and> map_of (fi_known v) x = k"
  for E cv host hi used x k
proof
  fix p v v'
  assume run: "find_osd E cv host hi used p v = Some v'" and ne: "fst p \<noteq> x"
    and inv: "CHR ''.'' \<notin> set x \<longrightarrow> map_of (fi_osds v) x = None \<and> map_of (fi_known v) x = k"
  obtain osd infos where p: "p = (osd, infos)" by (cases p)
  show "CHR ''.'' \<notin> set x \<longrightarrow> map_of (fi_osds v') x = None \<and> map_of (fi_known v') x = k"
  proof
    assume dot: "CHR ''.'' \<notin> set x"
    from run p obtain meta s where s: "fold_opt (find_volume E cv host hi used osd) infos
        \<lparr>fo_devices = meta, fo_shared = [], fo_allowed = (length meta > 0), fo_vars = v\<rparr> = Some s"
      and v': "v' = close_osd cv hi osd (keys meta) s"
      by (auto simp: find_osd_def bind_eq_Some_conv)
    have none: "map_of m x = None \<longleftrightarrow> x \<notin> set (keys m)" for m :: osd_map by (simp add: map_of_eq_None_iff)
    from numbered.loop [OF s, of "fi_known v" x] inv dot ne p
    have "fi_known (fo_vars s) = fi_known v" and "map_of (fo_osds s) x = None"
      by (simp_all add: none fo_osds_def del: set_map)
    with close_osd_other [of x osd] ne p inv dot show "map_of (fi_osds v') x = None \<and> map_of (fi_known v') x = k"
      by (simp add: v')
  qed
qed

lemma find_osd_refused:
  assumes run: "find_osd E cv host hi used (osd, infos) v = Some v'"
    and host: "hi_inSpec hi" "hi_inCrush hi" and dot: "CHR ''.'' \<notin> set osd" and none: "map_of (fi_osds v) osd = None"
    and info: "info \<in> set infos" "checkFromCrush cv (fi_known v) osd info = Some True"
      "inSpec E info used [] = Some (name, ''block'', True)"
  shows "map_of (fi_osds v') osd = None \<and> map_of (fi_known v') osd = None"
proof -
  let ?s0 = "\<lambda>meta. \<lparr>fo_devices = meta, fo_shared = [], fo_allowed = (length meta > 0), fo_vars = v\<rparr>"
  from run obtain meta s where meta: "find_meta cv hi (fi_known v) osd = Some meta"
    and s: "fold_opt (find_volume E cv host hi used osd) infos (?s0 meta) = Some s"
    and v': "v' = close_osd cv hi osd (keys meta) s"
    by (auto simp: find_osd_def bind_eq_Some_conv)
  from info(2) obtain i where "map_of (fi_known v) osd = Some i"
    by (auto simp: checkFromCrush_def split: option.splits)
  with meta host have ne: "meta \<noteq> []" using meta_devices_nonempty by (simp add: find_meta_def)
  obtain ys zs s1 s2 where at: "fold_opt (find_volume E cv host hi used osd) ys (?s0 meta) = Some s1"
    "find_volume E cv host hi used osd info s1 = Some s2" "fold_opt (find_volume E cv host hi used osd) zs s2 = Some s"
    by (rule fold_opt_at [OF s info(1)])
  from numbered.loop [OF at(1), of "fi_known v" osd] none
  have "fi_known (fo_vars s1) = fi_known v" by (auto simp: fo_osds_def map_of_eq_None_iff)
  then have "\<not> fo_allowed s2" using refuse_block [OF at(2) host(1) _ info(3)] info(2) by simp
  then have na: "\<not> fo_allowed s" by (rule refused.loop [OF at(3)])
  from numbered.loop [OF s, of "fi_known v" osd] none dot host(1)
  have "map_of (fo_osds s) osd = None" by (auto simp: fo_osds_def map_of_eq_None_iff)
  then show ?thesis using na host ne by (simp add: v' close_osd_def Let_def fo_osds_def delete_conv)
qed

interpretation lost_other: kept_on "\<lambda>(osdString, osdInt) osds. do {
     devices \<leftarrow> meta_devices cv osdInt;
     Some (AList.update osdString (crush_osd cv osdString devices) osds)
   }" "\<lambda>p. fst p \<noteq> x" "\<lambda>osds. map_of osds x = None" for cv x
  by unfold_locales (auto simp: bind_eq_Some_conv)

lemma known_osds_key:
  assumes "map_of (known_osds osds) k = Some i"
  shows "k = show_int i"
proof -
  have "map_of (fold (\<lambda>osd. AList.update (show_int osd) osd) osds m) k = Some i \<Longrightarrow> k = show_int i \<or> map_of m k = Some i" for m
    by (induction osds arbitrary: m) (auto split: if_splits, metis fun_upd_apply map_of_update option.inject)
  with assms show ?thesis unfolding known_osds_def by fastforce
qed

lemma find_volumes_refused:
  assumes run: "find_volumes E cv host hi used rep stray = Some v" and host: "hi_inSpec hi" "hi_inCrush hi"
    and wf: "wf_map (dor_Osds rep)" and osd: "(osd, infos) \<in> set (dor_Osds rep)"
    and info: "info \<in> set infos" "checkFromCrush cv (known_osds (hi_crushOsds hi)) osd info = Some True"
      "inSpec E info used [] = Some (name, ''block'', True)"
  shows "map_of (fi_osds v) osd = None"
proof -
  let ?known = "known_osds (hi_crushOsds hi)"
  let ?v = "\<lparr>fi_osds = [], fi_lock = [], fi_warnings = [], fi_stray = stray, fi_known = ?known\<rparr>"
  from run obtain v0 osds where v0: "fold_opt (find_osd E cv host hi used) (dor_Osds rep) ?v = Some v0"
    and osds: "fold_opt (\<lambda>(osdString, osdInt) osds. do {
               devices \<leftarrow> meta_devices cv osdInt;
               Some (AList.update osdString (crush_osd cv osdString devices) osds)
             }) (fi_known v0) (fi_osds v0) = Some osds" and v: "v = v0\<lparr>fi_osds := osds\<rparr>"
    by (auto simp: find_volumes_def bind_eq_Some_conv)
  from info(2) obtain i where i: "map_of ?known osd = Some i" by (auto simp: checkFromCrush_def split: option.splits)
  with known_osds_key have dot: "CHR ''.'' \<notin> set osd" by (metis show_int_no_dot)
  obtain ys zs v1 v2 where xs: "dor_Osds rep = ys @ (osd, infos) # zs"
    and at: "fold_opt (find_osd E cv host hi used) ys ?v = Some v1" "find_osd E cv host hi used (osd, infos) v1 = Some v2"
      "fold_opt (find_osd E cv host hi used) zs v2 = Some v0"
    by (rule fold_opt_at [OF v0 osd])
  have others: "list_all (\<lambda>p. fst p \<noteq> osd) ys" "list_all (\<lambda>p. fst p \<noteq> osd) zs"
    using wf by (auto simp: xs list_all_iff)
  have v1: "map_of (fi_osds v1) osd = None" "map_of (fi_known v1) osd = map_of ?known osd"
    using untouched.loop [OF at(1) others(1), of "map_of ?known osd"] dot by simp_all
  have "map_of (fi_osds v2) osd = None \<and> map_of (fi_known v2) osd = None"
    by (rule find_osd_refused [OF at(2) host dot v1(1) info(1) _ info(3)])
      (use info(2) checkFromCrush_cong [OF v1(2)] in simp)
  with untouched.loop [OF at(3) others(2), of None] dot
  have end_of: "map_of (fi_osds v0) osd = None" "map_of (fi_known v0) osd = None" by simp_all
  from end_of(2) have "list_all (\<lambda>p. fst p \<noteq> osd) (fi_known v0)" by (force simp: map_of_eq_None_iff list_all_iff)
  from lost_other.loop [OF osds this end_of(1)] show ?thesis by (simp add: v)
qed

end
