(* ===== verification/Processer.thy ===== *)
theory Processer
  imports Executor Spec_Find
begin

text \<open>
  The phase machine of a task: \<^verbatim>\<open>osdremove-task/processer.go\<close>. A result is the new status and the
  flag \<^verbatim>\<open>requeueNow\<close>; \<open>None\<close> is a panic of the validation.
\<close>

definition issue_only :: "string \<Rightarrow> TaskRemoveInfo" where
  "issue_only msg = \<lparr>tri_CleanupMap = [], tri_Issues = [msg], tri_Warnings = []\<rparr>"

definition validateTask :: "env \<Rightarrow> cephOsdRemoveConfig \<Rightarrow> TaskRemoveInfo option io" where
  "validateTask E c = do {
     clusterHostList \<leftarrow> getOsdHostsFromCluster E c;
     case clusterHostList of
       Inl err \<Rightarrow> State_Monad.return (Some (issue_only (''failed to get ceph cluster nodes list: '' @ err)))
     | Inr hosts \<Rightarrow> do {
         clusterOsdsMetadata \<leftarrow> RunAndParseCephToolboxCLI E (cluster_ns c) ''ceph osd metadata -f json'' (e_OsdMetadata E);
         case clusterOsdsMetadata of
           Inl err \<Rightarrow> State_Monad.return (Some (issue_only (''failed to get ceph osd metadata info: '' @ err)))
         | Inr osdsMetadata \<Rightarrow> do {
             nodesList \<leftarrow> GetNodeList E;
             case nodesList of
               Inl err \<Rightarrow> State_Monad.return (Some (issue_only (''failed to get k8s nodes list: '' @ err_msg err)))
             | Inr nodes \<Rightarrow> do {
                 osdsInfo \<leftarrow> RunAndParseCephToolboxCLI E (cluster_ns c) ''ceph osd info -f json'' (e_OsdInfos E);
                 case osdsInfo of
                   Inl err \<Rightarrow> State_Monad.return (Some (issue_only (''failed to get osds info: '' @ err)))
                 | Inr infos \<Rightarrow> getOsdsForCleanup E c hosts osdsMetadata infos nodes
               }
           }
       }
   }"

definition processTask :: "env \<Rightarrow> cephOsdRemoveConfig \<Rightarrow> (bool \<times> TaskRemoveInfo \<times> bool) io" where
  "processTask E c =
     (case Option.bind (task_Status (tk_task (rc_taskConfig c))) st_RemoveInfo of
        None \<Rightarrow> State_Monad.return (True, issue_only ''empty remove info, aborting'', False)
      | Some removeInfo \<Rightarrow> processOsdRemoveTask E c removeInfo)"

text \<open>The reasons why the last condition of a task no longer fits.\<close>

definition specChanges :: "taskConfig \<Rightarrow> string list" where
  "specChanges t =
     (let latest = last (st_Conditions (status_of (tk_task t)))
      in (case tc_CephClusterSpecVersion latest of
            None \<Rightarrow> [''CephCluster has a new generation version'']
          | Some version \<Rightarrow>
              if csv_Generation version \<noteq> cc_Generation (tk_cephCluster t)
              then [''CephCluster has a new generation version''] else [])
         @ (if \<not> nodes_eq (tc_Nodes latest) (spec_nodes (tk_task t)) then [''task has changed nodes section''] else []))"

definition move :: "env \<Rightarrow> taskConfig \<Rightarrow> TaskPhase \<Rightarrow> string \<Rightarrow> TaskRemoveInfo option \<Rightarrow> bool \<Rightarrow>
    (CephOsdRemoveTaskStatus \<times> bool) option io" where
  "move E t phase reason removeInfo requeueNow = do {
     status \<leftarrow> moveTaskPhase E t phase reason removeInfo;
     State_Monad.return (Some (status, requeueNow))
   }"

definition handle_validating :: "env \<Rightarrow> cephOsdRemoveConfig \<Rightarrow> (CephOsdRemoveTaskStatus \<times> bool) option io" where
  "handle_validating E c =
     (let t = rc_taskConfig c; status = status_of (tk_task t)
      in if tk_cephDeploymentPhase t \<noteq> None \<and> tk_cephDeploymentPhase t \<noteq> Some PhaseOnHold then
           State_Monad.return (Some (status, False))
         else case osa_CephClusterSpecGeneration (tk_cephHealthOsdAnalysis t) of
           None \<Rightarrow> State_Monad.return None
         | Some generation \<Rightarrow>
             if generation \<noteq> cc_Generation (tk_cephCluster t) then State_Monad.return (Some (status, False))
             else do {
               r \<leftarrow> validateTask E c;
               case r of
                 None \<Rightarrow> State_Monad.return None
               | Some validationRes \<Rightarrow>
                   if length (tri_Issues validationRes) = 0 then
                     if length (tri_CleanupMap validationRes) = 0 then
                       move E t TaskPhaseCompleted ''validation completed, nothing to remove'' (Some validationRes) False
                     else if approved (tk_task t) then
                       move E t TaskPhaseWaitingOperator ''validation completed, approve pre-set'' (Some validationRes) True
                     else
                       move E t TaskPhaseApproveWaiting ''validation completed, waiting approve'' (Some validationRes) False
                   else move E t TaskPhaseValidationFailed ''validation failed'' (Some validationRes) False
             })"

definition handle_processing :: "env \<Rightarrow> cephOsdRemoveConfig \<Rightarrow> (CephOsdRemoveTaskStatus \<times> bool) option io" where
  "handle_processing E c = do {
     let t = rc_taskConfig c;
     (finished, processingRes, requeueNow) \<leftarrow> processTask E c;
     if \<not> finished then
       State_Monad.return (Some ((status_of (tk_task t))\<lparr>st_RemoveInfo := Some processingRes\<rparr>, requeueNow))
     else if length (tri_Issues processingRes) = 0 then
       move E t (if length (tri_Warnings processingRes) > 0 then TaskPhaseCompletedWithWarnings else TaskPhaseCompleted)
         ''osd remove completed'' (Some processingRes) requeueNow
     else move E t TaskPhaseFailed ''osd remove failed'' (Some processingRes) requeueNow
   }"

definition handleTask :: "env \<Rightarrow> cephOsdRemoveConfig \<Rightarrow> (CephOsdRemoveTaskStatus \<times> bool) option io" where
  "handleTask E c =
     (let t = rc_taskConfig c; status = status_of (tk_task t)
      in if length (st_Conditions status) = 0 then do {
           aborted \<leftarrow> prepareAbortStatus E status ''status conditions section unexpectedly missed, task should be re-created'';
           State_Monad.return (Some (aborted, False))
         }
         else case st_Phase status of
           TaskPhasePending \<Rightarrow> move E t TaskPhaseValidating ''validation'' None True
         | TaskPhaseValidating \<Rightarrow> handle_validating E c
         | TaskPhaseApproveWaiting \<Rightarrow>
             if approved (tk_task t) then
               move E t TaskPhaseWaitingOperator ''approve received, wait rook-operator stop'' (st_RemoveInfo status) True
             else if length (specChanges t) > 0 then
               move E t TaskPhaseValidating ''revalidation triggered'' None True
             else State_Monad.return (Some (status, False))
         | TaskPhaseWaitingOperator \<Rightarrow>
             if length (specChanges t) > 0 then
               move E t TaskPhaseAborted ''detected inappropriate spec changes after receiving approval'' None False
             else do {
               stopped \<leftarrow> checkOperatorStopped E c;
               if stopped then move E t TaskPhaseProcessing ''processing'' (st_RemoveInfo status) True
               else State_Monad.return (Some (status, False))
             }
         | TaskPhaseProcessing \<Rightarrow> handle_processing E c
         | _ \<Rightarrow> State_Monad.return (Some (status, False)))"

end
