(* ===== verification/Spec_Scenario.thy ===== *)
theory Spec_Scenario
  imports Scenario Processer
begin

text \<open>
  A concrete cluster for the validation: the host \<^verbatim>\<open>node-a\<close> runs OSD 0 on \<^verbatim>\<open>/dev/vdb\<close> and OSD 1 on
  \<^verbatim>\<open>/dev/vdc\<close>, and the storage specification of the host lists only \<^verbatim>\<open>vdc\<close>.
\<close>

definition vs_volume :: "string \<Rightarrow> string \<Rightarrow> string \<Rightarrow> OsdDaemonInfo" where
  "vs_volume uuid dev part = \<lparr>odi_OsdUUID = uuid, odi_ClusterFSID = ''fsid'',
     odi_Devices = [\<lparr>od_Name = dev, od_DeviceID = ''id'', od_DeviceSymlinks = [], od_Rotational = True,
       od_RelatedPartition = part, od_PartedBy = [], od_Raw = False\<rparr>],
     odi_Partitions = [\<lparr>op_Partition = part, op_PartitionSymlinks = [], op_Type = ''block'', op_Exists = True, op_Lvm = True\<rparr>]\<rparr>"

definition vs_osds_report :: DiskDaemonOsdsReport where
  "vs_osds_report = \<lparr>dor_Warnings = [], dor_Osds = [
     (''0'', [vs_volume ''u0'' ''/dev/vdb'' ''/dev/ceph-0/osd-block-0'']),
     (''1'', [vs_volume ''u1'' ''/dev/vdc'' ''/dev/ceph-1/osd-block-1''])]\<rparr>"

definition vs_report :: DiskDaemonReport where
  "vs_report = \<lparr>dr_State = DiskDaemonStateOk, dr_LastRun = [], dr_Issues = [], dr_DisksReport = None,
     dr_OsdsReport = Some vs_osds_report\<rparr>"

definition vs_meta :: "int \<Rightarrow> string \<Rightarrow> string \<Rightarrow> OsdMetadataInfo" where
  "vs_meta osd dev part = \<lparr>omd_Devices = dev, omd_DevicePathes = [], omd_DeviceIDs = [], omd_Hostname = ''node-a'',
     omd_BluestoreDevices = dev, omd_BluestoreDeviceType = ''hdd'', omd_BluestorePartition = part, omd_MetadataDiskUsed = ''0'',
     omd_MetadataDevices = [], omd_MetadataDeviceType = [], omd_MetadataPartition = [], omd_OsdID = osd\<rparr>"

definition vs_metadata :: "OsdMetadataInfo list" where
  "vs_metadata = [vs_meta 0 ''vdb'' ''/dev/ceph-0/osd-block-0'', vs_meta 1 ''vdc'' ''/dev/ceph-1/osd-block-1'']"

definition vs_infos :: "OsdInfo list" where
  "vs_infos = [sc_osd_info\<lparr>oi_UUID := ''u0''\<rparr>, sc_osd_info\<lparr>oi_OsdID := 1, oi_UUID := ''u1''\<rparr>]"

definition vs_tree :: OsdTree where
  "vs_tree = \<lparr>ot_Nodes = [\<lparr>otn_ID = -2, otn_Name = ''node-a'', otn_Type = ''host'', otn_Children = [0, 1],
     otn_DeviceClass = [], otn_Status = []\<rparr>]\<rparr>"

definition vs_node :: KubeNode where
  "vs_node = \<lparr>kn_Name = ''node-a'', kn_Labels = [(''disk'', ''on'')], kn_Annotations = [], kn_Taints = []\<rparr>"

definition vs_env :: env where
  "vs_env = sc_env\<lparr>e_ListNodes := (\<lambda>_. Inr [vs_node]), e_OsdTree := (\<lambda>_. Inr vs_tree),
     e_OsdMetadata := (\<lambda>_. Inr vs_metadata), e_OsdInfos := (\<lambda>_. Inr vs_infos), e_DiskReport := (\<lambda>_. Inr vs_report)\<rparr>"

definition vs_spec_node :: CephNode where
  "vs_spec_node = \<lparr>cn_Name = ''node-a'', cn_Config = [], cn_Devices = [\<lparr>cd_Name = ''vdc'', cd_FullPath = [], cd_Config = []\<rparr>],
     cn_DeviceFilter = [], cn_DevicePathFilter = [], cn_UseAllDevices = None, cn_VolumeClaimTemplates = []\<rparr>"

definition vs_clean_up :: NodeCleanUpSpec where
  "vs_clean_up = \<lparr>ncs_CompleteCleanup = False, ncs_DropFromCrush = False, ncs_CleanupStrayPartitions = False,
     ncs_CleanupByDevice = [], ncs_CleanupByOsd = [\<lparr>ocs_ID = 0, ocs_SkipDeviceCleanup = False\<rparr>, \<lparr>ocs_ID = 1, ocs_SkipDeviceCleanup = False\<rparr>]\<rparr>"

definition vs_task :: "(string, NodeCleanUpSpec) gomap \<Rightarrow> CephOsdRemoveTask" where
  "vs_task nodes = sc_task\<lparr>task_Spec := Some \<lparr>ts_Nodes = Some nodes, ts_Approve = True, ts_Resolved = False\<rparr>\<rparr>"

definition vs_config :: "(string, NodeCleanUpSpec) gomap \<Rightarrow> cephOsdRemoveConfig" where
  "vs_config nodes = sc_config\<lparr>rc_taskConfig := \<lparr>tk_task = vs_task nodes,
     tk_cephCluster = sc_cluster\<lparr>cc_StorageNodes := [vs_spec_node]\<rparr>,
     tk_cephHealthOsdAnalysis = \<lparr>osa_DiskDaemon = sc_daemon, osa_CephClusterSpecGeneration = Some 4, osa_SpecAnalysis = [(''node-a'', sc_daemon)]\<rparr>,
     tk_cephDeploymentPhase = None\<rparr>\<rparr>"

text \<open>The result of a validation.\<close>

definition validated :: "env \<Rightarrow> cephOsdRemoveConfig \<Rightarrow> hist \<Rightarrow> TaskRemoveInfo option" where
  "validated E c h = fst (run_state (validateTask E c) h)"

definition vs_osds :: "TaskRemoveInfo option \<Rightarrow> (string \<times> string list) list option" where
  "vs_osds r = map_option (\<lambda>ri. map (\<lambda>(h, hm). (h, keys (hm_OsdMapping hm))) (tri_CleanupMap ri)) r"

end
