(* ===== verification/Spec_Theorems.thy ===== *)
theory Spec_Theorems
  imports Spec_Keep Spec_Scenario
begin

text \<open>
  The theorems about the validation of a task: the state it hands to the executor, the devices it
  marks for zapping, the hosts and OSDs it plans to remove and those it leaves alone.
\<close>

section \<open>The hosts\<close>

definition named_nodes :: "cephOsdRemoveConfig \<Rightarrow> (string, NodeCleanUpSpec) gomap" where
  "named_nodes c = (case spec_nodes (tk_task (rc_taskConfig c)) of Some ns \<Rightarrow> ns | None \<Rightarrow> [])"

abbreviation lvm_allowed :: "cephOsdRemoveConfig \<Rightarrow> bool" where
  "lvm_allowed c \<equiv> tp_AllowToRemoveManuallyCreatedLVM (lc_TaskParams (rc_lcmConfig c))"

lemma wf_fold_step:
  assumes "\<And>x m. wf_map m \<Longrightarrow> wf_map (f x m)" and "wf_map m"
  shows "wf_map (fold f xs m)"
  using assms(2) by (induction xs arbitrary: m) (auto intro: assms(1))

lemma wf_host_infos: "wf_map (host_infos_of E c nodes hosts ks)"
  unfolding host_infos_of_def Let_def
  by (intro wf_fold_step) (auto simp: add_crush_host_def add_spec_host_def add_kube_host_def Let_def)

lemma getOsdsForCleanup_result:
  assumes run: "run_state (getOsdsForCleanup E c hosts ms is ks) h = (Some ri, h')" and wf: "wf_map (named_nodes c)"
  defines "infos \<equiv> host_infos_of E c (named_nodes c) hosts ks"
  shows "fresh (lvm_allowed c) (tri_CleanupMap ri)"
    and "named_nodes c \<noteq> [] \<Longrightarrow> follows_task (named_nodes c) infos (tri_CleanupMap ri)"
    and "named_nodes c = [] \<Longrightarrow> auto_map infos (tri_CleanupMap ri)"
proof -
  note run' = run [unfolded getOsdsForCleanup_def Let_def named_nodes_def [symmetric] infos_def [symmetric]]
  have named: "fresh (lvm_allowed c) (tri_CleanupMap ri) \<and> follows_task (named_nodes c) infos (tri_CleanupMap ri)"
    if "named_nodes c \<noteq> []"
    by (rule verifyOsdsForCleanUp_result [OF _ wf]) (use run' that in simp)
  have auto: "fresh (lvm_allowed c) (tri_CleanupMap ri) \<and> auto_map infos (tri_CleanupMap ri)"
    if "named_nodes c = []"
    by (rule findOsdsForCleanUp_result) (use run' that wf_host_infos infos_def in simp_all)
  show "fresh (lvm_allowed c) (tri_CleanupMap ri)" using named auto by blast
  show "named_nodes c \<noteq> [] \<Longrightarrow> follows_task (named_nodes c) infos (tri_CleanupMap ri)" using named by blast
  show "named_nodes c = [] \<Longrightarrow> auto_map infos (tri_CleanupMap ri)" using auto by blast
qed

lemma validateTask_cases:
  assumes "run_state (validateTask E c) h = (Some ri, h')"
  obtains (issue) "tri_CleanupMap ri = []" "tri_Issues ri \<noteq> []"
  | (checked) hosts ms oi ks h0 where "run_state (getOsdsForCleanup E c hosts ms oi ks) h0 = (Some ri, h')"
  using assms by (auto simp: validateTask_def issue_only_def split: sum.splits prod.splits)

lemma validated_fresh:
  assumes "validated E c h = Some ri" and "wf_map (named_nodes c)"
  shows "fresh (lvm_allowed c) (tri_CleanupMap ri)"
proof -
  obtain h' where "run_state (validateTask E c) h = (Some ri, h')"
    using assms(1) unfolding validated_def by (metis prod.collapse)
  then show ?thesis
    by (cases rule: validateTask_cases) (use getOsdsForCleanup_result(1) assms(2) in auto)
qed

section \<open>The state the executor starts from\<close>

text \<open>Every validation, in either mode and whatever the cluster answers, ends with a cleanup map in
  which the executor can start: the maps have distinct keys, no OSD has a removal status yet, and so
  no host has a running cleanup job.\<close>

theorem validation_prepares_run:
  assumes "validated E c h = Some ri" and "wf_map (named_nodes c)"
  shows "wf_run (tri_CleanupMap ri) \<and> one_job (tri_CleanupMap ri) \<and>
    (\<forall>host osdID om. osd_at (tri_CleanupMap ri) host osdID = Some om \<longrightarrow> om_RemoveStatus om = None)"
  using validated_fresh [OF assms] fresh_wf_run fresh_one_job fresh_at by (fastforce simp: fresh_osd_def)

theorem validation_prepares_run_witness:
  "\<exists>ri. validated vs_env (vs_config []) [] = Some ri \<and> wf_run (tri_CleanupMap ri) \<and> one_job (tri_CleanupMap ri)"
proof -
  have "validated vs_env (vs_config []) [] \<noteq> None" by code_simp
  then obtain ri where ri: "validated vs_env (vs_config []) [] = Some ri" by blast
  have "wf_map (named_nodes (vs_config []))" by code_simp
  from validation_prepares_run [OF ri this] ri show ?thesis by blast
qed


definition vs_zap :: DeviceInfo where
  "vs_zap = DeviceInfo0\<lparr>di_ID := ''id'', di_Rotational := True, di_Path := ''/dev/vdb'', di_Partition := ''/dev/ceph-0/osd-block-0'',
     di_Type := ''block'', di_Alive := True, di_Zap := True\<rparr>"


section \<open>What is planned for removal\<close>

text \<open>C31. When a task names its nodes, the validation plans exactly along the task: every host in the result
  is one of those nodes, its flags are the ones the task gives it, a host is removed as a whole only if it
  is not in the storage specification, a task that lists OSD numbers for a host gets no other OSD of that
  host, and a cleanup of stray partitions gets stray volumes only.\<close>

theorem named_validation_follows_task:
  assumes "fst (run_state (getOsdsForCleanup E c hosts ms is ks) h) = Some ri"
    and "wf_map (named_nodes c)" and "named_nodes c \<noteq> []"
    and "map_of (tri_CleanupMap ri) host = Some hm" and "host \<noteq> StrayOsdNodeMarker"
  shows "\<exists>spec. map_of (named_nodes c) host = Some spec \<and>
    hm_CompleteCleanup hm = ncs_CompleteCleanup spec \<and> hm_DropFromCrush hm = ncs_DropFromCrush spec \<and>
    (hm_CompleteCleanup hm \<or> hm_DropFromCrush hm \<longrightarrow>
       \<not> hi_inSpec (get_or osdHostInfo0 (host_infos_of E c (named_nodes c) hosts ks) host)) \<and>
    (\<not> hm_CompleteCleanup hm \<and> \<not> hm_DropFromCrush hm \<and> \<not> ncs_CleanupStrayPartitions spec \<and> ncs_CleanupByOsd spec \<noteq> [] \<longrightarrow>
       set (keys (hm_OsdMapping hm)) \<subseteq> (\<lambda>osd. show_int (ocs_ID osd)) ` set (ncs_CleanupByOsd spec)) \<and>
    (ncs_CleanupStrayPartitions spec \<longrightarrow> list_all isStrayOsdID (keys (hm_OsdMapping hm)))"
proof -
  obtain h' where "run_state (getOsdsForCleanup E c hosts ms is ks) h = (Some ri, h')"
    using assms(1) by (metis prod.collapse)
  from getOsdsForCleanup_result(2) [OF this assms(2,3)]
  have "follows_entry (named_nodes c) (host_infos_of E c (named_nodes c) hosts ks) host hm"
    using map_of_SomeD [OF assms(4)] by (auto simp: follows_task_def list_all_iff)
  then show ?thesis using assms(5)
    unfolding follows_entry_def follows_spec_def asked_for_def by_osd_mode_def whole_host_def requested_ids_def by auto
qed

definition vs_hosts :: "(string, int list) gomap" where
  "vs_hosts = [(''node-a'', [0, 1])]"

theorem named_validation_follows_task_witness:
  "\<exists>ri hm. fst (run_state (getOsdsForCleanup vs_env (vs_config [(''node-a'', vs_clean_up)]) vs_hosts vs_metadata vs_infos [vs_node]) [])
     = Some ri \<and> map_of (tri_CleanupMap ri) ''node-a'' = Some hm \<and> keys (hm_OsdMapping hm) = [''0''] \<and>
     \<not> hm_CompleteCleanup hm \<and> \<not> hm_DropFromCrush hm"
proof -
  let ?c = "vs_config [(''node-a'', vs_clean_up)]"
  let ?r = "fst (run_state (getOsdsForCleanup vs_env ?c vs_hosts vs_metadata vs_infos [vs_node]) [])"
  have "(case ?r of None \<Rightarrow> False | Some ri \<Rightarrow> (case map_of (tri_CleanupMap ri) ''node-a'' of None \<Rightarrow> False
      | Some hm \<Rightarrow> keys (hm_OsdMapping hm) = [''0'']))" by code_simp
  then obtain ri hm where ri: "?r = Some ri" and hm: "map_of (tri_CleanupMap ri) ''node-a'' = Some hm"
    and ks: "keys (hm_OsdMapping hm) = [''0'']" by (auto split: option.splits)
  have 1: "wf_map (named_nodes ?c)" "named_nodes ?c \<noteq> []" "''node-a'' \<noteq> StrayOsdNodeMarker"
    "map_of (named_nodes ?c) ''node-a'' = Some vs_clean_up" "\<not> ncs_CompleteCleanup vs_clean_up" "\<not> ncs_DropFromCrush vs_clean_up"
    by code_simp+
  from named_validation_follows_task [OF ri 1(1,2) hm 1(3)] 1(4-6) ri hm ks show ?thesis by auto
qed

text \<open>When a task names no nodes, the validation plans a complete cleanup of a host only if the host is
  not in the storage specification, never asks to drop a host from the CRUSH map alone, and adds only
  hosts it knows from the CRUSH map, the specification or the disk daemons (and the collection of stray
  OSDs).\<close>

theorem auto_validation_keeps_specified_hosts:
  assumes "fst (run_state (getOsdsForCleanup E c hosts ms is ks) h) = Some ri"
    and "named_nodes c = []" and "map_of (tri_CleanupMap ri) host = Some hm"
  shows "\<not> hm_DropFromCrush hm \<and>
    (hm_CompleteCleanup hm \<longrightarrow> (\<exists>hi. map_of (host_infos_of E c [] hosts ks) host = Some hi \<and> \<not> hi_inSpec hi)) \<and>
    (host \<noteq> StrayOsdNodeMarker \<longrightarrow> map_of (host_infos_of E c [] hosts ks) host \<noteq> None)"
proof -
  obtain h' where run: "run_state (getOsdsForCleanup E c hosts ms is ks) h = (Some ri, h')"
    using assms(1) by (metis prod.collapse)
  have "wf_map (named_nodes c)" using assms(2) by simp
  from getOsdsForCleanup_result(3) [OF run this assms(2)]
  have "auto_entry (host_infos_of E c [] hosts ks) host hm"
    using map_of_SomeD [OF assms(3)] assms(2) by (auto simp: auto_map_def list_all_iff)
  then show ?thesis by (auto simp: auto_entry_def split: if_split_asm)
qed

theorem auto_validation_keeps_specified_hosts_witness:
  "\<exists>ri hm. fst (run_state (getOsdsForCleanup vs_env (vs_config []) vs_hosts vs_metadata vs_infos [vs_node]) []) = Some ri \<and>
     map_of (tri_CleanupMap ri) ''node-a'' = Some hm \<and> \<not> hm_CompleteCleanup hm \<and> \<not> hm_DropFromCrush hm"
proof -
  let ?r = "fst (run_state (getOsdsForCleanup vs_env (vs_config []) vs_hosts vs_metadata vs_infos [vs_node]) [])"
  have "(case ?r of None \<Rightarrow> False | Some ri \<Rightarrow> map_of (tri_CleanupMap ri) ''node-a'' \<noteq> None)" by code_simp
  then obtain ri hm where ri: "?r = Some ri" and hm: "map_of (tri_CleanupMap ri) ''node-a'' = Some hm"
    by (auto split: option.splits)
  have 1: "named_nodes (vs_config []) = []" by code_simp
  have 2: "(case map_of (host_infos_of vs_env (vs_config []) [] vs_hosts [vs_node]) ''node-a'' of None \<Rightarrow> False | Some hi \<Rightarrow> hi_inSpec hi)"
    by code_simp
  from auto_validation_keeps_specified_hosts [OF ri 1 hm] 2 ri hm show ?thesis by (auto split: option.splits)
qed

section \<open>What is left alone\<close>


definition vs_view :: cluster_view where
  "vs_view = cluster_view_of (sc_cluster\<lparr>cc_StorageNodes := [vs_spec_node]\<rparr>) vs_metadata vs_infos"

definition vs_host_info :: osdHostInfo where
  "vs_host_info = \<lparr>hi_inSpec = True, hi_specIdx = 0, hi_inCrush = True, hi_crushOsds = [0, 1], hi_labeled = True, hi_available = True\<rparr>"

lemma vs_volume_facts:
  "checkFromCrush vs_view (known_osds (hi_crushOsds vs_host_info)) ''1'' (vs_volume ''u1'' ''/dev/vdc'' ''/dev/ceph-1/osd-block-1'') = Some True"
  "inSpec vs_env (vs_volume ''u1'' ''/dev/vdc'' ''/dev/ceph-1/osd-block-1'') (getListUsedDevices vs_spec_node) [] = Some (''/dev/vdc'', ''block'', True)"
  by code_simp+


text \<open>In the mode that lists OSD numbers, an OSD of the cluster whose block device is in the storage
  specification of its host is not planned for removal either, even if the task lists it, once or more
  often.\<close>

theorem listed_specified_osd_is_spared:
  assumes "verify_by_osd E cv host hi spec used known rep v = Some v'" and "hi_inSpec hi"
    and "(osd, info) \<in> set (volumes rep)" and "checkFromCrush cv known osd info = Some True"
    and "inSpec E info used [] = Some (name, ''block'', True)" and "osd \<notin> set (keys (vv_osds v))"
  shows "osd \<notin> set (keys (vv_osds v'))"
  using spared_osd.loop [OF assms(1) [unfolded verify_by_osd_def], of osd info name] assms(2-)
  by (simp add: map_of_eq_None_iff)

theorem listed_specified_osd_is_spared_witness:
  "\<exists>v'. verify_by_osd vs_env vs_view ''node-a'' vs_host_info vs_clean_up (getListUsedDevices vs_spec_node)
       (known_osds (hi_crushOsds vs_host_info)) vs_osds_report \<lparr>vv_osds = [], vv_lock = [], vv_warnings = [], vv_stray = []\<rparr> = Some v' \<and>
     ''1'' \<notin> set (keys (vv_osds v'))"
proof -
  let ?v = "\<lparr>vv_osds = [], vv_lock = [], vv_warnings = [], vv_stray = []\<rparr>"
  let ?info = "vs_volume ''u1'' ''/dev/vdc'' ''/dev/ceph-1/osd-block-1''"
  have "verify_by_osd vs_env vs_view ''node-a'' vs_host_info vs_clean_up (getListUsedDevices vs_spec_node)
       (known_osds (hi_crushOsds vs_host_info)) vs_osds_report ?v \<noteq> None" by code_simp
  then obtain v' where v': "verify_by_osd vs_env vs_view ''node-a'' vs_host_info vs_clean_up (getListUsedDevices vs_spec_node)
       (known_osds (hi_crushOsds vs_host_info)) vs_osds_report ?v = Some v'" by blast
  have 1: "hi_inSpec vs_host_info" "(''1'', ?info) \<in> set (volumes vs_osds_report)" "''1'' \<notin> set (keys (vv_osds ?v))" by code_simp+
  from listed_specified_osd_is_spared [OF v' 1(1,2) vs_volume_facts 1(3)] v' show ?thesis by blast
qed

section \<open>A metadata device of the specification\<close>

text \<open>When the metadata device of an OSD is the one found in the specification, the loop that locks the
  devices against zapping looks only at the first device of the OSD: if that is not the metadata device,
  nothing is locked, although the warning about the OSD announces that the zap will be skipped. The
  witness runs a by-number validation to the end: the metadata device of the specification is marked for
  zapping.\<close>

theorem specified_metadata_device_not_locked:
  assumes "devType \<noteq> ''block''" and "odi_Devices info = dev # devs"
    and "\<forall>part \<in> set (odi_Partitions info). op_Partition part = od_RelatedPartition dev \<longrightarrow> op_Type part \<noteq> devType"
  shows "lock_in_spec info devType lock = lock"
  using assms by (auto simp: lock_in_spec_def list_ex_iff)

definition vs_db_volume :: OsdDaemonInfo where
  "vs_db_volume = (vs_volume ''u0'' ''/dev/vdb'' ''/dev/ceph-0/osd-block-0'')\<lparr>
     odi_Devices := odi_Devices (vs_volume ''u0'' ''/dev/vdb'' ''/dev/ceph-0/osd-block-0'') @
       [\<lparr>od_Name = ''/dev/vdc'', od_DeviceID = ''id'', od_DeviceSymlinks = [], od_Rotational = False,
         od_RelatedPartition = ''/dev/ceph-1/osd-db-0'', od_PartedBy = [], od_Raw = False\<rparr>],
     odi_Partitions := odi_Partitions (vs_volume ''u0'' ''/dev/vdb'' ''/dev/ceph-0/osd-block-0'') @
       [\<lparr>op_Partition = ''/dev/ceph-1/osd-db-0'', op_PartitionSymlinks = [], op_Type = ''db'', op_Exists = True, op_Lvm = True\<rparr>]\<rparr>"

definition vs_db_env :: env where
  "vs_db_env = vs_env\<lparr>e_DiskReport := (\<lambda>_. Inr (vs_report\<lparr>dr_OsdsReport := Some \<lparr>dor_Warnings = [], dor_Osds = [(''0'', [vs_db_volume])]\<rparr>\<rparr>))\<rparr>"

definition vs_zapped :: "TaskRemoveInfo option \<Rightarrow> string \<Rightarrow> string \<Rightarrow> bool" where
  "vs_zapped r osd dev = (case r of None \<Rightarrow> False
     | Some ri \<Rightarrow> list_ex (\<lambda>(_, hm). list_ex (\<lambda>(d, om). d = osd \<and> list_ex (\<lambda>(n, dm). n = dev \<and> di_Zap dm) (om_DeviceMapping om))
         (hm_OsdMapping hm)) (tri_CleanupMap ri))"

theorem specified_metadata_device_not_locked_witness:
  "inSpec vs_db_env vs_db_volume (getListUsedDevices vs_spec_node) [] = Some (''/dev/vdc'', ''db'', True) \<and>
   lock_in_spec vs_db_volume ''db'' [] = [] \<and>
   vs_zapped (validated vs_db_env (vs_config [(''node-a'', vs_clean_up\<lparr>ncs_CleanupByOsd := [\<lparr>ocs_ID = 0, ocs_SkipDeviceCleanup = False\<rparr>]\<rparr>)]) []) ''0'' ''/dev/vdc''"
proof (intro conjI)
  have "odi_Devices vs_db_volume = hd (odi_Devices vs_db_volume) # tl (odi_Devices vs_db_volume)" by code_simp
  then show "lock_in_spec vs_db_volume ''db'' [] = []"
    by (rule specified_metadata_device_not_locked [rotated]) code_simp+
qed code_simp+

end
