(* ===== verification/Controller.thy ===== *)
theory Controller
  imports Processer
begin

text \<open>
  The reconcile loop of the task controller: \<^verbatim>\<open>osdremove-task/controller.go\<close>.
\<close>

section \<open>Which tasks are worked on\<close>

definition checkTaskActive :: "CephOsdRemoveTaskStatus option \<Rightarrow> bool" where
  "checkTaskActive taskStatus =
     (case taskStatus of
        None \<Rightarrow> True
      | Some st \<Rightarrow> \<not> (st_Phase st = TaskPhaseCompleted \<or> st_Phase st = TaskPhaseCompletedWithWarnings \<or>
          st_Phase st = TaskPhaseFailed \<or> st_Phase st = TaskPhaseValidationFailed \<or> st_Phase st = TaskPhaseAborted))"

datatype task_event = CreateEvent CephOsdRemoveTask | UpdateEvent | DeleteEvent

fun cephTaskPredicate :: "task_event \<Rightarrow> bool" where
  "cephTaskPredicate (CreateEvent obj) = checkTaskActive (task_Status obj)"
| "cephTaskPredicate UpdateEvent = False"
| "cephTaskPredicate DeleteEvent = False"

text \<open>The loop keeps the oldest active task so far.\<close>

definition older_task :: "CephOsdRemoveTask \<Rightarrow> CephOsdRemoveTask option \<Rightarrow> CephOsdRemoveTask option" where
  "older_task curTask best =
     (if \<not> checkTaskActive (task_Status curTask) then best
      else case best of
             None \<Rightarrow> Some curTask
           | Some prev \<Rightarrow> if task_CreationTimestamp curTask < task_CreationTimestamp prev then Some curTask else best)"

definition getOldestCephOsdRemoveTaskName :: "CephOsdRemoveTask list \<Rightarrow> string" where
  "getOldestCephOsdRemoveTaskName cephTasks =
     (case fold older_task cephTasks None of None \<Rightarrow> [] | Some t \<Rightarrow> task_Name t)"

section \<open>Status updates\<close>

definition updateCephOsdRemoveTaskStatus :: "env \<Rightarrow> string \<Rightarrow> string \<Rightarrow> CephOsdRemoveTaskStatus \<Rightarrow> string option io" where
  "updateCephOsdRemoveTaskStatus E ns name status = do {
     r \<leftarrow> issue (GetTask ns name) (\<lambda>h. e_GetTask E h ns name);
     case r of
       Inl err \<Rightarrow> State_Monad.return (Some (wrap (err_msg err) (''failed to get CephOsdRemoveTask '' @ quoted (ns @ ''/'' @ name) @ '' to update status'')))
     | Inr cephTask \<Rightarrow> do {
         e \<leftarrow> issue (UpdateTaskStatus ns name status) (\<lambda>h. e_UpdateTaskStatus E h ns name status);
         State_Monad.return (map_option (\<lambda>er. wrap
           (''failed to update status for the CephOsdRemoveTask '' @ task_Namespace cephTask @ ''/'' @ task_Name cephTask @ '': '' @ err_msg er)
           (''failed to update CephOsdRemoveTask '' @ quoted (ns @ ''/'' @ name) @ '' status with '' @ quoted (show_TaskPhase (st_Phase status)) @ '' phase'')) e)
       }
   }"

text \<open>\<^verbatim>\<open>reflect.DeepEqual\<close> of the new status and the one read from the API server. An empty list of
  issues is nil when it was read, and a list that is not nil when a run of the executor wrote it.\<close>

definition status_changed :: "CephOsdRemoveTaskStatus \<Rightarrow> CephOsdRemoveTaskStatus \<Rightarrow> bool" where
  "status_changed old new \<longleftrightarrow> new \<noteq> old \<or>
     (st_Phase old = TaskPhaseProcessing \<and> st_Conditions old \<noteq> [] \<and>
      (case st_RemoveInfo new of Some ri \<Rightarrow> tri_Issues ri = [] | None \<Rightarrow> False))"

section \<open>Reconcile\<close>

record reconcile_result =
  res_RequeueAfter :: int
  res_Err :: "string option"

definition finished :: reconcile_result where
  "finished = \<lparr>res_RequeueAfter = 0, res_Err = None\<rparr>"

definition requeue_after :: "int \<Rightarrow> reconcile_result" where
  "requeue_after t = \<lparr>res_RequeueAfter = t, res_Err = None\<rparr>"

definition later :: reconcile_result where
  "later = requeue_after requeueAfterInterval"

definition at_once :: reconcile_result where
  "at_once = requeue_after DefaultImmediateRequeueInterval"

text \<open>The end of the reconcile run, when everything the task depends on is there. \<open>None\<close> is a panic.\<close>

definition reconcile_task :: "env \<Rightarrow> string \<Rightarrow> string \<Rightarrow> cephOsdRemoveConfig \<Rightarrow> reconcile_result option io" where
  "reconcile_task E ns name removeConfig = do {
     r \<leftarrow> handleTask E removeConfig;
     case r of
       None \<Rightarrow> State_Monad.return None
     | Some (newStatus, requeueNow) \<Rightarrow>
         if status_changed (status_of (tk_task (rc_taskConfig removeConfig))) newStatus then do {
           err \<leftarrow> updateCephOsdRemoveTaskStatus E ns name newStatus;
           State_Monad.return (Some (if err \<noteq> None then later
             else if \<not> checkTaskActive (Some newStatus) then finished
             else if requeueNow then at_once else later))
         }
         else State_Monad.return (Some (if requeueNow then at_once else later))
   }"

text \<open>A step that only records why the task has to wait.\<close>

definition wait_with :: "env \<Rightarrow> string \<Rightarrow> string \<Rightarrow> CephOsdRemoveTaskStatus \<Rightarrow> string \<Rightarrow> reconcile_result option io" where
  "wait_with E ns name status msg = do {
     _ \<leftarrow> updateCephOsdRemoveTaskStatus E ns name (status\<lparr>st_PhaseInfo := msg\<rparr>);
     State_Monad.return (Some later)
   }"

definition reconcile_cluster :: "env \<Rightarrow> LcmConfig \<Rightarrow> string \<Rightarrow> string \<Rightarrow> CephOsdRemoveTask \<Rightarrow> CephOsdRemoveTaskStatus \<Rightarrow>
    CephDeploymentHealth \<Rightarrow> reconcile_result option io" where
  "reconcile_cluster E lcmConfig ns name cephTask status health = do {
     r \<leftarrow> issue (GetCephCluster (lc_RookNamespace lcmConfig) (cdh_Name health))
            (\<lambda>h. e_GetCephCluster E h (lc_RookNamespace lcmConfig) (cdh_Name health));
     case r of
       Inl err \<Rightarrow> State_Monad.return (Some later)
     | Inr cephCluster \<Rightarrow>
         if cc_ExternalEnable cephCluster then do {
           aborted \<leftarrow> prepareAbortStatus E status ''detected external CephCluster configuration'';
           err \<leftarrow> updateCephOsdRemoveTaskStatus E ns name aborted;
           State_Monad.return (Some (if err \<noteq> None then later else finished))
         }
         else if cls_FSID (cc_Status cephCluster) = None \<or> cls_FSID (cc_Status cephCluster) = Some [] then
           wait_with E ns name status ''CephCluster is not deployed yet, no fsid provided''
         else if Option.bind (Option.bind (cdh_HealthReport health) hrp_RookCephObjects) rco_CephCluster = None then
           wait_with E ns name status ''related CephDeploymentHealth has no CephCluster status yet''
         else case Option.bind (cdh_HealthReport health) hrp_OsdAnalysis of
           None \<Rightarrow> wait_with E ns name status ''related CephDeploymentHealth has no CephCluster osd storage analysis yet''
         | Some analysis \<Rightarrow>
             if osa_CephClusterSpecGeneration analysis = None then
               wait_with E ns name status ''related CephDeploymentHealth has no CephCluster osd storage analysis yet''
             else do {
               tasks \<leftarrow> issue (ListTasks ns) (\<lambda>h. e_ListTasks E h ns);
               case tasks of
                 Inl err \<Rightarrow> State_Monad.return (Some later)
               | Inr taskList \<Rightarrow>
                   if getOldestCephOsdRemoveTaskName taskList \<noteq> name then
                     wait_with E ns name status ''waiting for older CephOsdRemoveTask completion''
                   else do {
                     d \<leftarrow> issue (GetCephDeployment ns (cdh_Name health)) (\<lambda>h. e_GetCephDeployment E h ns (cdh_Name health));
                     let config = (\<lambda>phase. \<lparr>rc_lcmConfig = lcmConfig,
                       rc_taskConfig = \<lparr>tk_task = cephTask\<lparr>task_Status := Some status\<rparr>, tk_cephCluster = cephCluster,
                         tk_cephHealthOsdAnalysis = analysis, tk_cephDeploymentPhase = phase\<rparr>\<rparr>);
                     case d of
                       Inl err \<Rightarrow>
                         (case err of ApiError _ \<Rightarrow> State_Monad.return (Some later)
                          | _ \<Rightarrow> reconcile_task E ns name (config None))
                     | Inr phase \<Rightarrow> reconcile_task E ns name (config (Some phase))
                   }
             }
   }"

definition Reconcile :: "env \<Rightarrow> LcmConfig \<Rightarrow> string \<Rightarrow> string \<Rightarrow> reconcile_result option io" where
  "Reconcile E lcmConfig ns name = do {
     r \<leftarrow> issue (GetTask ns name) (\<lambda>h. e_GetTask E h ns name);
     case r of
       Inl err \<Rightarrow> State_Monad.return (Some (if is_not_found err then finished
         else \<lparr>res_RequeueAfter = requeueAfterInterval, res_Err = Some (err_msg err)\<rparr>))
     | Inr cephTask \<Rightarrow>
         (case task_Status cephTask of
            None \<Rightarrow> do {
              status \<leftarrow> prepareInitStatus E cephTask;
              err \<leftarrow> updateCephOsdRemoveTaskStatus E ns name status;
              State_Monad.return (Some (if err \<noteq> None then later else at_once))
            }
          | Some status0 \<Rightarrow> do {
              let status = status0\<lparr>st_PhaseInfo := []\<rparr>;
              hs \<leftarrow> issue (ListHealths ns) (\<lambda>h. e_ListHealths E h ns);
              case hs of
                Inl err \<Rightarrow> State_Monad.return (Some later)
              | Inr [] \<Rightarrow> do {
                  err \<leftarrow> issue (DeleteTask ns name) (\<lambda>h. e_DeleteTask E h ns name);
                  State_Monad.return (Some (if err \<noteq> None then later else finished))
                }
              | Inr [health] \<Rightarrow>
                  (case GetObjectOwnerRef E ''CephDeploymentHealth'' (cdh_Name health) (cdh_UID health) of
                     Inl err \<Rightarrow> State_Monad.return (Some later)
                   | Inr ownerRefs \<Rightarrow>
                       if ownerRefs \<noteq> task_OwnerReferences cephTask then do {
                         err \<leftarrow> issue (UpdateTask (cephTask\<lparr>task_Status := Some status, task_OwnerReferences := ownerRefs\<rparr>))
                           (\<lambda>h. e_UpdateTask E h (cephTask\<lparr>task_Status := Some status, task_OwnerReferences := ownerRefs\<rparr>));
                         State_Monad.return (Some (if err \<noteq> None then later else at_once))
                       }
                       else reconcile_cluster E lcmConfig ns name cephTask status health)
              | Inr (_ # _ # _) \<Rightarrow>
                  if checkTaskActive (Some status) then do {
                    aborted \<leftarrow> prepareAbortStatus E status ''multiple CephDeploymentHealth objects found in namespace'';
                    err \<leftarrow> updateCephOsdRemoveTaskStatus E ns name aborted;
                    State_Monad.return (Some (if err \<noteq> None then later else finished))
                  }
                  else State_Monad.return (Some finished)
            })
   }"

end
