(* ===== verification/Task_Machine.thy ===== *)
theory Task_Machine
  imports Controller Spec_Theorems Executor_Theorems
begin

text \<open>
  The life of a task as a state machine. \<open>phase_step\<close> is the abstract machine on phases,
  \<open>handleTask_move\<close> the fact that one call of the handler stays within it, \<open>task_step\<close> what may
  happen to a status between two reconcile runs, and \<open>reachable\<close> the statuses a task can have.
\<close>

section \<open>The abstract machine\<close>

inductive phase_step :: "TaskPhase \<Rightarrow> TaskPhase \<Rightarrow> bool" where
  start: "phase_step TaskPhasePending TaskPhaseValidating"
| nothing: "phase_step TaskPhaseValidating TaskPhaseCompleted"
| invalid: "phase_step TaskPhaseValidating TaskPhaseValidationFailed"
| ask: "phase_step TaskPhaseValidating TaskPhaseApproveWaiting"
| preset: "phase_step TaskPhaseValidating TaskPhaseWaitingOperator"
| approve: "phase_step TaskPhaseApproveWaiting TaskPhaseWaitingOperator"
| again: "phase_step TaskPhaseApproveWaiting TaskPhaseValidating"
| spec_changed: "phase_step TaskPhaseWaitingOperator TaskPhaseAborted"
| run: "phase_step TaskPhaseWaitingOperator TaskPhaseProcessing"
| completed: "phase_step TaskPhaseProcessing TaskPhaseCompleted"
| warned: "phase_step TaskPhaseProcessing TaskPhaseCompletedWithWarnings"
| failed: "phase_step TaskPhaseProcessing TaskPhaseFailed"

inductive_cases phase_stepE: "phase_step p q"

inductive_simps phase_step_to_Processing [simp]: "phase_step p TaskPhaseProcessing"
inductive_simps phase_step_to_WaitingOperator [simp]: "phase_step p TaskPhaseWaitingOperator"
inductive_simps phase_step_to_Pending [simp]: "phase_step p TaskPhasePending"
inductive_simps phase_step_from_Pending [simp]: "phase_step TaskPhasePending q"
inductive_simps phase_step_from_Processing [simp]: "phase_step TaskPhaseProcessing q"

lemmas phase_steps [intro] = phase_step.intros

definition terminal :: "TaskPhase \<Rightarrow> bool" where
  "terminal p \<longleftrightarrow> p = TaskPhaseCompleted \<or> p = TaskPhaseCompletedWithWarnings \<or> p = TaskPhaseFailed \<or>
     p = TaskPhaseValidationFailed \<or> p = TaskPhaseAborted"

lemma terminal_iff: "terminal (st_Phase st) \<longleftrightarrow> \<not> checkTaskActive (Some st)"
  by (simp add: terminal_def checkTaskActive_def)

lemma terminal_stuck: "terminal p \<Longrightarrow> \<not> phase_step p q"
  by (auto simp: terminal_def elim: phase_stepE)

section \<open>One call of the handler\<close>

definition task_status :: "cephOsdRemoveConfig \<Rightarrow> CephOsdRemoveTaskStatus" where
  "task_status c = status_of (tk_task (rc_taskConfig c))"

text \<open>A move of the handler: the new phase, the new removal info, and a condition appended that
  records the phase, the nodes of the task and the generation of the cluster.\<close>

definition moves_to :: "cephOsdRemoveConfig \<Rightarrow> TaskPhase \<Rightarrow> TaskRemoveInfo option \<Rightarrow> CephOsdRemoveTaskStatus \<Rightarrow> bool" where
  "moves_to c p ri st \<longleftrightarrow> st_Phase st = p \<and> st_RemoveInfo st = ri \<and>
     (\<exists>cond. st_Conditions st = st_Conditions (task_status c) @ [cond] \<and> tc_Phase cond = p \<and>
        tc_Nodes cond = spec_nodes (tk_task (rc_taskConfig c)) \<and>
        map_option csv_Generation (tc_CephClusterSpecVersion cond) = Some (cc_Generation (tk_cephCluster (rc_taskConfig c))))"

lemma moves_to_wf: "moves_to c p ri st \<Longrightarrow> wf_status st"
  by (auto simp: moves_to_def wf_status_def)

lemma move_moves:
  assumes "run_state (move E (rc_taskConfig c) p reason ri rq) h = (r, h')"
  shows "\<exists>st. r = Some (st, rq) \<and> moves_to c p ri st"
  using assms
  by (auto simp: move_def moveTaskPhase_def GetCurrentTimeString_def Let_def moves_to_def task_status_def)

text \<open>The possible outcomes, one per branch of the source.\<close>

definition ready_to_validate :: "cephOsdRemoveConfig \<Rightarrow> bool" where
  "ready_to_validate c \<longleftrightarrow>
     (tk_cephDeploymentPhase (rc_taskConfig c) = None \<or> tk_cephDeploymentPhase (rc_taskConfig c) = Some PhaseOnHold) \<and>
     osa_CephClusterSpecGeneration (tk_cephHealthOsdAnalysis (rc_taskConfig c)) = Some (cc_Generation (tk_cephCluster (rc_taskConfig c)))"

definition validation_phase :: "cephOsdRemoveConfig \<Rightarrow> TaskRemoveInfo \<Rightarrow> TaskPhase" where
  "validation_phase c ri =
     (if tri_Issues ri \<noteq> [] then TaskPhaseValidationFailed
      else if tri_CleanupMap ri = [] then TaskPhaseCompleted
      else if approved (tk_task (rc_taskConfig c)) then TaskPhaseWaitingOperator else TaskPhaseApproveWaiting)"

definition completion_phase :: "TaskRemoveInfo \<Rightarrow> TaskPhase" where
  "completion_phase ri =
     (if tri_Issues ri \<noteq> [] then TaskPhaseFailed
      else if tri_Warnings ri \<noteq> [] then TaskPhaseCompletedWithWarnings else TaskPhaseCompleted)"

definition operator_stopped :: "env \<Rightarrow> cephOsdRemoveConfig \<Rightarrow> hist \<Rightarrow> bool" where
  "operator_stopped E c h \<longleftrightarrow> fst (run_state (checkOperatorStopped E c) h)"

inductive outcome :: "env \<Rightarrow> cephOsdRemoveConfig \<Rightarrow> hist \<Rightarrow> CephOsdRemoveTaskStatus \<Rightarrow> bool" for E c h where
  lost: "st_Conditions (task_status c) = [] \<Longrightarrow> st_Phase st = TaskPhaseAborted \<Longrightarrow> st_RemoveInfo st = st_RemoveInfo (task_status c) \<Longrightarrow>
    wf_status st \<Longrightarrow> outcome E c h st"
| wait: "st_Phase (task_status c) \<noteq> TaskPhasePending \<Longrightarrow> st_Phase (task_status c) \<noteq> TaskPhaseProcessing \<Longrightarrow>
    outcome E c h (task_status c)"
| start: "st_Phase (task_status c) = TaskPhasePending \<Longrightarrow> moves_to c TaskPhaseValidating None st \<Longrightarrow> outcome E c h st"
| validate: "st_Phase (task_status c) = TaskPhaseValidating \<Longrightarrow> ready_to_validate c \<Longrightarrow> validated E c h = Some ri \<Longrightarrow>
    moves_to c (validation_phase c ri) (Some ri) st \<Longrightarrow> outcome E c h st"
| approve: "st_Phase (task_status c) = TaskPhaseApproveWaiting \<Longrightarrow> approved (tk_task (rc_taskConfig c)) \<Longrightarrow>
    moves_to c TaskPhaseWaitingOperator (st_RemoveInfo (task_status c)) st \<Longrightarrow> outcome E c h st"
| again: "st_Phase (task_status c) = TaskPhaseApproveWaiting \<Longrightarrow> \<not> approved (tk_task (rc_taskConfig c)) \<Longrightarrow>
    specChanges (rc_taskConfig c) \<noteq> [] \<Longrightarrow> moves_to c TaskPhaseValidating None st \<Longrightarrow> outcome E c h st"
| abort: "st_Phase (task_status c) = TaskPhaseWaitingOperator \<Longrightarrow> specChanges (rc_taskConfig c) \<noteq> [] \<Longrightarrow>
    moves_to c TaskPhaseAborted None st \<Longrightarrow> outcome E c h st"
| run: "st_Phase (task_status c) = TaskPhaseWaitingOperator \<Longrightarrow> specChanges (rc_taskConfig c) = [] \<Longrightarrow> operator_stopped E c h \<Longrightarrow>
    moves_to c TaskPhaseProcessing (st_RemoveInfo (task_status c)) st \<Longrightarrow> outcome E c h st"
| progress: "st_Phase (task_status c) = TaskPhaseProcessing \<Longrightarrow> st_RemoveInfo (task_status c) = Some ri \<Longrightarrow> \<not> run_finished E c ri h \<Longrightarrow>
    st = (task_status c)\<lparr>st_RemoveInfo := Some (run_info E c ri h)\<rparr> \<Longrightarrow> outcome E c h st"
| finish: "st_Phase (task_status c) = TaskPhaseProcessing \<Longrightarrow> st_RemoveInfo (task_status c) = Some ri \<Longrightarrow> run_finished E c ri h \<Longrightarrow>
    moves_to c (completion_phase (run_info E c ri h)) (Some (run_info E c ri h)) st \<Longrightarrow> outcome E c h st"
| no_info: "st_Phase (task_status c) = TaskPhaseProcessing \<Longrightarrow> st_RemoveInfo (task_status c) = None \<Longrightarrow>
    moves_to c TaskPhaseFailed (Some (issue_only ''empty remove info, aborting'')) st \<Longrightarrow> outcome E c h st"

lemma handle_validating_outcome:
  assumes run: "run_state (handle_validating E c) h = (Some (st, rq), h')" and phase: "st_Phase (task_status c) = TaskPhaseValidating"
  shows "outcome E c h st"
proof (cases "ready_to_validate c")
  case True
  obtain r h1 where r: "run_state (validateTask E c) h = (r, h1)" by fastforce
  with run True obtain ri where ri: "r = Some ri"
    by (cases r) (auto simp: handle_validating_def ready_to_validate_def Let_def)
  from r ri have v: "run_state (validateTask E c) h = (Some ri, h1)" by simp
  have "\<exists>reason rq'. run_state (move E (rc_taskConfig c) (validation_phase c ri) reason (Some ri) rq') h1 = (Some (st, rq), h')"
    using run True v
    by (auto simp: handle_validating_def ready_to_validate_def Let_def validation_phase_def split: if_splits)
  then obtain reason rq' where m: "run_state (move E (rc_taskConfig c) (validation_phase c ri) reason (Some ri) rq') h1 = (Some (st, rq), h')"
    by blast
  from v have "validated E c h = Some ri" by (simp add: validated_def)
  moreover from move_moves [OF m] have "moves_to c (validation_phase c ri) (Some ri) st" by auto
  ultimately show ?thesis using phase True by (intro outcome.validate)
next
  case False
  with run have "st = task_status c"
    by (auto simp: handle_validating_def ready_to_validate_def Let_def task_status_def split: if_splits option.splits)
  with phase show ?thesis by (auto intro: outcome.wait)
qed

lemma handle_processing_outcome:
  assumes run: "run_state (handle_processing E c) h = (Some (st, rq), h')" and phase: "st_Phase (task_status c) = TaskPhaseProcessing"
    and some: "task_Status (tk_task (rc_taskConfig c)) \<noteq> None"
  shows "outcome E c h st"
proof -
  have info: "Option.bind (task_Status (tk_task (rc_taskConfig c))) st_RemoveInfo = st_RemoveInfo (task_status c)"
    using some by (auto simp: task_status_def status_of_def)
  show ?thesis
  proof (cases "st_RemoveInfo (task_status c)")
    case None
    with run info obtain reason where "run_state (move E (rc_taskConfig c) TaskPhaseFailed reason
        (Some (issue_only ''empty remove info, aborting'')) False) h = (Some (st, rq), h')"
      by (auto simp: handle_processing_def processTask_def issue_only_def Let_def)
    from move_moves [OF this] None phase show ?thesis by (auto intro: outcome.no_info)
  next
    case (Some ri)
    obtain rq1 h1 where r: "run_state (processOsdRemoveTask E c ri) h = ((run_finished E c ri h, run_info E c ri h, rq1), h1)"
      by (rule run_unfold)
    show ?thesis
    proof (cases "run_finished E c ri h")
      case True
      with run info Some r obtain reason rq' where
        "run_state (move E (rc_taskConfig c) (completion_phase (run_info E c ri h)) reason (Some (run_info E c ri h)) rq') h1 = (Some (st, rq), h')"
        by (auto simp: handle_processing_def processTask_def completion_phase_def Let_def split: if_splits)
      from move_moves [OF this] have "moves_to c (completion_phase (run_info E c ri h)) (Some (run_info E c ri h)) st" by auto
      with phase Some True show ?thesis by (rule outcome.finish)
    next
      case False
      with run info Some r have "st = (task_status c)\<lparr>st_RemoveInfo := Some (run_info E c ri h)\<rparr>"
        by (auto simp: handle_processing_def processTask_def Let_def task_status_def)
      with phase Some False show ?thesis by (rule outcome.progress)
    qed
  qed
qed

lemma handleTask_outcome:
  assumes run: "run_state (handleTask E c) h = (Some (st, rq), h')"
    and some: "task_Status (tk_task (rc_taskConfig c)) \<noteq> None"
  shows "outcome E c h st"
proof (cases "st_Conditions (task_status c) = []")
  case True
  with run obtain r h1 where "run_state (prepareAbortStatus E (task_status c) r) h = (st, h1)"
    by (auto simp: handleTask_def Let_def task_status_def split: prod.splits)
  from prepareAbortStatus_fields [OF this] True show ?thesis by (intro outcome.lost)
next
  case conds: False
  let ?t = "rc_taskConfig c"
  note run' = run [unfolded handleTask_def Let_def task_status_def [symmetric]]
  show ?thesis
  proof (cases "st_Phase (task_status c)")
    case TaskPhasePending
    with run' conds have "run_state (move E ?t TaskPhaseValidating ''validation'' None True) h = (Some (st, rq), h')" by simp
    from move_moves [OF this] TaskPhasePending show ?thesis by (auto intro: outcome.start)
  next
    case TaskPhaseValidating
    with run' conds handle_validating_outcome show ?thesis by simp
  next
    case TaskPhaseProcessing
    with run' conds handle_processing_outcome some show ?thesis by simp
  next
    case TaskPhaseApproveWaiting
    show ?thesis
    proof (cases "approved (tk_task ?t)")
      case True
      with run' conds TaskPhaseApproveWaiting obtain reason where
        "run_state (move E ?t TaskPhaseWaitingOperator reason (st_RemoveInfo (task_status c)) True) h = (Some (st, rq), h')" by simp
      from move_moves [OF this] TaskPhaseApproveWaiting True show ?thesis by (auto intro: outcome.approve)
    next
      case na: False
      show ?thesis
      proof (cases "specChanges ?t = []")
        case True
        with run' conds TaskPhaseApproveWaiting na have "st = task_status c" by simp
        with TaskPhaseApproveWaiting show ?thesis by (auto intro: outcome.wait)
      next
        case False
        with run' conds TaskPhaseApproveWaiting na obtain reason where
          "run_state (move E ?t TaskPhaseValidating reason None True) h = (Some (st, rq), h')" by auto
        from move_moves [OF this] TaskPhaseApproveWaiting na False show ?thesis by (auto intro: outcome.again)
      qed
    qed
  next
    case TaskPhaseWaitingOperator
    show ?thesis
    proof (cases "specChanges ?t = []")
      case False
      with run' conds TaskPhaseWaitingOperator obtain reason where
        "run_state (move E ?t TaskPhaseAborted reason None False) h = (Some (st, rq), h')" by auto
      from move_moves [OF this] TaskPhaseWaitingOperator False show ?thesis by (auto intro: outcome.abort)
    next
      case same: True
      obtain b h1 where b: "run_state (checkOperatorStopped E c) h = (b, h1)" by fastforce
      show ?thesis
      proof (cases b)
        case True
        with run' conds TaskPhaseWaitingOperator same b obtain reason where
          "run_state (move E ?t TaskPhaseProcessing reason (st_RemoveInfo (task_status c)) True) h1 = (Some (st, rq), h')" by simp
        from move_moves [OF this] TaskPhaseWaitingOperator same True b show ?thesis
          by (auto intro: outcome.run simp: operator_stopped_def)
      next
        case False
        with run' conds TaskPhaseWaitingOperator same b have "st = task_status c" by simp
        with TaskPhaseWaitingOperator show ?thesis by (auto intro: outcome.wait)
      qed
    qed
  qed (use run' conds outcome.wait [of c E h] in auto)
qed

end
