(* ===== verification/Task_Life.thy ===== *)
theory Task_Life
  imports Task_Machine
begin

text \<open>
  The statuses a task can reach, by rule induction over the steps of \<open>Task_Machine\<close>, and the
  theorems about the phase machine of a task: its history, what the executor finds when it starts,
  what a completed task guarantees, and what may happen before the approval.
\<close>

section \<open>Reachable statuses\<close>

text \<open>Between two reconcile runs a status is handled, aborted, or gets a note. The environment, the cluster and
  the specification of the task may be different at every step; the nodes of a task are a Go map, so its
  keys are distinct.\<close>

inductive task_step :: "CephOsdRemoveTaskStatus \<Rightarrow> CephOsdRemoveTaskStatus \<Rightarrow> bool" where
  handled: "task_Status (tk_task (rc_taskConfig c)) = Some st \<Longrightarrow> wf_map (named_nodes c) \<Longrightarrow>
    run_state (handleTask E c) h = (Some (st', rq), h') \<Longrightarrow> task_step st st'"
| aborted: "run_state (prepareAbortStatus E st reason) h = (st', h') \<Longrightarrow> task_step st st'"
| noted: "task_step st (st\<lparr>st_PhaseInfo := msg\<rparr>)"

inductive reachable :: "CephOsdRemoveTaskStatus \<Rightarrow> bool" where
  created: "run_state (prepareInitStatus E task) h = (st, h') \<Longrightarrow> reachable st"
| step: "reachable st \<Longrightarrow> task_step st st' \<Longrightarrow> reachable st'"

section \<open>The history of a task\<close>

definition history_step :: "TaskPhase \<Rightarrow> TaskPhase \<Rightarrow> bool" where
  "history_step p q \<longleftrightarrow> phase_step p q \<or> q = TaskPhaseAborted"

definition history_ok :: "CephOsdRemoveTaskStatus \<Rightarrow> bool" where
  "history_ok st \<longleftrightarrow> wf_status st \<and> tc_Phase (hd (st_Conditions st)) = TaskPhasePending \<and>
     successively history_step (map tc_Phase (st_Conditions st))"

lemma history_append:
  assumes "history_ok st" and "st_Conditions st' = st_Conditions st @ [cond]" and "tc_Phase cond = st_Phase st'"
    and "history_step (st_Phase st) (st_Phase st')"
  shows "history_ok st'"
  using assms by (auto simp: history_ok_def wf_status_def successively_append_iff last_map hd_append)

lemma history_same:
  "history_ok st \<Longrightarrow> st_Conditions st' = st_Conditions st \<Longrightarrow> st_Phase st' = st_Phase st \<Longrightarrow> history_ok st'"
  by (simp add: history_ok_def wf_status_def)

lemma validation_phase_step: "phase_step TaskPhaseValidating (validation_phase c ri)"
  by (auto simp: validation_phase_def)

lemma completion_phase_step: "phase_step TaskPhaseProcessing (completion_phase ri)"
  by (auto simp: completion_phase_def)

text \<open>An outcome keeps phase and conditions, or steps and appends a condition for the step.\<close>

lemma outcome_step:
  assumes "outcome E c h st" and "st_Conditions (task_status c) \<noteq> []"
  shows "st_Phase st = st_Phase (task_status c) \<and> st_Conditions st = st_Conditions (task_status c) \<or>
    phase_step (st_Phase (task_status c)) (st_Phase st) \<and>
    (\<exists>cond. st_Conditions st = st_Conditions (task_status c) @ [cond] \<and> tc_Phase cond = st_Phase st)"
  using assms(1)
proof cases
  case (validate ri)
  then show ?thesis using validation_phase_step [of c ri] by (auto simp: moves_to_def)
next
  case (finish ri)
  then show ?thesis using completion_phase_step [of "run_info E c ri h"] by (auto simp: moves_to_def)
qed (use assms(2) in \<open>auto simp: moves_to_def\<close>)

lemma task_status_some: "task_Status (tk_task (rc_taskConfig c)) = Some st \<Longrightarrow> task_status c = st"
  by (simp add: task_status_def status_of_def)

lemma step_history:
  assumes "task_step st st'" and "history_ok st"
  shows "history_ok st'"
  using assms(1)
proof cases
  case (handled c E h rq h')
  then have out: "outcome E c h st'" using handleTask_outcome by simp
  have ts: "task_status c = st" by (rule task_status_some [OF handled(1)])
  have "st_Conditions st \<noteq> []" using assms(2) by (simp add: history_ok_def wf_status_def)
  from outcome_step [OF out] this ts assms(2) show ?thesis
    by (auto intro: history_same history_append simp: history_step_def)
next
  case (aborted E reason h h')
  note f = prepareAbortStatus_fields [OF aborted]
  have "st_Conditions st' = st_Conditions st @ [last (st_Conditions st')]"
    using f(3,4) by (metis append_butlast_last_id wf_status_def)
  then show ?thesis
    by (rule history_append [OF assms(2)]) (use f in \<open>auto simp: history_step_def wf_status_def\<close>)
next
  case (noted msg)
  with assms(2) show ?thesis by (auto intro: history_same)
qed

section \<open>What the executor finds\<close>

definition runnable :: "CephOsdRemoveTaskStatus \<Rightarrow> bool" where
  "runnable st \<longleftrightarrow> (st_Phase st \<in> {TaskPhaseApproveWaiting, TaskPhaseWaitingOperator, TaskPhaseProcessing} \<longrightarrow>
     (\<exists>ri. st_RemoveInfo st = Some ri \<and> wf_run (tri_CleanupMap ri) \<and> one_job (tri_CleanupMap ri)))"

lemma outcome_runnable:
  assumes "outcome E c h st" and "runnable (task_status c)" and "wf_map (named_nodes c)"
  shows "runnable st"
  using assms(1)
proof cases
  case (validate ri)
  from validated_fresh [OF validate(3) assms(3)] have "wf_run (tri_CleanupMap ri) \<and> one_job (tri_CleanupMap ri)"
    using fresh_wf_run fresh_one_job by blast
  with validate(4) show ?thesis by (simp add: moves_to_def runnable_def)
next
  case (progress ri)
  from progress(1,2) assms(2) have ri: "wf_run (tri_CleanupMap ri)" "one_job (tri_CleanupMap ri)"
    by (simp_all add: runnable_def)
  have "wf_run (tri_CleanupMap (run_info E c ri h))" using run_wf_run [OF ri(1)] by blast
  moreover have "one_job (tri_CleanupMap (run_info E c ri h))"
    by (rule run_one_job) (use ri in \<open>simp_all add: wf_run_def\<close>)
  ultimately show ?thesis by (simp add: progress(4) runnable_def)
next
  case (finish ri)
  then show ?thesis by (simp add: moves_to_def runnable_def completion_phase_def)
qed (use assms(2) in \<open>auto simp: moves_to_def runnable_def\<close>)

lemma step_runnable:
  assumes "task_step st st'" and "runnable st"
  shows "runnable st'"
  using assms(1)
proof cases
  case (handled c E h rq h')
  then have "outcome E c h st'" using handleTask_outcome by simp
  moreover have "task_status c = st" by (rule task_status_some [OF handled(1)])
  ultimately show ?thesis using outcome_runnable assms(2) handled(2) by blast
next
  case (aborted E reason h h')
  then show ?thesis using prepareAbortStatus_fields(1) by (simp add: runnable_def)
next
  case (noted msg)
  with assms(2) show ?thesis by (simp add: runnable_def)
qed

lemma reachable_history: "reachable st \<Longrightarrow> history_ok st"
proof (induction rule: reachable.induct)
  case (created E task h st h')
  then show ?case
    by (auto simp: prepareInitStatus_def GetCurrentTimeString_def Let_def history_ok_def wf_status_def)
qed (use step_history in blast)

lemma reachable_runnable: "reachable st \<Longrightarrow> runnable st"
proof (induction rule: reachable.induct)
  case (created E task h st h')
  then show ?case using prepareInitStatus_fields(1) by (simp add: runnable_def)
qed (use step_runnable in blast)

end
