(* ===== verification/Task_Calls.thy ===== *)
theory Task_Calls
  imports Task_Life
begin

text \<open>
  Which calls the task controller issues: everything outside the phase \<^verbatim>\<open>Processing\<close> only observes
  the cluster, and a task that is not the oldest active one does not even read it.
\<close>

section \<open>Calls that observe\<close>

text \<open>The three Ceph commands of a validation only print; the command of the disk daemon prints its last report.\<close>

definition reads_only :: "string \<Rightarrow> bool" where
  "reads_only cmd \<longleftrightarrow> cmd = ''ceph osd tree -f json'' \<or> cmd = ''ceph osd metadata -f json'' \<or> cmd = ''ceph osd info -f json'' \<or>
     HasPrefix cmd (PelagiaDiskDaemon @ '' --osd-report'')"

fun observes :: "call \<Rightarrow> bool" where
  "observes (Exec _ _ _ cmd) = reads_only cmd"
| "observes (UpdateScale _ _ _) = False"
| "observes (DeleteDeployment _ _) = False"
| "observes (DeleteJob _ _) = False"
| "observes (CreateJob _) = False"
| "observes (UpdateTask _) = False"
| "observes (DeleteTask _ _) = False"
| "observes (UpdateTaskStatus _ _ _) = False"
| "observes _ = True"

lemma calls_in_gate [calls_intro]:
  "(x = Pass \<Longrightarrow> calls_in P m) \<Longrightarrow> (\<And>s. x = GateIssue s \<Longrightarrow> calls_in P (f s)) \<Longrightarrow> (\<And>s. x = GateWarning s \<Longrightarrow> calls_in P (g s)) \<Longrightarrow>
   calls_in P (case x of Pass \<Rightarrow> m | GateIssue s \<Rightarrow> f s | GateWarning s \<Rightarrow> g s)"
  by (cases x) simp_all

lemma try_each_calls [calls_intro]:
  "(\<And>x s. calls_in P (body x s)) \<Longrightarrow> calls_in P (try_each body xs s)"
proof (induction xs arbitrary: s)
  case (Cons x xs)
  show ?case unfolding try_each.simps by (intro calls_intro Cons)
qed (simp add: calls_in_return)

lemma report_observed [calls_intro]: "calls_in observes (tryToGetNodeOsdsReportOrIssues E c host)"
proof -
  have "reads_only (PelagiaDiskDaemon @ '' --osd-report --port '' @ s)" for s
    by (simp add: reads_only_def HasPrefix_def PelagiaDiskDaemon_def)
  then show ?thesis
    unfolding tryToGetNodeOsdsReportOrIssues_def getNodeReport_def Let_def
    by (intro calls_intro) simp_all
qed

lemma validation_observes: "calls_in observes (validateTask E c)"
proof -
  have "calls_in observes (getOsdsForCleanup E c hosts ms infos ks)" for hosts ms infos ks
    unfolding getOsdsForCleanup_def verifyOsdsForCleanUp_def findOsdsForCleanUp_def verify_host_def find_host_def Let_def
    by (intro calls_intro)
  moreover have "reads_only ''ceph osd tree -f json''" "reads_only ''ceph osd metadata -f json''" "reads_only ''ceph osd info -f json''"
    by (simp_all add: reads_only_def)
  ultimately show ?thesis
    unfolding validateTask_def getOsdHostsFromCluster_def by (intro calls_intro) simp_all
qed

lemma calls_in_phase [calls_intro]:
  assumes "x = TaskPhasePending \<Longrightarrow> calls_in P a" "x = TaskPhaseValidating \<Longrightarrow> calls_in P b"
    "x = TaskPhaseApproveWaiting \<Longrightarrow> calls_in P d" "x = TaskPhaseWaitingOperator \<Longrightarrow> calls_in P e"
    "x = TaskPhaseProcessing \<Longrightarrow> calls_in P f" "calls_in P g"
  shows "calls_in P (case x of TaskPhasePending \<Rightarrow> a | TaskPhaseValidating \<Rightarrow> b | TaskPhaseApproveWaiting \<Rightarrow> d
    | TaskPhaseWaitingOperator \<Rightarrow> e | TaskPhaseProcessing \<Rightarrow> f | _ \<Rightarrow> g)"
  using assms by (cases x) simp_all

lemma move_calls [calls_intro]: "P Now \<Longrightarrow> calls_in P (move E t p reason ri rq)"
  unfolding move_def by (intro calls_intro)

lemma handleTask_observes:
  assumes "st_Phase (task_status c) \<noteq> TaskPhaseProcessing"
  shows "calls_in observes (handleTask E c)"
proof -
  have "calls_in observes (handle_validating E c)"
    unfolding handle_validating_def Let_def by (intro calls_intro validation_observes) simp_all
  moreover have "calls_in observes (checkOperatorStopped E c)"
    unfolding checkOperatorStopped_def by (intro calls_intro) simp
  ultimately show ?thesis
    unfolding handleTask_def Let_def using assms
    by (intro calls_intro) (simp_all add: task_status_def)
qed

section \<open>Reconcile\<close>

text \<open>The calls that Reconcile makes around the handler: reading objects, and writing the task object.\<close>

definition book_keeping :: "string \<Rightarrow> string \<Rightarrow> call \<Rightarrow> bool" where
  "book_keeping ns name x \<longleftrightarrow> (case x of
     UpdateTaskStatus a b _ \<Rightarrow> a = ns \<and> b = name | UpdateTask t \<Rightarrow> True | DeleteTask a b \<Rightarrow> a = ns \<and> b = name
   | Exec _ _ _ _ \<Rightarrow> False | _ \<Rightarrow> observes x)"

lemma book_keeping_simps [simp]:
  "book_keeping ns name Now" "book_keeping ns name (GetTask a b)" "book_keeping ns name (ListTasks a)"
  "book_keeping ns name (ListHealths a)" "book_keeping ns name (GetCephCluster a b)" "book_keeping ns name (GetCephDeployment a b)"
  "book_keeping ns name (UpdateTaskStatus ns name st)" "book_keeping ns name (UpdateTask t)" "book_keeping ns name (DeleteTask ns name)"
  by (simp_all add: book_keeping_def)

lemma update_status_calls [calls_intro]:
  "P (GetTask ns name) \<Longrightarrow> P (UpdateTaskStatus ns name st) \<Longrightarrow> calls_in P (updateCephOsdRemoveTaskStatus E ns name st)"
  unfolding updateCephOsdRemoveTaskStatus_def by (intro calls_intro)

lemma wait_with_calls [calls_intro]:
  "P (GetTask ns name) \<Longrightarrow> P (UpdateTaskStatus ns name (st\<lparr>st_PhaseInfo := msg\<rparr>)) \<Longrightarrow> calls_in P (wait_with E ns name st msg)"
  unfolding wait_with_def by (intro calls_intro)

text \<open>A continuation only has to be considered on the results its computation can have.\<close>

lemma calls_in_bind_result:
  assumes "calls_in P m" and "\<And>h x h'. run_state m h = (x, h') \<Longrightarrow> calls_in P (f x)"
  shows "calls_in P (m \<bind> f)"
  unfolding calls_in_def
proof
  fix h
  obtain x h1 where m: "run_state m h = (x, h1)" by fastforce
  from assms(1) m obtain cs where cs: "h1 = h @ cs" "list_all P cs" unfolding calls_in_def by (metis snd_conv)
  from assms(2) [OF m] obtain ds where "snd (run_state (f x) h1) = h1 @ ds" "list_all P ds" unfolding calls_in_def by metis
  with m cs show "\<exists>cs. snd (run_state (m \<bind> f) h) = h @ cs \<and> list_all P cs" by (intro exI [of _ "cs @ ds"]) simp
qed

lemma calls_at_issue:
  assumes "P c" and "calls_in P (k (f h))" and "x \<in> set (drop (length h) (snd (run_state (issue c f \<bind> k) h)))"
  shows "P x"
proof -
  from assms(2) obtain cs where "snd (run_state (k (f h)) (h @ [c])) = (h @ [c]) @ cs" "list_all P cs"
    unfolding calls_in_def by blast
  with assms(1,3) show ?thesis by (auto simp: list_all_iff)
qed

lemma calls_in_cases3 [calls_intro]:
  "(xs = [] \<Longrightarrow> calls_in P a) \<Longrightarrow> (\<And>x. xs = [x] \<Longrightarrow> calls_in P (b x)) \<Longrightarrow> (\<And>x y zs. xs = x # y # zs \<Longrightarrow> calls_in P (d x y zs)) \<Longrightarrow>
   calls_in P (case xs of [] \<Rightarrow> a | x # [] \<Rightarrow> b x | x # y # zs \<Rightarrow> d x y zs)"
  by (cases xs rule: remdups_adj.cases) simp_all

lemma calls_in_error [calls_intro]:
  "(\<And>m. e = ApiError m \<Longrightarrow> calls_in P a) \<Longrightarrow> calls_in P b \<Longrightarrow> calls_in P (case e of ApiError _ \<Rightarrow> a | _ \<Rightarrow> b)"
  by (cases e) simp_all

lemmas strong_calls = calls_in_return calls_in_bind_result calls_in_if calls_in_option calls_in_sum calls_in_let calls_in_issue
  phase_calls update_status_calls wait_with_calls calls_in_error calls_in_cases3

text \<open>The frame of a reconcile run: what a predicate on calls has to allow.\<close>

definition oldest_seen :: "env \<Rightarrow> string \<Rightarrow> string \<Rightarrow> bool" where
  "oldest_seen E ns name \<longleftrightarrow> (\<exists>h tasks. e_ListTasks E h ns = Inr tasks \<and> getOldestCephOsdRemoveTaskName tasks = name)"

lemma reconcile_cluster_calls:
  assumes P: "P Now" "P (ListTasks ns)" "P (GetTask ns name)" "\<And>a b. P (GetCephCluster a b)" "\<And>a b. P (GetCephDeployment a b)"
    and note_ok: "\<And>msg. P (UpdateTaskStatus ns name (status\<lparr>st_PhaseInfo := msg\<rparr>))"
    and abort_ok: "\<And>reason h st h'. run_state (prepareAbortStatus E status reason) h = (st, h') \<Longrightarrow> P (UpdateTaskStatus ns name st)"
    and task_ok: "\<And>c. oldest_seen E ns name \<Longrightarrow> tk_task (rc_taskConfig c) = cephTask\<lparr>task_Status := Some status\<rparr> \<Longrightarrow> calls_in P (reconcile_task E ns name c)"
  shows "calls_in P (reconcile_cluster E lcmConfig ns name cephTask status health)"
  unfolding reconcile_cluster_def Let_def
  by (intro strong_calls P note_ok task_ok) (auto intro: abort_ok simp: oldest_seen_def)

lemma reconcile_task_calls:
  assumes "calls_in P (handleTask E c)" and "P (GetTask ns name)"
    and "\<And>h st rq h'. run_state (handleTask E c) h = (Some (st, rq), h') \<Longrightarrow> P (UpdateTaskStatus ns name st)"
  shows "calls_in P (reconcile_task E ns name c)"
  unfolding reconcile_task_def by (intro strong_calls assms(1,2) calls_in_prod) (auto intro: assms(3))

text \<open>The part of a run after the task object was read.\<close>

lemma reconcile_after_read:
  assumes x: "x \<in> set (drop (length h) (snd (run_state (Reconcile E lcmConfig ns name) h)))"
    and P: "P Now" "P (ListTasks ns)" "P (GetTask ns name)" "P (ListHealths ns)" "P (DeleteTask ns name)" "\<And>t. P (UpdateTask t)"
      "\<And>a b. P (GetCephCluster a b)" "\<And>a b. P (GetCephDeployment a b)"
    and init_ok: "\<And>t h1 st h2. e_GetTask E h ns name = Inr t \<Longrightarrow> task_Status t = None \<Longrightarrow>
      run_state (prepareInitStatus E t) h1 = (st, h2) \<Longrightarrow> P (UpdateTaskStatus ns name st)"
    and note_ok: "\<And>t st msg. e_GetTask E h ns name = Inr t \<Longrightarrow> task_Status t = Some st \<Longrightarrow>
      P (UpdateTaskStatus ns name (st\<lparr>st_PhaseInfo := msg\<rparr>))"
    and abort_ok: "\<And>t st reason h1 st' h2. e_GetTask E h ns name = Inr t \<Longrightarrow> task_Status t = Some st \<Longrightarrow>
      run_state (prepareAbortStatus E (st\<lparr>st_PhaseInfo := []\<rparr>) reason) h1 = (st', h2) \<Longrightarrow> P (UpdateTaskStatus ns name st')"
    and task_ok: "\<And>t st c. e_GetTask E h ns name = Inr t \<Longrightarrow> task_Status t = Some st \<Longrightarrow> oldest_seen E ns name \<Longrightarrow>
      tk_task (rc_taskConfig c) = t\<lparr>task_Status := Some (st\<lparr>st_PhaseInfo := []\<rparr>)\<rparr> \<Longrightarrow> calls_in P (reconcile_task E ns name c)"
  shows "P x"
proof -
  have "calls_in P (reconcile_cluster E lcmConfig ns name t (st\<lparr>st_PhaseInfo := []\<rparr>) health)"
    if "e_GetTask E h ns name = Inr t" "task_Status t = Some st" for t st health
  proof (rule reconcile_cluster_calls)
    show "P (UpdateTaskStatus ns name (st\<lparr>st_PhaseInfo := [], st_PhaseInfo := msg\<rparr>))" for msg
      using note_ok [OF that, of msg] by simp
  qed (use P abort_ok [OF that] task_ok [OF that] in auto)
  note cluster = this
  from x [unfolded Reconcile_def] show ?thesis
    by (rule calls_at_issue [rotated -1], intro P)
      (intro strong_calls P cluster; (auto intro: init_ok abort_ok)?)
qed

end
