(* ===== verification/Task_Example.thy ===== *)
theory Task_Example
  imports Task_Life
begin

text \<open>
  The life of one concrete task, from its creation to its completion, on the cluster of
  \<open>Spec_Scenario\<close>: the statuses \<open>life 0\<close> to \<open>life 9\<close> written out, and the fact that every one is what the
  handler makes of the one before.
\<close>

definition handled :: "env \<Rightarrow> cephOsdRemoveConfig \<Rightarrow> hist \<Rightarrow> CephOsdRemoveTaskStatus option" where
  "handled E c h = map_option fst (fst (run_state (handleTask E c) h))"

lemma handled_iff: "handled E c h = Some st \<longleftrightarrow> (\<exists>rq h'. run_state (handleTask E c) h = (Some (st, rq), h'))"
  by (cases "run_state (handleTask E c) h") (auto simp: handled_def)

lemma handled_outcome:
  assumes "handled E c h = Some st'" and "task_Status (tk_task (rc_taskConfig c)) = Some st"
  shows "outcome E c h st'"
  using assms handleTask_outcome by (auto simp: handled_iff)

definition with_status :: "CephOsdRemoveTaskStatus \<Rightarrow> cephOsdRemoveConfig \<Rightarrow> cephOsdRemoveConfig" where
  "with_status st c = c\<lparr>rc_taskConfig := (rc_taskConfig c)\<lparr>tk_task := (tk_task (rc_taskConfig c))\<lparr>task_Status := Some st\<rparr>\<rparr>\<rparr>"

lemma with_status_simps [simp]:
  "task_Status (tk_task (rc_taskConfig (with_status st c))) = Some st" "named_nodes (with_status st c) = named_nodes c"
  by (simp_all add: with_status_def named_nodes_def spec_nodes_def)

section \<open>The statuses\<close>

text \<open>Every cleanup job has succeeded when it is looked at.\<close>

definition life_env :: env where
  "life_env = vs_env\<lparr>e_GetJob := (\<lambda>_ _ _. Inr \<lparr>js_Active = 0, js_Succeeded = 1, js_Failed = 0, js_Conditions = []\<rparr>)\<rparr>"

definition life_path :: "(TaskPhase \<times> string \<times> string) list" where
  "life_path = [(TaskPhaseValidating, ''validation'', ''+''),
     (TaskPhaseWaitingOperator, ''validation completed, approve pre-set'', ''++++++++++''),
     (TaskPhaseProcessing, ''processing'', ''++''), (TaskPhaseCompleted, ''osd remove completed'', ''+'')]"

definition life_status :: "nat \<Rightarrow> TaskRemoveInfo option \<Rightarrow> CephOsdRemoveTaskStatus" where
  "life_status n ri =
     (let path = take n life_path
      in \<lparr>st_Phase = (if path = [] then TaskPhasePending else fst (last path)),
          st_PhaseInfo = (if path = [] then ''initializing'' else fst (snd (last path))), st_RemoveInfo = ri,
          st_Messages = ''initiated'' # map (\<lambda>(p, reason, _). ''cephosdremovetask moved to '' @ quoted (show_TaskPhase p) @ '' phase: '' @ reason) path,
          st_Conditions = \<lparr>tc_Timestamp = ''+'', tc_Phase = TaskPhasePending, tc_Nodes = None, tc_CephClusterSpecVersion = None\<rparr>
            # map (\<lambda>(p, _, t). \<lparr>tc_Timestamp = t, tc_Phase = p, tc_Nodes = Some [],
                tc_CephClusterSpecVersion = Some \<lparr>csv_ResourceVersion = ''7'', csv_Generation = 4\<rparr>\<rparr>) path\<rparr>)"

definition life_info :: "RemoveResult option \<Rightarrow> TaskRemoveInfo option" where
  "life_info r = Some \<lparr>tri_CleanupMap = [(''node-a'', HostMapping0\<lparr>hm_OsdMapping := [(''0'',
      OsdMapping0\<lparr>om_UUID := ''u0'', om_ClusterFSID := ''fsid'', om_HostDirectory := ''/var/lib/rook/rook/fsid_u0'',
        om_InCrushMap := True, om_DeviceMapping := [(''/dev/vdb'', vs_zap)], om_RemoveStatus := r\<rparr>)]\<rparr>)],
     tri_Issues = [], tri_Warnings = []\<rparr>"

definition life_result :: "RemovePhase \<Rightarrow> string \<Rightarrow> RemoveStatus option \<Rightarrow> RemoveStatus option \<Rightarrow> RemoveResult" where
  "life_result ph fin deploy job = \<lparr>rr_OsdRemoveStatus = Some \<lparr>rs_Status = ph, rs_Name = [], rs_Error = [],
     rs_StartedAt = ''+++++++'', rs_FinishedAt = fin\<rparr>, rr_DeployRemoveStatus = deploy, rr_DeviceCleanUpJob = job\<rparr>"

definition life_job :: "RemovePhase \<Rightarrow> string \<Rightarrow> RemoveStatus" where
  "life_job ph fin = \<lparr>rs_Status = ph, rs_Name = ''node-a-0'', rs_Error = [], rs_StartedAt = ''++++'', rs_FinishedAt = fin\<rparr>"

definition life_removed :: RemoveResult where
  "life_removed = life_result RemoveFinished ''++++++'' (Some \<lparr>rs_Status = RemoveFinished, rs_Name = ''rook-ceph-osd-0'', rs_Error = [],
     rs_StartedAt = ''+++'', rs_FinishedAt = ''+++++''\<rparr>) (Some (life_job RemoveCompleted ''++''))"

definition life :: "nat \<Rightarrow> CephOsdRemoveTaskStatus" where
  "life n =
     (if n = 0 then life_status 0 None else if n = 1 then life_status 1 None
      else if n = 2 then life_status 2 (life_info None) else if n = 3 then life_status 3 (life_info None)
      else if n = 4 then life_status 3 (life_info (Some (life_result RemoveWaitingRebalance [] None None)))
      else if n = 5 then life_status 3 (life_info (Some (life_result RemoveInProgress [] None None)))
      else if n = 6 then life_status 3 (life_info (Some (life_result RemoveFinished ''++++++'' None None)))
      else if n = 7 then life_status 3 (life_info (Some (life_result RemoveFinished ''++++++'' None (Some (life_job RemoveInProgress [])))))
      else if n = 8 then life_status 3 (life_info (Some life_removed))
      else life_status 4 (life_info (Some life_removed)))"

section \<open>The steps\<close>

abbreviation life_config :: "nat \<Rightarrow> cephOsdRemoveConfig" where
  "life_config n \<equiv> with_status (life n) (vs_config [])"

lemma life_created: "run_state (prepareInitStatus life_env (vs_task [])) [] = (life 0, [Now])"
  by code_simp

lemma life_1: "handled life_env (life_config 0) [] = Some (life 1)" by code_simp
lemma life_2: "handled life_env (life_config 1) [] = Some (life 2)" by code_simp
lemma life_3: "handled life_env (life_config 2) [] = Some (life 3)" by code_simp
lemma life_4: "handled life_env (life_config 3) [] = Some (life 4)" by code_simp
lemma life_5: "handled life_env (life_config 4) [] = Some (life 5)" by code_simp
lemma life_6: "handled life_env (life_config 5) [] = Some (life 6)" by code_simp
lemma life_7: "handled life_env (life_config 6) [] = Some (life 7)" by code_simp
lemma life_8: "handled life_env (life_config 7) [] = Some (life 8)" by code_simp
lemma life_9: "handled life_env (life_config 8) [] = Some (life 9)" by code_simp

lemma reachable_next:
  assumes "handled life_env (life_config n) [] = Some st" and "reachable (life n)"
  shows "reachable st"
proof -
  from assms(1) obtain rq h' where "run_state (handleTask life_env (life_config n)) [] = (Some (st, rq), h')"
    by (auto simp: handled_iff)
  moreover have "wf_map (named_nodes (life_config n))" by (simp add: named_nodes_def vs_config_def vs_task_def spec_nodes_def with_status_def)
  ultimately have "task_step (life n) st" by (intro task_step.handled [of "life_config n"]) simp_all
  with assms(2) show ?thesis by (rule reachable.step)
qed

lemma life_0_reachable: "reachable (life 0)"
  by (rule reachable.created [OF life_created])

lemmas life_3_reachable = life_0_reachable [THEN reachable_next [OF life_1], THEN reachable_next [OF life_2],
  THEN reachable_next [OF life_3]]

lemmas life_7_reachable = life_3_reachable [THEN reachable_next [OF life_4], THEN reachable_next [OF life_5],
  THEN reachable_next [OF life_6], THEN reachable_next [OF life_7]]

lemmas life_8_reachable = life_7_reachable [THEN reachable_next [OF life_8]]

lemmas life_9_reachable = life_8_reachable [THEN reachable_next [OF life_9]]

end
