(* ===== verification/Rook_Operator.thy ===== *)
theory Rook_Operator
  imports Controller
begin

text \<open>
  The replicas of the Rook operator: \<^verbatim>\<open>checkRookOperatorReplicas\<close> of \<^verbatim>\<open>infra/operator.go\<close> and
  \<^verbatim>\<open>IsClusterMaintenanceActing\<close> of \<^verbatim>\<open>common/cephdeployment_utils.go\<close>. The operator has to be stopped
  while a task changes the cluster behind its back.
\<close>

record infraConfig =
  ic_name :: string
  ic_namespace :: string
  ic_externalCeph :: bool

definition IsClusterMaintenanceActing :: "env \<Rightarrow> string \<Rightarrow> string \<Rightarrow> (string + bool) io" where
  "IsClusterMaintenanceActing E ns name = do {
     r \<leftarrow> issue (GetMaintenance ns name) (\<lambda>h. e_GetMaintenance E h ns name);
     State_Monad.return (case r of
       Inl err \<Rightarrow> Inl (wrap (err_msg err) (''failed to get CephDeploymentMaintenance '' @ ns @ ''/'' @ name))
     | Inr cdm \<Rightarrow> Inr (case cdm_Status cdm of
         None \<Rightarrow> False
       | Some st \<Rightarrow> mnt_State st = MaintenanceActing \<or> mnt_State st = MaintenanceFailing))
   }"

text \<open>Whether a task needs the operator to be stopped.\<close>

definition needs_operator_down :: "CephOsdRemoveTask \<Rightarrow> bool" where
  "needs_operator_down task =
     (case task_Status task of
        None \<Rightarrow> False
      | Some st \<Rightarrow>
          st_Phase st = TaskPhaseWaitingOperator \<or> st_Phase st = TaskPhaseProcessing \<or>
          st_Phase st = TaskPhaseFailed \<and> (case task_Spec task of None \<Rightarrow> True | Some sp \<Rightarrow> \<not> ts_Resolved sp))"

text \<open>The loop stops at the first such task.\<close>

fun downScale :: "CephOsdRemoveTask list \<Rightarrow> bool" where
  "downScale [] = False"
| "downScale (task # tasks) = (if needs_operator_down task then True else downScale tasks)"

definition scale_operator :: "env \<Rightarrow> LcmConfig \<Rightarrow> int \<Rightarrow> int \<Rightarrow> string option io" where
  "scale_operator E lcmConfig currentReplicas desiredReplicas =
     (if currentReplicas \<noteq> desiredReplicas then do {
        err \<leftarrow> ScaleDeployment E RookCephOperatorName (lc_RookNamespace lcmConfig) desiredReplicas;
        State_Monad.return (map_option (\<lambda>e. wrap (err_msg e) (''failed to scale rook operator ''
          @ quoted (lc_RookNamespace lcmConfig @ ''/'' @ RookCephOperatorName))) err)
      }
      else State_Monad.return None)"

definition checkRookOperatorReplicas :: "env \<Rightarrow> LcmConfig \<Rightarrow> infraConfig \<Rightarrow> string option io" where
  "checkRookOperatorReplicas E lcmConfig ic = do {
     r \<leftarrow> issue (GetDeployment (lc_RookNamespace lcmConfig) RookCephOperatorName)
            (\<lambda>h. e_GetDeployment E h (lc_RookNamespace lcmConfig) RookCephOperatorName);
     case r of
       Inl err \<Rightarrow> State_Monad.return (Some (wrap (err_msg err) (''failed to check replicas for rook operator ''
         @ quoted (lc_RookNamespace lcmConfig @ ''/'' @ RookCephOperatorName))))
     | Inr rookOperator \<Rightarrow> do {
         let currentReplicas = (case dep_SpecReplicas rookOperator of None \<Rightarrow> 1 | Some n \<Rightarrow> n);
         m \<leftarrow> IsClusterMaintenanceActing E (ic_namespace ic) (ic_name ic);
         case m of
           Inl err \<Rightarrow> State_Monad.return (Some (wrap err ''failed to check CephDeploymentMaintenance state''))
         | Inr maintenance \<Rightarrow>
             if maintenance then scale_operator E lcmConfig currentReplicas 0
             else if ic_externalCeph ic then scale_operator E lcmConfig currentReplicas 1
             else do {
               tasks \<leftarrow> issue (ListTasks (ic_namespace ic)) (\<lambda>h. e_ListTasks E h (ic_namespace ic));
               case tasks of
                 Inl err \<Rightarrow> State_Monad.return (Some (wrap (err_msg err) ''failed to check CephOsdRemoveTasks''))
               | Inr taskList \<Rightarrow> scale_operator E lcmConfig currentReplicas (if downScale taskList then 0 else 1)
             }
       }
   }"

lemma downScale_iff: "downScale tasks \<longleftrightarrow> (\<exists>task \<in> set tasks. needs_operator_down task)"
  by (induction tasks) auto

end
