(* ===== verification/Task_Theorems.thy ===== *)
theory Task_Theorems
  imports Task_Calls Task_Example Rook_Operator
begin

text \<open>
  The theorems about the life of a task: the phase machine, the reconcile loop around it, and the
  scaling of the Rook operator that the two controllers agree on through the phase of the task.
\<close>

section \<open>The phase machine\<close>

text \<open>C39. The handler refines the phase machine: on a status with a history, one call either keeps the phase and
  the conditions, or makes one step of \<open>phase_step\<close> and appends exactly one condition, which records
  the new phase, the nodes of the task and the generation of the cluster.\<close>

theorem handler_refines_phase_machine:
  assumes "task_Status (tk_task (rc_taskConfig c)) = Some st" and "st_Conditions st \<noteq> []" and "handled E c h = Some st'"
  shows "st_Phase st' = st_Phase st \<and> st_Conditions st' = st_Conditions st \<or>
    phase_step (st_Phase st) (st_Phase st') \<and>
    (\<exists>cond. st_Conditions st' = st_Conditions st @ [cond] \<and> tc_Phase cond = st_Phase st')"
proof -
  from assms(3,1) have "outcome E c h st'" by (rule handled_outcome)
  from outcome_step [OF this] assms(2) show ?thesis by (simp add: task_status_some [OF assms(1)])
qed

theorem handler_refines_phase_machine_witness:
  "phase_step (st_Phase (life 0)) (st_Phase (life 1)) \<and> length (st_Conditions (life 1)) = 2"
proof -
  have "st_Conditions (life 0) \<noteq> []" by code_simp
  note step = handler_refines_phase_machine [OF with_status_simps(1) this life_1]
  have "st_Phase (life 1) \<noteq> st_Phase (life 0)" "length (st_Conditions (life 1)) = 2" by code_simp+
  with step show ?thesis by blast
qed

text \<open>The conditions of a task are its true history: in every status a task can reach they begin with
  \<^verbatim>\<open>Pending\<close>, end with the current phase, and each follows from the one before by a step of the phase
  machine or an abort. So a task that is being processed was waiting for the operator right before.\<close>

theorem task_history_is_a_path:
  assumes "reachable st"
  shows "st_Conditions st \<noteq> [] \<and> tc_Phase (hd (st_Conditions st)) = TaskPhasePending \<and>
    tc_Phase (last (st_Conditions st)) = st_Phase st \<and>
    successively (\<lambda>p q. phase_step p q \<or> q = TaskPhaseAborted) (map tc_Phase (st_Conditions st))"
  using reachable_history [OF assms] by (simp add: history_ok_def wf_status_def history_step_def)

theorem task_history_is_a_path_witness:
  "map tc_Phase (st_Conditions (life 9)) =
     [TaskPhasePending, TaskPhaseValidating, TaskPhaseWaitingOperator, TaskPhaseProcessing, TaskPhaseCompleted] \<and>
   successively (\<lambda>p q. phase_step p q \<or> q = TaskPhaseAborted) (map tc_Phase (st_Conditions (life 9)))"
proof -
  have "map tc_Phase (st_Conditions (life 9)) =
     [TaskPhasePending, TaskPhaseValidating, TaskPhaseWaitingOperator, TaskPhaseProcessing, TaskPhaseCompleted]" by code_simp
  with task_history_is_a_path [OF life_9_reachable] show ?thesis by simp
qed

text \<open>C27. Validation and executor fit together: in every reachable status that waits for approval, waits for the
  operator or is being processed, the removal info is there, its cleanup map is well formed with statuses
  the executor can continue from, and no host has two running cleanup jobs.\<close>

theorem executor_finds_valid_map:
  assumes "reachable st" and "st_Phase st \<in> {TaskPhaseApproveWaiting, TaskPhaseWaitingOperator, TaskPhaseProcessing}"
  shows "\<exists>ri. st_RemoveInfo st = Some ri \<and> wf_run (tri_CleanupMap ri) \<and> one_job (tri_CleanupMap ri)"
  using reachable_runnable [OF assms(1)] assms(2) unfolding runnable_def by blast

theorem executor_finds_valid_map_witness:
  "st_Phase (life 7) = TaskPhaseProcessing \<and> (\<exists>ri. st_RemoveInfo (life 7) = Some ri \<and> wf_run (tri_CleanupMap ri) \<and> one_job (tri_CleanupMap ri))"
proof -
  have p: "st_Phase (life 7) = TaskPhaseProcessing" by code_simp
  then have "st_Phase (life 7) \<in> {TaskPhaseApproveWaiting, TaskPhaseWaitingOperator, TaskPhaseProcessing}" by simp
  from executor_finds_valid_map [OF life_7_reachable this] p show ?thesis by simp
qed

text \<open>C1. A task that the handler moves from \<^verbatim>\<open>Processing\<close> to a completed phase has done what was approved: every
  OSD of the cleanup map is removed, or skipped as a stray, its device cleanup job has completed or was
  skipped on purpose, and its deployment is gone or kept on purpose.\<close>

theorem completed_task_removed_everything:
  assumes "reachable st" and "task_Status (tk_task (rc_taskConfig c)) = Some st" and "st_Phase st = TaskPhaseProcessing"
    and "handled E c h = Some st'" and "st_Phase st' \<in> {TaskPhaseCompleted, TaskPhaseCompletedWithWarnings}"
    and "st_RemoveInfo st = Some ri" and "osd_at (tri_CleanupMap ri) host osdID = Some om"
  shows "\<exists>ri' om'. st_RemoveInfo st' = Some ri' \<and> osd_at (tri_CleanupMap ri') host osdID = Some om' \<and> osd_done om' \<and> settled om'"
proof -
  have ts: "task_status c = st" by (rule task_status_some [OF assms(2)])
  from assms(4,2) have "outcome E c h st'" by (rule handled_outcome)
  then show ?thesis
  proof cases
    case (finish ri0)
    then have ri0: "ri0 = ri" using ts assms(6) by simp
    have "tri_Issues (run_info E c ri h) = []"
      using finish(4) assms(5) ri0 by (auto simp: moves_to_def completion_phase_def split: if_splits)
    moreover have "wf_run (tri_CleanupMap ri)" using reachable_runnable [OF assms(1)] assms(3,6) by (simp add: runnable_def)
    ultimately show ?thesis using run_settled [of ri E c h, OF _ _ _ assms(7)] finish(3,4) ri0 by (simp add: moves_to_def)
  qed (use ts assms in \<open>auto simp: moves_to_def history_ok_def wf_status_def dest!: reachable_history\<close>)
qed

theorem completed_task_removed_everything_witness:
  "\<exists>ri om. st_RemoveInfo (life 9) = Some ri \<and> osd_at (tri_CleanupMap ri) ''node-a'' ''0'' = Some om \<and> osd_done om \<and> settled om"
proof -
  have "(case st_RemoveInfo (life 8) of None \<Rightarrow> False | Some ri \<Rightarrow> osd_at (tri_CleanupMap ri) ''node-a'' ''0'' \<noteq> None)" by code_simp
  then obtain ri om where ri: "st_RemoveInfo (life 8) = Some ri" and om: "osd_at (tri_CleanupMap ri) ''node-a'' ''0'' = Some om"
    by (auto split: option.splits)
  have p: "st_Phase (life 8) = TaskPhaseProcessing" and d: "st_Phase (life 9) \<in> {TaskPhaseCompleted, TaskPhaseCompletedWithWarnings}"
    by code_simp+
  from completed_task_removed_everything [OF life_8_reachable with_status_simps(1) p life_9 d ri om] show ?thesis by blast
qed

section \<open>Approval and the operator\<close>

text \<open>C7. No removal without approval: the handler moves a task to \<^verbatim>\<open>WaitingOperator\<close>, the only way towards
  \<^verbatim>\<open>Processing\<close>, only when the specification of the task has the approve flag, coming from a successful
  validation with something to remove or from \<^verbatim>\<open>ApproveWaiting\<close>.\<close>

theorem approval_is_required:
  assumes "task_Status (tk_task (rc_taskConfig c)) = Some st" and "st_Conditions st \<noteq> []"
    and "handled E c h = Some st'" and "st_Phase st' = TaskPhaseWaitingOperator" and "st_Phase st \<noteq> TaskPhaseWaitingOperator"
  shows "approved (tk_task (rc_taskConfig c)) \<and>
    (st_Phase st = TaskPhaseApproveWaiting \<and> st_RemoveInfo st' = st_RemoveInfo st \<or>
     st_Phase st = TaskPhaseValidating \<and> (\<exists>ri. st_RemoveInfo st' = Some ri \<and> validated E c h = Some ri \<and> tri_Issues ri = [] \<and> tri_CleanupMap ri \<noteq> []))"
proof -
  have ts: "task_status c = st" by (rule task_status_some [OF assms(1)])
  from assms(3,1) have "outcome E c h st'" by (rule handled_outcome)
  then show ?thesis
  proof cases
    case (validate ri)
    then show ?thesis using assms(4) ts by (auto simp: moves_to_def validation_phase_def split: if_splits)
  next
    case (finish ri)
    then show ?thesis using assms(4) by (auto simp: moves_to_def completion_phase_def split: if_splits)
  qed (use ts assms in \<open>auto simp: moves_to_def\<close>)
qed

theorem approval_is_required_witness:
  "approved (tk_task (rc_taskConfig (life_config 1))) \<and> st_Phase (life 2) = TaskPhaseWaitingOperator"
proof -
  have 2: "st_Conditions (life 1) \<noteq> []" "st_Phase (life 2) = TaskPhaseWaitingOperator" "st_Phase (life 1) \<noteq> TaskPhaseWaitingOperator"
    by code_simp+
  from approval_is_required [OF with_status_simps(1) 2(1) life_2 2(2,3)] 2(2) show ?thesis by blast
qed

text \<open>C29. Processing starts only with the Rook operator stopped and nothing changed since the approval: the handler
  moves a task to \<^verbatim>\<open>Processing\<close> only from \<^verbatim>\<open>WaitingOperator\<close>, when the generation of the cluster and the nodes
  of the task are those of the last condition, and when the operator deployment it just read has no
  replicas of any kind; the approved removal info is kept.\<close>

theorem processing_needs_stopped_operator:
  assumes "task_Status (tk_task (rc_taskConfig c)) = Some st" and "st_Conditions st \<noteq> []"
    and "handled E c h = Some st'" and "st_Phase st' = TaskPhaseProcessing" and "st_Phase st \<noteq> TaskPhaseProcessing"
  shows "st_Phase st = TaskPhaseWaitingOperator \<and> st_RemoveInfo st' = st_RemoveInfo st \<and> specChanges (rc_taskConfig c) = [] \<and>
    (\<exists>deploy. e_GetDeployment E h (cluster_ns c) RookCephOperatorName = Inr deploy \<and>
       dep_Replicas deploy = 0 \<and> dep_ReadyReplicas deploy = 0 \<and> dep_AvailableReplicas deploy = 0)"
proof -
  have ts: "task_status c = st" by (rule task_status_some [OF assms(1)])
  from assms(3,1) have "outcome E c h st'" by (rule handled_outcome)
  then show ?thesis
  proof cases
    case run
    then show ?thesis using ts by (auto simp: moves_to_def operator_stopped_def checkOperatorStopped_def split: sum.splits)
  next
    case (validate ri)
    then show ?thesis using assms(4) by (auto simp: moves_to_def validation_phase_def split: if_splits)
  qed (use ts assms in \<open>auto simp: moves_to_def\<close>)
qed

theorem processing_needs_stopped_operator_witness:
  "st_Phase (life 3) = TaskPhaseProcessing \<and> specChanges (rc_taskConfig (life_config 2)) = []"
proof -
  have 2: "st_Conditions (life 2) \<noteq> []" "st_Phase (life 3) = TaskPhaseProcessing" "st_Phase (life 2) \<noteq> TaskPhaseProcessing"
    by code_simp+
  from processing_needs_stopped_operator [OF with_status_simps(1) 2(1) life_3 2(2,3)] 2(2) show ?thesis by blast
qed

text \<open>Before \<^verbatim>\<open>Processing\<close> the handler only looks: whatever the phase, the answers of the cluster and the
  specification, every call it issues reads an object, asks the clock, waits, or runs one of the four
  commands that only print.\<close>

theorem only_processing_changes_the_cluster:
  assumes "st_Phase (task_status c) \<noteq> TaskPhaseProcessing"
    and "x \<in> set (drop (length h) (snd (run_state (handleTask E c) h)))"
  shows "observes x"
  using calls_in_drop [OF handleTask_observes [OF assms(1)] assms(2)] .

theorem only_processing_changes_the_cluster_witness:
  "observes (Exec ''rook'' ''toolbox'' ''c'' ''ceph osd tree -f json'')"
  by (rule only_processing_changes_the_cluster [where E = life_env and h = "[]" and c = "life_config 1"]) code_simp+

text \<open>A finished task stays finished: in a terminal phase the handler returns the status as it is and issues no
  call at all.\<close>

theorem terminal_task_is_untouched:
  assumes "task_Status (tk_task (rc_taskConfig c)) = Some st" and "st_Conditions st \<noteq> []" and "\<not> checkTaskActive (Some st)"
  shows "run_state (handleTask E c) h = (Some (st, False), h)"
  using assms by (auto simp: handleTask_def status_of_def checkTaskActive_def Let_def)

theorem terminal_task_is_untouched_witness:
  "run_state (handleTask life_env (life_config 9)) [] = (Some (life 9, False), [])"
proof (rule terminal_task_is_untouched)
  show "st_Conditions (life 9) \<noteq> []" "\<not> checkTaskActive (Some (life 9))" by code_simp+
qed simp

text \<open>An approval is taken even if what was approved is out of date. In \<^verbatim>\<open>ApproveWaiting\<close> the approve flag is
  looked at before the check for changes, so a task whose nodes, or whose cluster, changed since the
  validation moves on with the old removal info, and the new condition records the changed values, so
  that the later check for changes finds none.\<close>

theorem stale_approval_is_accepted:
  assumes "task_Status (tk_task (rc_taskConfig c)) = Some st" and "st_Conditions st \<noteq> []"
    and "st_Phase st = TaskPhaseApproveWaiting" and "approved (tk_task (rc_taskConfig c))"
  shows "\<exists>st'. handled E c h = Some st' \<and> st_Phase st' = TaskPhaseWaitingOperator \<and> st_RemoveInfo st' = st_RemoveInfo st \<and>
    specChanges (rc_taskConfig (with_status st' c)) = []"
proof -
  have eq: "nodes_eq n n" for n by (cases n) (simp_all add: map_eq_iff)
  show ?thesis
    using assms
    by (auto simp: handled_def handleTask_def status_of_def Let_def move_def moveTaskPhase_def GetCurrentTimeString_def
        specChanges_def with_status_def spec_nodes_def eq)
qed

definition stale_status :: CephOsdRemoveTaskStatus where
  "stale_status = (life 2)\<lparr>st_Phase := TaskPhaseApproveWaiting\<rparr>"

theorem stale_approval_is_accepted_witness:
  "specChanges (rc_taskConfig (with_status stale_status (vs_config [(''node-a'', vs_clean_up)]))) = [''task has changed nodes section''] \<and>
   (\<exists>st'. handled life_env (with_status stale_status (vs_config [(''node-a'', vs_clean_up)])) [] = Some st' \<and>
      st_Phase st' = TaskPhaseWaitingOperator \<and> st_RemoveInfo st' = st_RemoveInfo stale_status)"
proof -
  let ?c = "with_status stale_status (vs_config [(''node-a'', vs_clean_up)])"
  have 1: "task_Status (tk_task (rc_taskConfig ?c)) = Some stale_status" by simp
  have 2: "st_Conditions stale_status \<noteq> []" "st_Phase stale_status = TaskPhaseApproveWaiting" "approved (tk_task (rc_taskConfig ?c))"
    "specChanges (rc_taskConfig ?c) = [''task has changed nodes section'']" by code_simp+
  from stale_approval_is_accepted [OF 1 2(1-3)] 2(4) show ?thesis by blast
qed

end
