(* ===== verification/Reconcile_Theorems.thy ===== *)
theory Reconcile_Theorems
  imports Task_Calls Task_Example Rook_Operator
begin

text \<open>
  The theorems about the reconcile loop: which task is worked on, what is written back, when the
  cluster may be changed, and when the Rook operator is scaled.
\<close>

definition reconcile_calls :: "env \<Rightarrow> LcmConfig \<Rightarrow> string \<Rightarrow> string \<Rightarrow> hist \<Rightarrow> call list" where
  "reconcile_calls E lcmConfig ns name h = drop (length h) (snd (run_state (Reconcile E lcmConfig ns name) h))"

text \<open>A concrete run: one task with a given status, and everything around it in place.\<close>

definition rec_health :: CephDeploymentHealth where
  "rec_health = \<lparr>cdh_Name = ''cluster'', cdh_Namespace = ''pelagia'', cdh_UID = ''2'', cdh_HealthReport = Some
     \<lparr>hrp_RookOperator = sc_daemon, hrp_RookCephObjects = Some \<lparr>rco_CephCluster = Some (cc_Status sc_cluster)\<rparr>,
      hrp_OsdAnalysis = Some (tk_cephHealthOsdAnalysis (rc_taskConfig (vs_config [])))\<rparr>\<rparr>"

definition rec_task :: "nat \<Rightarrow> CephOsdRemoveTask" where
  "rec_task n = (vs_task [])\<lparr>task_Status := Some (life n),
     task_OwnerReferences := [\<lparr>or_APIVersion = ''v1'', or_Kind = ''Kind'', or_Name = ''cluster'', or_UID = ''2''\<rparr>]\<rparr>"

definition rec_env :: "nat \<Rightarrow> env" where
  "rec_env n = life_env\<lparr>e_GetTask := (\<lambda>_ _ _. Inr (rec_task n)), e_ListTasks := (\<lambda>_ _. Inr [rec_task n]),
     e_ListHealths := (\<lambda>_ _. Inr [rec_health]), e_GetCephCluster := (\<lambda>_ _ _. Inr (tk_cephCluster (rc_taskConfig (vs_config []))))\<rparr>"

section \<open>The oldest task\<close>

definition best_of :: "CephOsdRemoveTask list \<Rightarrow> CephOsdRemoveTask option \<Rightarrow> bool" where
  "best_of ts best \<longleftrightarrow> (case best of
     None \<Rightarrow> list_all (\<lambda>t. \<not> checkTaskActive (task_Status t)) ts
   | Some b \<Rightarrow> b \<in> set ts \<and> checkTaskActive (task_Status b) \<and>
       (\<forall>t \<in> set ts. checkTaskActive (task_Status t) \<longrightarrow> task_CreationTimestamp b \<le> task_CreationTimestamp t))"

lemma best_of_step: "best_of ts best \<Longrightarrow> best_of (ts @ [t]) (older_task t best)"
  by (cases best) (auto simp: best_of_def older_task_def list_all_iff)

lemma best_of_fold: "best_of ts best \<Longrightarrow> best_of (ts @ us) (fold older_task us best)"
proof (induction us arbitrary: ts best)
  case (Cons u us)
  from Cons.IH [OF best_of_step [OF Cons.prems, of u]] show ?case by simp
qed simp

text \<open>Of all active tasks the controller works on one that was created first: the chosen name belongs to a
  task of the list that is active and no active task is older; no name is chosen exactly when no task is
  active.\<close>

theorem oldest_active_task_is_chosen:
  "if \<exists>t \<in> set tasks. checkTaskActive (task_Status t)
   then \<exists>b \<in> set tasks. task_Name b = getOldestCephOsdRemoveTaskName tasks \<and> checkTaskActive (task_Status b) \<and>
     (\<forall>t \<in> set tasks. checkTaskActive (task_Status t) \<longrightarrow> task_CreationTimestamp b \<le> task_CreationTimestamp t)
   else getOldestCephOsdRemoveTaskName tasks = []"
proof -
  have "best_of ([] @ tasks) (fold older_task tasks None)" by (rule best_of_fold) (simp add: best_of_def)
  then show ?thesis
    by (cases "fold older_task tasks None")
      (auto simp: best_of_def getOldestCephOsdRemoveTaskName_def list_all_iff)
qed

theorem oldest_active_task_is_chosen_witness:
  "getOldestCephOsdRemoveTaskName [sc_task, sc_task\<lparr>task_Name := ''old'', task_CreationTimestamp := 3\<rparr>] = ''old'' \<and>
   (\<exists>b \<in> set [sc_task, sc_task\<lparr>task_Name := ''old'', task_CreationTimestamp := 3\<rparr>].
      task_Name b = ''old'' \<and> checkTaskActive (task_Status b))"
proof -
  let ?ts = "[sc_task, sc_task\<lparr>task_Name := ''old'', task_CreationTimestamp := 3\<rparr>]"
  have 1: "getOldestCephOsdRemoveTaskName ?ts = ''old''" by code_simp
  have "\<exists>t \<in> set ?ts. checkTaskActive (task_Status t)" by code_simp
  with oldest_active_task_is_chosen [of ?ts] 1 show ?thesis by auto
qed

section \<open>What a reconcile run writes\<close>

text \<open>C38. The reconcile loop refines the life of a task: every status it writes is written for the task it was
  called for, and it is the initial status if the task had none, and otherwise reached from the status it
  read by steps of \<open>task_step\<close>, whatever the API server and the cluster answer.\<close>

theorem reconcile_writes_task_steps:
  assumes "\<And>t. e_GetTask E h ns name = Inr t \<Longrightarrow> (case spec_nodes t of None \<Rightarrow> True | Some nodes \<Rightarrow> wf_map nodes)"
    and "UpdateTaskStatus ns' name' st' \<in> set (reconcile_calls E lcmConfig ns name h)"
  shows "ns' = ns \<and> name' = name \<and> (\<exists>t. e_GetTask E h ns name = Inr t \<and>
    (case task_Status t of
       None \<Rightarrow> \<exists>h1 h2. run_state (prepareInitStatus E t) h1 = (st', h2)
     | Some st \<Rightarrow> task_step\<^sup>*\<^sup>* st st'))"
proof -
  let ?ok = "\<lambda>st'. \<exists>t. e_GetTask E h ns name = Inr t \<and> (case task_Status t of
       None \<Rightarrow> \<exists>h1 h2. run_state (prepareInitStatus E t) h1 = (st', h2) | Some st \<Rightarrow> task_step\<^sup>*\<^sup>* st st')"
  let ?P = "\<lambda>x. \<forall>a b st. x = UpdateTaskStatus a b st \<longrightarrow> a = ns \<and> b = name \<and> ?ok st"
  have cleared: "task_step\<^sup>*\<^sup>* st st'" if "task_step (st\<lparr>st_PhaseInfo := []\<rparr>) st'" for st st'
    using converse_rtranclp_into_rtranclp [of task_step st "st\<lparr>st_PhaseInfo := []\<rparr>" st'] task_step.noted [of st "[]"] that by blast
  have exec: "calls_in ?P (processOsdRemoveTask E c ri)" for c ri
    by (rule processOsdRemoveTask_calls) (auto elim: harmless.elims)
  have handler: "calls_in ?P (handleTask E c)" for c
  proof (cases "st_Phase (task_status c) = TaskPhaseProcessing")
    case True
    then show ?thesis
      unfolding handleTask_def handle_processing_def processTask_def Let_def task_status_def
      by (intro calls_intro exec) simp_all
  next
    case False
    show ?thesis by (rule calls_in_mono [OF handleTask_observes [OF False]]) auto
  qed
  have "?P (UpdateTaskStatus ns' name' st')"
  proof (rule reconcile_after_read [OF assms(2) [unfolded reconcile_calls_def]])
    fix t st and c :: cephOsdRemoveConfig
    assume t: "e_GetTask E h ns name = Inr t" "task_Status t = Some st"
      and c: "tk_task (rc_taskConfig c) = t\<lparr>task_Status := Some (st\<lparr>st_PhaseInfo := []\<rparr>)\<rparr>"
    have wf: "wf_map (named_nodes c)"
      using assms(1) [OF t(1)] c by (auto simp: named_nodes_def spec_nodes_def split: option.splits)
    show "calls_in ?P (reconcile_task E ns name c)"
    proof (rule reconcile_task_calls [OF handler])
      fix h1 st1 rq h2
      assume "run_state (handleTask E c) h1 = (Some (st1, rq), h2)"
      then have "task_step (st\<lparr>st_PhaseInfo := []\<rparr>) st1" by (intro task_step.handled [of c]) (simp_all add: c wf)
      with cleared t show "?P (UpdateTaskStatus ns name st1)" by auto
    qed simp
  next
    fix t st reason h1 st1 h2
    assume t: "e_GetTask E h ns name = Inr t" "task_Status t = Some st"
      and "run_state (prepareAbortStatus E (st\<lparr>st_PhaseInfo := []\<rparr>) reason) h1 = (st1, h2)"
    then show "?P (UpdateTaskStatus ns name st1)" using cleared task_step.aborted by auto
  next
    fix t st msg
    assume "e_GetTask E h ns name = Inr t" "task_Status t = Some st"
    then show "?P (UpdateTaskStatus ns name (st\<lparr>st_PhaseInfo := msg\<rparr>))" using task_step.noted by auto
  qed auto
  then show ?thesis by simp
qed

theorem reconcile_writes_task_steps_witness:
  "\<exists>st'. UpdateTaskStatus ''pelagia'' ''task'' st' \<in> set (reconcile_calls (rec_env 0) sc_params ''pelagia'' ''task'' []) \<and>
     st_Phase st' = TaskPhaseValidating \<and> task_step\<^sup>*\<^sup>* (life 0) st'"
proof -
  let ?cs = "reconcile_calls (rec_env 0) sc_params ''pelagia'' ''task'' []"
  have 1: "list_ex (\<lambda>x. case x of UpdateTaskStatus a b st \<Rightarrow> a = ''pelagia'' \<and> b = ''task'' \<and> st_Phase st = TaskPhaseValidating | _ \<Rightarrow> False) ?cs"
    by code_simp
  then obtain x where "x \<in> set ?cs"
    "case x of UpdateTaskStatus a b st \<Rightarrow> a = ''pelagia'' \<and> b = ''task'' \<and> st_Phase st = TaskPhaseValidating | _ \<Rightarrow> False"
    by (auto simp: list_ex_iff)
  then obtain st' where st': "UpdateTaskStatus ''pelagia'' ''task'' st' \<in> set ?cs" "st_Phase st' = TaskPhaseValidating"
    by (cases x rule: call.exhaust) auto
  have get: "e_GetTask (rec_env 0) [] ''pelagia'' ''task'' = Inr (rec_task 0)" by (simp add: rec_env_def)
  have "(case spec_nodes (rec_task 0) of None \<Rightarrow> True | Some nodes \<Rightarrow> wf_map nodes)" by code_simp
  with get have wf: "e_GetTask (rec_env 0) [] ''pelagia'' ''task'' = Inr t \<Longrightarrow> (case spec_nodes t of None \<Rightarrow> True | Some nodes \<Rightarrow> wf_map nodes)" for t
    by simp
  from reconcile_writes_task_steps [OF wf st'(1)] get have "task_step\<^sup>*\<^sup>* (life 0) st'"
    by (auto simp: rec_task_def)
  with st' show ?thesis by blast
qed

section \<open>When the cluster may be changed\<close>

definition rewrites_task :: "call \<Rightarrow> bool" where
  "rewrites_task x \<longleftrightarrow> (case x of UpdateTaskStatus _ _ _ \<Rightarrow> True | UpdateTask _ \<Rightarrow> True | DeleteTask _ _ \<Rightarrow> True | _ \<Rightarrow> False)"

text \<open>C4. A reconcile run changes the cluster, by a Ceph command, a job or a deployment, only for a task that is
  in the phase \<^verbatim>\<open>Processing\<close> and that the controller saw as the oldest active one. Every other call of any run
  reads something or rewrites the task object itself.\<close>

theorem reconcile_changes_cluster_only_when_processing:
  assumes "x \<in> set (reconcile_calls E lcmConfig ns name h)" and "\<not> observes x" and "\<not> rewrites_task x"
  shows "\<exists>t st. e_GetTask E h ns name = Inr t \<and> task_Status t = Some st \<and> st_Phase st = TaskPhaseProcessing \<and>
    (\<exists>h' tasks. e_ListTasks E h' ns = Inr tasks \<and> getOldestCephOsdRemoveTaskName tasks = name)"
proof (rule ccontr)
  assume no: "\<not> ?thesis"
  let ?P = "\<lambda>x. observes x \<or> rewrites_task x"
  have "?P x"
  proof (rule reconcile_after_read [OF assms(1) [unfolded reconcile_calls_def]])
    fix t st and c :: cephOsdRemoveConfig
    assume t: "e_GetTask E h ns name = Inr t" "task_Status t = Some st" "oldest_seen E ns name"
      and c: "tk_task (rc_taskConfig c) = t\<lparr>task_Status := Some (st\<lparr>st_PhaseInfo := []\<rparr>)\<rparr>"
    from no t have "st_Phase st \<noteq> TaskPhaseProcessing" by (auto simp: oldest_seen_def)
    with c have "st_Phase (task_status c) \<noteq> TaskPhaseProcessing" by (simp add: task_status_def status_of_def)
    from calls_in_mono [OF handleTask_observes [OF this]] show "calls_in ?P (reconcile_task E ns name c)"
      by (intro reconcile_task_calls) (auto simp: rewrites_task_def)
  qed (auto simp: rewrites_task_def)
  with assms(2,3) show False by simp
qed

theorem reconcile_changes_cluster_only_when_processing_witness:
  "\<exists>t st. e_GetTask (rec_env 3) [] ''pelagia'' ''task'' = Inr t \<and> task_Status t = Some st \<and> st_Phase st = TaskPhaseProcessing \<and>
    (\<exists>h' tasks. e_ListTasks (rec_env 3) h' ''pelagia'' = Inr tasks \<and> getOldestCephOsdRemoveTaskName tasks = ''task'')"
  by (rule reconcile_changes_cluster_only_when_processing [where lcmConfig = sc_params and
        x = "Exec ''rook'' ''toolbox'' ''c'' (cmd_reweight ''0'')"]) code_simp+

section \<open>The Rook operator\<close>

text \<open>C40. The operator stays down while a task may be removing OSDs: the infra controller scales it up only if it
  manages an external cluster, where no task is processed, or if no task in the list it just read is
  waiting for the operator, being processed, or failed and not yet marked as resolved.\<close>

theorem operator_started_only_without_tasks:
  assumes "UpdateScale ns' deploy n \<in> set (drop (length h) (snd (run_state (checkRookOperatorReplicas E lcmConfig ic) h)))"
    and "n \<noteq> 0"
  shows "n = 1 \<and> (ic_externalCeph ic \<or>
    (\<exists>h' tasks. e_ListTasks E h' (ic_namespace ic) = Inr tasks \<and>
      (\<forall>t \<in> set tasks. \<forall>st. task_Status t = Some st \<longrightarrow> st_Phase st \<noteq> TaskPhaseWaitingOperator \<and> st_Phase st \<noteq> TaskPhaseProcessing \<and>
         (st_Phase st = TaskPhaseFailed \<longrightarrow> (\<exists>sp. task_Spec t = Some sp \<and> ts_Resolved sp)))))"
proof -
  let ?idle = "ic_externalCeph ic \<or> (\<exists>h' tasks. e_ListTasks E h' (ic_namespace ic) = Inr tasks \<and> \<not> downScale tasks)"
  let ?P = "\<lambda>x. \<forall>a b n. x = UpdateScale a b n \<longrightarrow> n = 0 \<or> n = 1 \<and> ?idle"
  have scale: "calls_in ?P (scale_operator E lcmConfig cur n)" if "n = 0 \<or> n = 1 \<and> ?idle" for cur n
    unfolding scale_operator_def using that by (intro calls_intro) auto
  have "calls_in ?P (checkRookOperatorReplicas E lcmConfig ic)"
    unfolding checkRookOperatorReplicas_def IsClusterMaintenanceActing_def Let_def
    by (intro strong_calls scale) (auto split: if_splits)
  from calls_in_drop [OF this assms(1)] assms(2) have idle: "n = 1" ?idle by auto
  have "\<not> needs_operator_down t \<longleftrightarrow> (\<forall>st. task_Status t = Some st \<longrightarrow> st_Phase st \<noteq> TaskPhaseWaitingOperator \<and>
      st_Phase st \<noteq> TaskPhaseProcessing \<and> (st_Phase st = TaskPhaseFailed \<longrightarrow> (\<exists>sp. task_Spec t = Some sp \<and> ts_Resolved sp)))" for t
    by (cases "task_Status t"; cases "task_Spec t") (auto simp: needs_operator_down_def)
  with idle show ?thesis unfolding downScale_iff by blast
qed

theorem operator_started_only_without_tasks_witness:
  "\<exists>h' tasks. e_ListTasks (rec_env 9\<lparr>e_GetMaintenance := (\<lambda>_ _ _. Inr \<lparr>cdm_Status = None\<rparr>)\<rparr>) h' ''pelagia'' = Inr tasks \<and>
     (\<forall>t \<in> set tasks. \<forall>st. task_Status t = Some st \<longrightarrow> st_Phase st \<noteq> TaskPhaseProcessing)"
proof -
  let ?E = "rec_env 9\<lparr>e_GetMaintenance := (\<lambda>_ _ _. Inr \<lparr>cdm_Status = None\<rparr>)\<rparr>"
  let ?ic = "\<lparr>ic_name = ''cluster'', ic_namespace = ''pelagia'', ic_externalCeph = False\<rparr>"
  have "UpdateScale ''rook'' RookCephOperatorName 1 \<in> set (drop (length ([] :: hist)) (snd (run_state (checkRookOperatorReplicas ?E sc_params ?ic) [])))"
    by code_simp
  from operator_started_only_without_tasks [OF this] show ?thesis by fastforce
qed

end
