(* ===== verification/Disk_Types.thy ===== *)
theory Disk_Types
  imports Common
begin

text \<open>
  The data of the disk daemon (\<^verbatim>\<open>src/pkg/disk-daemon\<close>) and its outside world. The daemon runs
  shell commands and reads the clock; a computation appends these calls to its history, and the
  answers come from a \<open>denv\<close>, a record of functions of the history, which also holds the JSON
  decoders of the four outputs the daemon reads.

  \<^verbatim>\<open>reflect.DeepEqual\<close> tells a nil slice or map from an empty one. Where such values are compared,
  \<open>None\<close> is nil.
\<close>

datatype DeviceLsblk = DeviceLsblk
  (dl_Name: string) (dl_Kname: string) (dl_Serial: string) (dl_MajMin: string) (dl_Rotational: bool)
  (dl_Type: string) (dl_Parent: string) (dl_Childrens: "DeviceLsblk list") (dl_FsType: string)

record LsblkReport =
  lsb_Blockdevices :: "DeviceLsblk list"

record LvReport =
  lv_LvDmPath :: string

record LvmReportField =
  lrf_Lvs :: "LvReport list"

record LvmReport =
  lmr_Report :: "LvmReportField list"

record OsdVolumeLvmTags =
  ovt_BlockDevice :: string
  ovt_DBDevice :: string
  ovt_ClusterFSID :: string
  ovt_OsdFSID :: string

record OsdVolumeLvmInfo =
  ovl_Devices :: "string list option"
  ovl_LvPath :: string
  ovl_Path :: string
  ovl_Tags :: OsdVolumeLvmTags
  ovl_Type :: string

record OsdVolumeRawInfo =
  ovr_ClusterFSID :: string
  ovr_Device :: string
  ovr_OsdID :: int
  ovr_OsdFSID :: string

type_synonym volumes_lvm = "(string, OsdVolumeLvmInfo list option) gomap option"
type_synonym volumes_raw = "(string, OsdVolumeRawInfo) gomap option"

text \<open>The elements of a slice or the entries of a map that may be nil.\<close>

abbreviation slice :: "'a list option \<Rightarrow> 'a list" where
  "slice xs \<equiv> (case xs of None \<Rightarrow> [] | Some ys \<Rightarrow> ys)"

definition deep_eq :: "('k, 'v) gomap option \<Rightarrow> ('k, 'v) gomap option \<Rightarrow> bool" where
  "deep_eq m n \<longleftrightarrow> (case (m, n) of
     (None, None) \<Rightarrow> True
   | (Some a, Some b) \<Rightarrow> map_eq a b
   | _ \<Rightarrow> False)"

record runtimeData =
  rt_disksReport :: "DiskDaemonDisksReport option"
  rt_volumesLvmReport :: volumes_lvm
  rt_volumesRawReport :: volumes_raw
  rt_osdsReport :: "DiskDaemonOsdsReport option"
  rt_knownLvms :: "(string, string list) gomap"

record daemonData =
  dd_runtime :: runtimeData
  dd_node :: DiskDaemonReport

record diskDaemon =
  dm_nodeName :: string
  dm_rawDisabled :: bool
  dm_data :: daemonData

section \<open>The outside world\<close>

datatype dcall = DNow | DShell string

type_synonym dhist = "dcall list"
type_synonym 'a dio = "(dhist, 'a) state"

text \<open>\<open>de_Run\<close> gives the two output streams of a shell command, the error of \<^verbatim>\<open>cmd.Run\<close> and whether
  the deadline of the command has passed.\<close>

record denv =
  de_Now :: "dhist \<Rightarrow> int"
  de_FormatTime :: "int \<Rightarrow> string"
  de_Run :: "dhist \<Rightarrow> string \<Rightarrow> string \<times> string \<times> string option \<times> bool"
  de_Lsblk :: "string \<Rightarrow> string + LsblkReport"
  de_Lvs :: "string \<Rightarrow> string + LvmReport"
  de_VolumeLvm :: "string \<Rightarrow> string + volumes_lvm"
  de_VolumeRaw :: "string \<Rightarrow> string + volumes_raw"

section \<open>Commands (utils.go)\<close>

definition lsblkCmd :: string where "lsblkCmd = ''lsblk -J -p -O''"
definition activeLvsCmd :: string where "activeLvsCmd = ''lvm lvs --reportformat json -o lv_dm_path''"
definition cephVolumeLvmCmd :: string where "cephVolumeLvmCmd = ''ceph-volume lvm list --format json''"
definition cephVolumeRawCmd :: string where "cephVolumeRawCmd = ''ceph-volume raw list --format json''"

definition execCmd :: "denv \<Rightarrow> string \<Rightarrow> (string \<times> string \<times> string option) dio" where
  "execCmd D command = State (\<lambda>h.
     ((case de_Run D h command of (stdOut, stdErr, err, expired) \<Rightarrow>
        (stdOut, stdErr,
         if expired then Some (wrap ''context deadline exceeded'' (''command '' @ quoted command @ '' timed out''))
         else err)), h @ [DShell command]))"

definition getLsblk :: "denv \<Rightarrow> (string + LsblkReport) dio" where
  "getLsblk D = do {
     (stdOut, stdErr, err) \<leftarrow> execCmd D lsblkCmd;
     State_Monad.return (case err of
       Some e \<Rightarrow> Inl e
     | None \<Rightarrow> (case de_Lsblk D stdOut of
         Inl e \<Rightarrow> Inl (wrap e ''unable to unmarshal lsblk output'')
       | Inr lsblk \<Rightarrow> Inr lsblk))
   }"

definition getUdevadmInfo :: "denv \<Rightarrow> string \<Rightarrow> string \<Rightarrow> (string \<times> string option) dio" where
  "getUdevadmInfo D deviceName query0 =
     (let query = (if query0 = [] then ''all'' else query0)
      in do {
        (stdOut, stdErr, err) \<leftarrow> execCmd D (''udevadm info -r --query='' @ query @ '' '' @ deviceName);
        State_Monad.return (stdOut, err)
      })"

text \<open>Every report replaces the list built from the one before.\<close>

definition getActiveLvs :: "denv \<Rightarrow> (string + string list) dio" where
  "getActiveLvs D = do {
     (stdOut, stdErr, err) \<leftarrow> execCmd D activeLvsCmd;
     State_Monad.return (case err of
       Some e \<Rightarrow> Inl e
     | None \<Rightarrow> (case de_Lvs D stdOut of
         Inl e \<Rightarrow> Inl (wrap e ''unable to unmarshal lvm lvs output'')
       | Inr lvmReport \<Rightarrow>
           Inr (fold (\<lambda>report activeLvs. map lv_LvDmPath (lrf_Lvs report)) (lmr_Report lvmReport) [])))
   }"

fun cacheLvms :: "denv \<Rightarrow> (string, bool) gomap \<Rightarrow> string option dio" where
  "cacheLvms D [] = State_Monad.return None"
| "cacheLvms D ((disk, _) # newLvms) = do {
     (stdOut, stdErr, err) \<leftarrow> execCmd D (''pvscan --cache '' @ disk);
     case err of
       Some e \<Rightarrow> State_Monad.return (Some (wrap e ''failed to cache volumes''))
     | None \<Rightarrow> cacheLvms D newLvms
   }"

definition getCephVolumeLvmList :: "denv \<Rightarrow> (string + volumes_lvm) dio" where
  "getCephVolumeLvmList D = do {
     (stdOut, stdErr, err) \<leftarrow> execCmd D cephVolumeLvmCmd;
     State_Monad.return (case err of
       Some e \<Rightarrow> Inl e
     | None \<Rightarrow> (case de_VolumeLvm D stdOut of
         Inl e \<Rightarrow> Inl (wrap e (''failed to parse output for command '' @ quoted cephVolumeLvmCmd))
       | Inr volumes \<Rightarrow> Inr volumes))
   }"

definition getCephVolumeRawList :: "denv \<Rightarrow> (string + volumes_raw) dio" where
  "getCephVolumeRawList D = do {
     (stdOut, stdErr, err) \<leftarrow> execCmd D cephVolumeRawCmd;
     State_Monad.return (case err of
       Some e \<Rightarrow> Inl e
     | None \<Rightarrow> (case de_VolumeRaw D stdOut of
         Inl e \<Rightarrow> Inl (wrap e (''failed to parse output for command '' @ quoted cephVolumeRawCmd))
       | Inr volumes \<Rightarrow> Inr volumes))
   }"

end
