(* ===== verification/Disk_Reporter.thy ===== *)
theory Disk_Reporter
  imports Disk_Types
begin

text \<open>
  \<^verbatim>\<open>disk-daemon/disk_reporter.go\<close>: the block device report from \<^verbatim>\<open>lsblk\<close> and \<^verbatim>\<open>udevadm\<close>, the map from
  disks to OSDs, and the update of the runtime data of the daemon.
\<close>

section \<open>Block devices\<close>

record lsblk_vars =
  lb_foundLvms :: "(string, string list) gomap"
  lb_report :: DiskDaemonDisksReport

definition TrimSuffix :: "string \<Rightarrow> string \<Rightarrow> string" where
  "TrimSuffix s suffix = (if HasSuffix s suffix then take (length s - length suffix) s else s)"

text \<open>The name of a logical volume below \<^verbatim>\<open>/dev\<close> from its name below \<^verbatim>\<open>/dev/mapper\<close>, where a dash
  within a name is doubled.\<close>

definition symlinkForMapper :: "string \<Rightarrow> string" where
  "symlinkForMapper name =
     replace_all (replace_all (replace_all name ''/mapper/'' ''/'') ''-'' ''/'') ''//'' ''-''"

definition alias_all :: "string list \<Rightarrow> string \<Rightarrow> (string, string) gomap \<Rightarrow> (string, string) gomap" where
  "alias_all names dev m = fold (\<lambda>n. AList.update n dev) names m"

text \<open>The body of the loop after the call of \<^verbatim>\<open>udevadm\<close>.\<close>

definition device_aliases :: "string list \<Rightarrow> DeviceLsblk \<Rightarrow> (string, string) gomap \<Rightarrow> (string, string) gomap" where
  "device_aliases symlinks d m =
     (let m = alias_all symlinks (dl_Name d) m;
          m = AList.update (dl_Kname d) (dl_Name d) m;
          m = AList.update (dl_Name d) (dl_Name d) m
      in if dl_Type d = ''lvm'' then AList.update (symlinkForMapper (dl_Name d)) (dl_Name d) m else m)"

definition device_lvms :: "DeviceLsblk \<Rightarrow> (string, string list) gomap \<Rightarrow> (string, string list) gomap" where
  "device_lvms d foundLvms =
     (if dl_Type d = ''lvm'' then
        case map_of foundLvms (dl_Name d) of
          Some lvDisks \<Rightarrow>
            if \<not> Contains lvDisks (dl_Parent d) then AList.update (dl_Name d) (lvDisks @ [dl_Parent d]) foundLvms
            else foundLvms
        | None \<Rightarrow> AList.update (dl_Name d) [dl_Parent d] foundLvms
      else foundLvms)"

definition block_entry :: "string list \<Rightarrow> DeviceLsblk \<Rightarrow> (string, BlockDeviceInfo) gomap \<Rightarrow> (string, BlockDeviceInfo) gomap" where
  "block_entry symlinks d info =
     (case map_of info (dl_Name d) of
        Some presentInfo \<Rightarrow>
          if \<not> Contains (bdi_Parent presentInfo) (dl_Parent d)
          then AList.update (dl_Name d) (presentInfo\<lparr>bdi_Parent := bdi_Parent presentInfo @ [dl_Parent d]\<rparr>) info
          else info
      | None \<Rightarrow> AList.update (dl_Name d)
          \<lparr>bdi_Kname = dl_Kname d, bdi_Serial = dl_Serial d, bdi_Type = dl_Type d, bdi_Fstype = dl_FsType d,
           bdi_Rotational = dl_Rotational d, bdi_MajMin = dl_MajMin d, bdi_Symlinks = sort symlinks,
           bdi_Parent = [dl_Parent d], bdi_Childrens = map dl_Name (dl_Childrens d)\<rparr> info)"

definition add_device :: "string \<Rightarrow> DeviceLsblk \<Rightarrow> lsblk_vars \<Rightarrow> lsblk_vars" where
  "add_device symlinksStr d s =
     (let symlinks = split_on CHR '' '' (TrimSuffix symlinksStr [CHR 10]);
          rep = lb_report s
      in \<lparr>lb_foundLvms = device_lvms d (lb_foundLvms s),
          lb_report = rep\<lparr>ddr_Aliases := device_aliases symlinks d (ddr_Aliases rep),
            ddr_BlockInfo := block_entry symlinks d (ddr_BlockInfo rep)\<rparr>\<rparr>)"

lemma size_Childrens [termination_simp]: "size_list size (dl_Childrens d) < Suc (size d + k)"
  by (cases d) simp

fun loopOverDevices :: "denv \<Rightarrow> DeviceLsblk list \<Rightarrow> lsblk_vars \<Rightarrow> (string + lsblk_vars) dio" where
  "loopOverDevices D [] s = State_Monad.return (Inr s)"
| "loopOverDevices D (d # ds) s =
     (if dl_Type d = ''loop'' then loopOverDevices D ds s
      else do {
        r \<leftarrow> loopOverDevices D (dl_Childrens d) s;
        case r of
          Inl err \<Rightarrow> State_Monad.return (Inl err)
        | Inr s1 \<Rightarrow> do {
            (symlinksStr, err) \<leftarrow> getUdevadmInfo D (dl_Name d) ''symlink'';
            case err of
              Some e \<Rightarrow> State_Monad.return (Inl (wrap e (''failed to get udevadm info for device '' @ quoted (dl_Name d))))
            | None \<Rightarrow> loopOverDevices D ds (add_device symlinksStr d s1)
          }
      })"

definition lsblk_vars0 :: lsblk_vars where
  "lsblk_vars0 = \<lparr>lb_foundLvms = [], lb_report = \<lparr>ddr_BlockInfo = [], ddr_Aliases = [], ddr_DiskToOsd = []\<rparr>\<rparr>"

definition processLsblkInfo :: "denv \<Rightarrow> (string + DiskDaemonDisksReport \<times> (string, string list) gomap) dio" where
  "processLsblkInfo D = do {
     lsblk \<leftarrow> getLsblk D;
     case lsblk of
       Inl err \<Rightarrow> State_Monad.return (Inl (wrap err ''failed to get lsblk info''))
     | Inr lsblkInfo \<Rightarrow>
         if lsb_Blockdevices lsblkInfo = [] then
           State_Monad.return (Inl (''no blockdevices found for '' @ quoted ''lsblk'' @ '' output''))
         else do {
           r \<leftarrow> loopOverDevices D (lsb_Blockdevices lsblkInfo) lsblk_vars0;
           State_Monad.return (case r of
             Inl err \<Rightarrow> Inl (wrap err ''failed to prepare block info'')
           | Inr s \<Rightarrow> Inr (lb_report s, lb_foundLvms s))
         }
   }"

definition not_activated :: "string list \<Rightarrow> (string, string list) gomap \<Rightarrow> (string, bool) gomap" where
  "not_activated activatedLvs newLvms = fold (\<lambda>(lvm, disks) m.
     if \<not> Contains activatedLvs lvm then fold (\<lambda>disk. AList.update disk True) disks m else m) newLvms []"

definition checkLvmCached :: "denv \<Rightarrow> (string, string list) gomap \<Rightarrow> string option dio" where
  "checkLvmCached D newLvms = do {
     r \<leftarrow> getActiveLvs D;
     case r of
       Inl err \<Rightarrow> State_Monad.return (Some err)
     | Inr activatedLvs \<Rightarrow>
         let notActivated = not_activated activatedLvs newLvms
         in if notActivated = [] then State_Monad.return None else cacheLvms D notActivated
   }"

section \<open>From disks to OSDs\<close>

text \<open>The results of a partial function on every element of a list.\<close>

fun map_opt :: "('a \<Rightarrow> 'b option) \<Rightarrow> 'a list \<Rightarrow> 'b list option" where
  "map_opt f [] = Some []"
| "map_opt f (x # xs) = Option.bind (f x) (\<lambda>y. Option.bind (map_opt f xs) (\<lambda>ys. Some (y # ys)))"

lemma map_opt_mono [partial_function_mono]:
  "(\<And>x. mono_option (\<lambda>f. B f x)) \<Longrightarrow> mono_option (\<lambda>f. map_opt (\<lambda>x. B f x) xs)"
  by (induction xs) (auto intro!: partial_function_mono)

definition info_type :: "(string, BlockDeviceInfo) gomap \<Rightarrow> string \<Rightarrow> string" where
  "info_type blockInfo name = (case map_of blockInfo name of None \<Rightarrow> [] | Some b \<Rightarrow> bdi_Type b)"

definition info_parents :: "(string, BlockDeviceInfo) gomap \<Rightarrow> string \<Rightarrow> string list" where
  "info_parents blockInfo name = (case map_of blockInfo name of None \<Rightarrow> [] | Some b \<Rightarrow> bdi_Parent b)"

text \<open>As for \<open>FindDiskName\<close>, a cycle of parents makes the recursion run forever: \<open>None\<close>.\<close>

partial_function (option) findDisks :: "string \<Rightarrow> (string, BlockDeviceInfo) gomap \<Rightarrow> string list option" where
  "findDisks name blockInfo =
     (if info_type blockInfo name = ''disk'' then Some [name]
      else (case info_parents blockInfo name of
              [] \<Rightarrow> Some []
            | [parent] \<Rightarrow> findDisks parent blockInfo
            | parents \<Rightarrow> Option.bind (map_opt (\<lambda>p. findDisks p blockInfo) parents) (\<lambda>devs. Some (concat devs))))"

declare findDisks.simps [code]

definition volume_disks :: "DiskDaemonDisksReport \<Rightarrow> OsdVolumeLvmInfo \<Rightarrow> string list option" where
  "volume_disks rep v =
     (if slice (ovl_Devices v) \<noteq> [] then
        map_option concat (map_opt (\<lambda>d. findDisks (str_of (ddr_Aliases rep) d) (ddr_BlockInfo rep)) (slice (ovl_Devices v)))
      else findDisks (str_of (ddr_Aliases rep) (ovl_Path v)) (ddr_BlockInfo rep))"

definition mark_disk :: "string \<Rightarrow> string \<Rightarrow> (string, (string, bool) gomap) gomap \<Rightarrow> (string, (string, bool) gomap) gomap" where
  "mark_disk osdID dev diskToOsd = (case map_of diskToOsd dev of
     Some ids \<Rightarrow> AList.update dev (AList.update osdID True ids) diskToOsd
   | None \<Rightarrow> AList.update dev [(osdID, True)] diskToOsd)"

fun mark_volumes :: "DiskDaemonDisksReport \<Rightarrow> (string \<times> OsdVolumeLvmInfo) list \<Rightarrow>
    (string, (string, bool) gomap) gomap \<Rightarrow> (string, (string, bool) gomap) gomap option" where
  "mark_volumes rep [] m = Some m"
| "mark_volumes rep ((osdID, volume) # vs) m =
     (case volume_disks rep volume of
        None \<Rightarrow> None
      | Some devs \<Rightarrow> mark_volumes rep vs (fold (mark_disk osdID) devs m))"

fun mark_raw :: "DiskDaemonDisksReport \<Rightarrow> (string \<times> OsdVolumeRawInfo) list \<Rightarrow> (string, string list) gomap \<Rightarrow>
    (string, string list) gomap option" where
  "mark_raw rep [] m = Some m"
| "mark_raw rep ((_, rawInfo) # raws) m =
     (case findDisks (str_of (ddr_Aliases rep) (ovr_Device rawInfo)) (ddr_BlockInfo rep) of
        None \<Rightarrow> None
      | Some disks \<Rightarrow>
          mark_raw rep raws (if disks \<noteq> [] then AList.update (hd disks) [show_int (ovr_OsdID rawInfo)] m else m))"

text \<open>All volumes with the OSD they belong to, in the order of the two loops.\<close>

definition lvm_volumes :: "volumes_lvm \<Rightarrow> (string \<times> OsdVolumeLvmInfo) list" where
  "lvm_volumes vols = concat (map (\<lambda>(osdID, volumes). map (\<lambda>v. (osdID, v)) (slice volumes)) (slice vols))"

definition diskToOsdMap :: "DiskDaemonDisksReport \<Rightarrow> volumes_lvm \<Rightarrow> volumes_raw \<Rightarrow> (string, string list) gomap option" where
  "diskToOsdMap rep volumesLvm volumesRaw =
     (if slice volumesLvm = [] \<and> slice volumesRaw = [] then Some []
      else case mark_volumes rep (lvm_volumes volumesLvm) [] of
             None \<Rightarrow> None
           | Some diskToOsd \<Rightarrow>
               mark_raw rep (slice volumesRaw) (map (\<lambda>(dev, mapping). (dev, sort (keys mapping))) diskToOsd))"

section \<open>The runtime data\<close>

text \<open>The first part of \<^verbatim>\<open>checkDisks\<close>: the block devices and the cache of logical volumes.\<close>

definition update_blocks :: "denv \<Rightarrow> runtimeData \<Rightarrow> DiskDaemonDisksReport \<Rightarrow> (string, string list) gomap \<Rightarrow>
    (string + runtimeData \<times> bool) dio" where
  "update_blocks D rt newDisksReport foundLvms =
     (if (case rt_disksReport rt of None \<Rightarrow> True
          | Some old \<Rightarrow> \<not> map_eq (ddr_BlockInfo old) (ddr_BlockInfo newDisksReport)) then do {
        err \<leftarrow> (if \<not> map_eq (rt_knownLvms rt) foundLvms then checkLvmCached D foundLvms
                else State_Monad.return None);
        State_Monad.return (case err of
          Some e \<Rightarrow> Inl (wrap e ''daemon is failed to check cached logical volumes'')
        | None \<Rightarrow> Inr (rt\<lparr>
            rt_knownLvms := (if \<not> map_eq (rt_knownLvms rt) foundLvms then foundLvms else rt_knownLvms rt),
            rt_disksReport := Some (case rt_disksReport rt of
              Some old \<Rightarrow> old\<lparr>ddr_BlockInfo := ddr_BlockInfo newDisksReport, ddr_Aliases := ddr_Aliases newDisksReport\<rparr>
            | None \<Rightarrow> newDisksReport)\<rparr>, True))
      }
      else State_Monad.return (Inr (rt, False)))"

text \<open>The raw volumes, unless the daemon runs without them.\<close>

definition update_raw :: "denv \<Rightarrow> bool \<Rightarrow> runtimeData \<Rightarrow> (string + runtimeData \<times> bool) dio" where
  "update_raw D rawDisabled rt =
     (if rawDisabled then State_Monad.return (Inr (rt, False))
      else do {
        r \<leftarrow> getCephVolumeRawList D;
        State_Monad.return (case r of
          Inl err \<Rightarrow> Inl (wrap err ''daemon is failed to prepare ceph volumes raw info report'')
        | Inr newVolumesRawReport \<Rightarrow>
            if \<not> deep_eq (rt_volumesRawReport rt) newVolumesRawReport
            then Inr (rt\<lparr>rt_volumesRawReport := newVolumesRawReport\<rparr>, True)
            else Inr (rt, False))
      })"

text \<open>The LVM volumes and the map from disks to OSDs; \<open>None\<close> is the endless search of
  \<open>findDisks\<close>.\<close>

definition update_lvm :: "runtimeData \<Rightarrow> bool \<Rightarrow> volumes_lvm \<Rightarrow> (runtimeData \<times> bool) option" where
  "update_lvm rt changed newVolumesLvmReport =
     (let same = deep_eq (rt_volumesLvmReport rt) newVolumesLvmReport;
          rt = (if same then rt else rt\<lparr>rt_volumesLvmReport := newVolumesLvmReport\<rparr>)
      in if changed \<or> \<not> same then
           case rt_disksReport rt of
             None \<Rightarrow> None
           | Some rep \<Rightarrow> map_option (\<lambda>m. (rt\<lparr>rt_disksReport := Some (rep\<lparr>ddr_DiskToOsd := m\<rparr>)\<rparr>, True))
               (diskToOsdMap rep (rt_volumesLvmReport rt) (rt_volumesRawReport rt))
         else Some (rt, False))"

text \<open>The runtime data is updated in place, so an error leaves what was assigned before it.\<close>

definition checkDisks :: "denv \<Rightarrow> bool \<Rightarrow> runtimeData \<Rightarrow> (runtimeData \<times> (string + bool)) option dio" where
  "checkDisks D rawDisabled rt = do {
     lsblk \<leftarrow> processLsblkInfo D;
     case lsblk of
       Inl err \<Rightarrow> State_Monad.return (Some (rt, Inl (wrap err ''daemon is failed to prepare block device report'')))
     | Inr (newDisksReport, foundLvms) \<Rightarrow> do {
         blocks \<leftarrow> update_blocks D rt newDisksReport foundLvms;
         case blocks of
           Inl err \<Rightarrow> State_Monad.return (Some (rt, Inl err))
         | Inr (rt1, changed1) \<Rightarrow> do {
             lvm \<leftarrow> getCephVolumeLvmList D;
             case lvm of
               Inl err \<Rightarrow> State_Monad.return (Some (rt1, Inl (wrap err ''daemon is failed to prepare ceph volumes lvm info report'')))
             | Inr newVolumesLvmReport \<Rightarrow> do {
                 raw \<leftarrow> update_raw D rawDisabled rt1;
                 State_Monad.return (case raw of
                   Inl err \<Rightarrow> Some (rt1, Inl err)
                 | Inr (rt2, changed2) \<Rightarrow>
                     map_option (\<lambda>(rt3, changed). (rt3, Inr changed))
                       (update_lvm rt2 (changed1 \<or> changed2) newVolumesLvmReport))
               }
           }
       }
   }"

end
