(* ===== verification/Disk_Osds.thy ===== *)
theory Disk_Osds
  imports Disk_Reporter
begin

text \<open>
  \<^verbatim>\<open>disk-daemon/osds_reporter.go\<close>: the report of the OSD volumes of a node. The results are values of
  the option type: \<open>None\<close> stands for the endless search of \<open>FindDiskName\<close> and for the panic of an
  index out of range.
\<close>

definition no_info :: OsdDaemonInfo where
  "no_info = \<lparr>odi_OsdUUID = [], odi_ClusterFSID = [], odi_Devices = [], odi_Partitions = []\<rparr>"

definition block_of :: "DiskDaemonDisksReport \<Rightarrow> string \<Rightarrow> BlockDeviceInfo" where
  "block_of rep dev = get_or \<lparr>bdi_Kname = [], bdi_Serial = [], bdi_Type = [], bdi_Fstype = [], bdi_Rotational = False,
     bdi_MajMin = [], bdi_Symlinks = [], bdi_Parent = [], bdi_Childrens = []\<rparr> (ddr_BlockInfo rep) dev"

section \<open>Devices of a volume\<close>

text \<open>\<^verbatim>\<open>slices.Compact\<close> works in place: the loop variable gets the shortened slice, and the array, which
  the runtime data still refers to with its old length, is filled with empty strings.\<close>

definition compact_devices :: "OsdVolumeLvmInfo \<Rightarrow> OsdVolumeLvmInfo" where
  "compact_devices v = (if length (slice (ovl_Devices v)) > 1
     then v\<lparr>ovl_Devices := Some (remdups_adj (slice (ovl_Devices v)))\<rparr> else v)"

definition compacted_array :: "OsdVolumeLvmInfo \<Rightarrow> OsdVolumeLvmInfo" where
  "compacted_array v =
     (let ds = slice (ovl_Devices v); cs = remdups_adj ds
      in if length ds > 1 then v\<lparr>ovl_Devices := Some (cs @ replicate (length ds - length cs) [])\<rparr> else v)"

definition volume_device :: "string \<Rightarrow> OsdVolumeLvmInfo \<Rightarrow> string + string" where
  "volume_device osd v =
     (let ds = slice (ovl_Devices v)
      in if length ds > 1 then
           Inl (''multidisk setup detected for osd '' @ quoted osd @ '', partition '' @ quoted (ovl_Path v) @ '', which is not supported'')
         else if length ds = 0 then
           (if ovl_Type v \<noteq> ''db'' then
              Inl (''found physical osd '' @ ovl_Type v @ '' partition '' @ quoted (ovl_Path v) @ '' for osd '' @ quoted osd @ '', which is not supported'')
            else Inr (ovl_Path v))
         else Inr (hd ds))"

definition is_parted :: "OsdVolumeLvmInfo \<Rightarrow> string \<Rightarrow> string \<Rightarrow> bool" where
  "is_parted v osdDeviceName devName \<longleftrightarrow> devName \<noteq> osdDeviceName \<and> length (slice (ovl_Devices v)) = 1"

definition osd_device :: "DiskDaemonDisksReport \<Rightarrow> OsdVolumeLvmInfo \<Rightarrow> string \<Rightarrow> string \<Rightarrow> OsdDevice" where
  "osd_device rep v osdDeviceName devName = \<lparr>od_Name = devName, od_DeviceID = bdi_Serial (block_of rep devName),
     od_DeviceSymlinks = sort (bdi_Symlinks (block_of rep devName)), od_Rotational = bdi_Rotational (block_of rep devName),
     od_RelatedPartition = ovl_Path v, od_PartedBy = (if is_parted v osdDeviceName devName then osdDeviceName else []),
     od_Raw = False\<rparr>"

definition partition_symlinks :: "DiskDaemonDisksReport \<Rightarrow> string \<Rightarrow> string list" where
  "partition_symlinks rep path = (case map_of (ddr_Aliases rep) path of
     None \<Rightarrow> []
   | Some blockName \<Rightarrow>
       let b = block_of rep blockName
       in if bdi_Type b \<noteq> ''disk'' then
            bdi_Symlinks b @ (if blockName \<noteq> path then [blockName] else [])
              @ (if bdi_Kname b \<noteq> blockName then [bdi_Kname b] else [])
          else [])"

definition osd_partition :: "DiskDaemonDisksReport \<Rightarrow> OsdVolumeLvmInfo \<Rightarrow> OsdPartition" where
  "osd_partition rep v = \<lparr>op_Partition = ovl_Path v, op_PartitionSymlinks = sort (partition_symlinks rep (ovl_Path v)),
     op_Type = ovl_Type v, op_Exists = map_of (ddr_Aliases rep) (ovl_Path v) \<noteq> None, op_Lvm = ovl_LvPath v \<noteq> []\<rparr>"

definition volume_warnings :: "string \<Rightarrow> OsdVolumeLvmInfo \<Rightarrow> string \<Rightarrow> string \<Rightarrow> string list" where
  "volume_warnings osd v osdDeviceName devName =
     (if is_parted v osdDeviceName devName
      then [''found osd '' @ ovl_Type v @ '' partition '' @ quoted (ovl_Path v) @ '' for osd '' @ quoted osd
        @ '' placed on top of partition '' @ quoted osdDeviceName] else [])
     @ (if ovl_LvPath v = []
        then [''found physical osd '' @ ovl_Type v @ '' partition '' @ quoted (ovl_Path v) @ '' for osd '' @ quoted osd] else [])"

section \<open>Joining the volumes of an OSD\<close>

text \<open>The entry a volume may belong to: through the device its tag names, or through its own path.\<close>

definition related_by :: "string \<Rightarrow> string \<Rightarrow> string \<Rightarrow> (string, nat) gomap \<Rightarrow>
    nat option \<times> (string, nat) gomap \<times> OsdPartition option" where
  "related_by tagged path ty pathToIdxMap =
     (if tagged \<noteq> [] then
        case map_of pathToIdxMap tagged of
          Some existIdx \<Rightarrow> (Some existIdx, pathToIdxMap, None)
        | None \<Rightarrow> (None, AList.update tagged (get_or 0 pathToIdxMap path) pathToIdxMap,
            Some \<lparr>op_Partition = tagged, op_PartitionSymlinks = [], op_Type = ty, op_Exists = False, op_Lvm = False\<rparr>)
      else (map_of pathToIdxMap path, pathToIdxMap, None))"

definition related_volume :: "OsdVolumeLvmInfo \<Rightarrow> (string, nat) gomap \<Rightarrow>
    nat option \<times> (string, nat) gomap \<times> OsdPartition option" where
  "related_volume v pathToIdxMap =
     (if ovl_Type v = ''db'' then related_by (ovt_BlockDevice (ovl_Tags v)) (ovl_Path v) ''block'' pathToIdxMap
      else if ovl_Type v = ''block'' then related_by (ovt_DBDevice (ovl_Tags v)) (ovl_Path v) ''db'' pathToIdxMap
      else (None, pathToIdxMap, None))"

definition related_ok :: "OsdVolumeLvmInfo \<Rightarrow> OsdPartition \<Rightarrow> OsdDaemonInfo \<Rightarrow> bool" where
  "related_ok v part info =
     (let tags = ovl_Tags v;
          curLegacyPart = (\<not> op_Lvm part \<and> op_Type part = ''db'' \<and> (ovt_OsdFSID tags = [] \<or> ovt_ClusterFSID tags = []));
          legacyPartFound = (\<not> curLegacyPart \<and> (odi_OsdUUID info = [] \<or> odi_ClusterFSID info = []) \<and>
            list_ex (\<lambda>p. \<not> op_Lvm p \<and> op_Type p = ''db'') (odi_Partitions info))
      in (ovt_OsdFSID tags = odi_OsdUUID info \<and> ovt_ClusterFSID tags = odi_ClusterFSID info) \<or> curLegacyPart \<or> legacyPartFound)"

fun put_partition :: "OsdPartition \<Rightarrow> OsdPartition list \<Rightarrow> OsdPartition list" where
  "put_partition part [] = [part]"
| "put_partition part (p # ps) = (if op_Partition p = op_Partition part then part # ps else p # put_partition part ps)"

definition extend_info :: "OsdVolumeLvmInfo \<Rightarrow> OsdDevice \<Rightarrow> OsdPartition \<Rightarrow> OsdDaemonInfo \<Rightarrow> OsdDaemonInfo" where
  "extend_info v dev part info = info\<lparr>
     odi_Partitions := put_partition part (odi_Partitions info),
     odi_Devices := odi_Devices info @ [dev],
     odi_ClusterFSID := (if odi_ClusterFSID info = [] then ovt_ClusterFSID (ovl_Tags v) else odi_ClusterFSID info),
     odi_OsdUUID := (if odi_OsdUUID info = [] then ovt_OsdFSID (ovl_Tags v) else odi_OsdUUID info)\<rparr>"

definition new_info :: "OsdVolumeLvmInfo \<Rightarrow> OsdDevice \<Rightarrow> OsdPartition \<Rightarrow> OsdPartition option \<Rightarrow> OsdDaemonInfo" where
  "new_info v dev part relatedPartition = \<lparr>odi_OsdUUID = ovt_OsdFSID (ovl_Tags v), odi_ClusterFSID = ovt_ClusterFSID (ovl_Tags v),
     odi_Devices = [dev],
     odi_Partitions = part # (case relatedPartition of None \<Rightarrow> [] | Some p \<Rightarrow> [p])\<rparr>"

definition join_volume :: "OsdVolumeLvmInfo \<Rightarrow> OsdDevice \<Rightarrow> OsdPartition \<Rightarrow> OsdDaemonInfo list \<Rightarrow> (string, nat) gomap \<Rightarrow>
    (OsdDaemonInfo list \<times> (string, nat) gomap) option" where
  "join_volume v dev part osdInfo pathToIdxMap =
     (case related_volume v pathToIdxMap of (exist, paths, relatedPartition) \<Rightarrow>
        let fresh = (osdInfo @ [new_info v dev part relatedPartition], AList.update (ovl_Path v) (length osdInfo) paths)
        in case exist of
             None \<Rightarrow> Some fresh
           | Some existIdx \<Rightarrow>
               if existIdx < length osdInfo then
                 let info = osdInfo ! existIdx
                 in if related_ok v part info
                    then Some (osdInfo[existIdx := extend_info v dev part info], paths)
                    else Some fresh
               else None)"

section \<open>The volumes of a node\<close>

record osd_vars =
  ov_osdInfo :: "OsdDaemonInfo list"
  ov_pathToIdxMap :: "(string, nat) gomap"
  ov_issues :: "string list"
  ov_warnings :: "string list"

text \<open>One volume; the flag tells whether the loop goes on.\<close>

definition osd_volume :: "DiskDaemonDisksReport \<Rightarrow> string \<Rightarrow> OsdVolumeLvmInfo \<Rightarrow> osd_vars \<Rightarrow> (osd_vars \<times> bool) option" where
  "osd_volume rep osd v s =
     (case volume_device osd v of
        Inl msg \<Rightarrow> Some (s\<lparr>ov_issues := ov_issues s @ [msg]\<rparr>, False)
      | Inr osdDeviceName \<Rightarrow>
          (case FindDiskName osdDeviceName rep of
             None \<Rightarrow> None
           | Some (Inl err) \<Rightarrow>
               Some (s\<lparr>ov_issues := ov_issues s @ [''for osd '' @ quoted osd @ '', partition '' @ quoted (ovl_Path v) @ '' '' @ err]\<rparr>, False)
           | Some (Inr devName) \<Rightarrow>
               map_option (\<lambda>(infos, paths). (s\<lparr>ov_osdInfo := infos, ov_pathToIdxMap := paths,
                   ov_warnings := ov_warnings s @ volume_warnings osd v osdDeviceName devName\<rparr>, True))
                 (join_volume v (osd_device rep v osdDeviceName devName) (osd_partition rep v) (ov_osdInfo s) (ov_pathToIdxMap s))))"

fun osd_volumes :: "DiskDaemonDisksReport \<Rightarrow> string \<Rightarrow> OsdVolumeLvmInfo list \<Rightarrow> osd_vars \<Rightarrow>
    (osd_vars \<times> OsdVolumeLvmInfo list) option" where
  "osd_volumes rep osd [] s = Some (s, [])"
| "osd_volumes rep osd (v # vs) s =
     (case osd_volume rep osd (compact_devices v) s of
        None \<Rightarrow> None
      | Some (s', goon) \<Rightarrow>
          if goon then map_option (\<lambda>(s'', vs'). (s'', compacted_array v # vs')) (osd_volumes rep osd vs s')
          else Some (s', compacted_array v # vs))"

record osds_vars =
  os_osdsReport :: "(string, OsdDaemonInfo list) gomap"
  os_issues :: "string list"
  os_warnings :: "string list"

text \<open>The OSDs with LVM volumes, and the volumes as the loop leaves them.\<close>

fun lvm_osds :: "DiskDaemonDisksReport \<Rightarrow> (string, OsdVolumeLvmInfo list option) gomap \<Rightarrow> osds_vars \<Rightarrow>
    (osds_vars \<times> (string, OsdVolumeLvmInfo list option) gomap) option" where
  "lvm_osds rep [] s = Some (s, [])"
| "lvm_osds rep ((osd, vols) # rest) s =
     (case osd_volumes rep osd (slice vols)
        \<lparr>ov_osdInfo = [], ov_pathToIdxMap = [], ov_issues = os_issues s, ov_warnings = os_warnings s\<rparr> of
        None \<Rightarrow> None
      | Some (v, vols') \<Rightarrow>
          map_option (\<lambda>(s', rest'). (s', (osd, map_option (\<lambda>_. vols') vols) # rest'))
            (lvm_osds rep rest \<lparr>os_osdsReport = AList.update osd (ov_osdInfo v) (os_osdsReport s),
               os_issues = ov_issues v, os_warnings = ov_warnings v\<rparr>))"

definition raw_info :: "DiskDaemonDisksReport \<Rightarrow> OsdVolumeRawInfo \<Rightarrow> string \<Rightarrow> OsdDaemonInfo" where
  "raw_info rep r devName = \<lparr>odi_OsdUUID = ovr_OsdFSID r, odi_ClusterFSID = ovr_ClusterFSID r,
     odi_Devices = [\<lparr>od_Name = devName, od_DeviceID = bdi_Serial (block_of rep devName),
       od_DeviceSymlinks = bdi_Symlinks (block_of rep devName), od_Rotational = bdi_Rotational (block_of rep devName),
       od_RelatedPartition = [], od_PartedBy = [], od_Raw = True\<rparr>],
     odi_Partitions = []\<rparr>"

definition raw_osd :: "DiskDaemonDisksReport \<Rightarrow> OsdVolumeRawInfo \<Rightarrow> osds_vars \<Rightarrow> osds_vars option" where
  "raw_osd rep r s =
     (let osdStr = show_int (ovr_OsdID r);
          rawDev = str_of (ddr_Aliases rep) (PathDevPrepended (ovr_Device r))
      in if bdi_Type (block_of rep rawDev) \<noteq> ''disk'' then
           Some (s\<lparr>os_issues := os_issues s @ [''for osd '' @ quoted osdStr @ '', raw device '' @ quoted (ovr_Device r)
             @ '' is not a full disk (likely physical partition), only full disk raw osds are supported'']\<rparr>)
         else (case FindDiskName (ovr_Device r) rep of
             None \<Rightarrow> None
           | Some (Inl err) \<Rightarrow>
               Some (s\<lparr>os_issues := os_issues s @ [''for osd '' @ quoted osdStr @ '', raw device '' @ quoted (ovr_Device r) @ '' '' @ err]\<rparr>)
           | Some (Inr devName) \<Rightarrow>
               Some (s\<lparr>os_osdsReport := AList.update osdStr (get_or [] (os_osdsReport s) osdStr @ [raw_info rep r devName]) (os_osdsReport s)\<rparr>)))"

fun raw_osds :: "DiskDaemonDisksReport \<Rightarrow> (string, OsdVolumeRawInfo) gomap \<Rightarrow> osds_vars \<Rightarrow> osds_vars option" where
  "raw_osds rep [] s = Some s"
| "raw_osds rep ((_, r) # rs) s = Option.bind (raw_osd rep r s) (raw_osds rep rs)"

text \<open>The report is stored in the runtime data, and the issues are returned.\<close>

definition checkOsds :: "runtimeData \<Rightarrow> (runtimeData \<times> string list) option" where
  "checkOsds rt =
     (case rt_disksReport rt of
        None \<Rightarrow> None
      | Some rep \<Rightarrow>
          Option.bind (lvm_osds rep (slice (rt_volumesLvmReport rt)) \<lparr>os_osdsReport = [], os_issues = [], os_warnings = []\<rparr>)
            (\<lambda>(s1, vols). map_option
              (\<lambda>s. (rt\<lparr>rt_osdsReport := Some \<lparr>dor_Warnings = sort (os_warnings s), dor_Osds = os_osdsReport s\<rparr>,
                       rt_volumesLvmReport := map_option (\<lambda>_. vols) (rt_volumesLvmReport rt)\<rparr>, sort (os_issues s)))
              (raw_osds rep (slice (rt_volumesRawReport rt)) s1)))"

end
