(* ===== verification/Disk_Daemon.thy ===== *)
theory Disk_Daemon
  imports Disk_Osds
begin

text \<open>
  \<^verbatim>\<open>disk-daemon/daemon.go\<close> and \<^verbatim>\<open>api_server.go\<close>: one run of the report loop, the report under its lock,
  and the answers of the local server. The loop of \<^verbatim>\<open>Daemon\<close> calls \<open>prepareReport\<close> at every tick of
  its timer.
\<close>

definition initDaemonData :: daemonData where
  "initDaemonData = \<lparr>
     dd_runtime = \<lparr>rt_disksReport = None, rt_volumesLvmReport = Some [], rt_volumesRawReport = Some [],
       rt_osdsReport = None, rt_knownLvms = []\<rparr>,
     dd_node = \<lparr>dr_State = DiskDaemonStateInProgress, dr_LastRun = [], dr_Issues = [], dr_DisksReport = None,
       dr_OsdsReport = None\<rparr>\<rparr>"

definition updateNodeReportState :: "denv \<Rightarrow> bool \<Rightarrow> DiskDaemonDisksReport option \<Rightarrow> DiskDaemonOsdsReport option \<Rightarrow>
    string list \<Rightarrow> diskDaemon \<Rightarrow> diskDaemon dio" where
  "updateNodeReportState D ready disksReport osdsReport issues d =
     State (\<lambda>h. (d\<lparr>dm_data := (dm_data d)\<lparr>dd_node := \<lparr>
       dr_State = (if issues \<noteq> [] then DiskDaemonStateFailed
                   else if ready then DiskDaemonStateOk else DiskDaemonStateInProgress),
       dr_LastRun = de_FormatTime D (de_Now D h),
       dr_Issues = issues,
       dr_DisksReport = disksReport,
       dr_OsdsReport = osdsReport\<rparr>\<rparr>\<rparr>, h @ [DNow]))"

definition with_runtime :: "diskDaemon \<Rightarrow> runtimeData \<Rightarrow> diskDaemon" where
  "with_runtime d rt = d\<lparr>dm_data := (dm_data d)\<lparr>dd_runtime := rt\<rparr>\<rparr>"

abbreviation runtime :: "diskDaemon \<Rightarrow> runtimeData" where
  "runtime d \<equiv> dd_runtime (dm_data d)"

abbreviation node_report :: "diskDaemon \<Rightarrow> DiskDaemonReport" where
  "node_report d \<equiv> dd_node (dm_data d)"

definition prepareReport :: "denv \<Rightarrow> diskDaemon \<Rightarrow> diskDaemon option dio" where
  "prepareReport D d0 = do {
     d1 \<leftarrow> updateNodeReportState D False None None [] d0;
     r \<leftarrow> checkDisks D (dm_rawDisabled d1) (runtime d1);
     case r of
       None \<Rightarrow> State_Monad.return None
     | Some (rt, Inl err) \<Rightarrow> do {
         d \<leftarrow> updateNodeReportState D False None None [err] (with_runtime d1 rt);
         State_Monad.return (Some d)
       }
     | Some (rt, Inr stateChanged) \<Rightarrow>
         (case (if stateChanged then checkOsds rt else Some (rt, [])) of
            None \<Rightarrow> State_Monad.return None
          | Some (rt', osdIssues) \<Rightarrow> do {
              d \<leftarrow> updateNodeReportState D True (rt_disksReport rt') (rt_osdsReport rt') osdIssues (with_runtime d1 rt');
              State_Monad.return (Some d)
            })
   }"

text \<open>The answers of the local server, before their encoding.\<close>

definition getFullReport :: "diskDaemon \<Rightarrow> DiskDaemonReport" where
  "getFullReport d = node_report d"

definition getOsdReport :: "diskDaemon \<Rightarrow> DiskDaemonReport" where
  "getOsdReport d = (node_report d)\<lparr>dr_DisksReport := None\<rparr>"

text \<open>The first ticks of the timer.\<close>

fun ticks :: "denv \<Rightarrow> nat \<Rightarrow> diskDaemon \<Rightarrow> diskDaemon option dio" where
  "ticks D 0 d = State_Monad.return (Some d)"
| "ticks D (Suc n) d = do {
     r \<leftarrow> prepareReport D d;
     case r of None \<Rightarrow> State_Monad.return None | Some d' \<Rightarrow> ticks D n d'
   }"

end
