(* ===== verification/Disk_Lemmas.thy ===== *)
theory Disk_Lemmas
  imports Disk_Daemon
begin

text \<open>
  What the disk daemon's functions compute: the nested loop over the devices is a fold over the
  devices in the order they are visited, the disk searches end and find disks, and the entries of
  the OSD report are joined within bounds.
\<close>

section \<open>Names of logical volumes\<close>

text \<open>Device mapper joins a volume group and a logical volume by a dash and doubles the dashes
  within the two names.\<close>

definition dm_escape :: "string \<Rightarrow> string" where
  "dm_escape s = concat (map (\<lambda>c. if c = CHR ''-'' then ''--'' else [c]) s)"

definition lvm_name :: "string \<Rightarrow> bool" where
  "lvm_name s \<longleftrightarrow> s \<noteq> [] \<and> hd s \<noteq> CHR ''-'' \<and> CHR ''/'' \<notin> set s"

lemma replace_char: "replace_all s [c] [d] = map (\<lambda>x. if x = c then d else x) s"
  by (induction s) (auto simp: HasPrefix_def)

lemma replace_skip: "old \<noteq> [] \<Longrightarrow> c \<noteq> hd old \<Longrightarrow> replace_all (c # s) old new = c # replace_all s old new"
  by (cases old) (auto simp: HasPrefix_def)

lemma replace_absent: "old \<noteq> [] \<Longrightarrow> hd old \<notin> set s \<Longrightarrow> replace_all s old new = s"
  by (induction s) (auto simp: replace_skip simp del: replace_all.simps(2))

abbreviation unslash :: "string \<Rightarrow> string" where
  "unslash s \<equiv> replace_all s ''//'' ''-''"

abbreviation dash_to_slash :: "string \<Rightarrow> string" where
  "dash_to_slash s \<equiv> map (\<lambda>c. if c = CHR ''-'' then CHR ''/'' else c) s"

lemma unslash_escaped:
  "CHR ''/'' \<notin> set x \<Longrightarrow> unslash (dash_to_slash (dm_escape x) @ t) = x @ unslash t"
  by (induction x) (auto simp: dm_escape_def HasPrefix_def)

lemma unslash_slash_name:
  assumes "lvm_name x"
  shows "unslash (CHR ''/'' # dash_to_slash (dm_escape x) @ t) = CHR ''/'' # x @ unslash t"
proof -
  obtain c r where x: "x = c # r" and c: "c \<noteq> CHR ''-''" "c \<noteq> CHR ''/''" and r: "CHR ''/'' \<notin> set x"
    using assms by (cases x) (auto simp: lvm_name_def)
  have "unslash (CHR ''/'' # dash_to_slash (dm_escape x) @ t) = CHR ''/'' # unslash (dash_to_slash (dm_escape x) @ t)"
    using x c by (simp add: dm_escape_def HasPrefix_def)
  with r show ?thesis by (simp add: unslash_escaped)
qed

lemma slash_not_escaped: "lvm_name x \<Longrightarrow> CHR ''/'' \<notin> set (dm_escape x)"
  by (auto simp: lvm_name_def dm_escape_def)

lemma unmapper:
  "CHR ''/'' \<notin> set n \<Longrightarrow> replace_all (''/dev/mapper/'' @ n) ''/mapper/'' ''/'' = ''/dev/'' @ n"
  by (simp add: HasPrefix_def replace_absent)

section \<open>The visited devices\<close>

fun visible :: "DeviceLsblk list \<Rightarrow> DeviceLsblk list" where
  "visible [] = []"
| "visible (d # ds) = (if dl_Type d = ''loop'' then visible ds else visible (dl_Childrens d) @ d # visible ds)"

definition add_devices :: "(string \<times> DeviceLsblk) list \<Rightarrow> lsblk_vars \<Rightarrow> lsblk_vars" where
  "add_devices xs s = fold (\<lambda>(str, d). add_device str d) xs s"

lemma add_devices_append: "add_devices (xs @ ys) s = add_devices ys (add_devices xs s)"
  by (simp add: add_devices_def)

lemma loopOverDevices_fold:
  "run_state (loopOverDevices D devs s) h = (Inr s', h') \<Longrightarrow>
   \<exists>xs. map snd xs = visible devs \<and> s' = add_devices xs s"
proof (induction D devs s arbitrary: s' h h' rule: loopOverDevices.induct)
  case (1 D s)
  then show ?case by (auto simp: add_devices_def)
next
  case (2 D d ds s)
  show ?case
  proof (cases "dl_Type d = ''loop''")
    case True
    with 2(1) [OF True] 2(4) show ?thesis by simp
  next
    case False
    obtain r h1 where c: "run_state (loopOverDevices D (dl_Childrens d) s) h = (r, h1)"
      by (cases "run_state (loopOverDevices D (dl_Childrens d) s) h")
    obtain str err h2 where u: "run_state (getUdevadmInfo D (dl_Name d) ''symlink'') h1 = ((str, err), h2)"
      by (cases "run_state (getUdevadmInfo D (dl_Name d) ''symlink'') h1") auto
    from 2(4) False c obtain s1 where r: "r = Inr s1" by (cases r) auto
    from 2(4) False c r u have e: "err = None" by (cases err) auto
    from 2(4) False c r u e have rest: "run_state (loopOverDevices D ds (add_device str d s1)) h2 = (Inr s', h')"
      by simp
    from 2(2) [OF False, of h s1 h1] c r obtain xs where
      xs: "map snd xs = visible (dl_Childrens d)" "s1 = add_devices xs s" by auto
    from 2(3) [OF False rest] obtain ys where
      ys: "map snd ys = visible ds" "s' = add_devices ys (add_device str d s1)" by auto
    from xs ys False show ?thesis
      by (intro exI [of _ "xs @ (str, d) # ys"]) (simp add: add_devices_def)
  qed
qed

section \<open>The report of the block devices\<close>

text \<open>The report after the devices \<open>seen\<close> were added.\<close>

definition reports :: "DeviceLsblk list \<Rightarrow> DiskDaemonDisksReport \<Rightarrow> bool" where
  "reports seen rep \<longleftrightarrow>
     (\<forall>n. map_of (ddr_BlockInfo rep) n \<noteq> None \<longleftrightarrow> (\<exists>d \<in> set seen. dl_Name d = n)) \<and>
     (\<forall>n b. map_of (ddr_BlockInfo rep) n = Some b \<longrightarrow>
        set (bdi_Parent b) = {dl_Parent d | d. d \<in> set seen \<and> dl_Name d = n} \<and>
        (\<exists>d \<in> set seen. dl_Name d = n \<and> bdi_Type b = dl_Type d) \<and> sorted (bdi_Symlinks b)) \<and>
     (\<forall>a n. map_of (ddr_Aliases rep) a = Some n \<longrightarrow> (\<exists>d \<in> set seen. dl_Name d = n)) \<and>
     (\<forall>d \<in> set seen. map_of (ddr_Aliases rep) (dl_Name d) \<noteq> None \<and> map_of (ddr_Aliases rep) (dl_Kname d) \<noteq> None)"

lemma map_of_alias_all:
  "map_of (alias_all ns dev m) = (\<lambda>a. if a \<in> set ns then Some dev else map_of m a)"
  unfolding alias_all_def by (induction ns arbitrary: m) (auto simp: fun_eq_iff)

lemma map_of_device_aliases:
  "map_of (device_aliases syms d m) a = Some n \<Longrightarrow> n = dl_Name d \<or> map_of m a = Some n"
  by (auto simp: device_aliases_def Let_def map_of_alias_all split: if_splits)

lemma device_aliases_keeps: "map_of m a \<noteq> None \<Longrightarrow> map_of (device_aliases syms d m) a \<noteq> None"
  by (auto simp: device_aliases_def Let_def map_of_alias_all)

lemma device_aliases_new:
  "map_of (device_aliases syms d m) (dl_Name d) \<noteq> None" "map_of (device_aliases syms d m) (dl_Kname d) \<noteq> None"
  by (auto simp: device_aliases_def Let_def map_of_alias_all)

lemma block_entry_other: "n \<noteq> dl_Name d \<Longrightarrow> map_of (block_entry syms d m) n = map_of m n"
  by (auto simp: block_entry_def split: option.splits)

lemma block_entry_name:
  "\<exists>b. map_of (block_entry syms d m) (dl_Name d) = Some b \<and>
     (case map_of m (dl_Name d) of
        None \<Rightarrow> bdi_Type b = dl_Type d \<and> set (bdi_Parent b) = {dl_Parent d} \<and> sorted (bdi_Symlinks b)
      | Some b0 \<Rightarrow> bdi_Type b = bdi_Type b0 \<and> set (bdi_Parent b) = insert (dl_Parent d) (set (bdi_Parent b0)) \<and>
          bdi_Symlinks b = bdi_Symlinks b0)"
  by (auto simp: block_entry_def split: option.splits)

lemma reports_add_device:
  assumes "reports seen (lb_report s)"
  shows "reports (seen @ [d]) (lb_report (add_device str d s))"
proof -
  let ?syms = "split_on CHR '' '' (TrimSuffix str [CHR 10])"
  let ?I = "ddr_BlockInfo (lb_report s)" and ?A = "ddr_Aliases (lb_report s)"
  have new: "ddr_BlockInfo (lb_report (add_device str d s)) = block_entry ?syms d ?I"
    "ddr_Aliases (lb_report (add_device str d s)) = device_aliases ?syms d ?A"
    by (simp_all add: add_device_def Let_def)
  obtain b where b: "map_of (block_entry ?syms d ?I) (dl_Name d) = Some b"
    and bs: "case map_of ?I (dl_Name d) of
        None \<Rightarrow> bdi_Type b = dl_Type d \<and> set (bdi_Parent b) = {dl_Parent d} \<and> sorted (bdi_Symlinks b)
      | Some b0 \<Rightarrow> bdi_Type b = bdi_Type b0 \<and> set (bdi_Parent b) = insert (dl_Parent d) (set (bdi_Parent b0)) \<and>
          bdi_Symlinks b = bdi_Symlinks b0"
    using block_entry_name by blast
  have names: "map_of (block_entry ?syms d ?I) n \<noteq> None \<longleftrightarrow> (\<exists>x \<in> set (seen @ [d]). dl_Name x = n)" for n
    using assms b block_entry_other [of n d ?syms ?I] unfolding reports_def by (cases "n = dl_Name d") auto
  have own: "set (bdi_Parent b) = {dl_Parent x | x. x \<in> set (seen @ [d]) \<and> dl_Name x = dl_Name d} \<and>
      (\<exists>x \<in> set (seen @ [d]). dl_Name x = dl_Name d \<and> bdi_Type b = dl_Type x) \<and> sorted (bdi_Symlinks b)"
  proof (cases "map_of ?I (dl_Name d)")
    case None
    with assms have "\<not> (\<exists>x \<in> set seen. dl_Name x = dl_Name d)" unfolding reports_def by metis
    with None bs show ?thesis by auto
  next
    case (Some b0)
    with assms have "set (bdi_Parent b0) = {dl_Parent x | x. x \<in> set seen \<and> dl_Name x = dl_Name d}"
      "\<exists>x \<in> set seen. dl_Name x = dl_Name d \<and> bdi_Type b0 = dl_Type x" "sorted (bdi_Symlinks b0)"
      unfolding reports_def by blast+
    with Some bs show ?thesis by auto
  qed
  have info: "set (bdi_Parent b') = {dl_Parent x | x. x \<in> set (seen @ [d]) \<and> dl_Name x = n} \<and>
      (\<exists>x \<in> set (seen @ [d]). dl_Name x = n \<and> bdi_Type b' = dl_Type x) \<and> sorted (bdi_Symlinks b')"
    if "map_of (block_entry ?syms d ?I) n = Some b'" for n b'
  proof (cases "n = dl_Name d")
    case True
    with that b own show ?thesis by simp
  next
    case False
    with that have "map_of ?I n = Some b'" by (simp add: block_entry_other)
    with assms have "set (bdi_Parent b') = {dl_Parent x | x. x \<in> set seen \<and> dl_Name x = n}"
      "\<exists>x \<in> set seen. dl_Name x = n \<and> bdi_Type b' = dl_Type x" "sorted (bdi_Symlinks b')"
      unfolding reports_def by blast+
    with False show ?thesis by auto
  qed
  have resolved: "\<exists>x \<in> set (seen @ [d]). dl_Name x = n" if "map_of (device_aliases ?syms d ?A) a = Some n" for a n
    using map_of_device_aliases [OF that] assms unfolding reports_def by auto
  have keys: "map_of (device_aliases ?syms d ?A) (dl_Name x) \<noteq> None \<and> map_of (device_aliases ?syms d ?A) (dl_Kname x) \<noteq> None"
    if "x \<in> set (seen @ [d])" for x
  proof (cases "x = d")
    case True
    then show ?thesis by (simp only: device_aliases_new simp_thms)
  next
    case False
    with that assms show ?thesis unfolding reports_def by (intro conjI device_aliases_keeps) auto
  qed
  from names info resolved keys show ?thesis unfolding reports_def new by blast
qed

lemma reports_none: "reports [] (lb_report lsblk_vars0)"
  by (simp add: reports_def lsblk_vars0_def)

lemma reports_add_devices:
  "reports seen (lb_report s) \<Longrightarrow> reports (seen @ map snd xs) (lb_report (add_devices xs s))"
proof (induction xs arbitrary: seen s)
  case Nil
  then show ?case by (simp add: add_devices_def)
next
  case (Cons x xs)
  obtain str d where x: "x = (str, d)" by (cases x)
  from Cons.IH [OF reports_add_device [OF Cons.prems, of d str]] x show ?case
    by (simp add: add_devices_def)
qed

lemma processLsblkInfo_reports:
  assumes "run_state (loopOverDevices D devs lsblk_vars0) h = (Inr s, h')"
  shows "reports (visible devs) (lb_report s)"
  using loopOverDevices_fold [OF assms] reports_add_devices [OF reports_none] by (metis append_Nil)

section \<open>The searches for disks\<close>

lemma map_opt_total: "(\<And>x. x \<in> set xs \<Longrightarrow> \<exists>y. f x = Some y) \<Longrightarrow> \<exists>ys. map_opt f xs = Some ys"
  by (induction xs) (auto, metis bind.bind_lunit)

lemma map_opt_mem: "map_opt f xs = Some ys \<Longrightarrow> y \<in> set ys \<Longrightarrow> \<exists>x \<in> set xs. f x = Some y"
  by (induction xs arbitrary: ys) (auto simp: bind_eq_Some_conv)

lemma findDisks_disks: "findDisks name blockInfo = Some ds \<Longrightarrow> d \<in> set ds \<Longrightarrow> info_type blockInfo d = ''disk''"
proof -
  let ?P = "\<lambda>(name :: string) blockInfo ds. \<forall>d \<in> set ds. info_type blockInfo d = ''disk''"
  assume "findDisks name blockInfo = Some ds" and d: "d \<in> set ds"
  then have "?P name blockInfo ds"
  proof (rule_tac findDisks.raw_induct [where P = ?P])
    fix f :: "string \<Rightarrow> (string, BlockDeviceInfo) gomap \<Rightarrow> string list option" and name blockInfo ds
    assume IH: "\<And>name blockInfo ds. f name blockInfo = Some ds \<Longrightarrow> ?P name blockInfo ds"
      and eq: "(if info_type blockInfo name = ''disk'' then Some [name]
        else (case info_parents blockInfo name of
              [] \<Rightarrow> Some []
            | [parent] \<Rightarrow> f parent blockInfo
            | parents \<Rightarrow> Option.bind (map_opt (\<lambda>p. f p blockInfo) parents) (\<lambda>devs. Some (concat devs)))) = Some ds"
    have "info_type blockInfo d = ''disk''" if "map_opt (\<lambda>p. f p blockInfo) ps = Some devs" "d \<in> set (concat devs)" for ps devs d
      using that map_opt_mem [OF that(1)] IH by fastforce
    with eq IH show "?P name blockInfo ds"
      by (auto split: if_splits list.splits simp: bind_eq_Some_conv simp del: map_opt.simps set_concat)
  qed
  with d show ?thesis by blast
qed

lemma findDisks_terminates:
  assumes "\<And>n p. p \<in> set (info_parents blockInfo n) \<Longrightarrow> (rank p :: nat) < rank n"
  shows "\<exists>ds. findDisks name blockInfo = Some ds"
proof (induction "rank name" arbitrary: name rule: less_induct)
  case less
  have IH: "\<exists>ds. findDisks p blockInfo = Some ds" if "p \<in> set (info_parents blockInfo name)" for p
    using assms [OF that] less by blast
  show ?case
  proof (cases "info_type blockInfo name = ''disk'' \<or> length (info_parents blockInfo name) \<le> 1")
    case True
    then show ?thesis using IH by (subst findDisks.simps) (auto split: list.splits)
  next
    case False
    then obtain a b ps where ps: "info_parents blockInfo name = a # b # ps"
      by (cases "info_parents blockInfo name"; cases "tl (info_parents blockInfo name)") auto
    with IH obtain devs where "map_opt (\<lambda>p. findDisks p blockInfo) (a # b # ps) = Some devs"
      using map_opt_total [of "a # b # ps" "\<lambda>p. findDisks p blockInfo"] by auto
    with False ps show ?thesis by (subst findDisks.simps) (simp del: map_opt.simps)
  qed
qed

lemma volume_disks_terminates:
  assumes "\<And>n. \<exists>ds. findDisks n (ddr_BlockInfo rep) = Some ds"
  shows "\<exists>ds. volume_disks rep v = Some ds"
  using assms map_opt_total [of "slice (ovl_Devices v)" "\<lambda>d. findDisks (str_of (ddr_Aliases rep) d) (ddr_BlockInfo rep)"]
  by (auto simp: volume_disks_def)

lemma volume_disks_disks:
  "volume_disks rep v = Some ds \<Longrightarrow> d \<in> set ds \<Longrightarrow> info_type (ddr_BlockInfo rep) d = ''disk''"
  unfolding volume_disks_def
  using map_opt_mem [of "\<lambda>d. findDisks (str_of (ddr_Aliases rep) d) (ddr_BlockInfo rep)" "slice (ovl_Devices v)"]
  by (auto split: if_splits intro: findDisks_disks) (metis findDisks_disks)

lemma mark_volumes_terminates:
  "(\<And>v. \<exists>ds. volume_disks rep v = Some ds) \<Longrightarrow> \<exists>m'. mark_volumes rep vs m = Some m'"
proof (induction rep vs m rule: mark_volumes.induct)
  case (2 rep osdID volume vs m)
  obtain ds where "volume_disks rep volume = Some ds" using 2(2) by blast
  with 2 show ?case by simp
qed simp

lemma mark_raw_terminates:
  "(\<And>n. \<exists>ds. findDisks n (ddr_BlockInfo rep) = Some ds) \<Longrightarrow> \<exists>m'. mark_raw rep rs m = Some m'"
proof (induction rep rs m rule: mark_raw.induct)
  case (2 rep uu rawInfo raws m)
  obtain ds where "findDisks (str_of (ddr_Aliases rep) (ovr_Device rawInfo)) (ddr_BlockInfo rep) = Some ds"
    using 2(2) by blast
  with 2 show ?case by simp
qed simp

lemma diskToOsdMap_terminates:
  assumes "\<And>n. \<exists>ds. findDisks n (ddr_BlockInfo rep) = Some ds"
  shows "\<exists>m. diskToOsdMap rep lvm raw = Some m"
  using mark_volumes_terminates [OF volume_disks_terminates [OF assms]] mark_raw_terminates [OF assms]
  by (metis (no_types, lifting) diskToOsdMap_def option.simps(5))

section \<open>The map from disks to OSDs\<close>

text \<open>The map from disks to sets of OSDs, as a relation.\<close>

definition marked :: "(string, (string, bool) gomap) gomap \<Rightarrow> (string \<times> string) set" where
  "marked m = {(dev, osd). \<exists>ids. map_of m dev = Some ids \<and> map_of ids osd \<noteq> None}"

definition marks_ok :: "(string, (string, bool) gomap) gomap \<Rightarrow> bool" where
  "marks_ok m \<longleftrightarrow> wf_map m \<and> (\<forall>dev ids. map_of m dev = Some ids \<longrightarrow> wf_map ids \<and> ids \<noteq> [])"

lemma mark_disk_marked: "marked (mark_disk osd dev m) = insert (dev, osd) (marked m)"
  by (auto simp: marked_def mark_disk_def split: option.splits if_splits)

lemma mark_disk_ok: "marks_ok m \<Longrightarrow> marks_ok (mark_disk osd dev m)"
  unfolding marks_ok_def mark_disk_def by (cases "map_of m dev") (auto split: if_splits)

lemma fold_mark_marked: "marked (fold (mark_disk osd) devs m) = (\<lambda>d. (d, osd)) ` set devs \<union> marked m"
  by (induction devs arbitrary: m) (auto simp: mark_disk_marked)

lemma fold_mark_ok: "marks_ok m \<Longrightarrow> marks_ok (fold (mark_disk osd) devs m)"
  by (induction devs arbitrary: m) (auto simp: mark_disk_ok)

lemma mark_volumes_marked:
  "mark_volumes rep vs m = Some m' \<Longrightarrow>
   marked m' = {(d, osd). \<exists>v ds. (osd, v) \<in> set vs \<and> volume_disks rep v = Some ds \<and> d \<in> set ds} \<union> marked m"
  by (induction rep vs m rule: mark_volumes.induct) (fastforce simp: fold_mark_marked split: option.splits)+

lemma mark_volumes_ok: "mark_volumes rep vs m = Some m' \<Longrightarrow> marks_ok m \<Longrightarrow> marks_ok m'"
  by (induction rep vs m rule: mark_volumes.induct) (auto simp: fold_mark_ok split: option.splits)

end
