(* ===== verification/Disk_Report.thy ===== *)
theory Disk_Report
  imports Disk_Lemmas
begin

text \<open>
  The OSD report of the disk daemon: its indices stay within bounds, every device it lists is a disk,
  and a device below which a volume has a partition of its own is marked. The report that is
  published agrees with its state.
\<close>

section \<open>Indices\<close>

definition paths_ok :: "OsdDaemonInfo list \<Rightarrow> (string, nat) gomap \<Rightarrow> bool" where
  "paths_ok infos paths \<longleftrightarrow> (\<forall>p i. map_of paths p = Some i \<longrightarrow> i < length infos)"

lemma related_by_ok:
  assumes "paths_ok infos paths" and "related_by tagged path ty paths = (exist, paths', rel)"
  shows "(\<forall>i. exist = Some i \<longrightarrow> i < length infos \<and> paths' = paths) \<and> (exist = None \<longrightarrow> paths_ok (infos @ [x]) paths')"
  using assms by (fastforce simp: related_by_def paths_ok_def get_or_def split: if_splits option.splits)

lemma related_volume_ok:
  assumes "paths_ok infos paths" and "related_volume v paths = (exist, paths', rel)"
  shows "(\<forall>i. exist = Some i \<longrightarrow> i < length infos \<and> paths' = paths) \<and> (exist = None \<longrightarrow> paths_ok (infos @ [x]) paths')"
proof (cases "ovl_Type v = ''db'' \<or> ovl_Type v = ''block''")
  case True
  with assms show ?thesis by (auto simp: related_volume_def dest: related_by_ok split: if_splits)
next
  case False
  with assms show ?thesis by (auto simp: related_volume_def paths_ok_def less_Suc_eq)
qed

lemma paths_ok_fresh: "paths_ok (infos @ [x]) paths \<Longrightarrow> paths_ok (infos @ [x]) (AList.update p (length infos) paths)"
  by (auto simp: paths_ok_def)

lemma join_volume_ok:
  assumes "paths_ok infos paths"
  shows "\<exists>infos' paths'. join_volume v dev part infos paths = Some (infos', paths') \<and> paths_ok infos' paths'"
proof -
  obtain exist paths' rel where r: "related_volume v paths = (exist, paths', rel)"
    by (cases "related_volume v paths")
  note ok = related_volume_ok [OF assms r, of "new_info v dev part rel"]
  show ?thesis
  proof (cases exist)
    case None
    with ok r show ?thesis by (auto simp: join_volume_def Let_def intro: paths_ok_fresh)
  next
    case (Some i)
    with ok have i: "i < length infos" "paths' = paths" by auto
    from assms have "paths_ok (infos @ [x]) paths" for x by (auto simp: paths_ok_def less_Suc_eq)
    with Some i assms r show ?thesis by (auto simp: join_volume_def Let_def paths_ok_def)
  qed
qed

lemma osd_volume_total:
  assumes find: "\<And>n. \<exists>r. FindDiskName n rep = Some r" and "paths_ok (ov_osdInfo s) (ov_pathToIdxMap s)"
  shows "\<exists>s' b. osd_volume rep osd v s = Some (s', b) \<and> paths_ok (ov_osdInfo s') (ov_pathToIdxMap s')"
proof (cases "volume_device osd v")
  case (Inl a)
  with assms(2) show ?thesis by (auto simp: osd_volume_def intro: exI [of _ False])
next
  case (Inr n)
  obtain r where r: "FindDiskName n rep = Some r" using find by blast
  show ?thesis
  proof (cases r)
    case (Inl a)
    with Inr r assms(2) show ?thesis by (auto simp: osd_volume_def intro: exI [of _ False])
  next
    case *: (Inr devName)
    with Inr r join_volume_ok [OF assms(2), of v "osd_device rep v n devName" "osd_partition rep v"]
    show ?thesis by (auto simp: osd_volume_def)
  qed
qed

lemma osd_volumes_total:
  assumes find: "\<And>n. \<exists>r. FindDiskName n rep = Some r"
  shows "paths_ok (ov_osdInfo s) (ov_pathToIdxMap s) \<Longrightarrow> \<exists>r. osd_volumes rep osd vs s = Some r"
proof (induction vs arbitrary: s)
  case (Cons v vs)
  obtain s' b where s': "osd_volume rep osd (compact_devices v) s = Some (s', b)"
    "paths_ok (ov_osdInfo s') (ov_pathToIdxMap s')"
    using osd_volume_total [OF find Cons.prems] by blast
  with Cons.IH [OF s'(2)] show ?case by auto
qed simp

lemma lvm_osds_total:
  assumes find: "\<And>n. \<exists>r. FindDiskName n rep = Some r"
  shows "\<exists>r. lvm_osds rep vols s = Some r"
proof (induction vols arbitrary: s)
  case (Cons p vols)
  obtain osd vs where p: "p = (osd, vs)" by (cases p)
  let ?s = "\<lparr>ov_osdInfo = [], ov_pathToIdxMap = [], ov_issues = os_issues s, ov_warnings = os_warnings s\<rparr>"
  have "\<exists>r. osd_volumes rep osd (slice vs) ?s = Some r"
    by (rule osd_volumes_total [OF find]) (simp add: paths_ok_def)
  then obtain v vols' where r: "osd_volumes rep osd (slice vs) ?s = Some (v, vols')" by auto
  show ?case
    using Cons.IH [of "\<lparr>os_osdsReport = AList.update osd (ov_osdInfo v) (os_osdsReport s), os_issues = ov_issues v,
      os_warnings = ov_warnings v\<rparr>"] by (auto simp: p r)
qed simp

lemma raw_osds_total:
  assumes find: "\<And>n. \<exists>r. FindDiskName n rep = Some r"
  shows "\<exists>r. raw_osds rep rs s = Some r"
proof (induction rs arbitrary: s)
  case (Cons p rs)
  obtain r where r: "FindDiskName (ovr_Device (snd p)) rep = Some r" using find by blast
  then have "\<exists>s'. raw_osd rep (snd p) s = Some s'" by (cases r) (auto simp: raw_osd_def Let_def)
  then obtain s' where "raw_osd rep (snd p) s = Some s'" by blast
  with Cons.IH [of s'] show ?case by (cases p) simp
qed simp

section \<open>Devices\<close>

text \<open>How a device of the report comes from a volume.\<close>

definition device_of :: "DiskDaemonDisksReport \<Rightarrow> OsdVolumeLvmInfo set \<Rightarrow> OsdDevice \<Rightarrow> bool" where
  "device_of rep vols dev \<longleftrightarrow> block_type rep (od_Name dev) = ''disk'' \<and>
     (\<exists>v \<in> vols. ovl_Path v = od_RelatedPartition dev \<and>
        (od_PartedBy dev = [] \<longrightarrow> set (slice (ovl_Devices v)) \<subseteq> {od_Name dev, []}))"

definition infos_from :: "DiskDaemonDisksReport \<Rightarrow> OsdVolumeLvmInfo set \<Rightarrow> OsdDaemonInfo list \<Rightarrow> bool" where
  "infos_from rep vols infos \<longleftrightarrow> (\<forall>info \<in> set infos. \<forall>dev \<in> set (odi_Devices info). device_of rep vols dev)"

lemma join_volume_from:
  assumes "join_volume v dev part infos paths = Some (infos', paths')"
    and "infos_from rep vols infos" and "device_of rep vols dev"
  shows "infos_from rep vols infos'"
proof -
  have "infos_from rep vols (infos @ [new_info v dev part rel])" for rel
    using assms(2,3) by (auto simp: infos_from_def new_info_def)
  moreover have "infos_from rep vols (infos[i := extend_info v dev part (infos ! i)])" if "i < length infos" for i
    unfolding infos_from_def
  proof
    fix info assume "info \<in> set (infos[i := extend_info v dev part (infos ! i)])"
    then have "info = extend_info v dev part (infos ! i) \<or> info \<in> set infos"
      by (auto dest: subsetD [OF set_update_subset_insert])
    moreover have "odi_Devices (extend_info v dev part (infos ! i)) = odi_Devices (infos ! i) @ [dev]"
      by (simp add: extend_info_def)
    ultimately show "\<forall>dev \<in> set (odi_Devices info). device_of rep vols dev"
      using assms(2,3) nth_mem [OF that] unfolding infos_from_def by auto
  qed
  ultimately show ?thesis
    using assms(1) by (auto simp: join_volume_def Let_def split: prod.splits option.splits if_splits)
qed

lemma set_compact [simp]: "set (slice (ovl_Devices (compact_devices v))) = set (slice (ovl_Devices v))"
  by (simp add: compact_devices_def)

lemma compact_Path [simp]: "ovl_Path (compact_devices v) = ovl_Path v"
  by (simp add: compact_devices_def)

lemma osd_device_of:
  assumes "v \<in> vols" and "volume_device osd (compact_devices v) = Inr n" and "FindDiskName n rep = Some (Inr devName)"
  shows "device_of rep vols (osd_device rep (compact_devices v) n devName)"
proof -
  have "set (slice (ovl_Devices (compact_devices v))) \<subseteq> {devName, []}"
    if "od_PartedBy (osd_device rep (compact_devices v) n devName) = []"
    using that assms(2)
    by (cases "slice (ovl_Devices (compact_devices v))")
      (auto simp: osd_device_def is_parted_def volume_device_def Let_def simp del: set_compact split: if_splits)
  then have "od_PartedBy (osd_device rep (compact_devices v) n devName) = [] \<longrightarrow>
      set (slice (ovl_Devices v)) \<subseteq> {od_Name (osd_device rep (compact_devices v) n devName), []}"
    by (simp add: osd_device_def)
  moreover have "ovl_Path v = od_RelatedPartition (osd_device rep (compact_devices v) n devName)"
    "block_type rep (od_Name (osd_device rep (compact_devices v) n devName)) = ''disk''"
    using FindDiskName_disk [OF assms(3)] by (simp_all add: osd_device_def)
  ultimately show ?thesis using assms(1) unfolding device_of_def by blast
qed

lemma osd_volume_from:
  assumes "osd_volume rep osd (compact_devices v) s = Some (s', b)" and "v \<in> vols" and "infos_from rep vols (ov_osdInfo s)"
  shows "infos_from rep vols (ov_osdInfo s')"
  using assms osd_device_of [OF assms(2)] join_volume_from [OF _ assms(3)]
  by (auto simp: osd_volume_def split: sum.splits option.splits)

lemma osd_volumes_from:
  assumes "osd_volumes rep osd vs s = Some (s', vs')" and "set vs \<subseteq> vols" and "infos_from rep vols (ov_osdInfo s)"
  shows "infos_from rep vols (ov_osdInfo s')"
  using assms
proof (induction rep osd vs s arbitrary: s' vs' rule: osd_volumes.induct)
  case (2 rep osd v vs s)
  from 2(2) obtain s1 b where s1: "osd_volume rep osd (compact_devices v) s = Some (s1, b)"
    by (auto split: option.splits)
  from 2(3,4) have kept: "infos_from rep vols (ov_osdInfo s1)" by (intro osd_volume_from [OF s1]) auto
  with 2 s1 show ?case by (auto split: if_splits)
qed simp

text \<open>The volumes of an OSD, and a report whose LVM devices come from them.\<close>

definition volumes_of :: "(string, OsdVolumeLvmInfo list option) gomap \<Rightarrow> string \<Rightarrow> OsdVolumeLvmInfo set" where
  "volumes_of vols osd = {v. \<exists>vs. (osd, vs) \<in> set vols \<and> v \<in> set (slice vs)}"

definition reported_ok :: "DiskDaemonDisksReport \<Rightarrow> OsdVolumeLvmInfo set \<Rightarrow> OsdDaemonInfo list \<Rightarrow> bool" where
  "reported_ok rep vols infos \<longleftrightarrow> (\<forall>info \<in> set infos. \<forall>dev \<in> set (odi_Devices info).
     if od_Raw dev then block_type rep (od_Name dev) = ''disk'' else device_of rep vols dev)"

definition report_from :: "DiskDaemonDisksReport \<Rightarrow> (string, OsdVolumeLvmInfo list option) gomap \<Rightarrow>
    (string, OsdDaemonInfo list) gomap \<Rightarrow> bool" where
  "report_from rep vols osds \<longleftrightarrow>
     (\<forall>osd infos. map_of osds osd = Some infos \<longrightarrow> reported_ok rep (volumes_of vols osd) infos)"

lemma infos_from_reported: "infos_from rep vols infos \<Longrightarrow> reported_ok rep vols infos"
  by (auto simp: infos_from_def reported_ok_def device_of_def)

lemma lvm_osds_from:
  assumes "lvm_osds rep todo s = Some (s', todo')" and "set todo \<subseteq> set vols" and "report_from rep vols (os_osdsReport s)"
  shows "report_from rep vols (os_osdsReport s')"
  using assms
proof (induction rep todo s arbitrary: s' todo' rule: lvm_osds.induct)
  case (2 rep osd vs rest s)
  let ?s = "\<lparr>ov_osdInfo = [], ov_pathToIdxMap = [], ov_issues = os_issues s, ov_warnings = os_warnings s\<rparr>"
  from 2(2) obtain v vs' where v: "osd_volumes rep osd (slice vs) ?s = Some (v, vs')"
    by (auto split: option.splits)
  let ?s1 = "\<lparr>os_osdsReport = AList.update osd (ov_osdInfo v) (os_osdsReport s), os_issues = ov_issues v, os_warnings = ov_warnings v\<rparr>"
  from 2(2) v obtain rest' where rest: "lvm_osds rep rest ?s1 = Some (s', rest')" by auto
  have "infos_from rep (volumes_of vols osd) (ov_osdInfo v)"
    using 2(3) by (intro osd_volumes_from [OF v]) (auto simp: volumes_of_def infos_from_def)
  with 2(4) have "report_from rep vols (os_osdsReport ?s1)"
    by (auto simp: report_from_def infos_from_reported)
  with 2(1) [OF v refl rest] 2(3) show ?case by simp
qed simp

lemma raw_osd_from:
  assumes "raw_osd rep r s = Some s'" and "report_from rep vols (os_osdsReport s)"
  shows "report_from rep vols (os_osdsReport s')"
proof (cases "os_osdsReport s' = os_osdsReport s")
  case False
  with assms(1) obtain devName where d: "FindDiskName (ovr_Device r) rep = Some (Inr devName)"
    and s': "os_osdsReport s' = AList.update (show_int (ovr_OsdID r))
      (get_or [] (os_osdsReport s) (show_int (ovr_OsdID r)) @ [raw_info rep r devName]) (os_osdsReport s)"
    by (auto simp: raw_osd_def Let_def split: if_splits option.splits sum.splits)
  let ?osd = "show_int (ovr_OsdID r)"
  have "reported_ok rep (volumes_of vols ?osd) (get_or [] (os_osdsReport s) ?osd)"
    using assms(2) by (cases "map_of (os_osdsReport s) ?osd") (auto simp: get_or_def report_from_def, simp add: reported_ok_def)
  with FindDiskName_disk [OF d]
  have "reported_ok rep (volumes_of vols ?osd) (get_or [] (os_osdsReport s) ?osd @ [raw_info rep r devName])"
    by (auto simp: reported_ok_def raw_info_def)
  with assms(2) show ?thesis unfolding s' report_from_def by simp
qed (use assms in simp)

lemma raw_osds_from:
  "raw_osds rep rs s = Some s' \<Longrightarrow> report_from rep vols (os_osdsReport s) \<Longrightarrow> report_from rep vols (os_osdsReport s')"
  by (induction rep rs s rule: raw_osds.induct) (auto simp: bind_eq_Some_conv dest: raw_osd_from)

lemma checkOsds_from:
  assumes "checkOsds rt = Some (rt', issues)" and "rt_disksReport rt = Some rep"
  shows "\<exists>osds. rt_osdsReport rt' = Some osds \<and> report_from rep (slice (rt_volumesLvmReport rt)) (dor_Osds osds)"
proof -
  let ?s = "\<lparr>os_osdsReport = [], os_issues = [], os_warnings = []\<rparr>"
  from assms obtain s1 vols s where s1: "lvm_osds rep (slice (rt_volumesLvmReport rt)) ?s = Some (s1, vols)"
    and s: "raw_osds rep (slice (rt_volumesRawReport rt)) s1 = Some s"
    and rt': "rt_osdsReport rt' = Some \<lparr>dor_Warnings = sort (os_warnings s), dor_Osds = os_osdsReport s\<rparr>"
    by (auto simp: checkOsds_def bind_eq_Some_conv)
  have "report_from rep (slice (rt_volumesLvmReport rt)) (os_osdsReport s1)"
    by (rule lvm_osds_from [OF s1]) (simp_all add: report_from_def)
  from raw_osds_from [OF s this] rt' show ?thesis by simp
qed

end
