(* ===== verification/Disk_Theorems.thy ===== *)
theory Disk_Theorems
  imports Disk_Report
begin

text \<open>
  The theorems about the disk daemon: what its report says about the block devices and the OSDs of a
  node, that its searches end, and how the report it publishes follows from one run to the next.
\<close>

section \<open>A concrete node\<close>

definition dx_disk :: "string \<Rightarrow> DeviceLsblk list \<Rightarrow> DeviceLsblk" where
  "dx_disk name children = DeviceLsblk name name ''serial'' ''8:0'' True ''disk'' [] children []"

definition dx_lv :: DeviceLsblk where
  "dx_lv = DeviceLsblk ''/dev/mapper/ceph--0-osd--block--0'' ''/dev/dm-0'' [] ''253:0'' True ''lvm'' ''/dev/vdb'' [] ''ceph_bluestore''"

definition dx_devices :: "DeviceLsblk list" where
  "dx_devices = [dx_disk ''/dev/vdb'' [dx_lv], dx_disk ''/dev/vdc'' []]"

definition dx_volume :: "string list \<Rightarrow> OsdVolumeLvmInfo" where
  "dx_volume devices = \<lparr>ovl_Devices = Some devices, ovl_LvPath = ''/dev/ceph-0/osd-block-0'', ovl_Path = ''/dev/ceph-0/osd-block-0'',
     ovl_Tags = \<lparr>ovt_BlockDevice = ''/dev/ceph-0/osd-block-0'', ovt_DBDevice = [], ovt_ClusterFSID = ''fsid'', ovt_OsdFSID = ''u0''\<rparr>,
     ovl_Type = ''block''\<rparr>"

text \<open>The answers of a node whose OSD 0 has a volume on the given devices.\<close>

definition dx_env :: "string list \<Rightarrow> denv" where
  "dx_env devices = \<lparr>de_Now = (\<lambda>_. 0), de_FormatTime = (\<lambda>_. ''now''),
     de_Run = (\<lambda>_ cmd. (''/dev/disk/by-path'' @ split_last CHR '' '' cmd, [], None, False)),
     de_Lsblk = (\<lambda>_. Inr \<lparr>lsb_Blockdevices = dx_devices\<rparr>),
     de_Lvs = (\<lambda>_. Inr \<lparr>lmr_Report = [\<lparr>lrf_Lvs = [\<lparr>lv_LvDmPath = ''/dev/mapper/ceph--0-osd--block--0''\<rparr>]\<rparr>]\<rparr>),
     de_VolumeLvm = (\<lambda>_. Inr (Some [(''0'', Some [dx_volume devices])])), de_VolumeRaw = (\<lambda>_. Inr (Some []))\<rparr>"

definition dx_daemon :: diskDaemon where
  "dx_daemon = \<lparr>dm_nodeName = ''node-a'', dm_rawDisabled = False, dm_data = initDaemonData\<rparr>"

definition dx_after :: "denv \<Rightarrow> nat \<Rightarrow> diskDaemon option" where
  "dx_after D n = fst (run_state (ticks D n dx_daemon) [])"

definition dx_rank :: "string \<Rightarrow> nat" where
  "dx_rank n = (if n = [] then 0 else if n = ''/dev/mapper/ceph--0-osd--block--0'' then 2 else 1)"

definition dx_loop :: "string list \<Rightarrow> string + lsblk_vars" where
  "dx_loop ds = fst (run_state (loopOverDevices (dx_env ds) dx_devices lsblk_vars0) [])"

definition dx_report :: "string list \<Rightarrow> DiskDaemonDisksReport" where
  "dx_report ds = (case dx_loop ds of Inl _ \<Rightarrow> lb_report lsblk_vars0 | Inr s \<Rightarrow> lb_report s)"

lemma dx_loop_runs: "\<exists>s h'. run_state (loopOverDevices (dx_env [''/dev/vdb'']) dx_devices lsblk_vars0) [] = (Inr s, h') \<and>
  lb_report s = dx_report [''/dev/vdb'']"
proof (cases "run_state (loopOverDevices (dx_env [''/dev/vdb'']) dx_devices lsblk_vars0) []")
  case (Pair r h1)
  have "\<not> isl (dx_loop [''/dev/vdb''])" by code_simp
  with Pair show ?thesis by (cases r) (simp_all add: dx_loop_def dx_report_def)
qed

section \<open>The block devices\<close>

text \<open>The alias that the report adds for a logical volume is its path below /dev: the name that
  device mapper forms from a volume group and a logical volume is turned back into the two names.
  The two names are not empty, do not begin with a dash and contain no slash, as LVM requires.\<close>

theorem lvm_alias_roundtrip:
  assumes "lvm_name vg" and "lvm_name lv"
  shows "symlinkForMapper (''/dev/mapper/'' @ dm_escape vg @ ''-'' @ dm_escape lv) = ''/dev/'' @ vg @ ''/'' @ lv"
proof -
  let ?n = "dm_escape vg @ ''-'' @ dm_escape lv"
  have n: "CHR ''/'' \<notin> set ?n" using assms by (auto dest: slash_not_escaped)
  have "symlinkForMapper (''/dev/mapper/'' @ ?n) = unslash (dash_to_slash (''/dev/'' @ ?n))"
    unfolding symlinkForMapper_def by (simp only: unmapper [OF n] replace_char)
  also have "\<dots> = ''/dev'' @ unslash (CHR ''/'' # dash_to_slash (dm_escape vg) @ CHR ''/'' # dash_to_slash (dm_escape lv) @ [])"
    by (simp add: HasPrefix_def)
  also have "\<dots> = ''/dev/'' @ vg @ ''/'' @ lv"
    by (simp only: unslash_slash_name [OF assms(1)] unslash_slash_name [OF assms(2)]) simp
  finally show ?thesis .
qed

theorem lvm_alias_roundtrip_witness:
  "symlinkForMapper (''/dev/mapper/'' @ dm_escape ''ceph-0'' @ ''-'' @ dm_escape ''osd-block-0'') = ''/dev/'' @ ''ceph-0'' @ ''/'' @ ''osd-block-0'' \<and>
   ''/dev/mapper/'' @ dm_escape ''ceph-0'' @ ''-'' @ dm_escape ''osd-block-0'' = dl_Name dx_lv"
proof
  show "''/dev/mapper/'' @ dm_escape ''ceph-0'' @ ''-'' @ dm_escape ''osd-block-0'' = dl_Name dx_lv" by code_simp
  show "symlinkForMapper (''/dev/mapper/'' @ dm_escape ''ceph-0'' @ ''-'' @ dm_escape ''osd-block-0'') = ''/dev/'' @ ''ceph-0'' @ ''/'' @ ''osd-block-0''"
    by (rule lvm_alias_roundtrip) code_simp+
qed

text \<open>The report has an entry for exactly the devices lsblk lists outside loop devices, the
  parents of an entry are the parents lsblk gives for its name, and every alias leads to an entry.\<close>

theorem lsblk_report_exact:
  assumes "run_state (loopOverDevices D devs lsblk_vars0) h = (Inr s, h')"
  shows "(map_of (ddr_BlockInfo (lb_report s)) n \<noteq> None \<longleftrightarrow> n \<in> dl_Name ` set (visible devs)) \<and>
    set (info_parents (ddr_BlockInfo (lb_report s)) n) = {dl_Parent d | d. d \<in> set (visible devs) \<and> dl_Name d = n} \<and>
    (map_of (ddr_Aliases (lb_report s)) a = Some m \<longrightarrow> map_of (ddr_BlockInfo (lb_report s)) m \<noteq> None) \<and>
    (d \<in> set (visible devs) \<longrightarrow> map_of (ddr_Aliases (lb_report s)) (dl_Name d) \<noteq> None \<and>
      map_of (ddr_Aliases (lb_report s)) (dl_Kname d) \<noteq> None)"
proof -
  note r = processLsblkInfo_reports [OF assms, unfolded reports_def]
  have names: "map_of (ddr_BlockInfo (lb_report s)) n \<noteq> None \<longleftrightarrow> (\<exists>d \<in> set (visible devs). dl_Name d = n)" for n
    using r by blast
  have "set (info_parents (ddr_BlockInfo (lb_report s)) n) = {dl_Parent d | d. d \<in> set (visible devs) \<and> dl_Name d = n}"
  proof (cases "map_of (ddr_BlockInfo (lb_report s)) n")
    case None
    with names [of n] show ?thesis by (auto simp: info_parents_def)
  next
    case (Some b)
    with r show ?thesis by (simp add: info_parents_def)
  qed
  moreover have "map_of (ddr_BlockInfo (lb_report s)) n \<noteq> None \<longleftrightarrow> n \<in> dl_Name ` set (visible devs)"
    using names [of n] by blast
  moreover have "map_of (ddr_Aliases (lb_report s)) a = Some m \<longrightarrow> map_of (ddr_BlockInfo (lb_report s)) m \<noteq> None"
    using r names [of m] by blast
  moreover have "d \<in> set (visible devs) \<longrightarrow> map_of (ddr_Aliases (lb_report s)) (dl_Name d) \<noteq> None \<and>
      map_of (ddr_Aliases (lb_report s)) (dl_Kname d) \<noteq> None"
    using r by blast
  ultimately show ?thesis by blast
qed

theorem lsblk_report_exact_witness:
  "set (info_parents (ddr_BlockInfo (dx_report [''/dev/vdb''])) ''/dev/mapper/ceph--0-osd--block--0'') = {''/dev/vdb''}"
proof -
  obtain s h' where s: "run_state (loopOverDevices (dx_env [''/dev/vdb'']) dx_devices lsblk_vars0) [] = (Inr s, h')"
    "lb_report s = dx_report [''/dev/vdb'']" using dx_loop_runs by blast
  let ?lv = "''/dev/mapper/ceph--0-osd--block--0''"
  have "{dl_Parent d | d. d \<in> set (visible dx_devices) \<and> dl_Name d = ?lv}
      = dl_Parent ` set (filter (\<lambda>d. dl_Name d = ?lv) (visible dx_devices))" by auto
  also have "\<dots> = {''/dev/vdb''}" by code_simp
  finally have "{dl_Parent d | d. d \<in> set (visible dx_devices) \<and> dl_Name d = ?lv} = {''/dev/vdb''}" .
  with s(2) show ?thesis
    using lsblk_report_exact [OF s(1), of "''/dev/mapper/ceph--0-osd--block--0''"] by metis
qed

section \<open>The disks of an OSD\<close>

text \<open>C35. If the parents that lsblk reports form no cycle, the search for the disks below the OSD
  volumes ends and the daemon gets its map from disks to OSDs, whatever the volumes are.\<close>

theorem disk_search_ends:
  fixes rank :: "string \<Rightarrow> nat"
  assumes "run_state (loopOverDevices D devs lsblk_vars0) h = (Inr s, h')"
    and "\<forall>d \<in> set (visible devs). rank (dl_Parent d) < rank (dl_Name d)"
  shows "\<exists>m. diskToOsdMap (lb_report s) volumesLvm volumesRaw = Some m"
proof (rule diskToOsdMap_terminates, rule findDisks_terminates)
  fix n p
  assume p: "p \<in> set (info_parents (ddr_BlockInfo (lb_report s)) n)"
  then obtain b where b: "map_of (ddr_BlockInfo (lb_report s)) n = Some b" "p \<in> set (bdi_Parent b)"
    by (cases "map_of (ddr_BlockInfo (lb_report s)) n") (auto simp: info_parents_def)
  with processLsblkInfo_reports [OF assms(1)]
  have "p \<in> {dl_Parent d | d. d \<in> set (visible devs) \<and> dl_Name d = n}" unfolding reports_def by blast
  with assms(2) show "rank p < rank n" by blast
qed

theorem disk_search_ends_witness:
  "\<exists>m. diskToOsdMap (dx_report [''/dev/vdb'']) (Some [(''0'', Some [dx_volume [''/dev/vdb'']])]) (Some []) = Some m"
proof -
  obtain s h' where s: "run_state (loopOverDevices (dx_env [''/dev/vdb'']) dx_devices lsblk_vars0) [] = (Inr s, h')"
    "lb_report s = dx_report [''/dev/vdb'']" using dx_loop_runs by blast
  have "\<forall>d \<in> set (visible dx_devices). dx_rank (dl_Parent d) < dx_rank (dl_Name d)" by code_simp
  from disk_search_ends [OF s(1) this] s(2) show ?thesis by simp
qed

lemma mark_raw_other:
  assumes "mark_raw rep raws m = Some m'"
    and "\<forall>(k, r) \<in> set raws. \<forall>ds. findDisks (str_of (ddr_Aliases rep) (ovr_Device r)) (ddr_BlockInfo rep) = Some ds \<longrightarrow> dev \<notin> set ds"
  shows "map_of m' dev = map_of m dev"
  using assms by (induction rep raws m rule: mark_raw.induct) (auto split: option.splits if_splits)

lemma map_of_sorted_keys:
  "map_of (map (\<lambda>(dev, ids). (dev, sort (keys ids))) m) dev = map_option (\<lambda>ids. sort (keys ids)) (map_of m dev)"
  by (induction m) auto

text \<open>C34. The map from disks to OSDs is exact: an OSD is listed for a device, which no raw volume
  claims, if and only if one of its LVM volumes lies on that device, and such a device is a disk.\<close>

theorem disk_to_osd_exact:
  assumes m: "diskToOsdMap rep volumesLvm volumesRaw = Some m"
    and raw: "\<forall>(k, r) \<in> set (slice volumesRaw).
      \<forall>ds. findDisks (str_of (ddr_Aliases rep) (ovr_Device r)) (ddr_BlockInfo rep) = Some ds \<longrightarrow> dev \<notin> set ds"
  shows "((\<exists>ids. map_of m dev = Some ids \<and> osd \<in> set ids) \<longleftrightarrow>
      (\<exists>v ds. (osd, v) \<in> set (lvm_volumes volumesLvm) \<and> volume_disks rep v = Some ds \<and> dev \<in> set ds)) \<and>
    (map_of m dev \<noteq> None \<longrightarrow> info_type (ddr_BlockInfo rep) dev = ''disk'')"
proof (cases "slice volumesLvm = [] \<and> slice volumesRaw = []")
  case True
  with m show ?thesis by (simp add: diskToOsdMap_def lvm_volumes_def)
next
  case False
  with m obtain m0 where m0: "mark_volumes rep (lvm_volumes volumesLvm) [] = Some m0"
    and m1: "mark_raw rep (slice volumesRaw) (map (\<lambda>(dev, ids). (dev, sort (keys ids))) m0) = Some m"
    by (auto simp: diskToOsdMap_def split: option.splits)
  have dev: "map_of m dev = map_option (\<lambda>ids. sort (keys ids)) (map_of m0 dev)"
    using mark_raw_other [OF m1 raw] by (simp add: map_of_sorted_keys)
  have on: "(dev, osd) \<in> marked m0 \<longleftrightarrow>
      (\<exists>v ds. (osd, v) \<in> set (lvm_volumes volumesLvm) \<and> volume_disks rep v = Some ds \<and> dev \<in> set ds)" for osd
    using mark_volumes_marked [OF m0] by (auto simp: marked_def)
  have listed: "(\<exists>ids. map_of m dev = Some ids \<and> osd \<in> set ids) \<longleftrightarrow> (dev, osd) \<in> marked m0" for osd
    using dev by (auto simp: marked_def map_of_eq_None_iff dest: map_of_SomeD) (metis domIff dom_map_of_conv_image_fst fst_conv imageI)
  have "info_type (ddr_BlockInfo rep) dev = ''disk''" if "map_of m dev \<noteq> None"
  proof -
    from that dev obtain ids where ids: "map_of m0 dev = Some ids" by auto
    with mark_volumes_ok [OF m0] have "ids \<noteq> []" by (auto simp: marks_ok_def)
    then have "map_of ids (fst (hd ids)) \<noteq> None" by (cases ids) auto
    with ids have "(dev, fst (hd ids)) \<in> marked m0" by (simp add: marked_def)
    with on volume_disks_disks show ?thesis by blast
  qed
  with listed on show ?thesis by blast
qed

theorem disk_to_osd_exact_witness:
  "\<exists>m. diskToOsdMap (dx_report [''/dev/vdb'']) (Some [(''0'', Some [dx_volume [''/dev/vdb'']])]) (Some []) = Some m \<and>
     (\<exists>ids. map_of m ''/dev/vdb'' = Some ids \<and> ''0'' \<in> set ids)"
proof -
  let ?v = "dx_volume [''/dev/vdb'']"
  let ?vols = "Some [(''0'', Some [?v])]"
  have "diskToOsdMap (dx_report [''/dev/vdb'']) ?vols (Some []) \<noteq> None" by code_simp
  then obtain m where m: "diskToOsdMap (dx_report [''/dev/vdb'']) ?vols (Some []) = Some m" by blast
  have "volume_disks (dx_report [''/dev/vdb'']) ?v = Some [''/dev/vdb'']" by code_simp
  then have "\<exists>v ds. (''0'', v) \<in> set (lvm_volumes ?vols) \<and> volume_disks (dx_report [''/dev/vdb'']) v = Some ds \<and> ''/dev/vdb'' \<in> set ds"
    by (intro exI [of _ ?v] exI [of _ "[''/dev/vdb'']"]) (simp add: lvm_volumes_def)
  with disk_to_osd_exact [OF m, of "''/dev/vdb''" "''0''"] m show ?thesis by auto
qed

section \<open>The OSD report\<close>

text \<open>C36. The OSD report is always made: when the searches for disks end, no index of the joined
  volumes is out of range and the function returns a report and its issues.\<close>

theorem osd_report_is_made:
  assumes "rt_disksReport rt = Some rep" and "\<And>n. \<exists>r. FindDiskName n rep = Some r"
  shows "\<exists>rt' issues osds. checkOsds rt = Some (rt', issues) \<and> rt_osdsReport rt' = Some osds"
proof -
  obtain s1 vols where s1: "lvm_osds rep (slice (rt_volumesLvmReport rt)) \<lparr>os_osdsReport = [], os_issues = [], os_warnings = []\<rparr> = Some (s1, vols)"
    using lvm_osds_total [OF assms(2)] by fast
  obtain s where "raw_osds rep (slice (rt_volumesRawReport rt)) s1 = Some s"
    using raw_osds_total [OF assms(2)] by blast
  with assms(1) s1 show ?thesis by (simp add: checkOsds_def)
qed

definition dx_flat :: DiskDaemonDisksReport where
  "dx_flat = \<lparr>ddr_BlockInfo = [(''/dev/vdb'', \<lparr>bdi_Kname = ''/dev/vdb'', bdi_Serial = [], bdi_Type = ''disk'', bdi_Fstype = [],
       bdi_Rotational = True, bdi_MajMin = [], bdi_Symlinks = [], bdi_Parent = [[]], bdi_Childrens = []\<rparr>)],
     ddr_Aliases = [(''/dev/vdb'', ''/dev/vdb'')], ddr_DiskToOsd = []\<rparr>"

definition dx_runtime :: runtimeData where
  "dx_runtime = \<lparr>rt_disksReport = Some dx_flat, rt_volumesLvmReport = Some [(''0'', Some [dx_volume [''/dev/vdb'']])],
     rt_volumesRawReport = Some [], rt_osdsReport = None, rt_knownLvms = []\<rparr>"

theorem osd_report_is_made_witness:
  "\<exists>rt' issues osds. checkOsds dx_runtime = Some (rt', issues) \<and> rt_osdsReport rt' = Some osds"
proof (rule osd_report_is_made)
  show "rt_disksReport dx_runtime = Some dx_flat" by (simp add: dx_runtime_def)
  show "\<exists>r. FindDiskName n dx_flat = Some r" for n
    by (subst FindDiskName.simps) (auto simp: dx_flat_def block_type_def block_parents_def)
qed



section \<open>One run of the daemon\<close>

lemma update_blocks_keeps:
  "run_state (update_blocks D rt rep lvms) h = (Inr (rt', b), h') \<Longrightarrow>
   rt_osdsReport rt' = rt_osdsReport rt \<and> rt_disksReport rt' \<noteq> None"
  by (auto simp: update_blocks_def split: if_splits option.splits prod.splits)

lemma update_raw_keeps:
  "run_state (update_raw D raw rt) h = (Inr (rt', b), h') \<Longrightarrow>
   rt_osdsReport rt' = rt_osdsReport rt \<and> rt_disksReport rt' = rt_disksReport rt"
  by (auto simp: update_raw_def split: if_splits sum.splits prod.splits)

lemma update_lvm_keeps:
  "update_lvm rt c vols = Some (rt', b) \<Longrightarrow> rt_disksReport rt \<noteq> None \<Longrightarrow>
   rt_osdsReport rt' = rt_osdsReport rt \<and> rt_disksReport rt' \<noteq> None"
  by (auto simp: update_lvm_def Let_def split: if_splits option.splits)

text \<open>\<^verbatim>\<open>checkDisks\<close> leaves the OSD report alone, and after a run without error there is a disk report.\<close>

lemma checkDisks_keeps:
  assumes "run_state (checkDisks D raw rt) h = (Some (rt', r), h')"
  shows "rt_osdsReport rt' = rt_osdsReport rt \<and> (\<forall>b. r = Inr b \<longrightarrow> rt_disksReport rt' \<noteq> None)"
proof -
  obtain l h1 where l: "run_state (processLsblkInfo D) h = (l, h1)" by (cases "run_state (processLsblkInfo D) h")
  show ?thesis
  proof (cases l)
    case (Inl e)
    with assms l show ?thesis by (auto simp: checkDisks_def)
  next
    case (Inr p)
    obtain rep lvms where p: "p = (rep, lvms)" by (cases p)
    obtain bl h2 where bl: "run_state (update_blocks D rt rep lvms) h1 = (bl, h2)"
      by (cases "run_state (update_blocks D rt rep lvms) h1")
    show ?thesis
    proof (cases bl)
      case *: (Inl e)
      with assms l Inr p bl show ?thesis by (auto simp: checkDisks_def)
    next
      case *: (Inr q)
      obtain rt1 c1 where q: "q = (rt1, c1)" by (cases q)
      note k1 = update_blocks_keeps [OF bl [unfolded * q]]
      obtain lv h3 where lv: "run_state (getCephVolumeLvmList D) h2 = (lv, h3)"
        by (cases "run_state (getCephVolumeLvmList D) h2")
      obtain rw h4 where rw: "run_state (update_raw D raw rt1) h3 = (rw, h4)"
        by (cases "run_state (update_raw D raw rt1) h3")
      show ?thesis
        using assms l Inr p bl * q lv rw k1
        by (auto simp: checkDisks_def split: sum.splits dest!: update_raw_keeps update_lvm_keeps)
    qed
  qed
qed

text \<open>What a run publishes: the error of \<^verbatim>\<open>checkDisks\<close>, or the reports with the issues of the OSDs.\<close>

lemma prepareReport_outcome:
  assumes "run_state (prepareReport D d) h = (Some d', h')"
  shows "\<exists>rt e h1. run_state (checkDisks D (dm_rawDisabled d) (runtime d)) (h @ [DNow]) = (Some (rt, e), h1) \<and>
    (case e of
       Inl err \<Rightarrow> dr_State (node_report d') = DiskDaemonStateFailed \<and> dr_Issues (node_report d') = [err]
     | Inr b \<Rightarrow> \<exists>issues. (if b then checkOsds rt else Some (rt, [])) = Some (runtime d', issues) \<and>
         dr_State (node_report d') = (if issues \<noteq> [] then DiskDaemonStateFailed else DiskDaemonStateOk) \<and>
         dr_Issues (node_report d') = issues \<and> dr_DisksReport (node_report d') = rt_disksReport (runtime d') \<and>
         dr_OsdsReport (node_report d') = rt_osdsReport (runtime d'))"
proof -
  obtain d1 where d1: "run_state (updateNodeReportState D False None None [] d) h = (d1, h @ [DNow])"
    "runtime d1 = runtime d" "dm_rawDisabled d1 = dm_rawDisabled d"
    by (simp add: updateNodeReportState_def)
  obtain r h1 where c: "run_state (checkDisks D (dm_rawDisabled d) (runtime d)) (h @ [DNow]) = (r, h1)"
    by (cases "run_state (checkDisks D (dm_rawDisabled d) (runtime d)) (h @ [DNow])")
  from assms d1 c obtain rt e where r: "r = Some (rt, e)" by (cases r) (auto simp: prepareReport_def)
  show ?thesis
  proof (cases e)
    case (Inl err)
    with assms d1 c r show ?thesis
      by (auto simp: prepareReport_def updateNodeReportState_def with_runtime_def)
  next
    case (Inr b)
    show ?thesis
    proof (cases "if b then checkOsds rt else Some (rt, [])")
      case None
      with assms d1 c r Inr show ?thesis by (simp add: prepareReport_def)
    next
      case (Some q)
      with assms d1 c r Inr show ?thesis
        by (cases q) (auto simp: prepareReport_def updateNodeReportState_def with_runtime_def split: if_splits)
    qed
  qed
qed

lemma checkOsds_disks: "checkOsds rt = Some (rt', issues) \<Longrightarrow> rt_disksReport rt' = rt_disksReport rt"
  by (auto simp: checkOsds_def bind_eq_Some_conv split: option.splits)

text \<open>The report the daemon publishes after a run agrees with its state: it is failed exactly if it
  has issues, it is not left in preparation, and if it is ok it carries the disk report and the OSD
  report of the runtime data, the first of which exists.\<close>

theorem published_report_consistent:
  assumes "run_state (prepareReport D d) h = (Some d', h')"
  shows "(dr_State (node_report d') = DiskDaemonStateFailed \<longleftrightarrow> dr_Issues (node_report d') \<noteq> []) \<and>
    dr_State (node_report d') \<noteq> DiskDaemonStateInProgress \<and>
    (dr_State (node_report d') = DiskDaemonStateOk \<longrightarrow>
       dr_DisksReport (getFullReport d') = rt_disksReport (runtime d') \<and> dr_DisksReport (getFullReport d') \<noteq> None \<and>
       dr_OsdsReport (getOsdReport d') = rt_osdsReport (runtime d'))"
proof -
  obtain rt e h1 where c: "run_state (checkDisks D (dm_rawDisabled d) (runtime d)) (h @ [DNow]) = (Some (rt, e), h1)"
    and e: "case e of
       Inl err \<Rightarrow> dr_State (node_report d') = DiskDaemonStateFailed \<and> dr_Issues (node_report d') = [err]
     | Inr b \<Rightarrow> \<exists>issues. (if b then checkOsds rt else Some (rt, [])) = Some (runtime d', issues) \<and>
         dr_State (node_report d') = (if issues \<noteq> [] then DiskDaemonStateFailed else DiskDaemonStateOk) \<and>
         dr_Issues (node_report d') = issues \<and> dr_DisksReport (node_report d') = rt_disksReport (runtime d') \<and>
         dr_OsdsReport (node_report d') = rt_osdsReport (runtime d')"
    using prepareReport_outcome [OF assms] by blast
  from checkDisks_keeps [OF c] have "rt_disksReport rt \<noteq> None" if "e = Inr b" for b using that by blast
  with e show ?thesis
    by (cases e) (auto simp: getFullReport_def getOsdReport_def dest: checkOsds_disks split: if_splits)
qed

theorem published_report_consistent_witness:
  "\<exists>d'. dx_after (dx_env [''/dev/vdb'']) 1 = Some d' \<and> dr_State (node_report d') = DiskDaemonStateOk \<and>
     dr_DisksReport (getFullReport d') \<noteq> None"
proof -
  let ?r = "run_state (prepareReport (dx_env [''/dev/vdb'']) dx_daemon) []"
  have r: "?r = (Some (the (fst ?r)), snd ?r)" and ok: "dr_State (node_report (the (fst ?r))) = DiskDaemonStateOk"
    and one: "dx_after (dx_env [''/dev/vdb'']) 1 = Some (the (fst ?r))"
    by code_simp+
  from published_report_consistent [OF r] ok one show ?thesis by blast
qed

text \<open>A run that finds nothing changed publishes an ok report without issues, and with the OSD report
  of an earlier run. The issues of that earlier run, and with them the knowledge that its OSD report is
  incomplete, are gone.\<close>

theorem osd_issues_last_one_run:
  assumes "run_state (checkDisks D (dm_rawDisabled d) (runtime d)) (h @ [DNow]) = (Some (rt, Inr False), h1)"
    and "run_state (prepareReport D d) h = (Some d', h')"
  shows "dr_State (node_report d') = DiskDaemonStateOk \<and> dr_Issues (node_report d') = [] \<and>
    dr_OsdsReport (node_report d') = rt_osdsReport (runtime d)"
  using prepareReport_outcome [OF assms(2)] assms(1) checkDisks_keeps [OF assms(1)] by auto

text \<open>A volume on two disks makes the first run fail; the second run reports the node as ok, with no
  volume at all for the OSD.\<close>

theorem osd_issues_last_one_run_witness:
  "\<exists>d1 d2. dx_after (dx_env [''/dev/vdb'', ''/dev/vdc'']) 1 = Some d1 \<and> dr_State (node_report d1) = DiskDaemonStateFailed \<and>
     fst (run_state (prepareReport (dx_env [''/dev/vdb'', ''/dev/vdc'']) d1) []) = Some d2 \<and>
     dr_State (node_report d2) = DiskDaemonStateOk \<and> dr_Issues (node_report d2) = [] \<and>
     dr_OsdsReport (node_report d2) = Some \<lparr>dor_Warnings = [], dor_Osds = [(''0'', [])]\<rparr>"
proof -
  let ?D = "dx_env [''/dev/vdb'', ''/dev/vdc'']"
  let ?d1 = "the (dx_after ?D 1)"
  let ?c = "run_state (checkDisks ?D (dm_rawDisabled ?d1) (runtime ?d1)) ([] @ [DNow])"
  let ?p = "run_state (prepareReport ?D ?d1) []"
  have one: "dx_after ?D 1 = Some ?d1" and failed: "dr_State (node_report ?d1) = DiskDaemonStateFailed"
    and osds: "rt_osdsReport (runtime ?d1) = Some \<lparr>dor_Warnings = [], dor_Osds = [(''0'', [])]\<rparr>"
    and c: "?c = (Some (fst (the (fst ?c)), Inr False), snd ?c)" and p: "?p = (Some (the (fst ?p)), snd ?p)"
    by code_simp+
  have "fst ?p = Some (the (fst ?p))" by code_simp
  with osd_issues_last_one_run [OF c p] one failed osds show ?thesis by metis
qed

section \<open>Two consequences of updating the runtime data in place\<close>

definition dx_flaky :: denv where
  "dx_flaky = (dx_env [])\<lparr>
     de_Run := (\<lambda>h cmd. (''/dev/disk/by-path'' @ split_last CHR '' '' cmd, [],
       (if cmd = cephVolumeLvmCmd \<and> DShell cephVolumeLvmCmd \<notin> set h then Some ''exit status 1'' else None), False)),
     de_VolumeLvm := (\<lambda>_. Inr (Some []))\<rparr>"

text \<open>A node without OSDs on which the first call of \<^verbatim>\<open>ceph-volume lvm list\<close> fails. The block devices are
  already stored when the run fails, so the second run sees no change: it publishes an ok report that
  has no OSD report at all.\<close>

theorem failed_run_hides_devices:
  "map_option (\<lambda>d. (dr_State (node_report d), dr_Issues (node_report d) = [])) (dx_after dx_flaky 1)
     = Some (DiskDaemonStateFailed, False) \<and>
   map_option (\<lambda>d. (dr_State (node_report d), dr_DisksReport (node_report d) = None, dr_OsdsReport (node_report d) = None))
     (dx_after dx_flaky 2) = Some (DiskDaemonStateOk, False, True)"
  by code_simp

text \<open>A volume that is segmented on one disk, so that ceph-volume lists the disk twice: compacting the
  list writes into the stored volumes, and the second run takes the same answer for a change.\<close>

theorem segmented_volume_never_settles:
  "map_option (\<lambda>d. map_option snd (fst (run_state
       (checkDisks (dx_env [''/dev/vdb'', ''/dev/vdb'']) (dm_rawDisabled d) (runtime d)) [])))
     (dx_after (dx_env [''/dev/vdb'', ''/dev/vdb'']) 1) = Some (Some (Inr True)) \<and>
   map_option (\<lambda>d. map_option snd (fst (run_state
       (checkDisks (dx_env [''/dev/vdb'']) (dm_rawDisabled d) (runtime d)) [])))
     (dx_after (dx_env [''/dev/vdb'']) 1) = Some (Some (Inr False))"
  by code_simp

end
