(* ===== verification/Spec_Analysis.thy ===== *)
theory Spec_Analysis
  imports Common
begin

text \<open>
  The comparison of the storage specification of a node with the disks and OSDs that its disk daemon
  reports: \<^verbatim>\<open>runSpecAnalysis\<close> of \<^verbatim>\<open>health/spec_osd_verification.go\<close>. The result is a value of the
  option type; \<open>None\<close> stands for the panics of the Go code (a regular expression that does not
  compile, a report without its disk or OSD part) and for the endless search of \<open>FindDiskName\<close>. The
  map \<^verbatim>\<open>checkedParts\<close>, which the code writes and never reads, is left out.
\<close>

record osdDetails =
  osd_ClusterFSID :: string
  osd_DeviceName :: string
  osd_DeviceByID :: string
  osd_DeviceByPath :: string
  osd_BlockPartition :: string
  osd_MetaDeviceName :: string
  osd_MetaDeviceByID :: string
  osd_MetaDeviceByPath :: string
  osd_MetaPartition :: string
  osd_UUID :: string
  osd_Up :: bool
  osd_In :: bool

type_synonym nodeDetails = "(string, osdDetails) gomap"

section \<open>Numbers\<close>

text \<open>The value of \<^verbatim>\<open>strconv.Atoi\<close> with its error dropped: zero for a text that is no number, and the
  nearest 64-bit value for one out of range.\<close>

fun digits_value :: "string \<Rightarrow> int \<Rightarrow> int option" where
  "digits_value [] acc = Some acc"
| "digits_value (c # s) acc =
     (if c \<in> set digits10 then digits_value s (10 * acc + int (of_char c - of_char CHR ''0'')) else None)"

definition Atoi :: "string \<Rightarrow> int" where
  "Atoi s =
     (let neg = HasPrefix s ''-'';
          ds = (if neg \<or> HasPrefix s ''+'' then tl s else s)
      in if ds = [] then 0
         else case digits_value ds 0 of
                None \<Rightarrow> 0
              | Some n \<Rightarrow> if neg then max (- (2 ^ 63)) (- n) else min (2 ^ 63 - 1) n)"

section \<open>The devices of the specification\<close>

record devForAnalysis =
  da_Dev :: string
  da_FullDiskUsage :: bool
  da_MetadataDevice :: string
  da_OsdsPerDevice :: int
  da_Filtered :: bool
  da_SpecifiedAs :: string

definition node_metadata :: "CephNode \<Rightarrow> string" where
  "node_metadata node = str_of (cn_Config node) ''metadataDevice''"

definition node_per_device :: "CephNode \<Rightarrow> int" where
  "node_per_device node = (case map_of (cn_Config node) ''osdsPerDevice'' of None \<Rightarrow> 1 | Some v \<Rightarrow> Atoi v)"

definition filter_hits :: "(string \<Rightarrow> bool) \<Rightarrow> bool \<Rightarrow> string \<Rightarrow> BlockDeviceInfo \<Rightarrow> bool" where
  "filter_hits re byName dev devInfo \<longleftrightarrow>
     \<not> HasPrefix dev ''/dev/mapper/'' \<and>
     (if byName then re (cut_prefix dev ''/dev/'')
      else re dev \<or> list_ex re (bdi_Symlinks devInfo))"

definition findDisksForFilter :: "env \<Rightarrow> string \<Rightarrow> bool \<Rightarrow> (string, BlockDeviceInfo) gomap \<Rightarrow> string list option" where
  "findDisksForFilter E flt byName disksInfo =
     map_option (\<lambda>re. map fst (filter (\<lambda>(dev, devInfo). filter_hits re byName dev devInfo) disksInfo)) (e_Regexp E flt)"

text \<open>The issues and the devices found so far; the code returns the issues if there are any.\<close>

record spec_vars =
  sv_issues :: "string list"
  sv_devAlreadyUsed :: "(string, string) gomap"
  sv_metaDevs :: "(string, string) gomap"
  sv_devices :: "devForAnalysis list"

definition spec_vars0 :: spec_vars where
  "spec_vars0 = \<lparr>sv_issues = [], sv_devAlreadyUsed = [], sv_metaDevs = [], sv_devices = []\<rparr>"

abbreviation add_issue :: "string \<Rightarrow> spec_vars \<Rightarrow> spec_vars" where
  "add_issue msg s \<equiv> s\<lparr>sv_issues := sv_issues s @ [msg]\<rparr>"

definition filtered_devices :: "env \<Rightarrow> CephNode \<Rightarrow> DiskDaemonDisksReport \<Rightarrow> spec_vars option" where
  "filtered_devices E node rep =
     (let meta = node_metadata node in
      if meta \<noteq> [] \<and> map_of (ddr_Aliases rep) (PathDevPrepended meta) = None then
        Some (add_issue (''specified metadata device '' @ quoted meta @ '' is not found on a node'') spec_vars0)
      else
        let byName = cn_DeviceFilter node \<noteq> [];
            byFilter = (if byName then cn_DeviceFilter node else cn_DevicePathFilter node)
        in case findDisksForFilter E byFilter byName (ddr_BlockInfo rep) of
             None \<Rightarrow> None
           | Some [] \<Rightarrow> Some (add_issue (''no devices found for device filter '' @ quoted byFilter) spec_vars0)
           | Some found \<Rightarrow>
               (case e_Regexp E byFilter of
                  None \<Rightarrow> None
                | Some re \<Rightarrow>
                    if meta \<noteq> [] \<and> re meta then
                      Some (add_issue (''specified metadata device matches device filter '' @ quoted byFilter) spec_vars0)
                    else Some (spec_vars0\<lparr>sv_devices := map (\<lambda>dev. \<lparr>da_Dev = dev,
                      da_FullDiskUsage = (block_type rep (str_of (ddr_Aliases rep) (PathDevPrepended dev)) = ''disk''),
                      da_MetadataDevice = meta, da_OsdsPerDevice = node_per_device node, da_Filtered = True,
                      da_SpecifiedAs = byFilter\<rparr>) found\<rparr>)))"

definition device_metadata :: "CephNode \<Rightarrow> CephDevice \<Rightarrow> string" where
  "device_metadata node dev = (case map_of (cd_Config dev) ''metadataDevice'' of None \<Rightarrow> node_metadata node | Some v \<Rightarrow> v)"

definition device_per_device :: "CephNode \<Rightarrow> CephDevice \<Rightarrow> int" where
  "device_per_device node dev = (case map_of (cd_Config dev) ''osdsPerDevice'' of None \<Rightarrow> node_per_device node | Some v \<Rightarrow> Atoi v)"

definition specified_as :: "CephDevice \<Rightarrow> string" where
  "specified_as dev = (if cd_FullPath dev \<noteq> [] then cd_FullPath dev else cd_Name dev)"

text \<open>The metadata device of a listed device: \<open>Inl\<close> skips the device.\<close>

definition check_metadata :: "CephNode \<Rightarrow> DiskDaemonDisksReport \<Rightarrow> string \<Rightarrow> string \<Rightarrow> spec_vars \<Rightarrow> spec_vars + spec_vars" where
  "check_metadata node rep as meta s =
     (if meta = [] then Inr s
      else case map_of (ddr_Aliases rep) (PathDevPrepended meta) of
             None \<Rightarrow>
               Inl (add_issue (if PathDevPrepended meta = PathDevPrepended (node_metadata node)
                 then ''specified metadata device '' @ quoted (node_metadata node) @ '' is not found on a node''
                 else ''metadata device '' @ quoted meta @ '' specified for device '' @ quoted as @ '' is not found on a node'') s)
           | Some metaDev \<Rightarrow>
               let s = (if block_type rep metaDev \<noteq> ''disk'' \<and> str_of (sv_metaDevs s) meta \<noteq> [] then
                          add_issue (''spec device '' @ quoted as @ '' has metadata device '' @ quoted meta
                            @ '', which is duplication use as meta for device '' @ quoted (str_of (sv_metaDevs s) meta)) s
                        else s)
               in Inr (s\<lparr>sv_metaDevs := AList.update meta as (sv_metaDevs s)\<rparr>))"

definition listed_device :: "CephNode \<Rightarrow> DiskDaemonDisksReport \<Rightarrow> CephDevice \<Rightarrow> spec_vars \<Rightarrow> spec_vars option" where
  "listed_device node rep dev s =
     (let as = specified_as dev in
      case FindDiskName as rep of
        None \<Rightarrow> None
      | Some (Inl err) \<Rightarrow> Some (add_issue (''failed to check device '' @ quoted as @ '' specified in spec: '' @ err) s)
      | Some (Inr diskName) \<Rightarrow>
          let meta = device_metadata node dev;
              usedDev = str_of (ddr_Aliases rep) (PathDevPrepended as)
          in (case map_of (sv_devAlreadyUsed s) usedDev of
                Some duplicateFor \<Rightarrow>
                  Some (add_issue (''spec device '' @ quoted as @ '' is duplication usage for item with device ''
                    @ quoted duplicateFor @ '' (devices matched by id)'') s)
              | None \<Rightarrow>
                  (case check_metadata node rep as meta s of
                     Inl s' \<Rightarrow> Some s'
                   | Inr s' \<Rightarrow> Some (s'\<lparr>
                       sv_devAlreadyUsed := AList.update usedDev as (sv_devAlreadyUsed s'),
                       sv_devices := sv_devices s' @ [\<lparr>da_Dev = diskName,
                         da_FullDiskUsage = (block_type rep usedDev = ''disk''), da_MetadataDevice = meta,
                         da_OsdsPerDevice = device_per_device node dev, da_Filtered = False, da_SpecifiedAs = as\<rparr>]\<rparr>))))"

fun listed_devices :: "CephNode \<Rightarrow> DiskDaemonDisksReport \<Rightarrow> CephDevice list \<Rightarrow> spec_vars \<Rightarrow> spec_vars option" where
  "listed_devices node rep [] s = Some s"
| "listed_devices node rep (dev # devs) s = Option.bind (listed_device node rep dev s) (listed_devices node rep devs)"

text \<open>The metadata devices that are used as block devices, too.\<close>

definition check_meta_use :: "DiskDaemonDisksReport \<Rightarrow> spec_vars \<Rightarrow> spec_vars" where
  "check_meta_use rep s = fold (\<lambda>(meta, usedFor) s.
     case map_of (sv_devAlreadyUsed s) (str_of (ddr_Aliases rep) meta) of
       Some dev \<Rightarrow> add_issue (''specified as metadata device '' @ quoted meta @ '' (for device '' @ quoted usedFor
         @ '') and is used as block device '' @ quoted dev) s
     | None \<Rightarrow> s) (sv_metaDevs s) s"

definition spec_devices :: "env \<Rightarrow> CephNode \<Rightarrow> DiskDaemonDisksReport \<Rightarrow> spec_vars option" where
  "spec_devices E node rep =
     (if cn_Devices node = [] \<and> (cn_DeviceFilter node \<noteq> [] \<or> cn_DevicePathFilter node \<noteq> [])
      then filtered_devices E node rep
      else map_option (check_meta_use rep) (listed_devices node rep (cn_Devices node) spec_vars0))"

end
