(* ===== verification/Spec_Osds.thy ===== *)
theory Spec_Osds
  imports Spec_Analysis
begin

text \<open>
  The second half of \<^verbatim>\<open>runSpecAnalysis\<close>: the OSDs on every device of the specification, and the OSD
  volumes of the node that the specification does not describe.
\<close>

section \<open>The OSDs on a device\<close>

record an_vars =
  an_issues :: "string list"
  an_osdsOnDevice :: int
  an_reflected :: "(string, bool) gomap"
  an_metaFound :: bool
  an_rawOsd :: bool

abbreviation an_issue :: "string \<Rightarrow> an_vars \<Rightarrow> an_vars" where
  "an_issue msg s \<equiv> s\<lparr>an_issues := an_issues s @ [msg]\<rparr>"

definition count_osd :: "string \<Rightarrow> an_vars \<Rightarrow> an_vars" where
  "count_osd osd s = s\<lparr>an_osdsOnDevice := an_osdsOnDevice s + 1, an_reflected := AList.update osd True (an_reflected s)\<rparr>"

definition usedInSpecAs :: "devForAnalysis \<Rightarrow> string" where
  "usedInSpecAs d = (if da_Filtered d
     then ''device '' @ quoted (da_Dev d) @ '' filtered by '' @ quoted (da_SpecifiedAs d)
     else ''device '' @ quoted (da_SpecifiedAs d))"

definition raw_device :: "devForAnalysis \<Rightarrow> string \<Rightarrow> an_vars \<Rightarrow> an_vars" where
  "raw_device d osd s =
     (let s = s\<lparr>an_rawOsd := True\<rparr>;
          s = (if da_MetadataDevice d \<noteq> [] then
                 an_issue (usedInSpecAs d @ '' is specified with metadata device, but currently used as raw device (no metadata supported)'') s
               else s);
          s = (if da_OsdsPerDevice d \<noteq> 1 then
                 an_issue (usedInSpecAs d @ '' is specified with multiple osds per device, but currently used as raw device (only single osd supported)'') s
               else s)
      in count_osd osd s)"

text \<open>Whether a partition is the one the specification means; \<open>None\<close> if the filter does not compile.\<close>

definition part_selected :: "env \<Rightarrow> DiskDaemonDisksReport \<Rightarrow> devForAnalysis \<Rightarrow> OsdPartition \<Rightarrow> bool option" where
  "part_selected E rep d part =
     (if da_FullDiskUsage d then Some True
      else if da_Filtered d then
        map_option (\<lambda>re. re (op_Partition part) \<and> list_ex re (op_PartitionSymlinks part)) (e_Regexp E (da_SpecifiedAs d))
      else Some (str_of (ddr_Aliases rep) (op_Partition part) = str_of (ddr_Aliases rep) (da_SpecifiedAs d)))"

definition meta_matches :: "DiskDaemonDisksReport \<Rightarrow> devForAnalysis \<Rightarrow> OsdDevice \<Rightarrow> OsdPartition \<Rightarrow> bool" where
  "meta_matches rep d osdDev part =
     (let metaDevAliased = str_of (ddr_Aliases rep) (PathDevPrepended (da_MetadataDevice d))
      in metaDevAliased = str_of (ddr_Aliases rep) (PathDevPrepended (op_Partition part)) \<or>
         metaDevAliased = str_of (ddr_Aliases rep) (PathDevPrepended (od_Name osdDev)))"

definition check_part :: "DiskDaemonDisksReport \<Rightarrow> devForAnalysis \<Rightarrow> string \<Rightarrow> OsdDevice \<Rightarrow> OsdPartition \<Rightarrow> an_vars \<Rightarrow> an_vars" where
  "check_part rep d osd osdDev part s =
     (let lookForBlock = (od_Name osdDev = da_Dev d); lookForMeta = (da_MetadataDevice d \<noteq> [])
      in if op_Type part = ''block'' then (if lookForBlock then count_osd osd s else s)
         else if op_Type part = ''db'' then
           (if lookForBlock then
              an_issue (usedInSpecAs d @ '' is specified as block device, but contains db partition '' @ quoted (op_Partition part)) s
            else if lookForMeta then
              (if meta_matches rep d osdDev part then s\<lparr>an_metaFound := True\<rparr>
               else an_issue (usedInSpecAs d @ '' has unknown db partition '' @ quoted (op_Partition part) @ '', while expected ''
                 @ quoted (da_MetadataDevice d) @ '' (osd '' @ osd @ '')'') s)
            else an_issue (usedInSpecAs d @ '' has no specified metadata device, but found related db partition ''
              @ quoted (op_Partition part) @ '' (osd '' @ osd @ '')'') s)
         else s)"

fun check_parts :: "env \<Rightarrow> DiskDaemonDisksReport \<Rightarrow> devForAnalysis \<Rightarrow> string \<Rightarrow> OsdDevice \<Rightarrow> OsdPartition list \<Rightarrow> an_vars \<Rightarrow>
    an_vars option" where
  "check_parts E rep d osd osdDev [] s = Some s"
| "check_parts E rep d osd osdDev (part # parts) s =
     (if od_RelatedPartition osdDev \<noteq> op_Partition part then check_parts E rep d osd osdDev parts s
      else case part_selected E rep d part of
             None \<Rightarrow> None
           | Some False \<Rightarrow> check_parts E rep d osd osdDev parts s
           | Some True \<Rightarrow>
               let s = check_part rep d osd osdDev part s
               in if \<not> da_FullDiskUsage d then Some s else check_parts E rep d osd osdDev parts s)"

fun check_devices :: "env \<Rightarrow> DiskDaemonDisksReport \<Rightarrow> devForAnalysis \<Rightarrow> string \<Rightarrow> OsdDaemonInfo \<Rightarrow> OsdDevice list \<Rightarrow> an_vars \<Rightarrow>
    an_vars option" where
  "check_devices E rep d osd info [] s = Some s"
| "check_devices E rep d osd info (osdDev # devs) s =
     (if od_Raw osdDev then
        check_devices E rep d osd info devs (if od_Name osdDev \<noteq> da_Dev d then s else raw_device d osd s)
      else Option.bind (check_parts E rep d osd osdDev (odi_Partitions info) s) (check_devices E rep d osd info devs))"

text \<open>A volume of the OSD that the cluster knows.\<close>

definition own_volume :: "env \<Rightarrow> DiskDaemonDisksReport \<Rightarrow> devForAnalysis \<Rightarrow> string \<Rightarrow> OsdDaemonInfo \<Rightarrow> an_vars \<Rightarrow> an_vars option" where
  "own_volume E rep d osd info s =
     map_option (\<lambda>s. if da_MetadataDevice d \<noteq> [] \<and> \<not> an_metaFound s \<and> \<not> an_rawOsd s
         then an_issue (''metadata device '' @ quoted (da_MetadataDevice d) @ '' is not found for osd '' @ quoted osd @ '' for '' @ usedInSpecAs d) s
         else s)
       (check_devices E rep d osd info (odi_Devices info) (s\<lparr>an_metaFound := False, an_rawOsd := False\<rparr>))"

text \<open>A volume with the number of an OSD of the cluster that belongs to another OSD.\<close>

definition unknown_part :: "devForAnalysis \<Rightarrow> string \<Rightarrow> OsdPartition \<Rightarrow> an_vars \<Rightarrow> an_vars" where
  "unknown_part d osd part s =
     (if da_FullDiskUsage d then
        an_issue (''unknown osd '' @ quoted osd @ '' '' @ op_Type part @ '' partition '' @ quoted (op_Partition part)
          @ '' is found on '' @ usedInSpecAs d)
          (if op_Type part = ''block'' then s\<lparr>an_osdsOnDevice := an_osdsOnDevice s + 1\<rparr> else s)
      else s)"

definition unknown_device :: "devForAnalysis \<Rightarrow> string \<Rightarrow> OsdDaemonInfo \<Rightarrow> OsdDevice \<Rightarrow> an_vars \<Rightarrow> an_vars" where
  "unknown_device d osd info osdDev s =
     (if od_Name osdDev \<noteq> da_Dev d then s
      else if od_Raw osdDev then
        an_issue (''unknown osd '' @ quoted osd @ '' (raw formatted) is found on '' @ usedInSpecAs d)
          (s\<lparr>an_osdsOnDevice := an_osdsOnDevice s + 1\<rparr>)
      else fold (unknown_part d osd) (odi_Partitions info) s)"

definition known_volume :: "nodeDetails \<Rightarrow> string \<Rightarrow> OsdDaemonInfo \<Rightarrow> bool option" where
  "known_volume details osd info = map_option
     (\<lambda>c. odi_ClusterFSID info = osd_ClusterFSID c \<and> odi_OsdUUID info = osd_UUID c) (map_of details (''osd.'' @ osd))"

definition check_volume :: "env \<Rightarrow> DiskDaemonDisksReport \<Rightarrow> nodeDetails \<Rightarrow> devForAnalysis \<Rightarrow> string \<Rightarrow> OsdDaemonInfo \<Rightarrow>
    an_vars \<Rightarrow> an_vars option" where
  "check_volume E rep details d osd info s =
     (case known_volume details osd info of
        None \<Rightarrow> Some s
      | Some True \<Rightarrow> own_volume E rep d osd info s
      | Some False \<Rightarrow> Some (fold (unknown_device d osd info) (odi_Devices info) s))"

fun check_volumes :: "env \<Rightarrow> DiskDaemonDisksReport \<Rightarrow> nodeDetails \<Rightarrow> devForAnalysis \<Rightarrow> (string \<times> OsdDaemonInfo) list \<Rightarrow>
    an_vars \<Rightarrow> an_vars option" where
  "check_volumes E rep details d [] s = Some s"
| "check_volumes E rep details d ((osd, info) # vs) s =
     Option.bind (check_volume E rep details d osd info s) (check_volumes E rep details d vs)"

text \<open>The volumes of the OSDs on a device, in the order of the two loops; the OSD report is read only if
  there is an OSD.\<close>

definition device_volumes :: "DiskDaemonReport \<Rightarrow> DiskDaemonDisksReport \<Rightarrow> string \<Rightarrow> (string \<times> OsdDaemonInfo) list option" where
  "device_volumes report rep dev =
     (let osds = get_or [] (ddr_DiskToOsd rep) dev
      in if osds = [] then Some []
         else map_option (\<lambda>r. concat (map (\<lambda>osd. map (Pair osd) (get_or [] (dor_Osds r) osd)) osds)) (dr_OsdsReport report))"

definition check_device :: "env \<Rightarrow> DiskDaemonReport \<Rightarrow> DiskDaemonDisksReport \<Rightarrow> nodeDetails \<Rightarrow> devForAnalysis \<Rightarrow> an_vars \<Rightarrow>
    an_vars option" where
  "check_device E report rep details d s =
     Option.bind (device_volumes report rep (da_Dev d)) (\<lambda>vs.
       map_option (\<lambda>s. if an_osdsOnDevice s \<noteq> da_OsdsPerDevice d
           then an_issue (usedInSpecAs d @ '' should have '' @ show_int (da_OsdsPerDevice d) @ '' osd(s), but actually found ''
             @ show_int (an_osdsOnDevice s)) s
           else s)
         (check_volumes E rep details d vs (s\<lparr>an_osdsOnDevice := 0\<rparr>)))"

fun check_all :: "env \<Rightarrow> DiskDaemonReport \<Rightarrow> DiskDaemonDisksReport \<Rightarrow> nodeDetails \<Rightarrow> devForAnalysis list \<Rightarrow> an_vars \<Rightarrow>
    an_vars option" where
  "check_all E report rep details [] s = Some s"
| "check_all E report rep details (d # ds) s =
     Option.bind (check_device E report rep details d s) (check_all E report rep details ds)"

section \<open>Volumes outside the specification\<close>

definition uuid_suffix :: "OsdDaemonInfo \<Rightarrow> string" where
  "uuid_suffix info = (if odi_OsdUUID info \<noteq> [] then '' (osd fsid '' @ quoted (odi_OsdUUID info) @ '')'' else [])"

definition origin_suffix :: "bool \<Rightarrow> string" where
  "origin_suffix knownOsd = (if knownOsd then '', which is not reflected in spec''
     else '', which seems to be stray, can be cleaned up'')"

definition extra_device :: "string \<Rightarrow> OsdDaemonInfo \<Rightarrow> bool \<Rightarrow> OsdDevice \<Rightarrow> string list" where
  "extra_device osd info knownOsd dev =
     (if od_Raw dev then
        [''found formatted ceph raw device '' @ quoted (od_Name dev) @ '', belongs to osd '' @ quoted osd
           @ uuid_suffix info @ origin_suffix knownOsd]
      else case find (\<lambda>part. od_RelatedPartition dev = op_Partition part) (odi_Partitions info) of
             None \<Rightarrow> []
           | Some part \<Rightarrow>
               [''found ceph '' @ op_Type part @ '' partition '' @ quoted (op_Partition part) @ '', belongs to osd '' @ quoted osd
                  @ uuid_suffix info @ '', placed on '' @ quoted (od_Name dev) @ '' device'' @ origin_suffix knownOsd])"

text \<open>The warnings about a volume, and whether it belongs to an OSD of the cluster.\<close>

definition extra_volume :: "nodeDetails \<Rightarrow> (string, bool) gomap \<Rightarrow> string \<Rightarrow> OsdDaemonInfo \<Rightarrow> string list \<times> bool" where
  "extra_volume details reflected osd info =
     (let known = (case map_of details (''osd.'' @ osd) of None \<Rightarrow> False | Some c \<Rightarrow> osd_UUID c = odi_OsdUUID info)
      in if known \<and> flag reflected osd then ([], False)
         else let ws = concat (map (extra_device osd info known) (odi_Devices info))
              in (ws, known \<and> ws \<noteq> []))"

definition extra_volumes :: "nodeDetails \<Rightarrow> (string, bool) gomap \<Rightarrow> DiskDaemonOsdsReport \<Rightarrow> string list \<times> bool" where
  "extra_volumes details reflected osds =
     (let rs = map (\<lambda>(osd, info). extra_volume details reflected osd info)
            (concat (map (\<lambda>(osd, infos). map (Pair osd) infos) (dor_Osds osds)))
      in (sort (concat (map fst rs)), list_ex snd rs))"

section \<open>The analysis of a node\<close>

text \<open>Without devices and filters the disk report is not read.\<close>

definition reads_disks :: "CephNode \<Rightarrow> bool" where
  "reads_disks node \<longleftrightarrow> cn_Devices node \<noteq> [] \<or> cn_DeviceFilter node \<noteq> [] \<or> cn_DevicePathFilter node \<noteq> []"

definition disks_or_empty :: "DiskDaemonReport \<Rightarrow> DiskDaemonDisksReport" where
  "disks_or_empty report = (case dr_DisksReport report of Some rep \<Rightarrow> rep
     | None \<Rightarrow> \<lparr>ddr_BlockInfo = [], ddr_Aliases = [], ddr_DiskToOsd = []\<rparr>)"

definition an_vars0 :: an_vars where
  "an_vars0 = \<lparr>an_issues = [], an_osdsOnDevice = 0, an_reflected = [], an_metaFound = False, an_rawOsd = False\<rparr>"

definition runSpecAnalysis :: "env \<Rightarrow> CephNode \<Rightarrow> DiskDaemonReport \<Rightarrow> nodeDetails \<Rightarrow>
    (string list \<times> string list \<times> bool) option" where
  "runSpecAnalysis E node report details =
     (if dr_DisksReport report = None \<and> reads_disks node then None
      else
        let rep = disks_or_empty report
        in Option.bind (spec_devices E node rep) (\<lambda>sv.
             if sv_issues sv \<noteq> [] then Some (sort (sv_issues sv), [], False)
             else Option.bind (check_all E report rep details (sv_devices sv) an_vars0) (\<lambda>s.
               if an_issues s \<noteq> [] then Some (sort (an_issues s), [], False)
               else map_option (\<lambda>osds. case extra_volumes details (an_reflected s) osds of (ws, extra) \<Rightarrow> ([], ws, extra))
                 (dr_OsdsReport report))))"

end
