(* ===== verification/Spec_Health.thy ===== *)
theory Spec_Health
  imports Spec_Osds
begin

text \<open>
  \<^verbatim>\<open>health/spec_osd_verification.go\<close> around \<open>runSpecAnalysis\<close>: the OSDs of the cluster by host, the
  analysis of one node, and the status of daemon sets and deployments (\<^verbatim>\<open>health/daemons_status.go\<close>,
  \<^verbatim>\<open>health/deployment_verification.go\<close>). As in \<open>Spec_Osds\<close>, \<open>None\<close> is a panic or an endless search.
\<close>

record healthConfig =
  hc_name :: string
  hc_namespace :: string
  hc_cephCluster :: CephCluster

record cephDeploymentHealthConfig =
  ch_lcmConfig :: LcmConfig
  ch_healthConfig :: healthConfig

definition specAnalysisCheck :: string where "specAnalysisCheck = ''spec_analysis''"

section \<open>The OSDs of the cluster\<close>

definition osd_state :: "OsdMetadataInfo list \<Rightarrow> OsdInfo list \<Rightarrow> nat \<Rightarrow> OsdMetadataInfo \<Rightarrow> bool \<times> bool \<times> string" where
  "osd_state metas infos idx m =
     (case (if length metas = length infos \<and> omd_OsdID m = oi_OsdID (infos ! idx) then Some (infos ! idx)
            else find (\<lambda>i. omd_OsdID m = oi_OsdID i) infos) of
        None \<Rightarrow> (False, False, [])
      | Some i \<Rightarrow> (oi_Up i \<noteq> 0, oi_In i \<noteq> 0, oi_UUID i))"

text \<open>The value after the equals sign of the entry for a device and of the one for its metadata device.\<close>

definition tagged_values :: "string \<Rightarrow> string \<Rightarrow> string \<Rightarrow> string \<times> string" where
  "tagged_values deviceName metaDeviceName text0 = fold (\<lambda>entry (v, metaV).
     if HasPrefix entry deviceName then (split_last CHR ''='' entry, metaV)
     else if HasPrefix entry metaDeviceName then (v, split_last CHR ''='' entry)
     else (v, metaV)) (split_on CHR '','' text0) ([], [])"

definition osd_details :: "string \<Rightarrow> OsdMetadataInfo list \<Rightarrow> OsdInfo list \<Rightarrow> nat \<Rightarrow> OsdMetadataInfo \<Rightarrow> osdDetails" where
  "osd_details fsid metas infos idx m =
     (case osd_state metas infos idx m of (up, inn, uuid) \<Rightarrow>
        let deviceName = split_first CHR '','' (omd_BluestoreDevices m);
            metaDeviceName = split_first CHR '','' (omd_MetadataDevices m);
            ids = tagged_values deviceName metaDeviceName (omd_DeviceIDs m);
            paths = tagged_values deviceName metaDeviceName (omd_DevicePathes m)
        in \<lparr>osd_ClusterFSID = fsid, osd_DeviceName = deviceName, osd_DeviceByID = fst ids, osd_DeviceByPath = fst paths,
            osd_BlockPartition = omd_BluestorePartition m, osd_MetaDeviceName = metaDeviceName,
            osd_MetaDeviceByID = snd ids, osd_MetaDeviceByPath = snd paths, osd_MetaPartition = omd_MetadataPartition m,
            osd_UUID = uuid, osd_Up = up, osd_In = inn\<rparr>)"

definition add_details :: "string \<Rightarrow> OsdMetadataInfo list \<Rightarrow> OsdInfo list \<Rightarrow> nat \<times> OsdMetadataInfo \<Rightarrow>
    (string, nodeDetails) gomap \<Rightarrow> (string, nodeDetails) gomap" where
  "add_details fsid metas infos p devicesMap =
     (let m = snd p;
          host = (if omd_Hostname m = [] then StrayOsdNodeMarker else omd_Hostname m)
      in AList.update host (AList.update (''osd.'' @ show_int (omd_OsdID m)) (osd_details fsid metas infos (fst p) m)
           (get_or [] devicesMap host)) devicesMap)"

text \<open>The code reads the identifier of the cluster for every OSD, and panics if the cluster has no status.\<close>

definition getOsdClusterDetails :: "env \<Rightarrow> cephDeploymentHealthConfig \<Rightarrow> (string + (string, nodeDetails) gomap) option io" where
  "getOsdClusterDetails E c =
     (let ns = lc_RookNamespace (ch_lcmConfig c) in do {
        metas \<leftarrow> RunAndParseCephToolboxCLI E ns ''ceph osd metadata -f json'' (e_OsdMetadata E);
        case metas of
          Inl err \<Rightarrow> State_Monad.return (Some (Inl err))
        | Inr osdsMetadataInfo \<Rightarrow> do {
            infos \<leftarrow> RunAndParseCephToolboxCLI E ns ''ceph osd info -f json'' (e_OsdInfos E);
            State_Monad.return (case infos of
              Inl err \<Rightarrow> Some (Inl err)
            | Inr osdsInfo \<Rightarrow>
                if osdsMetadataInfo = [] then Some (Inr [])
                else map_option (\<lambda>fsid. Inr (fold (add_details fsid osdsMetadataInfo osdsInfo) (enumerate 0 osdsMetadataInfo) []))
                  (cls_FSID (cc_Status (hc_cephCluster (ch_healthConfig c)))))
          }
      })"

section \<open>Daemon sets and deployments\<close>

definition failed_status :: "string list \<Rightarrow> string list \<Rightarrow> DaemonStatus" where
  "failed_status issues messages = \<lparr>dst_Status = DaemonStateFailed, dst_Issues = issues, dst_Messages = messages\<rparr>"

definition skipped_status :: "string \<Rightarrow> DaemonStatus" where
  "skipped_status msg = \<lparr>dst_Status = DaemonStateSkipped, dst_Issues = [], dst_Messages = [msg]\<rparr>"

definition full_name :: "string \<Rightarrow> string \<Rightarrow> string" where
  "full_name namespace name = quoted (namespace @ ''/'' @ name)"

definition getDaemonSetStatus :: "env \<Rightarrow> string \<Rightarrow> string \<Rightarrow> (DaemonStatus \<times> int) io" where
  "getDaemonSetStatus E namespace name = do {
     r \<leftarrow> issue (GetDaemonSet namespace name) (\<lambda>h. e_GetDaemonSet E h namespace name);
     State_Monad.return (case r of
       Inl err \<Rightarrow> (failed_status [if is_not_found err then ''daemonset '' @ full_name namespace name @ '' is not found''
           else ''failed to get '' @ full_name namespace name @ '' daemonset''] [], 0)
     | Inr ds \<Rightarrow>
         let messages = [show_int (ds_NumberReady ds) @ ''/'' @ show_int (ds_DesiredNumberScheduled ds) @ '' ready'']
         in (if IsDaemonSetReady ds then \<lparr>dst_Status = DaemonStateOk, dst_Issues = [], dst_Messages = messages\<rparr>
             else failed_status [''daemonset '' @ full_name namespace name @ '' is not ready''] messages,
             ds_NumberReady ds))
   }"

definition getDeploymentStatus :: "env \<Rightarrow> string \<Rightarrow> string \<Rightarrow> (DaemonStatus \<times> int) io" where
  "getDeploymentStatus E namespace name = do {
     r \<leftarrow> issue (GetDeployment namespace name) (\<lambda>h. e_GetDeployment E h namespace name);
     State_Monad.return (case r of
       Inl err \<Rightarrow> (failed_status [if is_not_found err then ''deployment '' @ full_name namespace name @ '' is not found''
           else ''failed to get '' @ full_name namespace name @ '' deployment''] [], 0)
     | Inr dep \<Rightarrow>
         let messages = [show_int (dep_ReadyReplicas dep) @ ''/'' @ show_int (dep_Replicas dep) @ '' ready'']
         in (if IsDeploymentReady dep then \<lparr>dst_Status = DaemonStateOk, dst_Issues = [], dst_Messages = messages\<rparr>
             else failed_status [''deployment '' @ full_name namespace name @ '' is not ready''] messages,
             dep_ReadyReplicas dep))
   }"

section \<open>One node\<close>

definition timeRetrySleep :: int where "timeRetrySleep = 5000000000"

definition report_command :: "cephDeploymentHealthConfig \<Rightarrow> string" where
  "report_command c = PelagiaDiskDaemon @ '' --full-report --port '' @ show_int (cp_DiskDaemonPort (lc_CommonParams (ch_lcmConfig c)))"

text \<open>The loop around the report of the disk daemon, with the retries that are left. The code decodes every
  answer into the same variable; an answer before the last one is a report in preparation, which has no
  field that could stay behind.\<close>

fun wait_report :: "env \<Rightarrow> cephDeploymentHealthConfig \<Rightarrow> string \<Rightarrow> string \<Rightarrow> nat \<Rightarrow> (DaemonStatus + DiskDaemonReport) io" where
  "wait_report E c namespace node notReadyRetries = do {
     r \<leftarrow> RunAndParseDiskDaemonCLI E namespace node (report_command c) (e_DiskReport E);
     case r of
       Inl err \<Rightarrow> State_Monad.return (Inl (failed_status
         [''failed to run '' @ quoted (report_command c) @ '' command to get disk report from '' @ PelagiaDiskDaemon] []))
     | Inr report \<Rightarrow>
         (case dr_State report of
            DiskDaemonStateFailed \<Rightarrow> State_Monad.return (Inl (failed_status [''disk report is failed''] []))
          | DiskDaemonStateOk \<Rightarrow> State_Monad.return (Inr report)
          | _ \<Rightarrow>
              (case notReadyRetries of
                 0 \<Rightarrow> State_Monad.return (Inl (failed_status [''disk report is not ready''] []))
               | Suc n \<Rightarrow> do {
                   _ \<leftarrow> issue (Sleep timeRetrySleep) (\<lambda>_. ());
                   wait_report E c namespace node n
                 }))
   }"

definition analysis_status :: "string list \<Rightarrow> string list \<Rightarrow> DaemonStatus" where
  "analysis_status issues warnings = \<lparr>dst_Status = (if issues \<noteq> [] then DaemonStateFailed else DaemonStateOk),
     dst_Issues = issues, dst_Messages = warnings\<rparr>"

definition getNodeAnalyseStatus :: "env \<Rightarrow> cephDeploymentHealthConfig \<Rightarrow> string \<Rightarrow> CephNode \<Rightarrow> (string, nodeDetails) gomap \<Rightarrow>
    (DaemonStatus \<times> bool) option io" where
  "getNodeAnalyseStatus E c namespace node osdClusterInfo = do {
     r \<leftarrow> GetNode E (cn_Name node);
     case r of
       Inl err \<Rightarrow> State_Monad.return (Some (failed_status [''failed to get node '' @ quoted (cn_Name node) @ '' info''] [], False))
     | Inr knode \<Rightarrow>
         if \<not> IsNodeWithDiskDaemon E knode (cp_DiskDaemonPlacementLabel (lc_CommonParams (ch_lcmConfig c))) then
           State_Monad.return (Some (skipped_status
             ''disk daemon is not running for node (missed daemon label), spec analysis skipped'', False))
         else if \<not> fst (IsNodeAvailable knode) then
           State_Monad.return (Some (failed_status [snd (IsNodeAvailable knode)] [], False))
         else do {
           report \<leftarrow> wait_report E c namespace (cn_Name node) 3;
           State_Monad.return (case report of
             Inl status \<Rightarrow> Some (status, False)
           | Inr rep \<Rightarrow>
               if cn_UseAllDevices node = Some True then
                 Some (skipped_status (''used '' @ quoted ''useAllDevices'' @ '' flag for node definition, spec analysis skipped''), False)
               else if length (cn_VolumeClaimTemplates node) > 0 then
                 Some (skipped_status ''pvc based node, spec analysis skipped'', False)
               else map_option (\<lambda>(issues, warnings, extraFound). (analysis_status issues warnings, extraFound))
                 (runSpecAnalysis E node rep (get_or [] osdClusterInfo (cn_Name node))))
         }
   }"

section \<open>The status of the analysis\<close>

text \<open>\<open>prepare\<close> is the analysis of all nodes in parallel, \<^verbatim>\<open>prepareSpecAnalysis\<close>.\<close>

definition getSpecAnalysisStatus :: "env \<Rightarrow> cephDeploymentHealthConfig \<Rightarrow>
    ((string, nodeDetails) gomap \<Rightarrow> ((string, DaemonStatus) gomap \<times> string list) option io) \<Rightarrow>
    (OsdSpecAnalysisState option \<times> string list) option io" where
  "getSpecAnalysisStatus E c prepare =
     (let cluster = hc_cephCluster (ch_healthConfig c) in
      if cc_ExternalEnable cluster \<or> Contains (hp_ChecksSkip (lc_HealthParams (ch_lcmConfig c))) specAnalysisCheck
      then State_Monad.return (Some (None, []))
      else do {
        details \<leftarrow> getOsdClusterDetails E c;
        case details of
          None \<Rightarrow> State_Monad.return None
        | Some (Inl err) \<Rightarrow> State_Monad.return (Some (None, [''failed to get osd cluster info'']))
        | Some (Inr osdClusterDetails) \<Rightarrow> do {
            (diskDaemonState, numberReady) \<leftarrow> getDaemonSetStatus E (hc_namespace (ch_healthConfig c)) PelagiaDiskDaemon;
            let issues = dst_Issues diskDaemonState;
            if numberReady = 0 then
              State_Monad.return (Some (Some \<lparr>osa_DiskDaemon = diskDaemonState, osa_CephClusterSpecGeneration = None,
                osa_SpecAnalysis = []\<rparr>, issues))
            else if cc_StorageNodes cluster = [] then
              State_Monad.return (Some (Some \<lparr>osa_DiskDaemon = diskDaemonState,
                osa_CephClusterSpecGeneration = Some (cc_Generation cluster), osa_SpecAnalysis = []\<rparr>, issues))
            else do {
              r \<leftarrow> prepare osdClusterDetails;
              State_Monad.return (map_option (\<lambda>(specStatus, specIssues). (Some \<lparr>osa_DiskDaemon = diskDaemonState,
                osa_CephClusterSpecGeneration = Some (cc_Generation cluster), osa_SpecAnalysis = specStatus\<rparr>,
                issues @ specIssues)) r)
            }
          }
      })"

end
