(* ===== verification/Spec_Threads.thy ===== *)
theory Spec_Threads
  imports Spec_Health
begin

text \<open>
  \<^verbatim>\<open>prepareSpecAnalysis\<close>: the main thread starts a goroutine for every named node of the specification,
  at most \<open>maxParallelThreads\<close> at a time, waits for all of them and collects the issues. The interleavings
  are a step relation on a state that holds the shared variables and the position of every goroutine.
  The calls of the goroutines interleave too, so an analysis may see any history.

  The counter and the status map are changed under a lock, in one step. The slice \<^verbatim>\<open>issues\<close> is not: a
  goroutine reads it and writes the extended slice back in two steps. A waiting main thread only sleeps,
  so it makes no step.
\<close>

definition maxParallelThreads :: int where "maxParallelThreads = 5"

datatype thread =
    Running CephNode
  | Analysed string DaemonStatus bool
  | Appending string DaemonStatus "string list"
  | Updating string DaemonStatus
  | Disposing
  | Finishing
  | Finished

record prep_state =
  pr_todo :: "CephNode list"
  pr_count :: int
  pr_wg :: int
  pr_threads :: "thread list"
  pr_issues :: "string list"
  pr_status :: "(string, DaemonStatus) gomap"
  pr_statusIssues :: "string list"
  pr_verified :: "(string, bool) gomap"
  pr_result :: "((string, DaemonStatus) gomap \<times> string list) option"

definition failed_issue :: "string \<Rightarrow> string" where
  "failed_issue node = ''node '' @ quoted node @ '' has failed spec analyse''"

definition extra_issue :: "string \<Rightarrow> string" where
  "extra_issue node = ''node '' @ quoted node @ '' has running osd(s), not described in spec''"

definition unspecified_issue :: "string \<Rightarrow> string" where
  "unspecified_issue node = ''node '' @ quoted node @ '' present in cluster and has running osd(s), but not present in spec''"

definition prep_init :: "CephNode list \<Rightarrow> (string, nodeDetails) gomap \<Rightarrow> prep_state" where
  "prep_init nodes details = \<lparr>pr_todo = nodes, pr_count = 0, pr_wg = 0, pr_threads = [], pr_issues = [], pr_status = [],
     pr_statusIssues = [], pr_verified = map (\<lambda>node. (node, False)) (filter (\<lambda>node. node \<noteq> StrayOsdNodeMarker) (keys details)),
     pr_result = None\<rparr>"

text \<open>\<^verbatim>\<open>disposeThreads(1)\<close> followed by the start of the goroutine.\<close>

definition spawn :: "CephNode \<Rightarrow> prep_state \<Rightarrow> prep_state" where
  "spawn node s = s\<lparr>pr_count := pr_count s + 1, pr_wg := pr_wg s + 1, pr_threads := pr_threads s @ [Running node],
     pr_verified := AList.update (cn_Name node) True (pr_verified s)\<rparr>"

definition updateStatus :: "string \<Rightarrow> DaemonStatus \<Rightarrow> prep_state \<Rightarrow> prep_state" where
  "updateStatus node status s = s\<lparr>pr_status := AList.update node status (pr_status s),
     pr_statusIssues := (if dst_Issues status \<noteq> [] then pr_statusIssues s @ [failed_issue node] else pr_statusIssues s)\<rparr>"

text \<open>The end of the function, after \<^verbatim>\<open>wg.Wait\<close>.\<close>

definition collect_issues :: "prep_state \<Rightarrow> string list" where
  "collect_issues s = sort (pr_issues s @ pr_statusIssues s
     @ map (\<lambda>(node, _). unspecified_issue node) (filter (\<lambda>(_, verified). \<not> verified) (pr_verified s)))"

definition move_thread :: "nat \<Rightarrow> thread \<Rightarrow> prep_state \<Rightarrow> prep_state" where
  "move_thread i t s = s\<lparr>pr_threads := (pr_threads s)[i := t]\<rparr>"

inductive prep_step :: "(CephNode \<Rightarrow> DaemonStatus \<times> bool \<Rightarrow> bool) \<Rightarrow> prep_state \<Rightarrow> prep_state \<Rightarrow> bool"
  for analysed :: "CephNode \<Rightarrow> DaemonStatus \<times> bool \<Rightarrow> bool" where
  unnamed: "pr_todo s = node # nodes \<Longrightarrow> cn_Name node = [] \<Longrightarrow> prep_step analysed s (s\<lparr>pr_todo := nodes\<rparr>)"
| start: "pr_todo s = node # nodes \<Longrightarrow> cn_Name node \<noteq> [] \<Longrightarrow> pr_count s \<noteq> maxParallelThreads \<Longrightarrow>
    prep_step analysed s (spawn node (s\<lparr>pr_todo := nodes\<rparr>))"
| analyse: "i < length (pr_threads s) \<Longrightarrow> pr_threads s ! i = Running node \<Longrightarrow> analysed node (status, extraFound) \<Longrightarrow>
    prep_step analysed s (move_thread i (Analysed (cn_Name node) status extraFound) s)"
| no_extra: "i < length (pr_threads s) \<Longrightarrow> pr_threads s ! i = Analysed node status False \<Longrightarrow>
    prep_step analysed s (move_thread i (Updating node status) s)"
| read_issues: "i < length (pr_threads s) \<Longrightarrow> pr_threads s ! i = Analysed node status True \<Longrightarrow>
    prep_step analysed s (move_thread i (Appending node status (pr_issues s)) s)"
| write_issues: "i < length (pr_threads s) \<Longrightarrow> pr_threads s ! i = Appending node status xs \<Longrightarrow>
    prep_step analysed s (move_thread i (Updating node status) (s\<lparr>pr_issues := xs @ [extra_issue node]\<rparr>))"
| update: "i < length (pr_threads s) \<Longrightarrow> pr_threads s ! i = Updating node status \<Longrightarrow>
    prep_step analysed s (move_thread i Disposing (updateStatus node status s))"
| dispose: "i < length (pr_threads s) \<Longrightarrow> pr_threads s ! i = Disposing \<Longrightarrow>
    prep_step analysed s (move_thread i Finishing (s\<lparr>pr_count := pr_count s - 1\<rparr>))"
| finish: "i < length (pr_threads s) \<Longrightarrow> pr_threads s ! i = Finishing \<Longrightarrow>
    prep_step analysed s (move_thread i Finished (s\<lparr>pr_wg := pr_wg s - 1\<rparr>))"
| gather: "pr_todo s = [] \<Longrightarrow> pr_wg s = 0 \<Longrightarrow> pr_result s = None \<Longrightarrow>
    prep_step analysed s (s\<lparr>pr_result := Some (pr_status s, collect_issues s)\<rparr>)"

inductive prep_reach :: "(CephNode \<Rightarrow> DaemonStatus \<times> bool \<Rightarrow> bool) \<Rightarrow> prep_state \<Rightarrow> prep_state \<Rightarrow> bool"
  for analysed :: "CephNode \<Rightarrow> DaemonStatus \<times> bool \<Rightarrow> bool" and s0 :: prep_state where
  here: "prep_reach analysed s0 s0"
| more: "prep_reach analysed s0 s \<Longrightarrow> prep_step analysed s s' \<Longrightarrow> prep_reach analysed s0 s'"

text \<open>The contract of an invariant of the threads.\<close>

locale prep_invariant =
  fixes analysed :: "CephNode \<Rightarrow> DaemonStatus \<times> bool \<Rightarrow> bool" and s0 :: prep_state and inv :: "prep_state \<Rightarrow> bool"
  assumes init: "inv s0"
    and step: "prep_step analysed s s' \<Longrightarrow> inv s \<Longrightarrow> inv s'"
begin

lemma reach: "prep_reach analysed s0 s \<Longrightarrow> inv s"
  by (induction rule: prep_reach.induct) (auto intro: init step)

end

text \<open>The results an analysis of a node can have, after any history.\<close>

definition node_analysed :: "env \<Rightarrow> cephDeploymentHealthConfig \<Rightarrow> (string, nodeDetails) gomap \<Rightarrow> CephNode \<Rightarrow> DaemonStatus \<times> bool \<Rightarrow> bool" where
  "node_analysed E c details node r \<longleftrightarrow>
     (\<exists>h. fst (run_state (getNodeAnalyseStatus E c (hc_namespace (ch_healthConfig c)) node details) h) = Some r)"

section \<open>Threads\<close>

text \<open>The goroutines that hold a place of the counter, and those the main thread waits for.\<close>

fun holds_place :: "thread \<Rightarrow> bool" where
  "holds_place Finishing = False"
| "holds_place Finished = False"
| "holds_place _ = True"

definition places :: "thread list \<Rightarrow> int" where
  "places ts = (\<Sum>t \<leftarrow> ts. if holds_place t then 1 else 0)"

definition unfinished :: "thread list \<Rightarrow> int" where
  "unfinished ts = (\<Sum>t \<leftarrow> ts. if t \<noteq> Finished then 1 else 0)"

lemma sum_list_update_int:
  fixes f :: "'a \<Rightarrow> int"
  shows "i < length ts \<Longrightarrow> (\<Sum>t \<leftarrow> ts[i := x]. f t) = (\<Sum>t \<leftarrow> ts. f t) - f (ts ! i) + f x"
  by (induction ts arbitrary: i) (auto split: nat.splits)

lemma places_update:
  "i < length ts \<Longrightarrow> places (ts[i := x]) = places ts - (if holds_place (ts ! i) then 1 else 0) + (if holds_place x then 1 else 0)"
  unfolding places_def by (rule sum_list_update_int)

lemma unfinished_update:
  "i < length ts \<Longrightarrow> unfinished (ts[i := x]) = unfinished ts - (if ts ! i \<noteq> Finished then 1 else 0) + (if x \<noteq> Finished then 1 else 0)"
  unfolding unfinished_def by (rule sum_list_update_int)

lemma places_append [simp]: "places (ts @ [t]) = places ts + (if holds_place t then 1 else 0)"
  by (simp add: places_def)

lemma unfinished_append [simp]: "unfinished (ts @ [t]) = unfinished ts + (if t \<noteq> Finished then 1 else 0)"
  by (simp add: unfinished_def)

text \<open>The counters count, and the counter of the threads stays within its bound.\<close>

definition counted :: "prep_state \<Rightarrow> bool" where
  "counted s \<longleftrightarrow> pr_count s = places (pr_threads s) \<and> pr_wg s = unfinished (pr_threads s) \<and> pr_count s \<le> maxParallelThreads"

lemma counters_step: "prep_step analysed s s' \<Longrightarrow> counted s \<Longrightarrow> counted s'"
  by (induction rule: prep_step.induct)
    (auto simp: counted_def spawn_def move_thread_def updateStatus_def places_update unfinished_update)

lemma places_finished: "\<forall>t \<in> set ts. t = Finished \<Longrightarrow> places ts = 0"
  by (induction ts) (auto simp: places_def)

lemma unfinished_zero: "unfinished ts = 0 \<longleftrightarrow> (\<forall>t \<in> set ts. t = Finished)"
proof -
  have "0 \<le> unfinished ts" for ts by (induction ts) (auto simp: unfinished_def)
  then show ?thesis by (induction ts) (auto simp: unfinished_def, smt (verit))
qed

lemma counted_init: "counted (prep_init nodes details)"
  by (simp add: counted_def prep_init_def places_def unfinished_def maxParallelThreads_def)

interpretation counters: prep_invariant analysed "prep_init nodes details" counted
  for analysed nodes details
  by unfold_locales (rule counted_init, erule (1) counters_step)

section \<open>The end\<close>

fun weight :: "thread \<Rightarrow> nat" where
  "weight (Running _) = 6"
| "weight (Analysed _ _ _) = 5"
| "weight (Appending _ _ _) = 4"
| "weight (Updating _ _) = 3"
| "weight Disposing = 2"
| "weight Finishing = 1"
| "weight Finished = 0"

definition remaining :: "prep_state \<Rightarrow> nat" where
  "remaining s = 7 * length (pr_todo s) + (\<Sum>t \<leftarrow> pr_threads s. weight t) + (if pr_result s = None then 1 else 0)"

lemma weight_update:
  "i < length ts \<Longrightarrow> weight x < weight (ts ! i) \<Longrightarrow> (\<Sum>t \<leftarrow> ts[i := x]. weight t) < (\<Sum>t \<leftarrow> ts. weight t)"
  by (induction ts arbitrary: i) (auto split: nat.splits)

lemma remaining_step: "prep_step analysed s s' \<Longrightarrow> remaining s' < remaining s"
  by (induction rule: prep_step.induct)
    (auto simp: remaining_def spawn_def move_thread_def updateStatus_def intro!: weight_update)

lemma thread_moves:
  assumes "i < length (pr_threads s)" and "pr_threads s ! i \<noteq> Finished"
    and "\<And>node. pr_threads s ! i = Running node \<Longrightarrow> \<exists>r. analysed node r"
  shows "\<exists>s'. prep_step analysed s s'"
proof (cases "pr_threads s ! i")
  case (Running node)
  with assms(3) obtain st ex where "analysed node (st, ex)" by (metis surj_pair)
  with Running assms(1) show ?thesis by (blast intro: prep_step.analyse)
next
  case (Analysed node status ex)
  show ?thesis
  proof (cases ex)
    case True
    with Analysed have "pr_threads s ! i = Analysed node status True" by simp
    from prep_step.read_issues [OF assms(1) this] show ?thesis by blast
  next
    case False
    with Analysed have "pr_threads s ! i = Analysed node status False" by simp
    from prep_step.no_extra [OF assms(1) this] show ?thesis by blast
  qed
next
  case (Appending node status xs)
  with assms(1) show ?thesis by (blast intro: prep_step.write_issues)
next
  case (Updating node status)
  with assms(1) show ?thesis by (blast intro: prep_step.update)
next
  case Disposing
  with assms(1) show ?thesis by (blast intro: prep_step.dispose)
next
  case Finishing
  with assms(1) show ?thesis by (blast intro: prep_step.finish)
qed (use assms(2) in simp)

lemma counted_moves:
  assumes "counted s" and "pr_result s = None"
    and "\<And>node. Running node \<in> set (pr_threads s) \<Longrightarrow> \<exists>r. analysed node r"
  shows "\<exists>s'. prep_step analysed s s'"
proof (cases "\<forall>t \<in> set (pr_threads s). t = Finished")
  case True
  then have "places (pr_threads s) = 0" by (rule places_finished)
  with assms(1) True have zero: "pr_wg s = 0" "pr_count s = 0" by (simp_all add: counted_def unfinished_zero)
  show ?thesis
  proof (cases "pr_todo s")
    case Nil
    with zero assms(2) show ?thesis by (blast intro: prep_step.gather)
  next
    case (Cons node nodes)
    with zero show ?thesis
      by (cases "cn_Name node = []") (blast intro: prep_step.unnamed, intro exI, rule prep_step.start, simp_all add: maxParallelThreads_def)
  qed
next
  case False
  then obtain i where "i < length (pr_threads s)" "pr_threads s ! i \<noteq> Finished" by (auto simp: in_set_conv_nth)
  with assms(3) show ?thesis by (metis nth_mem thread_moves)
qed

end
