(* ===== verification/Spec_Aligned.thy ===== *)
theory Spec_Aligned
  imports Spec_Osds
begin

text \<open>
  What a specification analysis without issues says. \<open>volume_blocks\<close> counts the block volumes of an OSD
  on a device without reference to the loops of the code; the analysis agrees with the count.
\<close>

section \<open>Counting block volumes\<close>

definition selected :: "env \<Rightarrow> DiskDaemonDisksReport \<Rightarrow> devForAnalysis \<Rightarrow> OsdDevice \<Rightarrow> OsdPartition \<Rightarrow> bool" where
  "selected E rep d osdDev part \<longleftrightarrow> od_RelatedPartition osdDev = op_Partition part \<and> part_selected E rep d part = Some True"

definition part_blocks :: "env \<Rightarrow> DiskDaemonDisksReport \<Rightarrow> devForAnalysis \<Rightarrow> OsdDevice \<Rightarrow> OsdPartition list \<Rightarrow> nat" where
  "part_blocks E rep d osdDev parts =
     (if od_Name osdDev \<noteq> da_Dev d then 0
      else let ps = filter (selected E rep d osdDev) parts
           in length (filter (\<lambda>p. op_Type p = ''block'') (if da_FullDiskUsage d then ps else take 1 ps)))"

definition device_blocks :: "env \<Rightarrow> DiskDaemonDisksReport \<Rightarrow> devForAnalysis \<Rightarrow> OsdDaemonInfo \<Rightarrow> OsdDevice \<Rightarrow> nat" where
  "device_blocks E rep d info osdDev =
     (if od_Raw osdDev then (if od_Name osdDev = da_Dev d then 1 else 0)
      else part_blocks E rep d osdDev (odi_Partitions info))"

definition volume_blocks :: "env \<Rightarrow> DiskDaemonDisksReport \<Rightarrow> devForAnalysis \<Rightarrow> OsdDaemonInfo \<Rightarrow> nat" where
  "volume_blocks E rep d info = (\<Sum>osdDev \<leftarrow> odi_Devices info. device_blocks E rep d info osdDev)"

definition own_blocks :: "env \<Rightarrow> DiskDaemonDisksReport \<Rightarrow> nodeDetails \<Rightarrow> devForAnalysis \<Rightarrow> (string \<times> OsdDaemonInfo) list \<Rightarrow> nat" where
  "own_blocks E rep details d vs =
     (\<Sum>(osd, info) \<leftarrow> vs. if known_volume details osd info = Some True then volume_blocks E rep d info else 0)"

text \<open>A volume of an OSD that is not the one of the cluster lies on the device.\<close>

definition foreign_volume :: "nodeDetails \<Rightarrow> devForAnalysis \<Rightarrow> string \<Rightarrow> OsdDaemonInfo \<Rightarrow> bool" where
  "foreign_volume details d osd info \<longleftrightarrow> known_volume details osd info = Some False \<and>
     (\<exists>dev \<in> set (odi_Devices info). od_Name dev = da_Dev d \<and>
        (od_Raw dev \<or> da_FullDiskUsage d \<and> odi_Partitions info \<noteq> []))"

section \<open>The loops add issues, count and reflect\<close>

text \<open>A step that adds issues, counts \<open>n\<close> volumes unless it adds an issue, and reflects an OSD only if it
  counts one.\<close>

definition steps_by :: "nat \<Rightarrow> (string \<Rightarrow> bool) \<Rightarrow> an_vars \<Rightarrow> an_vars \<Rightarrow> bool" where
  "steps_by n new s s' \<longleftrightarrow> length (an_issues s) \<le> length (an_issues s') \<and>
     (an_issues s' = an_issues s \<longrightarrow> an_osdsOnDevice s' = an_osdsOnDevice s + int n) \<and>
     (\<forall>osd. flag (an_reflected s') osd \<longrightarrow> flag (an_reflected s) osd \<or> new osd) \<and>
     (\<exists>ms. an_issues s' = an_issues s @ ms)"

lemma steps_by_refl [simp]: "steps_by 0 new s s"
  by (simp add: steps_by_def)

lemma steps_by_trans:
  assumes "steps_by m f s s'" and "steps_by n g s' s''"
  shows "steps_by (m + n) (\<lambda>x. f x \<or> g x) s s''"
proof -
  have "an_osdsOnDevice s'' = an_osdsOnDevice s + int (m + n)" if eq: "an_issues s'' = an_issues s"
  proof -
    from assms obtain ms ns where "an_issues s' = an_issues s @ ms" "an_issues s'' = an_issues s' @ ns"
      unfolding steps_by_def by blast
    with eq have "an_issues s' = an_issues s" "an_issues s'' = an_issues s'" by simp_all
    with assms show ?thesis by (simp add: steps_by_def)
  qed
  moreover have "\<exists>ms. an_issues s'' = an_issues s @ ms" using assms unfolding steps_by_def by auto
  ultimately show ?thesis using assms unfolding steps_by_def by auto
qed

lemma steps_by_mono: "steps_by n f s s' \<Longrightarrow> (\<And>x. f x \<Longrightarrow> g x) \<Longrightarrow> steps_by n g s s'"
  unfolding steps_by_def by blast

lemma steps_issue: "steps_by n f s s' \<Longrightarrow> steps_by m f s (an_issue msg s')"
  unfolding steps_by_def by auto

lemma steps_count: "steps_by 1 (\<lambda>x. x = osd) s (count_osd osd s)"
  by (auto simp: steps_by_def count_osd_def get_or_def)

lemma raw_device_steps: "steps_by 1 (\<lambda>x. x = osd) s (raw_device d osd s)"
  by (auto simp: steps_by_def count_osd_def get_or_def raw_device_def Let_def)

lemma check_part_steps:
  "steps_by (if od_Name osdDev = da_Dev d \<and> op_Type part = ''block'' then 1 else 0)
     (\<lambda>x. x = osd \<and> od_Name osdDev = da_Dev d \<and> op_Type part = ''block'') s (check_part rep d osd osdDev part s)"
  by (auto simp: steps_by_def count_osd_def get_or_def check_part_def Let_def)

lemma check_parts_steps:
  "check_parts E rep d osd osdDev parts s = Some s' \<Longrightarrow>
   steps_by (part_blocks E rep d osdDev parts) (\<lambda>x. x = osd \<and> 0 < part_blocks E rep d osdDev parts) s s'"
proof (induction parts arbitrary: s)
  case Nil
  then show ?case by (simp add: part_blocks_def)
next
  case (Cons part parts)
  let ?c = "if od_Name osdDev = da_Dev d \<and> op_Type part = ''block'' then 1 else 0 :: nat"
  let ?s = "check_part rep d osd osdDev part s"
  show ?case
  proof (cases "selected E rep d osdDev part")
    case False
    then have "part_blocks E rep d osdDev (part # parts) = part_blocks E rep d osdDev parts"
      by (simp add: part_blocks_def)
    with Cons False show ?thesis
      by (auto simp: selected_def split: if_splits option.splits bool.splits)
  next
    case True
    show ?thesis
    proof (cases "da_FullDiskUsage d")
      case full: True
      then have blocks: "part_blocks E rep d osdDev (part # parts) = ?c + part_blocks E rep d osdDev parts"
        using True by (simp add: part_blocks_def Let_def)
      from Cons.prems True full have rest: "check_parts E rep d osd osdDev parts ?s = Some s'"
        by (simp add: selected_def)
      have "steps_by (part_blocks E rep d osdDev parts) (\<lambda>x. x = osd \<and> 0 < part_blocks E rep d osdDev parts) ?s s'"
        by (rule Cons.IH [OF rest])
      from steps_by_trans [OF check_part_steps this] show ?thesis
        unfolding blocks by (rule steps_by_mono) (auto split: if_splits)
    next
      case one: False
      then have blocks: "part_blocks E rep d osdDev (part # parts) = ?c"
        using True by (simp add: part_blocks_def Let_def)
      from Cons.prems True one have "s' = ?s" by (simp add: selected_def Let_def)
      with steps_by_mono [OF check_part_steps] show ?thesis unfolding blocks by auto
    qed
  qed
qed

lemma check_devices_steps:
  "check_devices E rep d osd info devs s = Some s' \<Longrightarrow>
   steps_by (\<Sum>osdDev \<leftarrow> devs. device_blocks E rep d info osdDev)
     (\<lambda>x. x = osd \<and> 0 < (\<Sum>osdDev \<leftarrow> devs. device_blocks E rep d info osdDev)) s s'"
proof (induction devs arbitrary: s)
  case (Cons dev devs)
  let ?b = "device_blocks E rep d info dev"
  obtain s1 where s1: "steps_by ?b (\<lambda>x. x = osd \<and> 0 < ?b) s s1"
    and rest: "check_devices E rep d osd info devs s1 = Some s'"
  proof (cases "od_Raw dev")
    case True
    let ?s1 = "if od_Name dev \<noteq> da_Dev d then s else raw_device d osd s"
    have "steps_by ?b (\<lambda>x. x = osd \<and> 0 < ?b) s ?s1"
      using True raw_device_steps [of osd s d] by (simp add: device_blocks_def)
    with True Cons.prems that show ?thesis by simp
  next
    case False
    with Cons.prems obtain s1 where p: "check_parts E rep d osd dev (odi_Partitions info) s = Some s1"
      and r: "check_devices E rep d osd info devs s1 = Some s'" by (auto simp: bind_eq_Some_conv)
    from False check_parts_steps [OF p] have "steps_by ?b (\<lambda>x. x = osd \<and> 0 < ?b) s s1"
      by (simp add: device_blocks_def)
    from that [OF this r] show ?thesis .
  qed
  from steps_by_trans [OF s1 Cons.IH [OF rest]] show ?case
    by (simp, elim steps_by_mono) auto
qed simp

lemma own_volume_steps:
  assumes "own_volume E rep d osd info s = Some s'"
  shows "steps_by (volume_blocks E rep d info) (\<lambda>x. x = osd \<and> 0 < volume_blocks E rep d info) s s'"
proof -
  from assms obtain s1 where s1: "check_devices E rep d osd info (odi_Devices info) (s\<lparr>an_metaFound := False, an_rawOsd := False\<rparr>) = Some s1"
    and s': "s' = s1 \<or> (\<exists>msg. s' = an_issue msg s1)" by (auto simp: own_volume_def split: if_splits)
  from check_devices_steps [OF s1]
  have "steps_by (volume_blocks E rep d info) (\<lambda>x. x = osd \<and> 0 < volume_blocks E rep d info) s s1"
    by (simp add: volume_blocks_def steps_by_def)
  with s' steps_issue show ?thesis by blast
qed

text \<open>An unknown volume never counts without an issue.\<close>

lemma unknown_part_steps: "steps_by 0 (\<lambda>_. False) s (unknown_part d osd part s)"
  by (auto simp: steps_by_def unknown_part_def)

lemma unknown_parts_steps: "steps_by 0 (\<lambda>_. False) s (fold (unknown_part d osd) parts s)"
proof (induction parts arbitrary: s)
  case (Cons p parts)
  from steps_by_trans [OF unknown_part_steps Cons.IH] show ?case by simp
qed simp

lemma unknown_part_issue: "da_FullDiskUsage d \<Longrightarrow> length (an_issues s) < length (an_issues (unknown_part d osd part s))"
  by (simp add: unknown_part_def)

lemma unknown_parts_issue:
  assumes "da_FullDiskUsage d" and "parts \<noteq> []"
  shows "an_issues (fold (unknown_part d osd) parts s) \<noteq> an_issues s"
proof -
  obtain p ps where parts: "parts = p # ps" using assms(2) by (cases parts) auto
  have "length (an_issues s) < length (an_issues (unknown_part d osd p s))" by (rule unknown_part_issue [OF assms(1)])
  also have "\<dots> \<le> length (an_issues (fold (unknown_part d osd) ps (unknown_part d osd p s)))"
    using unknown_parts_steps unfolding steps_by_def by blast
  finally show ?thesis by (auto simp: parts)
qed

lemma unknown_device_steps: "steps_by 0 (\<lambda>_. False) s (unknown_device d osd info dev s)"
  using unknown_parts_steps [of s d osd "odi_Partitions info"]
  by (auto simp: unknown_device_def) (auto simp: steps_by_def)

lemma unknown_device_issue:
  "od_Name dev = da_Dev d \<Longrightarrow> od_Raw dev \<or> da_FullDiskUsage d \<and> odi_Partitions info \<noteq> [] \<Longrightarrow>
   an_issues (unknown_device d osd info dev s) \<noteq> an_issues s"
  using unknown_parts_issue [of d "odi_Partitions info" osd s] by (auto simp: unknown_device_def)

lemma unknown_devices_steps: "steps_by 0 (\<lambda>_. False) s (fold (unknown_device d osd info) devs s)"
proof (induction devs arbitrary: s)
  case (Cons p devs)
  from steps_by_trans [OF unknown_device_steps Cons.IH] show ?case by simp
qed simp

lemma steps_same:
  assumes "steps_by m f s s'" and "steps_by n g s' s''" and "an_issues s'' = an_issues s"
  shows "an_issues s' = an_issues s \<and> an_issues s'' = an_issues s'"
proof -
  obtain ms ns where "an_issues s' = an_issues s @ ms" "an_issues s'' = an_issues s' @ ns"
    using assms(1,2) unfolding steps_by_def by blast
  with assms(3) show ?thesis by simp
qed

lemma unknown_devices_issue:
  "dev \<in> set devs \<Longrightarrow> od_Name dev = da_Dev d \<Longrightarrow> od_Raw dev \<or> da_FullDiskUsage d \<and> odi_Partitions info \<noteq> [] \<Longrightarrow>
   an_issues (fold (unknown_device d osd info) devs s) \<noteq> an_issues s"
proof (induction devs arbitrary: s)
  case (Cons x devs)
  show ?case
  proof
    let ?s = "unknown_device d osd info x s"
    assume eq: "an_issues (fold (unknown_device d osd info) (x # devs) s) = an_issues s"
    have "an_issues ?s = an_issues s \<and> an_issues (fold (unknown_device d osd info) devs ?s) = an_issues ?s"
      by (rule steps_same [OF unknown_device_steps unknown_devices_steps]) (use eq in simp)
    with Cons.IH [of "unknown_device d osd info x s"] Cons.prems unknown_device_issue show False by auto
  qed
qed simp

section \<open>A device and all devices\<close>

lemma check_volume_steps:
  assumes "check_volume E rep details d osd info s = Some s'"
  shows "steps_by (if known_volume details osd info = Some True then volume_blocks E rep d info else 0)
      (\<lambda>x. x = osd \<and> known_volume details osd info = Some True \<and> 0 < volume_blocks E rep d info) s s'"
    and "an_issues s' = an_issues s \<Longrightarrow> \<not> foreign_volume details d osd info"
proof -
  show "steps_by (if known_volume details osd info = Some True then volume_blocks E rep d info else 0)
      (\<lambda>x. x = osd \<and> known_volume details osd info = Some True \<and> 0 < volume_blocks E rep d info) s s'"
    using assms own_volume_steps [of E rep d osd info s s'] steps_by_mono [OF unknown_devices_steps [of s d osd info "odi_Devices info"]]
    by (auto simp: check_volume_def split: option.splits bool.splits)
  show "\<not> foreign_volume details d osd info" if "an_issues s' = an_issues s"
  proof
    assume f: "foreign_volume details d osd info"
    with assms have "s' = fold (unknown_device d osd info) (odi_Devices info) s"
      by (simp add: check_volume_def foreign_volume_def)
    with f that show False unfolding foreign_volume_def using unknown_devices_issue by blast
  qed
qed

definition reflects :: "env \<Rightarrow> DiskDaemonDisksReport \<Rightarrow> nodeDetails \<Rightarrow> devForAnalysis \<Rightarrow> (string \<times> OsdDaemonInfo) list \<Rightarrow> string \<Rightarrow> bool" where
  "reflects E rep details d vs osd \<longleftrightarrow>
     (\<exists>info. (osd, info) \<in> set vs \<and> known_volume details osd info = Some True \<and> 0 < volume_blocks E rep d info)"

lemma check_volumes_steps:
  "check_volumes E rep details d vs s = Some s' \<Longrightarrow>
   steps_by (own_blocks E rep details d vs) (reflects E rep details d vs) s s' \<and>
   (an_issues s' = an_issues s \<longrightarrow> (\<forall>(osd, info) \<in> set vs. \<not> foreign_volume details d osd info))"
proof (induction vs arbitrary: s)
  case Nil
  then show ?case by (simp add: own_blocks_def)
next
  case (Cons v vs)
  obtain osd info where v: "v = (osd, info)" by (cases v)
  from Cons.prems v obtain s1 where s1: "check_volume E rep details d osd info s = Some s1"
    and rest: "check_volumes E rep details d vs s1 = Some s'" by (auto simp: bind_eq_Some_conv)
  note one = check_volume_steps [OF s1] and more = Cons.IH [OF rest]
  have "steps_by (own_blocks E rep details d (v # vs)) (reflects E rep details d (v # vs)) s s'"
  proof -
    have "own_blocks E rep details d (v # vs) = (if known_volume details osd info = Some True then volume_blocks E rep d info else 0)
        + own_blocks E rep details d vs" by (simp add: v own_blocks_def)
    moreover have "reflects E rep details d (v # vs) x"
      if "x = osd \<and> known_volume details osd info = Some True \<and> 0 < volume_blocks E rep d info \<or> reflects E rep details d vs x" for x
      using that by (auto simp: reflects_def v)
    ultimately show ?thesis using steps_by_mono [OF steps_by_trans [OF one(1) conjunct1 [OF more]]] by simp
  qed
  moreover have "\<forall>(osd, info) \<in> set (v # vs). \<not> foreign_volume details d osd info" if "an_issues s' = an_issues s"
    using steps_same [OF one(1) conjunct1 [OF more] that] one(2) more v by auto
  ultimately show ?case by blast
qed

text \<open>A device of the specification that carries what it should.\<close>

definition device_aligned :: "env \<Rightarrow> DiskDaemonReport \<Rightarrow> DiskDaemonDisksReport \<Rightarrow> nodeDetails \<Rightarrow> devForAnalysis \<Rightarrow> bool" where
  "device_aligned E report rep details d \<longleftrightarrow>
     (\<exists>vs. device_volumes report rep (da_Dev d) = Some vs \<and> int (own_blocks E rep details d vs) = da_OsdsPerDevice d \<and>
        (\<forall>(osd, info) \<in> set vs. \<not> foreign_volume details d osd info))"

definition device_reflects :: "env \<Rightarrow> DiskDaemonReport \<Rightarrow> DiskDaemonDisksReport \<Rightarrow> nodeDetails \<Rightarrow> devForAnalysis \<Rightarrow> string \<Rightarrow> bool" where
  "device_reflects E report rep details d osd \<longleftrightarrow>
     (\<exists>vs. device_volumes report rep (da_Dev d) = Some vs \<and> reflects E rep details d vs osd)"

lemma check_device_result:
  assumes "check_device E report rep details d s = Some s'"
  shows "(\<exists>ms. an_issues s' = an_issues s @ ms) \<and>
    (an_issues s' = an_issues s \<longrightarrow> device_aligned E report rep details d) \<and>
    (\<forall>osd. flag (an_reflected s') osd \<longrightarrow> flag (an_reflected s) osd \<or> device_reflects E report rep details d osd)"
proof -
  from assms obtain vs s1 where vs: "device_volumes report rep (da_Dev d) = Some vs"
    and s1: "check_volumes E rep details d vs (s\<lparr>an_osdsOnDevice := 0\<rparr>) = Some s1"
    and s': "an_osdsOnDevice s1 = da_OsdsPerDevice d \<and> s' = s1 \<or> (\<exists>msg. s' = an_issue msg s1)"
    by (auto simp: check_device_def bind_eq_Some_conv split: if_splits)
  note r = check_volumes_steps [OF s1]
  from r obtain ms where ms: "an_issues s1 = an_issues s @ ms" unfolding steps_by_def by auto
  have refl: "flag (an_reflected s1) osd \<longrightarrow> flag (an_reflected s) osd \<or> device_reflects E report rep details d osd" for osd
    using r vs unfolding steps_by_def device_reflects_def by auto
  have "device_aligned E report rep details d" if "an_issues s' = an_issues s"
  proof -
    from that s' ms have same: "an_issues s1 = an_issues s" "an_osdsOnDevice s1 = da_OsdsPerDevice d" by auto
    with r vs show ?thesis unfolding device_aligned_def steps_by_def by auto
  qed
  moreover have "an_reflected s' = an_reflected s1" and "\<exists>ms. an_issues s' = an_issues s @ ms" using s' ms by auto
  ultimately show ?thesis using refl by simp
qed

lemma check_all_result:
  "check_all E report rep details ds s = Some s' \<Longrightarrow>
   (\<exists>ms. an_issues s' = an_issues s @ ms) \<and>
   (an_issues s' = an_issues s \<longrightarrow> (\<forall>d \<in> set ds. device_aligned E report rep details d)) \<and>
   (\<forall>osd. flag (an_reflected s') osd \<longrightarrow> flag (an_reflected s) osd \<or> (\<exists>d \<in> set ds. device_reflects E report rep details d osd))"
proof (induction ds arbitrary: s)
  case (Cons d ds)
  from Cons.prems obtain s1 where s1: "check_device E report rep details d s = Some s1"
    and rest: "check_all E report rep details ds s1 = Some s'" by (auto simp: bind_eq_Some_conv)
  note one = check_device_result [OF s1] and more = Cons.IH [OF rest]
  from one more obtain ms ns where i: "an_issues s1 = an_issues s @ ms" "an_issues s' = an_issues s1 @ ns" by blast
  from one more have refl: "flag (an_reflected s') osd \<longrightarrow> flag (an_reflected s) osd \<or>
      (\<exists>d \<in> set (d # ds). device_reflects E report rep details d osd)" for osd by auto
  from one more i have "\<forall>d \<in> set (d # ds). device_aligned E report rep details d" if "an_issues s' = an_issues s"
    using that by simp
  moreover have "\<exists>ms. an_issues s' = an_issues s @ ms" using i by simp
  ultimately show ?case using refl by blast
qed simp

end
