(* ===== verification/Spec_Prepared.thy ===== *)
theory Spec_Prepared
  imports Spec_Threads Spec_Aligned
begin

text \<open>
  Invariants of the parallel analysis: every named node is still to be started, is held by a goroutine or
  has a status; statuses come from analyses of specified nodes and failed ones are listed; hosts outside
  the specification stay unverified; and the result is the one of a state in which nothing is left to do.
\<close>

fun thread_node :: "thread \<Rightarrow> string option" where
  "thread_node (Running node) = Some (cn_Name node)"
| "thread_node (Analysed node _ _) = Some node"
| "thread_node (Appending node _ _) = Some node"
| "thread_node (Updating node _) = Some node"
| "thread_node _ = None"

text \<open>The result a goroutine has got.\<close>

fun thread_ok :: "(CephNode \<Rightarrow> DaemonStatus \<times> bool \<Rightarrow> bool) \<Rightarrow> CephNode set \<Rightarrow> thread \<Rightarrow> bool" where
  "thread_ok analysed nodes (Running node) = (node \<in> nodes)"
| "thread_ok analysed nodes (Analysed nm st ex) = (\<exists>node \<in> nodes. cn_Name node = nm \<and> analysed node (st, ex))"
| "thread_ok analysed nodes (Appending nm st xs) = (\<exists>node \<in> nodes. cn_Name node = nm \<and> analysed node (st, True))"
| "thread_ok analysed nodes (Updating nm st) = (\<exists>node \<in> nodes. \<exists>ex. cn_Name node = nm \<and> analysed node (st, ex))"
| "thread_ok analysed nodes _ = True"

definition genuine :: "(CephNode \<Rightarrow> DaemonStatus \<times> bool \<Rightarrow> bool) \<Rightarrow> CephNode list \<Rightarrow> prep_state \<Rightarrow> bool" where
  "genuine analysed nodes s \<longleftrightarrow> set (pr_todo s) \<subseteq> set nodes \<and> (\<forall>t \<in> set (pr_threads s). thread_ok analysed (set nodes) t) \<and>
     (\<forall>nm st. map_of (pr_status s) nm = Some st \<longrightarrow> (\<exists>node \<in> set nodes. \<exists>ex. cn_Name node = nm \<and> analysed node (st, ex)))"

definition accounted :: "CephNode list \<Rightarrow> prep_state \<Rightarrow> bool" where
  "accounted nodes s \<longleftrightarrow> (\<forall>node \<in> set nodes. cn_Name node \<noteq> [] \<longrightarrow>
     node \<in> set (pr_todo s) \<or> (\<exists>t \<in> set (pr_threads s). thread_node t = Some (cn_Name node)) \<or>
     map_of (pr_status s) (cn_Name node) \<noteq> None)"

definition failures_listed :: "prep_state \<Rightarrow> bool" where
  "failures_listed s \<longleftrightarrow> (\<forall>nm st. map_of (pr_status s) nm = Some st \<longrightarrow> dst_Issues st \<noteq> [] \<longrightarrow>
     failed_issue nm \<in> set (pr_statusIssues s))"

definition unspecified_known :: "CephNode list \<Rightarrow> (string, nodeDetails) gomap \<Rightarrow> prep_state \<Rightarrow> bool" where
  "unspecified_known nodes details s \<longleftrightarrow> set (pr_todo s) \<subseteq> set nodes \<and>
     (\<forall>nm \<in> set (keys details). nm \<noteq> StrayOsdNodeMarker \<longrightarrow> nm \<notin> cn_Name ` set nodes \<longrightarrow> (nm, False) \<in> set (pr_verified s))"

definition settled :: "prep_state \<Rightarrow> bool" where
  "settled s \<longleftrightarrow> counted s \<and> (\<forall>m issues. pr_result s = Some (m, issues) \<longrightarrow>
     pr_todo s = [] \<and> pr_wg s = 0 \<and> m = pr_status s \<and> issues = collect_issues s)"

lemma in_thread_update: "x \<in> set (ts[i := t]) \<Longrightarrow> x = t \<or> x \<in> set ts"
  using set_update_subset_insert [of ts i t] by blast

lemma genuine_move:
  assumes "genuine analysed nodes s" and "thread_ok analysed (set nodes) t"
  shows "genuine analysed nodes (move_thread i t s)"
  using assms unfolding genuine_def move_thread_def by (auto dest!: in_thread_update)

lemma genuine_thread:
  "genuine analysed nodes s \<Longrightarrow> i < length (pr_threads s) \<Longrightarrow> thread_ok analysed (set nodes) (pr_threads s ! i)"
  unfolding genuine_def by (metis nth_mem)

lemma genuine_step:
  assumes "prep_step analysed s s'" and g: "genuine analysed nodes s"
  shows "genuine analysed nodes s'"
  using assms(1)
proof cases
  case (analyse i node status ex)
  with genuine_thread [OF g, of i] g show ?thesis by (auto intro!: genuine_move)
next
  case (no_extra i node status)
  have "thread_ok analysed (set nodes) (Updating node status)"
    using genuine_thread [OF g no_extra(2)] no_extra(3) by force
  from genuine_move [OF g this] no_extra(1) show ?thesis by simp
next
  case (read_issues i node status)
  with genuine_thread [OF g, of i] g show ?thesis by (auto intro!: genuine_move)
next
  case (write_issues i node status xs)
  have "thread_ok analysed (set nodes) (Updating node status)"
    using genuine_thread [OF g write_issues(2)] write_issues(3) by force
  moreover have "genuine analysed nodes (s\<lparr>pr_issues := xs @ [extra_issue node]\<rparr>)" using g by (simp add: genuine_def)
  ultimately show ?thesis using genuine_move write_issues(1) by simp
next
  case (update i node status)
  with genuine_thread [OF g, of i] have "genuine analysed nodes (updateStatus node status s)"
    using g by (auto simp: genuine_def updateStatus_def split: if_splits)
  with update show ?thesis by (auto intro!: genuine_move)
next
  case (dispose i)
  moreover have "genuine analysed nodes (s\<lparr>pr_count := pr_count s - 1\<rparr>)" using g by (simp add: genuine_def)
  ultimately show ?thesis by (auto intro!: genuine_move)
next
  case (finish i)
  moreover have "genuine analysed nodes (s\<lparr>pr_wg := pr_wg s - 1\<rparr>)" using g by (simp add: genuine_def)
  ultimately show ?thesis by (auto intro!: genuine_move)
qed (use g in \<open>auto simp: genuine_def spawn_def\<close>)

lemma accounted_move:
  assumes "accounted nodes s" and "i < length (pr_threads s)"
    and "thread_node (pr_threads s ! i) = thread_node t \<or>
      (\<exists>nm. thread_node (pr_threads s ! i) = Some nm \<and> map_of (pr_status s) nm \<noteq> None) \<or> thread_node (pr_threads s ! i) = None"
  shows "accounted nodes (move_thread i t s)"
  unfolding accounted_def
proof (intro ballI impI)
  fix node assume "node \<in> set nodes" "cn_Name node \<noteq> []"
  with assms(1) consider "node \<in> set (pr_todo s) \<or> map_of (pr_status s) (cn_Name node) \<noteq> None"
    | x where "x \<in> set (pr_threads s)" "thread_node x = Some (cn_Name node)" unfolding accounted_def by blast
  then show "node \<in> set (pr_todo (move_thread i t s)) \<or>
      (\<exists>t \<in> set (pr_threads (move_thread i t s)). thread_node t = Some (cn_Name node)) \<or>
      map_of (pr_status (move_thread i t s)) (cn_Name node) \<noteq> None"
  proof cases
    case 1
    then show ?thesis by (auto simp: move_thread_def)
  next
    case (2 x)
    then obtain j where j: "j < length (pr_threads s)" "pr_threads s ! j = x" by (auto simp: in_set_conv_nth)
    show ?thesis
    proof (cases "j = i")
      case False
      then have "x \<in> set ((pr_threads s)[i := t])" using j by (metis length_list_update nth_list_update_neq nth_mem)
      with 2 show ?thesis by (auto simp: move_thread_def)
    next
      case True
      with 2 j assms(2,3) show ?thesis by (auto simp: move_thread_def set_update_memI)
    qed
  qed
qed

lemma accounted_step:
  assumes "prep_step analysed s s'" and a: "accounted nodes s"
  shows "accounted nodes s'"
  using assms(1)
proof cases
  case (analyse i node status ex)
  with a show ?thesis by (auto intro!: accounted_move)
next
  case (no_extra i node status)
  with a show ?thesis by (auto intro!: accounted_move)
next
  case (read_issues i node status)
  with a show ?thesis by (auto intro!: accounted_move)
next
  case (write_issues i node status xs)
  have "accounted nodes (s\<lparr>pr_issues := xs @ [extra_issue node]\<rparr>)" using a by (simp add: accounted_def)
  from accounted_move [OF this] write_issues show ?thesis by simp
next
  case (update i node status)
  moreover have "accounted nodes (updateStatus node status s)" using a by (auto simp: accounted_def updateStatus_def)
  moreover have "map_of (pr_status (updateStatus node status s)) node \<noteq> None" by (simp add: updateStatus_def)
  ultimately show ?thesis by (auto intro!: accounted_move simp: updateStatus_def)
next
  case (dispose i)
  have "accounted nodes (s\<lparr>pr_count := pr_count s - 1\<rparr>)" using a by (simp add: accounted_def)
  from accounted_move [OF this] dispose show ?thesis by simp
next
  case (finish i)
  have "accounted nodes (s\<lparr>pr_wg := pr_wg s - 1\<rparr>)" using a by (simp add: accounted_def)
  from accounted_move [OF this] finish show ?thesis by simp
qed (use a in \<open>auto simp: accounted_def spawn_def\<close>)

lemma failures_listed_step: "prep_step analysed s s' \<Longrightarrow> failures_listed s \<Longrightarrow> failures_listed s'"
  by (induction rule: prep_step.induct)
    (auto simp: failures_listed_def spawn_def move_thread_def updateStatus_def split: if_splits)

lemma in_update_other: "(a, b) \<in> set m \<Longrightarrow> a \<noteq> k \<Longrightarrow> (a, b) \<in> set (AList.update k v m)"
  by (induction m) auto

lemma unspecified_known_step:
  "prep_step analysed s s' \<Longrightarrow> unspecified_known nodes details s \<Longrightarrow> unspecified_known nodes details s'"
  by (induction rule: prep_step.induct)
    (auto simp: unspecified_known_def spawn_def move_thread_def updateStatus_def intro!: in_update_other)

lemma settled_step:
  assumes "prep_step analysed s s'" and "settled s"
  shows "settled s'"
proof -
  have c: "counted s'" using assms counters_step unfolding settled_def by blast
  show ?thesis
  proof (cases "pr_result s")
    case None
    from assms(1) None have "pr_result s' \<noteq> None \<Longrightarrow> pr_todo s = [] \<and> pr_wg s = 0 \<and>
        s' = s\<lparr>pr_result := Some (pr_status s, collect_issues s)\<rparr>"
      by cases (auto simp: spawn_def move_thread_def updateStatus_def)
    with c show ?thesis by (auto simp: settled_def collect_issues_def)
  next
    case (Some r)
    with assms(2) have todo: "pr_todo s = []" and "unfinished (pr_threads s) = 0"
      by (cases r; simp add: settled_def counted_def)+
    then have fin: "i < length (pr_threads s) \<Longrightarrow> pr_threads s ! i = Finished" for i
      by (simp add: unfinished_zero)
    from assms(1) todo Some show ?thesis by cases (auto dest: fin)
  qed
qed

text \<open>The invariants together, for the analysis of the nodes \<open>nodes\<close>.\<close>

definition prepared :: "(CephNode \<Rightarrow> DaemonStatus \<times> bool \<Rightarrow> bool) \<Rightarrow> CephNode list \<Rightarrow> (string, nodeDetails) gomap \<Rightarrow> prep_state \<Rightarrow> bool" where
  "prepared analysed nodes details s \<longleftrightarrow> genuine analysed nodes s \<and> accounted nodes s \<and> failures_listed s \<and>
     unspecified_known nodes details s \<and> settled s"

lemma prepared_init: "prepared analysed nodes details (prep_init nodes details)"
  using counted_init [of nodes details]
  by (auto simp: prepared_def genuine_def accounted_def failures_listed_def unspecified_known_def settled_def prep_init_def)

lemma prepared_step: "prep_step analysed s s' \<Longrightarrow> prepared analysed nodes details s \<Longrightarrow> prepared analysed nodes details s'"
  unfolding prepared_def
  using genuine_step accounted_step failures_listed_step unspecified_known_step settled_step by blast

interpretation preparation: prep_invariant analysed "prep_init nodes details" "prepared analysed nodes details"
  for analysed nodes details
  by unfold_locales (rule prepared_init, erule (1) prepared_step)

lemma prep_reach_trans: "prep_reach analysed s1 s2 \<Longrightarrow> prep_reach analysed s0 s1 \<Longrightarrow> prep_reach analysed s0 s2"
  by (induction rule: prep_reach.induct) (auto intro: prep_reach.more)

text \<open>From every reachable state the analysis can be brought to its end.\<close>

lemma prepared_finishes:
  assumes "\<And>node. node \<in> set nodes \<Longrightarrow> \<exists>r. analysed node r"
  shows "prepared analysed nodes details s \<Longrightarrow> \<exists>s'. prep_reach analysed s s' \<and> pr_result s' \<noteq> None"
proof (induction "remaining s" arbitrary: s rule: less_induct)
  case less
  show ?case
  proof (cases "pr_result s = None")
    case False
    then show ?thesis by (blast intro: prep_reach.here)
  next
    case True
    have "\<exists>r. analysed node r" if "Running node \<in> set (pr_threads s)" for node
      using that less.prems assms unfolding prepared_def genuine_def by fastforce
    with True less.prems obtain s1 where s1: "prep_step analysed s s1"
      using counted_moves unfolding prepared_def settled_def by blast
    from less.hyps [OF remaining_step [OF s1] prepared_step [OF s1 less.prems]]
    obtain s' where "prep_reach analysed s1 s'" "pr_result s' \<noteq> None" by blast
    moreover have "prep_reach analysed s s1" using s1 by (blast intro: prep_reach.intros)
    ultimately show ?thesis using prep_reach_trans by blast
  qed
qed

section \<open>Schedules\<close>

text \<open>An executable form of the steps: the scheduler picks the main thread or a goroutine.\<close>

datatype choice = Main | Thread nat

definition do_main :: "prep_state \<Rightarrow> prep_state option" where
  "do_main s = (case pr_todo s of
     [] \<Rightarrow> if pr_wg s = 0 \<and> pr_result s = None then Some (s\<lparr>pr_result := Some (pr_status s, collect_issues s)\<rparr>) else None
   | node # nodes \<Rightarrow>
       if cn_Name node = [] then Some (s\<lparr>pr_todo := nodes\<rparr>)
       else if pr_count s \<noteq> maxParallelThreads then Some (spawn node (s\<lparr>pr_todo := nodes\<rparr>))
       else None)"

definition do_thread :: "(CephNode \<Rightarrow> (DaemonStatus \<times> bool) option) \<Rightarrow> nat \<Rightarrow> prep_state \<Rightarrow> prep_state option" where
  "do_thread result i s =
     (if i < length (pr_threads s) then
        case pr_threads s ! i of
          Running node \<Rightarrow> map_option (\<lambda>(status, ex). move_thread i (Analysed (cn_Name node) status ex) s) (result node)
        | Analysed node status ex \<Rightarrow>
            Some (if ex then move_thread i (Appending node status (pr_issues s)) s else move_thread i (Updating node status) s)
        | Appending node status xs \<Rightarrow> Some (move_thread i (Updating node status) (s\<lparr>pr_issues := xs @ [extra_issue node]\<rparr>))
        | Updating node status \<Rightarrow> Some (move_thread i Disposing (updateStatus node status s))
        | Disposing \<Rightarrow> Some (move_thread i Finishing (s\<lparr>pr_count := pr_count s - 1\<rparr>))
        | Finishing \<Rightarrow> Some (move_thread i Finished (s\<lparr>pr_wg := pr_wg s - 1\<rparr>))
        | Finished \<Rightarrow> None
      else None)"

fun schedule :: "(CephNode \<Rightarrow> (DaemonStatus \<times> bool) option) \<Rightarrow> choice list \<Rightarrow> prep_state \<Rightarrow> prep_state option" where
  "schedule result [] s = Some s"
| "schedule result (c # cs) s =
     Option.bind (case c of Main \<Rightarrow> do_main s | Thread i \<Rightarrow> do_thread result i s) (schedule result cs)"

lemma do_main_step: "do_main s = Some s' \<Longrightarrow> prep_step analysed s s'"
  by (auto simp: do_main_def intro: prep_step.unnamed prep_step.start prep_step.gather split: list.splits if_splits)

lemma do_thread_step:
  assumes "do_thread result i s = Some s'" and "\<And>node r. result node = Some r \<Longrightarrow> analysed node r"
  shows "prep_step analysed s s'"
proof -
  from assms(1) have i: "i < length (pr_threads s)" by (simp add: do_thread_def split: if_splits)
  show ?thesis
  proof (cases "pr_threads s ! i")
    case (Running node)
    with assms i show ?thesis by (auto simp: do_thread_def intro: prep_step.analyse)
  next
    case (Analysed node status ex)
    with assms(1) i show ?thesis
      by (cases ex) (auto simp: do_thread_def intro: prep_step.no_extra prep_step.read_issues)
  next
    case (Appending node status xs)
    with assms(1) i show ?thesis by (auto simp: do_thread_def intro: prep_step.write_issues)
  next
    case (Updating node status)
    with assms(1) i show ?thesis by (auto simp: do_thread_def intro: prep_step.update)
  next
    case Disposing
    with assms(1) i show ?thesis by (auto simp: do_thread_def intro: prep_step.dispose)
  next
    case Finishing
    with assms(1) i show ?thesis by (auto simp: do_thread_def intro: prep_step.finish)
  qed (use assms(1) i in \<open>simp add: do_thread_def\<close>)
qed

lemma schedule_reach:
  assumes "\<And>node r. result node = Some r \<Longrightarrow> analysed node r"
  shows "schedule result cs s = Some s' \<Longrightarrow> prep_reach analysed s0 s \<Longrightarrow> prep_reach analysed s0 s'"
proof (induction cs arbitrary: s)
  case (Cons c cs)
  then obtain s1 where s1: "(case c of Main \<Rightarrow> do_main s | Thread i \<Rightarrow> do_thread result i s) = Some s1"
    and rest: "schedule result cs s1 = Some s'" by (auto simp: bind_eq_Some_conv)
  from s1 have "prep_step analysed s s1"
    by (cases c) (auto intro: do_main_step do_thread_step [OF _ assms])
  with Cons.IH [OF rest] Cons.prems(2) show ?case by (blast intro: prep_reach.more)
qed simp

end
