(* ===== verification/Analysis_Theorems.thy ===== *)
theory Analysis_Theorems
  imports Spec_Prepared Spec_Scenario
begin

text \<open>
  The theorems about the analysis of the storage specification: what a clean result for a node means, and
  how the analyses of all nodes run in parallel.
\<close>

section \<open>A concrete cluster\<close>

text \<open>Two hosts with the same disks: OSD 0 on \<^verbatim>\<open>/dev/vdb\<close> and OSD 1 on \<^verbatim>\<open>/dev/vdc\<close>.\<close>

definition an_block :: "string \<Rightarrow> string \<times> BlockDeviceInfo" where
  "an_block dev = (dev, \<lparr>bdi_Kname = dev, bdi_Serial = ''s'', bdi_Type = ''disk'', bdi_Fstype = [], bdi_Rotational = True,
     bdi_MajMin = ''8:0'', bdi_Symlinks = [], bdi_Parent = [[]], bdi_Childrens = []\<rparr>)"

definition an_report :: DiskDaemonReport where
  "an_report = vs_report\<lparr>dr_DisksReport := Some \<lparr>ddr_BlockInfo = [an_block ''/dev/vdb'', an_block ''/dev/vdc''],
     ddr_Aliases = [(''/dev/vdb'', ''/dev/vdb''), (''/dev/vdc'', ''/dev/vdc'')],
     ddr_DiskToOsd = [(''/dev/vdb'', [''0'']), (''/dev/vdc'', [''1''])]\<rparr>\<rparr>"

definition an_env :: env where
  "an_env = vs_env\<lparr>e_GetNode := (\<lambda>_ _. Inr vs_node), e_DiskReport := (\<lambda>_. Inr an_report)\<rparr>"

definition an_osd :: "string \<Rightarrow> osdDetails" where
  "an_osd uuid = \<lparr>osd_ClusterFSID = ''fsid'', osd_DeviceName = [], osd_DeviceByID = [], osd_DeviceByPath = [],
     osd_BlockPartition = [], osd_MetaDeviceName = [], osd_MetaDeviceByID = [], osd_MetaDeviceByPath = [],
     osd_MetaPartition = [], osd_UUID = uuid, osd_Up = True, osd_In = True\<rparr>"

definition an_details :: nodeDetails where
  "an_details = [(''osd.0'', an_osd ''u0''), (''osd.1'', an_osd ''u1'')]"

definition an_cluster :: "(string, nodeDetails) gomap" where
  "an_cluster = [(''node-a'', an_details), (''node-b'', an_details), (''node-c'', an_details)]"

definition an_device :: "string \<Rightarrow> CephDevice" where
  "an_device dev = \<lparr>cd_Name = dev, cd_FullPath = [], cd_Config = []\<rparr>"

definition an_node :: "string \<Rightarrow> string list \<Rightarrow> CephNode" where
  "an_node name devs = vs_spec_node\<lparr>cn_Name := name, cn_Devices := map an_device devs\<rparr>"

definition an_config :: cephDeploymentHealthConfig where
  "an_config = \<lparr>ch_lcmConfig = sc_params, ch_healthConfig = \<lparr>hc_name = ''h'', hc_namespace = ''pelagia'', hc_cephCluster = sc_cluster\<rparr>\<rparr>"

definition an_rep :: DiskDaemonDisksReport where
  "an_rep = disks_or_empty an_report"

section \<open>One node\<close>

lemma sort_empty [simp]: "sort xs = [] \<longleftrightarrow> xs = []"
  by (metis set_empty set_sort)

lemma runSpecAnalysis_clean:
  assumes "runSpecAnalysis E node report details = Some ([], warnings, extraFound)"
  shows "\<exists>sv s osds. spec_devices E node (disks_or_empty report) = Some sv \<and>
    check_all E report (disks_or_empty report) details (sv_devices sv) an_vars0 = Some s \<and> an_issues s = [] \<and>
    dr_OsdsReport report = Some osds \<and> extra_volumes details (an_reflected s) osds = (warnings, extraFound)"
proof -
  from assms obtain sv where sv: "spec_devices E node (disks_or_empty report) = Some sv" and ok: "sv_issues sv = []"
    by (auto simp: runSpecAnalysis_def Let_def bind_eq_Some_conv split: if_splits)
  with assms obtain s where s: "check_all E report (disks_or_empty report) details (sv_devices sv) an_vars0 = Some s"
    and issues: "an_issues s = []"
    by (auto simp: runSpecAnalysis_def Let_def bind_eq_Some_conv split: if_splits)
  with assms sv ok show ?thesis
    by (cases "dr_OsdsReport report") (auto simp: runSpecAnalysis_def Let_def split: if_splits prod.splits)
qed



text \<open>A device that is listed as a block device and also given as the metadata device of another one: the
  conflict is found if the metadata device is written with its path, and is missed if it is written by
  its name, because that last lookup does not prepend the path.\<close>

definition an_shared_meta :: "string \<Rightarrow> CephNode" where
  "an_shared_meta meta = vs_spec_node\<lparr>cn_Devices :=
     [(an_device ''vdb'')\<lparr>cd_Config := [(''metadataDevice'', meta)]\<rparr>, an_device ''vdc'']\<rparr>"

theorem metadata_by_name_not_compared:
  "map_option (\<lambda>sv. length (sv_issues sv)) (spec_devices an_env (an_shared_meta ''/dev/vdc'') an_rep) = Some 1 \<and>
   map_option (\<lambda>sv. length (sv_issues sv)) (spec_devices an_env (an_shared_meta ''vdc'') an_rep) = Some 0"
  by code_simp

section \<open>All nodes\<close>

definition an_result :: "CephNode \<Rightarrow> (DaemonStatus \<times> bool) option" where
  "an_result node = fst (run_state (getNodeAnalyseStatus an_env an_config ''pelagia'' node an_cluster) [])"

lemma an_result_analysed: "an_result node = Some r \<Longrightarrow> node_analysed an_env an_config an_cluster node r"
  unfolding an_result_def node_analysed_def an_config_def by auto

definition an_nodes :: "CephNode list" where
  "an_nodes = [an_node ''node-a'' [''vdc''], an_node ''node-b'' [''vdc'']]"

text \<open>Both goroutines read the shared slice before either writes it.\<close>

definition an_racy :: "choice list" where
  "an_racy = [Main, Main, Thread 0, Thread 1, Thread 0, Thread 1, Thread 0, Thread 1]"

definition an_finish :: "choice list" where
  "an_finish = [Thread 0, Thread 0, Thread 0, Thread 1, Thread 1, Thread 1, Main]"

lemma an_schedule:
  "schedule an_result cs (prep_init an_nodes an_cluster) = Some s \<Longrightarrow>
   prep_reach (node_analysed an_env an_config an_cluster) (prep_init an_nodes an_cluster) s"
  by (rule schedule_reach [OF an_result_analysed _ prep_reach.here])

text \<open>C32. At most five nodes are analysed at the same time: in every reachable state no more than
  maxParallelThreads goroutines have not yet given back their place.\<close>

theorem analysis_parallelism_bounded:
  assumes "prep_reach (node_analysed E c details) (prep_init nodes details) s"
  shows "int (length (filter holds_place (pr_threads s))) \<le> maxParallelThreads"
proof -
  have "places ts = int (length (filter holds_place ts))" for ts by (induction ts) (auto simp: places_def)
  with counters.reach [OF assms] show ?thesis by (simp add: counted_def)
qed

theorem analysis_parallelism_bounded_witness:
  "\<exists>s. schedule an_result [Main, Main, Thread 1] (prep_init an_nodes an_cluster) = Some s \<and> length (pr_threads s) = 2 \<and>
     int (length (filter holds_place (pr_threads s))) \<le> maxParallelThreads"
proof -
  let ?r = "schedule an_result [Main, Main, Thread 1] (prep_init an_nodes an_cluster)"
  have r: "?r = Some (the ?r)" "length (pr_threads (the ?r)) = 2" by code_simp+
  from analysis_parallelism_bounded [OF an_schedule [OF r(1)]] r show ?thesis by blast
qed

text \<open>C33. The parallel analysis ends: every step brings it closer to its end, and if the analysis of a node
  always returns, a result can be reached from every reachable state, so no state is a deadlock.\<close>

theorem analysis_always_ends:
  assumes "\<forall>node \<in> set nodes. \<exists>r. node_analysed E c details node r"
    and "prep_reach (node_analysed E c details) (prep_init nodes details) s"
  shows "(\<forall>s'. prep_step (node_analysed E c details) s s' \<longrightarrow> remaining s' < remaining s) \<and>
    (\<exists>s'. prep_reach (node_analysed E c details) s s' \<and> pr_result s' \<noteq> None)"
  using remaining_step prepared_finishes [OF _ preparation.reach [OF assms(2)]] assms(1) by blast

theorem analysis_always_ends_witness:
  "\<exists>s s'. schedule an_result an_racy (prep_init an_nodes an_cluster) = Some s \<and>
     prep_reach (node_analysed an_env an_config an_cluster) s s' \<and> pr_result s' \<noteq> None"
proof -
  let ?r = "schedule an_result an_racy (prep_init an_nodes an_cluster)"
  have r: "?r = Some (the ?r)" by code_simp
  have "list_all (\<lambda>node. an_result node \<noteq> None) an_nodes" by code_simp
  then have "\<forall>node \<in> set an_nodes. \<exists>r. node_analysed an_env an_config an_cluster node r"
    unfolding list_all_iff using an_result_analysed by blast
  from analysis_always_ends [OF this an_schedule [OF r]] r show ?thesis by blast
qed

text \<open>The result of the parallel analysis is complete, whatever the interleaving: every named node of the
  specification has a status that its analysis returned, the issue of every failed node is listed, and so
  is every host of the cluster that the specification does not name.\<close>

theorem analysis_result_complete:
  assumes "prep_reach (node_analysed E c details) (prep_init nodes details) s" and "pr_result s = Some (status, issues)"
  shows "(\<forall>node \<in> set nodes. cn_Name node \<noteq> [] \<longrightarrow> (\<exists>st. map_of status (cn_Name node) = Some st \<and>
        (\<exists>n \<in> set nodes. \<exists>ex. cn_Name n = cn_Name node \<and> node_analysed E c details n (st, ex)) \<and>
        (dst_Issues st \<noteq> [] \<longrightarrow> failed_issue (cn_Name node) \<in> set issues))) \<and>
    (\<forall>host \<in> set (keys details). host \<noteq> StrayOsdNodeMarker \<longrightarrow> host \<notin> cn_Name ` set nodes \<longrightarrow> unspecified_issue host \<in> set issues)"
proof -
  have p: "prepared (node_analysed E c details) nodes details s" by (rule preparation.reach [OF assms(1)])
  with assms(2) have todo: "pr_todo s = []" and fin: "\<forall>t \<in> set (pr_threads s). t = Finished"
    and status: "status = pr_status s" and issues: "issues = collect_issues s"
    by (auto simp: prepared_def settled_def counted_def unfinished_zero)
  have "map_of status (cn_Name node) \<noteq> None" if "node \<in> set nodes" "cn_Name node \<noteq> []" for node
  proof -
    have "\<not> (\<exists>t \<in> set (pr_threads s). thread_node t = Some (cn_Name node))" using fin by force
    with p that todo status show ?thesis by (auto simp: prepared_def accounted_def)
  qed
  moreover have "\<exists>n \<in> set nodes. \<exists>ex. cn_Name n = nm \<and> node_analysed E c details n (st, ex)" if "map_of status nm = Some st" for nm st
    using p that status by (simp add: prepared_def genuine_def)
  moreover have "failed_issue nm \<in> set issues" if "map_of status nm = Some st" "dst_Issues st \<noteq> []" for nm st
    using p that status by (auto simp: prepared_def failures_listed_def issues collect_issues_def)
  moreover have "unspecified_issue host \<in> set issues"
    if "host \<in> set (keys details)" "host \<noteq> StrayOsdNodeMarker" "host \<notin> cn_Name ` set nodes" for host
    using p that by (force simp: prepared_def unspecified_known_def issues collect_issues_def)
  ultimately show ?thesis by blast
qed

theorem analysis_result_complete_witness:
  "\<exists>status issues. map_option pr_result (schedule an_result (an_racy @ an_finish) (prep_init an_nodes an_cluster)) = Some (Some (status, issues)) \<and>
     (\<exists>st. map_of status ''node-a'' = Some st) \<and> unspecified_issue ''node-c'' \<in> set issues"
proof -
  let ?r = "schedule an_result (an_racy @ an_finish) (prep_init an_nodes an_cluster)"
  let ?p = "the (pr_result (the ?r))"
  have r: "?r = Some (the ?r)" and p: "pr_result (the ?r) = Some (fst ?p, snd ?p)" by code_simp+
  have "''node-c'' \<in> set (keys an_cluster)" "''node-c'' \<noteq> StrayOsdNodeMarker" "''node-c'' \<notin> cn_Name ` set an_nodes"
    "an_node ''node-a'' [''vdc''] \<in> set an_nodes" "cn_Name (an_node ''node-a'' [''vdc'']) = ''node-a''"
    by code_simp+
  with analysis_result_complete [OF an_schedule [OF r] p]
  have "\<exists>st. map_of (fst ?p) ''node-a'' = Some st" "unspecified_issue ''node-c'' \<in> set (snd ?p)" by force+
  moreover have "map_option pr_result ?r = Some (Some (fst ?p, snd ?p))" using r p by (metis option.map(2))
  ultimately show ?thesis by blast
qed

text \<open>The issue about undescribed OSDs of a node can be lost: both nodes of the example have such OSDs, and
  the analysis ends with a result that names one of them only.\<close>

theorem extra_issue_can_be_lost:
  "list_all (\<lambda>node. map_option snd (an_result node) = Some True) an_nodes \<and>
   (\<exists>s status issues. prep_reach (node_analysed an_env an_config an_cluster) (prep_init an_nodes an_cluster) s \<and>
      pr_result s = Some (status, issues) \<and> extra_issue ''node-a'' \<notin> set issues \<and> extra_issue ''node-b'' \<in> set issues)"
proof -
  let ?r = "schedule an_result (an_racy @ an_finish) (prep_init an_nodes an_cluster)"
  let ?p = "the (pr_result (the ?r))"
  have r: "?r = Some (the ?r)" and p: "pr_result (the ?r) = Some (fst ?p, snd ?p)"
    and a: "extra_issue ''node-a'' \<notin> set (snd ?p)" and b: "extra_issue ''node-b'' \<in> set (snd ?p)" by code_simp+
  have "list_all (\<lambda>node. map_option snd (an_result node) = Some True) an_nodes" by code_simp
  with an_schedule [OF r] p a b show ?thesis by blast
qed

end
