(* ===== verification/Trace_Logic.thy ===== *)
theory Trace_Logic
  imports Cluster_Api
begin

text \<open>
  Triples for computations over a call history. In \<open>triple P Q m R\<close> the precondition \<open>P\<close> is about the
  history before \<open>m\<close>, the postcondition \<open>R\<close> about the result and the history after it, and the guard
  \<open>Q\<close> about every call that \<open>m\<close> issues, together with the history at the moment it is issued. Guards
  express orderings: a call is made only after another one was answered in some way.
\<close>

named_theorems triple_intro \<open>introduction rules for triples\<close>

definition guarded :: "(hist \<Rightarrow> call \<Rightarrow> bool) \<Rightarrow> hist \<Rightarrow> hist \<Rightarrow> bool" where
  "guarded Q h cs \<longleftrightarrow> (\<forall>xs c ys. cs = xs @ c # ys \<longrightarrow> Q (h @ xs) c)"

definition triple :: "(hist \<Rightarrow> bool) \<Rightarrow> (hist \<Rightarrow> call \<Rightarrow> bool) \<Rightarrow> 'a io \<Rightarrow> ('a \<Rightarrow> hist \<Rightarrow> bool) \<Rightarrow> bool" where
  "triple P Q m R \<longleftrightarrow> (\<forall>h. P h \<longrightarrow> (\<exists>cs. snd (run_state m h) = h @ cs \<and> guarded Q h cs \<and>
     R (fst (run_state m h)) (h @ cs)))"

lemma guarded_Nil [simp]: "guarded Q h []"
  by (simp add: guarded_def)

lemma guarded_single [simp]: "guarded Q h [c] \<longleftrightarrow> Q h c"
  by (auto simp: guarded_def Cons_eq_append_conv)

lemma guarded_append: "guarded Q h (cs @ ds) \<longleftrightarrow> guarded Q h cs \<and> guarded Q (h @ cs) ds"
proof
  assume *: "guarded Q h (cs @ ds)"
  show "guarded Q h cs \<and> guarded Q (h @ cs) ds"
    unfolding guarded_def
  proof (intro conjI allI impI)
    fix xs c ys
    assume "cs = xs @ c # ys"
    with * show "Q (h @ xs) c" unfolding guarded_def by (metis append.assoc append_Cons)
  next
    fix xs c ys
    assume "ds = xs @ c # ys"
    then have "cs @ ds = (cs @ xs) @ c # ys" by simp
    with * show "Q ((h @ cs) @ xs) c" unfolding guarded_def by (metis append.assoc)
  qed
next
  assume *: "guarded Q h cs \<and> guarded Q (h @ cs) ds"
  show "guarded Q h (cs @ ds)"
    unfolding guarded_def
  proof (intro allI impI)
    fix xs c ys
    assume "cs @ ds = xs @ c # ys"
    then consider us where "cs = xs @ c # us" | us where "xs = cs @ us" "ds = us @ c # ys"
      by (auto simp: append_eq_append_conv2) (metis append_Cons append_Nil append_Nil2 neq_Nil_conv list.inject)
    then show "Q (h @ xs) c"
    proof cases
      case 1
      with * show ?thesis unfolding guarded_def by blast
    next
      case 2
      with * show ?thesis unfolding guarded_def by (metis append.assoc)
    qed
  qed
qed

lemma guardedD: "guarded Q h cs \<Longrightarrow> cs = xs @ c # ys \<Longrightarrow> Q (h @ xs) c"
  by (simp add: guarded_def)

text \<open>The rules.\<close>

lemma triple_return [triple_intro]: "(\<And>h. P h \<Longrightarrow> R x h) \<Longrightarrow> triple P Q (State_Monad.return x) R"
  by (simp add: triple_def)

lemma triple_issue [triple_intro]:
  "(\<And>h. P h \<Longrightarrow> Q h c \<and> R (f h) (h @ [c])) \<Longrightarrow> triple P Q (issue c f) R"
  by (simp add: triple_def)

lemma triple_bind [triple_intro]:
  assumes "triple P Q m M" and "\<And>x. triple (M x) Q (f x) R"
  shows "triple P Q (m \<bind> f) R"
  unfolding triple_def
proof (intro allI impI)
  fix h
  assume "P h"
  obtain x h1 where m: "run_state m h = (x, h1)" by (cases "run_state m h")
  with assms(1) \<open>P h\<close> obtain cs where cs: "h1 = h @ cs" "guarded Q h cs" "M x (h @ cs)"
    unfolding triple_def by (metis fst_conv snd_conv)
  from assms(2) cs obtain ds where ds: "snd (run_state (f x) h1) = h1 @ ds" "guarded Q h1 ds"
      "R (fst (run_state (f x) h1)) (h1 @ ds)"
    unfolding triple_def by metis
  from m cs ds have "snd (run_state (m \<bind> f) h) = h @ (cs @ ds) \<and> guarded Q h (cs @ ds) \<and>
      R (fst (run_state (m \<bind> f) h)) (h @ (cs @ ds))"
    by (simp add: guarded_append)
  then show "\<exists>cs. snd (run_state (m \<bind> f) h) = h @ cs \<and> guarded Q h cs \<and>
      R (fst (run_state (m \<bind> f) h)) (h @ cs)" by (rule exI)
qed

lemma triple_if [triple_intro]:
  "(b \<Longrightarrow> triple P Q m R) \<Longrightarrow> (\<not> b \<Longrightarrow> triple P Q n R) \<Longrightarrow> triple P Q (if b then m else n) R"
  by simp

lemma triple_option [triple_intro]:
  "(x = None \<Longrightarrow> triple P Q m R) \<Longrightarrow> (\<And>y. x = Some y \<Longrightarrow> triple P Q (f y) R) \<Longrightarrow>
   triple P Q (case x of None \<Rightarrow> m | Some y \<Rightarrow> f y) R"
  by (cases x) simp_all

lemma triple_sum [triple_intro]:
  "(\<And>y. x = Inl y \<Longrightarrow> triple P Q (f y) R) \<Longrightarrow> (\<And>y. x = Inr y \<Longrightarrow> triple P Q (g y) R) \<Longrightarrow>
   triple P Q (case x of Inl y \<Rightarrow> f y | Inr y \<Rightarrow> g y) R"
  by (cases x) simp_all

lemma triple_prod [triple_intro]:
  "(\<And>a b. x = (a, b) \<Longrightarrow> triple P Q (f a b) R) \<Longrightarrow> triple P Q (case x of (a, b) \<Rightarrow> f a b) R"
  by (cases x) simp

lemma triple_let [triple_intro]: "triple P Q (f x) R \<Longrightarrow> triple P Q (Let x f) R"
  by simp

lemma triple_pre: "triple P Q m R \<Longrightarrow> (\<And>h. P' h \<Longrightarrow> P h) \<Longrightarrow> triple P' Q m R"
  unfolding triple_def by blast

lemma triple_post: "triple P Q m R \<Longrightarrow> (\<And>x h. R x h \<Longrightarrow> R' x h) \<Longrightarrow> triple P Q m R'"
  unfolding triple_def by blast

lemma triple_weaken:
  "triple P Q m R \<Longrightarrow> (\<And>h. P' h \<Longrightarrow> P h) \<Longrightarrow> (\<And>x h. R x h \<Longrightarrow> R' x h) \<Longrightarrow> triple P' Q m R'"
  unfolding triple_def by blast

lemma triple_and_pure: "(\<And>h. P h \<Longrightarrow> B) \<Longrightarrow> (B \<Longrightarrow> triple P Q m R) \<Longrightarrow> triple P Q m R"
  unfolding triple_def by blast

text \<open>A computation whose calls all satisfy the guard at any history keeps whatever is known.\<close>

lemma triple_calls:
  assumes "calls_in C m" and "\<And>h c. C c \<Longrightarrow> Q h c"
  shows "triple (\<lambda>_. True) Q m (\<lambda>_ _. True)"
  unfolding triple_def
proof (intro allI impI)
  fix h
  from assms(1) obtain cs where "snd (run_state m h) = h @ cs" "list_all C cs"
    unfolding calls_in_def by blast
  moreover from this(2) assms(2) have "guarded Q h cs" by (auto simp: guarded_def)
  ultimately show "\<exists>cs. snd (run_state m h) = h @ cs \<and> guarded Q h cs \<and> True" by blast
qed

text \<open>Loops: an invariant that speaks about the variables and the history.\<close>

lemma triple_for_each:
  assumes "\<And>x s. x \<in> set xs \<Longrightarrow> triple (I s) Q (body x s) I"
  shows "triple (I s) Q (for_each body xs s) I"
  using assms
proof (induction xs arbitrary: s)
  case Nil
  show ?case by (simp add: triple_def)
next
  case (Cons x xs)
  have "triple (I s) Q (body x s) I" by (rule Cons.prems) simp
  moreover have "triple (I s') Q (for_each body xs s') I" for s'
    by (rule Cons.IH) (simp add: Cons.prems)
  ultimately show ?case by (simp add: triple_bind)
qed

text \<open>What a triple says about one run.\<close>

lemma tripleD:
  assumes "triple P Q m R" and "P h" and "run_state m h = (x, h')"
  obtains cs where "h' = h @ cs" and "guarded Q h cs" and "R x h'"
  using assms unfolding triple_def by (metis fst_conv snd_conv)

lemma triple_call:
  assumes "triple P Q m R" and "P h" and "snd (run_state m h) = h @ xs @ c # ys"
  shows "Q (h @ xs) c"
  using assms unfolding triple_def guarded_def by (metis same_append_eq)

end
