(* ===== verification/Deploy_Env.thy ===== *)
theory Deploy_Env
  imports Common Trace_Logic
begin

text \<open>
  The surroundings of the deployment controller (\<^verbatim>\<open>src/pkg/controller/deployment\<close>): the answers to
  its calls, the decoding of embedded specifications (\<^verbatim>\<open>apis/.../extension.go\<close>), its configuration
  (\<^verbatim>\<open>opts.go\<close>) and the small helpers of \<^verbatim>\<open>utils.go\<close>, \<^verbatim>\<open>const.go\<close> and \<^verbatim>\<open>common/k8s_utils.go\<close>.
\<close>

section \<open>Environment\<close>

text \<open>A decoder is \<^verbatim>\<open>json.Decode\<close> into a structure: what the structure holds afterwards and the error,
  if any. The polling helper of the Kubernetes libraries makes at least one attempt and at most
  \<open>Suc (de_Polls h)\<close> of them, depending on the clock.
  \<open>de_Unmarshal\<close> reads a document into a map, \<open>de_Marshal\<close> writes a map, and \<open>de_CephxJson\<close> is how the
  structure of the key types is written.
  \<open>de_Sha256\<close> is the SHA-256 sum in hexadecimal digits, \<open>de_CIDRString\<close> Rook's rendering of a list of networks.
  \<open>de_InClusterConfig\<close> is the error of \<^verbatim>\<open>rest.InClusterConfig\<close>, if any.\<close>

record deployEnv =
  de_env :: env
  de_ListCephDeployments :: "hist \<Rightarrow> string \<Rightarrow> api_error + CephDeployment list"
  de_ReadCephDeployment :: "hist \<Rightarrow> string \<Rightarrow> string \<Rightarrow> api_error + CephDeployment"
  de_UpdateCephDeployment :: "hist \<Rightarrow> CephDeployment \<Rightarrow> api_error option"
  de_UpdateStatus :: "hist \<Rightarrow> string \<Rightarrow> string \<Rightarrow> CephDeploymentStatus \<Rightarrow> api_error option"
  de_GetSubObject :: "hist \<Rightarrow> string \<Rightarrow> string \<Rightarrow> string \<Rightarrow> api_error + SubObject"
  de_CreateSubObject :: "hist \<Rightarrow> SubObject \<Rightarrow> api_error option"
  de_UpdateSubObject :: "hist \<Rightarrow> SubObject \<Rightarrow> api_error option"
  de_DeleteSubObject :: "hist \<Rightarrow> string \<Rightarrow> string \<Rightarrow> string \<Rightarrow> api_error option"
  de_GetConfigMap :: "hist \<Rightarrow> string \<Rightarrow> string \<Rightarrow> api_error + KubeConfigMap"
  de_CreateConfigMap :: "hist \<Rightarrow> KubeConfigMap \<Rightarrow> api_error option"
  de_UpdateConfigMap :: "hist \<Rightarrow> KubeConfigMap \<Rightarrow> api_error option"
  de_GetSecret :: "hist \<Rightarrow> string \<Rightarrow> string \<Rightarrow> api_error + (string, string) gomap"
  de_ListNodesByLabel :: "hist \<Rightarrow> string \<Rightarrow> api_error + KubeNode list"
  de_UpdateNode :: "hist \<Rightarrow> KubeNode \<Rightarrow> api_error option"
  de_ListDeployments :: "hist \<Rightarrow> string \<Rightarrow> string \<Rightarrow> api_error + AppDeployment list"
  de_GetDeployment :: "hist \<Rightarrow> string \<Rightarrow> string \<Rightarrow> api_error + AppDeployment"
  de_CreateDeployment :: "hist \<Rightarrow> string \<Rightarrow> AppDeployment \<Rightarrow> api_error option"
  de_UpdateDeployment :: "hist \<Rightarrow> string \<Rightarrow> AppDeployment \<Rightarrow> api_error option"
  de_GetDaemonSet :: "hist \<Rightarrow> string \<Rightarrow> string \<Rightarrow> api_error + AppDaemonSet"
  de_UpdateDaemonSet :: "hist \<Rightarrow> string \<Rightarrow> AppDaemonSet \<Rightarrow> api_error option"
  de_GetCephCluster :: "hist \<Rightarrow> string \<Rightarrow> string \<Rightarrow> api_error + RookCluster"
  de_UpdateCephCluster :: "hist \<Rightarrow> RookCluster \<Rightarrow> api_error option"
  de_DeleteCephCluster :: "hist \<Rightarrow> string \<Rightarrow> string \<Rightarrow> api_error option"
  de_ListBlockPools :: "hist \<Rightarrow> string \<Rightarrow> api_error + BlockPool list"
  de_CreateBlockPool :: "hist \<Rightarrow> BlockPool \<Rightarrow> api_error option"
  de_UpdateBlockPool :: "hist \<Rightarrow> BlockPool \<Rightarrow> api_error option"
  de_DeleteBlockPool :: "hist \<Rightarrow> string \<Rightarrow> string \<Rightarrow> api_error option"
  de_ListOpenstackStatus :: "hist \<Rightarrow> string \<Rightarrow> api_error + ((string option \<times> string option) option) list"
  de_LookupEnv :: "string \<Rightarrow> string option"
  de_ListPodsOnNodes :: "hist \<Rightarrow> string \<Rightarrow> string \<Rightarrow> api_error + (string \<times> Pod) list"
  de_DeletePod :: "hist \<Rightarrow> string \<Rightarrow> string \<Rightarrow> api_error option"
  de_ListVolumeAttachments :: "hist \<Rightarrow> api_error + VolumeAttachment list"
  de_DeleteVolumeAttachment :: "hist \<Rightarrow> string \<Rightarrow> api_error option"
  de_Polls :: "hist \<Rightarrow> nat"
  de_InClusterConfig :: "string option"
  de_PoolSpec :: "string \<Rightarrow> PoolSpec \<times> string option"
  de_EncodePoolSpec :: "PoolSpec \<Rightarrow> string + string"
  de_ClusterSpec :: "string \<Rightarrow> ClusterSpec \<times> string option"
  de_ClientSpec :: "string \<Rightarrow> ClientSpec \<times> string option"
  de_FilesystemSpec :: "string \<Rightarrow> FilesystemSpec \<times> string option"
  de_ObjectStoreSpec :: "string \<Rightarrow> ObjectStoreSpec \<times> string option"
  de_ObjectZoneSpec :: "string \<Rightarrow> ObjectZoneSpec \<times> string option"
  de_ZoneGroupSpec :: "string \<Rightarrow> string \<times> string option"
  de_UserSpec :: "string \<Rightarrow> string \<times> string option"
  de_RealmSpec :: "string \<Rightarrow> string \<times> string option"
  de_RouteSpec :: "string \<Rightarrow> string list \<times> string option"
  de_OperatorConfigSpec :: "string \<Rightarrow> string \<times> string option"
  de_DriverSpec :: "string \<Rightarrow> string \<times> string option"
  de_Unmarshal :: "string \<Rightarrow> string + (string, json) gomap option"
  de_Marshal :: "(string, json) gomap \<Rightarrow> string + string"
  de_CephxJson :: "CephxConfig \<Rightarrow> json"
  de_CephVersions :: "string \<Rightarrow> string + (string, int) gomap"
  de_MgrModules :: "string \<Rightarrow> string + string list \<times> string list"
  de_PoolNames :: "string \<Rightarrow> string + string list"
  de_ConfigDump :: "string \<Rightarrow> string + cephConfigOptionDump list"
  de_Sha256 :: "string \<Rightarrow> string"
  de_CIDRString :: "string list \<Rightarrow> string"

text \<open>A call of the deployment controller.\<close>

definition manage :: "deploy_call \<Rightarrow> (hist \<Rightarrow> 'a) \<Rightarrow> 'a io" where
  "manage c f = issue (Manage c) f"

lemma run_manage [simp]: "run_state (manage c f) h = (f h, h @ [Manage c])"
  by (simp add: manage_def)

lemma calls_in_manage [calls_intro]: "P (Manage c) \<Longrightarrow> calls_in P (manage c f)"
  unfolding manage_def by (rule calls_in_issue)

lemma triple_manage [triple_intro]:
  "(\<And>h. P h \<Longrightarrow> Q h (Manage c) \<and> R (f h) (h @ [Manage c])) \<Longrightarrow> triple P Q (manage c f) R"
  unfolding manage_def by (rule triple_issue)

section \<open>Embedded specifications (extension.go)\<close>

text \<open>The zero values.\<close>

definition PoolSpec0 :: PoolSpec where
  "PoolSpec0 = \<lparr>pl_FailureDomain = [], pl_DeviceClass = [], pl_ReplicatedSize = 0, pl_TargetSizeRatio = (0, 0),
     pl_DataChunks = 0, pl_CodingChunks = 0, pl_EnableCrushUpdates = None, pl_Rest = []\<rparr>"

definition SharedPools0 :: ObjectSharedPoolsSpec where
  "SharedPools0 = \<lparr>sp_MetadataPoolName = [], sp_DataPoolName = [], sp_PoolPlacements = []\<rparr>"

definition FilesystemSpec0 :: FilesystemSpec where
  "FilesystemSpec0 = \<lparr>fs_MetadataPool = \<lparr>np_Name = [], np_PoolSpec = PoolSpec0\<rparr>, fs_DataPools = [], fs_ActiveCount = 0\<rparr>"

definition ObjectZoneSpec0 :: ObjectZoneSpec where
  "ObjectZoneSpec0 = \<lparr>oz_ZoneGroup = [], oz_MetadataPool = PoolSpec0, oz_DataPool = PoolSpec0, oz_SharedPools = SharedPools0\<rparr>"

definition ObjectStoreSpec0 :: ObjectStoreSpec where
  "ObjectStoreSpec0 = \<lparr>os_MetadataPool = PoolSpec0, os_DataPool = PoolSpec0, os_SharedPools = SharedPools0,
     os_ZoneName = [], os_Port = 0, os_SecurePort = 0, os_Instances = 0, os_ExternalRgwEndpoints = [],
     os_Hosting = False\<rparr>"

definition ClusterSpec0 :: ClusterSpec where
  "ClusterSpec0 = \<lparr>cs_Image = [], cs_ExternalEnable = False,
     cs_Network = \<lparr>nw_Provider = [], nw_AddressRanges = None, nw_Selectors = [], nw_HostNetwork = False\<rparr>,
     cs_StorageNodes = [],
     cs_CephX = \<lparr>cx_DaemonKeyGeneration = 0, cx_DaemonKeyRotationPolicy = [], cx_DaemonKeyType = [],
       cx_AllowedCiphers = [], cx_CSIKeyType = [], cx_CSIKeepPriorKeyCountMax = 0, cx_Rest = []\<rparr>,
     cs_Annotations = [], cs_CleanupConfirmation = [], cs_AllowUninstallWithVolumes = False, cs_Rest = []\<rparr>"

text \<open>\<^verbatim>\<open>DecodeRawToStruct\<close>; \<open>ty\<close> is the name of the target type.\<close>

definition DecodeRawToStruct :: "(string \<Rightarrow> 'a \<times> string option) \<Rightarrow> string \<Rightarrow> string \<Rightarrow> 'a \<times> string option" where
  "DecodeRawToStruct decode ty raw =
     (let (v, err) = decode raw
      in (v, map_option (\<lambda>e. wrap e (''failed to decode RawExtension to '' @ ty @ '' object, expected type mismatch'')) err))"

text \<open>What all \<^verbatim>\<open>GetSpec\<close> methods do, given their messages. The value is what the method returns beside
  the error.\<close>

definition get_spec :: "(string \<Rightarrow> 'a \<times> string option) \<Rightarrow> 'a \<Rightarrow> string \<Rightarrow> string \<Rightarrow> string \<Rightarrow> string \<Rightarrow> 'a RawExtension \<Rightarrow>
    'a \<times> string option" where
  "get_spec decode zero ty no_data not_decoded not_converted ext =
     (case re_Raw ext of
        Some raw \<Rightarrow>
          (let (v, err) = DecodeRawToStruct decode ty raw in (v, map_option (\<lambda>e. wrap e (''spec: '' @ not_decoded)) err))
      | None \<Rightarrow>
          (case re_Object ext of
             None \<Rightarrow> (zero, Some (''spec: '' @ no_data))
           | Some None \<Rightarrow> (zero, Some (''spec: '' @ not_converted))
           | Some (Some v) \<Rightarrow> (v, None)))"

definition CephCluster_GetSpec :: "deployEnv \<Rightarrow> ClusterSpec RawExtension option \<Rightarrow> ClusterSpec \<times> string option" where
  "CephCluster_GetSpec D cl =
     (case cl of
        None \<Rightarrow> (ClusterSpec0, Some ''spec: cluster field has nil pointer value provided'')
      | Some ext \<Rightarrow> get_spec (de_ClusterSpec D) ClusterSpec0 ''*v1.ClusterSpec'' ''cluster field has no any data provided''
          ''cluster field has failed to decode to Rook ClusterSpec struct''
          ''cluster field has failed to convert to Rook CephCluster object'' ext)"

definition CephPool_GetSpec :: "deployEnv \<Rightarrow> CephPool \<Rightarrow> PoolSpec \<times> string option" where
  "CephPool_GetSpec D p =
     get_spec (de_PoolSpec D) PoolSpec0 ''*v1.PoolSpec'' ''pool spec no any data provided''
       ''pool spec has failed to decode to Rook PoolSpec struct''
       ''pool field has failed to convert to Rook CephBlockPool object'' (cpl_PoolSpec p)"

definition CephClient_GetSpec :: "deployEnv \<Rightarrow> CephClient \<Rightarrow> ClientSpec \<times> string option" where
  "CephClient_GetSpec D c =
     get_spec (de_ClientSpec D) \<lparr>cli_Name = [], cli_Rest = []\<rparr> ''*v1.ClientSpec'' ''client spec no any data provided''
       ''client spec has failed to decode to Rook ClientSpec struct''
       ''client field has failed to convert to Rook CephClient object'' (ccl_Spec c)"

definition CephFilesystem_GetSpec :: "deployEnv \<Rightarrow> FilesystemSpec named_spec \<Rightarrow> FilesystemSpec \<times> string option" where
  "CephFilesystem_GetSpec D fs =
     get_spec (de_FilesystemSpec D) FilesystemSpec0 ''*v1.FilesystemSpec'' ''filesystem spec no any data provided''
       ''filesystem spec has failed to decode to Rook FilesystemSpec struct''
       ''filesystem field has failed to convert to Rook CephFilesystem object'' (ns_Spec fs)"

text \<open>A realm may have no data.\<close>

definition CephObjectRealm_GetSpec :: "deployEnv \<Rightarrow> string named_spec \<Rightarrow> string \<times> string option" where
  "CephObjectRealm_GetSpec D r =
     (if re_Raw (ns_Spec r) = None \<and> re_Object (ns_Spec r) = None then ([], None)
      else get_spec (de_RealmSpec D) [] ''*v1.ObjectRealmSpec'' ''''
       ''realm spec has failed to decode to Rook ObjectRealmSpec struct''
       ''realm field has failed to convert to Rook CephObjectRealm object'' (ns_Spec r))"

definition CephObjectZonegroup_GetSpec :: "deployEnv \<Rightarrow> string named_spec \<Rightarrow> string \<times> string option" where
  "CephObjectZonegroup_GetSpec D zg =
     get_spec (de_ZoneGroupSpec D) [] ''*v1.ObjectZoneGroupSpec'' ''zonegroup spec no any data provided''
       ''zonegroup spec has failed to decode to Rook ObjectZoneGroupSpec struct''
       ''zonegroup field has failed to convert to Rook CephObjectZoneGroup object'' (ns_Spec zg)"

definition CephObjectZone_GetSpec :: "deployEnv \<Rightarrow> ObjectZoneSpec named_spec \<Rightarrow> ObjectZoneSpec \<times> string option" where
  "CephObjectZone_GetSpec D z =
     get_spec (de_ObjectZoneSpec D) ObjectZoneSpec0 ''*v1.ObjectZoneSpec'' ''zone spec no any data provided''
       ''zone spec has failed to decode to Rook ObjectZoneSpec struct''
       ''zone field has failed to convert to Rook CephObjectZone object'' (ns_Spec z)"

definition CephObjectStore_GetSpec :: "deployEnv \<Rightarrow> CephObjectStore \<Rightarrow> ObjectStoreSpec \<times> string option" where
  "CephObjectStore_GetSpec D rgw =
     get_spec (de_ObjectStoreSpec D) ObjectStoreSpec0 ''*v1.ObjectStoreSpec'' ''rgw store spec no any data provided''
       ''rgw store spec has failed to decode to Rook ObjectStoreSpec struct''
       ''rgw store field has failed to convert to Rook CephObjectStore object'' (rgw_Spec rgw)"

definition CephObjectStoreUser_GetSpec :: "deployEnv \<Rightarrow> string named_spec \<Rightarrow> string \<times> string option" where
  "CephObjectStoreUser_GetSpec D user =
     get_spec (de_UserSpec D) [] ''*v1.ObjectStoreUserSpec'' ''rgw user spec no any data provided''
       ''rgw user spec has failed to decode to Rook ObjectStoreUserSpec struct''
       ''rgw user field has failed to convert to Rook CephObjectStoreUser object'' (ns_Spec user)"

definition CephDeploymentHTTPRoute_GetSpec :: "deployEnv \<Rightarrow> CephDeploymentHTTPRoute \<Rightarrow> string list \<times> string option" where
  "CephDeploymentHTTPRoute_GetSpec D httpRoute =
     get_spec (de_RouteSpec D) [] ''*v1.HTTPRouteSpec'' ''http route spec no any data provided''
       ''http route spec has failed to decode to GatewayAPI HTTPRouteSpec struct''
       ''http route field has failed to convert to GatewayAPI HTTPRoute object'' (hr_Spec httpRoute)"

definition CephCSIOperatorConfig_GetSpec :: "deployEnv \<Rightarrow> string RawExtension \<Rightarrow> string \<times> string option" where
  "CephCSIOperatorConfig_GetSpec D operatorConfig =
     get_spec (de_OperatorConfigSpec D) [] ''*v1.OperatorConfigSpec'' ''operatorConfig spec no any data provided''
       ''operatorConfig spec has failed to decode to CephCSI OperatorConfigSpec struct''
       ''operatorConfig field has failed to convert to CephCSI OperatorConfig object'' operatorConfig"

definition CephCSIDriver_GetSpec :: "deployEnv \<Rightarrow> string RawExtension \<Rightarrow> string \<times> string option" where
  "CephCSIDriver_GetSpec D csiDriver =
     get_spec (de_DriverSpec D) [] ''*v1.DriverSpec'' ''driver spec no any data provided''
       ''driver spec has failed to decode to CephCSI DriverSpec struct''
       ''driver field has failed to convert to CephCSI Driver object'' csiDriver"

section \<open>Constants (const.go)\<close>

definition builtinCephPools :: "string list" where
  "builtinCephPools = [''.mgr'', ''.rgw.root'']"

definition poolReclaimPolicies :: "string list" where
  "poolReclaimPolicies = [''Retain'', ''Delete'']"

definition crushTopologyAllowedKeys :: "(string, string) gomap" where
  "crushTopologyAllowedKeys =
     [(''region'', ''topology.kubernetes.io/region''), (''zone'', ''topology.kubernetes.io/zone''),
      (''datacenter'', ''topology.rook.io/datacenter''), (''room'', ''topology.rook.io/room''),
      (''pod'', ''topology.rook.io/pod''), (''pdu'', ''topology.rook.io/pdu''), (''row'', ''topology.rook.io/row''),
      (''rack'', ''topology.rook.io/rack''), (''chassis'', ''topology.rook.io/chassis'')]"

definition getCrushKeys :: "string list" where
  "getCrushKeys = sort (keys crushTopologyAllowedKeys)"

definition finalizer :: string where "finalizer = ''cephdeployment.lcm.mirantis.com/finalizer''"
definition poolPreserveOnDeleteAnnotation :: string where
  "poolPreserveOnDeleteAnnotation = ''cephdeployment.lcm.mirantis.com/preserve-on-delete''"
definition cephDaemonsetLabel :: string where "cephDaemonsetLabel = ''ceph-daemonset-available-node''"
definition monIPAnnotation :: string where "monIPAnnotation = ''network.rook.io/mon-ip''"
definition aes256kApplied :: string where "aes256kApplied = ''cephdeployment.lcm.mirantis.com/aes256kApplied''"
definition rookCephMonEndpointsMapName :: string where "rookCephMonEndpointsMapName = ''rook-ceph-mon-endpoints''"
definition pelagiaVersionCheckDpl :: string where "pelagiaVersionCheckDpl = ''pelagia-check-ceph-version''"

definition baseResourceLabels :: "(string, string) gomap" where
  "baseResourceLabels = PelagiaResourceLabels ''pelagia-deployment-controller''"

section \<open>Configuration of a run (opts.go)\<close>

text \<open>\<^verbatim>\<open>CephVersion\<close> of \<^verbatim>\<open>common/version.go\<close>\<close>

record CephVersion =
  ver_Name :: string
  ver_MajorVersion :: string
  ver_MinorVersion :: int
  ver_Order :: int
  ver_SupportedMinors :: "int list"

record deployConfig =
  dcf_cephDpl :: CephDeployment
  dcf_clusterSpec :: ClusterSpec
  dcf_openstackSetup :: bool
  dcf_pools :: "string list"
  dcf_nodesListExpanded :: "CephDeploymentNode list"
  dcf_currentCephVersion :: "CephVersion option"
  dcf_currentCephImage :: string
  dcf_aes256kUpgrade :: bool
  dcf_cephxConfigWithAes256k :: "CephxConfig option"

record cephDeploymentConfig =
  dpc_lcmConfig :: LcmConfig
  dpc_cdConfig :: deployConfig

abbreviation dpl_of :: "cephDeploymentConfig \<Rightarrow> CephDeployment" where
  "dpl_of c \<equiv> dcf_cephDpl (dpc_cdConfig c)"

abbreviation dpl_spec :: "cephDeploymentConfig \<Rightarrow> CephDeploymentSpec" where
  "dpl_spec c \<equiv> cdp_Spec (dpl_of c)"

abbreviation rook_ns :: "cephDeploymentConfig \<Rightarrow> string" where
  "rook_ns c \<equiv> lc_RookNamespace (dpc_lcmConfig c)"

abbreviation external :: "cephDeploymentConfig \<Rightarrow> bool" where
  "external c \<equiv> cs_ExternalEnable (dcf_clusterSpec (dpc_cdConfig c))"

abbreviation expanded :: "cephDeploymentConfig \<Rightarrow> CephDeploymentNode list" where
  "expanded c \<equiv> dcf_nodesListExpanded (dpc_cdConfig c)"

section \<open>Helpers (utils.go, k8s\_utils.go)\<close>

definition isTypeReadyToUpdate :: "string \<Rightarrow> bool" where
  "isTypeReadyToUpdate condition \<longleftrightarrow> condition \<notin> set [''Connecting'', ''Progressing'', ''Deleting'']"

definition getCephPoolName :: "deployEnv \<Rightarrow> CephPool \<Rightarrow> string" where
  "getCephPoolName D pool =
     (if cpl_UseAsFullName pool then cpl_Name pool
      else cpl_Name pool @ ''-'' @ pl_DeviceClass (fst (CephPool_GetSpec D pool)))"

definition getBuiltinPoolName :: "string \<Rightarrow> string" where
  "getBuiltinPoolName name =
     (if HasPrefix name ''.'' then ''builtin'' @ replace_all name ''.'' ''-''
      else if str_contains name ''_'' then ''builtin-'' @ replace_all name ''_'' ''-''
      else name)"

definition buildPoolName :: "deployEnv \<Rightarrow> CephPool \<Rightarrow> string" where
  "buildPoolName D pool =
     (if Contains builtinCephPools (getCephPoolName D pool) then getBuiltinPoolName (getCephPoolName D pool)
      else getCephPoolName D pool)"

definition isCephDeployed :: "deployEnv \<Rightarrow> string \<Rightarrow> bool io" where
  "isCephDeployed D ns = do {
     r \<leftarrow> manage (GetConfigMap ns rookCephMonEndpointsMapName)
            (\<lambda>h. de_GetConfigMap D h ns rookCephMonEndpointsMapName);
     State_Monad.return (\<not> isl r)
   }"

lemma isCephDeployed_calls [calls_intro]:
  "P (Manage (GetConfigMap ns rookCephMonEndpointsMapName)) \<Longrightarrow> calls_in P (isCephDeployed D ns)"
  unfolding isCephDeployed_def by (auto intro!: calls_intro)

text \<open>\<^verbatim>\<open>AlignBaseLabels\<close>: the labels of an object with the base labels set, and whether one was missing.
  The controller always passes labels.\<close>

definition AlignBaseLabels :: "(string, string) gomap \<Rightarrow> (string, string) gomap \<Rightarrow> (string, string) gomap \<times> bool" where
  "AlignBaseLabels labels baseLabels =
     fold (\<lambda>(k, v) (ls, updated). if map_of ls k = Some v then (ls, updated) else (AList.update k v ls, True))
       baseLabels (labels, False)"

lemma AlignBaseLabels_acc:
  assumes "wf_map base"
  shows "fst (fold (\<lambda>(k, v) (ls, updated). if map_of ls k = Some v then (ls, updated)
      else (AList.update k v ls, True)) base (labels, u)) = res \<Longrightarrow> map_of res = map_of labels ++ map_of base"
  using assms
proof (induction base arbitrary: labels u)
  case (Cons p base)
  obtain k v where p: "p = (k, v)" by (cases p)
  from Cons.prems p have k: "map_of base k = None" by (simp add: map_of_eq_None_iff)
  have "map_of res = (map_of labels)(k \<mapsto> v) ++ map_of base"
    using Cons p by (cases "map_of labels k = Some v") (auto simp: fun_upd_idem)
  with k p show ?case by (auto simp: map_add_def fun_eq_iff split: option.splits)
qed simp

lemma AlignBaseLabels_labels:
  "wf_map base \<Longrightarrow> map_of (fst (AlignBaseLabels labels base)) = map_of labels ++ map_of base"
  unfolding AlignBaseLabels_def by (rule AlignBaseLabels_acc) simp_all

text \<open>\<^verbatim>\<open>wait.PollUntilContextTimeout\<close> with an immediate first attempt and a condition that returns no
  error. An attempt that is done gives the value the condition left in the variables of its caller; the
  result is \<open>None\<close> when the time was up.\<close>

fun poll_loop :: "nat \<Rightarrow> int \<Rightarrow> 'a option io \<Rightarrow> 'a option io" where
  "poll_loop 0 interval f = f"
| "poll_loop (Suc n) interval f = do {
     r \<leftarrow> f;
     if r \<noteq> None then State_Monad.return r
     else do {
       _ \<leftarrow> issue (Sleep interval) (\<lambda>_. ());
       poll_loop n interval f
     }
   }"

definition poll_until :: "deployEnv \<Rightarrow> int \<Rightarrow> 'a option io \<Rightarrow> 'a option io" where
  "poll_until D interval f = State (\<lambda>h. run_state (poll_loop (de_Polls D h) interval f) h)"

lemma poll_loop_calls: "calls_in P f \<Longrightarrow> (\<And>i. P (Sleep i)) \<Longrightarrow> calls_in P (poll_loop n interval f)"
  by (induction n) (auto intro!: calls_intro)

lemma poll_until_calls [calls_intro]:
  assumes "calls_in P f" and "\<And>i. P (Sleep i)"
  shows "calls_in P (poll_until D interval f)"
  using poll_loop_calls [OF assms] unfolding poll_until_def calls_in_def by simp

text \<open>What holds after every attempt holds at the end, and no attempt is made before \<open>I\<close> holds again.\<close>

lemma triple_poll_loop:
  assumes f: "triple I Q f R" and R: "\<And>h i. R None h \<Longrightarrow> Q h (Sleep i) \<and> I (h @ [Sleep i])"
  shows "triple I Q (poll_loop n interval f) R"
proof (induction n)
  case 0
  show ?case by (simp add: f)
next
  case (Suc n)
  have "triple (R r) Q (if r \<noteq> None then State_Monad.return r
      else issue (Sleep interval) (\<lambda>_. ()) \<bind> (\<lambda>_. poll_loop n interval f)) R" for r
  proof (cases r)
    case None
    have "triple (R None) Q (issue (Sleep interval) (\<lambda>_. ())) (\<lambda>_. I)"
      by (rule triple_issue) (use R in blast)
    with Suc None show ?thesis by (auto intro: triple_bind)
  qed (auto intro: triple_return)
  then show ?case by (auto intro: triple_bind [OF f])
qed

lemma triple_poll_until:
  assumes "triple I Q f R" and "\<And>h i. R None h \<Longrightarrow> Q h (Sleep i) \<and> I (h @ [Sleep i])"
  shows "triple I Q (poll_until D interval f) R"
  using triple_poll_loop [OF assms] unfolding poll_until_def triple_def by simp

end
