(* ===== verification/Deploy_Nodes.thy ===== *)
theory Deploy_Nodes
  imports Deploy_Env
begin

text \<open>
  Nodes of a Ceph deployment: expansion of node groups and device labels, role and topology labels
  (\<^verbatim>\<open>common/cephdeployment_utils.go\<close>, \<^verbatim>\<open>deployment/label.go\<close>) and the storage nodes of the Rook cluster
  (\<^verbatim>\<open>buildStorageNodes\<close> and \<^verbatim>\<open>checkStorageSpecIsAligned\<close> of \<^verbatim>\<open>cluster.go\<close>).
\<close>

section \<open>Expansion of the node list (cephdeployment\_utils.go)\<close>

definition IsCephOsdNode :: "CephNode \<Rightarrow> bool" where
  "IsCephOsdNode node \<longleftrightarrow> length (cn_Devices node) > 0 \<or> cn_DeviceFilter node \<noteq> [] \<or> cn_DevicePathFilter node \<noteq> []"

definition IsOpenStackPoolsPresent :: "CephPool list \<Rightarrow> bool" where
  "IsOpenStackPoolsPresent pools \<longleftrightarrow>
     list_ex (\<lambda>pool. Contains [''images'', ''vms'', ''backup'', ''volumes''] (cpl_Role pool)) pools"

definition expand_device :: "(string, string) gomap \<Rightarrow> CephDevice \<Rightarrow> CephDevice" where
  "expand_device nodeDeviceLabels device0 =
     (let device = (case map_of nodeDeviceLabels (cd_Name device0) of
          None \<Rightarrow> device0
        | Some realDevLink \<Rightarrow>
            if HasPrefix realDevLink ''/dev/disk/by-path/'' then device0\<lparr>cd_Name := [], cd_FullPath := realDevLink\<rparr>
            else device0\<lparr>cd_Name := realDevLink, cd_FullPath := []\<rparr>)
      in case map_of (cd_Config device) ''metadataDevice'' of
           None \<Rightarrow> device
         | Some metadataDev \<Rightarrow>
             (case map_of nodeDeviceLabels metadataDev of
                None \<Rightarrow> device
              | Some metaLink \<Rightarrow> device\<lparr>cd_Config := AList.update ''metadataDevice'' metaLink (cd_Config device)\<rparr>))"

definition GetExpandedCephNodeDevicesList :: "CephDevice list \<Rightarrow> (string, string) gomap \<Rightarrow> CephDevice list" where
  "GetExpandedCephNodeDevicesList nodeDevices nodeDeviceLabels =
     (if length nodeDeviceLabels = 0 then nodeDevices else map (expand_device nodeDeviceLabels) nodeDevices)"

definition with_name :: "string \<Rightarrow> CephDeploymentNode \<Rightarrow> CephDeploymentNode" where
  "with_name name node = node\<lparr>dn_Node := (dn_Node node)\<lparr>cn_Name := name\<rparr>\<rparr>"

text \<open>The devices of a node with the labels of the node of that name replaced.\<close>

definition with_devices :: "CephDeploymentExtraOpts option \<Rightarrow> CephDeploymentNode \<Rightarrow> CephDeploymentNode" where
  "with_devices opts node =
     (case Option.bind opts eo_DeviceLabels of
        None \<Rightarrow> node
      | Some labels \<Rightarrow> node\<lparr>dn_Node := (dn_Node node)\<lparr>cn_Devices :=
          GetExpandedCephNodeDevicesList (cn_Devices (dn_Node node)) (get_or [] labels (cn_Name (dn_Node node)))\<rparr>\<rparr>)"

text \<open>The loop over the nodes of the specification. A node that is neither a group nor selected by
  label is not copied: its devices are replaced in the list of devices that it shares with the
  specification. The result is the error, the expanded list and the nodes that the specification holds
  afterwards.\<close>

fun expand_nodes :: "deployEnv \<Rightarrow> CephDeploymentExtraOpts option \<Rightarrow> nat \<Rightarrow> CephDeploymentNode list \<Rightarrow>
    (string option \<times> CephDeploymentNode list \<times> CephDeploymentNode list) io" where
  "expand_nodes D opts idx [] = State_Monad.return (None, [], [])"
| "expand_nodes D opts idx (node # nodes) =
     (if cn_Name (dn_Node node) = [] then
        State_Monad.return (Some (''name missed for node (group) item #'' @ show_nat idx), [], node # nodes)
      else if length (dn_NodeGroup node) > 0 \<and> dn_NodesByLabel node \<noteq> [] then
        State_Monad.return (Some (''labels and node groups used simultaneously for node (group) '' @ cn_Name (dn_Node node)),
          [], node # nodes)
      else if length (dn_NodeGroup node) > 0 then do {
        let new = map (\<lambda>nodeName. with_devices opts ((with_name nodeName node)\<lparr>dn_NodeGroup := []\<rparr>)) (dn_NodeGroup node);
        (err, expandedList, spec) \<leftarrow> expand_nodes D opts (Suc idx) nodes;
        State_Monad.return (err, new @ expandedList, node # spec)
      }
      else if dn_NodesByLabel node \<noteq> [] then do {
        r \<leftarrow> manage (ListNodesByLabel (dn_NodesByLabel node)) (\<lambda>h. de_ListNodesByLabel D h (dn_NodesByLabel node));
        case r of
          Inl err \<Rightarrow> State_Monad.return
            (Some (wrap (err_msg err) (''failed to get nodes with label: '' @ dn_NodesByLabel node)), [], node # nodes)
        | Inr nodesByLabel \<Rightarrow> do {
            let new = map (\<lambda>nodeByLabel. with_devices opts (with_name (kn_Name nodeByLabel) node)) nodesByLabel;
            (err, expandedList, spec) \<leftarrow> expand_nodes D opts (Suc idx) nodes;
            State_Monad.return (err, new @ expandedList, node # spec)
          }
      }
      else do {
        let new = with_devices opts node;
        (err, expandedList, spec) \<leftarrow> expand_nodes D opts (Suc idx) nodes;
        State_Monad.return (err, new # expandedList, new # spec)
      })"

definition GetExpandedCephDeploymentNodeList :: "deployEnv \<Rightarrow> CephDeploymentSpec \<Rightarrow>
    (string option \<times> CephDeploymentNode list \<times> CephDeploymentSpec) io" where
  "GetExpandedCephDeploymentNodeList D spec = do {
     (err, expandedList, nodes) \<leftarrow> expand_nodes D (sps_ExtraOpts spec) 0 (sps_Nodes spec);
     State_Monad.return (err, expandedList, spec\<lparr>sps_Nodes := nodes\<rparr>)
   }"

section \<open>Labels of a node\<close>

definition CephDaemonKeys :: "string list" where
  "CephDaemonKeys = [''mds'', ''mgr'', ''mon'', ''osd'', ''rgw'']"

definition CephNodeLabel :: "string \<Rightarrow> string" where
  "CephNodeLabel daemon = ''ceph_role_'' @ daemon"

definition role_step :: "string list \<Rightarrow> string \<Rightarrow> (string, string) gomap \<times> bool \<Rightarrow> (string, string) gomap \<times> bool" where
  "role_step roles baseRole st =
     (let (newLabels, changed) = st in
      if \<not> Contains roles baseRole then
        if map_of newLabels (CephNodeLabel baseRole) \<noteq> None then (AList.delete (CephNodeLabel baseRole) newLabels, True)
        else (newLabels, changed)
      else if str_of newLabels (CephNodeLabel baseRole) \<noteq> ''true'' then
        (AList.update (CephNodeLabel baseRole) ''true'' newLabels, True)
      else (newLabels, changed))"

definition BuildCephNodeLabels :: "(string, string) gomap \<Rightarrow> string list \<Rightarrow> (string, string) gomap \<times> bool" where
  "BuildCephNodeLabels currentNodeLabels roles =
     fold (role_step roles) CephDaemonKeys (copy_into currentNodeLabels [], False)"

definition isKubeCrush :: "string \<Rightarrow> bool" where
  "isKubeCrush key \<longleftrightarrow> key = ''region'' \<or> key = ''zone''"

definition topology_of :: "string \<Rightarrow> string" where
  "topology_of crushroot = str_of crushTopologyAllowedKeys crushroot"

text \<open>\<^verbatim>\<open>cephKubeTopologyLabelTemplate\<close>\<close>

definition prev_label :: "string \<Rightarrow> string" where
  "prev_label topology = ''cephdpl-prev-'' @ topology"

definition topology_add :: "string \<times> string \<Rightarrow> (string, string) gomap \<times> bool \<Rightarrow> (string, string) gomap \<times> bool" where
  "topology_add e st =
     (let (crushroot, crushtopology) = e; (newLabels, updatedLabels) = st; topology = topology_of crushroot
      in case map_of newLabels topology of
           None \<Rightarrow>
             let l1 = (if isKubeCrush crushroot then AList.update (prev_label topology) [] newLabels else newLabels)
             in (AList.update topology crushtopology l1, True)
         | Some currentTopology \<Rightarrow>
             let (l1, u1) =
               (if isKubeCrush crushroot \<and> map_of newLabels (prev_label topology) = None
                then (AList.update (prev_label topology) currentTopology newLabels, True)
                else (newLabels, updatedLabels))
             in if currentTopology \<noteq> crushtopology then (AList.update topology crushtopology l1, True) else (l1, u1))"

definition topology_remove :: "(string, string) gomap \<Rightarrow> string \<times> string \<Rightarrow> (string, string) gomap \<times> bool \<Rightarrow>
    (string, string) gomap \<times> bool" where
  "topology_remove newNodeTopology e st =
     (let (allowedKey, topologyPath) = e; (newLabels, updatedLabels) = st
      in if map_of newNodeTopology allowedKey \<noteq> None \<or> map_of newLabels topologyPath = None then (newLabels, updatedLabels)
         else if isKubeCrush allowedKey then
           (case map_of newLabels (prev_label topologyPath) of
              None \<Rightarrow> (newLabels, updatedLabels)
            | Some originalValue \<Rightarrow>
                let l1 = (if originalValue = [] then AList.delete topologyPath newLabels
                          else AList.update topologyPath originalValue newLabels)
                in (AList.delete (prev_label topologyPath) l1, True))
         else (AList.delete topologyPath newLabels, True))"

definition buildNodeLabels :: "(string, string) gomap \<Rightarrow> string list \<Rightarrow> (string, string) gomap \<Rightarrow>
    (string, string) gomap \<times> bool" where
  "buildNodeLabels currentLabels nodeRoles newNodeTopology =
     fold (topology_remove newNodeTopology) crushTopologyAllowedKeys
       (fold topology_add newNodeTopology (BuildCephNodeLabels currentLabels nodeRoles))"

text \<open>\<^verbatim>\<open>buildCephNodeAnnotations\<close> of \<^verbatim>\<open>utils.go\<close>; the only annotation is the address of a monitor.\<close>

definition cephNodeAnnotationKeys :: "string list" where
  "cephNodeAnnotationKeys = [monIPAnnotation]"

definition annotation_step :: "(string, string) gomap \<Rightarrow> string \<Rightarrow> (string, string) gomap \<times> bool \<Rightarrow>
    (string, string) gomap \<times> bool" where
  "annotation_step desired annotation st =
     (let (newAnnotations, changed) = st in
      case map_of desired annotation of
        None \<Rightarrow>
          if map_of newAnnotations annotation \<noteq> None then (AList.delete annotation newAnnotations, True)
          else (newAnnotations, changed)
      | Some value \<Rightarrow>
          if str_of newAnnotations annotation \<noteq> value then (AList.update annotation value newAnnotations, True)
          else (newAnnotations, changed))"

definition buildCephNodeAnnotations :: "(string, string) gomap \<Rightarrow> (string, string) gomap \<Rightarrow> (string, string) gomap \<times> bool" where
  "buildCephNodeAnnotations current desired =
     fold (annotation_step desired) cephNodeAnnotationKeys (copy_into current [], False)"

section \<open>Labels of the cluster nodes (label.go)\<close>

definition update_node :: "deployEnv \<Rightarrow> KubeNode \<Rightarrow> api_error option io" where
  "update_node D node = manage (UpdateNode node) (\<lambda>h. de_UpdateNode D h node)"

definition annotateNode :: "deployEnv \<Rightarrow> (string, string) gomap \<Rightarrow> KubeNode \<Rightarrow> (string + bool) io" where
  "annotateNode D annotations node =
     (let (newAnnotations, updateAnnotations) = buildCephNodeAnnotations (kn_Annotations node) annotations
      in if updateAnnotations then do {
           err \<leftarrow> update_node D (node\<lparr>kn_Annotations := newAnnotations\<rparr>);
           State_Monad.return (case err of
             Some e \<Rightarrow> Inl (wrap (err_msg e) (''failed to update '' @ quoted (kn_Name node) @ '' node annotations''))
           | None \<Rightarrow> Inr True)
         }
         else State_Monad.return (Inr False))"

text \<open>The variables of the loops over the cluster nodes: the number of errors and whether something changed.\<close>

definition annotate_step :: "deployEnv \<Rightarrow> (string, string) gomap \<Rightarrow> KubeNode \<Rightarrow> nat \<times> bool \<Rightarrow> (nat \<times> bool) io" where
  "annotate_step D annotations node st = do {
     let (errCollector, changedNodes) = st;
     r \<leftarrow> annotateNode D annotations node;
     State_Monad.return (case r of Inl err \<Rightarrow> (Suc errCollector, changedNodes) | Inr changed \<Rightarrow> (errCollector, changedNodes \<or> changed))
   }"

definition nodeMonitorIPs :: "CephDeploymentNode list \<Rightarrow> (string, string) gomap" where
  "nodeMonitorIPs nodes = fold (\<lambda>node m. if dn_MonitorIP node \<noteq> [] then AList.update (cn_Name (dn_Node node)) (dn_MonitorIP node) m else m)
     nodes []"

definition ensureNodesAnnotation :: "deployEnv \<Rightarrow> cephDeploymentConfig \<Rightarrow> (string + bool) io" where
  "ensureNodesAnnotation D c = do {
     r \<leftarrow> GetNodeList (de_env D);
     case r of
       Inl err \<Rightarrow> State_Monad.return (Inl (wrap (err_msg err) ''failed to list nodes''))
     | Inr nodes \<Rightarrow> do {
         (errCollector, changedNodes) \<leftarrow> for_each (\<lambda>node. annotate_step D
             (case map_of (nodeMonitorIPs (expanded c)) (kn_Name node) of None \<Rightarrow> [] | Some ip \<Rightarrow> [(monIPAnnotation, ip)]) node)
           nodes (0, False);
         State_Monad.return (if errCollector > 0 then Inl ''failed to verify node(s) annotations'' else Inr changedNodes)
       }
   }"

definition nodesRoles :: "CephDeploymentNode list \<Rightarrow> (string, string list) gomap" where
  "nodesRoles nodes = fold (\<lambda>node. AList.update (cn_Name (dn_Node node))
     (if IsCephOsdNode (dn_Node node) then dn_Roles node @ [''osd''] else dn_Roles node)) nodes []"

definition nodesCrushTopology :: "CephDeploymentNode list \<Rightarrow> (string, (string, string) gomap) gomap" where
  "nodesCrushTopology nodes = fold (\<lambda>node m. if IsCephOsdNode (dn_Node node)
     then AList.update (cn_Name (dn_Node node)) (dn_Crush node) m else m) nodes []"

definition osd_selector :: "string \<Rightarrow> string" where
  "osd_selector name = ''app=rook-ceph-osd,failure-domain='' @ name"

text \<open>The roles a node keeps: a node that carries the OSD label and is not a storage node of the
  specification keeps it as long as it has OSD deployments. \<open>None\<close> is the error of the listing.\<close>

definition roles_to_keep :: "deployEnv \<Rightarrow> cephDeploymentConfig \<Rightarrow> KubeNode \<Rightarrow> string list option io" where
  "roles_to_keep D c node =
     (let nodeRoles = get_or [] (nodesRoles (expanded c)) (kn_Name node)
      in if map_of (kn_Labels node) (CephNodeLabel ''osd'') \<noteq> None \<and>
            map_of (nodesCrushTopology (expanded c)) (kn_Name node) = None then do {
           r \<leftarrow> manage (ListDeployments (rook_ns c) (osd_selector (kn_Name node)))
                  (\<lambda>h. de_ListDeployments D h (rook_ns c) (osd_selector (kn_Name node)));
           State_Monad.return (case r of
             Inl err \<Rightarrow> None
           | Inr osdDeployments \<Rightarrow> Some (if length osdDeployments > 0 then nodeRoles @ [''osd''] else nodeRoles))
         }
         else State_Monad.return (Some nodeRoles))"

definition set_labels :: "deployEnv \<Rightarrow> KubeNode \<Rightarrow> (string, string) gomap \<times> bool \<Rightarrow> nat \<times> bool \<Rightarrow> (nat \<times> bool) io" where
  "set_labels D node res st =
     (let (newLabels, updated) = res; (errCollector, labelsUpdated) = st
      in if updated then do {
           err \<leftarrow> update_node D (node\<lparr>kn_Labels := newLabels\<rparr>);
           State_Monad.return (if err \<noteq> None then Suc errCollector else errCollector, True)
         }
         else State_Monad.return (errCollector, labelsUpdated))"

definition label_step :: "deployEnv \<Rightarrow> cephDeploymentConfig \<Rightarrow> KubeNode \<Rightarrow> nat \<times> bool \<Rightarrow> (nat \<times> bool) io" where
  "label_step D c node st = do {
     r \<leftarrow> roles_to_keep D c node;
     case r of
       None \<Rightarrow> State_Monad.return (Suc (fst st), snd st)
     | Some nodeRoles \<Rightarrow> set_labels D node (buildNodeLabels (kn_Labels node) nodeRoles
         (get_or [] (nodesCrushTopology (expanded c)) (kn_Name node))) st
   }"

definition ensureLabelNodes :: "deployEnv \<Rightarrow> cephDeploymentConfig \<Rightarrow> (string + bool) io" where
  "ensureLabelNodes D c = do {
     r \<leftarrow> GetNodeList (de_env D);
     case r of
       Inl err \<Rightarrow> State_Monad.return (Inl (wrap (err_msg err) ''failed to list nodes''))
     | Inr nodes \<Rightarrow> do {
         (errCollector, labelsUpdated) \<leftarrow> for_each (label_step D c) nodes (0, False);
         State_Monad.return (if errCollector > 0 then Inl ''failed to verify node(s) labels'' else Inr labelsUpdated)
       }
   }"

definition deleteLabelNodes :: "deployEnv \<Rightarrow> cephDeploymentConfig \<Rightarrow> (string + bool) io" where
  "deleteLabelNodes D c = do {
     r \<leftarrow> GetNodeList (de_env D);
     case r of
       Inl err \<Rightarrow> State_Monad.return (Inl (wrap (err_msg err) ''failed to list nodes''))
     | Inr nodes \<Rightarrow> do {
         (errCollector, changed) \<leftarrow> for_each (\<lambda>node. set_labels D node (buildNodeLabels (kn_Labels node) [] [])) nodes (0, False);
         State_Monad.return (if errCollector > 0
           then Inl ''failed to delete ceph role or crush topology labels from obsolete node(s)'' else Inr (\<not> changed))
       }
   }"

definition deleteNodesAnnotations :: "deployEnv \<Rightarrow> cephDeploymentConfig \<Rightarrow> (string + bool) io" where
  "deleteNodesAnnotations D c = do {
     r \<leftarrow> GetNodeList (de_env D);
     case r of
       Inl err \<Rightarrow> State_Monad.return (Inl (wrap (err_msg err) ''failed to list nodes''))
     | Inr nodes \<Rightarrow> do {
         (errCollector, changed) \<leftarrow> for_each (annotate_step D []) nodes (0, False);
         State_Monad.return (if errCollector > 0 then Inl ''failed to delete rook annotations from obsolete node(s)'' else Inr (\<not> changed))
       }
   }"

definition daemonset_label_step :: "deployEnv \<Rightarrow> KubeNode \<Rightarrow> nat \<times> bool \<Rightarrow> (nat \<times> bool) io" where
  "daemonset_label_step D node st =
     (if map_of (kn_Labels node) cephDaemonsetLabel \<noteq> None then do {
        err \<leftarrow> update_node D (node\<lparr>kn_Labels := AList.delete cephDaemonsetLabel (kn_Labels node)\<rparr>);
        State_Monad.return (if err \<noteq> None then Suc (fst st) else fst st, False)
      }
      else State_Monad.return st)"

definition deleteDaemonSetLabels :: "deployEnv \<Rightarrow> cephDeploymentConfig \<Rightarrow> (string + bool) io" where
  "deleteDaemonSetLabels D c = do {
     r \<leftarrow> GetNodeList (de_env D);
     case r of
       Inl err \<Rightarrow> State_Monad.return (Inl (wrap (err_msg err) ''failed to list nodes''))
     | Inr nodes \<Rightarrow> do {
         (errCollector, noLabels) \<leftarrow> for_each (daemonset_label_step D) nodes (0, True);
         State_Monad.return (if errCollector > 0 then Inl ''failed to delete daemonset labels from some nodes'' else Inr noLabels)
       }
   }"

section \<open>Storage nodes of the cluster (cluster.go)\<close>

text \<open>The device as Rook expects it: a link by id is a name, not a full path.\<close>

definition rook_device :: "CephDevice \<Rightarrow> CephDevice" where
  "rook_device dev =
     (if HasPrefix (cd_FullPath dev) ''/dev/disk/by-id'' then dev\<lparr>cd_Name := cd_FullPath dev, cd_FullPath := []\<rparr> else dev)"

definition rook_node :: "CephNode \<Rightarrow> CephNode" where
  "rook_node node = node\<lparr>cn_Devices := map rook_device (cn_Devices node)\<rparr>"

text \<open>\<^verbatim>\<open>nodeMap\<close> holds the last index of a name.\<close>

definition buildStorageNodes :: "CephDeploymentNode list \<Rightarrow> CephNode list" where
  "buildStorageNodes cephDplNodes =
     (let osdNodes = filter IsCephOsdNode (map dn_Node cephDplNodes);
          nodeNames = sort (map cn_Name osdNodes);
          nodeMap = fold (\<lambda>node. AList.update (cn_Name node) node) osdNodes []
      in map (\<lambda>nodeName. rook_node (the (map_of nodeMap nodeName))) nodeNames)"

definition config_eq :: "CephDevice \<Rightarrow> CephDevice \<Rightarrow> bool" where
  "config_eq d e \<longleftrightarrow> cd_Name d = cd_Name e \<and> cd_FullPath d = cd_FullPath e \<and> map_eq (cd_Config d) (cd_Config e)"

definition node_eq :: "CephNode \<Rightarrow> CephNode \<Rightarrow> bool" where
  "node_eq m n \<longleftrightarrow> cn_Name m = cn_Name n \<and> map_eq (cn_Config m) (cn_Config n) \<and>
     list_all2 config_eq (cn_Devices m) (cn_Devices n) \<and> cn_DeviceFilter m = cn_DeviceFilter n \<and>
     cn_DevicePathFilter m = cn_DevicePathFilter n \<and> cn_UseAllDevices m = cn_UseAllDevices n \<and>
     cn_VolumeClaimTemplates m = cn_VolumeClaimTemplates n"

text \<open>\<^verbatim>\<open>reflect.DeepEqual\<close> of the stored and the generated nodes: a list without elements is nil when it
  was read and not nil when it was generated.\<close>

definition checkStorageSpecIsAligned :: "deployEnv \<Rightarrow> cephDeploymentConfig \<Rightarrow> (string + bool) io" where
  "checkStorageSpecIsAligned D c = do {
     r \<leftarrow> issue (GetCephCluster (rook_ns c) (cdp_Name (dpl_of c)))
            (\<lambda>h. de_GetCephCluster D h (rook_ns c) (cdp_Name (dpl_of c)));
     State_Monad.return (case r of
       Inl err \<Rightarrow> Inl (err_msg err)
     | Inr cluster \<Rightarrow> Inr (cs_StorageNodes (rk_Spec cluster) \<noteq> [] \<and>
         list_all2 node_eq (cs_StorageNodes (rk_Spec cluster)) (buildStorageNodes (expanded c))))
   }"

end
