(* ===== verification/Deploy_Validate.thy ===== *)
theory Deploy_Validate
  imports Deploy_Nodes
begin

text \<open>
  Validation of a \<^verbatim>\<open>CephDeployment\<close>: \<^verbatim>\<open>src/pkg/controller/deployment/validate.go\<close>. Every function
  returns the list of its messages; the empty list means that nothing was found.
\<close>

section \<open>Numbers and lists in messages\<close>

text \<open>\<^verbatim>\<open>strconv.Atoi\<close> on a 64-bit machine: a sign, at least one decimal digit, and a value that fits.\<close>

definition digit_value :: "char \<Rightarrow> int option" where
  "digit_value c = (if CHR ''0'' \<le> c \<and> c \<le> CHR ''9'' then Some (of_char c - 48) else None)"

fun parse_uint :: "int \<Rightarrow> string \<Rightarrow> string + int" where
  "parse_uint n [] = Inr n"
| "parse_uint n (c # s) =
     (case digit_value c of
        None \<Rightarrow> Inl ''invalid syntax''
      | Some d \<Rightarrow> if n * 10 + d \<ge> 2 ^ 64 then Inl ''value out of range'' else parse_uint (n * 10 + d) s)"

definition Atoi :: "string \<Rightarrow> string + int" where
  "Atoi s =
     (let neg = HasPrefix s ''-''; body = (if neg \<or> HasPrefix s ''+'' then tl s else s);
          res = (if body = [] then Inl ''invalid syntax''
                 else case parse_uint 0 body of
                        Inl e \<Rightarrow> Inl e
                      | Inr n \<Rightarrow> if \<not> neg \<and> n \<ge> 2 ^ 63 \<or> neg \<and> n > 2 ^ 63 then Inl ''value out of range''
                          else Inr (if neg then - n else n))
      in case res of
           Inl e \<Rightarrow> Inl (''strconv.Atoi: parsing '' @ [CHR 34] @ s @ [CHR 34] @ '': '' @ e)
         | Inr n \<Rightarrow> Inr n)"

text \<open>\<^verbatim>\<open>%v\<close> of a list of strings.\<close>

definition show_strings :: "string list \<Rightarrow> string" where
  "show_strings ss = ''['' @ join '' '' ss @ '']''"

section \<open>CSI drivers and network\<close>

fun csi_loop :: "string list \<Rightarrow> (string \<times> string RawExtension) list \<Rightarrow> string list" where
  "csi_loop presentTypes [] = []"
| "csi_loop presentTypes (driver # drivers) =
     (if fst driver \<in> set presentTypes
      then (''driver with type '' @ quoted (fst driver) @ '' specified multiple times'') # csi_loop presentTypes drivers
      else csi_loop (fst driver # presentTypes) drivers)"

definition validateCSIDrivers :: "(string \<times> string RawExtension) list \<Rightarrow> string list" where
  "validateCSIDrivers drivers = (if length drivers = 0 then [] else csi_loop [] drivers)"

definition range_errors :: "string \<Rightarrow> string list \<Rightarrow> string list" where
  "range_errors what nets =
     (if length nets = 0 then [''cluster network addressRanges '' @ what @ '' parameter not specified'']
      else if list_ex (\<lambda>net. net = [] \<or> HasPrefix net ''0.0.0.0'') nets
      then [''cluster network address ranges '' @ what @ '' parameter should not be empty or contain range 0.0.0.0'']
      else [])"

definition validateNetworkSpec :: "NetworkSpec \<Rightarrow> string list" where
  "validateNetworkSpec net =
     (if nw_Provider net \<in> set [[], ''host'', ''multus''] then
        (case nw_AddressRanges net of
           None \<Rightarrow> [''cluster network addressRanges parameter is not specified'']
         | Some ar \<Rightarrow> range_errors ''public'' (ar_Public ar) @ range_errors ''cluster'' (ar_Cluster ar))
        @ (if nw_Provider net = ''multus'' \<and> (str_of (nw_Selectors net) ''public'' = [] \<or> str_of (nw_Selectors net) ''cluster'' = [])
           then [''cluster network public/cluster selector parameter(s) should not be empty for '' @ quoted ''multus'' @ '' provider'']
           else [])
      else [''cluster network provider parameter should be empty or equals '' @ quoted ''host'' @ '' or '' @ quoted ''multus''])"

section \<open>Nodes\<close>

definition validateClusterNodes :: "deployEnv \<Rightarrow> cephDeploymentConfig \<Rightarrow> string option io" where
  "validateClusterNodes D c = do {
     r \<leftarrow> GetNodeList (de_env D);
     State_Monad.return (case r of
       Inl err \<Rightarrow> Some (err_msg err)
     | Inr allNodes \<Rightarrow>
         let unknownNodes = filter (\<lambda>name. name \<notin> kn_Name ` set allNodes) (map (cn_Name \<circ> dn_Node) (expanded c))
         in if length unknownNodes > 0
            then Some (''found nodes present in spec, but not exist among k8s cluster nodes: '' @ join '','' unknownNodes)
            else None)
   }"

definition node_item :: "CephDeploymentNode \<Rightarrow> string" where
  "node_item node = (if dn_NodesByLabel node \<noteq> [] \<or> length (dn_NodeGroup node) > 0 then ''nodeGroup'' else ''node'')
     @ '' '' @ quoted (cn_Name (dn_Node node))"

definition crush_errors :: "CephDeploymentNode \<Rightarrow> string \<times> string \<Rightarrow> string list" where
  "crush_errors node e =
     (let (crush, crushValue) = e
      in if map_of crushTopologyAllowedKeys crush = None then
           [''nodes item '' @ node_item node @ '' contains invalid crush topology key '' @ quoted crush @ ''. Valid are: '' @ join '', '' getCrushKeys]
         else if crushValue = [] then
           [''nodes item '' @ node_item node @ '' contains empty crush topology key '' @ quoted crush @ '': must be non-empty'']
         else [])"

definition device_errors :: "CephDeploymentNode \<Rightarrow> CephDevice \<Rightarrow> string list" where
  "device_errors node device =
     (let nodeDeviceClass = str_of (cn_Config (dn_Node node)) ''deviceClass'';
          deviceName = (if cd_FullPath device \<noteq> [] then cd_FullPath device else cd_Name device);
          deviceClass = (if str_of (cd_Config device) ''deviceClass'' \<noteq> [] then str_of (cd_Config device) ''deviceClass'' else nodeDeviceClass)
      in (if cd_FullPath device = [] \<and> cd_Name device = []
          then [''nodes item '' @ node_item node @ '' has device without name or fullpath specified''] else [])
         @ (if str_of (cd_Config device) ''osdsPerDevice'' \<noteq> [] then
              (case Atoi (str_of (cd_Config device) ''osdsPerDevice'') of
                 Inl err \<Rightarrow> [''failed to parse config parameter '' @ quoted ''osdsPerDevice'' @ '' for device '' @ quoted deviceName
                   @ '' from '' @ node_item node @ '': '' @ err]
               | Inr _ \<Rightarrow> [])
            else [])
         @ (if deviceClass = [] then [''config parameter '' @ quoted ''deviceClass'' @ '' is not specified for device '' @ quoted deviceName
              @ '' from nodes item '' @ node_item node @ '', but it is required''] else []))"

definition storage_errors :: "CephDeploymentNode \<Rightarrow> string list" where
  "storage_errors node =
     (let config = cn_Config (dn_Node node); perDevice = str_of config ''osdsPerDevice''
      in case (if perDevice \<noteq> [] then Atoi perDevice else Inr 0) of
           Inl err \<Rightarrow> [''failed to parse config parameter '' @ quoted ''osdsPerDevice'' @ '' from nodes item '' @ node_item node @ '': '' @ err]
         | Inr _ \<Rightarrow>
             if length (cn_Devices (dn_Node node)) > 0 then concat (map (device_errors node) (cn_Devices (dn_Node node)))
             else if str_of config ''deviceClass'' = [] then
               [''config parameter '' @ quoted ''deviceClass'' @ '' is not specified for nodes item '' @ node_item node @ '', but it is required'']
             else [])"

definition node_errors :: "CephDeploymentNode \<Rightarrow> string list" where
  "node_errors node =
     (if cn_UseAllDevices (dn_Node node) = Some True then
        [''found '' @ quoted ''useAllDevices'' @ '' field for nodes item '' @ node_item node @ '', which is not supported, remove field'']
      else if length (cn_VolumeClaimTemplates (dn_Node node)) > 0 then
        [''found '' @ quoted ''volumeClaimTemplates'' @ '' field for nodes item '' @ node_item node @ '', which is not supported, remove field'']
      else concat (map (crush_errors node) (dn_Crush node))
        @ (if IsCephOsdNode (dn_Node node) then storage_errors node else []))"

definition role_count :: "string \<Rightarrow> CephDeploymentNode list \<Rightarrow> nat" where
  "role_count role nodes = length (filter (\<lambda>node. Contains (dn_Roles node) role) nodes)"

definition validateNodesSpec :: "CephDeployment \<Rightarrow> CephDeploymentNode list \<Rightarrow> string list" where
  "validateNodesSpec cephDpl nodesListExpanded =
     (let monCount = role_count ''mon'' nodesListExpanded; mgrCount = role_count ''mgr'' nodesListExpanded
      in sort (concat (map node_errors (sps_Nodes (cdp_Spec cephDpl)))
         @ (if monCount = 0 then [''no nodes with '' @ quoted ''mon'' @ '' roles specified'']
            else if length nodesListExpanded \<ge> 3 \<and> monCount mod 2 = 0 then
              [''monitor nodes in spec (with roles '' @ quoted ''mon'' @ '') count is '' @ show_nat monCount
                @ '', but should be odd for a healthy quorum'']
            else [])
         @ (if mgrCount = 0 then [''no nodes with '' @ quoted ''mgr'' @ '' roles specified, required at least one''] else [])))"

section \<open>Pools\<close>

text \<open>The loop over the nodes: the class of the node counts when some device has no class of its own.\<close>

fun validateDeviceClass_loop :: "string \<Rightarrow> CephDeploymentNode list \<Rightarrow> string option" where
  "validateDeviceClass_loop deviceClass [] =
     Some (''failed to find deviceClass '' @ quoted deviceClass @ '' among storage devices spec'')"
| "validateDeviceClass_loop deviceClass (node # nodes) =
     (let nodeWideClass = (str_of (cn_Config (dn_Node node)) ''deviceClass'' = deviceClass);
          devices = cn_Devices (dn_Node node);
          classes = List.map_filter (\<lambda>device. map_of (cd_Config device) ''deviceClass'') devices
      in if length devices > 0 then
           if list_ex (\<lambda>class. class = deviceClass) classes then None
           else if length classes < length devices \<and> nodeWideClass then None
           else validateDeviceClass_loop deviceClass nodes
         else None)"

definition validateDeviceClass :: "string \<Rightarrow> CephDeploymentNode list \<Rightarrow> string option" where
  "validateDeviceClass deviceClass nodesListExpanded =
     (if deviceClass = [] then Some ''no deviceClass set'' else validateDeviceClass_loop deviceClass nodesListExpanded)"

definition validatePoolSpec :: "PoolSpec \<Rightarrow> bool \<Rightarrow> string \<Rightarrow> CephDeploymentNode list \<Rightarrow> string list" where
  "validatePoolSpec spec metapool poolName nodesListExpanded =
     (if metapool \<and> (pl_ReplicatedSize spec = 0 \<or> pl_DataChunks spec \<noteq> 0 \<or> pl_CodingChunks spec \<noteq> 0) then
        [poolName @ '' pool must be only replicated'']
      else if pl_ReplicatedSize spec = 0 \<and> pl_DataChunks spec = 0 \<and> pl_CodingChunks spec = 0 \<or>
          pl_ReplicatedSize spec > 0 \<and> (pl_DataChunks spec > 0 \<or> pl_CodingChunks spec > 0) then
        [poolName @ '' pool should be either replicated or erasureCoded'']
      else
        (if pl_DataChunks spec > 0 \<or> pl_CodingChunks spec > 0 then
           (if pl_DataChunks spec < 2 then [''erasureCoded '' @ poolName @ '' pool needs dataChunks set to at least 2''] else [])
           @ (if pl_CodingChunks spec < 1 then [''erasureCoded '' @ poolName @ '' pool needs codingChunks set to at least 1''] else [])
         else [])
        @ (case validateDeviceClass (pl_DeviceClass spec) nodesListExpanded of
             Some err \<Rightarrow> [poolName @ '' pool has '' @ err] | None \<Rightarrow> [])
        @ (if pl_FailureDomain spec = ''osd'' \<and> length nodesListExpanded \<noteq> 1
           then [poolName @ '' pool contains prohibited '' @ quoted ''osd'' @ '' failureDomain''] else []))"

definition openstackRoles :: "string list" where
  "openstackRoles = [''images'', ''vms'', ''backup'', ''volumes'']"

definition pool_role_count :: "CephPool list \<Rightarrow> string \<Rightarrow> nat" where
  "pool_role_count pools role = length (filter (\<lambda>pool. cpl_Role pool = role) pools)"

definition openstackPoolsValidate :: "CephPool list \<Rightarrow> string list" where
  "openstackPoolsValidate specPools =
     (let extraRolesSpecified = filter (\<lambda>role. pool_role_count specPools role > 1 \<and> role \<noteq> ''volumes'') openstackRoles;
          rolesNotSpecified = filter (\<lambda>role. pool_role_count specPools role = 0) openstackRoles;
          totalCount = sum_list (map (pool_role_count specPools) openstackRoles)
      in if totalCount = 0 then []
         else
           (if length rolesNotSpecified > 0 then [''found pools with Openstack roles, but missed pools with next roles: ''
              @ show_strings (sort rolesNotSpecified) @ '' - required to be specified for Openstack''] else [])
           @ (if length extraRolesSpecified > 0 then [''found pools with Openstack roles, but pools with roles ''
              @ show_strings (sort extraRolesSpecified) @ '' allowed to be specified only once''] else []))"

text \<open>The loop over the pools: the messages and whether a default pool was found.\<close>

fun pools_loop :: "deployEnv \<Rightarrow> CephDeploymentNode list \<Rightarrow> bool \<Rightarrow> bool \<Rightarrow> CephPool list \<Rightarrow> string list \<times> bool" where
  "pools_loop D nodes externalCluster defaultFound [] = ([], defaultFound)"
| "pools_loop D nodes externalCluster defaultFound (pool # pools) =
     (let isDefault = sco_Default (cpl_StorageClassOpts pool);
          multiple = (if defaultFound \<and> isDefault then [''multiple default pools specified''] else []);
          castedPool = fst (CephPool_GetSpec D pool);
          policy = sco_ReclaimPolicy (cpl_StorageClassOpts pool);
          errs =
            (if externalCluster then
               (if pl_DeviceClass castedPool = [] then [''pool '' @ quoted (cpl_Name pool) @ '' has no device class specified''] else [])
             else validatePoolSpec castedPool False (cpl_Name pool) nodes
               @ (if policy \<noteq> [] \<and> \<not> Contains poolReclaimPolicies policy then
                    [''pool '' @ cpl_Name pool @ '' contains invalid reclaimPolicy '' @ quoted policy @ '', valid are: '' @ show_strings poolReclaimPolicies]
                  else []));
          (rest, found) = pools_loop D nodes externalCluster (defaultFound \<or> isDefault) pools
      in (multiple @ errs @ rest, found))"

definition validatePoolsSpec :: "deployEnv \<Rightarrow> CephDeployment \<Rightarrow> CephDeploymentNode list \<Rightarrow> bool \<Rightarrow> string list" where
  "validatePoolsSpec D cephDpl nodesListExpanded externalCluster =
     (let pools = (case sps_BlockStorage (cdp_Spec cephDpl) of None \<Rightarrow> [] | Some ps \<Rightarrow> ps)
      in if length pools = 0 then
           if externalCluster then [] else [''no block storage pools provided, required at least one'']
         else
           let (errMsgs, defaultFound) = pools_loop D nodesListExpanded externalCluster False pools
           in errMsgs
              @ (if \<not> externalCluster then
                   (if \<not> defaultFound then [''no default pool specified''] else []) @ openstackPoolsValidate pools
                 else []))"

section \<open>File systems\<close>

fun data_pool_errors :: "string \<Rightarrow> CephDeploymentNode list \<Rightarrow> nat \<Rightarrow> NamedPoolSpec list \<Rightarrow> string list" where
  "data_pool_errors fs nodes idx [] = []"
| "data_pool_errors fs nodes idx (dataPool # dataPools) =
     (let datapoolName = ''cephfs '' @ quoted fs @ '' data '' @ np_Name dataPool
      in if idx = 0 then
           (if pl_ReplicatedSize (np_PoolSpec dataPool) = 0
            then [datapoolName @ '' will be used as default and must use replication only''] else [])
         else validatePoolSpec (np_PoolSpec dataPool) False datapoolName nodes)
     @ data_pool_errors fs nodes (Suc idx) dataPools"

definition filesystem_errors :: "deployEnv \<Rightarrow> CephDeploymentNode list \<Rightarrow> bool \<Rightarrow> FilesystemSpec named_spec \<Rightarrow> string list" where
  "filesystem_errors D nodes externalCluster cephFS =
     (let spec = fst (CephFilesystem_GetSpec D cephFS); name = ns_Name cephFS; mdsCount = int (role_count ''mds'' nodes)
      in if length (fs_DataPools spec) = 0 then [''cephfs '' @ quoted name @ '' has no datapools specified, requires at least one'']
         else if externalCluster then []
         else validatePoolSpec (np_PoolSpec (fs_MetadataPool spec)) True (''cephfs '' @ quoted name @ '' metadata'') nodes
           @ data_pool_errors name nodes 0 (fs_DataPools spec)
           @ (if fs_ActiveCount spec > mdsCount then
                [''not enough '' @ quoted ''mds'' @ '' roles specified in nodes spec, cephfs '' @ name @ '' requires at least ''
                  @ show_int (fs_ActiveCount spec) @ '', found '' @ show_int mdsCount]
              else []))"

definition validateFilesystemSpec :: "deployEnv \<Rightarrow> CephDeployment \<Rightarrow> CephDeploymentNode list \<Rightarrow> bool \<Rightarrow> string list" where
  "validateFilesystemSpec D cephDpl nodesListExpanded externalCluster =
     (case sps_SharedFilesystem (cdp_Spec cephDpl) of
        None \<Rightarrow> []
      | Some filesystems \<Rightarrow> concat (map (filesystem_errors D nodesListExpanded externalCluster) filesystems))"

definition rbdPeersValidate :: "CephDeployment \<Rightarrow> string" where
  "rbdPeersValidate cephDpl =
     (case sps_RBDMirrorPeers (cdp_Spec cephDpl) of
        None \<Rightarrow> []
      | Some peers \<Rightarrow> if length peers > 1 then ''multiple RBD Peers aren'' @ [CHR 39] @ ''t supported yet'' else [])"

section \<open>Object storage\<close>

definition findPoolInSpec :: "deployEnv \<Rightarrow> CephPool list option \<Rightarrow> string \<Rightarrow> bool" where
  "findPoolInSpec D blockStorageSpec poolName =
     (case blockStorageSpec of None \<Rightarrow> False | Some pools \<Rightarrow> list_ex (\<lambda>pool. buildPoolName D pool = poolName) pools)"

definition storage_class_errors :: "(string \<Rightarrow> bool) \<Rightarrow> string \<Rightarrow> PlacementStorageClassSpec \<Rightarrow> string list" where
  "storage_class_errors known placement sc =
     (if psc_DataPoolName sc = [] then [placement @ '' storageclass '' @ quoted (psc_Name sc) @ '' data pool name is not provided'']
      else if \<not> known (psc_DataPoolName sc) then [placement @ '' storage data pool '' @ quoted (psc_DataPoolName sc) @ '' is not found in spec'']
      else [])"

definition placement_errors :: "(string \<Rightarrow> bool) \<Rightarrow> string \<Rightarrow> PoolPlacementSpec \<Rightarrow> string list" where
  "placement_errors known objectName placement =
     (let p = objectName @ '' placement '' @ quoted (pp_Name placement)
      in (if pp_MetadataPoolName placement = [] then [p @ '' metadata pool is not specified'']
          else if \<not> known (pp_MetadataPoolName placement) then [p @ '' metadata pool '' @ quoted (pp_MetadataPoolName placement) @ '' is not found in spec'']
          else [])
         @ (if pp_DataPoolName placement = [] then [p @ '' data pool is not specified'']
            else if \<not> known (pp_DataPoolName placement) then [p @ '' data pool '' @ quoted (pp_DataPoolName placement) @ '' is not found in spec'']
            else [])
         @ (if pp_DataNonECPoolName placement \<noteq> [] \<and> \<not> known (pp_DataNonECPoolName placement)
            then [p @ '' data nonEC pool '' @ quoted (pp_DataNonECPoolName placement) @ '' is not found in spec''] else [])
         @ concat (map (storage_class_errors known p) (pp_StorageClasses placement)))"

definition validateRgwSharedPools :: "deployEnv \<Rightarrow> ObjectSharedPoolsSpec \<Rightarrow> CephPool list option \<Rightarrow> string \<Rightarrow> bool \<times> bool \<times> string list" where
  "validateRgwSharedPools D sharedPools blockStorageSpec objectName =
     (let known = findPoolInSpec D blockStorageSpec;
          defaults = length (filter pp_Default (sp_PoolPlacements sharedPools));
          defaultSet = (defaults > 0);
          metaName = sp_MetadataPoolName sharedPools; dataName = sp_DataPoolName sharedPools
      in (defaultSet \<or> metaName \<noteq> [], defaultSet \<or> dataName \<noteq> [],
          concat (map (placement_errors known objectName) (sp_PoolPlacements sharedPools))
          @ (if defaults > 1 then [objectName @ '' placements pools have multiple default placement set''] else [])
          @ (if metaName \<noteq> [] \<and> \<not> known metaName then [objectName @ '' sharedMetadata pool '' @ quoted metaName @ '' is not found in spec''] else [])
          @ (if dataName \<noteq> [] \<and> \<not> known dataName then [objectName @ '' sharedData pool '' @ quoted dataName @ '' is not found in spec''] else [])))"

text \<open>The metadata and data pools of a zone or a gateway: shared ones, or specifications of their own.\<close>

definition rgw_pools_errors :: "deployEnv \<Rightarrow> CephDeployment \<Rightarrow> CephDeploymentNode list \<Rightarrow> string \<Rightarrow> ObjectSharedPoolsSpec \<Rightarrow>
    PoolSpec \<Rightarrow> PoolSpec \<Rightarrow> string list" where
  "rgw_pools_errors D cephDpl nodes objectName sharedPools metadataPool dataPool =
     (let (metaPoolSet, dataPoolSet, issues) = validateRgwSharedPools D sharedPools (sps_BlockStorage (cdp_Spec cephDpl)) objectName
      in issues
         @ (if \<not> metaPoolSet then validatePoolSpec metadataPool True (objectName @ '' metadata'') nodes else [])
         @ (if \<not> dataPoolSet then validatePoolSpec dataPool False (objectName @ '' data'') nodes else []))"

definition multisite_errors :: "deployEnv \<Rightarrow> CephDeployment \<Rightarrow> CephDeploymentNode list \<Rightarrow> CephObjectStorage \<Rightarrow> string list" where
  "multisite_errors D cephDpl nodes ost =
     (let knownRealms = map ns_Name (ost_Realms ost); knownZonegroups = map ns_Name (ost_Zonegroups ost)
      in concat (map (\<lambda>zoneGroup.
           let realm = fst (CephObjectZonegroup_GetSpec D zoneGroup)
           in if realm \<notin> set knownRealms then [''zonegroup '' @ quoted (ns_Name zoneGroup) @ '' has specified realm '' @ quoted realm
                @ '', which is not specified in spec''] else []) (ost_Zonegroups ost))
         @ concat (map (\<lambda>zone.
           let z = fst (CephObjectZone_GetSpec D zone)
           in (if oz_ZoneGroup z \<notin> set knownZonegroups then [''zone '' @ quoted (ns_Name zone) @ '' has specified zonegroup ''
                @ quoted (oz_ZoneGroup z) @ '', which is not specified in spec''] else [])
              @ rgw_pools_errors D cephDpl nodes (''zone '' @ quoted (ns_Name zone)) (oz_SharedPools z) (oz_MetadataPool z) (oz_DataPool z))
           (ost_Zones ost)))"

definition store_known :: "CephObjectStorage \<Rightarrow> string \<Rightarrow> bool" where
  "store_known ost name = list_ex (\<lambda>rgw. rgw_Name rgw = name) (ost_Rgws ost)"

definition route_errors :: "deployEnv \<Rightarrow> CephObjectStorage \<Rightarrow> CephDeploymentHTTPRoute \<Rightarrow> string list" where
  "route_errors D ost route =
     (if length (fst (CephDeploymentHTTPRoute_GetSpec D route)) = 0
      then [''httproute '' @ quoted (hr_Name route) @ '' has no hostnames provided''] else [])
     @ (if \<not> store_known ost (hr_ObjectStoreName route)
        then [''httproute '' @ quoted (hr_Name route) @ '' has object store set to '' @ quoted (hr_ObjectStoreName route)
          @ '', which is not present in spec''] else [])"

definition has_own_pools :: "ObjectStoreSpec \<Rightarrow> bool" where
  "has_own_pools rgw \<longleftrightarrow>
     pl_ReplicatedSize (os_MetadataPool rgw) \<noteq> 0 \<or> pl_DataChunks (os_MetadataPool rgw) \<noteq> 0 \<or> pl_CodingChunks (os_MetadataPool rgw) \<noteq> 0 \<or>
     pl_ReplicatedSize (os_DataPool rgw) \<noteq> 0 \<or> pl_DataChunks (os_DataPool rgw) \<noteq> 0 \<or> pl_CodingChunks (os_DataPool rgw) \<noteq> 0 \<or>
     os_ZoneName rgw \<noteq> [] \<or> length (sp_PoolPlacements (os_SharedPools rgw)) > 0 \<or>
     sp_MetadataPoolName (os_SharedPools rgw) \<noteq> [] \<or> sp_DataPoolName (os_SharedPools rgw) \<noteq> []"

definition rgw_errors :: "deployEnv \<Rightarrow> CephDeployment \<Rightarrow> CephDeploymentNode list \<Rightarrow> bool \<Rightarrow> CephObjectStorage \<Rightarrow> CephObjectStore \<Rightarrow> string list" where
  "rgw_errors D cephDpl nodes externalCluster ost rgw =
     (let r = fst (CephObjectStore_GetSpec D rgw); name = rgw_Name rgw;
          rgwNodesCount = int (role_count ''rgw'' nodes); monNodesCount = int (role_count ''mon'' nodes)
      in (if os_Port r = 0 \<and> os_SecurePort r = 0 then [''rgw '' @ quoted name @ '' has no port or securePort specified''] else [])
         @ (if externalCluster then
              (if has_own_pools r then [''cluster is external, rgw '' @ quoted name @ '' pools (metadata and data) specification is not allowed''] else [])
              @ (if length (os_ExternalRgwEndpoints r) = 0 then [''external endpoints for rgw '' @ quoted name @ '' are not provided''] else [])
            else
              (if os_ZoneName r \<noteq> [] then
                 (if os_ZoneName r \<notin> ns_Name ` set (ost_Zones ost)
                  then [''incorrect rgw '' @ quoted name @ '' configuration, specified zone '' @ quoted (os_ZoneName r) @ '' is not found''] else [])
               else rgw_pools_errors D cephDpl nodes (''rgw '' @ quoted name) (os_SharedPools r) (os_MetadataPool r) (os_DataPool r))
              @ (if rgwNodesCount > 0 \<and> os_Instances r > rgwNodesCount \<or> rgwNodesCount = 0 \<and> os_Instances r > monNodesCount then
                   [''not enough '' @ quoted ''rgw'' @ '' roles specified in nodes spec, rgw '' @ quoted name @ '' requires at least ''
                     @ show_int (os_Instances r) @ '', found '' @ show_int (rgwNodesCount + monNodesCount)]
                 else [])))"

definition user_errors :: "deployEnv \<Rightarrow> CephObjectStorage \<Rightarrow> string named_spec \<Rightarrow> string list" where
  "user_errors D ost user =
     (let store = fst (CephObjectStoreUser_GetSpec D user)
      in if store = [] then [''object store user '' @ quoted (ns_Name user) @ '' has no related rgw set ('' @ quoted ''store'' @ '' field)'']
         else if \<not> store_known ost store then [''object store user '' @ quoted (ns_Name user) @ '' has unknown rgw set ('' @ quoted ''store'' @ '' field)'']
         else [])"

definition validateObjectStorageSpec :: "deployEnv \<Rightarrow> CephDeployment \<Rightarrow> CephDeploymentNode list \<Rightarrow> bool \<Rightarrow> string list" where
  "validateObjectStorageSpec D cephDpl nodesListExpanded externalCluster =
     (case sps_ObjectStorage (cdp_Spec cephDpl) of
        None \<Rightarrow> []
      | Some ost \<Rightarrow>
          (if externalCluster then
             (if length (ost_Realms ost) > 0 then [''cluster is external, rgw realms can'' @ [CHR 39] @ ''t be created''] else [])
             @ (if length (ost_Zonegroups ost) > 0 then [''cluster is external, rgw zonegroups can'' @ [CHR 39] @ ''t be created''] else [])
             @ (if length (ost_Zones ost) > 0 then [''cluster is external, rgw zones can'' @ [CHR 39] @ ''t be created''] else [])
           else multisite_errors D cephDpl nodesListExpanded ost @ concat (map (route_errors D ost) (ost_GatewayHTTPRoutes ost)))
          @ concat (map (rgw_errors D cephDpl nodesListExpanded externalCluster ost) (ost_Rgws ost))
          @ concat (map (user_errors D ost) (ost_Users ost)))"

section \<open>The whole specification\<close>

definition validateSpec :: "deployEnv \<Rightarrow> cephDeploymentConfig \<Rightarrow> CephDeploymentValidation io" where
  "validateSpec D c = do {
     let cephDpl = dpl_of c;
     let csiErrs = (case sps_CSIResources (cdp_Spec cephDpl) of None \<Rightarrow> [] | Some csi \<Rightarrow> validateCSIDrivers (csi_Drivers csi));
     clusterErrs \<leftarrow>
       (if \<not> external c then do {
          unknown \<leftarrow> validateClusterNodes D c;
          State_Monad.return (validateNetworkSpec (cs_Network (dcf_clusterSpec (dpc_cdConfig c)))
            @ (case unknown of Some err \<Rightarrow> [err] | None \<Rightarrow> validateNodesSpec cephDpl (expanded c))
            @ (if rbdPeersValidate cephDpl \<noteq> [] then [rbdPeersValidate cephDpl] else []))
        }
        else State_Monad.return []);
     let errMsgs = csiErrs @ clusterErrs @ validatePoolsSpec D cephDpl (expanded c) (external c)
       @ validateFilesystemSpec D cephDpl (expanded c) (external c) @ validateObjectStorageSpec D cephDpl (expanded c) (external c);
     State_Monad.return (if length errMsgs > 0
       then \<lparr>val_Result = ValidationFailed, val_LastValidatedGeneration = cdp_Generation cephDpl, val_Messages = errMsgs\<rparr>
       else \<lparr>val_Result = ValidationSucceed, val_LastValidatedGeneration = cdp_Generation cephDpl, val_Messages = []\<rparr>)
   }"

end
