(* ===== verification/Deploy_Valid.thy ===== *)
theory Deploy_Valid
  imports Deploy_Validate
begin

text \<open>
  What a valid deployment is, stated without messages, and that the functions of \<^verbatim>\<open>validate.go\<close> return no
  message exactly for those.
\<close>

section \<open>Reference\<close>

definition sound_ranges :: "string list \<Rightarrow> bool" where
  "sound_ranges nets \<longleftrightarrow> nets \<noteq> [] \<and> (\<forall>net \<in> set nets. net \<noteq> [] \<and> \<not> HasPrefix net ''0.0.0.0'')"

definition valid_network :: "NetworkSpec \<Rightarrow> bool" where
  "valid_network net \<longleftrightarrow> nw_Provider net \<in> {[], ''host'', ''multus''} \<and>
     (\<exists>ar. nw_AddressRanges net = Some ar \<and> sound_ranges (ar_Public ar) \<and> sound_ranges (ar_Cluster ar)) \<and>
     (nw_Provider net = ''multus'' \<longrightarrow> str_of (nw_Selectors net) ''public'' \<noteq> [] \<and> str_of (nw_Selectors net) ''cluster'' \<noteq> [])"

definition number_or_unset :: "string \<Rightarrow> bool" where
  "number_or_unset s \<longleftrightarrow> s = [] \<or> (\<exists>n. Atoi s = Inr n)"

definition valid_device :: "string \<Rightarrow> CephDevice \<Rightarrow> bool" where
  "valid_device nodeClass device \<longleftrightarrow> (cd_FullPath device \<noteq> [] \<or> cd_Name device \<noteq> []) \<and>
     number_or_unset (str_of (cd_Config device) ''osdsPerDevice'') \<and>
     (str_of (cd_Config device) ''deviceClass'' \<noteq> [] \<or> nodeClass \<noteq> [])"

definition valid_node :: "CephDeploymentNode \<Rightarrow> bool" where
  "valid_node node \<longleftrightarrow>
     (let n = dn_Node node; class = str_of (cn_Config n) ''deviceClass'' in
      cn_UseAllDevices n \<noteq> Some True \<and> cn_VolumeClaimTemplates n = [] \<and>
      (\<forall>(root, value) \<in> set (dn_Crush node). root \<in> set (keys crushTopologyAllowedKeys) \<and> value \<noteq> []) \<and>
      (IsCephOsdNode n \<longrightarrow> number_or_unset (str_of (cn_Config n) ''osdsPerDevice'') \<and>
         (if cn_Devices n = [] then class \<noteq> [] else \<forall>device \<in> set (cn_Devices n). valid_device class device)))"

definition quorum :: "CephDeploymentNode list \<Rightarrow> bool" where
  "quorum nodes \<longleftrightarrow> role_count ''mon'' nodes > 0 \<and> (length nodes < 3 \<or> odd (role_count ''mon'' nodes)) \<and> role_count ''mgr'' nodes > 0"

definition class_offered :: "string \<Rightarrow> CephDeploymentNode list \<Rightarrow> bool" where
  "class_offered class nodes \<longleftrightarrow> class \<noteq> [] \<and>
     (\<exists>node \<in> set nodes. cn_Devices (dn_Node node) = [] \<or>
        (\<exists>device \<in> set (cn_Devices (dn_Node node)). map_of (cd_Config device) ''deviceClass'' = Some class) \<or>
        str_of (cn_Config (dn_Node node)) ''deviceClass'' = class \<and>
          (\<exists>device \<in> set (cn_Devices (dn_Node node)). map_of (cd_Config device) ''deviceClass'' = None))"

definition replicated :: "PoolSpec \<Rightarrow> bool" where
  "replicated spec \<longleftrightarrow> pl_ReplicatedSize spec > 0 \<and> pl_DataChunks spec = 0 \<and> pl_CodingChunks spec = 0"

definition erasure_coded :: "PoolSpec \<Rightarrow> bool" where
  "erasure_coded spec \<longleftrightarrow> pl_ReplicatedSize spec = 0 \<and> pl_DataChunks spec \<ge> 2 \<and> pl_CodingChunks spec \<ge> 1"

definition valid_pool :: "bool \<Rightarrow> CephDeploymentNode list \<Rightarrow> PoolSpec \<Rightarrow> bool" where
  "valid_pool metapool nodes spec \<longleftrightarrow> (replicated spec \<or> \<not> metapool \<and> erasure_coded spec) \<and>
     class_offered (pl_DeviceClass spec) nodes \<and> (pl_FailureDomain spec = ''osd'' \<longrightarrow> length nodes = 1)"

definition openstack_complete :: "CephPool list \<Rightarrow> bool" where
  "openstack_complete pools \<longleftrightarrow> (\<forall>role \<in> set openstackRoles. pool_role_count pools role = 0) \<or>
     pool_role_count pools ''images'' = 1 \<and> pool_role_count pools ''vms'' = 1 \<and> pool_role_count pools ''backup'' = 1 \<and>
     pool_role_count pools ''volumes'' \<ge> 1"

definition default_pools :: "CephPool list \<Rightarrow> nat" where
  "default_pools pools = length (filter (sco_Default \<circ> cpl_StorageClassOpts) pools)"

definition valid_pools :: "deployEnv \<Rightarrow> CephDeploymentNode list \<Rightarrow> bool \<Rightarrow> CephPool list \<Rightarrow> bool" where
  "valid_pools D nodes externalCluster pools \<longleftrightarrow>
     (if externalCluster then default_pools pools \<le> 1 \<and> (\<forall>pool \<in> set pools. pl_DeviceClass (fst (CephPool_GetSpec D pool)) \<noteq> [])
      else pools \<noteq> [] \<and> default_pools pools = 1 \<and> openstack_complete pools \<and>
        (\<forall>pool \<in> set pools. valid_pool False nodes (fst (CephPool_GetSpec D pool)) \<and>
           sco_ReclaimPolicy (cpl_StorageClassOpts pool) \<in> {[], ''Retain'', ''Delete''}))"

definition valid_filesystem :: "CephDeploymentNode list \<Rightarrow> bool \<Rightarrow> FilesystemSpec \<Rightarrow> bool" where
  "valid_filesystem nodes externalCluster fs \<longleftrightarrow> fs_DataPools fs \<noteq> [] \<and>
     (\<not> externalCluster \<longrightarrow> valid_pool True nodes (np_PoolSpec (fs_MetadataPool fs)) \<and>
        pl_ReplicatedSize (np_PoolSpec (hd (fs_DataPools fs))) > 0 \<and>
        (\<forall>p \<in> set (tl (fs_DataPools fs)). valid_pool False nodes (np_PoolSpec p)) \<and>
        fs_ActiveCount fs \<le> int (role_count ''mds'' nodes))"

definition valid_placement :: "(string \<Rightarrow> bool) \<Rightarrow> PoolPlacementSpec \<Rightarrow> bool" where
  "valid_placement known p \<longleftrightarrow> pp_MetadataPoolName p \<noteq> [] \<and> known (pp_MetadataPoolName p) \<and>
     pp_DataPoolName p \<noteq> [] \<and> known (pp_DataPoolName p) \<and> (pp_DataNonECPoolName p \<noteq> [] \<longrightarrow> known (pp_DataNonECPoolName p)) \<and>
     (\<forall>sc \<in> set (pp_StorageClasses p). psc_DataPoolName sc \<noteq> [] \<and> known (psc_DataPoolName sc))"

definition valid_rgw_pools :: "(string \<Rightarrow> bool) \<Rightarrow> CephDeploymentNode list \<Rightarrow> ObjectSharedPoolsSpec \<Rightarrow> PoolSpec \<Rightarrow> PoolSpec \<Rightarrow> bool" where
  "valid_rgw_pools known nodes shared metadataPool dataPool \<longleftrightarrow>
     (\<forall>p \<in> set (sp_PoolPlacements shared). valid_placement known p) \<and> length (filter pp_Default (sp_PoolPlacements shared)) \<le> 1 \<and>
     (\<forall>name \<in> {sp_MetadataPoolName shared, sp_DataPoolName shared}. name \<noteq> [] \<longrightarrow> known name) \<and>
     ((\<exists>p \<in> set (sp_PoolPlacements shared). pp_Default p) \<or> sp_MetadataPoolName shared \<noteq> [] \<or> valid_pool True nodes metadataPool) \<and>
     ((\<exists>p \<in> set (sp_PoolPlacements shared). pp_Default p) \<or> sp_DataPoolName shared \<noteq> [] \<or> valid_pool False nodes dataPool)"

definition valid_rgw :: "(string \<Rightarrow> bool) \<Rightarrow> CephDeploymentNode list \<Rightarrow> bool \<Rightarrow> string set \<Rightarrow> ObjectStoreSpec \<Rightarrow> bool" where
  "valid_rgw known nodes externalCluster zones r \<longleftrightarrow> (os_Port r \<noteq> 0 \<or> os_SecurePort r \<noteq> 0) \<and>
     (if externalCluster then \<not> has_own_pools r \<and> os_ExternalRgwEndpoints r \<noteq> []
      else (if os_ZoneName r \<noteq> [] then os_ZoneName r \<in> zones
            else valid_rgw_pools known nodes (os_SharedPools r) (os_MetadataPool r) (os_DataPool r)) \<and>
        os_Instances r \<le> int (if role_count ''rgw'' nodes > 0 then role_count ''rgw'' nodes else role_count ''mon'' nodes))"

definition valid_object_storage :: "deployEnv \<Rightarrow> (string \<Rightarrow> bool) \<Rightarrow> CephDeploymentNode list \<Rightarrow> bool \<Rightarrow> CephObjectStorage \<Rightarrow> bool" where
  "valid_object_storage D known nodes externalCluster ost \<longleftrightarrow>
     (if externalCluster then ost_Realms ost = [] \<and> ost_Zonegroups ost = [] \<and> ost_Zones ost = []
      else (\<forall>zg \<in> set (ost_Zonegroups ost). fst (CephObjectZonegroup_GetSpec D zg) \<in> ns_Name ` set (ost_Realms ost)) \<and>
        (\<forall>zone \<in> set (ost_Zones ost). let z = fst (CephObjectZone_GetSpec D zone) in
           oz_ZoneGroup z \<in> ns_Name ` set (ost_Zonegroups ost) \<and>
           valid_rgw_pools known nodes (oz_SharedPools z) (oz_MetadataPool z) (oz_DataPool z)) \<and>
        (\<forall>route \<in> set (ost_GatewayHTTPRoutes ost). fst (CephDeploymentHTTPRoute_GetSpec D route) \<noteq> [] \<and>
           hr_ObjectStoreName route \<in> rgw_Name ` set (ost_Rgws ost))) \<and>
     (\<forall>rgw \<in> set (ost_Rgws ost). valid_rgw known nodes externalCluster (ns_Name ` set (ost_Zones ost)) (fst (CephObjectStore_GetSpec D rgw))) \<and>
     (\<forall>user \<in> set (ost_Users ost). let store = fst (CephObjectStoreUser_GetSpec D user) in
        store \<noteq> [] \<and> store \<in> rgw_Name ` set (ost_Rgws ost))"

text \<open>\<open>known\<close> is the set of cluster nodes that the API server lists.\<close>

definition valid_deployment :: "deployEnv \<Rightarrow> cephDeploymentConfig \<Rightarrow> KubeNode list \<Rightarrow> bool" where
  "valid_deployment D c known \<longleftrightarrow>
     (let spec = dpl_spec c; nodes = expanded c; ext = external c;
          pools = (case sps_BlockStorage spec of None \<Rightarrow> [] | Some ps \<Rightarrow> ps) in
      (\<forall>csi. sps_CSIResources spec = Some csi \<longrightarrow> distinct (map fst (csi_Drivers csi))) \<and>
      (\<not> ext \<longrightarrow> valid_network (cs_Network (dcf_clusterSpec (dpc_cdConfig c))) \<and>
         (\<forall>node \<in> set nodes. cn_Name (dn_Node node) \<in> kn_Name ` set known) \<and>
         (\<forall>node \<in> set (sps_Nodes spec). valid_node node) \<and> quorum nodes \<and>
         (\<forall>peers. sps_RBDMirrorPeers spec = Some peers \<longrightarrow> length peers \<le> 1)) \<and>
      valid_pools D nodes ext pools \<and>
      (\<forall>fss. sps_SharedFilesystem spec = Some fss \<longrightarrow>
         (\<forall>fs \<in> set fss. valid_filesystem nodes ext (fst (CephFilesystem_GetSpec D fs)))) \<and>
      (\<forall>ost. sps_ObjectStorage spec = Some ost \<longrightarrow> valid_object_storage D (findPoolInSpec D (sps_BlockStorage spec)) nodes ext ost))"

section \<open>No message exactly for the valid\<close>

lemma concat_map_Nil: "concat (map f xs) = [] \<longleftrightarrow> (\<forall>x \<in> set xs. f x = [])"
  by simp

lemma csi_loop_Nil: "csi_loop present drivers = [] \<longleftrightarrow> distinct (map fst drivers) \<and> set (map fst drivers) \<inter> set present = {}"
  by (induction drivers arbitrary: present) auto

lemma validateCSIDrivers_Nil: "validateCSIDrivers drivers = [] \<longleftrightarrow> distinct (map fst drivers)"
  by (auto simp: validateCSIDrivers_def csi_loop_Nil)

lemma range_errors_Nil: "range_errors what nets = [] \<longleftrightarrow> sound_ranges nets"
  by (auto simp: range_errors_def sound_ranges_def list_ex_iff)

lemma validateNetworkSpec_Nil: "validateNetworkSpec net = [] \<longleftrightarrow> valid_network net"
  by (auto simp: validateNetworkSpec_def valid_network_def range_errors_Nil split: option.splits)

lemma device_errors_Nil:
  "device_errors node device = [] \<longleftrightarrow> valid_device (str_of (cn_Config (dn_Node node)) ''deviceClass'') device"
  by (auto simp: device_errors_def valid_device_def number_or_unset_def Let_def split: sum.splits)

lemma storage_errors_Nil:
  "storage_errors node = [] \<longleftrightarrow> number_or_unset (str_of (cn_Config (dn_Node node)) ''osdsPerDevice'') \<and>
     (if cn_Devices (dn_Node node) = [] then str_of (cn_Config (dn_Node node)) ''deviceClass'' \<noteq> []
      else \<forall>device \<in> set (cn_Devices (dn_Node node)). valid_device (str_of (cn_Config (dn_Node node)) ''deviceClass'') device)"
  by (auto simp: storage_errors_def number_or_unset_def Let_def device_errors_Nil split: sum.splits if_splits)

lemma crush_errors_Nil:
  "crush_errors node (root, value) = [] \<longleftrightarrow> root \<in> set (keys crushTopologyAllowedKeys) \<and> value \<noteq> []"
  by (auto simp: crush_errors_def map_of_eq_None_iff)

lemma node_errors_Nil: "node_errors node = [] \<longleftrightarrow> valid_node node"
  by (auto simp: node_errors_def valid_node_def Let_def crush_errors_Nil storage_errors_Nil)

lemma validateNodesSpec_Nil:
  "validateNodesSpec cephDpl nodes = [] \<longleftrightarrow> (\<forall>node \<in> set (sps_Nodes (cdp_Spec cephDpl)). valid_node node) \<and> quorum nodes"
proof -
  have sort_Nil: "sort xs = [] \<longleftrightarrow> xs = []" for xs :: "string list" by (metis length_0_conv length_sort)
  show ?thesis
    by (auto simp: validateNodesSpec_def sort_Nil quorum_def node_errors_Nil Let_def even_iff_mod_2_eq_zero)
qed

lemma map_filter_shorter:
  "length (List.map_filter f xs) < length xs \<longleftrightarrow> (\<exists>x \<in> set xs. f x = None)"
proof (induction xs)
  case (Cons x xs)
  have "length (List.map_filter f xs) \<le> length xs" by (simp add: List.map_filter_def)
  with Cons show ?case by (auto simp: List.map_filter_simps split: option.splits)
qed (simp add: List.map_filter_simps)

lemma list_ex_map_filter: "list_ex (\<lambda>y. y = z) (List.map_filter f xs) \<longleftrightarrow> (\<exists>x \<in> set xs. f x = Some z)"
  by (induction xs) (auto simp: List.map_filter_simps split: option.splits)

lemma validateDeviceClass_None: "validateDeviceClass class nodes = None \<longleftrightarrow> class_offered class nodes"
proof -
  have "validateDeviceClass_loop class nodes = None \<longleftrightarrow>
    (\<exists>node \<in> set nodes. cn_Devices (dn_Node node) = [] \<or>
        (\<exists>device \<in> set (cn_Devices (dn_Node node)). map_of (cd_Config device) ''deviceClass'' = Some class) \<or>
        str_of (cn_Config (dn_Node node)) ''deviceClass'' = class \<and>
          (\<exists>device \<in> set (cn_Devices (dn_Node node)). map_of (cd_Config device) ''deviceClass'' = None))"
  proof (induction nodes)
    case (Cons node nodes)
    then show ?case by (auto simp: Let_def map_filter_shorter list_ex_map_filter)
  qed simp
  then show ?thesis by (auto simp: validateDeviceClass_def class_offered_def)
qed

lemma validatePoolSpec_Nil: "validatePoolSpec spec metapool name nodes = [] \<longleftrightarrow> valid_pool metapool nodes spec"
  by (auto simp: validatePoolSpec_def valid_pool_def replicated_def erasure_coded_def simp flip: validateDeviceClass_None
      split: option.splits)

lemma openstackPoolsValidate_Nil: "openstackPoolsValidate pools = [] \<longleftrightarrow> openstack_complete pools"
  by (auto simp: openstackPoolsValidate_def openstack_complete_def openstackRoles_def Let_def split: if_splits)

lemma pools_loop_found: "snd (pools_loop D nodes ext found pools) \<longleftrightarrow> found \<or> default_pools pools > 0"
  by (induction pools arbitrary: found) (auto simp: default_pools_def Let_def split_beta)

lemma pools_loop_Nil:
  "fst (pools_loop D nodes ext found pools) = [] \<longleftrightarrow>
     default_pools pools \<le> (if found then 0 else 1) \<and>
     (if ext then \<forall>pool \<in> set pools. pl_DeviceClass (fst (CephPool_GetSpec D pool)) \<noteq> []
      else \<forall>pool \<in> set pools. valid_pool False nodes (fst (CephPool_GetSpec D pool)) \<and>
        sco_ReclaimPolicy (cpl_StorageClassOpts pool) \<in> {[], ''Retain'', ''Delete''})"
proof (induction pools arbitrary: found)
  case (Cons pool pools)
  then show ?case
    by (cases found; cases "sco_Default (cpl_StorageClassOpts pool)"; cases ext)
      (auto simp: default_pools_def Let_def split_beta validatePoolSpec_Nil poolReclaimPolicies_def)
qed (simp add: default_pools_def)

lemma validatePoolsSpec_Nil:
  "validatePoolsSpec D cephDpl nodes ext = [] \<longleftrightarrow>
     valid_pools D nodes ext (case sps_BlockStorage (cdp_Spec cephDpl) of None \<Rightarrow> [] | Some ps \<Rightarrow> ps)"
proof -
  define ps where "ps = (case sps_BlockStorage (cdp_Spec cephDpl) of None \<Rightarrow> [] | Some ps \<Rightarrow> ps)"
  have none: "default_pools [] = 0" by (simp add: default_pools_def)
  have "validatePoolsSpec D cephDpl nodes ext = [] \<longleftrightarrow> valid_pools D nodes ext ps"
  proof (cases "ps = []")
    case True
    then show ?thesis
      using none unfolding validatePoolsSpec_def ps_def [symmetric] Let_def by (simp add: valid_pools_def)
  next
    case False
    with pools_loop_Nil [of D nodes ext False ps] pools_loop_found [of D nodes ext False ps] show ?thesis
      unfolding validatePoolsSpec_def ps_def [symmetric] Let_def split_beta append_is_Nil_conv
      by (cases ext) (auto simp: valid_pools_def openstackPoolsValidate_Nil)
  qed
  then show ?thesis by (simp only: ps_def)
qed

lemma data_pool_errors_rest:
  "data_pool_errors fs nodes (Suc idx) pools = [] \<longleftrightarrow> (\<forall>p \<in> set pools. valid_pool False nodes (np_PoolSpec p))"
  by (induction pools arbitrary: idx) (auto simp: validatePoolSpec_Nil)

lemma data_pool_errors_Nil:
  "pools \<noteq> [] \<Longrightarrow> data_pool_errors fs nodes 0 pools = [] \<longleftrightarrow>
     pl_ReplicatedSize (np_PoolSpec (hd pools)) > 0 \<and> (\<forall>p \<in> set (tl pools). valid_pool False nodes (np_PoolSpec p))"
  by (cases pools) (auto simp: data_pool_errors_rest)

lemma filesystem_errors_Nil:
  "filesystem_errors D nodes ext fs = [] \<longleftrightarrow> valid_filesystem nodes ext (fst (CephFilesystem_GetSpec D fs))"
  by (auto simp: filesystem_errors_def valid_filesystem_def Let_def validatePoolSpec_Nil data_pool_errors_Nil)

lemma validateFilesystemSpec_Nil:
  "validateFilesystemSpec D cephDpl nodes ext = [] \<longleftrightarrow>
     (\<forall>fss. sps_SharedFilesystem (cdp_Spec cephDpl) = Some fss \<longrightarrow>
        (\<forall>fs \<in> set fss. valid_filesystem nodes ext (fst (CephFilesystem_GetSpec D fs))))"
  by (auto simp: validateFilesystemSpec_def filesystem_errors_Nil split: option.splits)

lemma placement_errors_Nil: "placement_errors known name p = [] \<longleftrightarrow> valid_placement known p"
proof -
  have "storage_class_errors known place sc = [] \<longleftrightarrow> psc_DataPoolName sc \<noteq> [] \<and> known (psc_DataPoolName sc)" for place sc
    by (simp add: storage_class_errors_def)
  then show ?thesis
    unfolding placement_errors_def valid_placement_def Let_def append_is_Nil_conv concat_map_Nil by simp
qed

lemma rgw_pools_errors_Nil:
  "rgw_pools_errors D cephDpl nodes name shared metadataPool dataPool = [] \<longleftrightarrow>
     valid_rgw_pools (findPoolInSpec D (sps_BlockStorage (cdp_Spec cephDpl))) nodes shared metadataPool dataPool"
proof -
  let ?defaults = "filter pp_Default (sp_PoolPlacements shared)"
  have "0 < length ?defaults \<longleftrightarrow> (\<exists>p \<in> set (sp_PoolPlacements shared). pp_Default p)"
    by (simp add: filter_empty_conv)
  then show ?thesis
    unfolding rgw_pools_errors_def validateRgwSharedPools_def valid_rgw_pools_def Let_def prod.case append_is_Nil_conv
      concat_map_Nil placement_errors_Nil
    by (simp add: validatePoolSpec_Nil linorder_not_less)
qed

lemma rgw_errors_Nil:
  "rgw_errors D cephDpl nodes ext ost rgw = [] \<longleftrightarrow>
     valid_rgw (findPoolInSpec D (sps_BlockStorage (cdp_Spec cephDpl))) nodes ext (ns_Name ` set (ost_Zones ost))
       (fst (CephObjectStore_GetSpec D rgw))"
  by (auto simp: rgw_errors_def valid_rgw_def Let_def rgw_pools_errors_Nil)

lemma store_known_iff: "store_known ost name \<longleftrightarrow> name \<in> rgw_Name ` set (ost_Rgws ost)"
  by (auto simp: store_known_def list_ex_iff)

lemma validateObjectStorageSpec_Nil:
  "validateObjectStorageSpec D cephDpl nodes ext = [] \<longleftrightarrow>
     (\<forall>ost. sps_ObjectStorage (cdp_Spec cephDpl) = Some ost \<longrightarrow>
        valid_object_storage D (findPoolInSpec D (sps_BlockStorage (cdp_Spec cephDpl))) nodes ext ost)"
proof (cases "sps_ObjectStorage (cdp_Spec cephDpl)")
  case (Some ost)
  have multisite: "multisite_errors D cephDpl nodes ost = [] \<longleftrightarrow>
      (\<forall>zg \<in> set (ost_Zonegroups ost). fst (CephObjectZonegroup_GetSpec D zg) \<in> ns_Name ` set (ost_Realms ost)) \<and>
      (\<forall>zone \<in> set (ost_Zones ost). let z = fst (CephObjectZone_GetSpec D zone) in
         oz_ZoneGroup z \<in> ns_Name ` set (ost_Zonegroups ost) \<and>
         valid_rgw_pools (findPoolInSpec D (sps_BlockStorage (cdp_Spec cephDpl))) nodes (oz_SharedPools z) (oz_MetadataPool z) (oz_DataPool z))"
    unfolding multisite_errors_def Let_def append_is_Nil_conv concat_map_Nil rgw_pools_errors_Nil set_map by auto
  have users: "user_errors D ost user = [] \<longleftrightarrow> fst (CephObjectStoreUser_GetSpec D user) \<noteq> [] \<and>
      fst (CephObjectStoreUser_GetSpec D user) \<in> rgw_Name ` set (ost_Rgws ost)" for user
    by (simp add: user_errors_def Let_def store_known_iff)
  have routes: "route_errors D ost route = [] \<longleftrightarrow> fst (CephDeploymentHTTPRoute_GetSpec D route) \<noteq> [] \<and>
      hr_ObjectStoreName route \<in> rgw_Name ` set (ost_Rgws ost)" for route
    by (simp add: route_errors_def store_known_iff)
  show ?thesis
    using Some unfolding validateObjectStorageSpec_def valid_object_storage_def option.case
    by (simp add: multisite users routes rgw_errors_Nil Let_def)
qed (simp add: validateObjectStorageSpec_def)

end
