(* ===== verification/Deploy_Labels.thy ===== *)
theory Deploy_Labels
  imports Deploy_Nodes
begin

text \<open>
  What the labels of a node become, key by key. The reference \<open>wanted_role\<close> and \<open>wanted_topology\<close> say what
  a role label and the pair of a topology label and its saved value should be; \<open>buildNodeLabels\<close> is
  shown to produce exactly that, to leave every other label alone and to report a change exactly when
  the labels differ.
\<close>

section \<open>Reference\<close>

definition wanted_role :: "string list \<Rightarrow> string \<Rightarrow> string option" where
  "wanted_role roles role = (if role \<in> set roles then Some ''true'' else None)"

text \<open>The value of a topology label and the value that is saved for it.\<close>

type_synonym saved = "string option \<times> string option"

definition wanted_topology :: "bool \<Rightarrow> string option \<Rightarrow> saved \<Rightarrow> saved" where
  "wanted_topology kube new st =
     (case new of
        Some t \<Rightarrow> (Some t, if \<not> kube then snd st else if fst st = None then Some [] else if snd st = None then fst st else snd st)
      | None \<Rightarrow>
          if fst st = None then st
          else if \<not> kube then (None, snd st)
          else (case snd st of None \<Rightarrow> st | Some orig \<Rightarrow> (if orig = [] then None else Some orig, None)))"

definition saved_of :: "(string, string) gomap \<Rightarrow> string \<Rightarrow> saved" where
  "saved_of labels root = (map_of labels (topology_of root), map_of labels (prev_label (topology_of root)))"

definition crush_roots :: "string set" where
  "crush_roots = set (keys crushTopologyAllowedKeys)"

definition role_labels :: "string set" where
  "role_labels = CephNodeLabel ` set CephDaemonKeys"

definition topology_labels :: "string set" where
  "topology_labels = topology_of ` crush_roots \<union> (\<lambda>r. prev_label (topology_of r)) ` crush_roots"

section \<open>Keys\<close>

lemma crush_roots_eq:
  "crush_roots = {''region'', ''zone'', ''datacenter'', ''room'', ''pod'', ''pdu'', ''row'', ''rack'', ''chassis''}"
  by (simp add: crush_roots_def crushTopologyAllowedKeys_def insert_commute)

lemma wf_allowed [simp]: "wf_map crushTopologyAllowedKeys"
  by (simp add: crushTopologyAllowedKeys_def)

lemma topology_of_allowed: "(r, t) \<in> set crushTopologyAllowedKeys \<Longrightarrow> topology_of r = t"
  by (simp add: topology_of_def get_or_def)

lemma topology_prefix:
  assumes "r \<in> crush_roots"
  shows "\<exists>s. topology_of r = ''topology'' @ s"
proof -
  have "list_all (\<lambda>r. HasPrefix (topology_of r) ''topology'') (keys crushTopologyAllowedKeys)" by code_simp
  with assms show ?thesis by (auto simp: list_all_iff crush_roots_def HasPrefix_iff)
qed

lemma topology_inj [simp]:
  assumes "r \<in> crush_roots" and "s \<in> crush_roots"
  shows "topology_of r = topology_of s \<longleftrightarrow> r = s"
proof -
  have "distinct (map snd crushTopologyAllowedKeys)" by (simp add: crushTopologyAllowedKeys_def)
  moreover have "map snd crushTopologyAllowedKeys = map topology_of (keys crushTopologyAllowedKeys)"
    by (auto simp: topology_of_allowed)
  ultimately have "inj_on topology_of crush_roots" by (simp only: distinct_map crush_roots_def)
  with assms show ?thesis by (auto dest: inj_onD)
qed

lemma prev_label_inj [simp]: "prev_label a = prev_label b \<longleftrightarrow> a = b"
  by (simp add: prev_label_def)

lemma topology_not_prev [simp]:
  "r \<in> crush_roots \<Longrightarrow> topology_of r \<noteq> prev_label t" "r \<in> crush_roots \<Longrightarrow> prev_label t \<noteq> topology_of r"
  by (auto dest!: topology_prefix simp: prev_label_def)

lemma role_not_topology:
  "k \<in> role_labels \<Longrightarrow> k \<notin> topology_labels"
  by (auto dest!: topology_prefix simp: role_labels_def topology_labels_def CephNodeLabel_def prev_label_def)

lemma CephNodeLabel_inj [simp]: "CephNodeLabel a = CephNodeLabel b \<longleftrightarrow> a = b"
  by (simp add: CephNodeLabel_def)

lemma distinct_daemons [simp]: "distinct CephDaemonKeys"
  by (simp add: CephDaemonKeys_def)

lemma map_of_delete [simp]: "map_of (AList.delete k m) = (map_of m)(k := None)"
  by (rule delete_conv')

section \<open>Roles\<close>

lemma role_step_labels:
  "map_of (fst (role_step roles r st)) = (map_of (fst st))(CephNodeLabel r := wanted_role roles r)"
  by (cases st) (auto simp: role_step_def wanted_role_def get_or_def fun_upd_idem split: option.splits)

lemma role_step_changed:
  "snd (role_step roles r st) \<longleftrightarrow> snd st \<or> map_of (fst st) (CephNodeLabel r) \<noteq> wanted_role roles r"
  by (cases st) (auto simp: role_step_def wanted_role_def get_or_def split: option.splits)

lemma roles_labels:
  "distinct rs \<Longrightarrow> map_of (fst (fold (role_step roles) rs st)) k =
     (if k \<in> CephNodeLabel ` set rs then wanted_role roles (the_inv CephNodeLabel k) else map_of (fst st) k)"
proof (induction rs arbitrary: st)
  case (Cons r rs)
  have "inj CephNodeLabel" by (simp add: inj_def)
  then have "the_inv CephNodeLabel (CephNodeLabel r) = r" by (rule the_inv_f_f)
  with Cons show ?case by (auto simp: role_step_labels)
qed simp

lemma roles_changed:
  "distinct rs \<Longrightarrow> snd (fold (role_step roles) rs st) \<longleftrightarrow>
     snd st \<or> (\<exists>r \<in> set rs. map_of (fst st) (CephNodeLabel r) \<noteq> wanted_role roles r)"
  by (induction rs arbitrary: st) (auto simp: role_step_changed role_step_labels)

lemma map_of_copy_empty [simp]: "wf_map m \<Longrightarrow> map_of (copy_into m []) = map_of m"
  by (simp add: map_of_copy_into)

lemma BuildCephNodeLabels_role:
  assumes "wf_map labels" and "r \<in> set CephDaemonKeys"
  shows "map_of (fst (BuildCephNodeLabels labels roles)) (CephNodeLabel r) = wanted_role roles r"
proof -
  have "inj CephNodeLabel" by (simp add: inj_def)
  then have "the_inv CephNodeLabel (CephNodeLabel r) = r" by (rule the_inv_f_f)
  with assms show ?thesis unfolding BuildCephNodeLabels_def by (simp add: roles_labels)
qed

lemma BuildCephNodeLabels_other:
  "wf_map labels \<Longrightarrow> k \<notin> role_labels \<Longrightarrow> map_of (fst (BuildCephNodeLabels labels roles)) k = map_of labels k"
  unfolding BuildCephNodeLabels_def role_labels_def by (simp add: roles_labels)

lemma BuildCephNodeLabels_changed:
  assumes "wf_map labels"
  shows "snd (BuildCephNodeLabels labels roles) \<longleftrightarrow> map_of (fst (BuildCephNodeLabels labels roles)) \<noteq> map_of labels"
proof -
  have "snd (BuildCephNodeLabels labels roles) \<longleftrightarrow>
      (\<exists>r \<in> set CephDaemonKeys. map_of labels (CephNodeLabel r) \<noteq> map_of (fst (BuildCephNodeLabels labels roles)) (CephNodeLabel r))"
    using assms BuildCephNodeLabels_role [OF assms] unfolding BuildCephNodeLabels_def by (simp add: roles_changed)
  also have "\<dots> \<longleftrightarrow> map_of (fst (BuildCephNodeLabels labels roles)) \<noteq> map_of labels"
    using BuildCephNodeLabels_other [OF assms, of _ roles] unfolding role_labels_def fun_eq_iff by (metis imageE)
  finally show ?thesis .
qed

section \<open>Topology\<close>

lemma topology_add_saved:
  assumes "r \<in> crush_roots" and "s \<in> crush_roots"
  shows "saved_of (fst (topology_add (r, t) st)) s =
    (if s = r then wanted_topology (isKubeCrush r) (Some t) (saved_of (fst st) r) else saved_of (fst st) s)"
  using assms by (cases st) (auto simp: topology_add_def Let_def saved_of_def wanted_topology_def split: option.splits)

lemma topology_add_changed:
  assumes "r \<in> crush_roots"
  shows "snd (topology_add (r, t) st) \<longleftrightarrow>
    snd st \<or> wanted_topology (isKubeCrush r) (Some t) (saved_of (fst st) r) \<noteq> saved_of (fst st) r"
  using assms by (cases st) (auto simp: topology_add_def Let_def saved_of_def wanted_topology_def split: option.splits)

lemma topology_add_other:
  "r \<in> crush_roots \<Longrightarrow> k \<notin> topology_labels \<Longrightarrow> map_of (fst (topology_add (r, t) st)) k = map_of (fst st) k"
  by (cases st) (auto simp: topology_add_def topology_labels_def Let_def split: option.splits)

lemma topology_remove_saved:
  assumes "r \<in> crush_roots" and "s \<in> crush_roots" and "map_of topo r = None"
  shows "saved_of (fst (topology_remove topo (r, topology_of r) st)) s =
    (if s = r then wanted_topology (isKubeCrush r) None (saved_of (fst st) r) else saved_of (fst st) s)"
  using assms by (cases st) (auto simp: topology_remove_def Let_def saved_of_def wanted_topology_def split: option.splits)

lemma topology_remove_changed:
  assumes "r \<in> crush_roots" and "map_of topo r = None"
  shows "snd (topology_remove topo (r, topology_of r) st) \<longleftrightarrow>
    snd st \<or> wanted_topology (isKubeCrush r) None (saved_of (fst st) r) \<noteq> saved_of (fst st) r"
  using assms by (cases st) (auto simp: topology_remove_def Let_def saved_of_def wanted_topology_def split: option.splits)

lemma topology_remove_skip: "map_of topo r \<noteq> None \<Longrightarrow> topology_remove topo (r, t) st = st"
  by (cases st) (simp add: topology_remove_def)

lemma topology_remove_other:
  "r \<in> crush_roots \<Longrightarrow> k \<notin> topology_labels \<Longrightarrow>
   map_of (fst (topology_remove topo (r, topology_of r) st)) k = map_of (fst st) k"
  by (cases st) (auto simp: topology_remove_def topology_labels_def Let_def split: option.splits)

lemma adds_saved:
  assumes "wf_map topo" and "set (keys topo) \<subseteq> crush_roots" and "s \<in> crush_roots"
  shows "saved_of (fst (fold topology_add topo st)) s =
    (case map_of topo s of None \<Rightarrow> saved_of (fst st) s | Some t \<Rightarrow> wanted_topology (isKubeCrush s) (Some t) (saved_of (fst st) s))"
  using assms
proof (induction topo arbitrary: st)
  case (Cons p topo)
  obtain r t where p: "p = (r, t)" by (cases p)
  from Cons.prems p have r: "r \<in> crush_roots" "map_of topo r = None" by (simp_all add: map_of_eq_None_iff)
  with Cons p show ?case by (auto simp: topology_add_saved split: option.splits)
qed simp

lemma adds_changed:
  assumes "wf_map topo" and "set (keys topo) \<subseteq> crush_roots"
  shows "snd (fold topology_add topo st) \<longleftrightarrow>
    snd st \<or> (\<exists>s \<in> set (keys topo). saved_of (fst (fold topology_add topo st)) s \<noteq> saved_of (fst st) s)"
  using assms
proof (induction topo arbitrary: st)
  case (Cons p topo)
  obtain r t where p: "p = (r, t)" by (cases p)
  from Cons.prems p have r: "r \<in> crush_roots" "map_of topo r = None" "r \<notin> set (keys topo)"
    by (auto simp: map_of_eq_None_iff)
  let ?st = "topology_add p st"
  have sub: "s \<in> crush_roots" "s \<noteq> r" if "s \<in> set (keys topo)" for s using that Cons.prems r by auto
  have IH: "snd (fold topology_add topo ?st) \<longleftrightarrow>
      snd ?st \<or> (\<exists>s \<in> set (keys topo). saved_of (fst (fold topology_add topo ?st)) s \<noteq> saved_of (fst ?st) s)"
    by (rule Cons.IH) (use Cons.prems in auto)
  have here: "saved_of (fst (fold topology_add topo ?st)) r = saved_of (fst ?st) r"
    using Cons.prems r by (subst adds_saved) auto
  have there: "saved_of (fst ?st) s = saved_of (fst st) s" if "s \<in> set (keys topo)" for s
    using sub [OF that] r(1) p by (simp add: topology_add_saved)
  have "snd ?st \<longleftrightarrow> snd st \<or> saved_of (fst ?st) r \<noteq> saved_of (fst st) r"
    using r(1) p by (simp add: topology_add_changed topology_add_saved)
  with IH here there p show ?case by auto
qed simp

lemma adds_other:
  "set (keys topo) \<subseteq> crush_roots \<Longrightarrow> k \<notin> topology_labels \<Longrightarrow>
   map_of (fst (fold topology_add topo st)) k = map_of (fst st) k"
  by (induction topo arbitrary: st) (auto simp: topology_add_other)

text \<open>The removal visits every allowed key once.\<close>

lemma removes_saved:
  assumes "wf_map rs" and "set rs \<subseteq> set crushTopologyAllowedKeys" and "s \<in> crush_roots"
  shows "saved_of (fst (fold (topology_remove topo) rs st)) s =
    (if s \<in> set (keys rs) \<and> map_of topo s = None then wanted_topology (isKubeCrush s) None (saved_of (fst st) s)
     else saved_of (fst st) s)"
  using assms
proof (induction rs arbitrary: st)
  case (Cons p rs)
  obtain r t where p: "p = (r, t)" by (cases p)
  from Cons.prems p have r: "r \<in> crush_roots" "t = topology_of r" "r \<notin> set (keys rs)"
    by (auto simp: crush_roots_def topology_of_allowed intro: rev_image_eqI)
  with Cons p show ?case
    by (cases "map_of topo r = None") (auto simp: topology_remove_saved topology_remove_skip)
qed simp

lemma removes_changed:
  assumes "wf_map rs" and "set rs \<subseteq> set crushTopologyAllowedKeys"
  shows "snd (fold (topology_remove topo) rs st) \<longleftrightarrow>
    snd st \<or> (\<exists>s \<in> set (keys rs). saved_of (fst (fold (topology_remove topo) rs st)) s \<noteq> saved_of (fst st) s)"
  using assms
proof (induction rs arbitrary: st)
  case (Cons p rs)
  obtain r t where p: "p = (r, t)" by (cases p)
  from Cons.prems p have r: "r \<in> crush_roots" "t = topology_of r" "r \<notin> set (keys rs)"
    by (auto simp: crush_roots_def topology_of_allowed intro: rev_image_eqI)
  let ?st = "topology_remove topo p st"
  have sub: "s \<in> crush_roots" "s \<noteq> r" if "s \<in> set (keys rs)" for s
    using that Cons.prems r by (auto simp: crush_roots_def intro: rev_image_eqI)
  have IH: "snd (fold (topology_remove topo) rs ?st) \<longleftrightarrow>
      snd ?st \<or> (\<exists>s \<in> set (keys rs). saved_of (fst (fold (topology_remove topo) rs ?st)) s \<noteq> saved_of (fst ?st) s)"
    by (rule Cons.IH) (use Cons.prems in auto)
  have here: "saved_of (fst (fold (topology_remove topo) rs ?st)) r = saved_of (fst ?st) r"
    using Cons.prems r by (subst removes_saved) auto
  have there: "saved_of (fst ?st) s = saved_of (fst st) s" if "s \<in> set (keys rs)" for s
    using sub [OF that] r p
    by (cases "map_of topo r = None") (simp_all add: topology_remove_saved topology_remove_skip)
  have "snd ?st \<longleftrightarrow> snd st \<or> saved_of (fst ?st) r \<noteq> saved_of (fst st) r"
    using r p by (cases "map_of topo r = None")
      (simp_all add: topology_remove_changed topology_remove_saved topology_remove_skip)
  with IH here there p show ?case by auto
qed simp

lemma removes_other:
  assumes "set rs \<subseteq> set crushTopologyAllowedKeys" and "k \<notin> topology_labels"
  shows "map_of (fst (fold (topology_remove topo) rs st)) k = map_of (fst st) k"
  using assms
proof (induction rs arbitrary: st)
  case (Cons p rs)
  obtain r t where p: "p = (r, t)" by (cases p)
  with Cons.prems have "r \<in> crush_roots" "t = topology_of r"
    by (auto simp: crush_roots_def topology_of_allowed intro: rev_image_eqI)
  with Cons p show ?case by (simp add: topology_remove_other)
qed simp

section \<open>All labels\<close>

definition valid_topology :: "(string, string) gomap \<Rightarrow> bool" where
  "valid_topology topo \<longleftrightarrow> wf_map topo \<and> set (keys topo) \<subseteq> crush_roots"

lemma valid_topologyD: "valid_topology topo \<Longrightarrow> wf_map topo" "valid_topology topo \<Longrightarrow> fst ` set topo \<subseteq> crush_roots"
  by (simp_all add: valid_topology_def)

lemma valid_topology_Nil [simp]: "valid_topology []"
  by (simp add: valid_topology_def)

lemma in_topology_labels:
  "r \<in> crush_roots \<Longrightarrow> topology_of r \<in> topology_labels" "r \<in> crush_roots \<Longrightarrow> prev_label (topology_of r) \<in> topology_labels"
  by (auto simp: topology_labels_def)

lemma saved_BuildCephNodeLabels:
  "wf_map labels \<Longrightarrow> r \<in> crush_roots \<Longrightarrow> saved_of (fst (BuildCephNodeLabels labels roles)) r = saved_of labels r"
  using role_not_topology in_topology_labels [of r] unfolding saved_of_def by (metis BuildCephNodeLabels_other)

lemma buildNodeLabels_saved:
  assumes "wf_map labels" and "valid_topology topo" and "r \<in> crush_roots"
  shows "saved_of (fst (buildNodeLabels labels roles topo)) r =
    wanted_topology (isKubeCrush r) (map_of topo r) (saved_of labels r)"
proof -
  have r: "r \<in> fst ` set crushTopologyAllowedKeys" using assms(3) by (simp add: crush_roots_def)
  have "saved_of (fst (fold topology_add topo (BuildCephNodeLabels labels roles))) r = (case map_of topo r of
      None \<Rightarrow> saved_of labels r | Some t \<Rightarrow> wanted_topology (isKubeCrush r) (Some t) (saved_of labels r))"
    using assms by (simp add: adds_saved valid_topologyD saved_BuildCephNodeLabels cong: option.case_cong)
  with assms(3) r show ?thesis
    by (cases "map_of topo r") (simp_all add: buildNodeLabels_def removes_saved)
qed

lemma buildNodeLabels_role:
  assumes "wf_map labels" and "valid_topology topo" and "r \<in> set CephDaemonKeys"
  shows "map_of (fst (buildNodeLabels labels roles topo)) (CephNodeLabel r) = wanted_role roles r"
proof -
  have "CephNodeLabel r \<notin> topology_labels"
    using assms(3) role_not_topology by (auto simp: role_labels_def)
  with assms show ?thesis
    by (simp add: buildNodeLabels_def removes_other adds_other valid_topologyD BuildCephNodeLabels_role)
qed

lemma buildNodeLabels_other:
  "wf_map labels \<Longrightarrow> valid_topology topo \<Longrightarrow> k \<notin> role_labels \<Longrightarrow> k \<notin> topology_labels \<Longrightarrow>
   map_of (fst (buildNodeLabels labels roles topo)) k = map_of labels k"
  by (simp add: buildNodeLabels_def removes_other adds_other valid_topologyD BuildCephNodeLabels_other)

lemma labels_eqI:
  assumes "\<And>r. r \<in> set CephDaemonKeys \<Longrightarrow> map_of m (CephNodeLabel r) = map_of n (CephNodeLabel r)"
    and "\<And>r. r \<in> crush_roots \<Longrightarrow> saved_of m r = saved_of n r"
    and "\<And>k. k \<notin> role_labels \<Longrightarrow> k \<notin> topology_labels \<Longrightarrow> map_of m k = map_of n k"
  shows "map_of m = map_of n"
proof
  fix k
  consider "k \<in> role_labels" | "k \<in> topology_labels" | "k \<notin> role_labels" "k \<notin> topology_labels" by blast
  then show "map_of m k = map_of n k"
    by cases (use assms in \<open>auto simp: role_labels_def topology_labels_def saved_of_def\<close>)
qed

lemma wf_role_step: "wf_map (fst st) \<Longrightarrow> wf_map (fst (role_step roles r st))"
  by (cases st) (auto simp: role_step_def)

lemma wf_topology_add: "wf_map (fst st) \<Longrightarrow> wf_map (fst (topology_add e st))"
  by (cases st; cases e) (auto simp: topology_add_def Let_def split: option.splits)

lemma wf_topology_remove: "wf_map (fst st) \<Longrightarrow> wf_map (fst (topology_remove topo e st))"
  by (cases st; cases e) (auto simp: topology_remove_def Let_def split: option.splits)

lemma wf_buildNodeLabels: "wf_map (fst (buildNodeLabels labels roles topo))"
proof -
  have wf: "wf_map (fst st) \<Longrightarrow> wf_map (fst (fold f xs st))" if "\<And>x st. wf_map (fst st) \<Longrightarrow> wf_map (fst (f x st))"
    for f :: "'a \<Rightarrow> (string, string) gomap \<times> bool \<Rightarrow> (string, string) gomap \<times> bool" and xs st
    using that by (induction xs arbitrary: st) simp_all
  show ?thesis
    unfolding buildNodeLabels_def BuildCephNodeLabels_def
    by (intro wf wf_topology_remove wf_topology_add wf_role_step) (simp_all add: wf_copy_into)
qed

text \<open>A change is reported exactly when there is one.\<close>

lemma buildNodeLabels_changed:
  assumes "wf_map labels" and "valid_topology topo"
  shows "snd (buildNodeLabels labels roles topo) \<longleftrightarrow> map_of (fst (buildNodeLabels labels roles topo)) \<noteq> map_of labels"
proof -
  let ?L0 = "fst (BuildCephNodeLabels labels roles)"
  let ?s1 = "fold topology_add topo (BuildCephNodeLabels labels roles)"
  let ?s2 = "buildNodeLabels labels roles topo"
  have topo: "wf_map topo" "set (keys topo) \<subseteq> crush_roots" using assms(2) by (auto simp: valid_topology_def)
  have s0: "snd (BuildCephNodeLabels labels roles) \<longleftrightarrow> (\<exists>r \<in> set CephDaemonKeys. map_of labels (CephNodeLabel r) \<noteq> map_of (fst ?s2) (CephNodeLabel r))"
    using assms by (simp add: BuildCephNodeLabels_def roles_changed buildNodeLabels_role)
  have s1: "snd ?s1 \<longleftrightarrow> snd (BuildCephNodeLabels labels roles) \<or>
      (\<exists>r \<in> set (keys topo). saved_of (fst ?s1) r \<noteq> saved_of ?L0 r)"
    by (rule adds_changed [OF topo])
  have s2: "snd ?s2 \<longleftrightarrow> snd ?s1 \<or> (\<exists>r \<in> crush_roots. saved_of (fst ?s2) r \<noteq> saved_of (fst ?s1) r)"
    unfolding buildNodeLabels_def crush_roots_def by (rule removes_changed) simp_all
  have same: "saved_of (fst ?s1) r = (if map_of topo r = None then saved_of labels r else saved_of (fst ?s2) r)"
    if "r \<in> crush_roots" for r
    using that assms adds_saved [OF topo that, of "BuildCephNodeLabels labels roles"]
    by (auto simp: buildNodeLabels_saved saved_BuildCephNodeLabels split: option.splits)
  have "snd ?s2 \<longleftrightarrow> (\<exists>r \<in> set CephDaemonKeys. map_of labels (CephNodeLabel r) \<noteq> map_of (fst ?s2) (CephNodeLabel r)) \<or>
      (\<exists>r \<in> crush_roots. saved_of (fst ?s2) r \<noteq> saved_of labels r)"
  proof -
    have "(\<exists>r \<in> set (keys topo). saved_of (fst ?s1) r \<noteq> saved_of ?L0 r) \<or>
        (\<exists>r \<in> crush_roots. saved_of (fst ?s2) r \<noteq> saved_of (fst ?s1) r) \<longleftrightarrow>
        (\<exists>r \<in> crush_roots. saved_of (fst ?s2) r \<noteq> saved_of labels r)"
    proof -
      have "saved_of (fst ?s1) r \<noteq> saved_of ?L0 r \<longleftrightarrow> r \<in> set (keys topo) \<and> saved_of (fst ?s2) r \<noteq> saved_of labels r"
        "saved_of (fst ?s2) r \<noteq> saved_of (fst ?s1) r \<longleftrightarrow> r \<notin> set (keys topo) \<and> saved_of (fst ?s2) r \<noteq> saved_of labels r"
        if "r \<in> crush_roots" for r
        using same [OF that] that assms(1) by (auto simp: saved_BuildCephNodeLabels map_of_eq_None_iff)
      with topo(2) show ?thesis by blast
    qed
    with s0 s1 s2 show ?thesis by blast
  qed
  also have "\<dots> \<longleftrightarrow> map_of (fst ?s2) \<noteq> map_of labels" (is "?differ \<longleftrightarrow> _")
  proof
    assume "?differ"
    then show "map_of (fst ?s2) \<noteq> map_of labels" by (auto simp: saved_of_def)
  next
    assume "map_of (fst ?s2) \<noteq> map_of labels"
    moreover have "map_of (fst ?s2) = map_of labels" if "\<not> ?differ"
    proof (rule labels_eqI)
      show "map_of (fst ?s2) (CephNodeLabel r) = map_of labels (CephNodeLabel r)" if "r \<in> set CephDaemonKeys" for r
        using that \<open>\<not> ?differ\<close> by fastforce
      show "saved_of (fst ?s2) r = saved_of labels r" if "r \<in> crush_roots" for r
        using that \<open>\<not> ?differ\<close> by blast
    qed (rule buildNodeLabels_other [OF assms])
    ultimately show "?differ" by blast
  qed
  finally show ?thesis .
qed

lemma wanted_topology_idem: "wanted_topology kube new (wanted_topology kube new st) = wanted_topology kube new st"
proof -
  obtain a b where "st = (a, b)" by (cases st)
  then show ?thesis by (cases new; cases a; cases b; cases kube) (simp_all add: wanted_topology_def)
qed

lemma wanted_topology_restored:
  "snd st = None \<Longrightarrow> fst st \<noteq> Some [] \<Longrightarrow> (\<not> kube \<Longrightarrow> fst st = None) \<Longrightarrow>
   wanted_topology kube None (wanted_topology kube new st) = st"
proof -
  assume *: "snd st = None" "fst st \<noteq> Some []" "\<not> kube \<Longrightarrow> fst st = None"
  obtain a b where "st = (a, b)" by (cases st)
  with * show ?thesis by (cases new; cases a; cases b; cases kube) (simp_all add: wanted_topology_def)
qed

end
