(* ===== verification/Deploy_Version.thy ===== *)
theory Deploy_Version
  imports Deploy_Validate
begin

text \<open>
  Ceph versions: the supported releases and the parsing of \<^verbatim>\<open>ceph --version\<close> (\<^verbatim>\<open>common/version.go\<close>), the
  choice of the image to run (\<^verbatim>\<open>deployment/version.go\<close>) and whether OpenStack allows an upgrade now
  (\<^verbatim>\<open>deployment/maintenance.go\<close>).
\<close>

section \<open>Releases (common/version.go)\<close>

definition Tentacle :: CephVersion where
  "Tentacle = \<lparr>ver_Name = ''Tentacle'', ver_MajorVersion = ''v20.2'', ver_MinorVersion = 0, ver_Order = 20,
     ver_SupportedMinors = [0, 1, 2, 3, 4]\<rparr>"

definition Squid :: CephVersion where
  "Squid = \<lparr>ver_Name = ''Squid'', ver_MajorVersion = ''v19.2'', ver_MinorVersion = 0, ver_Order = 19,
     ver_SupportedMinors = [3, 4, 5, 6, 7]\<rparr>"

definition AvailableCephVersions :: "CephVersion list" where
  "AvailableCephVersions = [Tentacle, Squid]"

definition LatestRelease :: CephVersion where
  "LatestRelease = Tentacle"

text \<open>\<^verbatim>\<open>strings.EqualFold\<close> on the letters of ASCII.\<close>

definition lower :: "char \<Rightarrow> char" where
  "lower c = (if CHR ''A'' \<le> c \<and> c \<le> CHR ''Z'' then char_of (of_char c + 32 :: nat) else c)"

definition EqualFold :: "string \<Rightarrow> string \<Rightarrow> bool" where
  "EqualFold s t \<longleftrightarrow> map lower s = map lower t"

definition GetCephVersionByReleaseName :: "string \<Rightarrow> string + CephVersion" where
  "GetCephVersionByReleaseName releaseName =
     (if releaseName = [] then Inr LatestRelease
      else case find (\<lambda>version. EqualFold (ver_Name version) releaseName) AvailableCephVersions of
             Some version \<Rightarrow> Inr version
           | None \<Rightarrow> Inl (''specified not supported Ceph release '' @ quoted releaseName @ ''. Is version correct?''))"

text \<open>The leftmost match of \<^verbatim>\<open>ceph version (\d+)\.(\d+)\.(\d+)\<close>.\<close>

definition is_digit :: "char \<Rightarrow> bool" where
  "is_digit c \<longleftrightarrow> CHR ''0'' \<le> c \<and> c \<le> CHR ''9''"

definition digits_then :: "string \<Rightarrow> string \<Rightarrow> (string \<times> string) option" where
  "digits_then sep s =
     (let ds = takeWhile is_digit s; r = dropWhile is_digit s
      in if ds = [] \<or> \<not> HasPrefix r sep then None else Some (ds, drop (length sep) r))"

definition match_version :: "string \<Rightarrow> (string \<times> string \<times> string) option" where
  "match_version s =
     (if HasPrefix s ''ceph version '' then
        (case digits_then ''.'' (drop 13 s) of
           None \<Rightarrow> None
         | Some (a, s1) \<Rightarrow>
             (case digits_then ''.'' s1 of
                None \<Rightarrow> None
              | Some (b, s2) \<Rightarrow> (case digits_then [] s2 of None \<Rightarrow> None | Some (m, _) \<Rightarrow> Some (a, b, m))))
      else None)"

fun find_version :: "string \<Rightarrow> (string \<times> string \<times> string) option" where
  "find_version [] = None"
| "find_version (c # s) = (case match_version (c # s) of None \<Rightarrow> find_version s | Some m \<Rightarrow> Some m)"

definition show_version :: "CephVersion \<Rightarrow> string" where
  "show_version v = ver_MajorVersion v @ ''.'' @ show_int (ver_MinorVersion v)"

definition ParseCephVersion :: "string \<Rightarrow> string + CephVersion" where
  "ParseCephVersion cephVersion =
     (case find_version cephVersion of
        None \<Rightarrow> Inl (''failed to parse version '' @ quoted cephVersion @ '', expected format '' @ quoted ''ceph version x.x.x'')
      | Some (a, b, m) \<Rightarrow>
          (let major = ''v'' @ a @ ''.'' @ b
           in case Atoi m of
                Inl err \<Rightarrow> Inl (''failed to parse ceph version minor part: '' @ quoted ([CHR 34] @ m @ [CHR 34]))
              | Inr minor \<Rightarrow>
                  (case find (\<lambda>supported. ver_MajorVersion supported = major) AvailableCephVersions of
                     None \<Rightarrow> Inl (''unsupported Ceph major version '' @ quoted major @ '' provided. Supported are: ''
                       @ show_strings (map (\<lambda>s. ver_Name s @ '' ('' @ ver_MajorVersion s @ '')'') AvailableCephVersions))
                   | Some supported \<Rightarrow>
                       if Contains (ver_SupportedMinors supported) minor then
                         Inr \<lparr>ver_Name = ver_Name supported, ver_MajorVersion = major, ver_MinorVersion = minor,
                            ver_Order = ver_Order supported, ver_SupportedMinors = []\<rparr>
                       else Inl (''specified Ceph version '' @ quoted (major @ ''.'' @ show_int minor) @ '' is not supported. Please use one of: ''
                         @ show_strings (map (\<lambda>n. ver_MajorVersion supported @ ''.'' @ show_int n) (ver_SupportedMinors supported))))))"

definition CephVersionGreaterOrEqual :: "CephVersion \<Rightarrow> CephVersion \<Rightarrow> bool" where
  "CephVersionGreaterOrEqual currentVersion requiredVersion \<longleftrightarrow>
     ver_Name currentVersion \<noteq> [] \<and> ver_Order currentVersion \<ge> ver_Order requiredVersion"

section \<open>OpenStack (maintenance.go)\<close>

text \<open>State and release; an item of the list without \<^verbatim>\<open>status.osdpl\<close> is \<open>None\<close>.\<close>

definition getOpenstackDeploymentStatus :: "deployEnv \<Rightarrow> (string + string \<times> string) io" where
  "getOpenstackDeploymentStatus D = do {
     r \<leftarrow> manage (ListOpenstackStatus ''openstack'') (\<lambda>h. de_ListOpenstackStatus D h ''openstack'');
     State_Monad.return (case r of
       Inl err \<Rightarrow> (case err of
           ApiError msg \<Rightarrow> Inl (wrap msg ''failed to list openstackdeploymentstatus objects'')
         | _ \<Rightarrow> Inr ([], []))
     | Inr [] \<Rightarrow> Inr ([], [])
     | Inr [item] \<Rightarrow> (case item of
           None \<Rightarrow> Inl ''OpenstackDeploymentStatus required values in status.osdpl not found''
         | Some (state, release) \<Rightarrow>
             Inr (case state of None \<Rightarrow> [] | Some s \<Rightarrow> s, case release of None \<Rightarrow> [] | Some s \<Rightarrow> s))
     | Inr items \<Rightarrow> Inl (''expected number of openstackdeploymentstatus objects is 1, but found '' @ show_nat (length items)))
   }"

definition controllerClusterReleaseVar :: string where
  "controllerClusterReleaseVar = ''CEPH_CONTROLLER_CLUSTER_RELEASE''"

definition cephUpgradeAllowed :: "deployEnv \<Rightarrow> (string + bool) io" where
  "cephUpgradeAllowed D = do {
     clusterRelease \<leftarrow> manage (LookupEnv controllerClusterReleaseVar) (\<lambda>_. de_LookupEnv D controllerClusterReleaseVar);
     case clusterRelease of
       None \<Rightarrow> State_Monad.return (Inl (''required env variable '' @ quoted controllerClusterReleaseVar @ '' is not set''))
     | Some clusterRelease \<Rightarrow> do {
         r \<leftarrow> getOpenstackDeploymentStatus D;
         State_Monad.return (case r of
           Inl err \<Rightarrow> Inl (wrap err ''failed to get openstackdeploymentstatus state and release'')
         | Inr (osState, osRelease) \<Rightarrow>
             Inr (osRelease = [] \<and> osState = [] \<or> osRelease = clusterRelease \<and> osState = ''APPLIED''))
       }
   }"

section \<open>The version of an image\<close>

definition deployment_ready :: "AppDeployment \<Rightarrow> bool" where
  "deployment_ready d = IsDeploymentReady ((ad_Status d)\<lparr>dep_SpecReplicas := dsp_Replicas (ad_Spec d)\<rparr>)"

definition get_deployment :: "deployEnv \<Rightarrow> string \<Rightarrow> string \<Rightarrow> (api_error + AppDeployment) io" where
  "get_deployment D ns name = issue (GetDeployment ns name) (\<lambda>h. de_GetDeployment D h ns name)"

definition IsCephToolboxCLIAvailable :: "deployEnv \<Rightarrow> string \<Rightarrow> bool io" where
  "IsCephToolboxCLIAvailable D namespace = do {
     r \<leftarrow> get_deployment D namespace PelagiaToolBox;
     State_Monad.return (case r of Inl err \<Rightarrow> False | Inr cephToolBox \<Rightarrow> deployment_ready cephToolBox)
   }"

definition version_check_spec :: "string \<Rightarrow> DeploymentSpec" where
  "version_check_spec targetImage =
     \<lparr>dsp_MatchLabels = [(''app'', pelagiaVersionCheckDpl)], dsp_Replicas = Some 1, dsp_RevisionHistoryLimit = Some 2,
      dsp_ProgressDeadlineSeconds = Some 5, dsp_Strategy = ''Recreate'', dsp_PodLabels = [(''app'', pelagiaVersionCheckDpl)],
      dsp_Containers = [\<lparr>dc_Name = pelagiaVersionCheckDpl, dc_Image = targetImage, dc_Command = [''tail'', ''-f'', ''/dev/null''],
        dc_DropCapabilities = [''ALL''], dc_AllowPrivilegeEscalation = Some False, dc_ReadOnlyRootFilesystem = Some True,
        dc_ImagePullPolicy = ''IfNotPresent'', dc_TerminationMessagePath = ''/dev/termination-log'',
        dc_TerminationMessagePolicy = ''File''\<rparr>],
      dsp_DNSPolicy = ''ClusterFirstWithHostNet'', dsp_RestartPolicy = ''Always'',
      dsp_TerminationGracePeriodSeconds = Some 30, dsp_SchedulerName = []\<rparr>"

definition Deployment0 :: Deployment where
  "Deployment0 = \<lparr>dep_Generation = 0, dep_SpecReplicas = None, dep_Replicas = 0, dep_UpdatedReplicas = 0,
     dep_ReadyReplicas = 0, dep_AvailableReplicas = 0, dep_ObservedGeneration = 0\<rparr>"

text \<open>The deployment is created in the namespace of the \<^verbatim>\<open>CephDeployment\<close> and updated through the client
  of the Rook namespace, as in the source.\<close>

definition apply_version_check :: "deployEnv \<Rightarrow> cephDeploymentConfig \<Rightarrow> AppDeployment \<Rightarrow> string option io" where
  "apply_version_check D c versionDpl = do {
     let full = quoted (ad_Namespace versionDpl @ ''/'' @ ad_Name versionDpl) @ '' deployment'';
     r \<leftarrow> get_deployment D (ad_Namespace versionDpl) (ad_Name versionDpl);
     case r of
       Inl err \<Rightarrow>
         if \<not> is_not_found err then State_Monad.return (Some (wrap (err_msg err) (''failed to get '' @ full)))
         else do {
           e \<leftarrow> manage (CreateAppDeployment (ad_Namespace versionDpl) versionDpl)
                  (\<lambda>h. de_CreateDeployment D h (ad_Namespace versionDpl) versionDpl);
           State_Monad.return (map_option (\<lambda>er. wrap (err_msg er) (''failed to create '' @ full)) e)
         }
     | Inr checkDpl \<Rightarrow> do {
         let new = (ad_Spec versionDpl)\<lparr>dsp_SchedulerName := dsp_SchedulerName (ad_Spec checkDpl)\<rparr>;
         if ad_Spec checkDpl \<noteq> new then do {
           e \<leftarrow> manage (UpdateAppDeployment (rook_ns c) (checkDpl\<lparr>ad_Spec := new\<rparr>))
                  (\<lambda>h. de_UpdateDeployment D h (rook_ns c) (checkDpl\<lparr>ad_Spec := new\<rparr>));
           State_Monad.return (map_option (\<lambda>er. wrap (err_msg er) (''failed to update '' @ full)) e)
         }
         else State_Monad.return None
       }
   }"

definition version_check_ready :: "deployEnv \<Rightarrow> AppDeployment \<Rightarrow> unit option io" where
  "version_check_ready D versionDpl = do {
     r \<leftarrow> get_deployment D (ad_Namespace versionDpl) (ad_Name versionDpl);
     State_Monad.return (case r of Inl err \<Rightarrow> None | Inr checkDpl \<Rightarrow> if deployment_ready checkDpl then Some () else None)
   }"

definition versionCheckPollInterval :: int where
  "versionCheckPollInterval = 20000000000"

definition prepareVersionCheckDeployment :: "deployEnv \<Rightarrow> cephDeploymentConfig \<Rightarrow> string \<Rightarrow> string option io" where
  "prepareVersionCheckDeployment D c targetImage =
     (case GetObjectOwnerRef (de_env D) ''CephDeployment'' (cdp_Name (dpl_of c)) (cdp_UID (dpl_of c)) of
        Inl err \<Rightarrow> State_Monad.return (Some err)
      | Inr ownerRefs \<Rightarrow> do {
          let versionDpl = \<lparr>ad_Name = pelagiaVersionCheckDpl, ad_Namespace = cdp_Namespace (dpl_of c),
            ad_Labels = ExtendLabels [(''app'', pelagiaVersionCheckDpl)] Deploy_Env.baseResourceLabels, ad_OwnerReferences = ownerRefs,
            ad_Spec = version_check_spec targetImage, ad_Status = Deployment0\<rparr>;
          e \<leftarrow> apply_version_check D c versionDpl;
          case e of
            Some err \<Rightarrow> State_Monad.return (Some err)
          | None \<Rightarrow> do {
              ready \<leftarrow> poll_until D versionCheckPollInterval (version_check_ready D versionDpl);
              State_Monad.return (if ready \<noteq> None then None
                else Some (wrap ''context deadline exceeded'' ''timeout reached for waiting version-check deployment ready''))
            }
        })"

definition deleteVersionCheckDeployment :: "deployEnv \<Rightarrow> cephDeploymentConfig \<Rightarrow> (string + bool) io" where
  "deleteVersionCheckDeployment D c = do {
     err \<leftarrow> issue (DeleteDeployment (cdp_Namespace (dpl_of c)) pelagiaVersionCheckDpl)
       (\<lambda>h. e_DeleteDeployment (de_env D) h (cdp_Namespace (dpl_of c)) pelagiaVersionCheckDpl);
     State_Monad.return (case err of
       None \<Rightarrow> Inr True
     | Some e \<Rightarrow> if is_not_found e then Inr True
         else Inl (wrap (err_msg e) (''failed to delete '' @ quoted (cdp_Namespace (dpl_of c) @ ''/'' @ pelagiaVersionCheckDpl) @ '' deployment'')))
   }"

definition getCephVersion :: "deployEnv \<Rightarrow> cephDeploymentConfig \<Rightarrow> (string \<times> string option) io" where
  "getCephVersion D c = do {
     (output, _, err) \<leftarrow> RunPodCmdAndCheckError (de_env D) \<lparr>ec_Namespace = cdp_Namespace (dpl_of c),
       ec_Command = ''ceph --version'', ec_ContainerName = [], ec_Nodename = [], ec_Labels = [''app='' @ pelagiaVersionCheckDpl]\<rparr>;
     State_Monad.return (output, err)
   }"

definition getCephVersionFromImage :: "deployEnv \<Rightarrow> cephDeploymentConfig \<Rightarrow> string \<Rightarrow> (string + CephVersion) io" where
  "getCephVersionFromImage D c targetImage = do {
     dplErr \<leftarrow> prepareVersionCheckDeployment D c targetImage;
     case dplErr of
       Some err \<Rightarrow> State_Monad.return (Inl (wrap err ''failed to prepare version-check deployment''))
     | None \<Rightarrow> do {
         (cephVersionCLI, err) \<leftarrow> getCephVersion D c;
         State_Monad.return (case err of Some e \<Rightarrow> Inl e | None \<Rightarrow> ParseCephVersion cephVersionCLI)
       }
   }"

section \<open>The version of the cluster\<close>

definition getCephVersions :: "deployEnv \<Rightarrow> cephDeploymentConfig \<Rightarrow> (string + (string, int) gomap) io" where
  "getCephVersions D c = RunAndParseCephToolboxCLI (de_env D) (rook_ns c) ''ceph versions --format json'' (de_CephVersions D)"

text \<open>The loop keeps a version of the lowest release; among versions of one release it keeps the first
  that the iteration over the map meets.\<close>

fun cluster_versions :: "string list \<Rightarrow> CephVersion option \<Rightarrow> string list \<Rightarrow> string + CephVersion option \<times> string list" where
  "cluster_versions [] clusterCephVersion versionsForStatus = Inr (clusterCephVersion, versionsForStatus)"
| "cluster_versions (version # versions) clusterCephVersion versionsForStatus =
     (case ParseCephVersion version of
        Inl err \<Rightarrow> Inl (wrap err ''failed to verify Ceph version in cluster'')
      | Inr cephVersion \<Rightarrow> cluster_versions versions
          (case clusterCephVersion of
             None \<Rightarrow> Some cephVersion
           | Some v \<Rightarrow> if ver_Order v > ver_Order cephVersion then Some cephVersion else Some v)
          (versionsForStatus @ [show_version cephVersion]))"

definition getClusterCephVersion :: "deployEnv \<Rightarrow> cephDeploymentConfig \<Rightarrow> (string + CephVersion option \<times> string) io" where
  "getClusterCephVersion D c = do {
     r \<leftarrow> getCephVersions D c;
     State_Monad.return (case r of
       Inl err \<Rightarrow> Inl (wrap err ''failed to get current Ceph versions'')
     | Inr overall \<Rightarrow>
         (case cluster_versions (keys overall) None [] of
            Inl err \<Rightarrow> Inl err
          | Inr (clusterCephVersion, versionsForStatus) \<Rightarrow> Inr (clusterCephVersion, join '','' (sort versionsForStatus))))
   }"

section \<open>The image to run\<close>

definition upgradeWithNewAes256 :: "CephVersion \<Rightarrow> CephVersion \<Rightarrow> bool" where
  "upgradeWithNewAes256 currentV newV =
     (if ver_Order newV = ver_Order Tentacle \<and> ver_MinorVersion newV > 3 \<or>
         ver_Order newV = ver_Order Squid \<and> ver_MinorVersion newV > 5 \<or> ver_Order newV > ver_Order Tentacle then
        \<not> (ver_Order currentV = ver_Order Tentacle \<and> ver_MinorVersion currentV > 3) \<and>
        \<not> (ver_Order currentV = ver_Order Squid \<and> ver_MinorVersion currentV > 5)
      else False)"

text \<open>What \<^verbatim>\<open>verifyCephVersions\<close> returns: the version, the image to use, the versions for the status and
  whether the keys have to be rotated.\<close>

type_synonym versions_result = "string + CephVersion option \<times> string \<times> string \<times> bool"

definition change_msg :: "CephVersion \<Rightarrow> CephVersion \<Rightarrow> string" where
  "change_msg currentV newV = quoted (show_version currentV) @ '' to '' @ quoted (show_version newV)"

text \<open>The image of the configuration differs from the one of a running cluster, or there is no cluster.\<close>

definition verify_new_image :: "deployEnv \<Rightarrow> cephDeploymentConfig \<Rightarrow> CephVersion option \<Rightarrow> string \<Rightarrow> string \<Rightarrow> versions_result io" where
  "verify_new_image D c currentCephVersion currentCephImage cephVersionStatus =
     (let newImage = dp_CephImage (lc_DeployParams (dpc_lcmConfig c))
      in case GetCephVersionByReleaseName (dp_CephRelease (lc_DeployParams (dpc_lcmConfig c))) of
        Inl err \<Rightarrow> State_Monad.return (Inl err)
      | Inr expectedCephVersion \<Rightarrow> do {
          r \<leftarrow> getCephVersionFromImage D c newImage;
          case r of
            Inl err \<Rightarrow> State_Monad.return (Inl (wrap err (''failed to check '' @ quoted ''ceph --version'' @ '' for provided image '' @ quoted newImage)))
          | Inr newCephVersion \<Rightarrow>
              if ver_Name newCephVersion \<noteq> ver_Name expectedCephVersion then
                State_Monad.return (Inl (''expected Ceph release '' @ ver_Name expectedCephVersion @ '' '' @ quoted (ver_MajorVersion expectedCephVersion)
                  @ '' version, but specified '' @ ver_Name newCephVersion @ '' '' @ quoted (ver_MajorVersion newCephVersion)
                  @ '' version (image: '' @ newImage @ '')''))
              else (case currentCephVersion of
                None \<Rightarrow> State_Monad.return (Inr (Some newCephVersion, newImage, cephVersionStatus, False))
              | Some current \<Rightarrow>
                  if ver_Order newCephVersion < ver_Order current then
                    State_Monad.return (Inl (''detected Ceph version downgrade from '' @ change_msg current newCephVersion
                      @ '': major downgrade is not possible''))
                  else if ver_Order newCephVersion - ver_Order current > 1 then
                    State_Monad.return (Inl (''detected Ceph version upgrade from '' @ change_msg current newCephVersion
                      @ '': upgrade with step over one major version is not possible''))
                  else if ver_Order newCephVersion \<noteq> ver_Order current \<or> ver_MinorVersion newCephVersion \<noteq> ver_MinorVersion current then do {
                    u \<leftarrow> cephUpgradeAllowed D;
                    State_Monad.return (case u of
                      Inl err \<Rightarrow> Inl (wrap err ''failed to check is Ceph upgrade allowed'')
                    | Inr upgradeAllowed \<Rightarrow>
                        if upgradeAllowed
                        then Inr (Some current, newImage, cephVersionStatus, upgradeWithNewAes256 current newCephVersion)
                        else Inr (Some current, currentCephImage, cephVersionStatus, False))
                  }
                  else State_Monad.return (Inr (Some current, newImage, cephVersionStatus, False)))
        })"

definition verify_current :: "deployEnv \<Rightarrow> cephDeploymentConfig \<Rightarrow> CephVersion option \<Rightarrow> string \<Rightarrow> string \<Rightarrow> versions_result io" where
  "verify_current D c currentCephVersion currentCephImage cephVersionStatus =
     (if currentCephVersion \<noteq> None \<and> currentCephImage \<noteq> dp_CephImage (lc_DeployParams (dpc_lcmConfig c)) \<or> currentCephImage = [] then
        verify_new_image D c currentCephVersion currentCephImage cephVersionStatus
      else case currentCephVersion of
        None \<Rightarrow> do {
          r \<leftarrow> getCephVersionFromImage D c currentCephImage;
          State_Monad.return (case r of
            Inl err \<Rightarrow> Inl (wrap err (''failed to check '' @ quoted ''ceph --version'' @ '' for used in cluster image '' @ quoted currentCephImage))
          | Inr newCephVersion \<Rightarrow> Inr (Some newCephVersion, currentCephImage, cephVersionStatus, False))
        }
      | Some current \<Rightarrow> do {
          _ \<leftarrow> deleteVersionCheckDeployment D c;
          State_Monad.return (Inr (Some current, currentCephImage, cephVersionStatus, False))
        })"

definition get_cluster :: "deployEnv \<Rightarrow> cephDeploymentConfig \<Rightarrow> (api_error + RookCluster) io" where
  "get_cluster D c = issue (GetCephCluster (rook_ns c) (cdp_Name (dpl_of c)))
     (\<lambda>h. de_GetCephCluster D h (rook_ns c) (cdp_Name (dpl_of c)))"

definition verifyCephVersions :: "deployEnv \<Rightarrow> cephDeploymentConfig \<Rightarrow> versions_result io" where
  "verifyCephVersions D c =
     (if dp_CephImage (lc_DeployParams (dpc_lcmConfig c)) = [] then
        State_Monad.return (Inl (''Pelagia lcmconfig has no required '' @ quoted ''DEPLOYMENT_CEPH_IMAGE'' @ '' parameter set''))
      else do {
        r \<leftarrow> get_cluster D c;
        case r of
          Inl err \<Rightarrow>
            if \<not> is_not_found err then
              State_Monad.return (Inl (wrap (err_msg err) (''failed to get '' @ rook_ns c @ ''/'' @ cdp_Name (dpl_of c) @ '' cephcluster'')))
            else verify_current D c None [] []
        | Inr cephCluster \<Rightarrow> do {
            let currentCephImage = cs_Image (rk_Spec cephCluster);
            deployed \<leftarrow> isCephDeployed D (rook_ns c);
            if deployed then do {
              available \<leftarrow> IsCephToolboxCLIAvailable D (rook_ns c);
              if available then do {
                v \<leftarrow> getClusterCephVersion D c;
                case v of
                  Inl err \<Rightarrow> State_Monad.return (Inl err)
                | Inr (currentCephVersion, cephVersionStatus) \<Rightarrow> verify_current D c currentCephVersion currentCephImage cephVersionStatus
              }
              else State_Monad.return (Inl (''Pelagia toolbox deployment '' @ quoted (rook_ns c @ ''/'' @ PelagiaToolBox)
                @ '' is not ready, waiting before proceed any actions''))
            }
            else verify_current D c None currentCephImage []
          }
      })"

section \<open>Updating the cluster and the operator\<close>

definition rotate_keys :: "CephxConfig \<Rightarrow> CephxConfig" where
  "rotate_keys cx =
     (let cx1 = (if cx_DaemonKeyGeneration cx > 0 \<and> cx_DaemonKeyRotationPolicy cx = ''KeyGeneration''
                 then cx\<lparr>cx_DaemonKeyGeneration := cx_DaemonKeyGeneration cx + 1\<rparr>
                 else cx\<lparr>cx_DaemonKeyGeneration := 2, cx_DaemonKeyRotationPolicy := ''KeyGeneration''\<rparr>)
      in cx1\<lparr>cx_AllowedCiphers := [''aes'', ''aes256k''], cx_DaemonKeyType := ''aes256k'', cx_CSIKeyType := ''aes'',
           cx_CSIKeepPriorKeyCountMax := 1\<rparr>)"

definition cephRestartOsdLabel :: string where
  "cephRestartOsdLabel = ''cephdeployment.lcm.mirantis.com/restart-osd-reason''"
definition cephRestartOsdTimestampLabel :: string where
  "cephRestartOsdTimestampLabel = ''cephdeployment.lcm.mirantis.com/restart-osd-requested''"

definition with_new_image :: "cephDeploymentConfig \<Rightarrow> RookCluster \<Rightarrow> RookCluster" where
  "with_new_image c cluster =
     (let cluster1 = (if dcf_aes256kUpgrade (dpc_cdConfig c)
            then cluster\<lparr>rk_Spec := (rk_Spec cluster)\<lparr>cs_CephX := rotate_keys (cs_CephX (rk_Spec cluster))\<rparr>,
              rk_Labels := AList.update aes256kApplied ''true'' (rk_Labels cluster)\<rparr>
            else cluster);
          cluster2 = cluster1\<lparr>rk_Spec := (rk_Spec cluster1)\<lparr>cs_Image := dcf_currentCephImage (dpc_cdConfig c),
              cs_Network := (cs_Network (rk_Spec cluster1))\<lparr>nw_HostNetwork := False\<rparr>\<rparr>\<rparr>
      in if (case sps_ExtraOpts (dpl_spec c) of None \<Rightarrow> True | Some opts \<Rightarrow> eo_OsdRestartReason opts = [])
         then cluster2\<lparr>rk_Annotations := AList.delete cephRestartOsdTimestampLabel (AList.delete cephRestartOsdLabel (rk_Annotations cluster2)),
           rk_Spec := (rk_Spec cluster2)\<lparr>cs_Annotations := AList.delete ''osd'' (cs_Annotations (rk_Spec cluster2))\<rparr>\<rparr>
         else cluster2)"

definition ensureCephClusterVersion :: "deployEnv \<Rightarrow> cephDeploymentConfig \<Rightarrow> string option io" where
  "ensureCephClusterVersion D c = do {
     r \<leftarrow> get_cluster D c;
     case r of
       Inl err \<Rightarrow> State_Monad.return (if is_not_found err then None
         else Some (wrap (err_msg err) (''failed to get '' @ rook_ns c @ ''/'' @ cdp_Name (dpl_of c) @ '' CephCluster'')))
     | Inr cephCluster \<Rightarrow>
         if cs_Image (rk_Spec cephCluster) \<noteq> dcf_currentCephImage (dpc_cdConfig c) then do {
           e \<leftarrow> manage (UpdateCephCluster (with_new_image c cephCluster)) (\<lambda>h. de_UpdateCephCluster D h (with_new_image c cephCluster));
           State_Monad.return (case e of
             Some er \<Rightarrow> Some (wrap (err_msg er) (''failed to update CephCluster '' @ rk_Namespace cephCluster @ ''/'' @ rk_Name cephCluster @ '' version''))
           | None \<Rightarrow> Some (''update CephCluster '' @ rk_Namespace cephCluster @ ''/'' @ rk_Name cephCluster @ '' version is in progress''))
         }
         else State_Monad.return None
   }"

definition RookDiscoverName :: string where "RookDiscoverName = ''rook-discover''"

text \<open>The discovery daemon set, which is looked at once Ceph is deployed.\<close>

definition ensure_discover :: "deployEnv \<Rightarrow> cephDeploymentConfig \<Rightarrow> string option io" where
  "ensure_discover D c = do {
     let full = ''daemonset '' @ rook_ns c @ ''/'' @ RookDiscoverName;
     r \<leftarrow> issue (GetDaemonSet (rook_ns c) RookDiscoverName) (\<lambda>h. de_GetDaemonSet D h (rook_ns c) RookDiscoverName);
     case r of
       Inl err \<Rightarrow> State_Monad.return (Some (wrap (err_msg err) (''failed to get '' @ rook_ns c @ ''/'' @ RookDiscoverName @ '' daemonset'')))
     | Inr discover \<Rightarrow>
         if as_Image discover \<noteq> dp_RookImage (lc_DeployParams (dpc_lcmConfig c)) then do {
           let new = discover\<lparr>as_Image := dp_RookImage (lc_DeployParams (dpc_lcmConfig c))\<rparr>;
           e \<leftarrow> manage (UpdateAppDaemonSet (rook_ns c) new) (\<lambda>h. de_UpdateDaemonSet D h (rook_ns c) new);
           State_Monad.return (case e of
             Some er \<Rightarrow> Some (wrap (err_msg er) (''failed to update '' @ rook_ns c @ ''/'' @ RookDiscoverName @ '' daemonset with new rook image''))
           | None \<Rightarrow> Some (full @ '' rook image update is in progress''))
         }
         else State_Monad.return (if \<not> IsDaemonSetReady (as_Status discover) \<and> ds_DesiredNumberScheduled (as_Status discover) \<noteq> 0
           then Some (full @ '' rook image update still is in progress'') else None)
   }"

text \<open>\<open>None\<close> is a panic: the number of replicas is not set or the pod has no container.\<close>

definition ensureRookImage :: "deployEnv \<Rightarrow> cephDeploymentConfig \<Rightarrow> string option option io" where
  "ensureRookImage D c = do {
     let full = ''deployment '' @ rook_ns c @ ''/'' @ RookCephOperatorName;
     let rookImage = dp_RookImage (lc_DeployParams (dpc_lcmConfig c));
     r \<leftarrow> get_deployment D (rook_ns c) RookCephOperatorName;
     case r of
       Inl err \<Rightarrow> State_Monad.return (Some (Some (wrap (err_msg err) (''failed to get '' @ rook_ns c @ ''/'' @ RookCephOperatorName @ '' deployment''))))
     | Inr operator \<Rightarrow>
         (case dsp_Replicas (ad_Spec operator) of
            None \<Rightarrow> State_Monad.return None
          | Some replicas \<Rightarrow>
              if replicas = 0 then State_Monad.return (Some None)
              else (case dsp_Containers (ad_Spec operator) of
                [] \<Rightarrow> State_Monad.return None
              | container # rest \<Rightarrow>
                  if dc_Image container \<noteq> rookImage then do {
                    let new = operator\<lparr>ad_Spec := (ad_Spec operator)\<lparr>dsp_Containers := container\<lparr>dc_Image := rookImage\<rparr> # rest\<rparr>\<rparr>;
                    e \<leftarrow> manage (UpdateAppDeployment (rook_ns c) new) (\<lambda>h. de_UpdateDeployment D h (rook_ns c) new);
                    State_Monad.return (Some (case e of
                      Some er \<Rightarrow> Some (wrap (err_msg er) (''failed to update '' @ rook_ns c @ ''/'' @ RookCephOperatorName @ '' deployment with new rook image''))
                    | None \<Rightarrow> Some (full @ '' rook image update is in progress'')))
                  }
                  else if \<not> deployment_ready operator then
                    State_Monad.return (Some (Some (full @ '' rook image update still is in progress'')))
                  else do {
                    deployed \<leftarrow> isCephDeployed D (rook_ns c);
                    if deployed then do {
                      err \<leftarrow> ensure_discover D c;
                      State_Monad.return (Some err)
                    }
                    else State_Monad.return (Some None)
                  }))
   }"

end
