(* ===== verification/Deploy_Evict.thy ===== *)
theory Deploy_Evict
  imports Deploy_Nodes
begin

text \<open>
  The label that admits the CSI daemon sets to a node: \<^verbatim>\<open>src/pkg/controller/deployment/csi_evict.go\<close>. A
  node that is to be drained, or that is excluded by its labels, loses it once no RBD volume of the node
  is in use.
\<close>

definition csiPollInterval :: int where "csiPollInterval = 15000000000"
definition waitForDaemonsetsPodsInterval :: int where "waitForDaemonsetsPodsInterval = 5000000000"
definition cephVolumeAttachmentType :: string where "cephVolumeAttachmentType = ''rook-ceph.rbd.csi.ceph.com''"
definition csi_selector :: string where "csi_selector = ''app=csi-rbdplugin''"

text \<open>The pods of the CSI daemon set, each with the node it runs on.\<close>

definition list_csi_pods :: "deployEnv \<Rightarrow> cephDeploymentConfig \<Rightarrow> (api_error + (string \<times> Pod) list) io" where
  "list_csi_pods D c = issue (ListPods (rook_ns c) csi_selector []) (\<lambda>h. de_ListPodsOnNodes D h (rook_ns c) csi_selector)"

definition getCSIPodForNode :: "deployEnv \<Rightarrow> cephDeploymentConfig \<Rightarrow> string \<Rightarrow> (string + Pod option) io" where
  "getCSIPodForNode D c nodeName = do {
     r \<leftarrow> list_csi_pods D c;
     State_Monad.return (case r of
       Inl err \<Rightarrow> Inl (wrap (err_msg err) (''failed to list pods in '' @ [CHR 34] @ rook_ns c @ [CHR 34] @ '' namespace with app=csi-rbdplugin label''))
     | Inr pods \<Rightarrow> Inr (map_option snd (find (\<lambda>(node, pod). node = nodeName) pods)))
   }"

text \<open>\<^verbatim>\<open>RunPodCmdAndCheckError\<close> for a given pod, without a client configuration.\<close>

definition run_in_csi_pod :: "deployEnv \<Rightarrow> Pod \<Rightarrow> string \<Rightarrow> (string \<times> string option) io" where
  "run_in_csi_pod D csiPod command =
     (case de_InClusterConfig D of
        Some e \<Rightarrow> State_Monad.return ([], Some (wrap (wrap e ''failed to get rest config'') (''failed to run command '' @ quoted command)))
      | None \<Rightarrow> do {
          (stdOut, stdErr, err) \<leftarrow> issue (Exec (pod_Namespace csiPod) (pod_Name csiPod) ''csi-rbdplugin'' command)
            (\<lambda>h. e_Exec (de_env D) h (pod_Namespace csiPod) (pod_Name csiPod) ''csi-rbdplugin'' command);
          State_Monad.return (stdOut, map_option (\<lambda>e. wrap e (''failed to run command '' @ quoted command
            @ (if stdErr \<noteq> [] then '' (stdErr: '' @ stdErr @ '')'' else []))) err)
        })"

text \<open>The RBD devices in the output of \<^verbatim>\<open>mount\<close>.\<close>

definition rbd_mounts :: "string \<Rightarrow> string list" where
  "rbd_mounts stdout =
     filter (\<lambda>rbdVolume. HasPrefix rbdVolume ''/dev/rbd'') (map (split_first (CHR '' '')) (split_on (CHR ''\<newline>'') stdout))"

definition mounts_attempt :: "deployEnv \<Rightarrow> Pod \<Rightarrow> bool \<Rightarrow> bool option io" where
  "mounts_attempt D csiPod umountFound = do {
     (stdout, err) \<leftarrow> run_in_csi_pod D csiPod ''mount'';
     if err \<noteq> None then State_Monad.return None
     else do {
       let mounts = rbd_mounts stdout;
       _ \<leftarrow> (if umountFound then for_each (\<lambda>rbdVolume _. do {
             _ \<leftarrow> run_in_csi_pod D csiPod (''umount '' @ rbdVolume);
             State_Monad.return ()
           }) mounts ()
         else State_Monad.return ());
       State_Monad.return (if umountFound \<and> mounts \<noteq> [] then None else Some (mounts \<noteq> []))
     }
   }"

definition verifyRBDVolumesMounts :: "deployEnv \<Rightarrow> string \<Rightarrow> Pod \<Rightarrow> bool \<Rightarrow> (string + bool) io" where
  "verifyRBDVolumesMounts D nodeName csiPod umountFound = do {
     r \<leftarrow> poll_until D csiPollInterval (mounts_attempt D csiPod umountFound);
     State_Monad.return (case r of
       None \<Rightarrow> Inl (wrap ''context deadline exceeded'' (''failed to wait verifying mounts for rbd volumes on node '' @ quoted nodeName))
     | Some mountsPresent \<Rightarrow> Inr mountsPresent)
   }"

definition is_rbd_attachment :: "string \<Rightarrow> VolumeAttachment \<Rightarrow> bool" where
  "is_rbd_attachment nodeName va \<longleftrightarrow> va_Attacher va = cephVolumeAttachmentType \<and> va_NodeName va = nodeName"

definition attachments_attempt :: "deployEnv \<Rightarrow> string \<Rightarrow> bool \<Rightarrow> bool option io" where
  "attachments_attempt D nodeName umountFound = do {
     r \<leftarrow> manage ListVolumeAttachments (de_ListVolumeAttachments D);
     case r of
       Inl err \<Rightarrow> State_Monad.return None
     | Inr vas \<Rightarrow> do {
         let found = filter (is_rbd_attachment nodeName) vas;
         _ \<leftarrow> (if umountFound then for_each (\<lambda>va _. do {
               _ \<leftarrow> manage (DeleteVolumeAttachment (va_Name va)) (\<lambda>h. de_DeleteVolumeAttachment D h (va_Name va));
               State_Monad.return ()
             }) found ()
           else State_Monad.return ());
         State_Monad.return (if umountFound \<and> found \<noteq> [] then None else Some (found \<noteq> []))
       }
   }"

definition verifyRBDVolumeAttachments :: "deployEnv \<Rightarrow> string \<Rightarrow> bool \<Rightarrow> (string + bool) io" where
  "verifyRBDVolumeAttachments D nodeName umountFound = do {
     r \<leftarrow> poll_until D csiPollInterval (attachments_attempt D nodeName umountFound);
     State_Monad.return (case r of
       None \<Rightarrow> Inl (wrap ''context deadline exceeded'' (''timeout to check volumeattachments for node '' @ quoted nodeName))
     | Some volumeAttachmentsFound \<Rightarrow> Inr volumeAttachmentsFound)
   }"

definition volumes_attempt :: "deployEnv \<Rightarrow> cephDeploymentConfig \<Rightarrow> string \<Rightarrow> bool \<Rightarrow> bool option io" where
  "volumes_attempt D c nodeName umountFound = do {
     r \<leftarrow> getCSIPodForNode D c nodeName;
     case r of
       Inl err \<Rightarrow> State_Monad.return None
     | Inr None \<Rightarrow> State_Monad.return (Some False)
     | Inr (Some csiPod) \<Rightarrow> do {
         m \<leftarrow> verifyRBDVolumesMounts D nodeName csiPod umountFound;
         case m of
           Inl err \<Rightarrow> State_Monad.return None
         | Inr foundVolumes \<Rightarrow> do {
             a \<leftarrow> verifyRBDVolumeAttachments D nodeName umountFound;
             State_Monad.return (case a of Inl err \<Rightarrow> None | Inr foundAttachments \<Rightarrow> Some (foundVolumes \<or> foundAttachments))
           }
       }
   }"

definition checkCSIVolumes :: "deployEnv \<Rightarrow> cephDeploymentConfig \<Rightarrow> string \<Rightarrow> bool \<Rightarrow> (string + bool) io" where
  "checkCSIVolumes D c nodeName umountFound = do {
     r \<leftarrow> poll_until D csiPollInterval (volumes_attempt D c nodeName umountFound);
     State_Monad.return (case r of
       None \<Rightarrow> Inl (wrap ''context deadline exceeded'' (''timeout to check volumes for node '' @ quoted nodeName))
     | Some foundMounted \<Rightarrow> Inr foundMounted)
   }"

definition verifyCSIPodEvicted :: "deployEnv \<Rightarrow> cephDeploymentConfig \<Rightarrow> string \<Rightarrow> string option io" where
  "verifyCSIPodEvicted D c nodeName = do {
     r \<leftarrow> getCSIPodForNode D c nodeName;
     case r of
       Inl err \<Rightarrow> State_Monad.return (Some (wrap err (''failed to get CSI pod for node '' @ quoted nodeName)))
     | Inr None \<Rightarrow> State_Monad.return None
     | Inr (Some csiPod) \<Rightarrow> do {
         gone \<leftarrow> poll_until D csiPollInterval (do {
           err \<leftarrow> manage (DeletePod (rook_ns c) (pod_Name csiPod)) (\<lambda>h. de_DeletePod D h (rook_ns c) (pod_Name csiPod));
           State_Monad.return (case err of None \<Rightarrow> None | Some e \<Rightarrow> if is_not_found e then Some () else None)
         });
         State_Monad.return (case gone of
           None \<Rightarrow> Some (wrap ''context deadline exceeded'' (''timeout to delete CSI pod '' @ pod_Namespace csiPod @ ''/'' @ pod_Name csiPod))
         | Some _ \<Rightarrow> None)
       }
   }"

definition pods_attempt :: "deployEnv \<Rightarrow> cephDeploymentConfig \<Rightarrow> string \<Rightarrow> bool \<Rightarrow> unit option io" where
  "pods_attempt D c nodeName shouldBeFound = do {
     r \<leftarrow> list_csi_pods D c;
     State_Monad.return (case r of
       Inl err \<Rightarrow> None
     | Inr pods \<Rightarrow> if shouldBeFound = list_ex (\<lambda>(node, pod). node = nodeName) pods then Some () else None)
   }"

definition waitForDaemonsetsPods :: "deployEnv \<Rightarrow> cephDeploymentConfig \<Rightarrow> string \<Rightarrow> bool \<Rightarrow> string option io" where
  "waitForDaemonsetsPods D c nodeName shouldBeFound = do {
     r \<leftarrow> poll_until D waitForDaemonsetsPodsInterval (pods_attempt D c nodeName shouldBeFound);
     State_Monad.return (case r of
       None \<Rightarrow> Some (wrap ''context deadline exceeded'' (''timeout to wait daemonset pods in '' @ [CHR 34] @ rook_ns c @ [CHR 34] @ '' namespace updated''))
     | Some _ \<Rightarrow> None)
   }"

section \<open>The loop over the nodes\<close>

text \<open>Reads a node and writes it back with a change. The result is whether both calls succeeded.\<close>

definition change_node :: "deployEnv \<Rightarrow> string \<Rightarrow> (KubeNode \<Rightarrow> KubeNode) \<Rightarrow> bool io" where
  "change_node D nodeName f = do {
     r \<leftarrow> GetNode (de_env D) nodeName;
     case r of
       Inl err \<Rightarrow> State_Monad.return False
     | Inr node \<Rightarrow> do {
         e \<leftarrow> update_node D (f node);
         State_Monad.return (e = None)
       }
   }"

definition drop_daemonset_label :: "KubeNode \<Rightarrow> KubeNode" where
  "drop_daemonset_label node = node\<lparr>kn_Labels := AList.delete cephDaemonsetLabel (kn_Labels node)\<rparr>"

definition add_daemonset_label :: "KubeNode \<Rightarrow> KubeNode" where
  "add_daemonset_label node = node\<lparr>kn_Labels := AList.update cephDaemonsetLabel ''true'' (kn_Labels node)\<rparr>"

abbreviation drain_ready_key :: "cephDeploymentConfig \<Rightarrow> string" where
  "drain_ready_key c \<equiv> dp_DrainReadyLabelKey (lc_DeployParams (dpc_lcmConfig c))"

definition mark_drained :: "deployEnv \<Rightarrow> cephDeploymentConfig \<Rightarrow> string \<Rightarrow> unit io" where
  "mark_drained D c nodeName = do {
     r \<leftarrow> GetNode (de_env D) nodeName;
     case r of
       Inl err \<Rightarrow> State_Monad.return ()
     | Inr node \<Rightarrow>
         if str_of (kn_Annotations node) (drain_ready_key c) \<noteq> ''true'' then do {
           _ \<leftarrow> update_node D (node\<lparr>kn_Annotations := AList.update (drain_ready_key c) ''true'' (kn_Annotations node)\<rparr>);
           State_Monad.return ()
         }
         else State_Monad.return ()
   }"

text \<open>A node with a drain request.\<close>

definition drain_node :: "deployEnv \<Rightarrow> cephDeploymentConfig \<Rightarrow> KubeNode \<Rightarrow> unit io" where
  "drain_node D c node = do {
     unlabelled \<leftarrow>
       (if str_of (kn_Labels node) cephDaemonsetLabel \<noteq> [] then do {
          v \<leftarrow> checkCSIVolumes D c (kn_Name node) True;
          case v of
            Inl err \<Rightarrow> State_Monad.return False
          | Inr _ \<Rightarrow> change_node D (kn_Name node) drop_daemonset_label
        }
        else State_Monad.return True);
     if \<not> unlabelled then State_Monad.return ()
     else do {
       err \<leftarrow> verifyCSIPodEvicted D c (kn_Name node);
       if err \<noteq> None then State_Monad.return ()
       else do {
         err' \<leftarrow> waitForDaemonsetsPods D c (kn_Name node) False;
         if err' \<noteq> None then State_Monad.return () else mark_drained D c (kn_Name node)
       }
     }
   }"

text \<open>A node that carries an excluding label.\<close>

definition exclude_node :: "deployEnv \<Rightarrow> cephDeploymentConfig \<Rightarrow> KubeNode \<Rightarrow> unit io" where
  "exclude_node D c node =
     (if map_of (kn_Labels node) cephDaemonsetLabel \<noteq> None then do {
        v \<leftarrow> checkCSIVolumes D c (kn_Name node) False;
        case v of
          Inl err \<Rightarrow> State_Monad.return ()
        | Inr found \<Rightarrow>
            if found then State_Monad.return ()
            else do {
              _ \<leftarrow> change_node D (kn_Name node) drop_daemonset_label;
              State_Monad.return ()
            }
      }
      else State_Monad.return ())"

definition daemonset_step :: "deployEnv \<Rightarrow> cephDeploymentConfig \<Rightarrow> KubeNode \<Rightarrow> unit \<Rightarrow> unit io" where
  "daemonset_step D c node u =
     (let params = lc_DeployParams (dpc_lcmConfig c); exclude = dp_CephDaemonsetPlacementLabelExclude params
      in if str_of (kn_Annotations node) (dp_DrainRequestLabelKey params) = ''true'' then drain_node D c node
         else if exclude \<noteq> [] \<and> e_SelectorMatches (de_env D) exclude (kn_Labels node) then exclude_node D c node
         else if str_of (kn_Labels node) cephDaemonsetLabel \<noteq> ''true'' then do {
           _ \<leftarrow> change_node D (kn_Name node) add_daemonset_label;
           State_Monad.return ()
         }
         else State_Monad.return ())"

definition ensureDaemonsetLabels :: "deployEnv \<Rightarrow> cephDeploymentConfig \<Rightarrow> unit io" where
  "ensureDaemonsetLabels D c = do {
     r \<leftarrow> GetNodeList (de_env D);
     case r of
       Inl err \<Rightarrow> State_Monad.return ()
     | Inr nodes \<Rightarrow> for_each (daemonset_step D c) nodes ()
   }"

end
