(* ===== verification/Deploy_Prepare.thy ===== *)
theory Deploy_Prepare
  imports Deploy_Version Deploy_Evict Rook_Operator
begin

text \<open>
  What the deployment controller does before it applies the configuration: migration of old fields
  (\<^verbatim>\<open>deprecation.go\<close>), decoding of the specification (\<^verbatim>\<open>extension.go\<close>) and, of \<^verbatim>\<open>controller.go\<close>, the child
  resources, the setup check, the check for tasks and maintenance, the finalizer and the status.
\<close>

section \<open>Deprecated fields (deprecation.go)\<close>

definition openstack_clients :: "string list" where
  "openstack_clients = [''nova'', ''glance'', ''cinder'', ''manila'']"

definition migrate_client :: "deployEnv \<Rightarrow> ClientSpec RawExtension \<Rightarrow> CephClient option" where
  "migrate_client D old =
     (let newClient = \<lparr>ccl_Role = [], ccl_Spec = old\<rparr>
      in case CephClient_GetSpec D newClient of
           (_, Some err) \<Rightarrow> None
         | (clientSpec, None) \<Rightarrow>
             Some (if Contains openstack_clients (cli_Name clientSpec)
               then newClient\<lparr>ccl_Role := cli_Name clientSpec\<rparr> else newClient))"

text \<open>Whether something was migrated, and the specification afterwards.\<close>

definition isMigrationRequired :: "deployEnv \<Rightarrow> CephDeploymentSpec \<Rightarrow> (string + bool) \<times> CephDeploymentSpec" where
  "isMigrationRequired D spec =
     (let newClients = map (migrate_client D) (sps_OldClients spec);
          failed = (Inl ''failed to verify spec for deprecated fields'', spec)
      in if sps_OldClients spec = [] then (Inr False, spec)
         else if sps_Clients spec \<noteq> [] then failed
         else if list_ex (\<lambda>client. client = None) newClients then failed
         else (Inr True, spec\<lparr>sps_Clients := map the newClients, sps_OldClients := []\<rparr>))"

definition with_spec :: "CephDeploymentSpec \<Rightarrow> cephDeploymentConfig \<Rightarrow> cephDeploymentConfig" where
  "with_spec spec c = c\<lparr>dpc_cdConfig := (dpc_cdConfig c)\<lparr>dcf_cephDpl := (dpl_of c)\<lparr>cdp_Spec := spec\<rparr>\<rparr>\<rparr>"

definition update_deployment :: "deployEnv \<Rightarrow> CephDeployment \<Rightarrow> api_error option io" where
  "update_deployment D dpl = manage (UpdateCephDeployment dpl) (\<lambda>h. de_UpdateCephDeployment D h dpl)"

definition ensureDeprecatedFields :: "deployEnv \<Rightarrow> cephDeploymentConfig \<Rightarrow> (string + bool) io" where
  "ensureDeprecatedFields D c =
     (case isMigrationRequired D (dpl_spec c) of
        (Inl err, _) \<Rightarrow> State_Monad.return (Inl err)
      | (Inr False, _) \<Rightarrow> State_Monad.return (Inr False)
      | (Inr True, spec) \<Rightarrow> do {
          err \<leftarrow> update_deployment D (dpl_of (with_spec spec c));
          State_Monad.return (case err of
            Some e \<Rightarrow> Inl (wrap (err_msg e) ''failed to update CephDeployment spec'')
          | None \<Rightarrow> Inr True)
        })"

section \<open>Decoding (extension.go)\<close>

text \<open>The messages for the items of a list that do not decode.\<close>

definition cast_items :: "('a \<Rightarrow> 'b \<times> string option) \<Rightarrow> (nat \<Rightarrow> 'a \<Rightarrow> string) \<Rightarrow> 'a list \<Rightarrow> string list" where
  "cast_items get msg items =
     concat (map (\<lambda>(idx, item). if snd (get item) \<noteq> None then [msg idx item] else []) (enumerate 0 items))"

definition cast_csi :: "deployEnv \<Rightarrow> CephCSI \<Rightarrow> string list" where
  "cast_csi D csi =
     (case csi_OperatorConfig csi of
        None \<Rightarrow> []
      | Some config \<Rightarrow> cast_items (CephCSIOperatorConfig_GetSpec D) (\<lambda>_ _. ''failed to cast CSI operatorConfig to CephCSI API'') [config])
     @ cast_items (\<lambda>driver. CephCSIDriver_GetSpec D (snd driver))
         (\<lambda>idx _. ''failed to cast CSI driver #'' @ show_nat idx @ '' to CephCSI API'') (csi_Drivers csi)"

definition cast_object_storage :: "deployEnv \<Rightarrow> CephObjectStorage \<Rightarrow> string list" where
  "cast_object_storage D ost =
     cast_items (CephObjectStore_GetSpec D) (\<lambda>_ rgw. ''failed to cast rgw '' @ quoted (rgw_Name rgw) @ '' to Rook API'') (ost_Rgws ost)
     @ cast_items (CephObjectStoreUser_GetSpec D) (\<lambda>_ user. ''failed to cast user '' @ quoted (ns_Name user) @ '' to Rook API'') (ost_Users ost)
     @ cast_items (CephObjectRealm_GetSpec D) (\<lambda>_ realm. ''failed to cast realm '' @ quoted (ns_Name realm) @ '' to Rook API'') (ost_Realms ost)
     @ cast_items (CephObjectZonegroup_GetSpec D) (\<lambda>_ zg. ''failed to cast zonegroup '' @ quoted (ns_Name zg) @ '' to Rook API'') (ost_Zonegroups ost)
     @ cast_items (CephObjectZone_GetSpec D) (\<lambda>_ zone. ''failed to cast zone '' @ quoted (ns_Name zone) @ '' to Rook API'') (ost_Zones ost)
     @ cast_items (CephDeploymentHTTPRoute_GetSpec D) (\<lambda>_ route. ''failed to cast http route '' @ quoted (hr_Name route) @ '' to Gateway API'')
         (ost_GatewayHTTPRoutes ost)"

text \<open>The errors of all fields but the list of nodes, in the order they are collected.\<close>

definition cast_errors :: "deployEnv \<Rightarrow> CephDeploymentSpec \<Rightarrow> string list" where
  "cast_errors D spec =
     (case sps_CSIResources spec of None \<Rightarrow> [] | Some csi \<Rightarrow> cast_csi D csi)
     @ (if snd (CephCluster_GetSpec D (sps_Cluster spec)) \<noteq> None then [''failed to cast cephdeployment fields to Rook API''] else [])
     @ (case sps_BlockStorage spec of
          None \<Rightarrow> []
        | Some pools \<Rightarrow> cast_items (CephPool_GetSpec D)
            (\<lambda>_ pool. ''failed to cast block storage pool '' @ quoted (cpl_Name pool) @ '' fields to Rook API'') pools)
     @ cast_items (CephClient_GetSpec D) (\<lambda>idx _. ''failed to cast client #'' @ show_nat idx @ '' to Rook API'') (sps_Clients spec)
     @ (case sps_ObjectStorage spec of None \<Rightarrow> [] | Some ost \<Rightarrow> cast_object_storage D ost)
     @ (case sps_SharedFilesystem spec of
          None \<Rightarrow> []
        | Some filesystems \<Rightarrow> cast_items (CephFilesystem_GetSpec D)
            (\<lambda>_ cephfs. ''failed to cast ceph filesystem '' @ quoted (ns_Name cephfs) @ '' to Rook API'') filesystems)"

definition cast_config :: "deployEnv \<Rightarrow> CephDeploymentSpec \<Rightarrow> deployConfig \<Rightarrow> deployConfig" where
  "cast_config D spec cd =
     (let cd1 = (case CephCluster_GetSpec D (sps_Cluster spec) of
            (castedClusterSpec, None) \<Rightarrow> cd\<lparr>dcf_clusterSpec := castedClusterSpec\<rparr>
          | (_, Some err) \<Rightarrow> cd)
      in case sps_BlockStorage spec of
           None \<Rightarrow> cd1
         | Some pools \<Rightarrow> cd1\<lparr>dcf_openstackSetup := IsOpenStackPoolsPresent pools,
             dcf_pools := map (\<lambda>pool. if snd (CephPool_GetSpec D pool) = None then buildPoolName D pool else []) pools\<rparr>)"

text \<open>The error and the configuration afterwards. Expanding the nodes rewrites the devices of the nodes in
  the specification, and the specification belongs to the \<^verbatim>\<open>CephDeployment\<close> the configuration points to.\<close>

definition castExtensions :: "deployEnv \<Rightarrow> cephDeploymentConfig \<Rightarrow> (string option \<times> cephDeploymentConfig) io" where
  "castExtensions D c = do {
     let spec = dpl_spec c;
     let cd = cast_config D spec (dpc_cdConfig c);
     (err, expandedNodes, spec1) \<leftarrow> GetExpandedCephDeploymentNodeList D spec;
     let cd1 = (if err = None then cd\<lparr>dcf_nodesListExpanded := expandedNodes\<rparr> else cd);
     let errs = cast_errors D spec @ (if err = None then [] else [''failed to expand nodes list'']);
     State_Monad.return
       (if errs = [] then None else Some (''failed to cast spec fields: '' @ join '', '' errs),
        with_spec spec1 (c\<lparr>dpc_cdConfig := cd1\<rparr>))
   }"

section \<open>Status (controller.go)\<close>

text \<open>The second result is the counter of failed runs, \<^verbatim>\<open>currentFailTry\<close>, which an update resets.\<close>

definition updateCephDeploymentStatus :: "deployEnv \<Rightarrow> string \<Rightarrow> string \<Rightarrow> CephDeploymentStatus \<Rightarrow> (string option \<times> nat) io" where
  "updateCephDeploymentStatus D name namespace status = do {
     r \<leftarrow> manage (ReadCephDeployment namespace name) (\<lambda>h. de_ReadCephDeployment D h namespace name);
     case r of
       Inl err \<Rightarrow> State_Monad.return (Some (wrap (err_msg err) (''failed to get CephDeployment ''
         @ quoted (namespace @ ''/'' @ name) @ '' to update status'')), 0)
     | Inr cephDpl \<Rightarrow> do {
         let current = cdp_Status cephDpl;
         let status = (if dps_Phase status = PhaseFailed \<and> (dps_Phase current = PhaseOnHold \<or> dps_Phase current = PhaseMaintenance)
                       then current else status);
         lastRun \<leftarrow> GetCurrentTimeString (de_env D);
         let status = status\<lparr>dps_LastRun := lastRun\<rparr>;
         e \<leftarrow> manage (UpdateCephDeploymentStatus (cdp_Namespace cephDpl) (cdp_Name cephDpl) status)
                (\<lambda>h. de_UpdateStatus D h (cdp_Namespace cephDpl) (cdp_Name cephDpl) status);
         State_Monad.return (map_option (\<lambda>er. wrap (''failed to update status for the CephDeployment ''
           @ cdp_Namespace cephDpl @ ''/'' @ cdp_Name cephDpl @ '': '' @ err_msg er)
           (''failed to update CephDeployment '' @ cdp_Namespace cephDpl @ ''/'' @ cdp_Name cephDpl @ '' status'')) e, 0)
       }
   }"

definition failTriesLeft :: nat where "failTriesLeft = 3"

text \<open>A failure is written once the counter has reached its limit; the result is the counter.\<close>

definition setCephDeploymentPhaseFailed :: "deployEnv \<Rightarrow> nat \<Rightarrow> string \<Rightarrow> string \<Rightarrow> CephDeploymentStatus \<Rightarrow> nat io" where
  "setCephDeploymentPhaseFailed D currentFailTry name namespace status =
     (if currentFailTry < failTriesLeft then State_Monad.return (currentFailTry + 1)
      else do {
        (_, currentFailTry) \<leftarrow> updateCephDeploymentStatus D name namespace status;
        State_Monad.return currentFailTry
      })"

text \<open>\<^verbatim>\<open>AddFinalizer\<close> and \<^verbatim>\<open>RemoveFinalizer\<close> of the controller library.\<close>

definition updateFinalizer :: "deployEnv \<Rightarrow> cephDeploymentConfig \<Rightarrow> bool \<Rightarrow> api_error option io" where
  "updateFinalizer D c add =
     (let fs = cdp_Finalizers (dpl_of c);
          fs' = (if add then (if Contains fs finalizer then fs else fs @ [finalizer]) else filter (\<lambda>f. f \<noteq> finalizer) fs)
      in update_deployment D ((dpl_of c)\<lparr>cdp_Finalizers := fs'\<rparr>))"

section \<open>Child resources (controller.go)\<close>

definition ensure_sub_object :: "deployEnv \<Rightarrow> cephDeploymentConfig \<Rightarrow> OwnerReference list \<Rightarrow> string \<Rightarrow>
    ObjectReference list \<times> string list \<Rightarrow> (ObjectReference list \<times> string list) io" where
  "ensure_sub_object D c ownerRefs kind s = do {
     let (refs, issues) = s;
     let (ns, name) = (cdp_Namespace (dpl_of c), cdp_Name (dpl_of c));
     let ref = \<lparr>obr_Kind = kind, obr_Name = name, obr_Namespace = ns\<rparr>;
     r \<leftarrow> manage (GetSubObject kind ns name) (\<lambda>h. de_GetSubObject D h kind ns name);
     case r of
       Inl err \<Rightarrow>
         if is_not_found err then do {
           let new = \<lparr>so_Kind = kind, so_Name = name, so_Namespace = ns, so_OwnerReferences = ownerRefs, so_Labels = Deploy_Env.baseResourceLabels\<rparr>;
           e \<leftarrow> manage (CreateSubObject new) (\<lambda>h. de_CreateSubObject D h new);
           State_Monad.return (if e = None then (refs @ [ref], issues) else (refs, issues @ [''failed to create '' @ kind]))
         }
         else State_Monad.return (refs, issues @ [''failed to check '' @ kind @ '' presence''])
     | Inr obj \<Rightarrow> do {
         let (labels, labelsUpdated) = AlignBaseLabels (so_Labels obj) Deploy_Env.baseResourceLabels;
         if labelsUpdated then do {
           e \<leftarrow> manage (UpdateSubObject (obj\<lparr>so_Labels := labels\<rparr>)) (\<lambda>h. de_UpdateSubObject D h (obj\<lparr>so_Labels := labels\<rparr>));
           State_Monad.return (refs @ [ref], if e = None then issues else issues @ [''failed to update '' @ kind @ '' labels''])
         }
         else State_Monad.return (refs @ [ref], issues)
       }
   }"

definition sub_object_kinds :: "string list" where
  "sub_object_kinds = [''CephDeploymentHealth'', ''CephDeploymentSecret'', ''CephDeploymentMaintenance'']"

definition createSubObjects :: "deployEnv \<Rightarrow> cephDeploymentConfig \<Rightarrow> (ObjectReference list \<times> string) io" where
  "createSubObjects D c =
     (case GetObjectOwnerRef (de_env D) ''CephDeployment'' (cdp_Name (dpl_of c)) (cdp_UID (dpl_of c)) of
        Inl err \<Rightarrow> State_Monad.return ([], ''failed to prepare ownerRefs for CephDeployment '' @ cdp_Namespace (dpl_of c) @ ''/''
          @ cdp_Name (dpl_of c) @ '' related child resources'')
      | Inr ownerRefs \<Rightarrow> do {
          (refs, issues) \<leftarrow> for_each (ensure_sub_object D c ownerRefs) sub_object_kinds ([], []);
          State_Monad.return (refs, join '', '' issues)
        })"

section \<open>Setup and life cycle (controller.go)\<close>

text \<open>\<open>None\<close> is the panic of \<^verbatim>\<open>ensureRookImage\<close>.\<close>

definition verifySetup :: "deployEnv \<Rightarrow> cephDeploymentConfig \<Rightarrow> string option option io" where
  "verifySetup D c = do {
     _ \<leftarrow> ensureDaemonsetLabels D c;
     case dcf_currentCephVersion (dpc_cdConfig c) of
       None \<Rightarrow> State_Monad.return (Some (Some ''current Ceph version is not detected''))
     | Some _ \<Rightarrow> do {
         r \<leftarrow> ensureRookImage D c;
         case r of
           None \<Rightarrow> State_Monad.return None
         | Some (Some err) \<Rightarrow> State_Monad.return (Some (Some (wrap err ''failed to ensure consistent Rook image version'')))
         | Some None \<Rightarrow> do {
             e \<leftarrow> ensureCephClusterVersion D c;
             State_Monad.return (Some (map_option (\<lambda>err. wrap err ''failed to ensure consistent Ceph cluster version'') e))
           }
       }
   }"

text \<open>A task that failed while it was processed and is not resolved.\<close>

definition failed_processing :: "CephOsdRemoveTask \<Rightarrow> CephOsdRemoveTaskStatus \<Rightarrow> bool" where
  "failed_processing task st \<longleftrightarrow>
     length (st_Conditions st) > 1 \<and> tc_Phase (st_Conditions st ! (length (st_Conditions st) - 2)) = TaskPhaseProcessing \<and>
     (case task_Spec task of None \<Rightarrow> True | Some spec \<Rightarrow> \<not> ts_Resolved spec)"

text \<open>The loop over the tasks: whether one of them holds the controller. A task under validation ends the
  loop in either way.\<close>

fun lcm_tasks :: "deployEnv \<Rightarrow> cephDeploymentConfig \<Rightarrow> CephOsdRemoveTask list \<Rightarrow> (string + bool) io" where
  "lcm_tasks D c [] = State_Monad.return (Inr False)"
| "lcm_tasks D c (task # tasks) =
     (case task_Status task of
        None \<Rightarrow> lcm_tasks D c tasks
      | Some st \<Rightarrow>
          if st_Phase st = TaskPhaseValidating then
            (if dps_Phase (cdp_Status (dpl_of c)) \<noteq> PhaseOnHold then do {
               r \<leftarrow> checkStorageSpecIsAligned D c;
               State_Monad.return (case r of
                 Inl err \<Rightarrow> Inl (wrap err ''failed to check Ceph cluster state'')
               | Inr aligned \<Rightarrow> Inr aligned)
             }
             else State_Monad.return (Inr True))
          else if st_Phase st = TaskPhaseWaitingOperator \<or> st_Phase st = TaskPhaseApproveWaiting then State_Monad.return (Inr True)
          else if st_Phase st = TaskPhaseProcessing then State_Monad.return (Inr True)
          else if st_Phase st = TaskPhaseFailed \<and> failed_processing task st then State_Monad.return (Inr True)
          else lcm_tasks D c tasks)"

text \<open>Whether reconciliation pauses, and in which phase.\<close>

definition checkLcmState :: "deployEnv \<Rightarrow> cephDeploymentConfig \<Rightarrow> (string + bool \<times> CephDeploymentPhase) io" where
  "checkLcmState D c = do {
     let ns = cdp_Namespace (dpl_of c);
     held \<leftarrow> (if external c then State_Monad.return (Inr False)
       else do {
         r \<leftarrow> issue (ListTasks ns) (\<lambda>h. e_ListTasks (de_env D) h ns);
         case r of
           Inl err \<Rightarrow> State_Monad.return (Inl (wrap (err_msg err) (''failed to list CephOsdRemoveTasks in '' @ ns @ '' namespace'')))
         | Inr tasks \<Rightarrow> lcm_tasks D c tasks
       });
     case held of
       Inl err \<Rightarrow> State_Monad.return (Inl err)
     | Inr True \<Rightarrow> State_Monad.return (Inr (True, PhaseOnHold))
     | Inr False \<Rightarrow> do {
         m \<leftarrow> IsClusterMaintenanceActing (de_env D) ns (cdp_Name (dpl_of c));
         State_Monad.return (case m of
           Inl err \<Rightarrow> Inl (wrap err ''failed to check CephDeploymentMaintenance state'')
         | Inr isActing \<Rightarrow> Inr (if isActing then (True, PhaseMaintenance) else (False, PhaseReady)))
       }
   }"

end
