(* ===== verification/Deploy_Align.thy ===== *)
theory Deploy_Align
  imports Deploy_Prepare
begin

text \<open>
  Writing the key types of a finished upgrade into the \<^verbatim>\<open>CephDeployment\<close>
  (\<^verbatim>\<open>alignSpecForAES256k\<close> of \<^verbatim>\<open>deployment/maintenance.go\<close>), on the JSON of the cluster section.
\<close>

text \<open>The warnings that are muted, each with the policy as Rook writes it.\<close>

definition healthCheckMutes :: "(string, json) gomap" where
  "healthCheckMutes = map (\<lambda>warning. (warning, JObject [(''policy'', JString ''mute'')]))
     [''AUTH_INSECURE_ROTATING_SERVICE_KEY_TYPE'', ''AUTH_INSECURE_CLIENT_KEY_TYPE'', ''AUTH_INSECURE_KEYS_ALLOWED'',
      ''AUTH_INSECURE_KEYS_CREATABLE'', ''AUTH_EMERGENCY_CIPHERS_SET'']"

text \<open>A value that is not an object makes the type assertion panic: \<open>None\<close>.\<close>

definition as_object :: "json \<Rightarrow> (string, json) gomap option" where
  "as_object j = (case j of JObject m \<Rightarrow> Some m | _ \<Rightarrow> None)"

definition align_security :: "json \<Rightarrow> (string, json) gomap \<Rightarrow> (string, json) gomap option" where
  "align_security cephx specMap =
     (case map_of specMap ''security'' of
        None \<Rightarrow> Some (AList.update ''security'' (JObject [(''cephx'', cephx)]) specMap)
      | Some s \<Rightarrow> map_option (\<lambda>securityMap. AList.update ''security'' (JObject (AList.update ''cephx'' cephx securityMap)) specMap)
          (as_object s))"

text \<open>The value of \<^verbatim>\<open>newMutes\<close> when the health check section exists.\<close>

definition new_mutes :: "(string, json) gomap \<Rightarrow> (string, json) gomap option" where
  "new_mutes healthMap =
     (case map_of healthMap ''muteHealthWarning'' of
        None \<Rightarrow> Some [(''muteHealthWarning'', JObject healthCheckMutes)]
      | Some mutes \<Rightarrow> map_option (copy_into healthCheckMutes) (as_object mutes))"

definition align_health :: "(string, json) gomap \<Rightarrow> (string, json) gomap option" where
  "align_health specMap =
     (case map_of specMap ''healthCheck'' of
        None \<Rightarrow> Some (AList.update ''healthCheck'' (JObject [(''muteHealthWarning'', JObject healthCheckMutes)]) specMap)
      | Some health \<Rightarrow> do {
          healthMap \<leftarrow> as_object health;
          mutes \<leftarrow> new_mutes healthMap;
          Some (AList.update ''healthCheck'' (JObject (AList.update ''muteHealthWarning'' (JObject mutes) healthMap)) specMap)
        })"

text \<open>\<open>de_Unmarshal\<close> gives no map for the document \<^verbatim>\<open>null\<close>, and an assignment to the map then panics.\<close>

definition aligned_spec :: "deployEnv \<Rightarrow> CephxConfig option \<Rightarrow> (string, json) gomap option \<Rightarrow> (string, json) gomap option" where
  "aligned_spec D cephx specMap = do {
     m \<leftarrow> specMap;
     m \<leftarrow> align_security (case cephx of None \<Rightarrow> JNull | Some cx \<Rightarrow> de_CephxJson D cx) m;
     align_health m
   }"

text \<open>\<^verbatim>\<open>SetRawSpec\<close> without a structure to decode into, on the cluster section.\<close>

definition with_raw_cluster :: "string \<Rightarrow> CephDeployment \<Rightarrow> CephDeployment" where
  "with_raw_cluster raw cdpl = cdpl\<lparr>cdp_Labels := AList.update aes256kApplied ''true'' (cdp_Labels cdpl),
     cdp_Spec := (cdp_Spec cdpl)\<lparr>sps_Cluster := Some \<lparr>re_Raw = Some raw, re_Object = None\<rparr>\<rparr>\<rparr>"

text \<open>The outer \<open>None\<close> is a panic, the inner one success.\<close>

definition write_aligned :: "deployEnv \<Rightarrow> cephDeploymentConfig \<Rightarrow> string \<Rightarrow> string option option io" where
  "write_aligned D c rawDataUpdated = do {
     let (ns, name) = (cdp_Namespace (dpl_of c), cdp_Name (dpl_of c));
     r \<leftarrow> manage (ReadCephDeployment ns name) (\<lambda>h. de_ReadCephDeployment D h ns name);
     case r of
       Inl getErr \<Rightarrow> State_Monad.return (Some (Some (wrap (err_msg getErr) ''failed to get CephDeployment for update'')))
     | Inr cdpl \<Rightarrow>
         if sps_Cluster (cdp_Spec cdpl) = None then State_Monad.return None
         else do {
           updateErr \<leftarrow> update_deployment D (with_raw_cluster rawDataUpdated cdpl);
           State_Monad.return (Some (map_option (\<lambda>e. wrap (err_msg e) ''failed to update CephDeployment spec'') updateErr))
         }
   }"

definition alignSpecForAES256k :: "deployEnv \<Rightarrow> cephDeploymentConfig \<Rightarrow> string option option io" where
  "alignSpecForAES256k D c =
     (case sps_Cluster (dpl_spec c) of
        None \<Rightarrow> State_Monad.return None
      | Some cluster \<Rightarrow>
          (case re_Raw cluster of
             None \<Rightarrow> State_Monad.return (Some (Some ''spec.cluster does not contain raw CephCluster spec''))
           | Some raw \<Rightarrow>
               (case de_Unmarshal D raw of
                  Inl err \<Rightarrow> State_Monad.return (Some (Some err))
                | Inr specMap \<Rightarrow>
                    (case aligned_spec D (dcf_cephxConfigWithAes256k (dpc_cdConfig c)) specMap of
                       None \<Rightarrow> State_Monad.return None
                     | Some new \<Rightarrow>
                         (case de_Marshal D new of
                            Inl err \<Rightarrow> State_Monad.return (Some (Some (wrap err ''failed to update CephDeployment spec with updated aes256 config'')))
                          | Inr rawDataUpdated \<Rightarrow> write_aligned D c rawDataUpdated)))))"

section \<open>Where the warnings end up\<close>

text \<open>Without a health check section, or with one that mutes something already, every warning is muted where
  Rook looks for it.\<close>

definition muted :: "(string, json) gomap \<Rightarrow> string \<Rightarrow> bool" where
  "muted specMap warning \<longleftrightarrow> (\<exists>healthMap mutes. map_of specMap ''healthCheck'' = Some (JObject healthMap) \<and>
     map_of healthMap ''muteHealthWarning'' = Some (JObject mutes) \<and> map_of mutes warning = Some (JObject [(''policy'', JString ''mute'')]))"

lemma healthCheckMutes_wf: "wf_map healthCheckMutes"
  by (simp add: healthCheckMutes_def)

lemma healthCheckMutes_values: "map_of healthCheckMutes w = Some v \<Longrightarrow> v = JObject [(''policy'', JString ''mute'')]"
  by (auto simp: healthCheckMutes_def split: if_splits)

theorem align_mutes:
  assumes "align_health specMap = Some new" and "w \<in> fst ` set healthCheckMutes"
    and "\<And>healthMap. map_of specMap ''healthCheck'' = Some (JObject healthMap) \<Longrightarrow> map_of healthMap ''muteHealthWarning'' \<noteq> None"
  shows "muted new w"
proof -
  from assms(2) obtain v where v: "map_of healthCheckMutes w = Some v"
    by (metis map_of_eq_None_iff not_None_eq)
  with assms(1,3) healthCheckMutes_values [OF v] show ?thesis
    by (auto simp: align_health_def new_mutes_def as_object_def muted_def map_of_copy_into healthCheckMutes_wf
        split: option.splits json.splits)
qed

text \<open>With a health check section that mutes nothing, the list of warnings is nested one level too deep, and
  none of them is muted.\<close>

theorem align_mutes_nested:
  assumes "map_of specMap ''healthCheck'' = Some (JObject healthMap)" and "map_of healthMap ''muteHealthWarning'' = None"
  shows "\<exists>new. align_health specMap = Some new \<and> (\<forall>w \<in> fst ` set healthCheckMutes. \<not> muted new w)"
  using assms by (auto simp: align_health_def new_mutes_def as_object_def muted_def healthCheckMutes_def)

end
