(* ===== verification/Deploy_Pools.thy ===== *)
theory Deploy_Pools
  imports Deploy_Env
begin

text \<open>
  Block pools (\<^verbatim>\<open>deployment/pool.go\<close>) and the state of the cluster that the controller looks after
  (\<^verbatim>\<open>deployment/cluster_state.go\<close>): the prometheus module, the progress events and the pools that Ceph
  creates by itself.
\<close>

section \<open>pool.go\<close>

datatype objectProcess = objectCreate | objectUpdate | objectDelete

fun show_process :: "objectProcess \<Rightarrow> string" where
  "show_process objectCreate = ''create''"
| "show_process objectUpdate = ''update''"
| "show_process objectDelete = ''delete''"

definition generatePool :: "deployEnv \<Rightarrow> CephPool \<Rightarrow> string \<Rightarrow> BlockPool" where
  "generatePool D pool namespace =
     \<lparr>bp_Name = buildPoolName D pool, bp_Namespace = namespace, bp_Labels = Deploy_Env.baseResourceLabels,
      bp_Annotations = (if cpl_PreserveOnDelete pool then [(poolPreserveOnDeleteAnnotation, ''true'')] else []),
      bp_Spec = \<lparr>np_Name = (if Contains builtinCephPools (cpl_Name pool) then cpl_Name pool else []),
                 np_PoolSpec = fst (CephPool_GetSpec D pool)\<rparr>,
      bp_Phase = None\<rparr>"

text \<open>The three requests; the error, if any.\<close>

definition processBlockPools :: "deployEnv \<Rightarrow> objectProcess \<Rightarrow> BlockPool \<Rightarrow> string option io" where
  "processBlockPools D process pool = do {
     err \<leftarrow> (case process of
         objectCreate \<Rightarrow> manage (CreateBlockPool pool) (\<lambda>h. de_CreateBlockPool D h pool)
       | objectUpdate \<Rightarrow> manage (UpdateBlockPool pool) (\<lambda>h. de_UpdateBlockPool D h pool)
       | objectDelete \<Rightarrow> manage (DeleteBlockPool (bp_Namespace pool) (bp_Name pool))
           (\<lambda>h. de_DeleteBlockPool D h (bp_Namespace pool) (bp_Name pool)));
     State_Monad.return (case err of
       None \<Rightarrow> None
     | Some e \<Rightarrow> if process = objectDelete \<and> is_not_found e then None
         else Some (wrap (err_msg e) (''failed to '' @ show_process process @ '' CephBlockPool ''
           @ bp_Namespace pool @ ''/'' @ bp_Name pool)))
   }"

definition list_pools :: "deployEnv \<Rightarrow> cephDeploymentConfig \<Rightarrow> (api_error + BlockPool list) io" where
  "list_pools D c = manage (ListBlockPools (rook_ns c)) (\<lambda>h. de_ListBlockPools D h (rook_ns c))"

text \<open>The variables of \<^verbatim>\<open>ensurePools\<close>: the pools that are present and not dealt with yet, the errors and
  whether something changed.\<close>

record pools_state =
  ps_present :: "(string, BlockPool) gomap"
  ps_errors :: "string list"
  ps_changed :: bool

definition add_error :: "string option \<Rightarrow> pools_state \<Rightarrow> pools_state" where
  "add_error e s = (case e of None \<Rightarrow> s | Some msg \<Rightarrow> s\<lparr>ps_errors := ps_errors s @ [msg]\<rparr>)"

definition pool_not_ready :: "cephDeploymentConfig \<Rightarrow> BlockPool \<Rightarrow> string" where
  "pool_not_ready c pool =
     ''found not ready CephBlockPool '' @ rook_ns c @ ''/'' @ bp_Name pool @ '', waiting for readiness''
     @ (case bp_Phase pool of None \<Rightarrow> [] | Some phase \<Rightarrow> '' (current phase is '' @ phase @ '')'')"

text \<open>One pool of the specification.\<close>

definition ensure_pool :: "deployEnv \<Rightarrow> cephDeploymentConfig \<Rightarrow> CephPool \<Rightarrow> pools_state \<Rightarrow> pools_state io" where
  "ensure_pool D c cephDplPool s = do {
     let newPool = generatePool D cephDplPool (rook_ns c);
     case map_of (ps_present s) (bp_Name newPool) of
       None \<Rightarrow> do {
         err \<leftarrow> processBlockPools D objectCreate newPool;
         State_Monad.return ((add_error err s)\<lparr>ps_changed := True\<rparr>)
       }
     | Some presentPool \<Rightarrow> do {
         let gone = (\<lambda>s. s\<lparr>ps_present := AList.delete (bp_Name newPool) (ps_present s)\<rparr>);
         if (case bp_Phase presentPool of None \<Rightarrow> True | Some phase \<Rightarrow> \<not> isTypeReadyToUpdate phase) then
           State_Monad.return (gone (add_error (Some (pool_not_ready c presentPool)) s))
         else do {
           let (labels, changedBaseLabels) = AlignBaseLabels (bp_Labels presentPool) (bp_Labels newPool);
           if bp_Spec newPool \<noteq> bp_Spec presentPool \<or> changedBaseLabels then do {
             err \<leftarrow> processBlockPools D objectUpdate (presentPool\<lparr>bp_Labels := labels, bp_Spec := bp_Spec newPool\<rparr>);
             State_Monad.return (gone ((add_error err s)\<lparr>ps_changed := True\<rparr>))
           }
           else State_Monad.return (gone s)
         }
       }
   }"

definition preserved :: "BlockPool \<Rightarrow> bool" where
  "preserved pool \<longleftrightarrow> str_of (bp_Annotations pool) poolPreserveOnDeleteAnnotation = ''true''"

text \<open>A pool that is left over.\<close>

definition remove_pool :: "deployEnv \<Rightarrow> string \<times> BlockPool \<Rightarrow> pools_state \<Rightarrow> pools_state io" where
  "remove_pool D entry s =
     (if preserved (snd entry) then State_Monad.return s
      else do {
        err \<leftarrow> processBlockPools D objectDelete (snd entry);
        State_Monad.return ((add_error err s)\<lparr>ps_changed := True\<rparr>)
      })"

definition spec_pools :: "cephDeploymentConfig \<Rightarrow> CephPool list" where
  "spec_pools c = (case sps_BlockStorage (dpl_spec c) of None \<Rightarrow> [] | Some pools \<Rightarrow> pools)"

text \<open>The pools of the listing by name; of two with one name the later one counts.\<close>

definition present_pools :: "BlockPool list \<Rightarrow> (string, BlockPool) gomap" where
  "present_pools pools = fold (\<lambda>pool m. AList.update (bp_Name pool) pool m) pools []"

definition ensurePools :: "deployEnv \<Rightarrow> cephDeploymentConfig \<Rightarrow> (string + bool) io" where
  "ensurePools D c = do {
     r \<leftarrow> list_pools D c;
     case r of
       Inl err \<Rightarrow> State_Monad.return (Inl (wrap (err_msg err) ''failed to get list pools''))
     | Inr pools \<Rightarrow> do {
         s \<leftarrow> for_each (ensure_pool D c) (spec_pools c)
                \<lparr>ps_present = present_pools pools, ps_errors = [], ps_changed = False\<rparr>;
         let left = fold (\<lambda>builtinPool m. AList.delete (getBuiltinPoolName builtinPool) m) builtinCephPools (ps_present s);
         s \<leftarrow> for_each (remove_pool D) left s;
         State_Monad.return (case ps_errors s of
           [] \<Rightarrow> Inr (ps_changed s)
         | [msg] \<Rightarrow> Inl (wrap msg ''failed to ensure CephBlockPools'')
         | _ \<Rightarrow> Inl ''failed to ensure CephBlockPools, multiple errors during pools ensure'')
       }
   }"

definition delete_pool :: "deployEnv \<Rightarrow> BlockPool \<Rightarrow> nat \<Rightarrow> nat io" where
  "delete_pool D pool errMsgs =
     (if np_Name (bp_Spec pool) = ''.rgw.root'' then State_Monad.return errMsgs
      else do {
        err \<leftarrow> processBlockPools D objectDelete pool;
        State_Monad.return (if err = None then errMsgs else Suc errMsgs)
      })"

definition deletePools :: "deployEnv \<Rightarrow> cephDeploymentConfig \<Rightarrow> (string + bool) io" where
  "deletePools D c = do {
     r \<leftarrow> list_pools D c;
     case r of
       Inl err \<Rightarrow> State_Monad.return (Inl (wrap (err_msg err) ''failed to list ceph block pools''))
     | Inr pools \<Rightarrow>
         if pools = [] then State_Monad.return (Inr True)
         else do {
           errMsgs \<leftarrow> for_each (delete_pool D) pools 0;
           State_Monad.return (if errMsgs > 0 then Inl ''some ceph block pools failed to delete'' else Inr False)
         }
   }"

section \<open>cluster\_state.go\<close>

definition verifyPrometheusEnabled :: "deployEnv \<Rightarrow> cephDeploymentConfig \<Rightarrow> (string + bool) io" where
  "verifyPrometheusEnabled D c = do {
     r \<leftarrow> RunAndParseCephToolboxCLI (de_env D) (rook_ns c) ''ceph mgr module ls -f json'' (de_MgrModules D);
     case r of
       Inl err \<Rightarrow> State_Monad.return (Inl (wrap err ''failed to check mgr modules''))
     | Inr (alwaysOn, enabled) \<Rightarrow>
         if \<not> Contains (alwaysOn @ enabled) ''prometheus'' then do {
           (_, err) \<leftarrow> RunCephToolboxCLI (de_env D) (rook_ns c) ''ceph mgr module enable prometheus'';
           State_Monad.return (case err of
             Some e \<Rightarrow> Inl (wrap e (''failed to enable mgr module '' @ quoted ''prometheus''))
           | None \<Rightarrow> Inr True)
         }
         else State_Monad.return (Inr False)
   }"

text \<open>\<^verbatim>\<open>strings.Trim\<close> with a newline as the only character\<close>

definition trim_newlines :: "string \<Rightarrow> string" where
  "trim_newlines s = rev (dropWhile (\<lambda>ch. ch = CHR 10) (rev (dropWhile (\<lambda>ch. ch = CHR 10) s)))"

definition progress_enabled :: "cephDeploymentConfig \<Rightarrow> bool" where
  "progress_enabled c = (case sps_ExtraOpts (dpl_spec c) of None \<Rightarrow> False | Some opts \<Rightarrow> eo_EnableProgressEvents opts)"

definition verifyProgressEvents :: "deployEnv \<Rightarrow> cephDeploymentConfig \<Rightarrow> (string + bool) io" where
  "verifyProgressEvents D c = do {
     let enable = progress_enabled c;
     (stdout, err) \<leftarrow> RunCephToolboxCLI (de_env D) (rook_ns c) ''ceph config get mgr mgr/progress/allow_pg_recovery_event'';
     case err of
       Some e \<Rightarrow> State_Monad.return (Inl (wrap e ''failed to check mgr progress events''))
     | None \<Rightarrow>
         if trim_newlines stdout = (if enable then ''false'' else ''true'') then do {
           (_, err) \<leftarrow> RunCephToolboxCLI (de_env D) (rook_ns c)
             (''ceph config set mgr mgr/progress/allow_pg_recovery_event '' @ show_bool enable);
           State_Monad.return (case err of
             Some e \<Rightarrow> Inl (wrap e ''failed to mgr update progress events state'')
           | None \<Rightarrow> Inr True)
         }
         else State_Monad.return (Inr False)
   }"

definition poolInSpec :: "cephDeploymentConfig \<Rightarrow> string \<Rightarrow> bool" where
  "poolInSpec c poolName \<longleftrightarrow> list_ex (\<lambda>pool. cpl_Name pool = poolName) (spec_pools c)"

text \<open>The specification of the metadata pool of the first object store; the zero value when its zone is
  not listed.\<close>

definition rgw_metadata_pool :: "deployEnv \<Rightarrow> CephObjectStorage \<Rightarrow> CephObjectStore \<Rightarrow> string + PoolSpec" where
  "rgw_metadata_pool D storage rgw =
     (let rgwCasted = fst (CephObjectStore_GetSpec D rgw)
      in if os_ZoneName rgwCasted = [] then Inr (os_MetadataPool rgwCasted)
         else (case find (\<lambda>zone. ns_Name zone = os_ZoneName rgwCasted) (ost_Zones storage) of
                 None \<Rightarrow> Inr PoolSpec0
               | Some zone \<Rightarrow>
                   (case CephObjectZone_GetSpec D zone of
                      (_, Some err) \<Rightarrow> Inl err
                    | (zoneCasted, None) \<Rightarrow> Inr (oz_MetadataPool zoneCasted))))"

definition builtin_pool :: "deployEnv \<Rightarrow> cephDeploymentConfig \<Rightarrow> string \<Rightarrow> PoolSpec RawExtension \<Rightarrow> BlockPool" where
  "builtin_pool D c name ext =
     (let pool = generatePool D \<lparr>cpl_Name = name, cpl_UseAsFullName = True, cpl_Role = [], cpl_PreserveOnDelete = False,
            cpl_StorageClassOpts = \<lparr>sco_Default = False, sco_ReclaimPolicy = []\<rparr>, cpl_PoolSpec = ext\<rparr> (rook_ns c);
          spec = np_PoolSpec (bp_Spec pool)
      in pool\<lparr>bp_Spec := (bp_Spec pool)\<lparr>np_PoolSpec := spec\<lparr>pl_EnableCrushUpdates := Some True\<rparr>\<rparr>\<rparr>)"

definition without_ratio :: "BlockPool \<Rightarrow> BlockPool" where
  "without_ratio pool =
     (let spec = np_PoolSpec (bp_Spec pool)
      in if pl_ReplicatedSize spec > 0 \<and> fst (pl_TargetSizeRatio spec) > 0
         then pool\<lparr>bp_Spec := (bp_Spec pool)\<lparr>np_PoolSpec := spec\<lparr>pl_TargetSizeRatio := (0, 0)\<rparr>\<rparr>\<rparr>
         else pool)"

text \<open>What has to exist for one pool of Ceph; \<open>Inr None\<close> is nothing.\<close>

definition builtin_pool_for :: "deployEnv \<Rightarrow> cephDeploymentConfig \<Rightarrow> string \<Rightarrow> string + BlockPool option" where
  "builtin_pool_for D c cephpool =
     (if \<not> Contains builtinCephPools cephpool \<or> poolInSpec c cephpool then Inr None
      else if cephpool = ''.rgw.root'' then
        (case sps_ObjectStorage (dpl_spec c) of
           None \<Rightarrow> Inr None
         | Some storage \<Rightarrow>
             (case ost_Rgws storage of
                [] \<Rightarrow> Inr None
              | rgw # _ \<Rightarrow>
                  (case rgw_metadata_pool D storage rgw of
                     Inl err \<Rightarrow> Inl err
                   | Inr poolSpec \<Rightarrow>
                       (case de_EncodePoolSpec D poolSpec of
                          Inl err \<Rightarrow> Inl err
                        | Inr poolData \<Rightarrow> Inr (Some (builtin_pool D c cephpool \<lparr>re_Raw = Some poolData, re_Object = None\<rparr>))))))
      else (case find (\<lambda>pool. sco_Default (cpl_StorageClassOpts pool)) (spec_pools c) of
              None \<Rightarrow> Inr None
            | Some pool \<Rightarrow> Inr (Some (without_ratio (builtin_pool D c cephpool (cpl_PoolSpec pool))))))"

fun builtin_pools :: "deployEnv \<Rightarrow> cephDeploymentConfig \<Rightarrow> string list \<Rightarrow> string + BlockPool list" where
  "builtin_pools D c [] = Inr []"
| "builtin_pools D c (cephpool # cephPools) =
     (case builtin_pool_for D c cephpool of
        Inl err \<Rightarrow> Inl err
      | Inr None \<Rightarrow> builtin_pools D c cephPools
      | Inr (Some pool) \<Rightarrow> map_sum id (\<lambda>pools. pool # pools) (builtin_pools D c cephPools))"

text \<open>One of them, given the block pools that exist. Ceph lists a pool once.\<close>

definition verify_builtin :: "deployEnv \<Rightarrow> BlockPool list \<Rightarrow> BlockPool \<Rightarrow> bool \<times> string list \<Rightarrow> (bool \<times> string list) io" where
  "verify_builtin D items poolToProcess s = do {
     let (changed, errMsgs) = s;
     case find (\<lambda>presentPool. np_Name (bp_Spec presentPool) = np_Name (bp_Spec poolToProcess)) items of
       Some presentPool \<Rightarrow> do {
         let (labels, labelsUpdated) = AlignBaseLabels (bp_Labels presentPool) (bp_Labels poolToProcess);
         if bp_Spec presentPool \<noteq> bp_Spec poolToProcess \<or> labelsUpdated then do {
           err \<leftarrow> processBlockPools D objectUpdate (presentPool\<lparr>bp_Labels := labels, bp_Spec := bp_Spec poolToProcess\<rparr>);
           State_Monad.return (case err of
             Some e \<Rightarrow> (changed, errMsgs @ [wrap e (''failed to update '' @ quoted (np_Name (bp_Spec presentPool)) @ '' CephBlockPool override'')])
           | None \<Rightarrow> (True, errMsgs))
         }
         else State_Monad.return s
       }
     | None \<Rightarrow> do {
         err \<leftarrow> processBlockPools D objectCreate poolToProcess;
         State_Monad.return (case err of
           Some e \<Rightarrow> (changed, errMsgs @ [wrap e (''failed to create '' @ quoted (np_Name (bp_Spec poolToProcess)) @ '' CephBlockPool override'')])
         | None \<Rightarrow> (True, errMsgs))
       }
   }"

definition verifyBuiltinPools :: "deployEnv \<Rightarrow> cephDeploymentConfig \<Rightarrow> (string + bool) io" where
  "verifyBuiltinPools D c = do {
     r \<leftarrow> RunAndParseCephToolboxCLI (de_env D) (rook_ns c) ''ceph osd pool ls -f json'' (de_PoolNames D);
     case r of
       Inl err \<Rightarrow> State_Monad.return (Inl (wrap err ''failed to check ceph pools''))
     | Inr cephPools \<Rightarrow>
         (case builtin_pools D c cephPools of
            Inl err \<Rightarrow> State_Monad.return (Inl err)
          | Inr toProcess \<Rightarrow>
              if toProcess = [] then State_Monad.return (Inr False)
              else do {
                l \<leftarrow> list_pools D c;
                case l of
                  Inl err \<Rightarrow> State_Monad.return (Inl (wrap (err_msg err) (''failed to list CephBlockPools in '' @ quoted (rook_ns c) @ '' namespace'')))
                | Inr items \<Rightarrow> do {
                    (changed, errMsgs) \<leftarrow> for_each (verify_builtin D items) toProcess (False, []);
                    State_Monad.return (if errMsgs \<noteq> [] then Inl (join ''; '' errMsgs) else Inr changed)
                  }
              })
   }"

definition ensureClusterState :: "deployEnv \<Rightarrow> cephDeploymentConfig \<Rightarrow> (string + bool) io" where
  "ensureClusterState D c = do {
     deployed \<leftarrow> isCephDeployed D (rook_ns c);
     if \<not> deployed then State_Monad.return (Inr True)
     else do {
       p \<leftarrow> verifyPrometheusEnabled D c;
       case p of
         Inl err \<Rightarrow> State_Monad.return (Inl (wrap err (''failed to verify mgr modules '' @ quoted ''prometheus'' @ '' enabled'')))
       | Inr prometheusChanged \<Rightarrow> do {
           e \<leftarrow> verifyProgressEvents D c;
           case e of
             Inl err \<Rightarrow> State_Monad.return (Inl (wrap err ''failed to verify mgr progress events state''))
           | Inr eventsChanged \<Rightarrow> do {
               b \<leftarrow> verifyBuiltinPools D c;
               State_Monad.return (case b of
                 Inl err \<Rightarrow> Inl (wrap err ''failed to verify builtin pools have corresponding CephBlockPools'')
               | Inr poolsChanged \<Rightarrow> Inr (prometheusChanged \<or> eventsChanged \<or> poolsChanged))
             }
         }
     }
   }"

end
