(* ===== verification/Deploy_Controller.thy ===== *)
theory Deploy_Controller
  imports Deploy_Align Deploy_Pools
begin

text \<open>
  The reconcile loop of the deployment controller (\<^verbatim>\<open>deployment/controller.go\<close>): applying the
  configuration, removing it, and \<^verbatim>\<open>Reconcile\<close> itself. The steps that are modelled (nodes, block pools,
  the state of the cluster, the removal of the cluster) are the definitions of the other theories; the
  remaining ones are given by a record of functions.
\<close>

section \<open>Steps that are not modelled\<close>

text \<open>A step that ensures something may also change the configuration: \<^verbatim>\<open>ensureObjectStorage\<close> completes the
  specification and \<^verbatim>\<open>ensureCluster\<close> sets \<^verbatim>\<open>cephxConfigWithAes256k\<close>.\<close>

type_synonym ensureStep = "cephDeploymentConfig \<Rightarrow> ((string + bool) \<times> cephDeploymentConfig) io"
type_synonym removeStep = "cephDeploymentConfig \<Rightarrow> (string + bool) io"

record deploy_steps =
  dst_ensureNetworkPolicy :: ensureStep
  dst_ensureCsiResources :: ensureStep
  dst_ensureVSCResources :: ensureStep
  dst_ensureCluster :: ensureStep
  dst_ensureSharedFilesystem :: ensureStep
  dst_ensureStorageClasses :: ensureStep
  dst_ensureCephClients :: ensureStep
  dst_ensureObjectStorage :: ensureStep
  dst_ensureRBDMirroring :: ensureStep
  dst_ensureOpenstackSecret :: ensureStep
  dst_ensureIngressProxy :: ensureStep
  dst_deleteOpenstackSecret :: removeStep
  dst_deleteObjectStorage :: removeStep
  dst_deleteIngressProxy :: removeStep
  dst_deleteRBDMirroring :: removeStep
  dst_deleteCephClients :: removeStep
  dst_deleteSharedFilesystems :: removeStep
  dst_deleteStorageClasses :: removeStep
  dst_deleteExternalConnectionSecret :: removeStep
  dst_deleteCsiOperatorResources :: removeStep
  dst_deleteVolumeSnapshotClasses :: removeStep
  dst_cleanupNetworkPolicy :: removeStep

definition ensure_steps :: "deploy_steps \<Rightarrow> ensureStep list" where
  "ensure_steps S = [dst_ensureNetworkPolicy S, dst_ensureCsiResources S, dst_ensureVSCResources S, dst_ensureCluster S,
     dst_ensureSharedFilesystem S, dst_ensureStorageClasses S, dst_ensureCephClients S, dst_ensureObjectStorage S,
     dst_ensureRBDMirroring S, dst_ensureOpenstackSecret S, dst_ensureIngressProxy S]"

definition remove_steps :: "deploy_steps \<Rightarrow> removeStep list" where
  "remove_steps S = [dst_deleteOpenstackSecret S, dst_deleteObjectStorage S, dst_deleteIngressProxy S, dst_deleteRBDMirroring S,
     dst_deleteCephClients S, dst_deleteSharedFilesystems S, dst_deleteStorageClasses S, dst_deleteExternalConnectionSecret S,
     dst_deleteCsiOperatorResources S, dst_deleteVolumeSnapshotClasses S, dst_cleanupNetworkPolicy S]"

text \<open>All calls of these steps satisfy \<open>P\<close>.\<close>

definition steps_issue :: "(call \<Rightarrow> bool) \<Rightarrow> deploy_steps \<Rightarrow> bool" where
  "steps_issue P S \<longleftrightarrow> (\<forall>c. (\<forall>step \<in> set (ensure_steps S). calls_in P (step c)) \<and>
     (\<forall>step \<in> set (remove_steps S). calls_in P (step c)))"

section \<open>Applying the configuration\<close>

text \<open>The collected changes and errors, and the configuration.\<close>

record apply_state =
  ap_changed :: "string list"
  ap_errors :: "string list"
  ap_config :: cephDeploymentConfig

definition keep_config :: "(cephDeploymentConfig \<Rightarrow> (string + bool) io) \<Rightarrow> ensureStep" where
  "keep_config m c = do { r \<leftarrow> m c; State_Monad.return (r, c) }"

definition handleEnsureResult :: "string + bool \<Rightarrow> string \<Rightarrow> apply_state \<Rightarrow> apply_state" where
  "handleEnsureResult r ensureResource s =
     (case r of
        Inl err \<Rightarrow> s\<lparr>ap_errors := ap_errors s @ [ensureResource]\<rparr>
      | Inr resourceChanged \<Rightarrow> if resourceChanged then s\<lparr>ap_changed := ap_changed s @ [ensureResource]\<rparr> else s)"

definition apply_step :: "string \<times> ensureStep \<Rightarrow> apply_state \<Rightarrow> apply_state io" where
  "apply_step entry s = do {
     (r, c) \<leftarrow> snd entry (ap_config s);
     State_Monad.return (handleEnsureResult r (fst entry) (s\<lparr>ap_config := c\<rparr>))
   }"

definition node_steps :: "deployEnv \<Rightarrow> (string \<times> ensureStep) list" where
  "node_steps D = [(''label nodes'', keep_config (ensureLabelNodes D)), (''annotate nodes'', keep_config (ensureNodesAnnotation D))]"

text \<open>The steps after labelling and network policies; \<open>ext\<close> says that the cluster is external.\<close>

definition resource_steps :: "deployEnv \<Rightarrow> deploy_steps \<Rightarrow> bool \<Rightarrow> (string \<times> ensureStep) list" where
  "resource_steps D S ext =
     [(''cephcsi'', dst_ensureCsiResources S), (''volumesnapshotclass'', dst_ensureVSCResources S), (''cephcluster'', dst_ensureCluster S)]
     @ (if \<not> ext then [(''cephblockpools'', keep_config (ensurePools D)), (''shared filesystems'', dst_ensureSharedFilesystem S)] else [])
     @ [(''storageclasses'', dst_ensureStorageClasses S), (''cephclients'', dst_ensureCephClients S),
        (''ceph object storage'', dst_ensureObjectStorage S)]
     @ (if \<not> ext then [(''RBD Mirroring'', dst_ensureRBDMirroring S), (''Openstack secret'', dst_ensureOpenstackSecret S),
          (''ingress proxy'', dst_ensureIngressProxy S), (''cluster state'', keep_config (ensureClusterState D))] else [])"

definition applyConfiguration :: "deployEnv \<Rightarrow> deploy_steps \<Rightarrow> cephDeploymentConfig \<Rightarrow> (string \<times> string \<times> cephDeploymentConfig) io" where
  "applyConfiguration D S c = do {
     let s = \<lparr>ap_changed = [], ap_errors = [], ap_config = c\<rparr>;
     s \<leftarrow> (if \<not> external c then for_each apply_step (node_steps D) s else State_Monad.return s);
     (netPolicyChanged, s) \<leftarrow>
       (if \<not> external c then do {
          (r, c1) \<leftarrow> dst_ensureNetworkPolicy S (ap_config s);
          State_Monad.return (case r of Inl err \<Rightarrow> False | Inr changed \<Rightarrow> changed,
            handleEnsureResult r ''network policies'' (s\<lparr>ap_config := c1\<rparr>))
        }
        else State_Monad.return (False, s));
     s \<leftarrow> (if ap_errors s = [] \<and> \<not> netPolicyChanged then for_each apply_step (resource_steps D S (external c)) s
           else State_Monad.return s);
     State_Monad.return
       (if ap_changed s \<noteq> [] then ''configuration apply is in progress: '' @ join '', '' (ap_changed s) else [],
        if ap_errors s \<noteq> [] then ''configuration apply is failed: failed to ensure '' @ join '', '' (ap_errors s) else [],
        ap_config s)
   }"

section \<open>Removing the configuration\<close>

text \<open>\<^verbatim>\<open>deleteCluster\<close> of \<^verbatim>\<open>cluster.go\<close>\<close>

definition deleteCluster :: "deployEnv \<Rightarrow> cephDeploymentConfig \<Rightarrow> (string + bool) io" where
  "deleteCluster D c = do {
     r \<leftarrow> get_cluster D c;
     case r of
       Inl err \<Rightarrow> State_Monad.return (if is_not_found err then Inr True else Inl (wrap (err_msg err) ''failed to get ceph cluster''))
     | Inr cluster \<Rightarrow> do {
         let cluster = cluster\<lparr>rk_Spec := (rk_Spec cluster)\<lparr>cs_CleanupConfirmation := ''yes-really-destroy-data'',
           cs_AllowUninstallWithVolumes := True\<rparr>\<rparr>;
         e \<leftarrow> manage (UpdateCephCluster cluster) (\<lambda>h. de_UpdateCephCluster D h cluster);
         case e of
           Some err \<Rightarrow> State_Monad.return (Inl (wrap (err_msg err) ''failed to update ceph cluster with cleanupPolicy''))
         | None \<Rightarrow> do {
             e \<leftarrow> manage (DeleteCephCluster (rook_ns c) (rk_Name cluster)) (\<lambda>h. de_DeleteCephCluster D h (rook_ns c) (rk_Name cluster));
             State_Monad.return (case e of
               Some err \<Rightarrow> Inl (wrap (err_msg err) ''failed to delete ceph cluster'')
             | None \<Rightarrow> Inr False)
           }
       }
   }"

definition delete_sub_object :: "deployEnv \<Rightarrow> string \<Rightarrow> removeStep" where
  "delete_sub_object D kind c = do {
     let (ns, name) = (cdp_Namespace (dpl_of c), cdp_Name (dpl_of c));
     err \<leftarrow> manage (DeleteSubObject kind ns name) (\<lambda>h. de_DeleteSubObject D h kind ns name);
     State_Monad.return (case err of
       None \<Rightarrow> Inr False
     | Some e \<Rightarrow> if is_not_found e then Inr True else Inl (err_msg e))
   }"

definition sub_object_step :: "deployEnv \<Rightarrow> cephDeploymentConfig \<Rightarrow> string \<Rightarrow> string \<times> removeStep" where
  "sub_object_step D c kind =
     (kind @ '' '' @ quoted (cdp_Namespace (dpl_of c) @ ''/'' @ cdp_Name (dpl_of c)), delete_sub_object D kind)"

definition disable_os_keys :: "cephDeploymentConfig \<Rightarrow> bool" where
  "disable_os_keys c = (case sps_ExtraOpts (dpl_spec c) of None \<Rightarrow> False | Some opts \<Rightarrow> eo_DisableOsKeys opts)"

definition extra_removals :: "deployEnv \<Rightarrow> deploy_steps \<Rightarrow> cephDeploymentConfig \<Rightarrow> (string \<times> removeStep) list" where
  "extra_removals D S c =
     [sub_object_step D c ''CephDeploymentSecret'', sub_object_step D c ''CephDeploymentMaintenance'']
     @ (if \<not> external c \<and> \<not> disable_os_keys c then [(''openstack shared secret'', dst_deleteOpenstackSecret S)] else [])
     @ [(''object storage'', dst_deleteObjectStorage S)]
     @ (if \<not> external c then [(''ingress proxy'', dst_deleteIngressProxy S), (''rbd mirror'', dst_deleteRBDMirroring S)] else [])
     @ [(''ceph clients'', dst_deleteCephClients S)]
     @ (if \<not> external c then [(''ceph block pools'', deletePools D), (''ceph shared filesystem'', dst_deleteSharedFilesystems S)] else [])
     @ [(''storage classes'', dst_deleteStorageClasses S)]
     @ (if external c then [(''external resources'', dst_deleteExternalConnectionSecret S)] else [])"

definition main_removals :: "deployEnv \<Rightarrow> deploy_steps \<Rightarrow> cephDeploymentConfig \<Rightarrow> (string \<times> removeStep) list" where
  "main_removals D S c =
     [sub_object_step D c ''CephDeploymentHealth'', (''ceph cluster'', deleteCluster D),
      (''ceph csi operator resources'', dst_deleteCsiOperatorResources S), (''volumesnapshotclasses resources'', dst_deleteVolumeSnapshotClasses S)]
     @ (if \<not> external c then [(''network policies'', dst_cleanupNetworkPolicy S), (''node ceph labels'', deleteLabelNodes D),
          (''node ceph annotations'', deleteNodesAnnotations D)] else [])
     @ [(''daemonset ceph labels'', deleteDaemonSetLabels D)]"

definition runRemoveState :: "cephDeploymentConfig \<Rightarrow> string \<times> removeStep \<Rightarrow> bool \<times> string list \<Rightarrow> (bool \<times> string list) io" where
  "runRemoveState c entry s = do {
     let (cleanupFinished, errCollector) = s;
     r \<leftarrow> snd entry c;
     State_Monad.return (case r of
       Inl err \<Rightarrow> (False, errCollector @ [''failed to remove '' @ fst entry])
     | Inr removed \<Rightarrow> (cleanupFinished \<and> removed, errCollector))
   }"

definition cleanCephDeployment :: "deployEnv \<Rightarrow> deploy_steps \<Rightarrow> cephDeploymentConfig \<Rightarrow> (string + bool) io" where
  "cleanCephDeployment D S c = do {
     (cleanupFinished, errCollector) \<leftarrow> for_each (runRemoveState c) (extra_removals D S c) (True, []);
     (cleanupFinished, errCollector) \<leftarrow>
       (if cleanupFinished then for_each (runRemoveState c) (main_removals D S c) (cleanupFinished, errCollector)
        else State_Monad.return (cleanupFinished, errCollector));
     State_Monad.return (if errCollector \<noteq> [] then Inl (''deletion is not completed for CephDeployment: '' @ join '', '' errCollector)
       else Inr cleanupFinished)
   }"

section \<open>Reconcile\<close>

text \<open>The time until the next run (\<open>0\<close>: none is requested), the error and the counter of failed runs. A
  panic of the run is \<open>None\<close>.\<close>

record deploy_result =
  dr_RequeueAfter :: int
  dr_Error :: "string option"
  dr_FailTry :: nat

definition requeueAfterInterval :: int where "requeueAfterInterval = 60000000000"

definition finish :: "int \<Rightarrow> string option \<Rightarrow> nat \<Rightarrow> deploy_result option io" where
  "finish interval err failTry = State_Monad.return (Some \<lparr>dr_RequeueAfter = interval, dr_Error = err, dr_FailTry = failTry\<rparr>)"

definition with_dpl_status :: "(CephDeploymentStatus \<Rightarrow> CephDeploymentStatus) \<Rightarrow> cephDeploymentConfig \<Rightarrow> cephDeploymentConfig" where
  "with_dpl_status f c = c\<lparr>dpc_cdConfig := (dpc_cdConfig c)\<lparr>dcf_cephDpl := (dpl_of c)\<lparr>cdp_Status := f (cdp_Status (dpl_of c))\<rparr>\<rparr>\<rparr>"

abbreviation dpl_status :: "cephDeploymentConfig \<Rightarrow> CephDeploymentStatus" where
  "dpl_status c \<equiv> cdp_Status (dpl_of c)"

definition write_status :: "deployEnv \<Rightarrow> cephDeploymentConfig \<Rightarrow> (string option \<times> nat) io" where
  "write_status D c = updateCephDeploymentStatus D (cdp_Name (dpl_of c)) (cdp_Namespace (dpl_of c)) (dpl_status c)"

definition with_message :: "CephDeploymentPhase \<Rightarrow> string \<Rightarrow> CephDeploymentStatus \<Rightarrow> CephDeploymentStatus" where
  "with_message phase msg status = status\<lparr>dps_Phase := phase, dps_Message := msg\<rparr>"

text \<open>A failure of the run, which ends it.\<close>

definition fail_run :: "deployEnv \<Rightarrow> nat \<Rightarrow> cephDeploymentConfig \<Rightarrow> string \<Rightarrow> deploy_result option io" where
  "fail_run D failTry c msg = do {
     failTry \<leftarrow> setCephDeploymentPhaseFailed D failTry (cdp_Name (dpl_of c)) (cdp_Namespace (dpl_of c))
       (with_message PhaseFailed msg (dpl_status c));
     finish requeueAfterInterval None failTry
   }"

text \<open>A status is written and, when that worked, the next run follows at once.\<close>

definition write_and_rerun :: "deployEnv \<Rightarrow> cephDeploymentConfig \<Rightarrow> deploy_result option io" where
  "write_and_rerun D c = do {
     (err, failTry) \<leftarrow> write_status D c;
     finish (if err = None then DefaultImmediateRequeueInterval else requeueAfterInterval) None failTry
   }"

definition delMsgOk :: string where "delMsgOk = ''Ceph cluster deletion is in progress''"

text \<open>The \<^verbatim>\<open>CephDeployment\<close> is deleted and has the finalizer.\<close>

definition reconcile_delete :: "deployEnv \<Rightarrow> deploy_steps \<Rightarrow> nat \<Rightarrow> cephDeploymentConfig \<Rightarrow> deploy_result option io" where
  "reconcile_delete D S failTry c =
     (if dps_Phase (dpl_status c) \<noteq> PhaseDeleting then write_and_rerun D (with_dpl_status (with_message PhaseDeleting delMsgOk) c)
      else do {
        r \<leftarrow> cleanCephDeployment D S c;
        let report = (\<lambda>msg. do {
          (_, failTry) \<leftarrow> write_status D (with_dpl_status (\<lambda>st. st\<lparr>dps_Message := msg\<rparr>) c);
          finish requeueAfterInterval None failTry
        });
        case r of
          Inl delErr \<Rightarrow> report ''Ceph cluster is failing to remove''
        | Inr False \<Rightarrow> report delMsgOk
        | Inr True \<Rightarrow> do {
            err \<leftarrow> updateFinalizer D c False;
            if err = None then finish 0 None failTry
            else report ''Ceph cluster is removed, failed to cleanup CephDeployment''
          }
      })"

text \<open>The tail: the configuration is applied and the outcome written.\<close>

definition apply_status :: "CephDeploymentStatus \<Rightarrow> CephDeploymentStatus" where
  "apply_status status =
     (if dps_Phase status = PhaseReady then with_message PhaseValidation ''Ceph cluster configuration is verifying'' status
      else if dps_Phase status \<noteq> PhaseDeploying then with_message PhaseDeploying ''Ceph cluster is deploying'' status
      else status)"

definition final_status :: "string \<Rightarrow> string \<Rightarrow> bool \<Rightarrow> CephDeploymentStatus \<Rightarrow> CephDeploymentStatus" where
  "final_status applyInProgress applyFailed aes256kSpecFailed status =
     (if applyInProgress \<noteq> [] \<or> applyFailed \<noteq> [] \<or> aes256kSpecFailed then
        with_message PhaseDeploying (''Ceph cluster '' @ join ''; ''
          ((if applyInProgress \<noteq> [] then [applyInProgress] else []) @ (if applyFailed \<noteq> [] then [applyFailed] else [])
           @ (if aes256kSpecFailed then [''spec CephDeployment alignment for aes256k config failed''] else []))) status
      else with_message PhaseReady ''Ceph cluster configuration successfully applied'' status)"

definition reconcile_apply :: "deployEnv \<Rightarrow> deploy_steps \<Rightarrow> cephDeploymentConfig \<Rightarrow> deploy_result option io" where
  "reconcile_apply D S c = do {
     let c = with_dpl_status apply_status c;
     _ \<leftarrow> write_status D c;
     (applyInProgress, applyFailed, c) \<leftarrow> applyConfiguration D S c;
     aligned \<leftarrow> (if dcf_cephxConfigWithAes256k (dpc_cdConfig c) \<noteq> None then alignSpecForAES256k D c else State_Monad.return (Some None));
     case aligned of
       None \<Rightarrow> State_Monad.return None
     | Some err \<Rightarrow> do {
         (_, failTry) \<leftarrow> write_status D (with_dpl_status (final_status applyInProgress applyFailed (err \<noteq> None)) c);
         finish requeueAfterInterval None failTry
       }
   }"

definition hold_message :: "CephDeploymentPhase \<Rightarrow> string \<Rightarrow> string" where
  "hold_message phase msg =
     (if phase = PhaseOnHold then ''Ceph cluster is under request processing''
      else if phase = PhaseMaintenance then ''Cluster maintenance (upgrade) detected, reconcile is paused'' else msg)"

text \<open>Tasks and maintenance are looked at before anything is applied.\<close>

definition reconcile_lcm :: "deployEnv \<Rightarrow> deploy_steps \<Rightarrow> nat \<Rightarrow> cephDeploymentConfig \<Rightarrow> deploy_result option io" where
  "reconcile_lcm D S failTry c = do {
     r \<leftarrow> checkLcmState D c;
     case r of
       Inl err \<Rightarrow> fail_run D failTry c err
     | Inr (True, lcmPhase) \<Rightarrow>
         if lcmPhase \<noteq> dps_Phase (dpl_status c) then do {
           (_, failTry) \<leftarrow> write_status D (with_dpl_status (\<lambda>st. with_message lcmPhase (hold_message lcmPhase (dps_Message st)) st) c);
           finish requeueAfterInterval None failTry
         }
         else finish requeueAfterInterval None failTry
     | Inr (False, _) \<Rightarrow> reconcile_apply D S c
   }"

definition with_version :: "CephVersion option \<Rightarrow> bool \<Rightarrow> cephDeploymentConfig \<Rightarrow> cephDeploymentConfig" where
  "with_version version aes c =
     c\<lparr>dpc_cdConfig := (dpc_cdConfig c)\<lparr>dcf_currentCephVersion := version, dcf_aes256kUpgrade := aes\<rparr>\<rparr>"

definition reconcile_setup :: "deployEnv \<Rightarrow> deploy_steps \<Rightarrow> nat \<Rightarrow> cephDeploymentConfig \<Rightarrow> deploy_result option io" where
  "reconcile_setup D S failTry c = do {
     v \<leftarrow> verifyCephVersions D c;
     case v of
       Inl err \<Rightarrow> fail_run D failTry c err
     | Inr (version, cephImageToUse, cephStatusVersion, aes) \<Rightarrow> do {
         let c = with_version version aes c;
         if dps_ClusterVersion (dpl_status c) \<noteq> cephStatusVersion
         then write_and_rerun D (with_dpl_status (\<lambda>st. st\<lparr>dps_ClusterVersion := cephStatusVersion\<rparr>) c)
         else do {
           let c = c\<lparr>dpc_cdConfig := (dpc_cdConfig c)\<lparr>dcf_currentCephImage := cephImageToUse\<rparr>\<rparr>;
           (objRefs, objRefsErr) \<leftarrow> createSubObjects D c;
           if objRefsErr \<noteq> [] then fail_run D failTry c (''Ceph cluster '' @ objRefsErr)
           else do {
             let c = with_dpl_status (\<lambda>st. st\<lparr>dps_ObjectsRefs := objRefs\<rparr>) c;
             r \<leftarrow> verifySetup D c;
             case r of
               None \<Rightarrow> State_Monad.return None
             | Some (Some err) \<Rightarrow> fail_run D failTry c err
             | Some None \<Rightarrow> reconcile_lcm D S failTry c
           }
         }
       }
   }"

definition prevent_destroy :: "cephDeploymentConfig \<Rightarrow> bool" where
  "prevent_destroy c = (case sps_ExtraOpts (dpl_spec c) of None \<Rightarrow> False | Some opts \<Rightarrow> eo_PreventClusterDestroy opts)"

definition validation_status :: "CephDeploymentValidation \<Rightarrow> CephDeploymentStatus \<Rightarrow> CephDeploymentStatus" where
  "validation_status validation status =
     (if val_Result validation = ValidationFailed
      then with_message PhaseFailed ''Validation of CephDeployment spec is failed'' (status\<lparr>dps_Validation := validation\<rparr>)
      else status\<lparr>dps_Validation := validation, dps_Message := ''Validation of CephDeployment spec is ok''\<rparr>)"

definition reconcile_spec :: "deployEnv \<Rightarrow> deploy_steps \<Rightarrow> nat \<Rightarrow> cephDeploymentConfig \<Rightarrow> deploy_result option io" where
  "reconcile_spec D S failTry c = do {
     validation \<leftarrow> validateSpec D c;
     if dps_Validation (dpl_status c) \<noteq> validation then write_and_rerun D (with_dpl_status (validation_status validation) c)
     else if val_Result validation = ValidationFailed then finish requeueAfterInterval None failTry
     else if \<not> Contains (cdp_Finalizers (dpl_of c)) finalizer then do {
       err \<leftarrow> updateFinalizer D c True;
       finish (if err = None then DefaultImmediateRequeueInterval else requeueAfterInterval) None failTry
     }
     else reconcile_setup D S failTry c
   }"

definition reconcile_one :: "deployEnv \<Rightarrow> deploy_steps \<Rightarrow> nat \<Rightarrow> cephDeploymentConfig \<Rightarrow> deploy_result option io" where
  "reconcile_one D S failTry c = do {
     let full = cdp_Namespace (dpl_of c) @ ''/'' @ cdp_Name (dpl_of c);
     m \<leftarrow> ensureDeprecatedFields D c;
     case m of
       Inl err \<Rightarrow> fail_run D failTry c (''failed to ensure deprecated fields for CephDeployment '' @ full)
     | Inr True \<Rightarrow> finish 0 None failTry
     | Inr False \<Rightarrow> do {
         (err, c) \<leftarrow> castExtensions D c;
         if err \<noteq> None then fail_run D failTry c (''failed to verify provided data for CephDeployment '' @ full)
         else if cdp_Deleting (dpl_of c) \<and> \<not> prevent_destroy c then
           (if Contains (cdp_Finalizers (dpl_of c)) finalizer then reconcile_delete D S failTry c else finish 0 None failTry)
         else reconcile_spec D S failTry c
       }
   }"

definition new_config :: "LcmConfig \<Rightarrow> CephDeployment \<Rightarrow> cephDeploymentConfig" where
  "new_config lcmConfig cephDpl = \<lparr>dpc_lcmConfig = lcmConfig, dpc_cdConfig = \<lparr>dcf_cephDpl = cephDpl, dcf_clusterSpec = ClusterSpec0,
     dcf_openstackSetup = False, dcf_pools = [], dcf_nodesListExpanded = [], dcf_currentCephVersion = None, dcf_currentCephImage = [],
     dcf_aes256kUpgrade = False, dcf_cephxConfigWithAes256k = None\<rparr>\<rparr>"

definition Status0 :: CephDeploymentStatus where
  "Status0 = \<lparr>dps_Phase = PhaseOther [], dps_Message = [], dps_Validation = \<lparr>val_Result = ValidationUnset,
     val_LastValidatedGeneration = 0, val_Messages = []\<rparr>, dps_ClusterVersion = [], dps_LastRun = [], dps_ObjectsRefs = []\<rparr>"

definition Deploy_Reconcile :: "deployEnv \<Rightarrow> deploy_steps \<Rightarrow> LcmConfig \<Rightarrow> string \<Rightarrow> string \<Rightarrow> nat \<Rightarrow> deploy_result option io" where
  "Deploy_Reconcile D S lcmConfig ns name failTry = do {
     r \<leftarrow> manage (ListCephDeployments ns) (\<lambda>h. de_ListCephDeployments D h ns);
     case r of
       Inl err \<Rightarrow> finish requeueAfterInterval (Some (wrap (err_msg err) (''failed to list CephDeployments '' @ ns @ '' namespace''))) failTry
     | Inr [] \<Rightarrow> finish 0 None failTry
     | Inr [cephDpl] \<Rightarrow>
         if cdp_Name cephDpl \<noteq> name then finish requeueAfterInterval (Some ''incorrect CephDeployment object'') failTry
         else reconcile_one D S failTry (new_config lcmConfig cephDpl)
     | Inr _ \<Rightarrow> do {
         failTry \<leftarrow> setCephDeploymentPhaseFailed D failTry name ns
           (with_message PhaseFailed (''incorrect number of CephDeployments in '' @ ns @ '' namespace'') Status0);
         finish requeueAfterInterval None failTry
       }
   }"

end
