(* ===== verification/Deploy_Scenario.thy ===== *)
theory Deploy_Scenario
  imports Deploy_Controller Scenario
begin

text \<open>
  A small concrete deployment, on which the theorems about the deployment controller are applied: one
  storage node, one replicated pool, an API server that knows both and accepts every request.
\<close>

definition dv_pool_spec :: PoolSpec where
  "dv_pool_spec = PoolSpec0\<lparr>pl_FailureDomain := ''host'', pl_DeviceClass := ''hdd'', pl_ReplicatedSize := 3\<rparr>"

definition dv_cluster_spec :: ClusterSpec where
  "dv_cluster_spec = ClusterSpec0\<lparr>cs_Image := ''ceph:v19.2.3'', cs_Network := \<lparr>nw_Provider = ''host'',
     nw_AddressRanges = Some \<lparr>ar_Public = [''10.0.0.0/24''], ar_Cluster = [''10.0.1.0/24'']\<rparr>, nw_Selectors = [], nw_HostNetwork = False\<rparr>\<rparr>"

text \<open>A node of the specification, with devices or without.\<close>

definition dv_node :: "string \<Rightarrow> CephDevice list \<Rightarrow> CephDeploymentNode" where
  "dv_node name devices = \<lparr>dn_Node = \<lparr>cn_Name = name, cn_Config = [], cn_Devices = devices, cn_DeviceFilter = [],
       cn_DevicePathFilter = [], cn_UseAllDevices = None, cn_VolumeClaimTemplates = []\<rparr>,
     dn_Roles = [''mon'', ''mgr''], dn_Crush = [(''rack'', ''r1'')], dn_NodeGroup = [], dn_NodesByLabel = [], dn_MonitorIP = []\<rparr>"

definition dv_disk :: CephDevice where
  "dv_disk = \<lparr>cd_Name = ''vdb'', cd_FullPath = [], cd_Config = [(''deviceClass'', ''hdd'')]\<rparr>"

definition dv_pool :: "string \<Rightarrow> CephPool" where
  "dv_pool name = \<lparr>cpl_Name = name, cpl_UseAsFullName = False, cpl_Role = [], cpl_PreserveOnDelete = False,
     cpl_StorageClassOpts = \<lparr>sco_Default = True, sco_ReclaimPolicy = []\<rparr>,
     cpl_PoolSpec = \<lparr>re_Raw = Some ''{}'', re_Object = None\<rparr>\<rparr>"

definition dv_spec :: CephDeploymentSpec where
  "dv_spec = \<lparr>sps_Cluster = Some \<lparr>re_Raw = Some ''{}'', re_Object = None\<rparr>, sps_BlockStorage = Some [dv_pool ''data''],
     sps_Clients = [], sps_ExtraOpts = None, sps_Nodes = [dv_node ''node-a'' [dv_disk]], sps_ObjectStorage = None,
     sps_RBDMirrorPeers = None, sps_RookConfig = [], sps_SharedFilesystem = None, sps_CSIResources = None, sps_IngressConfig = None, sps_OldClients = []\<rparr>"

definition dv_dpl :: CephDeployment where
  "dv_dpl = \<lparr>cdp_Name = ''cluster'', cdp_Namespace = ''pelagia'', cdp_UID = ''1'', cdp_Generation = 1, cdp_Labels = [],
     cdp_Finalizers = [finalizer], cdp_Deleting = False, cdp_Spec = dv_spec, cdp_Status = Status0\<rparr>"

definition dv_config :: cephDeploymentConfig where
  "dv_config = (let c = new_config sc_params dv_dpl in
     c\<lparr>dpc_cdConfig := (dpc_cdConfig c)\<lparr>dcf_clusterSpec := dv_cluster_spec, dcf_nodesListExpanded := sps_Nodes dv_spec\<rparr>\<rparr>)"

definition dv_kube_node :: KubeNode where
  "dv_kube_node = \<lparr>kn_Name = ''node-a'', kn_Labels = [(''topology.kubernetes.io/zone'', ''z1'')], kn_Annotations = [], kn_Taints = []\<rparr>"

definition dv_rook :: RookCluster where
  "dv_rook = \<lparr>rk_Name = ''cluster'', rk_Namespace = ''rook'', rk_Labels = [], rk_Annotations = [], rk_Spec = dv_cluster_spec\<rparr>"

definition dv_app :: "string \<Rightarrow> string \<Rightarrow> AppDeployment" where
  "dv_app ns name = \<lparr>ad_Name = name, ad_Namespace = ns, ad_Labels = [], ad_OwnerReferences = [],
     ad_Spec = version_check_spec ''rook:v1.18'', ad_Status = \<lparr>dep_Generation = 1, dep_SpecReplicas = Some 1, dep_Replicas = 1,
       dep_UpdatedReplicas = 1, dep_ReadyReplicas = 1, dep_AvailableReplicas = 1, dep_ObservedGeneration = 1\<rparr>\<rparr>"

text \<open>Two block pools exist: one that no pool of the specification asks for, and one that is marked to be
  preserved.\<close>

definition dv_block_pool :: "string \<Rightarrow> bool \<Rightarrow> BlockPool" where
  "dv_block_pool name keep = \<lparr>bp_Name = name, bp_Namespace = ''rook'', bp_Labels = [],
     bp_Annotations = (if keep then [(poolPreserveOnDeleteAnnotation, ''true'')] else []),
     bp_Spec = \<lparr>np_Name = [], np_PoolSpec = dv_pool_spec\<rparr>, bp_Phase = Some ''Ready''\<rparr>"

definition dv_env :: deployEnv where
  "dv_env = \<lparr>de_env = sc_env\<lparr>e_ListNodes := \<lambda>_. Inr [dv_kube_node], e_GetNode := \<lambda>_ _. Inr dv_kube_node,
       e_GetMaintenance := \<lambda>_ _ _. Inr \<lparr>cdm_Status = None\<rparr>\<rparr>,
     de_ListCephDeployments = (\<lambda>_ _. Inr [dv_dpl]), de_ReadCephDeployment = (\<lambda>_ _ _. Inr dv_dpl),
     de_UpdateCephDeployment = (\<lambda>_ _. None), de_UpdateStatus = (\<lambda>_ _ _ _. None),
     de_GetSubObject = (\<lambda>_ _ _ _. Inl (NotFound ''none'')), de_CreateSubObject = (\<lambda>_ _. None), de_UpdateSubObject = (\<lambda>_ _. None),
     de_DeleteSubObject = (\<lambda>_ _ _ _. None), de_GetConfigMap = (\<lambda>_ _ _. Inr \<lparr>kcm_Name = [], kcm_Namespace = [], kcm_Labels = [], kcm_Annotations = [], kcm_Data = []\<rparr>),
     de_CreateConfigMap = (\<lambda>_ _. None), de_UpdateConfigMap = (\<lambda>_ _. None), de_GetSecret = (\<lambda>_ _ _. Inr []), de_ListNodesByLabel = (\<lambda>_ _. Inr []),
     de_UpdateNode = (\<lambda>_ _. None), de_ListDeployments = (\<lambda>_ _ _. Inr []), de_GetDeployment = (\<lambda>_ ns name. Inr (dv_app ns name)),
     de_CreateDeployment = (\<lambda>_ _ _. None), de_UpdateDeployment = (\<lambda>_ _ _. None),
     de_GetDaemonSet = (\<lambda>_ _ _. Inl (NotFound ''none'')), de_UpdateDaemonSet = (\<lambda>_ _ _. None),
     de_GetCephCluster = (\<lambda>_ _ _. Inr dv_rook), de_UpdateCephCluster = (\<lambda>_ _. None), de_DeleteCephCluster = (\<lambda>_ _ _. None),
     de_ListBlockPools = (\<lambda>_ _. Inr [dv_block_pool ''old'' False, dv_block_pool ''kept'' True]),
     de_CreateBlockPool = (\<lambda>_ _. None), de_UpdateBlockPool = (\<lambda>_ _. None), de_DeleteBlockPool = (\<lambda>_ _ _. None),
     de_ListOpenstackStatus = (\<lambda>_ _. Inr []), de_LookupEnv = (\<lambda>_. Some ''1.0''), de_ListPodsOnNodes = (\<lambda>_ _ _. Inr []),
     de_DeletePod = (\<lambda>_ _ _. None), de_ListVolumeAttachments = (\<lambda>_. Inr []), de_DeleteVolumeAttachment = (\<lambda>_ _. None),
     de_Polls = (\<lambda>_. 2), de_InClusterConfig = None,
     de_PoolSpec = (\<lambda>_. (dv_pool_spec, None)), de_EncodePoolSpec = (\<lambda>_. Inr ''{}''), de_ClusterSpec = (\<lambda>_. (dv_cluster_spec, None)),
     de_ClientSpec = (\<lambda>_. (\<lparr>cli_Name = ''nova'', cli_Rest = []\<rparr>, None)), de_FilesystemSpec = (\<lambda>_. (FilesystemSpec0, None)),
     de_ObjectStoreSpec = (\<lambda>_. (ObjectStoreSpec0, None)), de_ObjectZoneSpec = (\<lambda>_. (ObjectZoneSpec0, None)),
     de_ZoneGroupSpec = (\<lambda>_. ([], None)), de_UserSpec = (\<lambda>_. ([], None)), de_RealmSpec = (\<lambda>_. ([], None)),
     de_RouteSpec = (\<lambda>_. ([], None)), de_OperatorConfigSpec = (\<lambda>_. ([], None)), de_DriverSpec = (\<lambda>_. ([], None)),
     de_Unmarshal = (\<lambda>_. Inr (Some [])), de_Marshal = (\<lambda>_. Inr ''{}''), de_CephxJson = (\<lambda>_. JObject []),
     de_CephVersions = (\<lambda>_. Inr [(''ceph version 19.2.3 squid'', 3)]), de_MgrModules = (\<lambda>_. Inr ([''prometheus''], [])),
     de_PoolNames = (\<lambda>_. Inr [''.mgr'', ''data-hdd'']), de_ConfigDump = (\<lambda>_. Inr []), de_Sha256 = (\<lambda>s. s),
     de_CIDRString = join '',''\<rparr>"

text \<open>Steps that do nothing.\<close>

definition dv_ensure :: ensureStep where "dv_ensure c = State_Monad.return (Inr False, c)"
definition dv_remove :: removeStep where "dv_remove c = State_Monad.return (Inr True)"

definition dv_steps :: deploy_steps where
  "dv_steps = \<lparr>dst_ensureNetworkPolicy = dv_ensure, dst_ensureCsiResources = dv_ensure, dst_ensureVSCResources = dv_ensure,
     dst_ensureCluster = dv_ensure, dst_ensureSharedFilesystem = dv_ensure, dst_ensureStorageClasses = dv_ensure,
     dst_ensureCephClients = dv_ensure, dst_ensureObjectStorage = dv_ensure, dst_ensureRBDMirroring = dv_ensure,
     dst_ensureOpenstackSecret = dv_ensure, dst_ensureIngressProxy = dv_ensure,
     dst_deleteOpenstackSecret = dv_remove, dst_deleteObjectStorage = dv_remove,
     dst_deleteIngressProxy = dv_remove, dst_deleteRBDMirroring = dv_remove, dst_deleteCephClients = dv_remove,
     dst_deleteSharedFilesystems = dv_remove, dst_deleteStorageClasses = dv_remove, dst_deleteExternalConnectionSecret = dv_remove,
     dst_deleteCsiOperatorResources = dv_remove, dst_deleteVolumeSnapshotClasses = dv_remove, dst_cleanupNetworkPolicy = dv_remove\<rparr>"

lemma dv_steps_issue: "steps_issue P dv_steps"
  by (simp add: steps_issue_def ensure_steps_def remove_steps_def dv_steps_def dv_ensure_def dv_remove_def calls_in_return)

end
