(* ===== verification/Deploy_Spec_Theorems.thy ===== *)
theory Deploy_Spec_Theorems
  imports Deploy_Valid Deploy_Labels Deploy_Scenario
begin

text \<open>
  Properties of the checks on a \<^verbatim>\<open>CephDeployment\<close> and of the labels of its nodes.
\<close>

section \<open>Validation\<close>

lemma validateClusterNodes_result:
  "fst (run_state (validateClusterNodes D c) h) = None \<longleftrightarrow>
     (\<exists>known. e_ListNodes (de_env D) h = Inr known \<and> (\<forall>node \<in> set (expanded c). cn_Name (dn_Node node) \<in> kn_Name ` set known))"
  by (auto simp: validateClusterNodes_def GetNodeList_def filter_empty_conv Let_def split: sum.splits)

lemma rbdPeersValidate_Nil:
  "rbdPeersValidate cephDpl = [] \<longleftrightarrow> (\<forall>peers. sps_RBDMirrorPeers (cdp_Spec cephDpl) = Some peers \<longrightarrow> length peers \<le> 1)"
  by (auto simp: rbdPeersValidate_def split: option.splits)


text \<open>A pool's device class is not checked against the devices as soon as one node of the list has no
  devices of its own, for example a node that only runs a monitor: then every class passes.\<close>

theorem device_class_unchecked:
  assumes "node \<in> set nodes" and "cn_Devices (dn_Node node) = []" and "class \<noteq> []"
  shows "validateDeviceClass class nodes = None"
  using assms unfolding validateDeviceClass_None class_offered_def by blast

theorem device_class_unchecked_witness:
  "validateDeviceClass ''ssd'' [dv_node ''node-a'' [dv_disk]] \<noteq> None \<and>
   validateDeviceClass ''ssd'' [dv_node ''node-a'' [dv_disk], dv_node ''node-b'' []] = None"
  using device_class_unchecked [of "dv_node ''node-b'' []" "[dv_node ''node-a'' [dv_disk], dv_node ''node-b'' []]" "''ssd''"]
  by (simp add: dv_node_def dv_disk_def validateDeviceClass_def List.map_filter_simps)

section \<open>Node labels\<close>

text \<open>The labels of a node after a change are exactly the wanted ones: a label for every role the node
  has and none for the others, every topology key of the specification set with the value that Kubernetes
  had there saved, topology keys that are no longer wanted restored or dropped, and every other label as it
  was. A change is reported exactly when the labels differ, and doing it again changes nothing.\<close>

theorem node_labels_exact:
  assumes "wf_map labels" and "valid_topology topo"
  shows "let (new, changed) = buildNodeLabels labels roles topo in
     (\<forall>r \<in> set CephDaemonKeys. map_of new (CephNodeLabel r) = wanted_role roles r) \<and>
     (\<forall>r \<in> crush_roots. saved_of new r = wanted_topology (isKubeCrush r) (map_of topo r) (saved_of labels r)) \<and>
     (\<forall>k. k \<notin> role_labels \<union> topology_labels \<longrightarrow> map_of new k = map_of labels k) \<and>
     (changed \<longleftrightarrow> map_of new \<noteq> map_of labels) \<and> \<not> snd (buildNodeLabels new roles topo)"
proof -
  let ?new = "fst (buildNodeLabels labels roles topo)"
  have "map_of (fst (buildNodeLabels ?new roles topo)) = map_of ?new"
    by (rule labels_eqI) (simp_all add: assms wf_buildNodeLabels buildNodeLabels_role buildNodeLabels_saved
      wanted_topology_idem buildNodeLabels_other)
  then have "\<not> snd (buildNodeLabels ?new roles topo)"
    by (simp add: buildNodeLabels_changed [OF wf_buildNodeLabels assms(2)])
  with assms show ?thesis
    by (simp add: split_beta buildNodeLabels_role buildNodeLabels_saved buildNodeLabels_other buildNodeLabels_changed)
qed

theorem node_labels_exact_witness:
  "\<not> snd (buildNodeLabels (fst (buildNodeLabels [(''topology.kubernetes.io/zone'', ''z1'')] [''mon''] [(''zone'', ''z2'')])) [''mon''] [(''zone'', ''z2'')])"
  using node_labels_exact [of "[(''topology.kubernetes.io/zone'', ''z1'')]" "[(''zone'', ''z2'')]" "[''mon'']"]
  by (simp add: valid_topology_def crush_roots_eq split_beta)

text \<open>C14. Removing a deployment gives a node its labels back: for a node without Ceph labels and without
  topology keys of Rook, whose region and zone are not empty, setting any roles and any valid topology and
  then removing them leaves the labels it had.\<close>

theorem node_labels_restored:
  assumes "wf_map labels" and "valid_topology topo"
    and roles: "\<forall>k \<in> role_labels. map_of labels k = None"
    and topology: "\<forall>r \<in> crush_roots. snd (saved_of labels r) = None \<and> fst (saved_of labels r) \<noteq> Some [] \<and>
      (isKubeCrush r \<or> fst (saved_of labels r) = None)"
  shows "map_of (fst (buildNodeLabels (fst (buildNodeLabels labels roles topo)) [] [])) = map_of labels"
proof (rule labels_eqI)
  fix r
  assume "r \<in> set CephDaemonKeys"
  with assms show "map_of (fst (buildNodeLabels (fst (buildNodeLabels labels roles topo)) [] [])) (CephNodeLabel r) =
      map_of labels (CephNodeLabel r)"
    by (simp add: buildNodeLabels_role wf_buildNodeLabels wanted_role_def role_labels_def)
next
  fix r
  assume "r \<in> crush_roots"
  with assms show "saved_of (fst (buildNodeLabels (fst (buildNodeLabels labels roles topo)) [] [])) r = saved_of labels r"
    by (simp add: buildNodeLabels_saved wf_buildNodeLabels) (metis wanted_topology_restored)
qed (simp add: assms wf_buildNodeLabels buildNodeLabels_other)

theorem node_labels_restored_witness:
  "map_of (fst (buildNodeLabels (fst (buildNodeLabels [(''topology.kubernetes.io/zone'', ''z1'')] [''mon''] [(''zone'', ''z2'')])) [] [])) =
   map_of [(''topology.kubernetes.io/zone'', ''z1'')]"
  by (rule node_labels_restored)
    (simp_all add: valid_topology_def crush_roots_eq role_labels_def CephDaemonKeys_def CephNodeLabel_def saved_of_def
      topology_of_def crushTopologyAllowedKeys_def prev_label_def isKubeCrush_def get_or_def)

section \<open>The OSD label\<close>

lemma nodesRoles_topology:
  assumes "distinct (map (cn_Name \<circ> dn_Node) nodes)"
    and "map_of (fold (\<lambda>node m. if IsCephOsdNode (dn_Node node) then AList.update (cn_Name (dn_Node node)) (dn_Crush node) m else m) nodes m1) name \<noteq> None"
    and "map_of m1 name \<noteq> None \<Longrightarrow> ''osd'' \<in> set (get_or [] m2 name) \<and> name \<notin> (cn_Name \<circ> dn_Node) ` set nodes"
  shows "''osd'' \<in> set (get_or [] (fold (\<lambda>node. AList.update (cn_Name (dn_Node node))
     (if IsCephOsdNode (dn_Node node) then dn_Roles node @ [''osd''] else dn_Roles node)) nodes m2) name)"
  using assms
proof (induction nodes arbitrary: m1 m2)
  case (Cons node nodes)
  show ?case
    unfolding fold_simps o_def
    by (rule Cons.IH [where ?m1.0 = "if IsCephOsdNode (dn_Node node) then AList.update (cn_Name (dn_Node node)) (dn_Crush node) m1 else m1"])
      (use Cons.prems in \<open>auto simp: get_or_def update_conv' split: if_splits\<close>)
qed simp

text \<open>A storage node of the specification has the OSD role.\<close>

lemma storage_node_has_role:
  assumes "distinct (map (cn_Name \<circ> dn_Node) nodes)" and "map_of (nodesCrushTopology nodes) name \<noteq> None"
  shows "''osd'' \<in> set (get_or [] (nodesRoles nodes) name)"
  using nodesRoles_topology [of nodes "[]" name "[]"] assms by (simp add: nodesRoles_def nodesCrushTopology_def)

text \<open>The listing right before shows that no OSD is left on the node.\<close>

definition no_osds_left :: "deployEnv \<Rightarrow> cephDeploymentConfig \<Rightarrow> string \<Rightarrow> hist \<Rightarrow> bool" where
  "no_osds_left D c name h \<longleftrightarrow> (\<exists>h1. h = h1 @ [Manage (ListDeployments (rook_ns c) (osd_selector name))] \<and>
     de_ListDeployments D h1 (rook_ns c) (osd_selector name) = Inr [])"

definition keeps_osd_label :: "deployEnv \<Rightarrow> cephDeploymentConfig \<Rightarrow> KubeNode list \<Rightarrow> hist \<Rightarrow> call \<Rightarrow> bool" where
  "keeps_osd_label D c nodes h call \<longleftrightarrow> (\<forall>new. call = Manage (UpdateNode new) \<longrightarrow> map_of (kn_Labels new) (CephNodeLabel ''osd'') = None \<longrightarrow>
     (\<exists>node \<in> set nodes. kn_Name node = kn_Name new \<and> map_of (kn_Labels node) (CephNodeLabel ''osd'') = None) \<or>
     no_osds_left D c (kn_Name new) h)"

lemma roles_to_keep_triple:
  assumes "distinct (map (cn_Name \<circ> dn_Node) (expanded c))"
  shows "triple (\<lambda>_. True) (keeps_osd_label D c nodes) (roles_to_keep D c node)
    (\<lambda>r h. \<forall>roles. r = Some roles \<longrightarrow> ''osd'' \<in> set roles \<or> map_of (kn_Labels node) (CephNodeLabel ''osd'') = None \<or>
       no_osds_left D c (kn_Name node) h)"
proof (cases "map_of (kn_Labels node) (CephNodeLabel ''osd'') \<noteq> None \<and> map_of (nodesCrushTopology (expanded c)) (kn_Name node) = None")
  case True
  show ?thesis
    unfolding roles_to_keep_def Let_def if_P [OF True]
    by (rule triple_bind [where M = "\<lambda>r h. r = Inr [] \<longrightarrow> no_osds_left D c (kn_Name node) h"])
      (auto intro!: triple_intro simp: keeps_osd_label_def no_osds_left_def split: sum.splits)
next
  case False
  with storage_node_has_role [OF assms, of "kn_Name node"] show ?thesis
    unfolding roles_to_keep_def Let_def if_not_P [OF False] by (auto intro!: triple_intro)
qed

lemma label_step_triple:
  assumes "distinct (map (cn_Name \<circ> dn_Node) (expanded c))" and node: "node \<in> set nodes" and "wf_map (kn_Labels node)"
    and "valid_topology (get_or [] (nodesCrushTopology (expanded c)) (kn_Name node))"
  shows "triple (\<lambda>_. True) (keeps_osd_label D c nodes) (label_step D c node st) (\<lambda>_ _. True)"
  unfolding label_step_def
proof (rule triple_bind [OF roles_to_keep_triple [OF assms(1)]], rule triple_option)
  fix roles :: "string list" and r
  let ?topo = "get_or [] (nodesCrushTopology (expanded c)) (kn_Name node)"
  assume r: "r = Some roles"
  have label: "map_of (fst (buildNodeLabels (kn_Labels node) roles ?topo)) (CephNodeLabel ''osd'') = wanted_role roles ''osd''"
    by (rule buildNodeLabels_role) (use assms in \<open>simp_all add: CephDaemonKeys_def\<close>)
  show "triple (\<lambda>h. \<forall>roles. r = Some roles \<longrightarrow> ''osd'' \<in> set roles \<or> map_of (kn_Labels node) (CephNodeLabel ''osd'') = None \<or>
      no_osds_left D c (kn_Name node) h) (keeps_osd_label D c nodes)
      (set_labels D node (buildNodeLabels (kn_Labels node) roles ?topo) st) (\<lambda>_ _. True)"
    unfolding set_labels_def Let_def split_beta update_node_def
    by (rule triple_if; (rule triple_bind [where M = "\<lambda>_ _. True"])?)
      (use r label node in \<open>auto intro!: triple_intro simp: keeps_osd_label_def wanted_role_def split: if_splits\<close>)
qed (auto intro!: triple_intro)

text \<open>C15. Labelling the nodes takes the OSD label from a node that carries it only right after a listing has
  shown that Rook runs no OSD there any more.\<close>

theorem osd_label_kept_while_used:
  assumes "distinct (map (cn_Name \<circ> dn_Node) (expanded c))"
    and "e_ListNodes (de_env D) h = Inr nodes"
    and "\<forall>node \<in> set nodes. wf_map (kn_Labels node) \<and> valid_topology (get_or [] (nodesCrushTopology (expanded c)) (kn_Name node))"
    and "snd (run_state (ensureLabelNodes D c) h) = h @ xs @ Manage (UpdateNode new) # ys"
    and "map_of (kn_Labels new) (CephNodeLabel ''osd'') = None"
    and "\<forall>node \<in> set nodes. kn_Name node = kn_Name new \<longrightarrow> map_of (kn_Labels node) (CephNodeLabel ''osd'') \<noteq> None"
  shows "no_osds_left D c (kn_Name new) (h @ xs)"
proof -
  let ?h = "h @ [ListNodes]"
  have run: "snd (run_state (ensureLabelNodes D c) h) = snd (run_state (for_each (label_step D c) nodes (0, False)) ?h)"
    using assms(2) by (simp add: ensureLabelNodes_def GetNodeList_def split_beta)
  have loop: "triple (\<lambda>_. True) (keeps_osd_label D c nodes) (for_each (label_step D c) nodes (0, False)) (\<lambda>_ _. True)"
    by (rule triple_for_each, rule label_step_triple) (use assms in auto)
  then obtain cs where cs: "snd (run_state (for_each (label_step D c) nodes (0, False)) ?h) = ?h @ cs"
    unfolding triple_def by blast
  with run assms(4) obtain zs where xs: "xs = ListNodes # zs" by (cases xs) auto
  have "keeps_osd_label D c nodes (?h @ zs) (Manage (UpdateNode new))"
    by (rule triple_call [OF loop, where ys = ys]) (use run assms(4) xs in auto)
  with assms(5,6) xs show ?thesis by (auto simp: keeps_osd_label_def)
qed

definition dv_used_node :: KubeNode where
  "dv_used_node = dv_kube_node\<lparr>kn_Name := ''node-b'', kn_Labels := [(CephNodeLabel ''osd'', ''true'')]\<rparr>"

definition dv_label_env :: deployEnv where
  "dv_label_env = dv_env\<lparr>de_env := (de_env dv_env)\<lparr>e_ListNodes := \<lambda>_. Inr [dv_used_node]\<rparr>\<rparr>"

theorem osd_label_kept_while_used_witness:
  "no_osds_left dv_label_env dv_config ''node-b'' [ListNodes, Manage (ListDeployments ''rook'' (osd_selector ''node-b''))]"
proof -
  have run: "snd (run_state (ensureLabelNodes dv_label_env dv_config) []) =
      [ListNodes, Manage (ListDeployments ''rook'' (osd_selector ''node-b'')), Manage (UpdateNode (dv_used_node\<lparr>kn_Labels := []\<rparr>))]"
    by code_simp
  have names: "kn_Name dv_used_node = ''node-b''" "map_of (kn_Labels dv_used_node) (CephNodeLabel ''osd'') \<noteq> None"
      "wf_map (kn_Labels dv_used_node)" "map_of (nodesCrushTopology (expanded dv_config)) ''node-b'' = None"
      "distinct (map (cn_Name \<circ> dn_Node) (expanded dv_config))"
    by code_simp+
  show ?thesis
    using osd_label_kept_while_used [of dv_config dv_label_env "[]" "[dv_used_node]"
      "[ListNodes, Manage (ListDeployments ''rook'' (osd_selector ''node-b''))]" "dv_used_node\<lparr>kn_Labels := []\<rparr>" "[]"] run names
    by (simp add: dv_label_env_def get_or_def)
qed

end
