(* ===== verification/Deploy_Version_Theorems.thy ===== *)
theory Deploy_Version_Theorems
  imports Deploy_Scenario
begin

text \<open>
  Properties of the handling of Ceph versions: which versions are read, which one counts as the version of
  the cluster, and when the image of the cluster is changed.
\<close>

section \<open>Reading versions\<close>

lemma digits_then_append:
  assumes "list_all is_digit ds" and "ds \<noteq> []" and "sep = [] \<Longrightarrow> rest = [] \<or> \<not> is_digit (hd rest)"
    and "sep \<noteq> [] \<Longrightarrow> \<not> is_digit (hd sep)"
  shows "digits_then sep (ds @ sep @ rest) = Some (ds, rest)"
proof -
  have "takeWhile is_digit (sep @ rest) = []" and "dropWhile is_digit (sep @ rest) = sep @ rest"
    using assms(3,4) by (cases "sep @ rest"; cases sep; auto simp: dropWhile_eq_self_iff takeWhile_eq_Nil_iff)+
  with assms(1,2) show ?thesis
    by (simp add: digits_then_def takeWhile_append2 dropWhile_append2 HasPrefix_def list_all_iff Let_def)
qed

lemma match_version_text:
  assumes "list_all is_digit a" "a \<noteq> []" "list_all is_digit b" "b \<noteq> []" "list_all is_digit m" "m \<noteq> []"
    and "rest = [] \<or> \<not> is_digit (hd rest)"
  shows "match_version (''ceph version '' @ a @ ''.'' @ b @ ''.'' @ m @ rest) = Some (a, b, m)"
proof -
  have dot: "\<not> is_digit (hd ''.'')" by (simp add: is_digit_def less_eq_char_def)
  have "digits_then ''.'' (a @ ''.'' @ b @ ''.'' @ m @ rest) = Some (a, b @ ''.'' @ m @ rest)"
    "digits_then ''.'' (b @ ''.'' @ m @ rest) = Some (b, m @ rest)" "digits_then [] (m @ [] @ rest) = Some (m, rest)"
    by (rule digits_then_append; use assms dot in simp)+
  then show ?thesis by (simp add: match_version_def HasPrefix_def)
qed

lemma find_version_text:
  "match_version s = Some r \<Longrightarrow> find_version s = Some r"
  by (cases s) (auto simp: match_version_def HasPrefix_def)

lemma ParseCephVersion_text:
  assumes "rest = [] \<or> \<not> is_digit (hd rest)" and "list_all is_digit a" and "a \<noteq> []" and "is_digit d" and "Atoi [d] = Inr minor"
    and "find (\<lambda>supported. ver_MajorVersion supported = ''v'' @ a @ ''.2'') AvailableCephVersions = Some release"
    and "Contains (ver_SupportedMinors release) minor"
  shows "ParseCephVersion (''ceph version '' @ a @ ''.'' @ ''2'' @ ''.'' @ [d] @ rest) =
    Inr (release\<lparr>ver_MinorVersion := minor, ver_SupportedMinors := []\<rparr>)"
proof -
  have "find_version (''ceph version '' @ a @ ''.'' @ ''2'' @ ''.'' @ [d] @ rest) = Some (a, ''2'', [d])"
    by (rule find_version_text, rule match_version_text) (use assms in \<open>simp_all add: is_digit_def\<close>)
  moreover from assms(6) have "ver_MajorVersion release = ''v'' @ a @ ''.2''" by (auto simp: find_Some_iff)
  ultimately show ?thesis using assms by (simp add: ParseCephVersion_def)
qed

text \<open>The output of \<^verbatim>\<open>ceph --version\<close> of every supported version is read back as that version, whatever
  follows the number (the build and the release name).\<close>

theorem supported_versions_read:
  assumes "release \<in> set AvailableCephVersions" and "minor \<in> set (ver_SupportedMinors release)"
    and "rest = [] \<or> \<not> is_digit (hd rest)"
  shows "ParseCephVersion (''ceph version '' @ tl (ver_MajorVersion release) @ ''.'' @ show_int minor @ rest) =
    Inr (release\<lparr>ver_MinorVersion := minor, ver_SupportedMinors := []\<rparr>)"
proof -
  let ?a = "take 2 (tl (ver_MajorVersion release))"
  have major: "tl (ver_MajorVersion release) = ?a @ ''.2''" "list_all is_digit ?a" "?a \<noteq> []"
    "find (\<lambda>supported. ver_MajorVersion supported = ''v'' @ ?a @ ''.2'') AvailableCephVersions = Some release"
    using assms(1) by (auto simp: AvailableCephVersions_def Tentacle_def Squid_def is_digit_def)
  have "minor \<in> {0, 1, 2, 3, 4, 5, 6, 7}" "Contains (ver_SupportedMinors release) minor"
    using assms(1,2) by (auto simp: AvailableCephVersions_def Tentacle_def Squid_def)
  moreover from this(1) obtain d where "show_int minor = [d]" "is_digit d" "Atoi [d] = Inr minor"
    by (auto simp: show_int_def show_pos.simps digit_def digits10_def is_digit_def Atoi_def HasPrefix_def digit_value_def of_char_def)
  ultimately show ?thesis
    using ParseCephVersion_text [OF assms(3) major(2,3) _ _ major(4)] by (subst major(1)) simp
qed

theorem supported_versions_read_witness:
  "ParseCephVersion ''ceph version 19.2.3 (abc) squid (stable)'' = Inr (Squid\<lparr>ver_MinorVersion := 3, ver_SupportedMinors := []\<rparr>)"
  using supported_versions_read [of Squid 3 "'' (abc) squid (stable)''"]
  by (simp add: AvailableCephVersions_def Squid_def is_digit_def show_int_def show_pos.simps digit_def digits10_def)

section \<open>The version of the cluster\<close>

lemma cluster_versions_acc:
  assumes "cluster_versions vs cur st = Inr (r, st')"
  shows "\<exists>ps. map ParseCephVersion vs = map Inr ps \<and> st' = st @ map show_version ps \<and>
    (r = None \<longleftrightarrow> cur = None \<and> ps = []) \<and>
    (\<forall>v. r = Some v \<longrightarrow> v \<in> set_option cur \<union> set ps \<and> (\<forall>w \<in> set_option cur \<union> set ps. ver_Order v \<le> ver_Order w))"
  using assms
proof (induction vs cur st rule: cluster_versions.induct)
  case (2 version versions cur st)
  then obtain p where p: "ParseCephVersion version = Inr p" by (cases "ParseCephVersion version") auto
  let ?cur = "case cur of None \<Rightarrow> Some p | Some v \<Rightarrow> if ver_Order v > ver_Order p then Some p else Some v"
  from 2 p obtain ps where ps: "map ParseCephVersion versions = map Inr ps" "st' = (st @ [show_version p]) @ map show_version ps"
    "r = None \<longleftrightarrow> ?cur = None \<and> ps = []"
    "\<forall>v. r = Some v \<longrightarrow> v \<in> set_option ?cur \<union> set ps \<and> (\<forall>w \<in> set_option ?cur \<union> set ps. ver_Order v \<le> ver_Order w)"
    by fastforce
  show ?case
    by (rule exI [of _ "p # ps"]) (use ps p in \<open>cases cur; fastforce split: if_splits\<close>)
qed auto

text \<open>The version of the cluster is the lowest among those its daemons report, so that an upgrade which
  is under way is not taken for finished; all of them appear in the status, and a version that is not
  supported makes the run fail.\<close>

theorem cluster_version_lowest:
  assumes "cluster_versions versions None [] = Inr (r, status)"
  shows "\<exists>parsed. map ParseCephVersion versions = map Inr parsed \<and> status = map show_version parsed \<and> (r = None \<longleftrightarrow> versions = []) \<and>
    (\<forall>v. r = Some v \<longrightarrow> v \<in> set parsed \<and> (\<forall>w \<in> set parsed. ver_Order v \<le> ver_Order w))"
proof -
  from cluster_versions_acc [OF assms] obtain ps where "map ParseCephVersion versions = map Inr ps" "status = map show_version ps"
    "r = None \<longleftrightarrow> ps = []" "\<forall>v. r = Some v \<longrightarrow> v \<in> set ps \<and> (\<forall>w \<in> set ps. ver_Order v \<le> ver_Order w)" by auto
  moreover from this(1) have "ps = [] \<longleftrightarrow> versions = []" by (metis map_is_Nil_conv)
  ultimately show ?thesis by blast
qed

theorem cluster_version_lowest_witness:
  "\<exists>parsed. map ParseCephVersion [''ceph version 20.2.1'', ''ceph version 19.2.3''] = map Inr parsed \<and>
     (\<forall>w \<in> set parsed. (19::int) \<le> ver_Order w)"
proof -
  have "cluster_versions [''ceph version 20.2.1'', ''ceph version 19.2.3''] None [] =
      Inr (Some (Squid\<lparr>ver_MinorVersion := 3, ver_SupportedMinors := []\<rparr>), [''v20.2.1'', ''v19.2.3''])"
    by code_simp
  from cluster_version_lowest [OF this] obtain parsed
    where parsed: "map ParseCephVersion [''ceph version 20.2.1'', ''ceph version 19.2.3''] = map Inr parsed"
      "\<forall>v. Some (Squid\<lparr>ver_MinorVersion := 3, ver_SupportedMinors := []\<rparr>) = Some v \<longrightarrow> (\<forall>w \<in> set parsed. ver_Order v \<le> ver_Order w)"
    by blast
  from parsed(2) have "\<forall>w \<in> set parsed. (19::int) \<le> ver_Order w" by (simp add: Squid_def)
  with parsed(1) show ?thesis by blast
qed

section \<open>The image of the cluster\<close>

abbreviation configured_image :: "cephDeploymentConfig \<Rightarrow> string" where
  "configured_image c \<equiv> dp_CephImage (lc_DeployParams (dpc_lcmConfig c))"

text \<open>The configured image contains the release that the configuration names, at most one release newer
  than the cluster and not older; and it has the version of the cluster, or OpenStack allows an upgrade.\<close>

definition upgrade_ok :: "deployEnv \<Rightarrow> cephDeploymentConfig \<Rightarrow> CephVersion option \<Rightarrow> bool" where
  "upgrade_ok D c current \<longleftrightarrow> (\<exists>h1 new release.
     fst (run_state (getCephVersionFromImage D c (configured_image c)) h1) = Inr new \<and>
     GetCephVersionByReleaseName (dp_CephRelease (lc_DeployParams (dpc_lcmConfig c))) = Inr release \<and> ver_Name new = ver_Name release \<and>
     (\<forall>v. current = Some v \<longrightarrow> ver_Order v \<le> ver_Order new \<and> ver_Order new \<le> ver_Order v + 1 \<and>
        (ver_Order new = ver_Order v \<and> ver_MinorVersion new = ver_MinorVersion v \<or>
         (\<exists>h2. fst (run_state (cephUpgradeAllowed D) h2) = Inr True))))"

lemma upgrade_okI:
  assumes "fst (run_state (getCephVersionFromImage D c (configured_image c)) h1) = Inr new"
    and "GetCephVersionByReleaseName (dp_CephRelease (lc_DeployParams (dpc_lcmConfig c))) = Inr release" and "ver_Name new = ver_Name release"
    and "\<And>v. current = Some v \<Longrightarrow> ver_Order v \<le> ver_Order new \<and> ver_Order new \<le> ver_Order v + 1 \<and>
        (ver_Order new = ver_Order v \<and> ver_MinorVersion new = ver_MinorVersion v \<or> fst (run_state (cephUpgradeAllowed D) h2) = Inr True)"
  shows "upgrade_ok D c current"
  unfolding upgrade_ok_def
  by (intro exI [of _ h1] exI [of _ new] exI [of _ release] conjI allI impI assms(1-3)) (use assms(4) in blast)+

lemma verify_new_image_ok:
  assumes "fst (run_state (verify_new_image D c current img st) h) = Inr (v, chosen, st', aes)" and "chosen \<noteq> img"
  shows "chosen = configured_image c \<and> upgrade_ok D c current \<and> (current \<noteq> None \<longrightarrow> v = current)"
proof -
  obtain release where release: "GetCephVersionByReleaseName (dp_CephRelease (lc_DeployParams (dpc_lcmConfig c))) = Inr release"
    using assms(1) by (cases "GetCephVersionByReleaseName (dp_CephRelease (lc_DeployParams (dpc_lcmConfig c)))")
      (auto simp: verify_new_image_def Let_def)
  obtain r h1 where r: "run_state (getCephVersionFromImage D c (configured_image c)) h = (r, h1)" by fastforce
  obtain new where new: "r = Inr new" "ver_Name new = ver_Name release"
    using assms(1) r release by (cases r) (auto simp: verify_new_image_def Let_def split: if_splits)
  obtain u h2 where u: "run_state (cephUpgradeAllowed D) h1 = (u, h2)" by fastforce
  show ?thesis
  proof (cases current)
    case None
    with assms r release new have "chosen = configured_image c" by (simp add: verify_new_image_def Let_def)
    with None r release new show ?thesis by (auto intro: upgrade_okI [of D c h])
  next
    case (Some cur)
    with assms r release new u have *: "chosen = configured_image c" "ver_Order cur \<le> ver_Order new" "ver_Order new \<le> ver_Order cur + 1" "v = Some cur"
      "ver_Order new = ver_Order cur \<and> ver_MinorVersion new = ver_MinorVersion cur \<or> u = Inr True"
      by (auto simp: verify_new_image_def Let_def split: if_splits sum.splits)
    with Some r release new u show ?thesis by (auto intro: upgrade_okI [of D c h _ _ _ h1])
  qed
qed

lemma verify_current_ok:
  assumes "fst (run_state (verify_current D c current img st) h) = Inr (v, chosen, st', aes)" and "chosen \<noteq> img"
  shows "chosen = configured_image c \<and> upgrade_ok D c current \<and> (if current = None then img = [] else v = current)"
  using assms verify_new_image_ok [OF _ assms(2)]
  by (auto simp: verify_current_def split_beta split: if_splits option.splits sum.splits)


definition dv_upgrade_config :: cephDeploymentConfig where
  "dv_upgrade_config = dv_config\<lparr>dpc_lcmConfig := sc_params\<lparr>lc_DeployParamsPtr := Some ((lc_DeployParams sc_params)\<lparr>dp_CephImage := ''ceph:v19.2.4''\<rparr>)\<rparr>\<rparr>"

definition dv_upgrade_env :: deployEnv where
  "dv_upgrade_env = dv_env\<lparr>de_env := (de_env dv_env)\<lparr>e_Exec := \<lambda>_ _ _ _ _. (''ceph version 19.2.4 squid'', [], None)\<rparr>\<rparr>"


section \<open>The deployment that reads the version of an image\<close>

text \<open>Once the deployment that reads the version of an image exists with another image, and the API server
  rejects updates through the client of another namespace than the object's, reading a version fails
  whenever the \<^verbatim>\<open>CephDeployment\<close> is not in the namespace of Rook: the deployment lives in the former and is
  updated through the latter.\<close>

theorem version_check_update_rejected:
  assumes rejected: "\<forall>h ns d. ns \<noteq> ad_Namespace d \<longrightarrow> de_UpdateDeployment D h ns d \<noteq> None"
    and "cdp_Namespace (dpl_of c) \<noteq> rook_ns c"
    and "de_GetDeployment D h (cdp_Namespace (dpl_of c)) pelagiaVersionCheckDpl = Inr check"
    and "ad_Namespace check = cdp_Namespace (dpl_of c)"
    and "map dc_Image (dsp_Containers (ad_Spec check)) \<noteq> [targetImage]"
  shows "\<exists>err. fst (run_state (getCephVersionFromImage D c targetImage) h) = Inl err"
proof -
  have "ad_Spec check \<noteq> (version_check_spec targetImage)\<lparr>dsp_SchedulerName := dsp_SchedulerName (ad_Spec check)\<rparr>"
    (is "_ \<noteq> ?new")
  proof
    assume "ad_Spec check = ?new"
    then have "dsp_Containers (ad_Spec check) = dsp_Containers ?new" by (rule arg_cong)
    with assms(5) show False by (simp add: version_check_spec_def)
  qed
  note differs = this
  have "de_UpdateDeployment D h' (rook_ns c) (check\<lparr>ad_Spec := spec\<rparr>) \<noteq> None" for h' spec
    using rejected assms(2,4) by simp
  moreover define e where "e h' spec = the (de_UpdateDeployment D h' (rook_ns c) (check\<lparr>ad_Spec := spec\<rparr>))" for h' spec
  ultimately have "de_UpdateDeployment D h' (rook_ns c) (check\<lparr>ad_Spec := spec\<rparr>) = Some (e h' spec)" for h' spec by simp
  with differs assms(3) have "fst (run_state (prepareVersionCheckDeployment D c targetImage) h) \<noteq> None"
    by (auto simp: prepareVersionCheckDeployment_def apply_version_check_def get_deployment_def Let_def split: sum.splits option.splits)
  then show ?thesis
    by (cases "run_state (prepareVersionCheckDeployment D c targetImage) h") (auto simp: getCephVersionFromImage_def)
qed

definition dv_strict_env :: deployEnv where
  "dv_strict_env = dv_env\<lparr>de_UpdateDeployment := \<lambda>_ ns d. if ns = ad_Namespace d then None else Some (ApiError ''namespace mismatch'')\<rparr>"

theorem version_check_update_rejected_witness:
  "\<exists>err. fst (run_state (getCephVersionFromImage dv_strict_env dv_config ''ceph:v19.2.4'') []) = Inl err"
  by (rule version_check_update_rejected [where check = "dv_app ''pelagia'' pelagiaVersionCheckDpl"])
    (simp_all add: dv_strict_env_def dv_env_def dv_config_def new_config_def dv_dpl_def sc_params_def dv_app_def version_check_spec_def Let_def)

end
