(* ===== verification/Deploy_Evict_Theorems.thy ===== *)
theory Deploy_Evict_Theorems
  imports Deploy_Scenario
begin

text \<open>
  Properties of the eviction of CSI pods from nodes: what was seen before a node loses the label that admits
  the CSI daemon sets, and before it is marked as ready to be drained.
\<close>

section \<open>What was seen last\<close>

text \<open>The last call was a listing of the CSI pods that shows none on the node.\<close>

definition csi_absent :: "deployEnv \<Rightarrow> cephDeploymentConfig \<Rightarrow> string \<Rightarrow> hist \<Rightarrow> bool" where
  "csi_absent D c name h \<longleftrightarrow> (\<exists>h1 pods. h = h1 @ [ListPods (rook_ns c) csi_selector []] \<and>
     de_ListPodsOnNodes D h1 (rook_ns c) csi_selector = Inr pods \<and> name \<notin> fst ` set pods)"

text \<open>The last call was a listing of the volume attachments that shows no RBD volume on the node.\<close>

definition no_attachments :: "deployEnv \<Rightarrow> string \<Rightarrow> hist \<Rightarrow> bool" where
  "no_attachments D name h \<longleftrightarrow> (\<exists>h1 vas. h = h1 @ [Manage ListVolumeAttachments] \<and>
     de_ListVolumeAttachments D h1 = Inr vas \<and> list_all (\<lambda>va. \<not> is_rbd_attachment name va) vas)"

text \<open>A node is written right after it was read; the label is dropped and the mark is set only after the
  corresponding listing.\<close>

definition careful :: "deployEnv \<Rightarrow> cephDeploymentConfig \<Rightarrow> hist \<Rightarrow> call \<Rightarrow> bool" where
  "careful D c h call \<longleftrightarrow> (\<forall>new. call = Manage (UpdateNode new) \<longrightarrow>
     (\<exists>h1 old. h = h1 @ [GetKubeNode (kn_Name new)] \<and> e_GetNode (de_env D) h1 (kn_Name new) = Inr old \<and>
        (map_of (kn_Labels old) cephDaemonsetLabel \<noteq> None \<and> map_of (kn_Labels new) cephDaemonsetLabel = None \<longrightarrow>
           csi_absent D c (kn_Name new) h1 \<or> no_attachments D (kn_Name new) h1) \<and>
        (str_of (kn_Annotations new) (drain_ready_key c) = ''true'' \<and> str_of (kn_Annotations old) (drain_ready_key c) \<noteq> ''true'' \<longrightarrow>
           csi_absent D c (kn_Name new) h1)))"

definition gets_named :: "deployEnv \<Rightarrow> bool" where
  "gets_named D \<longleftrightarrow> (\<forall>h name node. e_GetNode (de_env D) h name = Inr node \<longrightarrow> kn_Name node = name)"

lemma carefulD:
  "careful D c h (Manage (UpdateNode new)) \<Longrightarrow>
     \<exists>h1 old. h = h1 @ [GetKubeNode (kn_Name new)] \<and> e_GetNode (de_env D) h1 (kn_Name new) = Inr old \<and>
        (map_of (kn_Labels old) cephDaemonsetLabel \<noteq> None \<and> map_of (kn_Labels new) cephDaemonsetLabel = None \<longrightarrow>
           csi_absent D c (kn_Name new) h1 \<or> no_attachments D (kn_Name new) h1) \<and>
        (str_of (kn_Annotations new) (drain_ready_key c) = ''true'' \<and> str_of (kn_Annotations old) (drain_ready_key c) \<noteq> ''true'' \<longrightarrow>
           csi_absent D c (kn_Name new) h1)"
  by (simp add: careful_def)

text \<open>Calls other than writing a node.\<close>

lemma careful_other: "(\<And>new. call \<noteq> Manage (UpdateNode new)) \<Longrightarrow> careful D c h call"
  by (simp add: careful_def)

lemma careful_calls:
  "calls_in (\<lambda>call. \<forall>new. call \<noteq> Manage (UpdateNode new)) m \<Longrightarrow> triple (\<lambda>_. True) (careful D c) m (\<lambda>_ _. True)"
  by (erule triple_calls) (simp add: careful_def)

section \<open>Triples\<close>

lemma run_in_csi_pod_triple: "triple (\<lambda>_. True) (careful D c) (run_in_csi_pod D pod command) (\<lambda>_ _. True)"
  by (rule careful_calls) (auto simp: run_in_csi_pod_def intro!: calls_intro split: option.splits)

lemma getCSIPodForNode_triple:
  "triple (\<lambda>_. True) (careful D c) (getCSIPodForNode D c name) (\<lambda>r h. r = Inr None \<longrightarrow> csi_absent D c name h)"
  unfolding getCSIPodForNode_def list_csi_pods_def
  by (rule triple_bind [where M = "\<lambda>r h. \<forall>pods. r = Inr pods \<longrightarrow> name \<notin> fst ` set pods \<longrightarrow> csi_absent D c name h"])
    (auto intro!: triple_intro simp: careful_def csi_absent_def find_None_iff split: sum.splits)

lemma mounts_triple: "triple (\<lambda>_. True) (careful D c) (verifyRBDVolumesMounts D name pod um) (\<lambda>r _. um \<longrightarrow> r \<noteq> Inr True)"
proof -
  have "triple (\<lambda>_. True) (careful D c) (mounts_attempt D pod um) (\<lambda>r _. um \<longrightarrow> r \<noteq> Some True)"
    unfolding mounts_attempt_def
    by (rule triple_bind [OF run_in_csi_pod_triple])
      (auto intro!: triple_intro triple_bind [where M = "\<lambda>_ _. True"] triple_for_each [where I = "\<lambda>_ _. True"]
        triple_bind [OF run_in_csi_pod_triple] split: prod.splits if_splits)
  then have "triple (\<lambda>_. True) (careful D c) (poll_until D csiPollInterval (mounts_attempt D pod um)) (\<lambda>r _. um \<longrightarrow> r \<noteq> Some True)"
    by (rule triple_poll_until) (simp add: careful_def)
  then show ?thesis
    unfolding verifyRBDVolumesMounts_def by (rule triple_bind) (auto intro!: triple_intro split: option.splits)
qed

lemma attachments_triple:
  "triple (\<lambda>_. True) (careful D c) (verifyRBDVolumeAttachments D name um)
     (\<lambda>r h. (um \<longrightarrow> r \<noteq> Inr True) \<and> (r = Inr False \<longrightarrow> no_attachments D name h))"
proof -
  have attempt: "triple (\<lambda>_. True) (careful D c) (attachments_attempt D name um)
      (\<lambda>r h. (um \<longrightarrow> r \<noteq> Some True) \<and> (r = Some False \<longrightarrow> no_attachments D name h))"
    unfolding attachments_attempt_def
  proof (rule triple_bind [where M = "\<lambda>r h. \<forall>vas. r = Inr vas \<longrightarrow> filter (is_rbd_attachment name) vas = [] \<longrightarrow> no_attachments D name h"], goal_cases)
    case 1
    show ?case by (auto intro!: triple_intro simp: careful_def no_attachments_def filter_empty_conv list_all_iff)
  next
    case (2 r)
    show ?case
    proof (rule triple_sum, goal_cases)
      case (2 vas)
      show ?case
      proof (cases "filter (is_rbd_attachment name) vas = []")
        case True
        with 2 show ?thesis by (cases um) (simp_all add: triple_def)
      next
        case False
        have "triple (\<lambda>_. True) (careful D c) (for_each (\<lambda>va _. do {
            _ \<leftarrow> manage (DeleteVolumeAttachment (va_Name va)) (\<lambda>h. de_DeleteVolumeAttachment D h (va_Name va));
            State_Monad.return () }) (filter (is_rbd_attachment name) vas) ()) (\<lambda>_ _. True)"
          by (rule careful_calls) (auto intro!: calls_intro)
        then have "triple (\<lambda>_. True) (careful D c) (if um then for_each (\<lambda>va _. do {
            _ \<leftarrow> manage (DeleteVolumeAttachment (va_Name va)) (\<lambda>h. de_DeleteVolumeAttachment D h (va_Name va));
            State_Monad.return () }) (filter (is_rbd_attachment name) vas) () else State_Monad.return ()) (\<lambda>_ _. True)"
          by (auto intro: triple_return)
        then show ?thesis
          unfolding Let_def by (rule triple_pre [OF triple_bind]) (use False in \<open>auto intro!: triple_intro\<close>)
      qed
    qed (auto intro!: triple_intro)
  qed
  then have "triple (\<lambda>_. True) (careful D c) (poll_until D csiPollInterval (attachments_attempt D name um))
      (\<lambda>r h. (um \<longrightarrow> r \<noteq> Some True) \<and> (r = Some False \<longrightarrow> no_attachments D name h))"
    by (rule triple_poll_until) (simp add: careful_def)
  then show ?thesis
    unfolding verifyRBDVolumeAttachments_def by (rule triple_bind) (auto intro!: triple_intro split: option.splits)
qed

lemma checkCSIVolumes_triple:
  "triple (\<lambda>_. True) (careful D c) (checkCSIVolumes D c name um)
     (\<lambda>r h. (um \<longrightarrow> r \<noteq> Inr True) \<and> (r = Inr False \<longrightarrow> csi_absent D c name h \<or> no_attachments D name h))"
proof -
  have "triple (\<lambda>_. True) (careful D c) (volumes_attempt D c name um)
     (\<lambda>r h. (um \<longrightarrow> r \<noteq> Some True) \<and> (r = Some False \<longrightarrow> csi_absent D c name h \<or> no_attachments D name h))"
    unfolding volumes_attempt_def
  proof (rule triple_bind [OF getCSIPodForNode_triple], rule triple_sum, goal_cases)
    case (2 r p)
    show ?case
    proof (rule triple_option, goal_cases)
      case (2 pod)
      show ?case
      proof (rule triple_pre [OF triple_bind [OF mounts_triple]], rule triple_sum, goal_cases)
        case (2 m found)
        show ?case
        proof (rule triple_and_pure [of _ "um \<longrightarrow> \<not> found"])
          assume "um \<longrightarrow> \<not> found"
          then show "triple (\<lambda>_. um \<longrightarrow> m \<noteq> Inr True) (careful D c) (do {
              a \<leftarrow> verifyRBDVolumeAttachments D name um;
              State_Monad.return (case a of Inl err \<Rightarrow> None | Inr foundAttachments \<Rightarrow> Some (found \<or> foundAttachments)) })
            (\<lambda>r h. (um \<longrightarrow> r \<noteq> Some True) \<and> (r = Some False \<longrightarrow> csi_absent D c name h \<or> no_attachments D name h))"
            by (intro triple_pre [OF triple_bind [OF attachments_triple]]) (auto intro!: triple_intro split: sum.splits)
        qed (use 2 in auto)
      qed (auto intro!: triple_intro)
    qed (use 2 in \<open>auto intro!: triple_intro\<close>)
  qed (auto intro!: triple_intro)
  then have "triple (\<lambda>_. True) (careful D c) (poll_until D csiPollInterval (volumes_attempt D c name um))
     (\<lambda>r h. (um \<longrightarrow> r \<noteq> Some True) \<and> (r = Some False \<longrightarrow> csi_absent D c name h \<or> no_attachments D name h))"
    by (rule triple_poll_until) (simp add: careful_def)
  then show ?thesis
    unfolding checkCSIVolumes_def by (rule triple_bind) (auto intro!: triple_intro split: option.splits)
qed

lemma waitForDaemonsetsPods_triple:
  "triple (\<lambda>_. True) (careful D c) (waitForDaemonsetsPods D c name False) (\<lambda>r h. r = None \<longrightarrow> csi_absent D c name h)"
proof -
  have "triple (\<lambda>_. True) (careful D c) (pods_attempt D c name False) (\<lambda>r h. r \<noteq> None \<longrightarrow> csi_absent D c name h)"
    unfolding pods_attempt_def list_csi_pods_def
    by (rule triple_bind [where M = "\<lambda>r h. \<forall>pods. r = Inr pods \<longrightarrow> name \<notin> fst ` set pods \<longrightarrow> csi_absent D c name h"])
      (auto intro!: triple_intro simp: careful_def csi_absent_def list_ex_iff split: sum.splits)
  then have "triple (\<lambda>_. True) (careful D c) (poll_until D waitForDaemonsetsPodsInterval (pods_attempt D c name False))
      (\<lambda>r h. r \<noteq> None \<longrightarrow> csi_absent D c name h)"
    by (rule triple_poll_until) (simp add: careful_def)
  then show ?thesis
    unfolding waitForDaemonsetsPods_def by (rule triple_bind) (auto intro!: triple_intro split: option.splits)
qed

lemma verifyCSIPodEvicted_triple: "triple (\<lambda>_. True) (careful D c) (verifyCSIPodEvicted D c name) (\<lambda>_ _. True)"
  by (rule careful_calls)
    (auto simp: verifyCSIPodEvicted_def getCSIPodForNode_def list_csi_pods_def intro!: calls_intro split: sum.splits option.splits)

text \<open>A node that is read and written with a change \<open>f\<close>.\<close>

lemma change_node_triple:
  assumes "gets_named D" and "\<And>node. kn_Name (f node) = kn_Name node" and "\<And>node. kn_Annotations (f node) = kn_Annotations node"
    and "\<And>node h. P h \<Longrightarrow> map_of (kn_Labels (f node)) cephDaemonsetLabel = None \<Longrightarrow> csi_absent D c name h \<or> no_attachments D name h"
  shows "triple P (careful D c) (change_node D name f) (\<lambda>_ _. True)"
  unfolding change_node_def GetNode_def update_node_def
proof (rule triple_bind [where M = "\<lambda>r h. \<exists>h1. P h1 \<and> h = h1 @ [GetKubeNode name] \<and> e_GetNode (de_env D) h1 name = r"], goal_cases)
  case (2 r)
  show ?case
  proof (rule triple_sum, goal_cases)
    case (2 node)
    show ?case
      by (rule triple_bind [where M = "\<lambda>_ _. True"]; (rule triple_manage | rule triple_return))
        (use 2 assms in \<open>(auto simp: careful_def gets_named_def; blast?)\<close>)
  qed (auto intro!: triple_intro)
qed (auto intro!: triple_intro simp: careful_def)

lemma mark_drained_triple:
  assumes "gets_named D"
  shows "triple (csi_absent D c name) (careful D c) (mark_drained D c name) (\<lambda>_ _. True)"
  unfolding mark_drained_def GetNode_def update_node_def
proof (rule triple_bind [where M = "\<lambda>r h. \<exists>h1. csi_absent D c name h1 \<and> h = h1 @ [GetKubeNode name] \<and> e_GetNode (de_env D) h1 name = r"], goal_cases)
  case (2 r)
  show ?case
  proof (rule triple_sum, goal_cases)
    case (2 node)
    show ?case
      by (rule triple_if; (rule triple_bind [where M = "\<lambda>_ _. True"])?; (rule triple_manage | rule triple_return))
        (use 2 assms in \<open>auto simp: careful_def gets_named_def\<close>)
  qed (auto intro!: triple_intro)
qed (auto intro!: triple_intro simp: careful_def)

lemma drop_label_triple:
  "gets_named D \<Longrightarrow> triple (\<lambda>h. csi_absent D c name h \<or> no_attachments D name h) (careful D c)
     (change_node D name drop_daemonset_label) (\<lambda>_ _. True)"
  by (rule change_node_triple) (simp_all add: drop_daemonset_label_def)

lemma exclude_node_triple:
  assumes "gets_named D"
  shows "triple (\<lambda>_. True) (careful D c) (exclude_node D c node) (\<lambda>_ _. True)"
  unfolding exclude_node_def
  by (rule triple_if; (rule triple_bind [OF checkCSIVolumes_triple])?;
      auto intro!: triple_intro triple_bind [OF triple_pre [OF drop_label_triple [OF assms]]])

lemma drain_node_triple:
  assumes "gets_named D"
  shows "triple (\<lambda>_. True) (careful D c) (drain_node D c node) (\<lambda>_ _. True)"
proof -
  have label: "triple (\<lambda>_. True) (careful D c) (if str_of (kn_Labels node) cephDaemonsetLabel \<noteq> [] then do {
          v \<leftarrow> checkCSIVolumes D c (kn_Name node) True;
          case v of
            Inl err \<Rightarrow> State_Monad.return False
          | Inr _ \<Rightarrow> change_node D (kn_Name node) drop_daemonset_label
        }
        else State_Monad.return True) (\<lambda>_ _. True)"
    by (rule triple_if; (rule triple_bind [OF checkCSIVolumes_triple])?;
        auto intro!: triple_intro triple_pre [OF drop_label_triple [OF assms]])
  have wait: "triple (\<lambda>_. True) (careful D c) (do {
         err' \<leftarrow> waitForDaemonsetsPods D c (kn_Name node) False;
         if err' \<noteq> None then State_Monad.return () else mark_drained D c (kn_Name node) }) (\<lambda>_ _. True)"
    by (rule triple_bind [OF waitForDaemonsetsPods_triple])
      (auto intro!: triple_intro triple_pre [OF mark_drained_triple [OF assms]])
  have evict: "triple (\<lambda>_. True) (careful D c) (do {
       err \<leftarrow> verifyCSIPodEvicted D c (kn_Name node);
       if err \<noteq> None then State_Monad.return ()
       else do {
         err' \<leftarrow> waitForDaemonsetsPods D c (kn_Name node) False;
         if err' \<noteq> None then State_Monad.return () else mark_drained D c (kn_Name node)
       } }) (\<lambda>_ _. True)"
    by (rule triple_bind [OF verifyCSIPodEvicted_triple], rule triple_if) (rule wait triple_return TrueI)+
  show ?thesis
    unfolding drain_node_def by (rule triple_bind [OF label], rule triple_if) (rule evict triple_return TrueI)+
qed

lemma ensureDaemonsetLabels_triple:
  assumes "gets_named D"
  shows "triple (\<lambda>_. True) (careful D c) (ensureDaemonsetLabels D c) (\<lambda>_ _. True)"
proof -
  have add: "triple (\<lambda>_. True) (careful D c) (change_node D name add_daemonset_label) (\<lambda>_ _. True)" for name
    by (rule change_node_triple) (simp_all add: assms add_daemonset_label_def)
  have "triple (\<lambda>_. True) (careful D c) (daemonset_step D c node u) (\<lambda>_ _. True)" for node u
    unfolding daemonset_step_def Let_def
    by (intro triple_if drain_node_triple exclude_node_triple assms triple_bind [OF add] triple_return) simp_all
  then have "triple (\<lambda>_. True) (careful D c) (for_each (daemonset_step D c) nodes ()) (\<lambda>_ _. True)" for nodes
    by (rule triple_for_each [where I = "\<lambda>_ _. True"])
  then show ?thesis
    unfolding ensureDaemonsetLabels_def GetNodeList_def
    by (intro triple_bind [where M = "\<lambda>_ _. True"] triple_issue triple_sum triple_return) (simp_all add: careful_def)
qed

text \<open>C24. A node is marked as ready to be drained only right after a listing of the CSI pods has shown none on
  it. Whenever the controller writes a node in this part, it has just read it.\<close>

theorem drained_only_without_csi_pods:
  assumes "gets_named D"
    and "snd (run_state (ensureDaemonsetLabels D c) h) = h @ xs @ Manage (UpdateNode new) # ys"
  shows "\<exists>h1 old. h @ xs = h1 @ [GetKubeNode (kn_Name new)] \<and> e_GetNode (de_env D) h1 (kn_Name new) = Inr old \<and>
    (str_of (kn_Annotations new) (drain_ready_key c) = ''true'' \<longrightarrow> str_of (kn_Annotations old) (drain_ready_key c) = ''true'' \<or>
       csi_absent D c (kn_Name new) h1)"
  using carefulD [OF triple_call [OF ensureDaemonsetLabels_triple [OF assms(1)] TrueI assms(2)]] by blast


section \<open>Concrete runs\<close>

definition dv_drained_node :: KubeNode where
  "dv_drained_node = dv_kube_node\<lparr>kn_Labels := [(cephDaemonsetLabel, ''true'')], kn_Annotations := [(''drain-request'', ''true'')]\<rparr>"

definition dv_drain_env :: deployEnv where
  "dv_drain_env = dv_env\<lparr>de_env := (de_env dv_env)\<lparr>e_ListNodes := \<lambda>_. Inr [dv_drained_node],
     e_GetNode := \<lambda>_ name. if name = ''node-a'' then Inr dv_drained_node else Inl (NotFound ''no node'')\<rparr>\<rparr>"

lemma dv_gets_named: "gets_named dv_drain_env"
  by (simp add: gets_named_def dv_drain_env_def dv_drained_node_def dv_kube_node_def)

definition dv_csi_listing :: call where
  "dv_csi_listing = ListPods ''rook'' csi_selector []"

definition dv_marked_node :: KubeNode where
  "dv_marked_node = dv_drained_node\<lparr>kn_Annotations := [(''drain-request'', ''true''), (''drain-ready'', ''true'')]\<rparr>"

lemma dv_drain_run:
  "snd (run_state (ensureDaemonsetLabels dv_drain_env dv_config) []) =
     [ListNodes, dv_csi_listing, GetKubeNode ''node-a'', Manage (UpdateNode (drop_daemonset_label dv_drained_node)),
      dv_csi_listing, dv_csi_listing, GetKubeNode ''node-a'', Manage (UpdateNode dv_marked_node)]"
  by code_simp

theorem drained_only_without_csi_pods_witness:
  "csi_absent dv_drain_env dv_config ''node-a''
     [ListNodes, dv_csi_listing, GetKubeNode ''node-a'', Manage (UpdateNode (drop_daemonset_label dv_drained_node)),
      dv_csi_listing, dv_csi_listing]"
proof -
  have "snd (run_state (ensureDaemonsetLabels dv_drain_env dv_config) []) =
      [] @ [ListNodes, dv_csi_listing, GetKubeNode ''node-a'', Manage (UpdateNode (drop_daemonset_label dv_drained_node)),
        dv_csi_listing, dv_csi_listing, GetKubeNode ''node-a''] @ Manage (UpdateNode dv_marked_node) # []"
    by (simp add: dv_drain_run)
  from drained_only_without_csi_pods [OF dv_gets_named this] show ?thesis
    by (auto simp: dv_marked_node_def dv_drained_node_def dv_kube_node_def dv_drain_env_def dv_config_def new_config_def
      sc_params_def get_or_def append_eq_Cons_conv Let_def)
qed


end
