(* ===== verification/Deploy_Pool_Theorems.thy ===== *)
theory Deploy_Pool_Theorems
  imports Deploy_Scenario
begin

text \<open>
  Properties of the handling of block pools: the requests of a run are compared with a reference that is
  computed from the specification and the listing.
\<close>

section \<open>Reference\<close>

text \<open>The requests for one pool of the specification.\<close>

definition pool_requests :: "deployEnv \<Rightarrow> cephDeploymentConfig \<Rightarrow> (string \<Rightarrow> BlockPool option) \<Rightarrow> CephPool \<Rightarrow> call list" where
  "pool_requests D c present pool =
     (let new = generatePool D pool (rook_ns c)
      in case present (bp_Name new) of
           None \<Rightarrow> [Manage (CreateBlockPool new)]
         | Some old \<Rightarrow>
             let (labels, misaligned) = AlignBaseLabels (bp_Labels old) Deploy_Env.baseResourceLabels
             in if (\<exists>phase. bp_Phase old = Some phase \<and> isTypeReadyToUpdate phase) \<and> (bp_Spec old \<noteq> bp_Spec new \<or> misaligned)
                then [Manage (UpdateBlockPool (old\<lparr>bp_Labels := labels, bp_Spec := bp_Spec new\<rparr>))] else [])"

text \<open>The pools that are removed: not in the specification, not built in, not preserved.\<close>

definition superfluous :: "deployEnv \<Rightarrow> cephDeploymentConfig \<Rightarrow> BlockPool \<Rightarrow> bool" where
  "superfluous D c pool \<longleftrightarrow> bp_Name pool \<notin> buildPoolName D ` set (spec_pools c) \<and>
     bp_Name pool \<notin> getBuiltinPoolName ` set builtinCephPools \<and> \<not> preserved pool"

section \<open>The loops\<close>

lemma update_new: "k \<notin> fst ` set m \<Longrightarrow> AList.update k v m = m @ [(k, v)]"
  by (induction m) auto

lemma add_error_fields [simp]: "ps_present (add_error e s) = ps_present s" "ps_changed (add_error e s) = ps_changed s"
  by (auto simp: add_error_def split: option.splits)

lemma run_process_create [simp]: "snd (run_state (processBlockPools D objectCreate pool) h) = h @ [Manage (CreateBlockPool pool)]"
  and run_process_update [simp]: "snd (run_state (processBlockPools D objectUpdate pool) h) = h @ [Manage (UpdateBlockPool pool)]"
  and run_process_delete [simp]: "snd (run_state (processBlockPools D objectDelete pool) h) =
    h @ [Manage (DeleteBlockPool (bp_Namespace pool) (bp_Name pool))]"
  by (simp_all add: processBlockPools_def)

lemma generatePool_name [simp]: "bp_Name (generatePool D pool ns) = buildPoolName D pool"
  and generatePool_labels [simp]: "bp_Labels (generatePool D pool ns) = Deploy_Env.baseResourceLabels"
  by (simp_all add: generatePool_def)

lemma pool_requests_missing:
  "present (buildPoolName D pool) = None \<Longrightarrow> pool_requests D c present pool = [Manage (CreateBlockPool (generatePool D pool (rook_ns c)))]"
  by (simp add: pool_requests_def)

lemma ensure_pool_run:
  "snd (run_state (ensure_pool D c pool s) h) = h @ pool_requests D c (map_of (ps_present s)) pool \<and>
   ps_present (fst (run_state (ensure_pool D c pool s) h)) = AList.delete (buildPoolName D pool) (ps_present s)"
proof (cases "map_of (ps_present s) (buildPoolName D pool)")
  case None
  then have "AList.delete (buildPoolName D pool) (ps_present s) = ps_present s"
    by (simp add: map_of_eq_None_iff delete_id)
  with None show ?thesis by (simp add: ensure_pool_def pool_requests_def split_beta)
next
  case (Some old)
  then show ?thesis
    by (auto simp: ensure_pool_def pool_requests_def split_beta Let_def split: option.splits)
qed

lemma ensure_pools_run:
  assumes "distinct (map (buildPoolName D) pools)"
  shows "snd (run_state (for_each (ensure_pool D c) pools s) h) = h @ concat (map (pool_requests D c (map_of (ps_present s))) pools) \<and>
    ps_present (fst (run_state (for_each (ensure_pool D c) pools s) h)) =
      filter (\<lambda>(name, _). name \<notin> buildPoolName D ` set pools) (ps_present s)"
  using assms
proof (induction pools arbitrary: s h)
  case (Cons pool pools)
  obtain s1 h1 where run: "run_state (ensure_pool D c pool s) h = (s1, h1)" by fastforce
  with ensure_pool_run [of D c pool s h] have s1: "h1 = h @ pool_requests D c (map_of (ps_present s)) pool"
    "ps_present s1 = AList.delete (buildPoolName D pool) (ps_present s)" by simp_all
  have same: "pool_requests D c (map_of (ps_present s1)) p = pool_requests D c (map_of (ps_present s)) p" if "p \<in> set pools" for p
  proof -
    from that Cons.prems have "buildPoolName D p \<noteq> buildPoolName D pool" by (auto simp: image_iff)
    then show ?thesis by (simp add: pool_requests_def s1(2) map_of_delete)
  qed
  from Cons run s1 same show ?case
    by (auto simp: AList.delete_eq split_beta cong: map_cong intro!: filter_cong)
qed simp

lemma remove_pools_run:
  "snd (run_state (for_each (remove_pool D) entries s) h) =
     h @ map (\<lambda>(_, pool). Manage (DeleteBlockPool (bp_Namespace pool) (bp_Name pool))) (filter (\<lambda>(_, pool). \<not> preserved pool) entries)"
  by (induction entries arbitrary: s h) (auto simp: remove_pool_def split_beta)

lemma present_pools_distinct:
  assumes "distinct (map bp_Name pools)"
  shows "present_pools pools = map (\<lambda>pool. (bp_Name pool, pool)) pools"
proof -
  have "fold (\<lambda>pool m. AList.update (bp_Name pool) pool m) pools m = m @ map (\<lambda>pool. (bp_Name pool, pool)) pools"
    if "distinct (map bp_Name pools)" "bp_Name ` set pools \<inter> fst ` set m = {}" for pools and m :: "(string, BlockPool) gomap"
    using that
  proof (induction pools arbitrary: m)
    case (Cons pool pools)
    then have "AList.update (bp_Name pool) pool m = m @ [(bp_Name pool, pool)]" by (auto simp: update_new)
    with Cons show ?case by auto
  qed simp
  from this [OF assms, of "[]"] show ?thesis by (simp add: present_pools_def)
qed



section \<open>Preserved pools\<close>

text \<open>For a pool that exists, the request does not depend on \<^verbatim>\<open>preserveOnDelete\<close>: only a pool that is
  created with the flag carries the annotation that keeps it from being deleted, and setting the flag on a
  pool that exists has no effect.\<close>

theorem preserve_flag_ignored_on_update:
  assumes "map_of (ps_present s) (buildPoolName D pool) = Some old"
  shows "ensure_pool D c (pool\<lparr>cpl_PreserveOnDelete := preserve\<rparr>) s = ensure_pool D c pool s"
proof -
  have spec: "CephPool_GetSpec D (pool\<lparr>cpl_PreserveOnDelete := preserve\<rparr>) = CephPool_GetSpec D pool"
    by (simp add: CephPool_GetSpec_def)
  then have "buildPoolName D (pool\<lparr>cpl_PreserveOnDelete := preserve\<rparr>) = buildPoolName D pool"
    by (simp add: buildPoolName_def getCephPoolName_def)
  moreover from spec have "bp_Spec (generatePool D (pool\<lparr>cpl_PreserveOnDelete := preserve\<rparr>) (rook_ns c)) =
      bp_Spec (generatePool D pool (rook_ns c))"
    by (simp add: generatePool_def)
  ultimately show ?thesis using assms by (simp add: ensure_pool_def Let_def split_beta)
qed

theorem preserve_flag_ignored_on_update_witness:
  "ensure_pool dv_env dv_config ((dv_pool ''data'')\<lparr>cpl_PreserveOnDelete := True\<rparr>)
     \<lparr>ps_present = [(''data-hdd'', dv_block_pool ''data-hdd'' False)], ps_errors = [], ps_changed = False\<rparr> =
   ensure_pool dv_env dv_config (dv_pool ''data'')
     \<lparr>ps_present = [(''data-hdd'', dv_block_pool ''data-hdd'' False)], ps_errors = [], ps_changed = False\<rparr>"
proof -
  have "buildPoolName dv_env (dv_pool ''data'') = ''data-hdd''" by code_simp
  then show ?thesis by (intro preserve_flag_ignored_on_update) simp
qed

end
