(* ===== verification/Deploy_Calls.thy ===== *)
theory Deploy_Calls
  imports Deploy_Controller
begin

text \<open>
  Which operations of the deployment controller make the calls that matter most: writing the
  \<^verbatim>\<open>CephDeployment\<close> or its status, creating or updating a block pool, deleting the Ceph cluster. All the
  other operations make none of them.
\<close>

definition sensitive :: "call \<Rightarrow> bool" where
  "sensitive call = (case call of
     Manage d \<Rightarrow> (case d of
         UpdateCephDeploymentStatus _ _ _ \<Rightarrow> True
       | UpdateCephDeployment _ \<Rightarrow> True
       | CreateBlockPool _ \<Rightarrow> True
       | UpdateBlockPool _ \<Rightarrow> True
       | DeleteCephCluster _ _ \<Rightarrow> True
       | _ \<Rightarrow> False)
   | _ \<Rightarrow> False)"

lemma sensitive_simps [simp]:
  "\<not> sensitive Now" "\<not> sensitive (Sleep i)" "\<not> sensitive (ListPods a b e)" "\<not> sensitive (Exec a b e f)" "\<not> sensitive (GetDeployment a b)"
  "\<not> sensitive (DeleteDeployment a b)" "\<not> sensitive ListNodes" "\<not> sensitive (GetKubeNode a)" "\<not> sensitive (GetDaemonSet a b)"
  "\<not> sensitive (ListTasks a)" "\<not> sensitive (GetCephCluster a b)" "\<not> sensitive (GetMaintenance a b)"
  "\<not> sensitive (Manage (ListCephDeployments a))" "\<not> sensitive (Manage (ReadCephDeployment a b))"
  "\<not> sensitive (Manage (GetSubObject a b e))" "\<not> sensitive (Manage (CreateSubObject obj))" "\<not> sensitive (Manage (UpdateSubObject obj))"
  "\<not> sensitive (Manage (DeleteSubObject a b e))" "\<not> sensitive (Manage (GetConfigMap a b))"
  "\<not> sensitive (Manage (CreateConfigMap cm))" "\<not> sensitive (Manage (UpdateConfigMap cm))" "\<not> sensitive (Manage (GetSecret a b))" "\<not> sensitive (Manage (ListNodesByLabel a))"
  "\<not> sensitive (Manage (UpdateNode node))" "\<not> sensitive (Manage (ListDeployments a b))" "\<not> sensitive (Manage (CreateAppDeployment a d))"
  "\<not> sensitive (Manage (UpdateAppDeployment a d))" "\<not> sensitive (Manage (UpdateAppDaemonSet a ds))" "\<not> sensitive (Manage (UpdateCephCluster cl))"
  "\<not> sensitive (Manage (ListBlockPools a))" "\<not> sensitive (Manage (DeleteBlockPool a b))" "\<not> sensitive (Manage (ListOpenstackStatus a))"
  "\<not> sensitive (Manage (LookupEnv a))" "\<not> sensitive (Manage ListVolumeAttachments)" "\<not> sensitive (Manage (DeleteVolumeAttachment a))"
  "\<not> sensitive (Manage (DeletePod a b))"
  "sensitive (Manage (UpdateCephDeploymentStatus a b st))" "sensitive (Manage (UpdateCephDeployment dpl))"
  "sensitive (Manage (CreateBlockPool pool))" "sensitive (Manage (UpdateBlockPool pool))" "sensitive (Manage (DeleteCephCluster a b))"
  by (simp_all add: sensitive_def)

abbreviation quiet :: "'a io \<Rightarrow> bool" where
  "quiet \<equiv> calls_in (\<lambda>call. \<not> sensitive call)"

named_theorems quiet_intro \<open>operations without sensitive calls\<close>

lemma quiet_issue [quiet_intro]: "\<not> sensitive call \<Longrightarrow> quiet (issue call f)"
  by (rule calls_in_issue)

lemma quiet_manage [quiet_intro]: "\<not> sensitive (Manage call) \<Longrightarrow> quiet (manage call f)"
  by (rule calls_in_manage)

lemma quiet_toolbox [quiet_intro]: "quiet (RunCephToolboxCLI E ns command)" "quiet (RunAndParseCephToolboxCLI E ns command decode)"
  "quiet (RunPodCmdAndCheckError E config)"
  by (auto intro!: calls_intro)

lemma quiet_nodes [quiet_intro]: "quiet (GetNodeList E)" "quiet (GetNode E name)" "quiet (GetCurrentTimeString E)"
  "quiet (update_node D node)" "quiet (isCephDeployed D ns)"
  by (auto intro!: calls_intro simp: update_node_def)

text \<open>Nodes\<close>

lemma quiet_labels [quiet_intro]: "quiet (ensureLabelNodes D c)" "quiet (deleteLabelNodes D c)"
  "quiet (ensureNodesAnnotation D c)" "quiet (deleteNodesAnnotations D c)" "quiet (deleteDaemonSetLabels D c)"
  unfolding ensureLabelNodes_def deleteLabelNodes_def ensureNodesAnnotation_def deleteNodesAnnotations_def deleteDaemonSetLabels_def
    label_step_def set_labels_def roles_to_keep_def annotate_step_def annotateNode_def daemonset_label_step_def Let_def
  by (auto intro!: calls_intro quiet_intro)

lemma quiet_aligned [quiet_intro]: "quiet (checkStorageSpecIsAligned D c)"
  unfolding checkStorageSpecIsAligned_def by (auto intro!: calls_intro quiet_intro)

lemma expand_nodes_quiet: "quiet (expand_nodes D opts idx nodes)"
  by (induction D opts idx nodes rule: expand_nodes.induct)
    (auto intro!: calls_intro quiet_intro simp: Let_def)

lemma quiet_cast [quiet_intro]: "quiet (castExtensions D c)"
  unfolding castExtensions_def GetExpandedCephDeploymentNodeList_def
  by (auto intro!: calls_intro expand_nodes_quiet)

lemma quiet_validate [quiet_intro]: "quiet (validateSpec D c)"
  unfolding validateSpec_def validateClusterNodes_def by (auto intro!: calls_intro quiet_intro)

text \<open>Versions\<close>

lemma quiet_version [quiet_intro]: "quiet (getCephVersionFromImage D c targetImage)"
  unfolding getCephVersionFromImage_def prepareVersionCheckDeployment_def apply_version_check_def version_check_ready_def getCephVersion_def
    get_deployment_def
  by (auto intro!: calls_intro quiet_intro split: sum.splits)

lemma quiet_upgrade [quiet_intro]: "quiet (cephUpgradeAllowed D)"
  unfolding cephUpgradeAllowed_def getOpenstackDeploymentStatus_def by (auto intro!: calls_intro quiet_intro)

lemma quiet_current [quiet_intro]: "quiet (verify_current D c current img status)"
  unfolding verify_current_def verify_new_image_def deleteVersionCheckDeployment_def Let_def
  by (auto intro!: calls_intro quiet_intro split: sum.splits option.splits)

lemma quiet_versions [quiet_intro]: "quiet (verifyCephVersions D c)"
  unfolding verifyCephVersions_def get_cluster_def IsCephToolboxCLIAvailable_def get_deployment_def getClusterCephVersion_def getCephVersions_def
  by (auto intro!: calls_intro quiet_intro split: sum.splits)

lemma quiet_rook [quiet_intro]: "quiet (ensureRookImage D c)" "quiet (ensureCephClusterVersion D c)"
  unfolding ensureRookImage_def ensure_discover_def ensureCephClusterVersion_def get_cluster_def get_deployment_def
  by (auto intro!: calls_intro quiet_intro split: list.splits)

text \<open>CSI pods\<close>

lemma quiet_csi [quiet_intro]: "quiet (run_in_csi_pod D pod command)" "quiet (getCSIPodForNode D c name)"
  unfolding run_in_csi_pod_def getCSIPodForNode_def list_csi_pods_def
  by (auto intro!: calls_intro quiet_intro)

lemma quiet_volumes [quiet_intro]: "quiet (checkCSIVolumes D c name um)"
  unfolding checkCSIVolumes_def volumes_attempt_def verifyRBDVolumesMounts_def mounts_attempt_def verifyRBDVolumeAttachments_def
    attachments_attempt_def
  by (auto intro!: calls_intro quiet_intro)

lemma quiet_evict [quiet_intro]: "quiet (verifyCSIPodEvicted D c name)" "quiet (waitForDaemonsetsPods D c name b)"
  "quiet (mark_drained D c name)" "quiet (change_node D name f)"
  unfolding verifyCSIPodEvicted_def waitForDaemonsetsPods_def pods_attempt_def list_csi_pods_def mark_drained_def change_node_def
  by (auto intro!: calls_intro quiet_intro)

lemma quiet_daemonsets [quiet_intro]: "quiet (ensureDaemonsetLabels D c)"
  unfolding ensureDaemonsetLabels_def daemonset_step_def drain_node_def exclude_node_def Let_def
  by (auto intro!: calls_intro quiet_intro)

text \<open>The rest of the preparation\<close>

lemma quiet_setup [quiet_intro]: "quiet (verifySetup D c)"
  unfolding verifySetup_def by (auto intro!: calls_intro quiet_intro)

lemma quiet_sub_objects [quiet_intro]: "quiet (createSubObjects D c)" "quiet (delete_sub_object D kind c)"
  unfolding createSubObjects_def ensure_sub_object_def delete_sub_object_def
  by (auto intro!: calls_intro quiet_intro split_beta Let_def)

lemma lcm_tasks_quiet: "quiet (lcm_tasks D c tasks)"
  by (induction D c tasks rule: lcm_tasks.induct) (auto intro!: calls_intro quiet_intro split: option.splits)

lemma quiet_lcm [quiet_intro]: "quiet (checkLcmState D c)"
  unfolding checkLcmState_def IsClusterMaintenanceActing_def
  by (auto intro!: calls_intro quiet_intro lcm_tasks_quiet split: bool.splits)

lemma quiet_delete_pools [quiet_intro]: "quiet (deletePools D c)"
  unfolding deletePools_def list_pools_def delete_pool_def processBlockPools_def
  by (auto intro!: calls_intro quiet_intro)

section \<open>Frames\<close>

text \<open>A computation whose calls all satisfy the guard keeps what is stable under further calls.\<close>

lemma triple_frame:
  assumes "calls_in C m" and "\<And>h call. P h \<Longrightarrow> C call \<Longrightarrow> Q h call" and "\<And>h cs. P h \<Longrightarrow> P (h @ cs)"
  shows "triple P Q m (\<lambda>_. P)"
proof -
  have "\<exists>cs. snd (run_state m h) = h @ cs \<and> guarded Q h cs \<and> P (h @ cs)" if "P h" for h
  proof -
    from assms(1) obtain cs where "snd (run_state m h) = h @ cs" "list_all C cs" unfolding calls_in_def by blast
    moreover from this(2) assms(2,3) that have "guarded Q h cs" by (auto simp: guarded_def)
    ultimately show ?thesis using assms(3) that by blast
  qed
  then show ?thesis by (simp add: triple_def)
qed

text \<open>Its result may be described as well.\<close>

lemma triple_returns: "triple P Q m (\<lambda>_. P) \<Longrightarrow> returns R m \<Longrightarrow> triple P Q m (\<lambda>x h. P h \<and> R x)"
  unfolding triple_def returns_def by blast

end
