(* ===== verification/Deploy_Run.thy ===== *)
theory Deploy_Run
  imports Deploy_Calls
begin

text \<open>
  Triples for the reconcile loop of the deployment controller. Three guards are carried through a run: what
  was read before a status is written, what was seen before a block pool is created or updated, and what was
  seen before the cluster is deleted or the finalizer dropped.
\<close>

section \<open>Guards\<close>

text \<open>A call was made at a moment of which \<open>R\<close> holds.\<close>

definition seen :: "call \<Rightarrow> (hist \<Rightarrow> bool) \<Rightarrow> hist \<Rightarrow> bool" where
  "seen call R h \<longleftrightarrow> (\<exists>h1 h2. h = h1 @ call # h2 \<and> R h1)"

lemma seen_now [simp]: "R h \<Longrightarrow> seen call R (h @ [call])"
  by (auto simp: seen_def)

lemma seen_later: "seen call R h \<Longrightarrow> seen call R (h @ cs)"
  unfolding seen_def by (metis append.assoc append_Cons)

lemma seen_mono: "seen call R h \<Longrightarrow> (\<And>h. R h \<Longrightarrow> R' h) \<Longrightarrow> seen call R' h"
  by (auto simp: seen_def)

text \<open>A failure is written only after the phase was read and is neither on hold nor maintenance.\<close>

definition status_guard :: "deployEnv \<Rightarrow> hist \<Rightarrow> call \<Rightarrow> bool" where
  "status_guard D h call \<longleftrightarrow> (\<forall>ns name st. call = Manage (UpdateCephDeploymentStatus ns name st) \<longrightarrow>
     (\<exists>h1 a b dpl. h = h1 @ [Manage (ReadCephDeployment a b), Now] \<and> de_ReadCephDeployment D h1 a b = Inr dpl \<and>
        ns = cdp_Namespace dpl \<and> name = cdp_Name dpl \<and>
        (dps_Phase st = PhaseFailed \<longrightarrow> dps_Phase (cdp_Status dpl) \<notin> {PhaseOnHold, PhaseMaintenance})))"

text \<open>Tasks that keep the controller from applying the configuration, and tasks under validation.\<close>

definition blocking :: "CephOsdRemoveTask \<Rightarrow> bool" where
  "blocking task \<longleftrightarrow> (\<exists>st. task_Status task = Some st \<and>
     (st_Phase st \<in> {TaskPhaseWaitingOperator, TaskPhaseApproveWaiting, TaskPhaseProcessing} \<or>
      st_Phase st = TaskPhaseFailed \<and> failed_processing task st))"

definition validating :: "CephOsdRemoveTask \<Rightarrow> bool" where
  "validating task \<longleftrightarrow> (\<exists>st. task_Status task = Some st \<and> st_Phase st = TaskPhaseValidating)"

definition no_task_blocks :: "deployEnv \<Rightarrow> string \<Rightarrow> hist \<Rightarrow> bool" where
  "no_task_blocks D ns = seen (ListTasks ns) (\<lambda>h. \<exists>tasks. e_ListTasks (de_env D) h ns = Inr tasks \<and>
     list_all (\<lambda>task. \<not> blocking task) (takeWhile (\<lambda>task. \<not> validating task) tasks))"

definition no_maintenance :: "deployEnv \<Rightarrow> string \<Rightarrow> string \<Rightarrow> hist \<Rightarrow> bool" where
  "no_maintenance D ns name = seen (GetMaintenance ns name) (\<lambda>h. \<exists>cdm. e_GetMaintenance (de_env D) h ns name = Inr cdm \<and>
     (\<forall>st. cdm_Status cdm = Some st \<longrightarrow> mnt_State st \<notin> {MaintenanceActing, MaintenanceFailing}))"

definition pool_guard :: "deployEnv \<Rightarrow> string \<Rightarrow> string \<Rightarrow> hist \<Rightarrow> call \<Rightarrow> bool" where
  "pool_guard D ns name h call \<longleftrightarrow> (\<forall>pool. call \<in> {Manage (CreateBlockPool pool), Manage (UpdateBlockPool pool)} \<longrightarrow>
     no_task_blocks D ns h \<and> no_maintenance D ns name h)"

text \<open>No block pool is left; the Ceph cluster does not exist.\<close>

definition pools_gone :: "deployEnv \<Rightarrow> string \<Rightarrow> hist \<Rightarrow> bool" where
  "pools_gone D rook = seen (Manage (ListBlockPools rook)) (\<lambda>h. de_ListBlockPools D h rook = Inr [])"

definition cluster_gone :: "deployEnv \<Rightarrow> string \<Rightarrow> string \<Rightarrow> hist \<Rightarrow> bool" where
  "cluster_gone D rook name = seen (GetCephCluster rook name) (\<lambda>h. \<exists>err. de_GetCephCluster D h rook name = Inl err \<and> is_not_found err)"

text \<open>The last call has read a deployment that does not have the finalizer.\<close>

definition read_without_finalizer :: "deployEnv \<Rightarrow> hist \<Rightarrow> bool" where
  "read_without_finalizer D h \<longleftrightarrow> (\<exists>h1 a b dpl. h = h1 @ [Manage (ReadCephDeployment a b)] \<and>
     de_ReadCephDeployment D h1 a b = Inr dpl \<and> finalizer \<notin> set (cdp_Finalizers dpl))"

text \<open>\<open>ext\<close>: the cluster is external; \<open>fin\<close>: the deployment has the finalizer.\<close>

definition destroy_guard :: "deployEnv \<Rightarrow> bool \<Rightarrow> bool \<Rightarrow> string \<Rightarrow> string \<Rightarrow> hist \<Rightarrow> call \<Rightarrow> bool" where
  "destroy_guard D ext fin rook name h call \<longleftrightarrow>
     (\<forall>a b. call = Manage (DeleteCephCluster a b) \<longrightarrow> ext \<or> pools_gone D rook h) \<and>
     (\<forall>dpl. call = Manage (UpdateCephDeployment dpl) \<longrightarrow> fin \<longrightarrow>
        finalizer \<in> set (cdp_Finalizers dpl) \<or> (ext \<or> pools_gone D rook h) \<and> cluster_gone D rook name h \<or>
        read_without_finalizer D h)"

lemma guards_quiet [simp]:
  "\<not> sensitive call \<Longrightarrow> status_guard D h call" "\<not> sensitive call \<Longrightarrow> pool_guard D ns name h call"
  "\<not> sensitive call \<Longrightarrow> destroy_guard D ext fin rook name h call"
  by (auto simp: status_guard_def pool_guard_def destroy_guard_def)

text \<open>What was seen stays seen.\<close>

lemma seen_append [simp]:
  "no_task_blocks D ns h \<Longrightarrow> no_task_blocks D ns (h @ cs)" "no_maintenance D ns name h \<Longrightarrow> no_maintenance D ns name (h @ cs)"
  "pools_gone D rook h \<Longrightarrow> pools_gone D rook (h @ cs)" "cluster_gone D rook name h \<Longrightarrow> cluster_gone D rook name (h @ cs)"
  by (simp_all add: no_task_blocks_def no_maintenance_def pools_gone_def cluster_gone_def seen_later)

text \<open>What the three guards have in common: calls that a guard allows at any moment, which include all calls that
  are not sensitive, keep whatever is known of the history.\<close>

locale call_guard =
  fixes allowed :: "call \<Rightarrow> bool" and guard :: "hist \<Rightarrow> call \<Rightarrow> bool"
  assumes allowed_guard: "allowed call \<Longrightarrow> guard h call" and quiet_allowed: "\<not> sensitive call \<Longrightarrow> allowed call"
begin

lemma free: "calls_in allowed m \<Longrightarrow> (\<And>h cs. P h \<Longrightarrow> P (h @ cs)) \<Longrightarrow> triple P guard m (\<lambda>_. P)"
  by (erule triple_frame) (simp_all add: allowed_guard)

lemma still: "quiet m \<Longrightarrow> (\<And>h cs. P h \<Longrightarrow> P (h @ cs)) \<Longrightarrow> triple P guard m (\<lambda>_. P)"
  by (rule free) (erule calls_in_mono, erule quiet_allowed)

end

section \<open>Status\<close>

lemma updateCephDeploymentStatus_triple: "triple (\<lambda>_. True) (status_guard D) (updateCephDeploymentStatus D name ns st) (\<lambda>_ _. True)"
  unfolding updateCephDeploymentStatus_def
proof (rule triple_bind [where M = "\<lambda>r h. \<exists>h1. h = h1 @ [Manage (ReadCephDeployment ns name)] \<and> de_ReadCephDeployment D h1 ns name = r"], goal_cases)
  case (2 r)
  show ?case
  proof (rule triple_sum, goal_cases)
    case (2 dpl)
    show ?case
      unfolding Let_def GetCurrentTimeString_def
      by (rule triple_bind [where M = "\<lambda>_ h. \<exists>h1. h = h1 @ [Manage (ReadCephDeployment ns name), Now] \<and> de_ReadCephDeployment D h1 ns name = Inr dpl"];
          (rule triple_bind [where M = "\<lambda>_ _. True"])?; (rule triple_issue | rule triple_manage | rule triple_return))
        (use 2 in \<open>auto simp: status_guard_def\<close>)
  qed (auto intro!: triple_intro)
qed (auto intro!: triple_intro)

text \<open>Writing a status makes no other sensitive call.\<close>

lemma updateCephDeploymentStatus_calls [calls_intro]:
  "(\<And>call. \<not> sensitive call \<Longrightarrow> P call) \<Longrightarrow> (\<And>a b st. P (Manage (UpdateCephDeploymentStatus a b st))) \<Longrightarrow>
   calls_in P (updateCephDeploymentStatus D name ns st)"
  unfolding updateCephDeploymentStatus_def by (auto intro!: calls_intro simp: Let_def)

lemma fail_run_calls [calls_intro]:
  "(\<And>call. \<not> sensitive call \<Longrightarrow> P call) \<Longrightarrow> (\<And>a b st. P (Manage (UpdateCephDeploymentStatus a b st))) \<Longrightarrow> calls_in P (fail_run D n c msg)"
  "(\<And>call. \<not> sensitive call \<Longrightarrow> P call) \<Longrightarrow> (\<And>a b st. P (Manage (UpdateCephDeploymentStatus a b st))) \<Longrightarrow>
   calls_in P (setCephDeploymentPhaseFailed D n name ns st)"
  "(\<And>call. \<not> sensitive call \<Longrightarrow> P call) \<Longrightarrow> (\<And>a b st. P (Manage (UpdateCephDeploymentStatus a b st))) \<Longrightarrow> calls_in P (write_status D c)"
  "(\<And>call. \<not> sensitive call \<Longrightarrow> P call) \<Longrightarrow> (\<And>a b st. P (Manage (UpdateCephDeploymentStatus a b st))) \<Longrightarrow> calls_in P (write_and_rerun D c)"
  "calls_in P (finish interval err n)"
  unfolding fail_run_def setCephDeploymentPhaseFailed_def write_status_def write_and_rerun_def finish_def
  by (auto intro!: calls_intro)

lemma status_writers_triple [triple_intro]:
  "triple (\<lambda>_. True) (status_guard D) (fail_run D n c msg) (\<lambda>_ _. True)"
  "triple (\<lambda>_. True) (status_guard D) (setCephDeploymentPhaseFailed D n name ns st) (\<lambda>_ _. True)"
  "triple (\<lambda>_. True) (status_guard D) (write_status D c) (\<lambda>_ _. True)"
  "triple (\<lambda>_. True) (status_guard D) (write_and_rerun D c) (\<lambda>_ _. True)"
  "triple (\<lambda>_. True) (status_guard D) (finish interval err n) (\<lambda>_ _. True)"
  unfolding fail_run_def setCephDeploymentPhaseFailed_def write_status_def write_and_rerun_def finish_def
  by (auto intro!: triple_return triple_bind [OF updateCephDeploymentStatus_triple] triple_if triple_prod
      triple_bind [where M = "\<lambda>_ _. True"] updateCephDeploymentStatus_triple)

section \<open>Operations that write\<close>

text \<open>What kind of sensitive call each of the remaining operations makes.\<close>

lemma calls_quiet: "quiet m \<Longrightarrow> (\<And>call. \<not> sensitive call \<Longrightarrow> P call) \<Longrightarrow> calls_in P m"
  by (erule calls_in_mono)

lemma pool_writers_calls:
  assumes "\<And>call. \<not> sensitive call \<Longrightarrow> P call" and "\<And>pool. P (Manage (CreateBlockPool pool))" and "\<And>pool. P (Manage (UpdateBlockPool pool))"
  shows "calls_in P (ensurePools D c)" and "calls_in P (ensureClusterState D c)"
proof -
  have process: "calls_in P (processBlockPools D process pool)" for process pool
    unfolding processBlockPools_def by (auto intro!: calls_intro assms split: objectProcess.splits)
  then have ensure: "calls_in P (ensure_pool D c pool s)" and remove: "calls_in P (remove_pool D entry s)"
    and builtin: "calls_in P (verify_builtin D items bp st)" for pool s entry items bp st
    unfolding ensure_pool_def remove_pool_def verify_builtin_def Let_def by (auto intro!: calls_intro)
  have list: "calls_in P (list_pools D c)" unfolding list_pools_def by (auto intro!: calls_intro assms)
  show "calls_in P (ensurePools D c)"
    unfolding ensurePools_def by (auto intro!: calls_intro ensure remove list)
  have "calls_in P (verifyBuiltinPools D c)"
    unfolding verifyBuiltinPools_def
    by (auto intro!: calls_intro calls_quiet [OF quiet_toolbox(2) assms(1)] builtin list)
  moreover have "calls_in P (verifyPrometheusEnabled D c)" "calls_in P (verifyProgressEvents D c)"
    by (rule calls_quiet [OF _ assms(1)];
        auto simp: verifyPrometheusEnabled_def verifyProgressEvents_def Let_def intro!: calls_intro quiet_intro)+
  ultimately show "calls_in P (ensureClusterState D c)"
    unfolding ensureClusterState_def by (auto intro!: calls_intro calls_quiet [OF quiet_nodes(5) assms(1)])
qed

lemma deployment_writers_calls:
  assumes "\<And>call. \<not> sensitive call \<Longrightarrow> P call" and "\<And>dpl. P (Manage (UpdateCephDeployment dpl))"
  shows "calls_in P (ensureDeprecatedFields D c)" and "calls_in P (updateFinalizer D c add)" and "calls_in P (alignSpecForAES256k D c)"
  unfolding ensureDeprecatedFields_def updateFinalizer_def alignSpecForAES256k_def write_aligned_def update_deployment_def Let_def
  by (auto intro!: calls_intro assms split: prod.splits sum.splits bool.splits option.splits)

lemma deleteCluster_calls:
  assumes "\<And>call. \<not> sensitive call \<Longrightarrow> P call" and "\<And>ns name. P (Manage (DeleteCephCluster ns name))"
  shows "calls_in P (deleteCluster D c)"
  unfolding deleteCluster_def get_cluster_def by (auto intro!: calls_intro assms simp: Let_def)

section \<open>Loops over steps\<close>

lemma steps_issueD:
  assumes "steps_issue P S"
  shows "step \<in> set (ensure_steps S) \<Longrightarrow> calls_in P (step c)" "step' \<in> set (remove_steps S) \<Longrightarrow> calls_in P (step' c)"
  using assms by (auto simp: steps_issue_def)

lemma apply_step_triple:
  assumes "\<And>c. triple P Q (snd entry c) (\<lambda>_. P)"
  shows "triple P Q (apply_step entry s) (\<lambda>_. P)"
  unfolding apply_step_def by (rule triple_bind [OF assms]) (auto intro!: triple_intro)

lemma keep_config_triple: "triple P Q (m c) (\<lambda>_. P) \<Longrightarrow> triple P Q (keep_config m c) (\<lambda>_. P)"
  unfolding keep_config_def by (erule triple_bind) (auto intro!: triple_intro)

text \<open>A property that every step keeps is kept by the whole; \<open>ext\<close> tells which steps are run.\<close>

lemma applyConfiguration_triple:
  assumes nodes: "\<And>c. \<not> external c0 \<Longrightarrow> triple P Q (ensureLabelNodes D c) (\<lambda>_. P)" "\<And>c. \<not> external c0 \<Longrightarrow> triple P Q (ensureNodesAnnotation D c) (\<lambda>_. P)"
    and pools: "\<And>c. \<not> external c0 \<Longrightarrow> triple P Q (ensurePools D c) (\<lambda>_. P)" "\<And>c. \<not> external c0 \<Longrightarrow> triple P Q (ensureClusterState D c) (\<lambda>_. P)"
    and steps: "\<And>step c. step \<in> set (ensure_steps S) \<Longrightarrow> triple P Q (step c) (\<lambda>_. P)"
  shows "triple P Q (applyConfiguration D S c0) (\<lambda>_. P)"
proof -
  have node_steps: "triple P Q (for_each apply_step (node_steps D) s) (\<lambda>_. P)" if "\<not> external c0" for s
    by (rule triple_for_each, rule apply_step_triple)
      (use that in \<open>auto simp: node_steps_def intro!: keep_config_triple nodes\<close>)
  have resources: "triple P Q (for_each apply_step (resource_steps D S (external c0)) s) (\<lambda>_. P)" for s
  proof (rule triple_for_each, rule apply_step_triple)
    fix entry c
    assume "entry \<in> set (resource_steps D S (external c0))"
    then consider "snd entry \<in> set (ensure_steps S)" | "\<not> external c0" "snd entry \<in> {keep_config (ensurePools D), keep_config (ensureClusterState D)}"
      by (auto simp: resource_steps_def ensure_steps_def split: if_splits)
    then show "triple P Q (snd entry c) (\<lambda>_. P)"
      by cases (auto intro: steps intro!: keep_config_triple pools)
  qed
  have policy: "triple P Q (dst_ensureNetworkPolicy S c) (\<lambda>_. P)" for c
    by (rule steps) (simp add: ensure_steps_def)
  show ?thesis
    unfolding applyConfiguration_def Let_def
    by (rule triple_bind [where M = "\<lambda>_. P"], rule triple_if, erule node_steps, rule triple_return, assumption,
        rule triple_bind [where M = "\<lambda>_. P"], rule triple_if, rule triple_bind [OF policy])
      (auto intro!: triple_return triple_prod triple_bind [where M = "\<lambda>_. P"] triple_if resources)
qed

text \<open>Steps that remove something: what each guarantees once it reports that nothing is left.\<close>

lemma triple_keep:
  assumes "triple P Q m R" and "\<And>h cs. A h \<Longrightarrow> A (h @ cs)"
  shows "triple (\<lambda>h. P h \<and> A h) Q m (\<lambda>x h. R x h \<and> A h)"
  using assms unfolding triple_def by blast

lemma removals_triple:
  assumes "\<And>e. e \<in> set es \<Longrightarrow> triple P Q (snd e c) (\<lambda>r h. P h \<and> (r = Inr True \<longrightarrow> G (fst e) h))"
    and "\<And>name h cs. G name h \<Longrightarrow> G name (h @ cs)"
  shows "triple P Q (for_each (runRemoveState c) es s) (\<lambda>s' h. P h \<and> (fst s' \<longrightarrow> fst s \<and> (\<forall>e \<in> set es. G (fst e) h)))"
  using assms(1)
proof (induction es arbitrary: s)
  case Nil
  show ?case by (auto intro!: triple_intro)
next
  case (Cons e es)
  have first: "triple P Q (runRemoveState c e s) (\<lambda>s1 h. P h \<and> (fst s1 \<longrightarrow> fst s \<and> G (fst e) h))"
    unfolding runRemoveState_def Let_def
    by (rule triple_prod, rule triple_bind [OF Cons.prems]) (auto intro!: triple_intro split: sum.splits)
  have rest: "triple P Q (for_each (runRemoveState c) es s1) (\<lambda>s' h. P h \<and> (fst s' \<longrightarrow> fst s1 \<and> (\<forall>e \<in> set es. G (fst e) h)))" for s1
    by (rule Cons.IH) (simp add: Cons.prems)
  have "triple (\<lambda>h. P h \<and> (fst s1 \<longrightarrow> fst s \<and> G (fst e) h)) Q (for_each (runRemoveState c) es s1)
      (\<lambda>s' h. P h \<and> (fst s' \<longrightarrow> fst s \<and> (\<forall>e \<in> set (e # es). G (fst e) h)))" for s1
    by (rule triple_post [OF triple_keep [OF rest]]) (use assms(2) in auto)
  with first show ?case by (auto intro: triple_bind)
qed

section \<open>The status guard\<close>

lemma triple_bool [triple_intro]:
  "(b \<Longrightarrow> triple P Q m R) \<Longrightarrow> (\<not> b \<Longrightarrow> triple P Q n R) \<Longrightarrow> triple P Q (case b of True \<Rightarrow> m | False \<Rightarrow> n) R"
  by (cases b) simp_all

text \<open>Rules for computations of which nothing but the guard matters.\<close>

lemmas plain_rules = triple_bind [where M = "\<lambda>_ _. True"] triple_if triple_option triple_sum triple_prod triple_bool triple_let

definition no_status :: "call \<Rightarrow> bool" where
  "no_status call \<longleftrightarrow> (\<forall>ns name st. call \<noteq> Manage (UpdateCephDeploymentStatus ns name st))"

lemma no_status_simps [simp]: "\<not> sensitive call \<Longrightarrow> no_status call" "no_status (Manage (CreateBlockPool pool))"
  "no_status (Manage (UpdateBlockPool pool))" "no_status (Manage (DeleteCephCluster a b))" "no_status (Manage (UpdateCephDeployment dpl))"
  by (auto simp: no_status_def)

interpretation statuses: call_guard no_status "status_guard D" for D
  by unfold_locales (simp_all add: no_status_def status_guard_def, auto simp: sensitive_def)

lemmas status_free = statuses.free [where P = "\<lambda>_. True", OF _ TrueI]
lemmas status_quiet = statuses.still [where P = "\<lambda>_. True", OF _ TrueI]

lemma status_apply:
  assumes "steps_issue no_status S"
  shows "triple (\<lambda>_. True) (status_guard D) (applyConfiguration D S c) (\<lambda>_ _. True)"
  by (rule applyConfiguration_triple)
    (use assms in \<open>auto intro!: status_free pool_writers_calls quiet_labels [THEN calls_quiet] dest: steps_issueD\<close>)

lemma removal_entries:
  "e \<in> set (extra_removals D S c) \<union> set (main_removals D S c) \<Longrightarrow>
   snd e \<in> set (remove_steps S) \<or> (\<exists>kind. snd e = delete_sub_object D kind) \<or>
   snd e \<in> {deletePools D, deleteCluster D, deleteLabelNodes D, deleteNodesAnnotations D, deleteDaemonSetLabels D}"
  unfolding extra_removals_def main_removals_def remove_steps_def sub_object_step_def by (auto split: if_splits)

lemma runRemoveState_calls: "calls_in P (snd e c) \<Longrightarrow> calls_in P (runRemoveState c e s)"
  unfolding runRemoveState_def Let_def by (cases s) (auto intro!: calls_intro)

lemma removals_calls:
  assumes "steps_issue P S" and "\<And>call. \<not> sensitive call \<Longrightarrow> P call" and "\<And>ns name. P (Manage (DeleteCephCluster ns name))"
  shows "calls_in P (cleanCephDeployment D S c)"
proof -
  have entry: "calls_in P (snd e c)" if "e \<in> set (extra_removals D S c) \<union> set (main_removals D S c)" for e
    using removal_entries [OF that]
    by (elim disjE exE insertE emptyE)
      (simp_all add: assms steps_issueD(2) [OF assms(1)] deleteCluster_calls calls_quiet [OF quiet_delete_pools] calls_quiet [OF quiet_labels(2)]
        calls_quiet [OF quiet_labels(4)] calls_quiet [OF quiet_labels(5)] calls_quiet [OF quiet_sub_objects(2)])
  have "calls_in P (runRemoveState c e s)" if "e \<in> set (extra_removals D S c) \<union> set (main_removals D S c)" for e s
    by (rule runRemoveState_calls, rule entry, rule that)
  then show ?thesis
    unfolding cleanCephDeployment_def by (auto intro!: calls_intro)
qed

lemma status_clean:
  "steps_issue no_status S \<Longrightarrow> triple (\<lambda>_. True) (status_guard D) (cleanCephDeployment D S c) (\<lambda>_ _. True)"
  by (rule status_free, rule removals_calls) simp_all

lemma reconcile_status:
  assumes "steps_issue no_status S"
  shows "triple (\<lambda>_. True) (status_guard D) (Deploy_Reconcile D S lcmConfig ns name failTry) (\<lambda>_ _. True)"
proof -
  note ops = status_writers_triple status_apply [OF assms] status_clean [OF assms] quiet_intro [THEN status_quiet] triple_return
    status_free [OF deployment_writers_calls(1)] status_free [OF deployment_writers_calls(2)]
    status_free [OF deployment_writers_calls(3)]
  have delete: "triple (\<lambda>_. True) (status_guard D) (reconcile_delete D S n c) (\<lambda>_ _. True)" for n c
    unfolding reconcile_delete_def Let_def by (intro plain_rules ops; simp)
  have tail: "triple (\<lambda>_. True) (status_guard D) (reconcile_apply D S c) (\<lambda>_ _. True)" for c
    unfolding reconcile_apply_def Let_def by (intro plain_rules ops; simp)
  have lcm: "triple (\<lambda>_. True) (status_guard D) (reconcile_lcm D S n c) (\<lambda>_ _. True)" for n c
    unfolding reconcile_lcm_def by (intro plain_rules ops tail; simp)
  have prep: "triple (\<lambda>_. True) (status_guard D) (reconcile_setup D S n c) (\<lambda>_ _. True)" for n c
    unfolding reconcile_setup_def Let_def by (intro plain_rules ops lcm; simp)
  have spec: "triple (\<lambda>_. True) (status_guard D) (reconcile_spec D S n c) (\<lambda>_ _. True)" for n c
    unfolding reconcile_spec_def by (intro plain_rules ops prep; simp)
  have one: "triple (\<lambda>_. True) (status_guard D) (reconcile_one D S n c) (\<lambda>_ _. True)" for n c
    unfolding reconcile_one_def Let_def by (intro plain_rules ops spec delete; simp)
  show ?thesis
    unfolding Deploy_Reconcile_def by (auto intro!: plain_rules ops one split: list.splits)
qed

section \<open>The pool guard\<close>

definition no_pool_write :: "call \<Rightarrow> bool" where
  "no_pool_write call \<longleftrightarrow> (\<forall>pool. call \<noteq> Manage (CreateBlockPool pool) \<and> call \<noteq> Manage (UpdateBlockPool pool))"

lemma no_pool_write_simps [simp]: "\<not> sensitive call \<Longrightarrow> no_pool_write call" "no_pool_write (Manage (UpdateCephDeploymentStatus a b st))"
  "no_pool_write (Manage (DeleteCephCluster a b))" "no_pool_write (Manage (UpdateCephDeployment dpl))"
  by (auto simp: no_pool_write_def)

text \<open>What was seen when the check for tasks and maintenance lets the run continue.\<close>

definition clear :: "deployEnv \<Rightarrow> cephDeploymentConfig \<Rightarrow> hist \<Rightarrow> bool" where
  "clear D c h \<longleftrightarrow> external c \<or> no_task_blocks D (cdp_Namespace (dpl_of c)) h \<and> no_maintenance D (cdp_Namespace (dpl_of c)) (cdp_Name (dpl_of c)) h"

lemma clear_append [simp]: "clear D c h \<Longrightarrow> clear D c (h @ cs)"
  by (auto simp: clear_def)

abbreviation pool_guard_of :: "deployEnv \<Rightarrow> cephDeploymentConfig \<Rightarrow> hist \<Rightarrow> call \<Rightarrow> bool" where
  "pool_guard_of D c \<equiv> pool_guard D (cdp_Namespace (dpl_of c)) (cdp_Name (dpl_of c))"

interpretation pools: call_guard no_pool_write "pool_guard D ns name" for D ns name
  by unfold_locales (simp_all, auto simp: no_pool_write_def pool_guard_def)

lemmas pool_free = pools.free
lemmas pool_quiet = pools.still

lemma lcm_tasks_result:
  "returns (\<lambda>r. r = Inr False \<longrightarrow> list_all (\<lambda>task. \<not> blocking task) (takeWhile (\<lambda>task. \<not> validating task) tasks)) (lcm_tasks D c tasks)"
proof (induction D c tasks rule: lcm_tasks.induct)
  case (2 D c task tasks)
  then show ?case
    by (cases "task_Status task") (auto simp: returns_def blocking_def validating_def)
qed (simp add: returns_def)

lemma maintenance_triple:
  "triple (\<lambda>_. True) (pool_guard D ns name) (IsClusterMaintenanceActing (de_env D) a b) (\<lambda>r h. r = Inr False \<longrightarrow> no_maintenance D a b h)"
  unfolding IsClusterMaintenanceActing_def
  by (rule triple_bind [where M = "\<lambda>r. seen (GetMaintenance a b) (\<lambda>h. e_GetMaintenance (de_env D) h a b = r)"])
    (auto intro!: triple_issue triple_return simp: no_maintenance_def elim!: seen_mono split: sum.splits option.splits)

lemma checkLcmState_triple:
  "triple (\<lambda>_. True) (pool_guard D ns name) (checkLcmState D c) (\<lambda>r h. \<forall>phase. r = Inr (False, phase) \<longrightarrow> clear D c h)"
  unfolding checkLcmState_def Let_def
proof (rule triple_bind [where M = "\<lambda>held h. held = Inr False \<longrightarrow> external c \<or> no_task_blocks D (cdp_Namespace (dpl_of c)) h"], goal_cases)
  case 1
  let ?ns = "cdp_Namespace (dpl_of c)"
  have tasks: "triple (seen (ListTasks ?ns) (\<lambda>h. e_ListTasks (de_env D) h ?ns = Inr tasks)) (pool_guard D ns name) (lcm_tasks D c tasks)
      (\<lambda>r h. r = Inr False \<longrightarrow> external c \<or> no_task_blocks D ?ns h)" for tasks
    by (rule triple_post [OF triple_returns [OF pool_quiet [OF lcm_tasks_quiet] lcm_tasks_result]])
      (auto simp: seen_later no_task_blocks_def intro: seen_mono)
  show ?case
  proof (rule triple_if, goal_cases)
    case 2
    show ?case
    proof (rule triple_bind [where M = "\<lambda>r. seen (ListTasks ?ns) (\<lambda>h. e_ListTasks (de_env D) h ?ns = r)"], goal_cases)
      case (2 r)
      show ?case by (rule triple_sum) (auto intro!: triple_return tasks)
    qed (auto intro!: triple_issue)
  qed (auto intro!: triple_return)
next
  case (2 held)
  show ?case
  proof (rule triple_sum, goal_cases)
    case (2 b)
    show ?case
    proof (rule triple_bool, goal_cases)
      case 2
      show ?case
        by (rule triple_bind [OF triple_pre [OF triple_keep [OF maintenance_triple, where A = "\<lambda>h. external c \<or> no_task_blocks D (cdp_Namespace (dpl_of c)) h"]]])
          (use 2 \<open>held = Inr b\<close> in \<open>auto intro!: triple_return simp: clear_def split: sum.splits\<close>)
    qed (auto intro!: triple_return)
  qed (auto intro!: triple_return)
qed

text \<open>The fields of a configuration that do not change during a run.\<close>

lemma config_simps [simp]:
  "cdp_Name (dpl_of (with_dpl_status f c)) = cdp_Name (dpl_of c)" "cdp_Namespace (dpl_of (with_dpl_status f c)) = cdp_Namespace (dpl_of c)"
  "cdp_Finalizers (dpl_of (with_dpl_status f c)) = cdp_Finalizers (dpl_of c)" "external (with_dpl_status f c) = external c"
  "rook_ns (with_dpl_status f c) = rook_ns c"
  "cdp_Name (dpl_of (with_version v b c)) = cdp_Name (dpl_of c)" "cdp_Namespace (dpl_of (with_version v b c)) = cdp_Namespace (dpl_of c)"
  "cdp_Finalizers (dpl_of (with_version v b c)) = cdp_Finalizers (dpl_of c)" "external (with_version v b c) = external c"
  "rook_ns (with_version v b c) = rook_ns c"
  "cdp_Name (dpl_of (with_spec spec c)) = cdp_Name (dpl_of c)" "cdp_Namespace (dpl_of (with_spec spec c)) = cdp_Namespace (dpl_of c)"
  "cdp_Finalizers (dpl_of (with_spec spec c)) = cdp_Finalizers (dpl_of c)" "rook_ns (with_spec spec c) = rook_ns c"
  "external (with_spec spec c) = external c"
  by (simp_all add: with_dpl_status_def with_version_def with_spec_def)

definition same_deployment :: "cephDeploymentConfig \<Rightarrow> cephDeploymentConfig \<Rightarrow> bool" where
  "same_deployment c c' \<longleftrightarrow> cdp_Name (dpl_of c') = cdp_Name (dpl_of c) \<and> cdp_Namespace (dpl_of c') = cdp_Namespace (dpl_of c) \<and>
     cdp_Finalizers (dpl_of c') = cdp_Finalizers (dpl_of c) \<and> rook_ns c' = rook_ns c"

lemma cast_config_dpl [simp]: "dcf_cephDpl (cast_config D spec cd) = dcf_cephDpl cd"
  by (simp add: cast_config_def Let_def split: prod.splits option.splits)

lemma castExtensions_result:
  "returns (\<lambda>(err, c'). same_deployment c c' \<and>
     (err = None \<longrightarrow> external c' = cs_ExternalEnable (fst (CephCluster_GetSpec D (sps_Cluster (dpl_spec c)))))) (castExtensions D c)"
proof -
  have ext: "cs_ExternalEnable (dcf_clusterSpec (cast_config D spec cd)) = cs_ExternalEnable (fst (CephCluster_GetSpec D (sps_Cluster spec)))"
    if "cast_errors D spec = []" for spec cd
    using that by (auto simp: cast_errors_def cast_config_def Let_def split: prod.splits option.splits if_splits)
  show ?thesis
    unfolding castExtensions_def Let_def
    by (auto simp: returns_def same_deployment_def split_beta ext split: if_splits)
qed

lemma pool_apply:
  assumes "steps_issue no_pool_write S"
  shows "triple (clear D c) (pool_guard_of D c) (reconcile_apply D S c) (\<lambda>_ _. True)"
proof -
  let ?P = "clear D c" and ?Q = "pool_guard_of D c"
  have writers: "triple ?P ?Q m (\<lambda>_. ?P)" if "\<not> external c" "calls_in (\<lambda>_. True) m" for m :: "(string + bool) io"
    by (rule triple_frame [OF that(2)]) (use that(1) in \<open>auto simp: clear_def pool_guard_def\<close>)
  have conf: "triple ?P ?Q (applyConfiguration D S (with_dpl_status f c)) (\<lambda>_. ?P)" for f
  proof (rule applyConfiguration_triple, goal_cases)
    case (5 step c')
    show ?case by (rule pool_free [OF steps_issueD(1) [OF assms 5]]) simp
  qed (auto intro!: writers pool_quiet [OF quiet_labels(1)] pool_quiet [OF quiet_labels(3)] pool_writers_calls)
  have status: "triple ?P ?Q (write_status D c') (\<lambda>_. ?P)" for c'
    by (rule pool_free) (auto intro!: calls_intro)
  have align: "triple ?P ?Q (alignSpecForAES256k D c') (\<lambda>_. ?P)" for c'
    by (rule pool_free) (auto intro!: deployment_writers_calls)
  show ?thesis
    unfolding reconcile_apply_def Let_def finish_def
    by (rule triple_bind [OF status], rule triple_bind [OF conf], intro triple_prod, rule triple_bind [where M = "\<lambda>_. ?P"])
      (auto intro!: triple_if align triple_bind [OF status] triple_return triple_prod triple_option)
qed

lemma reconcile_pools:
  assumes "steps_issue no_pool_write S"
  shows "triple (\<lambda>_. True) (pool_guard_of D c) (reconcile_one D S failTry c) (\<lambda>_ _. True)"
proof -
  let ?T = "\<lambda>_::hist. True"
  have writers: "calls_in no_pool_write (write_and_rerun D c')" "calls_in no_pool_write (fail_run D n c' msg)"
    "calls_in no_pool_write (write_status D c')" "calls_in no_pool_write (finish i e n)"
    "calls_in no_pool_write (ensureDeprecatedFields D c')" "calls_in no_pool_write (updateFinalizer D c' b)"
    "calls_in no_pool_write (cleanCephDeployment D S c')" for n c' msg i e b
    by (auto intro!: calls_intro deployment_writers_calls removals_calls assms)
  note free = writers [THEN pool_free [where P = ?T]]
  note ops = free quiet_intro [THEN pool_quiet [where P = ?T]] triple_return
  have delete: "triple ?T (pool_guard D ns name) (reconcile_delete D S n c') (\<lambda>_ _. True)" for n c' ns name
    unfolding reconcile_delete_def Let_def by (intro plain_rules ops; simp)
  have lcm: "triple ?T (pool_guard_of D c') (reconcile_lcm D S n c') (\<lambda>_ _. True)" for n c'
    unfolding reconcile_lcm_def
  proof (rule triple_bind [OF checkLcmState_triple], rule triple_sum, goal_cases)
    case (2 r p)
    show ?case
    proof (rule triple_prod, rule triple_bool, goal_cases)
      case (2 active phase)
      with \<open>r = Inr p\<close> show ?case by (auto intro!: triple_pre [OF pool_apply [OF assms]])
    qed (rule triple_pre [OF pool_free [where P = ?T]], auto intro!: calls_intro)
  qed (rule triple_pre [OF pool_free [where P = ?T]], auto intro!: calls_intro)
  have lcm': "cdp_Namespace (dpl_of c'') = cdp_Namespace (dpl_of c') \<Longrightarrow> cdp_Name (dpl_of c'') = cdp_Name (dpl_of c') \<Longrightarrow>
      triple ?T (pool_guard_of D c') (reconcile_lcm D S n c'') (\<lambda>_ _. True)" for n c' c''
    using lcm [of c'' n] by simp
  have prep: "triple ?T (pool_guard_of D c') (reconcile_setup D S n c') (\<lambda>_ _. True)" for n c'
    unfolding reconcile_setup_def Let_def by (intro plain_rules ops lcm'; simp)
  have spec: "triple ?T (pool_guard_of D c') (reconcile_spec D S n c') (\<lambda>_ _. True)" for n c'
    unfolding reconcile_spec_def by (intro plain_rules ops prep; simp)
  have spec': "triple ?T (pool_guard_of D c) (reconcile_spec D S n c') (\<lambda>_ _. True)" if "same_deployment c c'" for n c'
    using spec [of c' n] that by (simp add: same_deployment_def)
  have cast: "triple ?T (pool_guard_of D c) (do {
         (err, c) \<leftarrow> castExtensions D c;
         if err \<noteq> None then fail_run D failTry c msg
         else if cdp_Deleting (dpl_of c) \<and> \<not> prevent_destroy c then
           (if Contains (cdp_Finalizers (dpl_of c)) finalizer then reconcile_delete D S failTry c else finish 0 None failTry)
         else reconcile_spec D S failTry c }) (\<lambda>_ _. True)" for msg
  proof (rule triple_bind [OF triple_returns [OF pool_quiet [OF quiet_cast] castExtensions_result]], simp, rule triple_prod, goal_cases)
    case (1 r err c')
    show ?case
      by (rule triple_and_pure [of _ "same_deployment c c'"])
        (use 1 in \<open>auto intro!: triple_pre [where P = ?T] plain_rules ops delete spec'\<close>)
  qed
  show ?thesis
    unfolding reconcile_one_def Let_def by (intro plain_rules ops cast; simp)
qed

section \<open>The destroy guard\<close>

definition no_destroy :: "call \<Rightarrow> bool" where
  "no_destroy call \<longleftrightarrow> (\<forall>a b dpl. call \<noteq> Manage (DeleteCephCluster a b) \<and> call \<noteq> Manage (UpdateCephDeployment dpl))"

lemma no_destroy_simps [simp]: "\<not> sensitive call \<Longrightarrow> no_destroy call" "no_destroy (Manage (UpdateCephDeploymentStatus a b st))"
  "no_destroy (Manage (CreateBlockPool pool))" "no_destroy (Manage (UpdateBlockPool pool))"
  by (auto simp: no_destroy_def)

interpretation destroys: call_guard no_destroy "destroy_guard D ext fin rook name" for D ext fin rook name
  by unfold_locales (simp_all, auto simp: no_destroy_def destroy_guard_def)

lemmas destroy_free = destroys.free
lemmas destroy_quiet = destroys.still

lemma deletePools_triple:
  "triple (\<lambda>_. True) (destroy_guard D ext fin rook name) (deletePools D c) (\<lambda>r h. r = Inr True \<longrightarrow> pools_gone D (rook_ns c) h)"
  unfolding deletePools_def list_pools_def
proof (rule triple_bind [where M = "\<lambda>r. seen (Manage (ListBlockPools (rook_ns c))) (\<lambda>h. de_ListBlockPools D h (rook_ns c) = r)"], goal_cases)
  case (2 r)
  have "triple (\<lambda>_. True) (destroy_guard D ext fin rook name) (for_each (delete_pool D) pools 0) (\<lambda>_ _. True)" for pools
    by (rule destroy_quiet) (auto simp: delete_pool_def processBlockPools_def intro!: calls_intro)
  then show ?case
    by (auto intro!: triple_sum triple_if triple_return triple_pre [OF triple_bind] simp: pools_gone_def split: if_splits)
qed (auto intro!: triple_manage)

lemma deleteCluster_triple:
  "triple (\<lambda>h. ext \<or> pools_gone D rook h) (destroy_guard D ext fin rook name) (deleteCluster D c)
     (\<lambda>r h. (ext \<or> pools_gone D rook h) \<and> (r = Inr True \<longrightarrow> cluster_gone D (rook_ns c) (cdp_Name (dpl_of c)) h))"
  (is "triple ?P ?Q _ _")
  unfolding deleteCluster_def get_cluster_def
proof (rule triple_bind [where M = "\<lambda>r h. ?P h \<and> seen (GetCephCluster (rook_ns c) (cdp_Name (dpl_of c)))
    (\<lambda>h. de_GetCephCluster D h (rook_ns c) (cdp_Name (dpl_of c)) = r) h"], goal_cases)
  case (2 r)
  show ?case
  proof (rule triple_sum, goal_cases)
    case (1 err)
    then show ?case by (auto intro!: triple_return simp: cluster_gone_def elim!: seen_mono)
  next
    case (2 cluster)
    show ?case
      unfolding Let_def
      by (rule triple_pre [where P = ?P], rule triple_bind [where M = "\<lambda>_. ?P"], rule triple_manage)
        (auto intro!: triple_option triple_return triple_bind [where M = "\<lambda>_. ?P"] triple_manage simp: destroy_guard_def split: option.splits)
  qed
qed (auto intro!: triple_issue)

lemma removal_names:
  assumes "e \<in> set (extra_removals D S c) \<union> set (main_removals D S c)"
  shows "fst e = ''ceph cluster'' \<Longrightarrow> snd e = deleteCluster D" and "fst e = ''ceph block pools'' \<Longrightarrow> snd e = deletePools D"
    and "fst e \<noteq> ''ceph cluster'' \<Longrightarrow> snd e \<in> set (remove_steps S) \<or> (\<exists>kind. snd e = delete_sub_object D kind) \<or>
      snd e \<in> {deletePools D, deleteLabelNodes D, deleteNodesAnnotations D, deleteDaemonSetLabels D}"
  using assms unfolding extra_removals_def main_removals_def remove_steps_def sub_object_step_def by (auto split: if_splits)

lemma extra_no_cluster: "e \<in> set (extra_removals D S c) \<Longrightarrow> fst e \<noteq> ''ceph cluster''"
  unfolding extra_removals_def sub_object_step_def by (auto split: if_splits)

lemma clean_destroy:
  assumes "steps_issue no_destroy S" and ext: "ext = external c" and rook: "rook = rook_ns c"
  shows "triple (\<lambda>_. True) (destroy_guard D ext fin rook name) (cleanCephDeployment D S c)
    (\<lambda>r h. r = Inr True \<longrightarrow> (ext \<or> pools_gone D rook h) \<and> cluster_gone D rook (cdp_Name (dpl_of c)) h)"
proof -
  let ?Q = "destroy_guard D ext fin rook name" and ?P = "\<lambda>h. ext \<or> pools_gone D rook h"
  let ?G1 = "\<lambda>n h. n = ''ceph block pools'' \<longrightarrow> pools_gone D rook h"
  let ?G2 = "\<lambda>n h. n = ''ceph cluster'' \<longrightarrow> cluster_gone D rook (cdp_Name (dpl_of c)) h"
  have other: "triple P ?Q (snd e c) (\<lambda>_. P)"
    if "e \<in> set (extra_removals D S c) \<union> set (main_removals D S c)" "fst e \<noteq> ''ceph cluster''" "\<And>h cs. P h \<Longrightarrow> P (h @ cs)" for e P
    using removal_names(3) [OF that(1,2)]
    by (elim disjE exE insertE emptyE)
      (auto intro!: destroy_free that(3) calls_quiet [OF quiet_delete_pools] calls_quiet [OF quiet_labels(2)]
        calls_quiet [OF quiet_labels(4)] calls_quiet [OF quiet_labels(5)] calls_quiet [OF quiet_sub_objects(2)]
        intro: steps_issueD(2) [OF assms(1)])
  have extra: "triple (\<lambda>_. True) ?Q (snd e c) (\<lambda>r h. True \<and> (r = Inr True \<longrightarrow> ?G1 (fst e) h))" if e: "e \<in> set (extra_removals D S c)" for e
  proof (cases "fst e = ''ceph block pools''")
    case True
    with removal_names(2) [of e D S c] e rook deletePools_triple [of D ext fin rook name c] show ?thesis by simp
  next
    case False
    with other [of e "\<lambda>_. True"] e extra_no_cluster [OF e] show ?thesis by simp
  qed
  have main: "triple ?P ?Q (snd e c) (\<lambda>r h. ?P h \<and> (r = Inr True \<longrightarrow> ?G2 (fst e) h))" if e: "e \<in> set (main_removals D S c)" for e
  proof (cases "fst e = ''ceph cluster''")
    case True
    with removal_names(1) [of e D S c] e rook deleteCluster_triple [of ext D rook fin name c] show ?thesis by simp
  next
    case False
    have stable: "\<And>h cs. ?P h \<Longrightarrow> ?P (h @ cs)" by auto
    from other [of e ?P, OF _ False stable] e False show ?thesis by simp
  qed
  have pools: "(''ceph block pools'', deletePools D) \<in> set (extra_removals D S c)" if "\<not> ext"
    using that ext by (simp add: extra_removals_def)
  have cluster: "(''ceph cluster'', deleteCluster D) \<in> set (main_removals D S c)"
    by (simp add: main_removals_def)
  have loop1: "triple (\<lambda>_. True) ?Q (for_each (runRemoveState c) (extra_removals D S c) (True, [])) (\<lambda>s h. fst s \<longrightarrow> ?P h)"
  proof (rule triple_post [OF removals_triple [where P = "\<lambda>_. True" and G = ?G1, OF extra]], goal_cases)
    case (3 s h)
    then have "?G1 ''ceph block pools'' h" if "fst s" "\<not> ext"
      using that(1) bspec [OF _ pools [OF that(2)], where P = "\<lambda>e. ?G1 (fst e) h"] by simp
    then show ?case by blast
  qed simp_all
  have loop2: "triple ?P ?Q (for_each (runRemoveState c) (main_removals D S c) s)
      (\<lambda>s h. fst s \<longrightarrow> ?P h \<and> cluster_gone D rook (cdp_Name (dpl_of c)) h)" for s
  proof (rule triple_post [OF removals_triple [where P = ?P and G = ?G2, OF main]], goal_cases)
    case (3 s' h)
    then have "?G2 ''ceph cluster'' h" if "fst s'"
      using that bspec [OF _ cluster, where P = "\<lambda>e. ?G2 (fst e) h"] by simp
    with 3 show ?case by blast
  qed simp_all
  have rest: "triple (\<lambda>h. fst s \<longrightarrow> ?P h) ?Q (if fst s then for_each (runRemoveState c) (main_removals D S c) s else State_Monad.return s)
      (\<lambda>s h. fst s \<longrightarrow> ?P h \<and> cluster_gone D rook (cdp_Name (dpl_of c)) h)" for s
    by (rule triple_if) (auto intro!: triple_pre [OF loop2] triple_return)
  show ?thesis
    unfolding cleanCephDeployment_def
  proof (rule triple_bind [OF loop1], rule triple_prod, goal_cases)
    case (1 s fin' errs)
    show ?case
      by (rule triple_bind [OF triple_pre [OF rest [of "(fin', errs)", simplified]]])
        (use 1 in \<open>auto intro!: triple_prod triple_return split: if_splits\<close>)
  qed
qed

lemma finalizer_triples:
  "triple P (destroy_guard D ext fin rook name) (updateFinalizer D c True) (\<lambda>_ _. True)"
  "triple (\<lambda>h. (ext \<or> pools_gone D rook h) \<and> cluster_gone D rook name h) (destroy_guard D ext fin rook name) (updateFinalizer D c False) (\<lambda>_ _. True)"
  "(fin \<Longrightarrow> finalizer \<in> set (cdp_Finalizers (dpl_of c))) \<Longrightarrow>
   triple P (destroy_guard D ext fin rook name) (ensureDeprecatedFields D c) (\<lambda>_ _. True)"
  unfolding updateFinalizer_def ensureDeprecatedFields_def update_deployment_def Let_def
  by (auto intro!: triple_manage triple_return triple_bind [where M = "\<lambda>_ _. True"] simp: destroy_guard_def Contains_iff
      split: prod.splits sum.splits bool.splits)

lemma alignSpec_triple: "triple (\<lambda>_. True) (destroy_guard D ext fin rook name) (alignSpecForAES256k D c) (\<lambda>_ _. True)"
proof -
  let ?Q = "destroy_guard D ext fin rook name" and ?ns = "cdp_Namespace (dpl_of c)" and ?name = "cdp_Name (dpl_of c)"
  have "triple (\<lambda>_. True) ?Q (write_aligned D c raw) (\<lambda>_ _. True)" for raw
    unfolding write_aligned_def update_deployment_def Let_def prod.case
    by (rule triple_bind [where M = "\<lambda>r h. \<exists>h1. h = h1 @ [Manage (ReadCephDeployment ?ns ?name)] \<and> de_ReadCephDeployment D h1 ?ns ?name = r"])
      (auto intro!: triple_manage triple_sum triple_if triple_return triple_bind [where M = "\<lambda>_ _. True"]
        simp: destroy_guard_def read_without_finalizer_def with_raw_cluster_def)
  then show ?thesis
    unfolding alignSpecForAES256k_def by (auto intro!: triple_return split: option.splits sum.splits)
qed

lemma reconcile_destroy:
  assumes "steps_issue no_destroy S"
    and ext: "ext = cs_ExternalEnable (fst (CephCluster_GetSpec D (sps_Cluster (dpl_spec c))))"
    and fin: "fin \<Longrightarrow> finalizer \<in> set (cdp_Finalizers (dpl_of c))" and rook: "rook = rook_ns c" and name: "name = cdp_Name (dpl_of c)"
  shows "triple (\<lambda>_. True) (destroy_guard D ext fin rook name) (reconcile_one D S failTry c) (\<lambda>_ _. True)"
proof -
  let ?T = "\<lambda>_::hist. True" and ?Q = "destroy_guard D ext fin rook name"
  have writers: "calls_in no_destroy (write_and_rerun D c')" "calls_in no_destroy (fail_run D n c' msg)"
    "calls_in no_destroy (write_status D c')" "calls_in no_destroy (finish i e n)" for n c' msg i e
    by (auto intro!: calls_intro)
  note free = writers [THEN destroy_free [where P = ?T]]
  note ops = free quiet_intro [THEN destroy_quiet [where P = ?T]] triple_return
  have conf: "triple ?T ?Q (applyConfiguration D S c') (\<lambda>_ _. True)" for c'
    by (rule applyConfiguration_triple)
      (auto intro!: destroy_free [where P = ?T] pool_writers_calls calls_quiet [OF quiet_labels(1)] calls_quiet [OF quiet_labels(3)]
        intro: steps_issueD(1) [OF assms(1)])
  have align: "triple ?T ?Q (alignSpecForAES256k D c') (\<lambda>_ _. True)" for c'
    by (rule alignSpec_triple)
  have delete: "triple ?T ?Q (reconcile_delete D S n c') (\<lambda>_ _. True)" if "external c' = ext" "same_deployment c c'" for n c'
  proof -
    have report: "triple ?T ?Q (do { (_, failTry) \<leftarrow> write_status D c''; finish i e failTry }) (\<lambda>_ _. True)" for c'' i e
      by (intro plain_rules ops; simp)
    have gone: "triple ?T ?Q (cleanCephDeployment D S c') (\<lambda>r h. r = Inr True \<longrightarrow> (ext \<or> pools_gone D rook h) \<and> cluster_gone D rook name h)"
      using clean_destroy [OF assms(1), of ext c' rook D fin name] that rook name by (simp add: same_deployment_def)
    show ?thesis
      unfolding reconcile_delete_def Let_def
    proof (rule triple_if, goal_cases)
      case 2
      show ?case
        by (rule triple_bind [OF gone])
          (auto intro!: triple_sum triple_bool triple_pre [OF report] triple_bind [OF triple_pre [OF finalizer_triples(2)]] triple_if
            triple_pre [OF free(4)] report)
    qed (intro ops; simp)
  qed
  have tail: "triple ?T ?Q (reconcile_apply D S c') (\<lambda>_ _. True)" for c'
    unfolding reconcile_apply_def Let_def by (intro plain_rules ops conf align; simp)
  have lcm: "triple ?T ?Q (reconcile_lcm D S n c') (\<lambda>_ _. True)" for n c'
    unfolding reconcile_lcm_def by (intro plain_rules ops tail; simp)
  have prep: "triple ?T ?Q (reconcile_setup D S n c') (\<lambda>_ _. True)" for n c'
    unfolding reconcile_setup_def Let_def by (intro plain_rules ops lcm; simp)
  have spec: "triple ?T ?Q (reconcile_spec D S n c') (\<lambda>_ _. True)" for n c'
    unfolding reconcile_spec_def by (intro plain_rules ops prep finalizer_triples(1); simp)
  have cast: "triple ?T ?Q (do {
         (err, c) \<leftarrow> castExtensions D c;
         if err \<noteq> None then fail_run D failTry c msg
         else if cdp_Deleting (dpl_of c) \<and> \<not> prevent_destroy c then
           (if Contains (cdp_Finalizers (dpl_of c)) finalizer then reconcile_delete D S failTry c else finish 0 None failTry)
         else reconcile_spec D S failTry c }) (\<lambda>_ _. True)" for msg
  proof (rule triple_bind [OF triple_returns [OF destroy_quiet [OF quiet_cast] castExtensions_result]], simp, rule triple_prod, goal_cases)
    case (1 r err c')
    show ?case
    proof (rule triple_and_pure [of _ "same_deployment c c' \<and> (err = None \<longrightarrow> external c' = ext)"], goal_cases)
      case 2
      then show ?case by - (rule triple_pre [where P = ?T], intro plain_rules ops delete spec; simp)
    qed (use 1 ext in auto)
  qed
  show ?thesis
    unfolding reconcile_one_def Let_def by (intro plain_rules ops cast finalizer_triples(3) fin; simp)
qed

end
