(* ===== verification/Deploy_Run_Theorems.thy ===== *)
theory Deploy_Run_Theorems
  imports Deploy_Run Deploy_Scenario
begin

text \<open>
  Properties of whole runs of the deployment controller. The steps that are not modelled are arbitrary; each
  property says which calls they are assumed not to make.
\<close>

lemma reconcile_run:
  assumes "de_ListCephDeployments D h ns = Inr [dpl]" and "cdp_Name dpl = name"
  shows "snd (run_state (Deploy_Reconcile D S lcmConfig ns name failTry) h) =
    snd (run_state (reconcile_one D S failTry (new_config lcmConfig dpl)) (h @ [Manage (ListCephDeployments ns)]))"
  using assms by (simp add: Deploy_Reconcile_def)

lemma new_config_simps [simp]: "dpl_of (new_config lcmConfig dpl) = dpl" "rook_ns (new_config lcmConfig dpl) = lc_RookNamespace lcmConfig"
  by (simp_all add: new_config_def)

text \<open>A guard that holds after the listing holds for every later call of a run.\<close>

lemma reconcile_guarded:
  assumes "de_ListCephDeployments D h ns = Inr [dpl]" and "cdp_Name dpl = name"
    and "triple (\<lambda>_. True) Q (reconcile_one D S failTry (new_config lcmConfig dpl)) (\<lambda>_ _. True)"
    and "snd (run_state (Deploy_Reconcile D S lcmConfig ns name failTry) h) = h @ xs @ call # ys"
    and "call \<noteq> Manage (ListCephDeployments ns)"
  shows "Q (h @ xs) call"
proof -
  let ?h = "h @ [Manage (ListCephDeployments ns)]"
  from assms(3) obtain cs where cs: "snd (run_state (reconcile_one D S failTry (new_config lcmConfig dpl)) ?h) = ?h @ cs"
    unfolding triple_def by blast
  with assms(4,5) reconcile_run [OF assms(1,2), of S lcmConfig failTry] obtain zs where xs: "xs = Manage (ListCephDeployments ns) # zs"
    by (cases xs) auto
  have "Q (?h @ zs) call"
    by (rule triple_call [OF assms(3), where ys = ys]) (use assms(4) reconcile_run [OF assms(1,2), of S lcmConfig failTry] xs in auto)
  with xs show ?thesis by simp
qed

section \<open>The phase that other controllers rely on\<close>

text \<open>C25. A run writes the phase Failed only right after it has read the deployment and its phase was neither
  OnHold nor Maintenance, so that a failure never hides the phases the other controllers wait for.\<close>

theorem failure_never_hides_hold:
  assumes "steps_issue no_status S"
    and "snd (run_state (Deploy_Reconcile D S lcmConfig ns name failTry) h) = h @ xs @ Manage (UpdateCephDeploymentStatus a b st) # ys"
    and "dps_Phase st = PhaseFailed"
  shows "\<exists>h1 ns' name' dpl. h @ xs = h1 @ [Manage (ReadCephDeployment ns' name'), Now] \<and> de_ReadCephDeployment D h1 ns' name' = Inr dpl \<and>
    a = cdp_Namespace dpl \<and> b = cdp_Name dpl \<and> dps_Phase (cdp_Status dpl) \<noteq> PhaseOnHold \<and> dps_Phase (cdp_Status dpl) \<noteq> PhaseMaintenance"
  using triple_call [OF reconcile_status [OF assms(1)] TrueI assms(2)] assms(3) unfolding status_guard_def by fastforce

definition dv_two_env :: deployEnv where
  "dv_two_env = dv_env\<lparr>de_ListCephDeployments := \<lambda>_ _. Inr [dv_dpl, dv_dpl]\<rparr>"

theorem failure_never_hides_hold_witness:
  "\<exists>h1 ns' name' dpl. [Manage (ListCephDeployments ''pelagia''), Manage (ReadCephDeployment ''pelagia'' ''cluster''), Now] =
     h1 @ [Manage (ReadCephDeployment ns' name'), Now] \<and> de_ReadCephDeployment dv_two_env h1 ns' name' = Inr dpl \<and>
     dps_Phase (cdp_Status dpl) \<noteq> PhaseOnHold"
proof -
  let ?st = "(with_message PhaseFailed (''incorrect number of CephDeployments in pelagia namespace'') Status0)\<lparr>dps_LastRun := ''+++''\<rparr>"
  have "snd (run_state (Deploy_Reconcile dv_two_env dv_steps sc_params ''pelagia'' ''cluster'' 3) []) =
      [] @ [Manage (ListCephDeployments ''pelagia''), Manage (ReadCephDeployment ''pelagia'' ''cluster''), Now] @
        Manage (UpdateCephDeploymentStatus ''pelagia'' ''cluster'' ?st) # []"
    by code_simp
  from failure_never_hides_hold [OF dv_steps_issue this] show ?thesis by (auto simp: with_message_def)
qed

section \<open>Tasks and maintenance\<close>


text \<open>A deployment whose specification is validated and whose version is known, so that a run applies it.\<close>

definition dv_live_dpl :: CephDeployment where
  "dv_live_dpl = dv_dpl\<lparr>cdp_Status := Status0\<lparr>dps_Phase := PhaseReady, dps_ClusterVersion := ''v19.2.3'',
     dps_Validation := \<lparr>val_Result = ValidationSucceed, val_LastValidatedGeneration = 1, val_Messages = []\<rparr>\<rparr>\<rparr>"

definition dv_live_env :: deployEnv where
  "dv_live_env = dv_env\<lparr>de_ListCephDeployments := \<lambda>_ _. Inr [dv_live_dpl], de_ReadCephDeployment := \<lambda>_ _ _. Inr dv_live_dpl,
     de_GetDaemonSet := \<lambda>_ ns name. Inr \<lparr>as_Name = name, as_Namespace = ns, as_Image = ''rook:v1.18'',
       as_Status = \<lparr>ds_NumberReady = 1, ds_CurrentNumberScheduled = 1, ds_DesiredNumberScheduled = 1, ds_NumberAvailable = 1,
         ds_UpdatedNumberScheduled = 1\<rparr>\<rparr>\<rparr>"

definition dv_live_run :: hist where
  "dv_live_run = snd (run_state (Deploy_Reconcile dv_live_env dv_steps sc_params ''pelagia'' ''cluster'' 0) [])"

definition dv_pool_call :: call where
  "dv_pool_call = Manage (CreateBlockPool (generatePool dv_live_env (dv_pool ''data'') ''rook''))"

lemma dv_live_pool: "dv_pool_call \<in> set dv_live_run"
  by code_simp

lemma dv_live_pool_first: "\<exists>ys. dv_live_run = takeWhile (\<lambda>call. call \<noteq> dv_pool_call) dv_live_run @ dv_pool_call # ys"
proof -
  obtain ys zs where run: "dv_live_run = ys @ dv_pool_call # zs" "dv_pool_call \<notin> set ys"
    using split_list_first [OF dv_live_pool] by blast
  then have "takeWhile (\<lambda>call. call \<noteq> dv_pool_call) dv_live_run = ys"
    by (subst run(1), subst takeWhile_append2) auto
  with run(1) show ?thesis by metis
qed


text \<open>A task under validation, whose deployment is not on hold yet and not aligned with the cluster, ends the
  search for tasks: whatever the tasks listed after it are doing, being processed or failed in processing, the
  run goes on to apply the configuration.\<close>

theorem validating_task_hides_later_ones:
  assumes "\<not> external c" and "dps_Phase (dpl_status c) \<noteq> PhaseOnHold" and "validating task"
    and "e_ListTasks (de_env D) h (cdp_Namespace (dpl_of c)) = Inr (task # tasks)"
    and "\<And>h. fst (run_state (checkStorageSpecIsAligned D c) h) = Inr False"
    and "\<And>h. e_GetMaintenance (de_env D) h (cdp_Namespace (dpl_of c)) (cdp_Name (dpl_of c)) = Inr \<lparr>cdm_Status = None\<rparr>"
  shows "fst (run_state (checkLcmState D c) h) = Inr (False, PhaseReady)"
proof -
  let ?h = "h @ [ListTasks (cdp_Namespace (dpl_of c))]"
  obtain h1 where "run_state (checkStorageSpecIsAligned D c) ?h = (Inr False, h1)"
    using assms(5) [of ?h] by (cases "run_state (checkStorageSpecIsAligned D c) ?h") auto
  then have "run_state (lcm_tasks D c (task # tasks)) ?h = (Inr False, h1)"
    using assms(2,3) by (auto simp: validating_def)
  with assms(1,4,6) show ?thesis
    by (simp add: checkLcmState_def IsClusterMaintenanceActing_def Let_def del: lcm_tasks.simps)
qed

text \<open>Two tasks: the first is under validation, the second is processed.\<close>

definition dv_task :: "TaskPhase \<Rightarrow> CephOsdRemoveTask" where
  "dv_task phase = sc_task\<lparr>task_Status := Some \<lparr>st_Phase = phase, st_PhaseInfo = [], st_RemoveInfo = None, st_Messages = [], st_Conditions = []\<rparr>\<rparr>"

definition dv_tasks_env :: deployEnv where
  "dv_tasks_env = dv_env\<lparr>de_env := (de_env dv_env)\<lparr>e_ListTasks := \<lambda>_ _. Inr [dv_task TaskPhaseValidating, dv_task TaskPhaseProcessing]\<rparr>\<rparr>"

theorem validating_task_hides_later_ones_witness:
  "fst (run_state (checkLcmState dv_tasks_env dv_config) []) = Inr (False, PhaseReady)"
  by (rule validating_task_hides_later_ones [where task = "dv_task TaskPhaseValidating" and tasks = "[dv_task TaskPhaseProcessing]"])
    (simp_all add: dv_config_def new_config_def dv_dpl_def Status0_def validating_def dv_task_def dv_tasks_env_def dv_env_def
      checkStorageSpecIsAligned_def dv_rook_def dv_cluster_spec_def ClusterSpec0_def Let_def)

section \<open>Removal\<close>

text \<open>C12. For a cluster that is not external, a run deletes the Ceph cluster only after a listing has shown that
  no block pool is left, and takes the finalizer from the deployment only after that and after it has seen
  that the Ceph cluster does not exist any more. The one other update that lacks it repeats a deployment
  that was read without it just before.\<close>

theorem destroyed_in_order:
  assumes "steps_issue no_destroy S"
    and "de_ListCephDeployments D [] ns = Inr [dpl]" and "cdp_Name dpl = name"
    and "\<not> cs_ExternalEnable (fst (CephCluster_GetSpec D (sps_Cluster (cdp_Spec dpl))))"
    and "snd (run_state (Deploy_Reconcile D S lcmConfig ns name failTry) []) = xs @ call # ys"
  shows "(\<forall>a b. call = Manage (DeleteCephCluster a b) \<longrightarrow> pools_gone D (lc_RookNamespace lcmConfig) xs) \<and>
    (\<forall>new. call = Manage (UpdateCephDeployment new) \<and> finalizer \<in> set (cdp_Finalizers dpl) \<and> finalizer \<notin> set (cdp_Finalizers new) \<longrightarrow>
       pools_gone D (lc_RookNamespace lcmConfig) xs \<and> cluster_gone D (lc_RookNamespace lcmConfig) name xs \<or> read_without_finalizer D xs)"
proof (cases "call = Manage (ListCephDeployments ns)")
  case False
  have "destroy_guard D False (finalizer \<in> set (cdp_Finalizers dpl)) (lc_RookNamespace lcmConfig) name ([] @ xs) call"
    by (rule reconcile_guarded [OF assms(2,3) reconcile_destroy [OF assms(1)] _ False]) (use assms(3,4,5) in simp_all)
  then show ?thesis by (auto simp: destroy_guard_def)
qed simp

text \<open>A deployment that is deleted, with its cluster gone and no pool left.\<close>

definition dv_dead_dpl :: CephDeployment where
  "dv_dead_dpl = dv_dpl\<lparr>cdp_Deleting := True, cdp_Status := Status0\<lparr>dps_Phase := PhaseDeleting\<rparr>\<rparr>"

definition dv_dead_env :: deployEnv where
  "dv_dead_env = dv_env\<lparr>de_ListCephDeployments := \<lambda>_ _. Inr [dv_dead_dpl], de_ListBlockPools := \<lambda>_ _. Inr [],
     de_DeleteSubObject := \<lambda>_ _ _ _. Some (NotFound ''none''), de_GetCephCluster := \<lambda>_ _ _. Inl (NotFound ''none''),
     de_env := (de_env dv_env)\<lparr>e_ListNodes := \<lambda>_. Inr []\<rparr>\<rparr>"

definition dv_dead_run :: hist where
  "dv_dead_run = snd (run_state (Deploy_Reconcile dv_dead_env dv_steps sc_params ''pelagia'' ''cluster'' 0) [])"

theorem destroyed_in_order_witness:
  "pools_gone dv_dead_env ''rook'' (butlast dv_dead_run) \<and> cluster_gone dv_dead_env ''rook'' ''cluster'' (butlast dv_dead_run)"
proof -
  let ?call = "Manage (UpdateCephDeployment (dv_dead_dpl\<lparr>cdp_Finalizers := []\<rparr>))"
  have "dv_dead_run \<noteq> []" "last dv_dead_run = ?call" by code_simp+
  have "butlast dv_dead_run \<noteq> []" "last (butlast dv_dead_run) = ListNodes" by code_simp+
  then have read: "\<not> read_without_finalizer dv_dead_env (butlast dv_dead_run)"
    by (auto simp: read_without_finalizer_def)
  from \<open>dv_dead_run \<noteq> []\<close> \<open>last dv_dead_run = ?call\<close>
  have "snd (run_state (Deploy_Reconcile dv_dead_env dv_steps sc_params ''pelagia'' ''cluster'' 0) []) = butlast dv_dead_run @ ?call # []"
    by (metis append_butlast_last_id dv_dead_run_def)
  from destroyed_in_order [OF dv_steps_issue _ _ _ this, of dv_dead_dpl] read show ?thesis
    by (simp add: dv_dead_env_def dv_dead_dpl_def dv_dpl_def dv_spec_def dv_env_def CephCluster_GetSpec_def get_spec_def DecodeRawToStruct_def
      dv_cluster_spec_def ClusterSpec0_def sc_params_def)
qed

end
