(* ===== verification/Lcm_Config.thy ===== *)
theory Lcm_Config
  imports Controller Deploy_Version Disk_Reporter "HOL-Library.Word"
begin

text \<open>
  The configuration shared by the controllers (\<^verbatim>\<open>pkg/controller/config\<close>): how the entries of the ConfigMap
  \<^verbatim>\<open>pelagia-lcmconfig\<close> become an \<^typ>\<open>LcmConfig\<close>, the store of one configuration per namespace,
  the filter on ConfigMap events and the reconciler that keeps the store up to date.
\<close>

section \<open>What the loader relies on\<close>

text \<open>The parsers of other packages: \<^verbatim>\<open>zerolog.ParseLevel\<close>, \<^verbatim>\<open>labels.Parse\<close> followed by \<^verbatim>\<open>String\<close>,
  whether \<^verbatim>\<open>regexp.Compile\<close> accepts an expression, and Rook's \<^verbatim>\<open>GenerateNodeAffinity\<close> and
  \<^verbatim>\<open>YamlToTolerations\<close>. \<open>None\<close> is an error.\<close>

record configEnv =
  ce_ParseLevel :: "string \<Rightarrow> LogLevel option"
  ce_LabelsParse :: "string \<Rightarrow> string option"
  ce_RegexpCompile :: "string \<Rightarrow> bool"
  ce_GenerateNodeAffinity :: "string \<Rightarrow> NodeAffinity option"
  ce_YamlToTolerations :: "string \<Rightarrow> Toleration list option"

type_synonym configData = "(string, string) gomap"

text \<open>\<^verbatim>\<open>strconv.ParseBool\<close>\<close>

definition ParseBool :: "string \<Rightarrow> bool option" where
  "ParseBool s =
     (if s \<in> set [''1'', ''t'', ''T'', ''TRUE'', ''true'', ''True''] then Some True
      else if s \<in> set [''0'', ''f'', ''F'', ''FALSE'', ''false'', ''False''] then Some False
      else None)"

text \<open>\<^verbatim>\<open>strconv.Atoi\<close> without the text of its error\<close>

definition parse_int :: "string \<Rightarrow> int option" where
  "parse_int s = (case Deploy_Validate.Atoi s of Inl _ \<Rightarrow> None | Inr n \<Rightarrow> Some n)"

definition parse_level :: "configEnv \<Rightarrow> string \<Rightarrow> LogLevel option" where
  "parse_level E s = ce_ParseLevel E (map lower s)"

definition parse_regexp :: "configEnv \<Rightarrow> string \<Rightarrow> string option" where
  "parse_regexp E s = (if ce_RegexpCompile E s then Some s else None)"

definition parse_lvm_bool :: "string \<Rightarrow> bool option" where
  "parse_lvm_bool s = ParseBool (TrimSuffix s [CHR 10])"

text \<open>\<^verbatim>\<open>int32(port)\<close> keeps the low 32 bits, and a duration is a signed 64-bit number of nanoseconds.\<close>

definition int32 :: "int \<Rightarrow> int" where
  "int32 n = sint (word_of_int n :: 32 word)"

definition minutes :: "int \<Rightarrow> int" where
  "minutes n = sint (word_of_int n * word_of_int 60000000000 :: 64 word)"

section \<open>Defaults and keys (config.go)\<close>

definition defaultLcmConfig :: LcmConfig where
  "defaultLcmConfig = \<lparr>lc_RookNamespace = ''rook-ceph'',
     lc_CommonParams = \<lparr>cp_BaseGatewayName = ''app-gateway'', cp_BaseGatewayNamespace = ''openstack'',
       cp_DiskDaemonPlacementLabel = ''pelagia-disk-daemon=true'', cp_DiskDaemonPort = 9999,
       cp_RgwPublicAccessLabel = ''external_access=rgw'', cp_GatewayAPIEnabled = True, cp_KeepIngress = False,
       cp_LcmFullMode = True\<rparr>,
     lc_HealthParamsPtr = None, lc_TaskParamsPtr = None, lc_DeployParamsPtr = None\<rparr>"

definition defaultHealthConfig :: HealthParams where
  "defaultHealthConfig = \<lparr>hp_LogLevel = InfoLevel, hp_ChecksSkip = [],
     hp_CephIssuesToIgnore = [''OSDMAP_FLAGS'', ''TOO_FEW_PGS'', ''SLOW_OPS'', ''OLD_CRUSH_TUNABLES'',
       ''OLD_CRUSH_STRAW_CALC_VERSION'', ''POOL_APP_NOT_ENABLED'', ''MON_DISK_LOW'', ''RECENT_CRASH''],
     hp_UsageDetailsClassesFilter = [], hp_UsageDetailsPoolsFilter = []\<rparr>"

definition defaultTaskConfig :: TaskParams where
  "defaultTaskConfig = \<lparr>tp_LogLevel = InfoLevel, tp_OsdPgRebalanceTimeout = 30 * 60000000000,
     tp_AllowToRemoveManuallyCreatedLVM = False\<rparr>"

definition defaultDeployParams :: DeployParams where
  "defaultDeployParams = \<lparr>dp_LogLevel = InfoLevel, dp_CephImage = [], dp_CephRelease = [], dp_RookImage = [],
     dp_NetPolEnabled = False, dp_OpenstackCephSharedNamespace = [], dp_CephDaemonsetPlacementLabelExclude = [],
     dp_DrainRequestLabelKey = ''kaas.mirantis.com/lcm-drained'', dp_DrainReadyLabelKey = ''kaas.mirantis.com/csi-drained'',
     dp_CSIParams = \<lparr>csi_Manage = True, csi_KubeletPath = ''/var/lib/kubelet'', csi_CreateDefaultRBDDriver = True,
       csi_CreateDefaultCephFSDriver = True, csi_CreateDefaultNFSDriver = False, csi_KeepExisting = True,
       csi_DeployCSIAddons = False, csi_ControllerPluginNodeAffinity = None, csi_ControllerPluginToleration = [],
       csi_NodePluginNodeAffinity = None, csi_NodePluginToleration = []\<rparr>,
     dp_ManageVolumeSnapshotClasses = True\<rparr>"

text \<open>Which parameters the process controls.\<close>

datatype ControlParams =
    ControlParamsAll
  | ControlParamsHealth
  | ControlParamsTask
  | ControlParamsCephDpl

definition rookNamespaceParameter :: string where "rookNamespaceParameter = ''ROOK_NAMESPACE''"
definition diskDaemonPortParameter :: string where "diskDaemonPortParameter = ''DISK_DAEMON_API_PORT''"
definition diskDaemonPlacementLabel :: string where "diskDaemonPlacementLabel = ''DISK_DAEMON_PLACEMENT_NODES_SELECTOR''"
definition enableGatewayParameter :: string where "enableGatewayParameter = ''GATEWAY_API_ENABLED''"
definition baseGatewayNameParameter :: string where "baseGatewayNameParameter = ''GATEWAY_BASE_NAME''"
definition baseGatewayNamespaceParameter :: string where "baseGatewayNamespaceParameter = ''GATEWAY_BASE_NAMESPACE''"
definition rgwPublicAccessServiceSelectorParameter :: string where "rgwPublicAccessServiceSelectorParameter = ''RGW_PUBLIC_ACCESS_SERVICE_SELECTOR''"
definition ingressSupportParameter :: string where "ingressSupportParameter = ''KEEP_INGRESS''"
definition osdFullModeParameter :: string where "osdFullModeParameter = ''OSD_LCM_FULL_MODE''"

definition healthChecksCephIssuesToIgnoreParameter :: string where "healthChecksCephIssuesToIgnoreParameter = ''HEALTH_CHECKS_CEPH_ISSUES_TO_IGNORE''"
definition healthChecksSkipParameter :: string where "healthChecksSkipParameter = ''HEALTH_CHECKS_SKIP''"
definition healthChecksUsagelClassFilterParameter :: string where "healthChecksUsagelClassFilterParameter = ''HEALTH_CHECKS_USAGE_CLASS_FILTER''"
definition healthChecksUsagelPoolsFilterParameter :: string where "healthChecksUsagelPoolsFilterParameter = ''HEALTH_CHECKS_USAGE_POOLS_FILTER''"
definition healthLogLevelParameter :: string where "healthLogLevelParameter = ''HEALTH_LOG_LEVEL''"

definition taskLogLevelParameter :: string where "taskLogLevelParameter = ''TASK_LOG_LEVEL''"
definition taskOsdPgRebalanceTimeout :: string where "taskOsdPgRebalanceTimeout = ''TASK_OSD_PG_REBALANCE_TIMEOUT_MIN''"
definition taskAllowRemoveManuallyCreatedLvm :: string where "taskAllowRemoveManuallyCreatedLvm = ''TASK_ALLOW_REMOVE_MANUALLY_CREATED_LVMS''"

definition cephDplLogLevel :: string where "cephDplLogLevel = ''DEPLOYMENT_LOG_LEVEL''"
definition cephDplCephImage :: string where "cephDplCephImage = ''DEPLOYMENT_CEPH_IMAGE''"
definition cephDplCephRelease :: string where "cephDplCephRelease = ''DEPLOYMENT_CEPH_RELEASE''"
definition cephDplRookImage :: string where "cephDplRookImage = ''DEPLOYMENT_ROOK_IMAGE''"
definition cephDplNetPolEnabled :: string where "cephDplNetPolEnabled = ''DEPLOYMENT_NETPOL_ENABLED''"
definition cephDplOpenstackCephSharedNs :: string where "cephDplOpenstackCephSharedNs = ''DEPLOYMENT_OPENSTACK_CEPH_SHARED_NAMESPACE''"
definition cephDplCephDaemonsetLabelExclude :: string where "cephDplCephDaemonsetLabelExclude = ''DEPLOYMENT_LABEL_TO_EXCLUDE_CEPH_DAEMONSETS''"
definition cephDplDrainRequestLabelKeyName :: string where "cephDplDrainRequestLabelKeyName = ''DEPLOYMENT_DRAIN_REQUEST_LABEL_KEY''"
definition cephDplDrainReadyLabelKeyName :: string where "cephDplDrainReadyLabelKeyName = ''DEPLOYMENT_DRAIN_READY_LABEL_KEY''"

definition cephDplCSIManageKeyName :: string where "cephDplCSIManageKeyName = ''DEPLOYMENT_CSI_DRIVERS_MANAGE''"
definition cephDplCSIRBDDefaultCreateKeyName :: string where "cephDplCSIRBDDefaultCreateKeyName = ''DEPLOYMENT_CSI_RBD_DEFAULT_DRIVER_CREATE''"
definition cephDplCSICephFSDefaultCreateKeyName :: string where "cephDplCSICephFSDefaultCreateKeyName = ''DEPLOYMENT_CSI_CEPHFS_DEFAULT_DRIVER_CREATE''"
definition cephDplCSINFSDefaultCreateKeyName :: string where "cephDplCSINFSDefaultCreateKeyName = ''DEPLOYMENT_CSI_NFS_DEFAULT_DRIVER_CREATE''"
definition cephDplCSIKeepExisting :: string where "cephDplCSIKeepExisting = ''DEPLOYMENT_CSI_KEEP_EXISTING_ON_UPGRADE''"
definition cephDplCSIKubeletPath :: string where "cephDplCSIKubeletPath = ''DEPLOYMENT_CSI_KUBELET_PATH''"
definition cephDplCSIDeployAddons :: string where "cephDplCSIDeployAddons = ''DEPLOYMENT_CSI_ENABLE_CSIADDONS''"
definition cephDplCSIControllerPluginNodeAffinityKeyName :: string where "cephDplCSIControllerPluginNodeAffinityKeyName = ''DEPLOYMENT_CSI_CONTROLLER_PLUGIN_NODEAFFINITY''"
definition cephDplCSIControllerPluginTolerationsKeyName :: string where "cephDplCSIControllerPluginTolerationsKeyName = ''DEPLOYMENT_CSI_CONTROLLER_PLUGIN_TOLERATIONS''"
definition cephDplCSINodePluginNodeAffinityKeyName :: string where "cephDplCSINodePluginNodeAffinityKeyName = ''DEPLOYMENT_CSI_NODE_PLUGIN_NODEAFFINITY''"
definition cephDplCSINodePluginTolerationsKeyName :: string where "cephDplCSINodePluginTolerationsKeyName = ''DEPLOYMENT_CSI_NODE_PLUGIN_TOLERATIONS''"
definition cephDplManageVSClassesKeyName :: string where "cephDplManageVSClassesKeyName = ''DEPLOYMENT_MANAGE_VOLUMESNAPSHOTCLASSES''"

section \<open>Loading (config.go)\<close>

text \<open>One parameter: an absent entry and an entry the parser refuses leave the configuration as it is.\<close>

definition set_param :: "configData \<Rightarrow> string \<Rightarrow> (string \<Rightarrow> 'v option) \<Rightarrow> ('v \<Rightarrow> 'c \<Rightarrow> 'c) \<Rightarrow> 'c \<Rightarrow> 'c" where
  "set_param d key parse assign c =
     (case map_of d key of
        None \<Rightarrow> c
      | Some text \<Rightarrow> (case parse text of None \<Rightarrow> c | Some v \<Rightarrow> assign v c))"

definition loadHealthConfiguration :: "configEnv \<Rightarrow> configData \<Rightarrow> HealthParams" where
  "loadHealthConfiguration E d =
     (let c = defaultHealthConfig;
          c = set_param d healthLogLevelParameter (parse_level E) (\<lambda>v. hp_LogLevel_update (\<lambda>_. v)) c;
          c = set_param d healthChecksCephIssuesToIgnoreParameter Some
                (\<lambda>v. hp_CephIssuesToIgnore_update (\<lambda>_. split_on CHR '','' v)) c;
          c = set_param d healthChecksSkipParameter Some (\<lambda>v. hp_ChecksSkip_update (\<lambda>_. split_on CHR '','' v)) c;
          c = set_param d healthChecksUsagelClassFilterParameter (parse_regexp E)
                (\<lambda>v. hp_UsageDetailsClassesFilter_update (\<lambda>_. v)) c
      in set_param d healthChecksUsagelPoolsFilterParameter (parse_regexp E)
           (\<lambda>v. hp_UsageDetailsPoolsFilter_update (\<lambda>_. v)) c)"

definition loadTaskConfiguration :: "configEnv \<Rightarrow> configData \<Rightarrow> TaskParams" where
  "loadTaskConfiguration E d =
     (let c = defaultTaskConfig;
          c = set_param d taskLogLevelParameter (parse_level E) (\<lambda>v. tp_LogLevel_update (\<lambda>_. v)) c;
          c = set_param d taskOsdPgRebalanceTimeout parse_int (\<lambda>v. tp_OsdPgRebalanceTimeout_update (\<lambda>_. minutes v)) c
      in set_param d taskAllowRemoveManuallyCreatedLvm parse_lvm_bool
           (\<lambda>v. tp_AllowToRemoveManuallyCreatedLVM_update (\<lambda>_. v)) c)"

text \<open>The parameters of the CSI drivers, which are looked at only once the key that manages them is
  present and true.\<close>

definition load_csi_drivers :: "configEnv \<Rightarrow> configData \<Rightarrow> CSIDeployParams \<Rightarrow> CSIDeployParams" where
  "load_csi_drivers E d c =
     (let c = set_param d cephDplCSIRBDDefaultCreateKeyName ParseBool (\<lambda>v. csi_CreateDefaultRBDDriver_update (\<lambda>_. v)) c;
          c = set_param d cephDplCSICephFSDefaultCreateKeyName ParseBool (\<lambda>v. csi_CreateDefaultCephFSDriver_update (\<lambda>_. v)) c;
          c = set_param d cephDplCSINFSDefaultCreateKeyName ParseBool (\<lambda>v. csi_CreateDefaultNFSDriver_update (\<lambda>_. v)) c;
          c = set_param d cephDplCSIKeepExisting ParseBool (\<lambda>v. csi_KeepExisting_update (\<lambda>_. v)) c;
          c = set_param d cephDplCSIKubeletPath Some (\<lambda>v. csi_KubeletPath_update (\<lambda>_. v)) c;
          c = set_param d cephDplCSIDeployAddons ParseBool (\<lambda>v. csi_DeployCSIAddons_update (\<lambda>_. v)) c;
          c = set_param d cephDplCSIControllerPluginNodeAffinityKeyName (ce_GenerateNodeAffinity E)
                (\<lambda>v. csi_ControllerPluginNodeAffinity_update (\<lambda>_. Some v)) c;
          c = set_param d cephDplCSIControllerPluginTolerationsKeyName (ce_YamlToTolerations E)
                (\<lambda>v. csi_ControllerPluginToleration_update (\<lambda>_. v)) c;
          c = set_param d cephDplCSINodePluginNodeAffinityKeyName (ce_GenerateNodeAffinity E)
                (\<lambda>v. csi_NodePluginNodeAffinity_update (\<lambda>_. Some v)) c
      in set_param d cephDplCSINodePluginTolerationsKeyName (ce_YamlToTolerations E)
           (\<lambda>v. csi_NodePluginToleration_update (\<lambda>_. v)) c)"

definition load_csi :: "configEnv \<Rightarrow> configData \<Rightarrow> CSIDeployParams \<Rightarrow> CSIDeployParams" where
  "load_csi E d c =
     (case map_of d cephDplCSIManageKeyName of
        None \<Rightarrow> c
      | Some csiManage \<Rightarrow>
          (case ParseBool csiManage of
             None \<Rightarrow> c
           | Some val \<Rightarrow> if val then load_csi_drivers E d (c\<lparr>csi_Manage := val\<rparr>) else c\<lparr>csi_Manage := val\<rparr>))"

definition loadCephDeploymentConfiguration :: "configEnv \<Rightarrow> configData \<Rightarrow> DeployParams" where
  "loadCephDeploymentConfiguration E d =
     (let c = defaultDeployParams;
          c = set_param d cephDplLogLevel (parse_level E) (\<lambda>v. dp_LogLevel_update (\<lambda>_. v)) c;
          c = set_param d cephDplCephImage Some (\<lambda>v. dp_CephImage_update (\<lambda>_. v)) c;
          c = set_param d cephDplCephRelease Some (\<lambda>v. dp_CephRelease_update (\<lambda>_. v)) c;
          c = set_param d cephDplRookImage Some (\<lambda>v. dp_RookImage_update (\<lambda>_. v)) c;
          c = set_param d cephDplNetPolEnabled ParseBool (\<lambda>v. dp_NetPolEnabled_update (\<lambda>_. v)) c;
          c = set_param d cephDplCephDaemonsetLabelExclude (ce_LabelsParse E)
                (\<lambda>v. dp_CephDaemonsetPlacementLabelExclude_update (\<lambda>_. v)) c;
          c = set_param d cephDplOpenstackCephSharedNs Some (\<lambda>v. dp_OpenstackCephSharedNamespace_update (\<lambda>_. v)) c;
          c = set_param d cephDplDrainRequestLabelKeyName Some (\<lambda>v. dp_DrainRequestLabelKey_update (\<lambda>_. v)) c;
          c = set_param d cephDplDrainReadyLabelKeyName Some (\<lambda>v. dp_DrainReadyLabelKey_update (\<lambda>_. v)) c;
          c = dp_CSIParams_update (load_csi E d) c
      in set_param d cephDplManageVSClassesKeyName ParseBool (\<lambda>v. dp_ManageVolumeSnapshotClasses_update (\<lambda>_. v)) c)"

definition read_common :: "configEnv \<Rightarrow> configData \<Rightarrow> CommonParams \<Rightarrow> CommonParams" where
  "read_common E d c =
     (let c = set_param d diskDaemonPortParameter parse_int (\<lambda>port. cp_DiskDaemonPort_update (\<lambda>_. int32 port)) c;
          c = set_param d diskDaemonPlacementLabel (ce_LabelsParse E) (\<lambda>v. cp_DiskDaemonPlacementLabel_update (\<lambda>_. v)) c;
          c = set_param d osdFullModeParameter ParseBool (\<lambda>v. cp_LcmFullMode_update (\<lambda>_. v)) c;
          c = set_param d enableGatewayParameter ParseBool (\<lambda>v. cp_GatewayAPIEnabled_update (\<lambda>_. v)) c;
          c = set_param d baseGatewayNameParameter Some (\<lambda>v. cp_BaseGatewayName_update (\<lambda>_. v)) c;
          c = set_param d baseGatewayNamespaceParameter Some (\<lambda>v. cp_BaseGatewayNamespace_update (\<lambda>_. v)) c;
          c = set_param d rgwPublicAccessServiceSelectorParameter (ce_LabelsParse E) (\<lambda>v. cp_RgwPublicAccessLabel_update (\<lambda>_. v)) c
      in set_param d ingressSupportParameter ParseBool (\<lambda>v. cp_KeepIngress_update (\<lambda>_. v)) c)"

definition ReadConfiguration :: "configEnv \<Rightarrow> ControlParams \<Rightarrow> configData \<Rightarrow> LcmConfig" where
  "ReadConfiguration E ParamsToControl d =
     (let c = set_param d rookNamespaceParameter Some (\<lambda>v. lc_RookNamespace_update (\<lambda>_. v)) defaultLcmConfig;
          c = lc_CommonParams_update (read_common E d) c
      in case ParamsToControl of
           ControlParamsHealth \<Rightarrow> c\<lparr>lc_HealthParamsPtr := Some (loadHealthConfiguration E d)\<rparr>
         | ControlParamsTask \<Rightarrow> c\<lparr>lc_TaskParamsPtr := Some (loadTaskConfiguration E d)\<rparr>
         | ControlParamsCephDpl \<Rightarrow> c\<lparr>lc_DeployParamsPtr := Some (loadCephDeploymentConfiguration E d)\<rparr>
         | ControlParamsAll \<Rightarrow> c\<lparr>lc_HealthParamsPtr := Some (loadHealthConfiguration E d),
             lc_TaskParamsPtr := Some (loadTaskConfiguration E d),
             lc_DeployParamsPtr := Some (loadCephDeploymentConfiguration E d)\<rparr>)"

section \<open>The store (config.go) and the reconciler (controller.go)\<close>

type_synonym configStore = "(string, LcmConfig) gomap"

definition dropConfiguration :: "string \<Rightarrow> configStore \<Rightarrow> configStore" where
  "dropConfiguration ns lcmConfigs = AList.delete ns lcmConfigs"

definition loadConfiguration :: "configEnv \<Rightarrow> ControlParams \<Rightarrow> string \<Rightarrow> configData \<Rightarrow> configStore \<Rightarrow> configStore" where
  "loadConfiguration E ParamsToControl ns d lcmConfigs = AList.update ns (ReadConfiguration E ParamsToControl d) lcmConfigs"

definition GetConfiguration :: "string \<Rightarrow> configStore \<Rightarrow> LcmConfig" where
  "GetConfiguration ns lcmConfigs =
     (case map_of lcmConfigs ns of
        Some lcmConfigForNs \<Rightarrow> lcmConfigForNs
      | None \<Rightarrow> defaultLcmConfig\<lparr>lc_HealthParamsPtr := Some defaultHealthConfig, lc_TaskParamsPtr := Some defaultTaskConfig,
          lc_DeployParamsPtr := Some defaultDeployParams\<rparr>)"

abbreviation LcmConfigMapName :: string where
  "LcmConfigMapName \<equiv> ''pelagia-lcmconfig''"

text \<open>The data of a ConfigMap may be a nil map, which \<^verbatim>\<open>cmp.Diff\<close> tells from an empty one.\<close>

record ConfigMap =
  cmp_Name :: string
  cmp_Namespace :: string
  cmp_Data :: "configData option"

datatype cm_event =
    CreateEvent ConfigMap
  | UpdateEvent ConfigMap ConfigMap
  | DeleteEvent ConfigMap
  | GenericEvent ConfigMap

definition data_differ :: "configData option \<Rightarrow> configData option \<Rightarrow> bool" where
  "data_differ old new \<longleftrightarrow>
     (case (old, new) of
        (None, None) \<Rightarrow> False
      | (Some m, Some n) \<Rightarrow> \<not> map_eq m n
      | _ \<Rightarrow> True)"

definition cmPredicate :: "cm_event \<Rightarrow> bool" where
  "cmPredicate e \<longleftrightarrow>
     (case e of
        CreateEvent cm \<Rightarrow> cmp_Name cm = LcmConfigMapName
      | UpdateEvent oldC newC \<Rightarrow> cmp_Name newC = LcmConfigMapName \<and> cmp_Name oldC = LcmConfigMapName \<and>
          data_differ (cmp_Data oldC) (cmp_Data newC)
      | DeleteEvent cm \<Rightarrow> cmp_Name cm = LcmConfigMapName
      | GenericEvent _ \<Rightarrow> False)"

text \<open>A nil map reads like an empty one.\<close>

definition data_of :: "ConfigMap \<Rightarrow> configData" where
  "data_of cm = (case cmp_Data cm of None \<Rightarrow> [] | Some d \<Rightarrow> d)"

definition Config_Reconcile ::
    "configEnv \<Rightarrow> ControlParams \<Rightarrow> string \<Rightarrow> api_error + ConfigMap \<Rightarrow> configStore \<Rightarrow> reconcile_result \<times> configStore" where
  "Config_Reconcile E ParamsToControl ns answer lcmConfigs =
     (case answer of
        Inl err \<Rightarrow>
          if is_not_found err then (finished, dropConfiguration ns lcmConfigs)
          else (\<lparr>res_RequeueAfter = 15000000000, res_Err = Some (err_msg err)\<rparr>, lcmConfigs)
      | Inr lcmConfig \<Rightarrow>
          (finished, loadConfiguration E ParamsToControl ns (data_of lcmConfig) lcmConfigs))"

end
