(* ===== verification/Lcm_Config_Theorems.thy ===== *)
theory Lcm_Config_Theorems
  imports Lcm_Config
begin

text \<open>
  What loading the configuration promises: entries that are unknown or malformed do not change it, numbers
  keep their value exactly when they fit, and a configuration that is written is read back.
\<close>

section \<open>Entries the loader understands\<close>

text \<open>The keys of the ConfigMap with the values that are accepted for them.\<close>

definition accepted_common :: "configEnv \<Rightarrow> (string, string \<Rightarrow> bool) gomap" where
  "accepted_common E =
     [(rookNamespaceParameter, \<lambda>_. True),
      (diskDaemonPortParameter, \<lambda>s. parse_int s \<noteq> None),
      (diskDaemonPlacementLabel, \<lambda>s. ce_LabelsParse E s \<noteq> None),
      (osdFullModeParameter, \<lambda>s. ParseBool s \<noteq> None),
      (enableGatewayParameter, \<lambda>s. ParseBool s \<noteq> None),
      (baseGatewayNameParameter, \<lambda>_. True),
      (baseGatewayNamespaceParameter, \<lambda>_. True),
      (rgwPublicAccessServiceSelectorParameter, \<lambda>s. ce_LabelsParse E s \<noteq> None),
      (ingressSupportParameter, \<lambda>s. ParseBool s \<noteq> None),
      (healthLogLevelParameter, \<lambda>s. parse_level E s \<noteq> None),
      (healthChecksCephIssuesToIgnoreParameter, \<lambda>_. True),
      (healthChecksSkipParameter, \<lambda>_. True),
      (healthChecksUsagelClassFilterParameter, ce_RegexpCompile E),
      (healthChecksUsagelPoolsFilterParameter, ce_RegexpCompile E),
      (taskLogLevelParameter, \<lambda>s. parse_level E s \<noteq> None),
      (taskOsdPgRebalanceTimeout, \<lambda>s. parse_int s \<noteq> None),
      (taskAllowRemoveManuallyCreatedLvm, \<lambda>s. parse_lvm_bool s \<noteq> None)]"

definition accepted_deploy :: "configEnv \<Rightarrow> (string, string \<Rightarrow> bool) gomap" where
  "accepted_deploy E =
     [(cephDplLogLevel, \<lambda>s. parse_level E s \<noteq> None),
      (cephDplCephImage, \<lambda>_. True),
      (cephDplCephRelease, \<lambda>_. True),
      (cephDplRookImage, \<lambda>_. True),
      (cephDplNetPolEnabled, \<lambda>s. ParseBool s \<noteq> None),
      (cephDplOpenstackCephSharedNs, \<lambda>_. True),
      (cephDplCephDaemonsetLabelExclude, \<lambda>s. ce_LabelsParse E s \<noteq> None),
      (cephDplDrainRequestLabelKeyName, \<lambda>_. True),
      (cephDplDrainReadyLabelKeyName, \<lambda>_. True),
      (cephDplCSIManageKeyName, \<lambda>s. ParseBool s \<noteq> None),
      (cephDplCSIRBDDefaultCreateKeyName, \<lambda>s. ParseBool s \<noteq> None),
      (cephDplCSICephFSDefaultCreateKeyName, \<lambda>s. ParseBool s \<noteq> None),
      (cephDplCSINFSDefaultCreateKeyName, \<lambda>s. ParseBool s \<noteq> None),
      (cephDplCSIKeepExisting, \<lambda>s. ParseBool s \<noteq> None),
      (cephDplCSIKubeletPath, \<lambda>_. True),
      (cephDplCSIDeployAddons, \<lambda>s. ParseBool s \<noteq> None),
      (cephDplCSIControllerPluginNodeAffinityKeyName, \<lambda>s. ce_GenerateNodeAffinity E s \<noteq> None),
      (cephDplCSIControllerPluginTolerationsKeyName, \<lambda>s. ce_YamlToTolerations E s \<noteq> None),
      (cephDplCSINodePluginNodeAffinityKeyName, \<lambda>s. ce_GenerateNodeAffinity E s \<noteq> None),
      (cephDplCSINodePluginTolerationsKeyName, \<lambda>s. ce_YamlToTolerations E s \<noteq> None),
      (cephDplManageVSClassesKeyName, \<lambda>s. ParseBool s \<noteq> None)]"

definition understood :: "configEnv \<Rightarrow> string \<times> string \<Rightarrow> bool" where
  "understood E e = (case map_of (accepted_common E @ accepted_deploy E) (fst e) of None \<Rightarrow> False | Some ok \<Rightarrow> ok (snd e))"

text \<open>The names of the keys differ, so that an entry sets the parameter of its own key only.\<close>

definition config_keys :: "string list" where
  "config_keys =
     [rookNamespaceParameter, diskDaemonPortParameter, diskDaemonPlacementLabel,
      enableGatewayParameter, baseGatewayNameParameter, baseGatewayNamespaceParameter,
      rgwPublicAccessServiceSelectorParameter, ingressSupportParameter, osdFullModeParameter,
      healthChecksCephIssuesToIgnoreParameter, healthChecksSkipParameter, healthChecksUsagelClassFilterParameter,
      healthChecksUsagelPoolsFilterParameter, healthLogLevelParameter, taskLogLevelParameter,
      taskOsdPgRebalanceTimeout, taskAllowRemoveManuallyCreatedLvm, cephDplLogLevel,
      cephDplCephImage, cephDplCephRelease, cephDplRookImage,
      cephDplNetPolEnabled, cephDplOpenstackCephSharedNs, cephDplCephDaemonsetLabelExclude,
      cephDplDrainRequestLabelKeyName, cephDplDrainReadyLabelKeyName, cephDplCSIManageKeyName,
      cephDplCSIRBDDefaultCreateKeyName, cephDplCSICephFSDefaultCreateKeyName, cephDplCSINFSDefaultCreateKeyName,
      cephDplCSIKeepExisting, cephDplCSIKubeletPath, cephDplCSIDeployAddons,
      cephDplCSIControllerPluginNodeAffinityKeyName, cephDplCSIControllerPluginTolerationsKeyName, cephDplCSINodePluginNodeAffinityKeyName,
      cephDplCSINodePluginTolerationsKeyName, cephDplManageVSClassesKeyName]"

lemmas config_key_defs = rookNamespaceParameter_def diskDaemonPortParameter_def diskDaemonPlacementLabel_def enableGatewayParameter_def
  baseGatewayNameParameter_def baseGatewayNamespaceParameter_def rgwPublicAccessServiceSelectorParameter_def ingressSupportParameter_def
  osdFullModeParameter_def healthChecksCephIssuesToIgnoreParameter_def healthChecksSkipParameter_def healthChecksUsagelClassFilterParameter_def
  healthChecksUsagelPoolsFilterParameter_def healthLogLevelParameter_def taskLogLevelParameter_def taskOsdPgRebalanceTimeout_def
  taskAllowRemoveManuallyCreatedLvm_def cephDplLogLevel_def cephDplCephImage_def cephDplCephRelease_def
  cephDplRookImage_def cephDplNetPolEnabled_def cephDplOpenstackCephSharedNs_def cephDplCephDaemonsetLabelExclude_def
  cephDplDrainRequestLabelKeyName_def cephDplDrainReadyLabelKeyName_def cephDplCSIManageKeyName_def cephDplCSIRBDDefaultCreateKeyName_def
  cephDplCSICephFSDefaultCreateKeyName_def cephDplCSINFSDefaultCreateKeyName_def cephDplCSIKeepExisting_def cephDplCSIKubeletPath_def
  cephDplCSIDeployAddons_def cephDplCSIControllerPluginNodeAffinityKeyName_def cephDplCSIControllerPluginTolerationsKeyName_def cephDplCSINodePluginNodeAffinityKeyName_def
  cephDplCSINodePluginTolerationsKeyName_def cephDplManageVSClassesKeyName_def

lemma config_keys_distinct: "distinct config_keys"
  by code_simp

lemma config_keys_distinct_rev: "distinct (rev config_keys)"
  by (simp add: config_keys_distinct)

lemmas key_neq [simp] =
  config_keys_distinct [unfolded config_keys_def, simplified]
  config_keys_distinct_rev [unfolded config_keys_def, simplified rev.simps append.simps, simplified]

lemma map_of_filter_wf:
  "wf_map d \<Longrightarrow> map_of (filter P d) k = (case map_of d k of None \<Rightarrow> None | Some v \<Rightarrow> if P (k, v) then Some v else None)"
  by (induction d) (auto simp: map_of_eq_None_iff image_iff split: option.splits)

lemma set_param_filter:
  assumes "wf_map d" and "\<And>s. P (key, s) = (parse s \<noteq> None)"
  shows "set_param (filter P d) key parse assign c = set_param d key parse assign c"
  using assms by (simp add: set_param_def map_of_filter_wf split: option.splits)

lemma set_param_cong:
  "map_of d = map_of d' \<Longrightarrow> set_param d = set_param d'"
  by (simp add: set_param_def fun_eq_iff)

lemma load_csi_filter:
  assumes "wf_map d" and "\<And>s. P (cephDplCSIManageKeyName, s) = (ParseBool s \<noteq> None)"
    and "\<And>c. load_csi_drivers E (filter P d) c = load_csi_drivers E d c"
  shows "load_csi E (filter P d) = load_csi E d"
  using assms by (simp add: load_csi_def map_of_filter_wf fun_eq_iff split: option.splits)

lemmas understood_eval = understood_def accepted_common_def accepted_deploy_def parse_regexp_def

lemma load_csi_drivers_understood:
  "wf_map d \<Longrightarrow> load_csi_drivers E (filter (understood E) d) c = load_csi_drivers E d c"
  by (simp add: load_csi_drivers_def set_param_filter understood_eval)

lemma deploy_understood:
  "wf_map d \<Longrightarrow> loadCephDeploymentConfiguration E (filter (understood E) d) = loadCephDeploymentConfiguration E d"
  by (simp add: loadCephDeploymentConfiguration_def set_param_filter load_csi_filter load_csi_drivers_understood understood_eval)

lemma health_understood:
  "wf_map d \<Longrightarrow> loadHealthConfiguration E (filter (understood E) d) = loadHealthConfiguration E d"
  by (simp add: loadHealthConfiguration_def set_param_filter understood_eval)

lemma task_understood:
  "wf_map d \<Longrightarrow> loadTaskConfiguration E (filter (understood E) d) = loadTaskConfiguration E d"
  by (simp add: loadTaskConfiguration_def set_param_filter understood_eval)

lemma common_understood:
  "wf_map d \<Longrightarrow> read_common E (filter (understood E) d) c = read_common E d c"
  by (simp add: read_common_def set_param_filter understood_eval)

text \<open>A malformed or unknown entry of the ConfigMap is as good as absent: the configuration is the one
  that the understood entries give on their own.\<close>

theorem config_understood_only:
  assumes "wf_map d"
  shows "ReadConfiguration E p (filter (understood E) d) = ReadConfiguration E p d"
proof -
  have "set_param (filter (understood E) d) rookNamespaceParameter Some assign c = set_param d rookNamespaceParameter Some assign c"
    for assign :: "string \<Rightarrow> LcmConfig \<Rightarrow> LcmConfig" and c using assms by (simp add: set_param_filter understood_eval)
  moreover have "read_common E (filter (understood E) d) = read_common E d"
    using assms by (simp add: fun_eq_iff common_understood)
  ultimately show ?thesis
    using assms by (cases p) (simp_all add: ReadConfiguration_def deploy_understood health_understood task_understood)
qed

theorem config_understood_only_witness:
  "let E = \<lparr>ce_ParseLevel = \<lambda>_. None, ce_LabelsParse = \<lambda>s. Some s, ce_RegexpCompile = \<lambda>_. False,
              ce_GenerateNodeAffinity = \<lambda>_. None, ce_YamlToTolerations = \<lambda>_. None\<rparr>;
       d = [(diskDaemonPortParameter, ''port''), (rookNamespaceParameter, ''rook''), (ingressSupportParameter, ''yes'')]
   in filter (understood E) d = [(rookNamespaceParameter, ''rook'')] \<and>
      ReadConfiguration E ControlParamsTask (filter (understood E) d) = ReadConfiguration E ControlParamsTask d"
proof -
  have *: "parse_int ''port'' = None" "ParseBool ''yes'' = None" by code_simp+
  show ?thesis unfolding Let_def
    by (intro conjI config_understood_only) (simp_all add: understood_eval *)
qed

section \<open>Numbers at their width\<close>

lemma int32_bounds: "- (2 ^ 31) \<le> int32 n \<and> int32 n < 2 ^ 31"
  unfolding int32_def using sint_greater_eq [of "word_of_int n :: 32 word"] sint_less [of "word_of_int n :: 32 word"] by simp

lemma int32_eq_iff: "int32 n = n \<longleftrightarrow> - (2 ^ 31) \<le> n \<and> n < 2 ^ 31"
proof
  assume "int32 n = n"
  with int32_bounds [of n] show "- (2 ^ 31) \<le> n \<and> n < 2 ^ 31" by simp
next
  assume "- (2 ^ 31) \<le> n \<and> n < 2 ^ 31"
  then show "int32 n = n" unfolding int32_def by (simp add: sint_sbintrunc' signed_take_bit_int_eq_self)
qed

lemma minutes_eq_iff: "minutes n = n * 60000000000 \<longleftrightarrow> - (2 ^ 63) \<le> n * 60000000000 \<and> n * 60000000000 < 2 ^ 63"
proof -
  have *: "minutes n = signed_take_bit 63 (n * 60000000000)"
    unfolding minutes_def of_int_mult [symmetric] by (simp only: sint_sbintrunc') simp
  show ?thesis
    unfolding * by (simp add: signed_take_bit_int_eq_self_iff)
qed

lemma minutes_bounds: "- (2 ^ 63) \<le> minutes n \<and> minutes n < 2 ^ 63"
  unfolding minutes_def using sint_greater_eq [of "word_of_int n * word_of_int 60000000000 :: 64 word"]
    sint_less [of "word_of_int n * word_of_int 60000000000 :: 64 word"] by simp

lemma set_param_given:
  "map_of d key = Some text \<Longrightarrow> parse text = Some v \<Longrightarrow> set_param d key parse assign c = assign v c"
  by (simp add: set_param_def)

lemma set_param_keeps:
  "(\<And>v c. get (assign v c) = get c) \<Longrightarrow> get (set_param d key parse assign c) = get c"
  by (simp add: set_param_def split: option.splits)

lemma common_of_config: "lc_CommonParams (ReadConfiguration E p d) = read_common E d (lc_CommonParams defaultLcmConfig)"
  by (cases p) (simp_all add: ReadConfiguration_def set_param_keeps [where get = lc_CommonParams])

lemma port_of_common:
  "cp_DiskDaemonPort (read_common E d c) = cp_DiskDaemonPort
     (set_param d diskDaemonPortParameter parse_int (\<lambda>port. cp_DiskDaemonPort_update (\<lambda>_. int32 port)) c)"
  by (simp add: read_common_def set_param_keeps [where get = cp_DiskDaemonPort])

lemma timeout_of_task:
  "tp_OsdPgRebalanceTimeout (loadTaskConfiguration E d) = tp_OsdPgRebalanceTimeout
     (set_param d taskOsdPgRebalanceTimeout parse_int (\<lambda>v. tp_OsdPgRebalanceTimeout_update (\<lambda>_. minutes v)) defaultTaskConfig)"
  by (simp add: loadTaskConfiguration_def set_param_def split: option.splits)

text \<open>C22. The port of the disk daemon and the rebalance timeout always fit their Go types. A number given for
  them is taken over exactly when it fits; any other number that parses is silently replaced by
  another one.\<close>

theorem config_numbers:
  assumes "map_of d diskDaemonPortParameter = Some port" and "parse_int port = Some n"
    and "map_of d taskOsdPgRebalanceTimeout = Some timeout" and "parse_int timeout = Some mins"
  shows "let c = ReadConfiguration E ControlParamsTask d; n' = cp_DiskDaemonPort (lc_CommonParams c);
             t = tp_OsdPgRebalanceTimeout (lc_TaskParams c)
         in (- (2 ^ 31) \<le> n' \<and> n' < 2 ^ 31) \<and> (n' = n \<longleftrightarrow> - (2 ^ 31) \<le> n \<and> n < 2 ^ 31) \<and>
            (- (2 ^ 63) \<le> t \<and> t < 2 ^ 63) \<and>
            (t = mins * 60000000000 \<longleftrightarrow> - (2 ^ 63) \<le> mins * 60000000000 \<and> mins * 60000000000 < 2 ^ 63)"
proof -
  let ?c = "ReadConfiguration E ControlParamsTask d"
  have "cp_DiskDaemonPort (lc_CommonParams ?c) = int32 n"
    using assms(1,2) by (simp add: common_of_config port_of_common set_param_given)
  moreover have "tp_OsdPgRebalanceTimeout (lc_TaskParams ?c) = minutes mins"
    using assms(3,4) by (simp add: ReadConfiguration_def timeout_of_task set_param_given)
  ultimately show ?thesis
    by (simp only: Let_def int32_bounds int32_eq_iff minutes_bounds minutes_eq_iff simp_thms)
qed

definition cfg_env :: configEnv where
  "cfg_env = \<lparr>ce_ParseLevel = \<lambda>s. if s = ''info'' then Some InfoLevel else None, ce_LabelsParse = \<lambda>s. Some s,
     ce_RegexpCompile = \<lambda>_. True, ce_GenerateNodeAffinity = \<lambda>s. Some s, ce_YamlToTolerations = \<lambda>s. Some [s]\<rparr>"

theorem config_numbers_witness:
  "let d = [(diskDaemonPortParameter, ''4294977295''), (taskOsdPgRebalanceTimeout, ''40'')];
       c = ReadConfiguration cfg_env ControlParamsTask d
   in cp_DiskDaemonPort (lc_CommonParams c) \<noteq> 4294977295 \<and> tp_OsdPgRebalanceTimeout (lc_TaskParams c) = 2400000000000"
proof -
  let ?d = "[(diskDaemonPortParameter, ''4294977295''), (taskOsdPgRebalanceTimeout, ''40'')]"
  have "parse_int ''4294977295'' = Some 4294977295" "parse_int ''40'' = Some 40" by code_simp+
  with config_numbers [of ?d "''4294977295''" 4294977295 "''40''" 40 cfg_env]
  show ?thesis by (simp add: Let_def)
qed

text \<open>
  The ConfigMap that describes a configuration, and that the loader reads the configuration back from
  it: every key sets its own parameter and nothing else.
\<close>

section \<open>Numbers and flags\<close>

lemma digit_value_digit:
  assumes "0 \<le> n" and "n < 10"
  shows "digit_value (digit n) = Some n"
proof -
  have "list_all (\<lambda>n. digit_value (digit n) = Some n) [0..9]" by code_simp
  with assms show ?thesis by (simp add: list_all_iff)
qed

lemma parse_uint_append:
  "parse_uint m s = Inr n \<Longrightarrow> parse_uint m (s @ t) = parse_uint n t"
  by (induction s arbitrary: m) (auto split: option.splits if_splits)

lemma parse_uint_show_pos: "0 \<le> n \<Longrightarrow> n < 2 ^ 64 \<Longrightarrow> parse_uint 0 (show_pos n) = Inr n"
proof (induction n rule: show_pos.induct)
  case (1 n)
  have last: "digit_value (digit (n mod 10)) = Some (n mod 10)" by (rule digit_value_digit) simp_all
  show ?case
  proof (cases "n < 10")
    case True
    with 1 last show_pos_step [of n] show ?thesis by simp
  next
    case False
    with 1 have "parse_uint 0 (show_pos (n div 10)) = Inr (n div 10)" by simp
    moreover have "show_pos n = show_pos (n div 10) @ [digit (n mod 10)]" using False 1(2) show_pos_step [of n] by simp
    ultimately show ?thesis using 1(3) last by (simp add: parse_uint_append)
  qed
qed

lemma show_pos_unsigned: "0 \<le> n \<Longrightarrow> \<not> HasPrefix (show_pos n) ''-'' \<and> \<not> HasPrefix (show_pos n) ''+''"
proof -
  assume "0 \<le> n"
  then have "hd (show_pos n) \<in> set digits10" using show_pos_digits [of n] hd_in_set [of "show_pos n"] by auto
  moreover have "CHR ''-'' \<notin> set digits10" "CHR ''+'' \<notin> set digits10" by (simp_all add: digits10_def)
  ultimately show ?thesis by (auto simp: HasPrefix_iff)
qed

lemma parse_int_show_int:
  assumes "- (2 ^ 63) \<le> n" and "n < 2 ^ 63"
  shows "parse_int (show_int n) = Some n"
proof (cases "n < 0")
  case True
  with assms(1) have "parse_uint 0 (show_pos (- n)) = Inr (- n)" by (intro parse_uint_show_pos) simp_all
  with True assms(1) show ?thesis
    by (simp add: parse_int_def Deploy_Validate.Atoi_def show_int_def HasPrefix_def Let_def)
next
  case False
  with assms(2) have "parse_uint 0 (show_pos n) = Inr n" by (intro parse_uint_show_pos) simp_all
  with False assms(2) show_pos_unsigned [of n] show ?thesis
    by (simp add: parse_int_def Deploy_Validate.Atoi_def show_int_def Let_def)
qed

lemma ParseBool_show_bool [simp]: "ParseBool (show_bool b) = Some b"
  by (simp add: ParseBool_def show_bool_def)

lemma parse_lvm_bool_show_bool [simp]: "parse_lvm_bool (show_bool b) = Some b"
  by (simp add: parse_lvm_bool_def TrimSuffix_def HasSuffix_def HasPrefix_def show_bool_def ParseBool_def)

section \<open>Describing a configuration\<close>

text \<open>How the values that other packages parse are written: log levels, node affinities and lists of
  tolerations.\<close>

record configPrint =
  pr_Level :: "LogLevel \<Rightarrow> string"
  pr_NodeAffinity :: "NodeAffinity \<Rightarrow> string"
  pr_Tolerations :: "Toleration list \<Rightarrow> string"

definition common_entries :: "LcmConfig \<Rightarrow> configData" where
  "common_entries c =
     (let cp = lc_CommonParams c
      in [(rookNamespaceParameter, lc_RookNamespace c),
          (diskDaemonPortParameter, show_int (cp_DiskDaemonPort cp)),
          (diskDaemonPlacementLabel, cp_DiskDaemonPlacementLabel cp),
          (osdFullModeParameter, show_bool (cp_LcmFullMode cp)),
          (enableGatewayParameter, show_bool (cp_GatewayAPIEnabled cp)),
          (baseGatewayNameParameter, cp_BaseGatewayName cp),
          (baseGatewayNamespaceParameter, cp_BaseGatewayNamespace cp),
          (rgwPublicAccessServiceSelectorParameter, cp_RgwPublicAccessLabel cp),
          (ingressSupportParameter, show_bool (cp_KeepIngress cp))])"

definition health_entries :: "configPrint \<Rightarrow> HealthParams \<Rightarrow> configData" where
  "health_entries W h =
     [(healthLogLevelParameter, pr_Level W (hp_LogLevel h)),
      (healthChecksCephIssuesToIgnoreParameter, join '','' (hp_CephIssuesToIgnore h)),
      (healthChecksSkipParameter, join '','' (hp_ChecksSkip h)),
      (healthChecksUsagelClassFilterParameter, hp_UsageDetailsClassesFilter h),
      (healthChecksUsagelPoolsFilterParameter, hp_UsageDetailsPoolsFilter h)]"

definition task_entries :: "configPrint \<Rightarrow> TaskParams \<Rightarrow> configData" where
  "task_entries W t =
     [(taskLogLevelParameter, pr_Level W (tp_LogLevel t)),
      (taskOsdPgRebalanceTimeout, show_int (tp_OsdPgRebalanceTimeout t div 60000000000)),
      (taskAllowRemoveManuallyCreatedLvm, show_bool (tp_AllowToRemoveManuallyCreatedLVM t))]"

definition affinity_entry :: "configPrint \<Rightarrow> string \<Rightarrow> NodeAffinity option \<Rightarrow> configData" where
  "affinity_entry W key a = (case a of None \<Rightarrow> [] | Some v \<Rightarrow> [(key, pr_NodeAffinity W v)])"

definition csi_entries :: "configPrint \<Rightarrow> CSIDeployParams \<Rightarrow> configData" where
  "csi_entries W c =
     [(cephDplCSIManageKeyName, show_bool (csi_Manage c)),
      (cephDplCSIRBDDefaultCreateKeyName, show_bool (csi_CreateDefaultRBDDriver c)),
      (cephDplCSICephFSDefaultCreateKeyName, show_bool (csi_CreateDefaultCephFSDriver c)),
      (cephDplCSINFSDefaultCreateKeyName, show_bool (csi_CreateDefaultNFSDriver c)),
      (cephDplCSIKeepExisting, show_bool (csi_KeepExisting c)),
      (cephDplCSIKubeletPath, csi_KubeletPath c),
      (cephDplCSIDeployAddons, show_bool (csi_DeployCSIAddons c)),
      (cephDplCSIControllerPluginTolerationsKeyName, pr_Tolerations W (csi_ControllerPluginToleration c)),
      (cephDplCSINodePluginTolerationsKeyName, pr_Tolerations W (csi_NodePluginToleration c))] @
     affinity_entry W cephDplCSIControllerPluginNodeAffinityKeyName (csi_ControllerPluginNodeAffinity c) @
     affinity_entry W cephDplCSINodePluginNodeAffinityKeyName (csi_NodePluginNodeAffinity c)"

definition deploy_entries :: "configPrint \<Rightarrow> DeployParams \<Rightarrow> configData" where
  "deploy_entries W c =
     [(cephDplLogLevel, pr_Level W (dp_LogLevel c)),
      (cephDplCephImage, dp_CephImage c),
      (cephDplCephRelease, dp_CephRelease c),
      (cephDplRookImage, dp_RookImage c),
      (cephDplNetPolEnabled, show_bool (dp_NetPolEnabled c)),
      (cephDplCephDaemonsetLabelExclude, dp_CephDaemonsetPlacementLabelExclude c),
      (cephDplOpenstackCephSharedNs, dp_OpenstackCephSharedNamespace c),
      (cephDplDrainRequestLabelKeyName, dp_DrainRequestLabelKey c),
      (cephDplDrainReadyLabelKeyName, dp_DrainReadyLabelKey c),
      (cephDplManageVSClassesKeyName, show_bool (dp_ManageVolumeSnapshotClasses c))] @
     csi_entries W (dp_CSIParams c)"

definition config_entries :: "configPrint \<Rightarrow> LcmConfig \<Rightarrow> configData" where
  "config_entries W c = common_entries c @ health_entries W (lc_HealthParams c) @ task_entries W (lc_TaskParams c) @
     deploy_entries W (lc_DeployParams c)"

text \<open>The parsers undo the printing, and the values are ones a ConfigMap can express.\<close>

definition prints :: "configEnv \<Rightarrow> configPrint \<Rightarrow> LcmConfig \<Rightarrow> bool" where
  "prints E W c \<longleftrightarrow>
     (let csi = dp_CSIParams (lc_DeployParams c)
      in list_all (\<lambda>l. parse_level E (pr_Level W l) = Some l)
           [hp_LogLevel (lc_HealthParams c), tp_LogLevel (lc_TaskParams c), dp_LogLevel (lc_DeployParams c)] \<and>
         list_all (\<lambda>a. \<forall>v \<in> set_option a. ce_GenerateNodeAffinity E (pr_NodeAffinity W v) = Some v)
           [csi_ControllerPluginNodeAffinity csi, csi_NodePluginNodeAffinity csi] \<and>
         list_all (\<lambda>ts. ce_YamlToTolerations E (pr_Tolerations W ts) = Some ts)
           [csi_ControllerPluginToleration csi, csi_NodePluginToleration csi])"

definition word_list :: "string list \<Rightarrow> bool" where
  "word_list ws \<longleftrightarrow> ws \<noteq> [] \<and> list_all (\<lambda>w. CHR '','' \<notin> set w) ws"

definition expressible :: "configEnv \<Rightarrow> LcmConfig \<Rightarrow> bool" where
  "expressible E c \<longleftrightarrow>
     (let cp = lc_CommonParams c; h = lc_HealthParams c; t = lc_TaskParams c; dp = lc_DeployParams c
      in lc_HealthParamsPtr c \<noteq> None \<and> lc_TaskParamsPtr c \<noteq> None \<and> lc_DeployParamsPtr c \<noteq> None \<and>
         list_all (\<lambda>l. ce_LabelsParse E l = Some l)
           [cp_DiskDaemonPlacementLabel cp, cp_RgwPublicAccessLabel cp, dp_CephDaemonsetPlacementLabelExclude dp] \<and>
         - (2 ^ 31) \<le> cp_DiskDaemonPort cp \<and> cp_DiskDaemonPort cp < 2 ^ 31 \<and>
         word_list (hp_CephIssuesToIgnore h) \<and> word_list (hp_ChecksSkip h) \<and>
         ce_RegexpCompile E (hp_UsageDetailsClassesFilter h) \<and> ce_RegexpCompile E (hp_UsageDetailsPoolsFilter h) \<and>
         60000000000 dvd tp_OsdPgRebalanceTimeout t \<and>
         - (2 ^ 63) \<le> tp_OsdPgRebalanceTimeout t \<and> tp_OsdPgRebalanceTimeout t < 2 ^ 63 \<and>
         csi_Manage (dp_CSIParams dp))"

section \<open>Reading it back\<close>

lemma map_of_affinity [simp]:
  "map_of (affinity_entry W key a) k = (if k = key then map_option (pr_NodeAffinity W) a else None)"
  by (simp add: affinity_entry_def split: option.split)

lemma map_of_elsewhere:
  "k \<notin> set (keys a) \<Longrightarrow> map_of (a @ b) k = map_of b k"
  by (force simp: map_add_def dest: map_of_SomeD split: option.split)

lemma split_word_list: "word_list ws \<Longrightarrow> split_on CHR '','' (join '','' ws) = ws"
  by (rule split_join) (auto simp: word_list_def list_all_iff)

lemma read_common_entries:
  assumes "expressible E c"
  shows "read_common E (common_entries c @ rest) cp = lc_CommonParams c"
proof -
  have port: "parse_int (show_int (cp_DiskDaemonPort (lc_CommonParams c))) = Some (cp_DiskDaemonPort (lc_CommonParams c))"
    and fits: "int32 (cp_DiskDaemonPort (lc_CommonParams c)) = cp_DiskDaemonPort (lc_CommonParams c)"
    using assms by (simp_all add: expressible_def Let_def parse_int_show_int int32_eq_iff)
  have "ce_LabelsParse E (cp_DiskDaemonPlacementLabel (lc_CommonParams c)) = Some (cp_DiskDaemonPlacementLabel (lc_CommonParams c))"
    "ce_LabelsParse E (cp_RgwPublicAccessLabel (lc_CommonParams c)) = Some (cp_RgwPublicAccessLabel (lc_CommonParams c))"
    using assms by (simp_all add: expressible_def Let_def)
  with port fits show ?thesis
    by (simp add: read_common_def set_param_def common_entries_def Let_def)
qed

lemma set_param_elsewhere:
  "key \<notin> set (keys a) \<Longrightarrow> set_param (a @ b) key parse assign c = set_param b key parse assign c"
  by (simp add: set_param_def map_of_elsewhere del: map_of_append)

lemma set_param_skip: "k \<noteq> key \<Longrightarrow> set_param ((k, v) # b) key parse assign c = set_param b key parse assign c"
  by (simp add: set_param_def)

lemma entry_keys [simp]:
  "fst ` set (common_entries c) = {rookNamespaceParameter, diskDaemonPortParameter, diskDaemonPlacementLabel, osdFullModeParameter,
     enableGatewayParameter, baseGatewayNameParameter, baseGatewayNamespaceParameter, rgwPublicAccessServiceSelectorParameter,
     ingressSupportParameter}"
  "fst ` set (health_entries W h) = {healthLogLevelParameter, healthChecksCephIssuesToIgnoreParameter, healthChecksSkipParameter,
     healthChecksUsagelClassFilterParameter, healthChecksUsagelPoolsFilterParameter}"
  "fst ` set (task_entries W t) = {taskLogLevelParameter, taskOsdPgRebalanceTimeout, taskAllowRemoveManuallyCreatedLvm}"
  by (simp_all add: common_entries_def health_entries_def task_entries_def Let_def)

lemma load_health_entries:
  assumes "expressible E c" and "prints E W c"
  shows "loadHealthConfiguration E (common_entries c @ health_entries W (lc_HealthParams c) @ rest) = lc_HealthParams c"
proof -
  let ?h = "lc_HealthParams c"
  have "split_on CHR '','' (join '','' (hp_CephIssuesToIgnore ?h)) = hp_CephIssuesToIgnore ?h"
    "split_on CHR '','' (join '','' (hp_ChecksSkip ?h)) = hp_ChecksSkip ?h"
    "parse_regexp E (hp_UsageDetailsClassesFilter ?h) = Some (hp_UsageDetailsClassesFilter ?h)"
    "parse_regexp E (hp_UsageDetailsPoolsFilter ?h) = Some (hp_UsageDetailsPoolsFilter ?h)"
    using assms(1) by (simp_all add: expressible_def Let_def split_word_list parse_regexp_def)
  moreover have "loadHealthConfiguration E (common_entries c @ health_entries W ?h @ rest) =
      loadHealthConfiguration E (health_entries W ?h @ rest)"
    by (simp add: loadHealthConfiguration_def set_param_elsewhere)
  ultimately show ?thesis
    using assms(2) by (simp add: prints_def Let_def loadHealthConfiguration_def set_param_given health_entries_def)
qed

lemma load_task_entries:
  assumes "expressible E c" and "prints E W c"
  shows "loadTaskConfiguration E (common_entries c @ health_entries W h @ task_entries W (lc_TaskParams c) @ rest) = lc_TaskParams c"
proof -
  let ?t = "tp_OsdPgRebalanceTimeout (lc_TaskParams c)"
  have *: "?t div 60000000000 * 60000000000 = ?t" "- (2 ^ 63) \<le> ?t" "?t < 2 ^ 63"
    using assms(1) by (simp_all add: expressible_def Let_def)
  then have "parse_int (show_int (?t div 60000000000)) = Some (?t div 60000000000)" by (intro parse_int_show_int) linarith+
  moreover have "minutes (?t div 60000000000) = ?t" using * minutes_eq_iff [of "?t div 60000000000"] by simp
  moreover have "loadTaskConfiguration E (common_entries c @ health_entries W h @ task_entries W (lc_TaskParams c) @ rest) =
      loadTaskConfiguration E (task_entries W (lc_TaskParams c) @ rest)"
    by (simp add: loadTaskConfiguration_def set_param_elsewhere)
  ultimately show ?thesis
    using assms(2) by (simp add: prints_def Let_def loadTaskConfiguration_def set_param_given task_entries_def)
qed

lemma load_csi_entries:
  assumes "csi_Manage c" and "prints E W C" and "c = dp_CSIParams (lc_DeployParams C)" and "csi_ControllerPluginNodeAffinity c0 = None" and "csi_NodePluginNodeAffinity c0 = None"
  shows "load_csi E (csi_entries W c) c0 = c"
  using assms
  by (cases "csi_ControllerPluginNodeAffinity c"; cases "csi_NodePluginNodeAffinity c")
    (simp_all add: load_csi_def load_csi_drivers_def set_param_def csi_entries_def prints_def map_add_def Let_def)

lemma load_deploy_entries:
  assumes "expressible E c" and "prints E W c"
  shows "loadCephDeploymentConfiguration E (config_entries W c) = lc_DeployParams c"
proof -
  let ?pre = "common_entries c @ health_entries W (lc_HealthParams c) @ task_entries W (lc_TaskParams c)"
  let ?dp = "lc_DeployParams c"
  have manage: "csi_Manage (dp_CSIParams ?dp)"
    and exclude: "ce_LabelsParse E (dp_CephDaemonsetPlacementLabelExclude ?dp) = Some (dp_CephDaemonsetPlacementLabelExclude ?dp)"
    using assms(1) by (simp_all add: expressible_def Let_def)
  have drivers: "load_csi_drivers E (config_entries W c) c0 = load_csi_drivers E (csi_entries W (dp_CSIParams ?dp)) c0" for c0
    by (simp add: load_csi_drivers_def config_entries_def deploy_entries_def set_param_elsewhere set_param_skip)
  have "load_csi E (config_entries W c) c0 = load_csi E (csi_entries W (dp_CSIParams ?dp)) c0" for c0
    unfolding load_csi_def drivers by (simp add: config_entries_def deploy_entries_def map_of_elsewhere del: map_of_append)
  then have csi: "load_csi E (config_entries W c) (dp_CSIParams defaultDeployParams) = dp_CSIParams ?dp"
    using load_csi_entries [OF manage assms(2) refl] by (simp add: defaultDeployParams_def)
  have entry: "map_of (config_entries W c) key = map_of (deploy_entries W ?dp) key" if "key \<notin> fst ` set ?pre" for key
    using map_of_elsewhere [of key ?pre "deploy_entries W ?dp"] that by (simp only: config_entries_def append_assoc set_map simp_thms)
  have given: "map_of (config_entries W c) cephDplLogLevel = Some (pr_Level W (dp_LogLevel ?dp))"
    "map_of (config_entries W c) cephDplCephImage = Some (dp_CephImage ?dp)"
    "map_of (config_entries W c) cephDplCephRelease = Some (dp_CephRelease ?dp)"
    "map_of (config_entries W c) cephDplRookImage = Some (dp_RookImage ?dp)"
    "map_of (config_entries W c) cephDplNetPolEnabled = Some (show_bool (dp_NetPolEnabled ?dp))"
    "map_of (config_entries W c) cephDplCephDaemonsetLabelExclude = Some (dp_CephDaemonsetPlacementLabelExclude ?dp)"
    "map_of (config_entries W c) cephDplOpenstackCephSharedNs = Some (dp_OpenstackCephSharedNamespace ?dp)"
    "map_of (config_entries W c) cephDplDrainRequestLabelKeyName = Some (dp_DrainRequestLabelKey ?dp)"
    "map_of (config_entries W c) cephDplDrainReadyLabelKeyName = Some (dp_DrainReadyLabelKey ?dp)"
    "map_of (config_entries W c) cephDplManageVSClassesKeyName = Some (show_bool (dp_ManageVolumeSnapshotClasses ?dp))"
    by (simp_all add: entry deploy_entries_def image_Un)
  have level: "parse_level E (pr_Level W (dp_LogLevel ?dp)) = Some (dp_LogLevel ?dp)"
    using assms(2) by (simp add: prints_def Let_def)
  show ?thesis
    unfolding loadCephDeploymentConfiguration_def Let_def set_param_def given option.case exclude level ParseBool_show_bool
    by (rule DeployParams.equality) (simp_all add: csi)
qed

text \<open>C19. A configuration that is written into the ConfigMap, one entry per parameter, is read back unchanged:
  every key sets its own parameter and no other.\<close>

theorem config_roundtrip:
  assumes "expressible E c" and "prints E W c"
  shows "ReadConfiguration E ControlParamsAll (config_entries W c) = c"
proof -
  have "read_common E (config_entries W c) cp = lc_CommonParams c" for cp
    unfolding config_entries_def by (rule read_common_entries [OF assms(1)])
  moreover have "loadHealthConfiguration E (config_entries W c) = lc_HealthParams c"
    unfolding config_entries_def by (rule load_health_entries [OF assms])
  moreover have "loadTaskConfiguration E (config_entries W c) = lc_TaskParams c"
    unfolding config_entries_def by (rule load_task_entries [OF assms])
  moreover have "map_of (config_entries W c) rookNamespaceParameter = Some (lc_RookNamespace c)"
    by (simp add: config_entries_def common_entries_def Let_def)
  moreover have "lc_HealthParamsPtr c \<noteq> None" "lc_TaskParamsPtr c \<noteq> None" "lc_DeployParamsPtr c \<noteq> None"
    using assms(1) by (simp_all add: expressible_def Let_def)
  ultimately show ?thesis
    by (intro LcmConfig.equality) (auto simp: ReadConfiguration_def load_deploy_entries [OF assms] set_param_given)
qed

definition cfg_print :: configPrint where
  "cfg_print = \<lparr>pr_Level = \<lambda>_. ''Info'', pr_NodeAffinity = \<lambda>a. a, pr_Tolerations = hd\<rparr>"

definition cfg_example :: LcmConfig where
  "cfg_example = \<lparr>lc_RookNamespace = ''rook'',
     lc_CommonParams = \<lparr>cp_BaseGatewayName = ''gw'', cp_BaseGatewayNamespace = ''net'', cp_DiskDaemonPlacementLabel = ''disks=yes'',
       cp_DiskDaemonPort = 8080, cp_RgwPublicAccessLabel = ''rgw=yes'', cp_GatewayAPIEnabled = False, cp_KeepIngress = True,
       cp_LcmFullMode = False\<rparr>,
     lc_HealthParamsPtr = Some \<lparr>hp_LogLevel = InfoLevel, hp_ChecksSkip = [''rgw_info'', ''ceph_events''],
       hp_CephIssuesToIgnore = [''SLOW_OPS''], hp_UsageDetailsClassesFilter = ''hdd'', hp_UsageDetailsPoolsFilter = ''rbd.*''\<rparr>,
     lc_TaskParamsPtr = Some \<lparr>tp_LogLevel = InfoLevel, tp_OsdPgRebalanceTimeout = 2400000000000,
       tp_AllowToRemoveManuallyCreatedLVM = True\<rparr>,
     lc_DeployParamsPtr = Some (defaultDeployParams\<lparr>dp_CephImage := ''ceph:v19'', dp_NetPolEnabled := True,
       dp_CSIParams := (dp_CSIParams defaultDeployParams)\<lparr>csi_NodePluginNodeAffinity := Some ''zone=a'',
         csi_ControllerPluginToleration := [''any''], csi_NodePluginToleration := [''all'']\<rparr>\<rparr>)\<rparr>"

theorem config_roundtrip_witness:
  "expressible cfg_env cfg_example \<and> prints cfg_env cfg_print cfg_example \<and>
   ReadConfiguration cfg_env ControlParamsAll (config_entries cfg_print cfg_example) = cfg_example"
proof -
  have "expressible cfg_env cfg_example" by code_simp
  moreover have "map lower ''Info'' = ''info''" by code_simp
  then have "prints cfg_env cfg_print cfg_example"
    by (simp add: prints_def cfg_env_def cfg_print_def cfg_example_def parse_level_def defaultDeployParams_def)
  ultimately show ?thesis using config_roundtrip by blast
qed

end
