(* ===== verification/Lcm_Config_Store.thy ===== *)
theory Lcm_Config_Store
  imports Lcm_Config_Theorems
begin

text \<open>
  The store of configurations: the interface its readers rely on, that it follows what was last seen of
  the ConfigMap of each namespace, and that no controller meets a nil pointer in it.
\<close>

section \<open>The interface\<close>

text \<open>What a reader of the store may assume of loading and dropping.\<close>

locale config_store =
  fixes get :: "string \<Rightarrow> 's \<Rightarrow> 'c"
    and load :: "string \<Rightarrow> 'd \<Rightarrow> 's \<Rightarrow> 's"
    and forget :: "string \<Rightarrow> 's \<Rightarrow> 's"
    and parsed :: "'d \<Rightarrow> 'c"
    and unset :: "'c"
  assumes get_load: "get ns (load ns' d s) = (if ns = ns' then parsed d else get ns s)"
    and get_forget: "get ns (forget ns' s) = (if ns = ns' then unset else get ns s)"
begin

definition apply_seen :: "string \<times> 'd option option \<Rightarrow> 's \<Rightarrow> 's" where
  "apply_seen e s = (case snd e of None \<Rightarrow> s | Some None \<Rightarrow> forget (fst e) s | Some (Some d) \<Rightarrow> load (fst e) d s)"

definition newest :: "string \<Rightarrow> string \<times> 'd option option \<Rightarrow> 'd option \<Rightarrow> 'd option" where
  "newest ns e seen = (if fst e = ns then case snd e of None \<Rightarrow> seen | Some now \<Rightarrow> now else seen)"

lemma get_apply_seen:
  "get ns (apply_seen e s) = (if fst e = ns then case snd e of None \<Rightarrow> get ns s | Some None \<Rightarrow> unset | Some (Some d) \<Rightarrow> parsed d
                              else get ns s)"
  by (auto simp: apply_seen_def get_load get_forget split: option.splits)

lemma get_run:
  assumes "get ns s = (case seen of None \<Rightarrow> unset | Some d \<Rightarrow> parsed d)"
  shows "get ns (fold apply_seen es s) = (case fold (newest ns) es seen of None \<Rightarrow> unset | Some d \<Rightarrow> parsed d)"
  using assms
proof (induction es arbitrary: s seen)
  case (Cons e es)
  have "get ns (apply_seen e s) = (case newest ns e seen of None \<Rightarrow> unset | Some d \<Rightarrow> parsed d)"
    using Cons.prems by (auto simp: get_apply_seen newest_def split: option.splits)
  from Cons.IH [OF this] show ?case by simp
qed simp

end

definition unset_config :: LcmConfig where
  "unset_config = GetConfiguration [] []"

interpretation store: config_store GetConfiguration "loadConfiguration E p" dropConfiguration "ReadConfiguration E p" unset_config
  for E :: configEnv and p :: ControlParams
  by unfold_locales (simp_all add: GetConfiguration_def loadConfiguration_def dropConfiguration_def unset_config_def delete_conv')

section \<open>The reconciler keeps the store up to date\<close>

type_synonym config_event = "string \<times> (api_error + ConfigMap)"

definition run_config :: "configEnv \<Rightarrow> ControlParams \<Rightarrow> config_event list \<Rightarrow> configStore \<Rightarrow> configStore" where
  "run_config E p es s = fold (\<lambda>(ns, answer) s. snd (Config_Reconcile E p ns answer s)) es s"

text \<open>What the answers say about the ConfigMap of a namespace, the later ones overriding the earlier: its
  data, or that it does not exist. Any other error says nothing.\<close>

definition told :: "api_error + ConfigMap \<Rightarrow> configData option option" where
  "told answer = (case answer of Inr cm \<Rightarrow> Some (Some (data_of cm)) | Inl err \<Rightarrow> if is_not_found err then Some None else None)"

definition last_seen :: "string \<Rightarrow> config_event list \<Rightarrow> configData option" where
  "last_seen ns es =
     (let tellings = List.map_filter (\<lambda>(ns', answer). if ns' = ns then told answer else None) es
      in if tellings = [] then None else last tellings)"

lemma reconcile_seen: "snd (Config_Reconcile E p ns answer s) = store.apply_seen E p (ns, told answer) s"
  by (simp add: Config_Reconcile_def store.apply_seen_def told_def split: sum.split)

lemma run_config_seen: "run_config E p es s = fold (store.apply_seen E p) (map (\<lambda>(ns, answer). (ns, told answer)) es) s"
  by (simp add: run_config_def fold_map o_def split_def reconcile_seen)

lemma newest_last_seen:
  "fold (store.newest ns) (map (\<lambda>(ns, answer). (ns, told answer)) es) seen =
     (let tellings = List.map_filter (\<lambda>(ns', answer). if ns' = ns then told answer else None) es
      in if tellings = [] then seen else last tellings)"
  by (induction es arbitrary: seen) (auto simp: List.map_filter_def store.newest_def Let_def split: option.splits if_splits)

text \<open>C20. Whatever the reconciler of the configuration meets, in whatever order of namespaces, a controller reads
  the configuration that the last ConfigMap seen in its namespace gives, and the defaults if there
  was none or the last thing heard was that it is gone; failed requests change nothing.\<close>

theorem config_store_latest:
  "GetConfiguration ns (run_config E p es []) =
     (case last_seen ns es of None \<Rightarrow> GetConfiguration ns [] | Some d \<Rightarrow> ReadConfiguration E p d)"
proof -
  have unset: "GetConfiguration ns [] = unset_config" by (simp add: unset_config_def GetConfiguration_def)
  have "GetConfiguration ns [] = (case None of None \<Rightarrow> unset_config | Some d \<Rightarrow> ReadConfiguration E p d)" by (simp add: unset)
  from store.get_run [OF this, where es = "map (\<lambda>(ns, answer). (ns, told answer)) es"] show ?thesis
    by (simp only: run_config_seen newest_last_seen last_seen_def unset)
qed

section \<open>No nil pointers\<close>

text \<open>The pointers that the controllers of a process dereference.\<close>

definition params_present :: "ControlParams \<Rightarrow> LcmConfig \<Rightarrow> bool" where
  "params_present p c \<longleftrightarrow>
     (p \<in> {ControlParamsHealth, ControlParamsAll} \<longrightarrow> lc_HealthParamsPtr c \<noteq> None) \<and>
     (p \<in> {ControlParamsTask, ControlParamsAll} \<longrightarrow> lc_TaskParamsPtr c \<noteq> None) \<and>
     (p \<in> {ControlParamsCephDpl, ControlParamsAll} \<longrightarrow> lc_DeployParamsPtr c \<noteq> None)"

lemma read_params_present: "params_present p (ReadConfiguration E p d)"
  by (cases p) (simp_all add: params_present_def ReadConfiguration_def)

lemma unset_params_present: "params_present p (GetConfiguration ns [])"
  by (simp add: params_present_def GetConfiguration_def)

text \<open>After any sequence of reconcile runs the configuration a controller gets has the parameters of its own
  controller set, so that no controller dereferences a nil pointer.\<close>

theorem config_params_present: "params_present p (GetConfiguration ns (run_config E p es []))"
proof -
  have "GetConfiguration ns (run_config E p es []) = (case last_seen ns es of None \<Rightarrow> unset_config | Some d \<Rightarrow> ReadConfiguration E p d)"
    using store.get_run [where s = "[]" and seen = None and es = "map (\<lambda>(ns, answer). (ns, told answer)) es"]
    by (simp add: run_config_seen newest_last_seen last_seen_def unset_config_def GetConfiguration_def)
  then show ?thesis
    by (simp add: read_params_present unset_params_present unset_config_def split: option.split)
qed

section \<open>Skipped events\<close>

lemma ReadConfiguration_cong:
  assumes "map_of d = map_of d'"
  shows "ReadConfiguration E p d = ReadConfiguration E p d'"
proof -
  have drivers: "load_csi_drivers E d = load_csi_drivers E d'"
    by (rule ext) (simp only: load_csi_drivers_def set_param_cong [OF assms])
  have csi: "load_csi E d = load_csi E d'"
    by (rule ext) (simp only: load_csi_def drivers assms)
  show ?thesis
    unfolding ReadConfiguration_def read_common_def loadHealthConfiguration_def loadTaskConfiguration_def
      loadCephDeploymentConfiguration_def set_param_cong [OF assms] csi by (rule refl)
qed

text \<open>An update of the ConfigMap that the event filter skips does not change the configuration.\<close>

theorem config_skipped_update:
  assumes "cmp_Name oldC = LcmConfigMapName" and "cmp_Name newC = LcmConfigMapName" and "\<not> cmPredicate (UpdateEvent oldC newC)"
  shows "ReadConfiguration E p (data_of newC) = ReadConfiguration E p (data_of oldC)"
proof -
  have "\<not> data_differ (cmp_Data oldC) (cmp_Data newC)"
    using assms by (simp add: cmPredicate_def)
  then have "map_of (data_of newC) = map_of (data_of oldC)"
    by (auto simp: data_differ_def data_of_def map_eq_iff split: option.splits)
  then show ?thesis by (rule ReadConfiguration_cong)
qed

theorem config_skipped_update_witness:
  "let old = \<lparr>cmp_Name = LcmConfigMapName, cmp_Namespace = ''pelagia'',
                cmp_Data = Some [(rookNamespaceParameter, ''rook''), (ingressSupportParameter, ''true'')]\<rparr>;
       new = old\<lparr>cmp_Data := Some [(ingressSupportParameter, ''true''), (rookNamespaceParameter, ''rook'')]\<rparr>
   in \<not> cmPredicate (UpdateEvent old new) \<and>
      ReadConfiguration cfg_env ControlParamsAll (data_of new) = ReadConfiguration cfg_env ControlParamsAll (data_of old)"
  unfolding Let_def
  by (intro conjI config_skipped_update) (simp_all add: cmPredicate_def data_differ_def map_eq_def)

section \<open>The keys of the CSI drivers\<close>

text \<open>Without the key that manages the CSI drivers every other CSI key is ignored, although the drivers are
  then managed: the CSI parameters are the defaults, whatever the ConfigMap holds.\<close>

theorem config_csi_needs_key:
  assumes "map_of d cephDplCSIManageKeyName = None"
  shows "dp_CSIParams (lc_DeployParams (ReadConfiguration E ControlParamsCephDpl d)) = dp_CSIParams defaultDeployParams \<and>
         csi_Manage (dp_CSIParams (lc_DeployParams (ReadConfiguration E ControlParamsCephDpl d)))"
  using assms
  by (simp add: ReadConfiguration_def loadCephDeploymentConfiguration_def load_csi_def
      set_param_keeps [where get = dp_CSIParams]) (simp add: defaultDeployParams_def)

theorem config_csi_needs_key_witness:
  "csi_KubeletPath (dp_CSIParams (lc_DeployParams (ReadConfiguration cfg_env ControlParamsCephDpl
     [(cephDplCSIKubeletPath, ''/k0s/kubelet'')]))) = ''/var/lib/kubelet''"
  using config_csi_needs_key [of "[(cephDplCSIKubeletPath, ''/k0s/kubelet'')]" cfg_env]
  by (simp add: defaultDeployParams_def)

end
