(* ===== verification/Deploy_CephConfig.thy ===== *)
theory Deploy_CephConfig
  imports Deploy_Version
begin

text \<open>
  The Ceph configuration that the deployment controller maintains (\<^verbatim>\<open>deployment/ceph_config.go\<close>): the options it
  sets by default, the overrides of the specification, the text of the ConfigMap that Rook mounts, and the
  parameters it sets in the running cluster with \<^verbatim>\<open>ceph config\<close>.
\<close>

section \<open>Options\<close>

record configOption =
  co_confFile :: bool
  co_static :: bool
  co_key :: string
  co_value :: string
  co_section :: string
  co_availableFrom :: "CephVersion option"
  co_availableTo :: "CephVersion option"

text \<open>An option as most of the tables of the code write it: the fields that are not named are zero.\<close>

definition option_in :: "string \<Rightarrow> string \<Rightarrow> string \<Rightarrow> configOption" where
  "option_in section key value = \<lparr>co_confFile = False, co_static = False, co_key = key, co_value = value, co_section = section,
     co_availableFrom = None, co_availableTo = None\<rparr>"

definition exceptionParams :: "(string, string) gomap" where
  "exceptionParams = [(''rgw_thread_pool_size'', ''256'')]"

definition generalConfigOptions :: "configOption list" where
  "generalConfigOptions =
     [option_in ''global'' ''mon_target_pg_per_osd'' ''100'',
      option_in ''global'' ''mon_max_pg_per_osd'' ''300'',
      option_in ''mon'' ''mon_warn_on_insecure_global_id_reclaim'' ''false'',
      option_in ''mon'' ''mon_warn_on_insecure_global_id_reclaim_allowed'' ''false'',
      (option_in ''osd'' ''osd_class_dir'' ''/usr/lib64/rados-classes'')\<lparr>co_confFile := True\<rparr>,
      option_in ''osd'' ''bdev_enable_discard'' ''true'',
      option_in ''osd'' ''bdev_async_discard_threads'' ''1'']"

definition defaultRgwConfigOptions :: "string \<Rightarrow> configOption list" where
  "defaultRgwConfigOptions rgwSectionName =
     map (\<lambda>(key, value). option_in rgwSectionName key value)
       [(''rgw_data_log_backing'', ''omap''), (''rgw_max_attr_name_len'', ''64''), (''rgw_max_attrs_num_in_req'', ''32''),
        (''rgw_max_attr_size'', ''1024''), (''rgw_bucket_quota_ttl'', ''30''), (''rgw_user_quota_bucket_sync_interval'', ''30''),
        (''rgw_user_quota_sync_interval'', ''30''), (''rgw_trust_forwarded_https'', ''true''),
        (''rgw_thread_pool_size'', str_of exceptionParams ''rgw_thread_pool_size'')]"

definition getDefaultRgwKeystoneConfig :: "string \<Rightarrow> (string, string) gomap \<Rightarrow> configOption list" where
  "getDefaultRgwKeystoneConfig rgwSectionName keystoneSecret =
     (option_in rgwSectionName ''rgw_keystone_api_version'' ''3'')\<lparr>co_static := True\<rparr> #
     map (\<lambda>(key, field). option_in rgwSectionName key (str_of keystoneSecret field))
       [(''rgw_keystone_url'', ''auth_url''), (''rgw_keystone_admin_user'', ''username''), (''rgw_keystone_admin_password'', ''password''),
        (''rgw_keystone_admin_domain'', ''project_domain_name''), (''rgw_keystone_admin_project'', ''project_name'')]"

definition getDefaultRgwBarbicanConfig :: "string \<Rightarrow> (string, string) gomap \<Rightarrow> configOption list" where
  "getDefaultRgwBarbicanConfig rgwSectionName keystoneSecret =
     (option_in rgwSectionName ''rgw_crypt_s3_kms_backend'' ''barbican'')\<lparr>co_static := True\<rparr> #
     map (\<lambda>(key, field). option_in rgwSectionName key (str_of keystoneSecret field))
       [(''rgw_barbican_url'', ''barbican_url''), (''rgw_keystone_barbican_user'', ''username''),
        (''rgw_keystone_barbican_password'', ''password''), (''rgw_keystone_barbican_domain'', ''project_domain_name''),
        (''rgw_keystone_barbican_project'', ''project_name'')]"

definition getDefaultRgwOpenStackConfig :: "string \<Rightarrow> configOption list" where
  "getDefaultRgwOpenStackConfig rgwSectionName =
     map (\<lambda>(key, value). option_in rgwSectionName key value)
       [(''rgw_swift_account_in_url'', ''true''),
        (''rgw_keystone_accepted_roles'', [CHR 39] @ ''_member_, Member, member, swiftoperator'' @ [CHR 39]),
        (''rgw_keystone_accepted_admin_roles'', [CHR 39] @ ''admin, service'' @ [CHR 39]),
        (''rgw_keystone_implicit_tenants'', ''true''), (''rgw_swift_versioning_enabled'', ''true''),
        (''rgw_enforce_swift_acls'', ''true''), (''rgw_s3_auth_use_keystone'', ''true''), (''rgw_enable_usage_log'', ''true''),
        (''rgw_usage_log_tick_interval'', ''30''), (''rgw_usage_log_flush_threshold'', ''1024''), (''rgw_usage_max_shards'', ''32''),
        (''rgw_usage_max_user_shards'', ''1'')]"

definition passwordKeys :: "string list" where
  "passwordKeys = [''rgw_keystone_admin_password'', ''rgw_keystone_barbican_password'']"

definition runtimeKeys :: "string list" where
  "runtimeKeys = passwordKeys"

section \<open>Sections and keys\<close>

definition getSectionAndKey :: "string \<Rightarrow> string \<times> string" where
  "getSectionAndKey inputKey =
     (case split_on CHR ''|'' inputKey of
        keySection # key # _ \<Rightarrow> (keySection, key)
      | _ \<Rightarrow> ([], inputKey))"

definition getFullKeyWithSection :: "string \<Rightarrow> string \<Rightarrow> string" where
  "getFullKeyWithSection section key = section @ ''|'' @ key"

type_synonym baseConfig = "(string, configOption) gomap"
type_synonym fileConfig = "(string, (string, string) gomap) gomap"
type_synonym runtimeConfig = "(string, string) gomap"

definition mergeConfig :: "configOption list \<Rightarrow> baseConfig \<Rightarrow> baseConfig" where
  "mergeConfig options base = fold (\<lambda>opt. AList.update (getFullKeyWithSection (co_section opt) (co_key opt)) opt) options base"

section \<open>The target configuration\<close>

definition isParamForRuntime :: "string \<Rightarrow> string \<Rightarrow> bool" where
  "isParamForRuntime section key \<longleftrightarrow>
     Contains runtimeKeys key \<or> HasPrefix key ''osd'' \<or> HasPrefix key ''clog'' \<or> HasPrefix section ''osd''"

definition put_option :: "string \<Rightarrow> string \<Rightarrow> string \<Rightarrow> fileConfig \<Rightarrow> fileConfig" where
  "put_option section key value file =
     (case map_of file section of
        Some opts \<Rightarrow> AList.update section (AList.update key value opts) file
      | None \<Rightarrow> AList.update section [(key, value)] file)"

definition unavailable :: "cephDeploymentConfig \<Rightarrow> configOption \<Rightarrow> bool" where
  "unavailable c opt \<longleftrightarrow>
     (case co_availableTo opt of None \<Rightarrow> False
      | Some v \<Rightarrow> \<not> CephVersionGreaterOrEqual v (the (dcf_currentCephVersion (dpc_cdConfig c)))) \<or>
     (case co_availableFrom opt of None \<Rightarrow> False
      | Some v \<Rightarrow> \<not> CephVersionGreaterOrEqual (the (dcf_currentCephVersion (dpc_cdConfig c))) v)"

definition default_option :: "cephDeploymentConfig \<Rightarrow> string \<times> configOption \<Rightarrow> fileConfig \<times> runtimeConfig \<Rightarrow> fileConfig \<times> runtimeConfig" where
  "default_option c e t =
     (let (param, paramOpt) = e; (file, runtime) = t
      in if unavailable c paramOpt then t
         else if \<not> co_static paramOpt \<and> \<not> co_confFile paramOpt \<and> isParamForRuntime (co_section paramOpt) (co_key paramOpt) then
           (file, AList.update param (co_value paramOpt) runtime)
         else (put_option (co_section paramOpt) (co_key paramOpt) (co_value paramOpt) file, runtime))"

definition normal_key :: "string \<Rightarrow> string" where
  "normal_key rawKey = replace_all (replace_all rawKey '' '' ''_'') ''-'' ''_''"

text \<open>The section of an override that names none: the one of the first default option with its key that
  the search meets, else the global one.\<close>

definition default_section :: "configOption list \<Rightarrow> string \<Rightarrow> string" where
  "default_section options key =
     (case find (\<lambda>opt. co_key opt = key) options of None \<Rightarrow> ''global'' | Some opt \<Rightarrow> co_section opt)"

definition override_value :: "string \<Rightarrow> string \<Rightarrow> string" where
  "override_value key value =
     (case map_of exceptionParams key of
        None \<Rightarrow> value
      | Some exceptionDefaultValue \<Rightarrow>
          if key = ''rgw_thread_pool_size'' then
            (case Atoi value of
               Inl _ \<Rightarrow> exceptionDefaultValue
             | Inr n \<Rightarrow> if n > 256 then exceptionDefaultValue else value)
          else value)"

definition override_option :: "(string \<Rightarrow> configOption list) \<Rightarrow> baseConfig \<Rightarrow> string \<times> string \<Rightarrow>
    fileConfig \<times> runtimeConfig \<Rightarrow> fileConfig \<times> runtimeConfig" where
  "override_option scan base e t =
     (let (param, value) = e; (file, runtime) = t; (givenSection, rawKey) = getSectionAndKey param; key = normal_key rawKey;
          section = (if givenSection = [] then default_section (scan param) key else givenSection)
      in if (case map_of base (getFullKeyWithSection section key) of
               None \<Rightarrow> False
             | Some baseOpt \<Rightarrow> co_section baseOpt = section \<and> co_static baseOpt) then t
         else let value = override_value key value
              in if isParamForRuntime section key then (file, AList.update (getFullKeyWithSection section key) value runtime)
                 else (put_option section key value file, runtime))"

text \<open>Go ranges over the default options anew for every override without a section; \<open>scan\<close> is the order
  in which the range for an override meets them.\<close>

definition getTargetConfigAndRuntime :: "(string \<Rightarrow> configOption list) \<Rightarrow> cephDeploymentConfig \<Rightarrow> (string, string) gomap \<Rightarrow>
    baseConfig \<Rightarrow> fileConfig \<times> runtimeConfig" where
  "getTargetConfigAndRuntime scan c rookConfigFromSpec base =
     fold (override_option scan base) rookConfigFromSpec (fold (default_option c) base ([], []))"

section \<open>The text of the configuration\<close>

fun reorderKeys :: "string list \<Rightarrow> string list \<Rightarrow> string list" where
  "reorderKeys ks [] = ks"
| "reorderKeys ks (priorityKey # priorityKeys) =
     (if priorityKey \<in> set ks then priorityKey # reorderKeys (remove1 priorityKey ks) priorityKeys
      else reorderKeys ks priorityKeys)"

definition SortedMapKeys :: "(string, 'v) gomap \<Rightarrow> string list" where
  "SortedMapKeys m = sort (keys m)"

definition section_keys :: "string \<Rightarrow> (string, string) gomap \<Rightarrow> string list" where
  "section_keys section opts =
     (if section = ''global'' then reorderKeys (SortedMapKeys opts) [''cluster_network'', ''public_network''] else SortedMapKeys opts)"

definition config_line :: "(string, string) gomap \<Rightarrow> string \<Rightarrow> string" where
  "config_line opts key = key @ '' = '' @ str_of opts key @ [CHR 10]"

definition section_text :: "fileConfig \<Rightarrow> string \<Rightarrow> string" where
  "section_text m section =
     (let opts = get_or [] m section
      in (if section = ''global'' then [] else [CHR 10]) @ ''['' @ section @ '']'' @ [CHR 10] @
         concat (map (config_line opts) (section_keys section opts)))"

text \<open>The daemons whose restart the controller triggers, by section.\<close>

definition hash_name :: "string \<Rightarrow> string option" where
  "hash_name section =
     (if section = ''global'' then Some ''global''
      else if HasPrefix section ''mon'' then Some ''mon''
      else if HasPrefix section ''mgr'' then Some ''mgr''
      else if HasPrefix section ''mds'' then Some section
      else if HasPrefix section ''client.rgw'' then Some section
      else None)"

definition add_hashes :: "fileConfig \<Rightarrow> string \<Rightarrow> (string, string) gomap \<Rightarrow> (string, string) gomap" where
  "add_hashes m section hashes =
     (let opts = get_or [] m section
      in case hash_name section of
           None \<Rightarrow> hashes
         | Some name \<Rightarrow> fold (\<lambda>key hs. AList.update name (str_of hs name @ config_line opts key) hs) (section_keys section opts) hashes)"

definition ordered_sections :: "fileConfig \<Rightarrow> string list" where
  "ordered_sections m = reorderKeys (sort (keys m)) [''global'', ''mon'', ''mgr'']"

definition getCephOverrideConfigStringAndHashes :: "(string \<Rightarrow> string) \<Rightarrow> fileConfig \<Rightarrow> string \<times> (string, string) gomap" where
  "getCephOverrideConfigStringAndHashes sha256 m =
     (concat (map (section_text m) (ordered_sections m)),
      map (\<lambda>(k, s). (k, sha256 s)) (fold (add_hashes m) (ordered_sections m) []))"

section \<open>Default options of the object stores (buildCephConfig)\<close>

definition rgwConfigSectionName :: "string \<Rightarrow> string" where
  "rgwConfigSectionName rgwName = ''client.rgw.'' @ replace_all rgwName ''-'' ''.'' @ ''.a''"

definition buildRGWName :: "string \<Rightarrow> string \<Rightarrow> string" where
  "buildRGWName name suffix =
     (if suffix = [] then ''rook-ceph-rgw-'' @ name else ''rook-ceph-rgw-'' @ name @ ''-'' @ suffix)"

definition getIngressTLS :: "CephDeployment \<Rightarrow> CephDeploymentIngressTLSConfig option" where
  "getIngressTLS cephDpl = (case sps_IngressConfig (cdp_Spec cephDpl) of None \<Rightarrow> None | Some tlsConfig \<Rightarrow> tlsConfig)"

definition checkOpenstackNamespaceSetForRgw :: "string \<Rightarrow> string \<Rightarrow> string option" where
  "checkOpenstackNamespaceSetForRgw rgw ns =
     (if ns = [] then Some (''CephRGW object storage '' @ quoted rgw @ '' has specified for Openstack usage, but Pelagia lcmconfig has no var '' @
        quoted ''DEPLOYMENT_OPENSTACK_CEPH_SHARED_NAMESPACE'' @ '' set'')
      else None)"

definition openstackRgwCredsName :: string where
  "openstackRgwCredsName = ''openstack-rgw-creds''"

definition service_name :: "cephDeploymentConfig \<Rightarrow> CephObjectStore \<Rightarrow> string" where
  "service_name c rgwStore = buildRGWName (rgw_Name rgwStore) [] @ ''.'' @ rook_ns c @ ''.svc''"

definition ingress_name :: "cephDeploymentConfig \<Rightarrow> CephObjectStore \<Rightarrow> string list" where
  "ingress_name c rgwStore =
     (case getIngressTLS (dpl_of c) of
        Some tls \<Rightarrow>
          if cp_KeepIngress (lc_CommonParams (dpc_lcmConfig c)) then
            [(if itl_Hostname tls \<noteq> [] then itl_Hostname tls else rgw_Name rgwStore) @ ''.'' @ itl_Domain tls]
          else []
      | None \<Rightarrow> [])"

text \<open>What the credentials that OpenStack shares add.\<close>

definition openstack_options :: "string \<Rightarrow> (string, string) gomap \<Rightarrow> baseConfig \<Rightarrow> baseConfig" where
  "openstack_options rgwSectionName secretConfig base =
     (let base = mergeConfig (getDefaultRgwOpenStackConfig rgwSectionName) base;
          base = mergeConfig (getDefaultRgwKeystoneConfig rgwSectionName secretConfig) base
      in if map_of secretConfig ''barbican_url'' \<noteq> None then mergeConfig (getDefaultRgwBarbicanConfig rgwSectionName secretConfig) base
         else base)"

definition openstack_name :: "cephDeploymentConfig \<Rightarrow> CephObjectStore \<Rightarrow> (string, string) gomap \<Rightarrow> string list" where
  "openstack_name c rgwStore secretConfig =
     (case map_of secretConfig ''public_domain'' of
        Some domain \<Rightarrow> if getIngressTLS (dpl_of c) = None then [rgw_Name rgwStore @ ''.'' @ domain] else []
      | None \<Rightarrow> [])"

text \<open>The host names of a store and the options, with those of OpenStack added if the store serves it.\<close>

definition rgw_names :: "deployEnv \<Rightarrow> cephDeploymentConfig \<Rightarrow> CephObjectStore \<Rightarrow> baseConfig \<Rightarrow> (string + string list \<times> baseConfig) io" where
  "rgw_names D c rgwStore base =
     (let names = [service_name c rgwStore]; section = rgwConfigSectionName (rgw_Name rgwStore);
          shared = dp_OpenstackCephSharedNamespace (lc_DeployParams (dpc_lcmConfig c))
      in if rgw_ServedByIngress rgwStore \<or> rgw_UsedForOpenstack rgwStore then
           (let names = names @ ingress_name c rgwStore
            in if rgw_UsedForOpenstack rgwStore then
                 (case checkOpenstackNamespaceSetForRgw (rgw_Name rgwStore) shared of
                    Some err \<Rightarrow> State_Monad.return (Inl err)
                  | None \<Rightarrow> do {
                      r \<leftarrow> manage (GetSecret shared openstackRgwCredsName) (\<lambda>h. de_GetSecret D h shared openstackRgwCredsName);
                      State_Monad.return (case r of
                        Inl err \<Rightarrow> if is_not_found err then Inr (names, base) else Inl (err_msg err)
                      | Inr secretConfig \<Rightarrow>
                          Inr (names @ openstack_name c rgwStore secretConfig, openstack_options section secretConfig base))
                    })
               else State_Monad.return (Inr (names, base)))
         else State_Monad.return (Inr (names, base)))"

definition rgw_options :: "deployEnv \<Rightarrow> cephDeploymentConfig \<Rightarrow> CephObjectStore \<Rightarrow> baseConfig \<Rightarrow> (string + baseConfig) io" where
  "rgw_options D c rgwStore base = do {
     let section = rgwConfigSectionName (rgw_Name rgwStore);
     r \<leftarrow> rgw_names D c rgwStore (mergeConfig (defaultRgwConfigOptions section) base);
     State_Monad.return (case r of
       Inl err \<Rightarrow> Inl err
     | Inr (names, base) \<Rightarrow>
         (let rgwCasted = fst (CephObjectStore_GetSpec D rgwStore)
          in if \<not> os_Hosting rgwCasted \<and> os_SecurePort rgwCasted \<noteq> 0 then
               Inr (mergeConfig [option_in section ''rgw_dns_name'' (join '','' names)] base)
             else Inr base))
   }"

fun rgws_options :: "deployEnv \<Rightarrow> cephDeploymentConfig \<Rightarrow> CephObjectStore list \<Rightarrow> baseConfig \<Rightarrow> (string + baseConfig) io" where
  "rgws_options D c [] base = State_Monad.return (Inr base)"
| "rgws_options D c (rgwStore # rgws) base = do {
     r \<leftarrow> rgw_options D c rgwStore base;
     case r of
       Inl err \<Rightarrow> State_Monad.return (Inl err)
     | Inr base \<Rightarrow> rgws_options D c rgws base
   }"

definition network_options :: "deployEnv \<Rightarrow> AddressRanges \<Rightarrow> configOption list" where
  "network_options D ranges =
     [(option_in ''global'' ''cluster_network'' (de_CIDRString D (ar_Cluster ranges)))\<lparr>co_static := True\<rparr>,
      (option_in ''global'' ''public_network'' (de_CIDRString D (ar_Public ranges)))\<lparr>co_static := True\<rparr>]"

text \<open>The orders in which Go ranges over the maps the function itself builds: the default options, the
  search for the section of an override, and the runtime parameters.\<close>

record rangeOrder =
  ro_base :: "baseConfig \<Rightarrow> baseConfig"
  ro_scan :: "baseConfig \<Rightarrow> string \<Rightarrow> configOption list"
  ro_runtime :: "runtimeConfig \<Rightarrow> runtimeConfig"

definition buildCephConfig :: "rangeOrder \<Rightarrow> deployEnv \<Rightarrow> cephDeploymentConfig \<Rightarrow>
    (string + string \<times> runtimeConfig \<times> (string, string) gomap) io" where
  "buildCephConfig R D c =
     (let network = cs_Network (dcf_clusterSpec (dpc_cdConfig c)); onHost = (nw_Provider network = [] \<or> nw_Provider network = ''host'')
      in if onHost \<and> nw_AddressRanges network = None then
           State_Monad.return (Inl ''network ranges for public and cluster are not provided'')
         else do {
           let base = (if onHost then mergeConfig (network_options D (the (nw_AddressRanges network))) [] else []);
           let base = mergeConfig generalConfigOptions base;
           r \<leftarrow> rgws_options D c (case sps_ObjectStorage (dpl_spec c) of None \<Rightarrow> [] | Some storage \<Rightarrow> ost_Rgws storage) base;
           State_Monad.return (case r of
             Inl err \<Rightarrow> Inl err
           | Inr base \<Rightarrow>
               (let (configMap, runtimeParams) = getTargetConfigAndRuntime (ro_scan R base) c (sps_RookConfig (dpl_spec c)) (ro_base R base);
                    (configOverrideString, hashes) = getCephOverrideConfigStringAndHashes (de_Sha256 D) configMap
                in Inr (configOverrideString, runtimeParams, hashes)))
         })"

section \<open>Runtime parameters (updateRuntimeParameters)\<close>

record updateTimestamps =
  ut_cephConfigMap :: "(string, string) gomap"
  ut_rgwSSLCert :: "(string, string) gomap"
  ut_rgwRuntimeParams :: string
  ut_osdRuntimeParams :: string

definition getCephConfigDump :: "deployEnv \<Rightarrow> cephDeploymentConfig \<Rightarrow> (string + cephConfigOptionDump list) io" where
  "getCephConfigDump D c = RunAndParseCephToolboxCLI (de_env D) (rook_ns c) ''ceph config dump --format json'' (de_ConfigDump D)"

definition dumped_value :: "cephConfigOptionDump list \<Rightarrow> string \<Rightarrow> string \<Rightarrow> string" where
  "dumped_value dump section key =
     (case find (\<lambda>opt. cod_Name opt = key \<and> cod_Section opt = section) dump of None \<Rightarrow> [] | Some opt \<Rightarrow> cod_Value opt)"

definition config_command :: "string \<Rightarrow> string \<Rightarrow> string \<Rightarrow> string" where
  "config_command section key value =
     (if value = [] then ''ceph config rm '' @ section @ '' '' @ key
      else ''ceph config set '' @ section @ '' '' @ key @ '' '' @ value)"

definition note_update :: "deployEnv \<Rightarrow> string \<Rightarrow> string \<Rightarrow> updateTimestamps \<Rightarrow> updateTimestamps io" where
  "note_update D section key ts =
     (if HasPrefix section ''client.rgw'' then do {
        now \<leftarrow> GetCurrentTimeString (de_env D);
        State_Monad.return (ts\<lparr>ut_rgwRuntimeParams := now\<rparr>)
      }
      else if HasPrefix section ''osd'' \<or> HasPrefix key ''osd'' then do {
        now \<leftarrow> GetCurrentTimeString (de_env D);
        State_Monad.return (ts\<lparr>ut_osdRuntimeParams := now\<rparr>)
      }
      else State_Monad.return ts)"

fun update_params :: "deployEnv \<Rightarrow> cephDeploymentConfig \<Rightarrow> cephConfigOptionDump list \<Rightarrow> runtimeConfig \<Rightarrow> bool \<Rightarrow> updateTimestamps \<Rightarrow>
    ((string + bool) \<times> updateTimestamps) io" where
  "update_params D c dump [] updated ts = State_Monad.return (Inr updated, ts)"
| "update_params D c dump ((sectionKey, value) # params) updated ts =
     (let (section, key) = getSectionAndKey sectionKey
      in if dumped_value dump section key = value then update_params D c dump params updated ts
         else do {
           (_, err) \<leftarrow> RunCephToolboxCLI (de_env D) (rook_ns c) (config_command section key value);
           case err of
             Some e \<Rightarrow> State_Monad.return (Inl (wrap e (''failed to update '' @ quoted key @ '' parameter'')), ts)
           | None \<Rightarrow> do {
               ts \<leftarrow> note_update D section key ts;
               update_params D c dump params True ts
             }
         })"

definition updateRuntimeParameters :: "rangeOrder \<Rightarrow> deployEnv \<Rightarrow> cephDeploymentConfig \<Rightarrow> runtimeConfig \<Rightarrow> updateTimestamps \<Rightarrow>
    ((string + bool) \<times> updateTimestamps) io" where
  "updateRuntimeParameters R D c runtimeConfig ts =
     (if runtimeConfig = [] then State_Monad.return (Inr False, ts)
      else do {
        r \<leftarrow> getCephConfigDump D c;
        case r of
          Inl err \<Rightarrow> State_Monad.return (Inl err, ts)
        | Inr dump \<Rightarrow> update_params D c dump (ro_runtime R runtimeConfig) False ts
      })"

section \<open>The ConfigMap (ensureCephConfig)\<close>

definition rookConfigOverrideName :: string where
  "rookConfigOverrideName = ''rook-config-override''"

definition cephConfigMapUpdateTimestampLabel :: string where
  "cephConfigMapUpdateTimestampLabel = ''cephdeployment.lcm.mirantis.com/config-generated''"

definition cephRuntimeRgwParametersUpdateTimestampLabel :: string where
  "cephRuntimeRgwParametersUpdateTimestampLabel = ''cephdeployment.lcm.mirantis.com/runtime-rgw-params-updated''"

definition cephRuntimeOsdParametersUpdateTimestampLabel :: string where
  "cephRuntimeOsdParametersUpdateTimestampLabel = ''cephdeployment.lcm.mirantis.com/runtime-osd-params-updated''"

definition cephConfigSectionHashLabel :: "string \<Rightarrow> string" where
  "cephConfigSectionHashLabel section = ''cephdeployment.lcm.mirantis.com/config-'' @ section @ ''-hash''"

definition cephConfigParametersUpdateTimestampLabel :: "string \<Rightarrow> string" where
  "cephConfigParametersUpdateTimestampLabel section = ''cephdeployment.lcm.mirantis.com/config-'' @ section @ ''-updated''"

text \<open>\<^verbatim>\<open>strings.TrimSpace\<close> on the white space of ASCII.\<close>

definition TrimSpace :: "string \<Rightarrow> string" where
  "TrimSpace s =
     (let space = (\<lambda>ch. ch \<in> set [CHR 9, CHR 10, CHR 11, CHR 12, CHR 13, CHR '' ''])
      in rev (dropWhile space (rev (dropWhile space s))))"

definition runtime_text :: "runtimeConfig \<Rightarrow> string" where
  "runtime_text runtimeConfig =
     concat (map (\<lambda>k. k @ '' = '' @ (if Contains passwordKeys (snd (getSectionAndKey k)) then ''*'' else str_of runtimeConfig k) @ [CHR 10])
       (SortedMapKeys runtimeConfig))"

definition new_config_map :: "cephDeploymentConfig \<Rightarrow> string \<Rightarrow> string \<Rightarrow> runtimeConfig \<Rightarrow> (string, string) gomap \<Rightarrow> KubeConfigMap" where
  "new_config_map c now cephOverrideConfig runtimeConfig configHashes =
     \<lparr>kcm_Name = rookConfigOverrideName, kcm_Namespace = rook_ns c, kcm_Labels = baseResourceLabels,
      kcm_Annotations =
        fold (\<lambda>(section, hash) ann. AList.update (cephConfigParametersUpdateTimestampLabel section) now
                                      (AList.update (cephConfigSectionHashLabel section) hash ann))
          configHashes [(cephConfigMapUpdateTimestampLabel, now)],
      kcm_Data = [(''config'', cephOverrideConfig), (''runtime'', runtime_text runtimeConfig)]\<rparr>"

text \<open>Parameters that were set before and are no longer wanted are to be removed.\<close>

definition with_removed :: "string \<Rightarrow> runtimeConfig \<Rightarrow> runtimeConfig" where
  "with_removed curRuntime runtimeConfig =
     fold (\<lambda>line params. let curKey = TrimSpace (split_first CHR ''='' line)
                         in if map_of params curKey = None then AList.update curKey [] params else params)
       (split_on (CHR 10) curRuntime) runtimeConfig"

definition pickTimestamp :: "string \<Rightarrow> string \<Rightarrow> string" where
  "pickTimestamp now timestamp = (if timestamp = [] then now else timestamp)"

definition section_annotations :: "string \<Rightarrow> (string, string) gomap \<Rightarrow> string \<times> string \<Rightarrow>
    (string, string) gomap \<times> (string, string) gomap \<Rightarrow> (string, string) gomap \<times> (string, string) gomap" where
  "section_annotations now current e t =
     (let (section, hash) = e; (ann, actual) = t; hashLabel = cephConfigSectionHashLabel section;
          timestampLabel = cephConfigParametersUpdateTimestampLabel section;
          timestamp = pickTimestamp now (str_of current timestampLabel)
      in if hash \<noteq> str_of current hashLabel then
           (AList.update timestampLabel now (AList.update hashLabel hash ann), AList.update section now actual)
         else
           (AList.update timestampLabel timestamp (AList.update hashLabel (pickTimestamp now (str_of current hashLabel)) ann),
            AList.update section timestamp actual))"

definition keep_runtime_timestamps :: "(string, string) gomap \<Rightarrow> updateTimestamps \<Rightarrow> updateTimestamps" where
  "keep_runtime_timestamps current ts =
     (let prevRgw = str_of current cephRuntimeRgwParametersUpdateTimestampLabel;
          prevOsd = str_of current cephRuntimeOsdParametersUpdateTimestampLabel;
          ts = (if ut_rgwRuntimeParams ts = [] \<and> prevRgw \<noteq> [] then ts\<lparr>ut_rgwRuntimeParams := prevRgw\<rparr> else ts)
      in if ut_osdRuntimeParams ts = [] \<and> prevOsd \<noteq> [] then ts\<lparr>ut_osdRuntimeParams := prevOsd\<rparr> else ts)"

definition runtime_annotations :: "updateTimestamps \<Rightarrow> (string, string) gomap \<Rightarrow> (string, string) gomap" where
  "runtime_annotations ts ann =
     (let ann = (if ut_rgwRuntimeParams ts \<noteq> [] then
                   AList.update cephRuntimeRgwParametersUpdateTimestampLabel (ut_rgwRuntimeParams ts) ann else ann)
      in if ut_osdRuntimeParams ts \<noteq> [] then
           AList.update cephRuntimeOsdParametersUpdateTimestampLabel (ut_osdRuntimeParams ts) ann
         else ann)"

text \<open>The annotations of the sections and the timestamps that go with them.\<close>

definition all_section_annotations :: "string \<Rightarrow> (string, string) gomap \<Rightarrow> (string, string) gomap \<Rightarrow>
    (string, string) gomap \<times> (string, string) gomap" where
  "all_section_annotations now current configHashes =
     fold (section_annotations now current) configHashes
       ([(cephConfigMapUpdateTimestampLabel, pickTimestamp now (str_of current cephConfigMapUpdateTimestampLabel))], [])"

text \<open>The update of a ConfigMap that exists.\<close>

definition update_config_map :: "deployEnv \<Rightarrow> string \<Rightarrow> KubeConfigMap \<Rightarrow> KubeConfigMap \<Rightarrow> (string, string) gomap \<Rightarrow> bool \<Rightarrow> updateTimestamps \<Rightarrow>
    ((string + bool) \<times> updateTimestamps) io" where
  "update_config_map D now currentRookCm newRookCm configHashes stateChanged ts0 =
     (let current = kcm_Annotations currentRookCm;
          (sectionAnnotations, actualTimestamps) = all_section_annotations now current configHashes;
          ts = keep_runtime_timestamps current ts0;
          newAnnotations = runtime_annotations ts sectionAnnotations;
          configMapUpdated = (\<not> map_eq (kcm_Data currentRookCm) (kcm_Data newRookCm));
          annotationsUpdated = (\<not> map_eq current newAnnotations);
          (labels, labelsUpdated) = AlignBaseLabels (kcm_Labels currentRookCm) (kcm_Labels newRookCm);
          newAnnotations = (if configMapUpdated then AList.update cephConfigMapUpdateTimestampLabel now newAnnotations else newAnnotations);
          updated = currentRookCm\<lparr>kcm_Labels := labels,
            kcm_Data := if configMapUpdated then kcm_Data newRookCm else kcm_Data currentRookCm,
            kcm_Annotations := if annotationsUpdated then newAnnotations else current\<rparr>
      in if configMapUpdated \<or> annotationsUpdated \<or> labelsUpdated then do {
           err \<leftarrow> manage (UpdateConfigMap updated) (\<lambda>h. de_UpdateConfigMap D h updated);
           State_Monad.return (case err of
             Some e \<Rightarrow> (Inl (err_msg e), ts)
           | None \<Rightarrow> (Inr True, ts\<lparr>ut_cephConfigMap := actualTimestamps\<rparr>))
         }
         else State_Monad.return (Inr stateChanged, ts\<lparr>ut_cephConfigMap := actualTimestamps\<rparr>))"

definition ensureCephConfig :: "rangeOrder \<Rightarrow> deployEnv \<Rightarrow> cephDeploymentConfig \<Rightarrow> bool \<Rightarrow> updateTimestamps \<Rightarrow>
    ((string + bool) \<times> updateTimestamps) io" where
  "ensureCephConfig R D c cephClusterPresent ts = do {
     r \<leftarrow> buildCephConfig R D c;
     case r of
       Inl err \<Rightarrow> State_Monad.return (Inl (wrap err ''failed to prepare ceph config map''), ts)
     | Inr (cephOverrideConfig, runtimeConfig, configHashes) \<Rightarrow> do {
         now \<leftarrow> GetCurrentTimeString (de_env D);
         let newRookCm = new_config_map c now cephOverrideConfig runtimeConfig configHashes;
         found \<leftarrow> manage (GetConfigMap (rook_ns c) rookConfigOverrideName) (\<lambda>h. de_GetConfigMap D h (rook_ns c) rookConfigOverrideName);
         case found of
           Inl err \<Rightarrow>
             if is_not_found err then do {
               createErr \<leftarrow> manage (CreateConfigMap newRookCm) (\<lambda>h. de_CreateConfigMap D h newRookCm);
               State_Monad.return (case createErr of
                 None \<Rightarrow> (Inr True, ts\<lparr>ut_cephConfigMap := fold (\<lambda>(section, _). AList.update section now) configHashes (ut_cephConfigMap ts)\<rparr>)
               | Some e \<Rightarrow> (Inl (err_msg e), ts))
             }
             else State_Monad.return (Inl (err_msg err), ts)
         | Inr currentRookCm \<Rightarrow> do {
             (res, ts) \<leftarrow> (if cephClusterPresent then
               (let newRuntime = str_of (kcm_Data newRookCm) ''runtime''; curRuntime = str_of (kcm_Data currentRookCm) ''runtime''
                in updateRuntimeParameters R D c
                     (if newRuntime \<noteq> curRuntime then with_removed curRuntime runtimeConfig else runtimeConfig) ts)
               else State_Monad.return (Inr False, ts));
             case res of
               Inl err \<Rightarrow> State_Monad.return (Inl err, ts)
             | Inr stateChanged \<Rightarrow> update_config_map D now currentRookCm newRookCm configHashes stateChanged ts
           }
       }
   }"

end
