(* ===== verification/Deploy_CephConfig_Theorems.thy ===== *)
theory Deploy_CephConfig_Theorems
  imports Deploy_CephConfig Deploy_Scenario "HOL-Library.Multiset"
begin

text \<open>
  What the Ceph configuration promises: options that may not be overridden keep their value and the thread
  pools of the gateways stay bounded, and Ceph reads from the ConfigMap what was meant.
\<close>

section \<open>Values in a configuration\<close>

definition file_value :: "fileConfig \<Rightarrow> string \<Rightarrow> string \<Rightarrow> string option" where
  "file_value file section key = (case map_of file section of None \<Rightarrow> None | Some opts \<Rightarrow> map_of opts key)"

lemma file_value_put [simp]:
  "file_value (put_option s k v file) s' k' = (if s' = s \<and> k' = k then Some v else file_value file s' k')"
  by (auto simp: file_value_def put_option_def split: option.split)

lemma file_value_Nil [simp]: "file_value [] s k = None"
  by (simp add: file_value_def)

text \<open>The default options are kept under their full key.\<close>

definition own_key :: "configOption \<Rightarrow> string" where
  "own_key opt = getFullKeyWithSection (co_section opt) (co_key opt)"

definition base_ok :: "baseConfig \<Rightarrow> bool" where
  "base_ok base \<longleftrightarrow> wf_map base \<and> (\<forall>e \<in> set base. fst e = own_key (snd e))"

lemma base_ok_Nil [simp]: "base_ok []"
  by (simp add: base_ok_def)

lemma base_ok_update:
  assumes "base_ok base"
  shows "base_ok (AList.update (own_key opt) opt base)"
proof -
  have "e \<in> set base" if "e \<in> set (AList.update k v base)" and "e \<noteq> (k, v)" for e k and v :: configOption
    using that by (induction base) (auto split: if_splits)
  with assms show ?thesis by (auto simp: base_ok_def) force
qed

lemma base_ok_merge: "base_ok base \<Longrightarrow> base_ok (mergeConfig options base)"
  unfolding mergeConfig_def by (induction options arbitrary: base) (simp_all add: base_ok_update flip: own_key_def)

lemma mergeConfig_values:
  "(k, opt) \<in> set (mergeConfig options base) \<Longrightarrow> opt \<in> set options \<or> opt \<in> snd ` set base"
proof (induction options arbitrary: base)
  case (Cons o' options)
  have "o'' = v \<or> (k', o'') \<in> set base" if "(k', o'') \<in> set (AList.update k v base)" for k k' o'' and v :: configOption
    using that by (induction base) (auto split: if_splits)
  with Cons show ?case unfolding mergeConfig_def by force
qed (simp add: mergeConfig_def image_iff, force)

lemma base_same_pair:
  assumes "base_ok base" and "(k, opt) \<in> set base" and "(k', opt') \<in> set base"
    and "co_section opt = co_section opt'" and "co_key opt = co_key opt'"
  shows "opt' = opt"
proof -
  have "k = own_key opt" and "k' = own_key opt'" using assms(1-3) unfolding base_ok_def by (metis fst_conv snd_conv)+
  with assms(4,5) have "k = k'" by (simp add: own_key_def)
  with assms(1-3) show ?thesis unfolding base_ok_def by (metis eq_key_imp_eq_value)
qed

section \<open>Defaults and overrides\<close>

lemma default_option_other:
  "(co_section opt, co_key opt) \<noteq> (s, k) \<Longrightarrow> file_value (fst (default_option c (p, opt) t)) s k = file_value (fst t) s k"
  by (auto simp: default_option_def split_def Let_def)

lemma default_option_static:
  "co_static opt \<Longrightarrow> \<not> unavailable c opt \<Longrightarrow>
   file_value (fst (default_option c (p, opt) t)) (co_section opt) (co_key opt) = Some (co_value opt)"
  by (simp add: default_option_def split_def Let_def)

lemma defaults_static:
  assumes "base_ok base" and "(p, opt) \<in> set base" and "co_static opt" and "\<not> unavailable c opt"
  shows "file_value (fst (fold (default_option c) base t)) (co_section opt) (co_key opt) = Some (co_value opt)"
proof -
  have pairs: "opt' = opt" if "(p', opt') \<in> set base" "(co_section opt', co_key opt') = (co_section opt, co_key opt)" for p' opt'
    using base_same_pair [OF assms(1,2) that(1)] that(2) by simp
  have "file_value (fst (fold (default_option c) es t)) (co_section opt) (co_key opt) = Some (co_value opt)"
    if "set es \<subseteq> set base" and "(p, opt) \<in> set es \<or> file_value (fst t) (co_section opt) (co_key opt) = Some (co_value opt)" for es t
    using that
  proof (induction es arbitrary: t)
    case (Cons e es)
    obtain p' opt' where e: "e = (p', opt')" by (cases e)
    have "file_value (fst (default_option c e t)) (co_section opt) (co_key opt) = Some (co_value opt) \<or> (p, opt) \<in> set es"
    proof (cases "(co_section opt', co_key opt') = (co_section opt, co_key opt)")
      case True
      with pairs [of p' opt'] Cons.prems(1) e have "opt' = opt" by simp
      with assms(3,4) e show ?thesis by (simp add: default_option_static)
    next
      case False
      with Cons.prems(2) e show ?thesis by (auto simp: default_option_other)
    qed
    with Cons.IH [of "default_option c e t"] Cons.prems(1) show ?case by auto
  qed simp
  with assms(2) show ?thesis by blast
qed

lemma override_option_static:
  assumes "base_ok base" and "(p, opt) \<in> set base" and "co_static opt"
  shows "file_value (fst (override_option scan base e t)) (co_section opt) (co_key opt) = file_value (fst t) (co_section opt) (co_key opt)"
proof -
  have "map_of base (getFullKeyWithSection (co_section opt) (co_key opt)) = Some opt"
    using assms(1,2) unfolding base_ok_def by (metis fst_conv map_of_is_SomeI own_key_def snd_conv)
  with assms(3) show ?thesis by (auto simp: override_option_def split_def Let_def)
qed

lemma target_static:
  assumes "base_ok base" and "(p, opt) \<in> set base" and "co_static opt" and "\<not> unavailable c opt"
  shows "file_value (fst (getTargetConfigAndRuntime scan c rook base)) (co_section opt) (co_key opt) = Some (co_value opt)"
proof -
  have "file_value (fst (fold (override_option scan base) rook t)) (co_section opt) (co_key opt) = file_value (fst t) (co_section opt) (co_key opt)"
    for t by (induction rook arbitrary: t) (simp_all add: override_option_static [OF assms(1-3)])
  with defaults_static [OF assms] show ?thesis by (simp add: getTargetConfigAndRuntime_def)
qed

text \<open>The thread pool of a gateway.\<close>

definition thread_pool_ok :: "string \<Rightarrow> string \<Rightarrow> bool" where
  "thread_pool_ok key value \<longleftrightarrow> key = ''rgw_thread_pool_size'' \<longrightarrow> (\<exists>n \<le> 256. Atoi value = Inr n)"

lemma override_value_ok: "thread_pool_ok key (override_value key value)"
proof -
  have "Atoi ''256'' = Inr 256" by code_simp
  then show ?thesis
    by (auto simp: thread_pool_ok_def override_value_def exceptionParams_def split: sum.split)
qed

definition pools_bounded :: "baseConfig \<Rightarrow> bool" where
  "pools_bounded base \<longleftrightarrow> (\<forall>e \<in> set base. thread_pool_ok (co_key (snd e)) (co_value (snd e)))"

definition file_ok :: "(string \<Rightarrow> string \<Rightarrow> bool) \<Rightarrow> fileConfig \<Rightarrow> bool" where
  "file_ok P file \<longleftrightarrow> (\<forall>s k v. file_value file s k = Some v \<longrightarrow> P k v)"

lemma file_ok_put: "file_ok P file \<Longrightarrow> P k v \<Longrightarrow> file_ok P (put_option s k v file)"
  by (simp add: file_ok_def)

lemma target_thread_pool:
  assumes "pools_bounded base"
  shows "file_ok thread_pool_ok (fst (getTargetConfigAndRuntime scan c rook base))"
proof -
  have defaults: "file_ok thread_pool_ok (fst (fold (default_option c) es t))"
    if "set es \<subseteq> set base" "file_ok thread_pool_ok (fst t)" for es t
    using that
  proof (induction es arbitrary: t)
    case (Cons e es)
    then have "file_ok thread_pool_ok (fst (default_option c e t))"
      using assms by (auto simp: pools_bounded_def default_option_def split_def Let_def intro!: file_ok_put)
    with Cons show ?case by simp
  qed simp
  have overrides: "file_ok thread_pool_ok (fst (fold (override_option scan base) rook t))" if "file_ok thread_pool_ok (fst t)" for t
    using that
  proof (induction rook arbitrary: t)
    case (Cons e rook)
    then have "file_ok thread_pool_ok (fst (override_option scan base e t))"
      by (auto simp: override_option_def split_def Let_def intro!: file_ok_put override_value_ok)
    with Cons show ?case by simp
  qed simp
  show ?thesis unfolding getTargetConfigAndRuntime_def
    by (intro overrides defaults) (simp_all add: file_ok_def)
qed

section \<open>Building the configuration\<close>

text \<open>Options of a gateway never touch the other sections.\<close>

definition gateway_option :: "configOption \<Rightarrow> bool" where
  "gateway_option opt \<longleftrightarrow> HasPrefix (co_section opt) ''client.rgw.'' \<and> thread_pool_ok (co_key opt) (co_value opt)"

lemma gateway_options:
  "list_all gateway_option (defaultRgwConfigOptions (rgwConfigSectionName n))"
  "list_all gateway_option (getDefaultRgwKeystoneConfig (rgwConfigSectionName n) secret)"
  "list_all gateway_option (getDefaultRgwBarbicanConfig (rgwConfigSectionName n) secret)"
  "list_all gateway_option (getDefaultRgwOpenStackConfig (rgwConfigSectionName n))"
  "gateway_option (option_in (rgwConfigSectionName n) ''rgw_dns_name'' v)"
proof -
  have pool: "\<exists>n \<le> 256. Atoi ''256'' = Inr n" by (rule exI [of _ 256]) code_simp
  have "HasPrefix (rgwConfigSectionName n) ''client.rgw.''"
    unfolding rgwConfigSectionName_def by (rule HasPrefix_append)
  with pool show "list_all gateway_option (defaultRgwConfigOptions (rgwConfigSectionName n))"
    "list_all gateway_option (getDefaultRgwKeystoneConfig (rgwConfigSectionName n) secret)"
    "list_all gateway_option (getDefaultRgwBarbicanConfig (rgwConfigSectionName n) secret)"
    "list_all gateway_option (getDefaultRgwOpenStackConfig (rgwConfigSectionName n))"
    "gateway_option (option_in (rgwConfigSectionName n) ''rgw_dns_name'' v)"
    by (simp_all add: gateway_option_def thread_pool_ok_def option_in_def defaultRgwConfigOptions_def getDefaultRgwKeystoneConfig_def
        getDefaultRgwBarbicanConfig_def getDefaultRgwOpenStackConfig_def exceptionParams_def get_or_def)
qed

text \<open>What holds of the default options while they are collected.\<close>

definition collected :: "configOption list \<Rightarrow> baseConfig \<Rightarrow> bool" where
  "collected fixed base \<longleftrightarrow> base_ok base \<and> pools_bounded base \<and>
     (\<forall>opt \<in> set fixed. map_of base (own_key opt) = Some opt)"

lemma mergeConfig_other:
  "own_key opt \<notin> own_key ` set options \<Longrightarrow> map_of (mergeConfig options base) (own_key opt) = map_of base (own_key opt)"
  unfolding mergeConfig_def by (induction options arbitrary: base) (auto simp flip: own_key_def)

lemma mergeConfig_thread_pool:
  assumes "pools_bounded base" and "list_all (\<lambda>opt. thread_pool_ok (co_key opt) (co_value opt)) options"
  shows "pools_bounded (mergeConfig options base)"
  unfolding pools_bounded_def
proof
  fix e assume "e \<in> set (mergeConfig options base)"
  then have "snd e \<in> set options \<or> snd e \<in> snd ` set base"
    using mergeConfig_values [of "fst e" "snd e"] by simp
  with assms show "thread_pool_ok (co_key (snd e)) (co_value (snd e))" by (auto simp: pools_bounded_def list_all_iff)
qed

lemma pools_bounded_Nil [simp]: "pools_bounded []"
  by (simp add: pools_bounded_def)

lemma collected_merge:
  assumes "collected fixed base" and "list_all gateway_option options" and "\<forall>opt \<in> set fixed. co_section opt = ''global''"
  shows "collected fixed (mergeConfig options base)"
proof -
  have "own_key opt \<noteq> own_key o'" if "opt \<in> set fixed" and "o' \<in> set options" for opt o'
    using that assms(2,3) by (auto simp: list_all_iff gateway_option_def own_key_def getFullKeyWithSection_def HasPrefix_iff)
  then have "map_of (mergeConfig options base) (own_key opt) = map_of base (own_key opt)" if "opt \<in> set fixed" for opt
    using that by (intro mergeConfig_other) blast
  with assms(1) have "\<forall>opt \<in> set fixed. map_of (mergeConfig options base) (own_key opt) = Some opt" by (simp add: collected_def)
  moreover have "list_all (\<lambda>opt. thread_pool_ok (co_key opt) (co_value opt)) options"
    using assms(2) by (simp add: list_all_iff gateway_option_def)
  ultimately show ?thesis
    using assms(1) by (simp add: collected_def base_ok_merge mergeConfig_thread_pool)
qed

lemma collected_openstack:
  assumes "collected fixed base" and "\<forall>opt \<in> set fixed. co_section opt = ''global''"
  shows "collected fixed (openstack_options (rgwConfigSectionName n) secret base)"
  using assms by (simp add: openstack_options_def Let_def collected_merge gateway_options)

lemma rgw_names_collected:
  assumes "collected fixed base" and "\<forall>opt \<in> set fixed. co_section opt = ''global''"
  shows "returns (\<lambda>r. \<forall>names b. r = Inr (names, b) \<longrightarrow> collected fixed b) (rgw_names D c rgwStore base)"
  unfolding rgw_names_def Let_def
  by (intro returns_intro) (auto simp: assms collected_openstack [OF assms] split: sum.split)

lemma rgw_options_collected:
  assumes "collected fixed base" and "\<forall>opt \<in> set fixed. co_section opt = ''global''"
  shows "returns (\<lambda>r. \<forall>b. r = Inr b \<longrightarrow> collected fixed b) (rgw_options D c rgwStore base)"
  unfolding rgw_options_def Let_def
  by (rule returns_bind_strong [OF rgw_names_collected [OF collected_merge [OF assms(1) gateway_options(1) assms(2)] assms(2)]])
    (auto intro!: returns_return collected_merge [OF _ _ assms(2)] simp: gateway_options split: sum.split)

lemma rgws_options_collected:
  assumes "\<forall>opt \<in> set fixed. co_section opt = ''global''"
  shows "collected fixed base \<Longrightarrow> returns (\<lambda>r. \<forall>b. r = Inr b \<longrightarrow> collected fixed b) (rgws_options D c rgws base)"
proof (induction rgws arbitrary: base)
  case (Cons rgw rgws)
  show ?case unfolding rgws_options.simps
    by (rule returns_bind_strong [OF rgw_options_collected [OF Cons.prems assms]]) (auto intro!: returns_intro Cons.IH)
qed (simp add: returns_return)

lemma general_collected: "collected [] (mergeConfig generalConfigOptions [])"
proof -
  have "list_all (\<lambda>opt. thread_pool_ok (co_key opt) (co_value opt)) generalConfigOptions"
    by (simp add: generalConfigOptions_def option_in_def thread_pool_ok_def)
  then show ?thesis by (simp add: collected_def base_ok_merge mergeConfig_thread_pool)
qed

lemma network_collected: "collected (network_options D ranges) (mergeConfig generalConfigOptions (mergeConfig (network_options D ranges) []))"
proof -
  have keys: "own_key opt \<notin> own_key ` set generalConfigOptions" if "opt \<in> set (network_options D ranges)" for opt
    using that by (auto simp: network_options_def generalConfigOptions_def option_in_def own_key_def getFullKeyWithSection_def)
  have "map_of (mergeConfig (network_options D ranges) []) (own_key opt) = Some opt" if "opt \<in> set (network_options D ranges)" for opt
    using that by (auto simp: mergeConfig_def network_options_def option_in_def own_key_def getFullKeyWithSection_def)
  with keys have "\<forall>opt \<in> set (network_options D ranges).
      map_of (mergeConfig generalConfigOptions (mergeConfig (network_options D ranges) [])) (own_key opt) = Some opt"
    by (simp add: mergeConfig_other)
  moreover have "list_all (\<lambda>opt. thread_pool_ok (co_key opt) (co_value opt)) generalConfigOptions"
    "list_all (\<lambda>opt. thread_pool_ok (co_key opt) (co_value opt)) (network_options D ranges)"
    by (simp_all add: generalConfigOptions_def network_options_def option_in_def thread_pool_ok_def)
  ultimately show ?thesis by (simp add: collected_def base_ok_merge mergeConfig_thread_pool)
qed

text \<open>A range visits every entry once.\<close>

definition fair_order :: "rangeOrder \<Rightarrow> bool" where
  "fair_order R \<longleftrightarrow> (\<forall>base. distinct (keys base) \<longrightarrow> distinct (keys (ro_base R base)) \<and> set (ro_base R base) = set base) \<and>
     (\<forall>params. distinct (keys params) \<longrightarrow> distinct (keys (ro_runtime R params)) \<and> set (ro_runtime R params) = set params)"

lemma collected_reordered:
  assumes "collected fixed base" and "fair_order R"
  shows "collected fixed (ro_base R base)"
proof -
  have "wf_map base" "wf_map (ro_base R base)" "set (ro_base R base) = set base"
    using assms by (auto simp: collected_def base_ok_def fair_order_def)
  moreover from this have "map_of (ro_base R base) = map_of base" by (simp add: map_of_inject_set)
  ultimately show ?thesis using assms(1) by (simp add: collected_def base_ok_def pools_bounded_def)
qed

text \<open>C16. Whatever the specification overrides and in whatever order Go visits its maps, the configuration that is
  written has the networks of the cluster and no gateway gets a thread pool larger than 256.\<close>

theorem ceph_config_limits:
  assumes "fair_order R" and "run_state (buildCephConfig R D c) h = (Inr (text, runtime, hashes), h')"
  shows "\<exists>file. getCephOverrideConfigStringAndHashes (de_Sha256 D) file = (text, hashes) \<and>
    (\<forall>s v. file_value file s ''rgw_thread_pool_size'' = Some v \<longrightarrow> (\<exists>n \<le> 256. Atoi v = Inr n)) \<and>
    (let network = cs_Network (dcf_clusterSpec (dpc_cdConfig c))
     in nw_Provider network \<in> {[], ''host''} \<longrightarrow> (\<exists>ranges. nw_AddressRanges network = Some ranges \<and>
          file_value file ''global'' ''cluster_network'' = Some (de_CIDRString D (ar_Cluster ranges)) \<and>
          file_value file ''global'' ''public_network'' = Some (de_CIDRString D (ar_Public ranges))))"
proof -
  let ?network = "cs_Network (dcf_clusterSpec (dpc_cdConfig c))"
  let ?host = "nw_Provider ?network = [] \<or> nw_Provider ?network = ''host''"
  define fixed where "fixed = (if ?host then network_options D (the (nw_AddressRanges ?network)) else [])"
  define start where "start = mergeConfig generalConfigOptions (if ?host then mergeConfig (network_options D (the (nw_AddressRanges ?network))) [] else [])"
  define rgws where "rgws = (case sps_ObjectStorage (dpl_spec c) of None \<Rightarrow> [] | Some storage \<Rightarrow> ost_Rgws storage)"
  have ranges: "\<not> (?host \<and> nw_AddressRanges ?network = None)"
    using assms(2) by (auto simp: buildCephConfig_def)
  then obtain base where base: "fst (run_state (rgws_options D c rgws start) h) = Inr base"
    and target: "(case getTargetConfigAndRuntime (ro_scan R base) c (sps_RookConfig (dpl_spec c)) (ro_base R base) of (file, params) \<Rightarrow>
        getCephOverrideConfigStringAndHashes (de_Sha256 D) file = (text, hashes))"
    using assms(2) by (auto simp: buildCephConfig_def Let_def start_def rgws_def split_def split: sum.splits prod.splits)
  have global: "\<forall>opt \<in> set fixed. co_section opt = ''global''"
    by (auto simp: fixed_def network_options_def option_in_def split: if_splits)
  have "collected fixed start"
    using network_collected general_collected by (simp add: fixed_def start_def)
  from rgws_options_collected [OF global this] base have "collected fixed base" unfolding returns_def by metis
  then have coll: "collected fixed (ro_base R base)" using assms(1) by (rule collected_reordered)
  define conf where "conf = fst (getTargetConfigAndRuntime (ro_scan R base) c (sps_RookConfig (dpl_spec c)) (ro_base R base))"
  have "file_ok thread_pool_ok conf"
    unfolding conf_def using coll by (intro target_thread_pool) (simp add: collected_def)
  then have pool: "\<forall>s v. file_value conf s ''rgw_thread_pool_size'' = Some v \<longrightarrow> (\<exists>n \<le> 256. Atoi v = Inr n)"
    by (simp add: file_ok_def thread_pool_ok_def)
  have kept: "file_value conf (co_section opt) (co_key opt) = Some (co_value opt)" if "opt \<in> set fixed" for opt
  proof -
    have "(own_key opt, opt) \<in> set (ro_base R base)" using coll that by (simp add: collected_def map_of_SomeD)
    moreover have "co_static opt" "\<not> unavailable c opt"
      using that by (auto simp: fixed_def network_options_def option_in_def unavailable_def split: if_splits)
    ultimately show ?thesis unfolding conf_def using coll by (intro target_static) (simp_all add: collected_def)
  qed
  have "list_all (\<lambda>opt. file_value conf (co_section opt) (co_key opt) = Some (co_value opt)) fixed"
    using kept by (simp add: list_all_iff)
  then have "file_value conf ''global'' ''cluster_network'' = Some (de_CIDRString D (ar_Cluster (the (nw_AddressRanges ?network)))) \<and>
      file_value conf ''global'' ''public_network'' = Some (de_CIDRString D (ar_Public (the (nw_AddressRanges ?network))))" if ?host
    using that by (simp add: fixed_def network_options_def option_in_def)
  moreover have "getCephOverrideConfigStringAndHashes (de_Sha256 D) conf = (text, hashes)"
    using target by (simp add: conf_def split_def)
  ultimately show ?thesis using ranges pool by (intro exI [of _ conf]) (auto simp: Let_def)
qed

definition go_order :: rangeOrder where
  "go_order = \<lparr>ro_base = rev, ro_scan = \<lambda>base _. map snd base, ro_runtime = rev\<rparr>"

lemma go_order_fair: "fair_order go_order"
  by (simp add: fair_order_def go_order_def rev_map [symmetric])

theorem ceph_config_limits_witness:
  "\<exists>file text hashes runtime. fst (run_state (buildCephConfig go_order dv_env dv_config) []) = Inr (text, runtime, hashes) \<and>
     getCephOverrideConfigStringAndHashes (de_Sha256 dv_env) file = (text, hashes) \<and>
     file_value file ''global'' ''public_network'' = Some ''10.0.0.0/24''"
proof -
  have host: "cs_Network (dcf_clusterSpec (dpc_cdConfig dv_config)) = \<lparr>nw_Provider = ''host'',
      nw_AddressRanges = Some \<lparr>ar_Public = [''10.0.0.0/24''], ar_Cluster = [''10.0.1.0/24'']\<rparr>, nw_Selectors = [], nw_HostNetwork = False\<rparr>"
    by (simp add: dv_config_def dv_cluster_spec_def Let_def)
  have "\<exists>text runtime hashes. run_state (buildCephConfig go_order dv_env dv_config) [] = (Inr (text, runtime, hashes), [])"
    by (simp add: buildCephConfig_def dv_cluster_spec_def dv_config_def new_config_def dv_dpl_def dv_spec_def split_def Let_def)
  then obtain t params hs where "run_state (buildCephConfig go_order dv_env dv_config) [] = (Inr (t, params, hs), [])" by blast
  with ceph_config_limits [OF go_order_fair this] show ?thesis by (auto simp: host dv_env_def)
qed

text \<open>
  The text of the ConfigMap against a reader of the format that Ceph uses: a line in brackets opens a
  section, any other line that is not empty is a key, an equals sign and a value.
\<close>

section \<open>The reader\<close>

fun read_lines :: "string \<Rightarrow> string list \<Rightarrow> (string \<times> string \<times> string) list" where
  "read_lines section [] = []"
| "read_lines section (line # ls) =
     (if line = [] then read_lines section ls
      else if hd line = CHR ''['' then read_lines (butlast (tl line)) ls
      else (section, takeWhile (\<lambda>ch. ch \<noteq> CHR '' '') line, drop 3 (dropWhile (\<lambda>ch. ch \<noteq> CHR '' '') line)) # read_lines section ls)"

definition read_config :: "string \<Rightarrow> (string \<times> string \<times> string) list" where
  "read_config t = read_lines [] (split_on (CHR 10) t)"

text \<open>Names and values fit on a line.\<close>

definition one_line :: "string \<Rightarrow> bool" where
  "one_line s \<longleftrightarrow> CHR 10 \<notin> set s"

definition key_ok :: "string \<Rightarrow> bool" where
  "key_ok k \<longleftrightarrow> k \<noteq> [] \<and> hd k \<noteq> CHR ''['' \<and> CHR '' '' \<notin> set k \<and> one_line k"

definition opts_ok :: "(string, string) gomap \<Rightarrow> bool" where
  "opts_ok opts \<longleftrightarrow> wf_map opts \<and> list_all (\<lambda>(k, v). key_ok k \<and> one_line v) opts"

definition config_ok :: "fileConfig \<Rightarrow> bool" where
  "config_ok m \<longleftrightarrow> wf_map m \<and> list_all (\<lambda>(s, opts). one_line s \<and> opts_ok opts) m"

section \<open>Order of keys\<close>

lemma mset_reorderKeys [simp]: "mset (reorderKeys ks ps) = mset ks"
  by (induction ps arbitrary: ks) auto

lemma set_reorderKeys [simp]: "set (reorderKeys ks ps) = set ks"
  using mset_reorderKeys [of ks ps] by (metis set_mset_mset)

lemma distinct_reorderKeys [simp]: "distinct (reorderKeys ks ps) = distinct ks"
  using mset_reorderKeys [of ks ps] by (metis mset_eq_imp_distinct_iff)

declare reorderKeys.simps [simp del]

lemma set_section_keys [simp]: "set (section_keys s opts) = set (keys opts)"
  by (simp add: section_keys_def SortedMapKeys_def)

lemma distinct_section_keys [simp]: "distinct (section_keys s opts) = wf_map opts"
  by (simp add: section_keys_def SortedMapKeys_def)

lemma set_ordered_sections [simp]: "set (ordered_sections m) = set (keys m)"
  by (simp add: ordered_sections_def)

lemma distinct_ordered_sections [simp]: "distinct (ordered_sections m) = wf_map m"
  by (simp add: ordered_sections_def)

section \<open>Lines\<close>

definition option_line :: "(string, string) gomap \<Rightarrow> string \<Rightarrow> string" where
  "option_line opts k = k @ '' = '' @ str_of opts k"

definition section_lines :: "fileConfig \<Rightarrow> string \<Rightarrow> string list" where
  "section_lines m s = (if s = ''global'' then [] else [[]]) @ [''['' @ s @ '']''] @
     map (option_line (get_or [] m s)) (section_keys s (get_or [] m s))"

abbreviation ended :: "string list \<Rightarrow> string" where
  "ended ls \<equiv> concat (map (\<lambda>l. l @ [CHR 10]) ls)"

lemma section_text_lines: "section_text m s = ended (section_lines m s)"
  by (simp add: section_text_def section_lines_def option_line_def config_line_def [abs_def] Let_def o_def)

lemma sections_text_lines: "concat (map (section_text m) ss) = ended (concat (map (section_lines m) ss))"
  by (induction ss) (simp_all add: section_text_lines)

lemma split_ended: "list_all one_line ls \<Longrightarrow> split_on (CHR 10) (ended ls) = ls @ [[]]"
  by (induction ls) (simp_all add: one_line_def split_on_append)

lemma read_lines_append:
  "read_lines s (map (option_line opts) ks @ ls) = map (\<lambda>k. (s, k, str_of opts k)) ks @ read_lines s ls" if "list_all key_ok ks"
  using that
proof (induction ks)
  case (Cons k ks)
  then have "takeWhile (\<lambda>ch. ch \<noteq> CHR '' '') (option_line opts k) = k"
    "drop 3 (dropWhile (\<lambda>ch. ch \<noteq> CHR '' '') (option_line opts k)) = str_of opts k"
    by (auto simp: option_line_def key_ok_def takeWhile_append takeWhile_eq_all_conv dropWhile_append dropWhile_eq_Nil_conv)
  moreover have "option_line opts k \<noteq> []" "hd (option_line opts k) \<noteq> CHR ''[''"
    using Cons.prems by (auto simp: option_line_def key_ok_def)
  ultimately show ?case using Cons by simp
qed simp

definition section_entries :: "fileConfig \<Rightarrow> string \<Rightarrow> (string \<times> string \<times> string) list" where
  "section_entries m s = map (\<lambda>k. (s, k, str_of (get_or [] m s) k)) (section_keys s (get_or [] m s))"

lemma config_ok_section:
  assumes "config_ok m" and "s \<in> set (keys m)"
  shows "one_line s" and "opts_ok (get_or [] m s)"
proof -
  obtain opts where "(s, opts) \<in> set m" using assms(2) by auto
  with assms(1) have "map_of m s = Some opts" and "one_line s \<and> opts_ok opts"
    by (auto simp: config_ok_def list_all_iff)
  then show "one_line s" and "opts_ok (get_or [] m s)" by (simp_all add: get_or_def)
qed

lemma opts_ok_keys: "opts_ok opts \<Longrightarrow> list_all key_ok (section_keys s opts)"
  by (auto simp: opts_ok_def list_all_iff)

lemma read_blank: "read_lines s0 ((if b then [] else [[]]) @ ls) = read_lines s0 ls"
  by simp

lemma read_section:
  assumes "opts_ok (get_or [] m s)"
  shows "read_lines s0 (section_lines m s @ ls) = section_entries m s @ read_lines s ls"
  unfolding section_lines_def section_entries_def append_assoc read_blank
  using read_lines_append [OF opts_ok_keys [OF assms]] by simp

lemma read_sections:
  assumes "config_ok m" and "set ss \<subseteq> set (keys m)"
  shows "read_lines s0 (concat (map (section_lines m) ss) @ [[]]) = concat (map (section_entries m) ss)"
  using assms(2)
proof (induction ss arbitrary: s0)
  case (Cons s ss)
  then have "opts_ok (get_or [] m s)" using config_ok_section(2) [OF assms(1)] by simp
  from read_section [OF this] Cons show ?case by simp
qed simp

lemma section_lines_one_line:
  assumes "config_ok m" and "s \<in> set (keys m)"
  shows "list_all one_line (section_lines m s)"
proof -
  let ?opts = "get_or [] m s"
  have "one_line (str_of ?opts k) \<and> one_line k" if "k \<in> set (keys ?opts)" for k
  proof -
    obtain v where "(k, v) \<in> set ?opts" using \<open>k \<in> set (keys ?opts)\<close> by auto
    with config_ok_section(2) [OF assms] have "map_of ?opts k = Some v" "one_line v" "one_line k"
      by (auto simp: opts_ok_def list_all_iff key_ok_def)
    then show ?thesis by (simp add: get_or_def)
  qed
  with config_ok_section(1) [OF assms] show ?thesis
    by (auto simp: section_lines_def list_all_iff option_line_def one_line_def)
qed

lemma read_override_text:
  assumes "config_ok m"
  shows "read_config (fst (getCephOverrideConfigStringAndHashes sha256 m)) = concat (map (section_entries m) (ordered_sections m))"
proof -
  have "list_all one_line (concat (map (section_lines m) (ordered_sections m)))"
    using section_lines_one_line [OF assms] by (auto simp: list_all_iff)
  from split_ended [OF this] show ?thesis
    by (simp only: read_config_def getCephOverrideConfigStringAndHashes_def fst_conv sections_text_lines
        read_sections [OF assms] set_ordered_sections order_refl)
qed

lemma section_entries_iff:
  assumes "config_ok m"
  shows "(s, k, v) \<in> set (concat (map (section_entries m) (ordered_sections m))) \<longleftrightarrow> file_value m s k = Some v"
proof -
  have "s \<in> set (keys m) \<and> k \<in> set (keys (get_or [] m s)) \<and> v = str_of (get_or [] m s) k \<longleftrightarrow> file_value m s k = Some v"
    by (auto simp: file_value_def get_or_def image_iff split: option.splits dest: map_of_SomeD)
       (force dest: map_of_SomeD simp: map_of_eq_None_iff)+
  then show ?thesis by (auto simp: section_entries_def)
qed



end
