(* ===== verification/Deploy_CephConfig_Update.thy ===== *)
theory Deploy_CephConfig_Update
  imports Deploy_CephConfig_Theorems
begin

text \<open>
  Passwords, runtime parameters and restarts: what of the Ceph configuration is written where, and when the
  timestamps that make daemons restart change.
\<close>

section \<open>Passwords\<close>

text \<open>Options that differ in the value of a password only.\<close>

definition alike :: "configOption \<Rightarrow> configOption \<Rightarrow> bool" where
  "alike opt opt' \<longleftrightarrow> opt' = opt \<or>
     (co_key opt \<in> set passwordKeys \<and> \<not> co_static opt \<and> \<not> co_confFile opt \<and> CHR ''|'' \<notin> set (co_section opt) \<and>
      opt' = opt\<lparr>co_value := co_value opt'\<rparr>)"

definition bases_alike :: "baseConfig \<Rightarrow> baseConfig \<Rightarrow> bool" where
  "bases_alike = list_all2 (\<lambda>e e'. fst e = fst e' \<and> fst e = own_key (snd e) \<and> alike (snd e) (snd e'))"

lemma alike_refl [simp]: "alike opt opt"
  by (simp add: alike_def)

lemma alike_same:
  "alike opt opt' \<Longrightarrow> co_section opt' = co_section opt \<and> co_key opt' = co_key opt \<and> co_static opt' = co_static opt \<and>
     co_confFile opt' = co_confFile opt \<and> unavailable c opt' = unavailable c opt \<and> own_key opt' = own_key opt"
  unfolding alike_def unavailable_def own_key_def
  by (metis (no_types, lifting) configOption.select_convs configOption.surjective configOption.update_convs(4))

lemma bases_alike_update:
  "bases_alike b b' \<Longrightarrow> alike opt opt' \<Longrightarrow> bases_alike (AList.update (own_key opt) opt b) (AList.update (own_key opt') opt' b')"
  unfolding bases_alike_def
proof (induction b b' rule: list_all2_induct)
  case Nil
  then show ?case by (simp add: alike_same)
next
  case (Cons e b e' b')
  then show ?case by (cases e; cases e') (auto simp: alike_same)
qed

lemma bases_alike_merge:
  "list_all2 alike os os' \<Longrightarrow> bases_alike b b' \<Longrightarrow> bases_alike (mergeConfig os b) (mergeConfig os' b')"
  unfolding mergeConfig_def
  by (induction os os' arbitrary: b b' rule: list_all2_induct) (simp_all add: bases_alike_update flip: own_key_def)

lemma bases_alike_lookup:
  "bases_alike b b' \<Longrightarrow> rel_option alike (map_of b k) (map_of b' k)"
  unfolding bases_alike_def by (induction b b' rule: list_all2_induct) (auto simp: split_beta)

lemma bases_alike_refl: "base_ok base \<Longrightarrow> bases_alike base base"
  by (auto simp: bases_alike_def base_ok_def intro!: list_all2_refl list.rel_refl_strong)

text \<open>Targets with the same file and runtime parameters that differ in passwords only.\<close>

definition password_param :: "string \<Rightarrow> bool" where
  "password_param k \<longleftrightarrow> Contains passwordKeys (snd (getSectionAndKey k))"

definition targets_alike :: "fileConfig \<times> runtimeConfig \<Rightarrow> fileConfig \<times> runtimeConfig \<Rightarrow> bool" where
  "targets_alike t t' \<longleftrightarrow> fst t' = fst t \<and> keys (snd t') = keys (snd t) \<and>
     (\<forall>k. \<not> password_param k \<longrightarrow> map_of (snd t') k = map_of (snd t) k)"

lemma targets_alike_refl [simp]: "targets_alike t t"
  by (simp add: targets_alike_def)

lemma targets_alike_runtime:
  "targets_alike t t' \<Longrightarrow> v' = v \<or> password_param k \<Longrightarrow> targets_alike (fst t, AList.update k v (snd t)) (fst t', AList.update k v' (snd t'))"
  by (auto simp: targets_alike_def update_keys)

lemma targets_alike_file:
  "targets_alike t t' \<Longrightarrow> targets_alike (put_option s k v (fst t), snd t) (put_option s k v (fst t'), snd t')"
  by (simp add: targets_alike_def)

lemma split_on_alone: "sep \<notin> set s \<Longrightarrow> split_on sep s = [s]"
  by (induction s) auto

lemma own_key_password:
  assumes "co_key opt \<in> set passwordKeys" and "CHR ''|'' \<notin> set (co_section opt)"
  shows "password_param (own_key opt)"
proof -
  have "CHR ''|'' \<notin> set (co_key opt)" using assms(1) by (auto simp: passwordKeys_def)
  then have "split_on CHR ''|'' (co_key opt) = [co_key opt]" by (rule split_on_alone)
  with assms show ?thesis
    by (simp add: password_param_def own_key_def getFullKeyWithSection_def getSectionAndKey_def split_on_append)
qed

lemma default_option_alike:
  assumes "targets_alike t t'" and "alike opt opt'" and "k = own_key opt"
  shows "targets_alike (default_option c (k, opt) t) (default_option c (k, opt') t')"
proof (cases "opt' = opt")
  case True
  with assms(1) show ?thesis
    by (auto simp: default_option_def split_def Let_def intro!: targets_alike_runtime targets_alike_file)
next
  case False
  with assms(2) have key: "co_key opt \<in> set passwordKeys" "\<not> co_static opt" "\<not> co_confFile opt" "CHR ''|'' \<notin> set (co_section opt)"
    by (auto simp: alike_def)
  then have "isParamForRuntime (co_section opt) (co_key opt)" by (auto simp: isParamForRuntime_def runtimeKeys_def)
  with key assms(1,3) own_key_password [OF key(1,4)] alike_same [OF assms(2), of c] show ?thesis
    by (auto simp: default_option_def split_def Let_def intro!: targets_alike_runtime)
qed

lemma override_option_alike:
  assumes "targets_alike t t'" and "bases_alike b b'"
  shows "targets_alike (override_option scan b e t) (override_option scan b' e t')"
proof -
  have "(case map_of b k of None \<Rightarrow> False | Some opt \<Rightarrow> co_section opt = s \<and> co_static opt) =
      (case map_of b' k of None \<Rightarrow> False | Some opt \<Rightarrow> co_section opt = s \<and> co_static opt)" for k s
    using bases_alike_lookup [OF assms(2), of k] by (auto simp: alike_same split: option.split elim: option.rel_cases)
  with assms(1) show ?thesis
    by (auto simp: override_option_def split_def Let_def intro!: targets_alike_runtime targets_alike_file)
qed

lemma target_alike:
  assumes "bases_alike b b'"
  shows "targets_alike (getTargetConfigAndRuntime scan c rook b) (getTargetConfigAndRuntime scan c rook b')"
proof -
  have "targets_alike (fold (default_option c) b t) (fold (default_option c) b' t')" if "targets_alike t t'" for t t'
    using assms that unfolding bases_alike_def
  proof (induction b b' arbitrary: t t' rule: list_all2_induct)
    case (Cons e b e' b')
    then have "targets_alike (default_option c e t) (default_option c e' t')"
      using default_option_alike [of t t' "snd e" "snd e'" "fst e" c] by (cases e; cases e') simp
    with Cons.IH show ?case by simp
  qed simp
  then have "targets_alike (fold (default_option c) b ([], [])) (fold (default_option c) b' ([], []))" by simp
  moreover have "targets_alike (fold (override_option scan b) rook t) (fold (override_option scan b') rook t')" if "targets_alike t t'" for t t'
    using that by (induction rook arbitrary: t t') (simp_all add: override_option_alike [OF _ assms])
  ultimately show ?thesis by (simp add: getTargetConfigAndRuntime_def)
qed

lemma runtime_text_alike:
  assumes "keys params' = keys params" and "\<And>k. \<not> password_param k \<Longrightarrow> map_of params' k = map_of params k"
  shows "runtime_text params' = runtime_text params"
proof -
  have "k @ '' = '' @ (if Contains passwordKeys (snd (getSectionAndKey k)) then ''*'' else str_of params' k) @ [CHR 10] =
      k @ '' = '' @ (if Contains passwordKeys (snd (getSectionAndKey k)) then ''*'' else str_of params k) @ [CHR 10]" for k
    using assms(2) [of k] by (simp add: password_param_def get_or_def)
  then show ?thesis unfolding runtime_text_def SortedMapKeys_def assms(1) by presburger
qed

text \<open>The ConfigMap that default options and overrides lead to.\<close>

definition written_map :: "(string \<Rightarrow> string) \<Rightarrow> (string \<Rightarrow> configOption list) \<Rightarrow> cephDeploymentConfig \<Rightarrow> string \<Rightarrow> baseConfig \<Rightarrow> KubeConfigMap" where
  "written_map sha256 scan c now base =
     (let (m, runtime) = getTargetConfigAndRuntime scan c (sps_RookConfig (dpl_spec c)) base;
          (t, hashes) = getCephOverrideConfigStringAndHashes sha256 m
      in new_config_map c now t runtime hashes)"

lemma written_map_alike:
  assumes "bases_alike b b'"
  shows "written_map sha256 scan c now b' = written_map sha256 scan c now b"
proof -
  let ?t = "getTargetConfigAndRuntime scan c (sps_RookConfig (dpl_spec c)) b"
  let ?t' = "getTargetConfigAndRuntime scan c (sps_RookConfig (dpl_spec c)) b'"
  have *: "targets_alike ?t ?t'" by (rule target_alike [OF assms])
  then have "runtime_text (snd ?t') = runtime_text (snd ?t)" by (intro runtime_text_alike) (simp_all add: targets_alike_def)
  with * show ?thesis by (simp add: written_map_def new_config_map_def split_def Let_def targets_alike_def)
qed

lemma openstack_options_alike:
  assumes "\<And>k. k \<noteq> ''password'' \<Longrightarrow> map_of secret' k = map_of secret k" and "CHR ''|'' \<notin> set section" and "base_ok base"
  shows "bases_alike (openstack_options section secret base) (openstack_options section secret' base)"
proof -
  have same: "str_of secret' k = str_of secret k" if "k \<noteq> ''password''" for k
    using assms(1) [OF that] by (simp add: get_or_def)
  have "list_all2 alike (getDefaultRgwKeystoneConfig section secret) (getDefaultRgwKeystoneConfig section secret')"
    "list_all2 alike (getDefaultRgwBarbicanConfig section secret) (getDefaultRgwBarbicanConfig section secret')"
    using assms(2) by (simp_all add: getDefaultRgwKeystoneConfig_def getDefaultRgwBarbicanConfig_def same)
      (simp_all add: alike_def option_in_def passwordKeys_def)
  moreover have "bases_alike (mergeConfig (getDefaultRgwOpenStackConfig section) base) (mergeConfig (getDefaultRgwOpenStackConfig section) base)"
    by (intro bases_alike_refl base_ok_merge assms(3))
  moreover have "map_of secret' ''barbican_url'' = map_of secret ''barbican_url''" by (simp add: assms(1))
  ultimately show ?thesis by (simp add: openstack_options_def Let_def bases_alike_merge)
qed



section \<open>Restarts\<close>

lemma section_annotations_actual:
  "map_of (snd (fold (section_annotations now current) es t)) section =
     (case map_of (rev es) section of
        None \<Rightarrow> map_of (snd t) section
      | Some hash \<Rightarrow> Some (if hash \<noteq> str_of current (cephConfigSectionHashLabel section) then now
          else pickTimestamp now (str_of current (cephConfigParametersUpdateTimestampLabel section))))"
  by (induction es arbitrary: t) (auto simp: section_annotations_def split_def Let_def map_add_def split: option.splits)

text \<open>When the update of an existing ConfigMap succeeds, the timestamp of a section, which makes its daemons
  restart, becomes the current time exactly if the hash of the section differs from the recorded one or no
  timestamp is recorded; otherwise the recorded one is kept.\<close>

theorem restart_only_on_change:
  assumes "run_state (update_config_map D now currentRookCm newRookCm configHashes stateChanged ts) h = ((Inr changed, ts'), h')"
    and "wf_map configHashes" and "(section, hash) \<in> set configHashes"
  shows "map_of (ut_cephConfigMap ts') section =
    Some (if hash \<noteq> str_of (kcm_Annotations currentRookCm) (cephConfigSectionHashLabel section) then now
          else pickTimestamp now (str_of (kcm_Annotations currentRookCm) (cephConfigParametersUpdateTimestampLabel section)))"
proof -
  have "map_of (rev configHashes) section = Some hash"
    using assms(2,3) by (simp add: rev_map [symmetric])
  moreover have "ut_cephConfigMap ts' = snd (all_section_annotations now (kcm_Annotations currentRookCm) configHashes)"
    using assms(1) by (auto simp: update_config_map_def Let_def split_def split: if_splits option.splits)
  ultimately show ?thesis by (simp add: all_section_annotations_def section_annotations_actual)
qed

definition cc_map :: KubeConfigMap where
  "cc_map = \<lparr>kcm_Name = rookConfigOverrideName, kcm_Namespace = ''rook'', kcm_Labels = [],
     kcm_Annotations = [(cephConfigSectionHashLabel ''mon'', ''h1''), (cephConfigParametersUpdateTimestampLabel ''mon'', ''t1''),
       (cephConfigSectionHashLabel ''mgr'', ''h2''), (cephConfigParametersUpdateTimestampLabel ''mgr'', ''t2'')],
     kcm_Data = []\<rparr>"

definition cc_timestamps :: updateTimestamps where
  "cc_timestamps = \<lparr>ut_cephConfigMap = [], ut_rgwSSLCert = [], ut_rgwRuntimeParams = [], ut_osdRuntimeParams = []\<rparr>"

theorem restart_only_on_change_witness:
  "\<exists>ts'. fst (run_state (update_config_map dv_env ''t9'' cc_map (cc_map\<lparr>kcm_Data := [(''config'', ''x'')]\<rparr>) [(''mon'', ''h1''), (''mgr'', ''h3'')]
       False cc_timestamps) []) = (Inr True, ts') \<and>
     map_of (ut_cephConfigMap ts') ''mon'' = Some ''t1'' \<and> map_of (ut_cephConfigMap ts') ''mgr'' = Some ''t9''"
proof -
  let ?run = "run_state (update_config_map dv_env ''t9'' cc_map (cc_map\<lparr>kcm_Data := [(''config'', ''x'')]\<rparr>)
    [(''mon'', ''h1''), (''mgr'', ''h3'')] False cc_timestamps) []"
  have "\<not> map_eq (kcm_Data cc_map) [(''config'', ''x'')]" by (simp add: cc_map_def map_eq_def)
  then have "\<exists>ts' h'. ?run = ((Inr True, ts'), h')"
    by (simp add: update_config_map_def Let_def split_def dv_env_def)
  then obtain ts' h' where run: "?run = ((Inr True, ts'), h')" by blast
  have recorded: "str_of (kcm_Annotations cc_map) (cephConfigSectionHashLabel ''mon'') = ''h1''"
    "str_of (kcm_Annotations cc_map) (cephConfigParametersUpdateTimestampLabel ''mon'') = ''t1''"
    "str_of (kcm_Annotations cc_map) (cephConfigSectionHashLabel ''mgr'') = ''h2''"
    by (simp_all add: cc_map_def get_or_def cephConfigSectionHashLabel_def cephConfigParametersUpdateTimestampLabel_def)
  from restart_only_on_change [OF run, of "''mon''" "''h1''"] restart_only_on_change [OF run, of "''mgr''" "''h3''"] run recorded
  show ?thesis by (auto simp: pickTimestamp_def)
qed

section \<open>Runtime parameters\<close>

text \<open>The commands a computation has run.\<close>

definition commands :: "hist \<Rightarrow> string list" where
  "commands h = concat (map (\<lambda>call. case call of Exec _ _ _ command \<Rightarrow> [command] | _ \<Rightarrow> []) h)"

lemma commands_append [simp]: "commands (g @ h) = commands g @ commands h"
  by (simp add: commands_def)

lemma commands_simps [simp]:
  "commands [] = []" "commands (Exec a b e command # h) = command # commands h" "commands (ListPods a b e # h) = commands h"
  "commands (Now # h) = commands h"
  by (simp_all add: commands_def)

lemma toolbox_commands:
  assumes "run_state (RunCephToolboxCLI E ns command) h = ((out, err), h')" and "command \<noteq> []"
  shows "\<exists>cs. h' = h @ cs \<and> (err = None \<longrightarrow> commands cs = [command])"
  using assms
  by (auto simp: RunCephToolboxCLI_def RunPodCmdAndCheckError_def runPodCommandWithValidation_def findPod_def toolbox_config_def
      Let_def split_def split: sum.splits option.splits if_splits)

text \<open>The commands that bring the cluster from what it dumps to the wanted parameters.\<close>

definition wanted_commands :: "cephConfigOptionDump list \<Rightarrow> runtimeConfig \<Rightarrow> string list" where
  "wanted_commands dump params =
     [config_command (fst (getSectionAndKey (fst p))) (snd (getSectionAndKey (fst p))) (snd p).
        p \<leftarrow> params, dumped_value dump (fst (getSectionAndKey (fst p))) (snd (getSectionAndKey (fst p))) \<noteq> snd p]"

lemma note_update_commands: "\<exists>cs. snd (run_state (note_update D s k ts) h) = h @ cs \<and> commands cs = []"
  by (auto simp: note_update_def GetCurrentTimeString_def)

lemma update_params_commands:
  assumes "run_state (update_params D c dump params updated ts) h = ((Inr changed, ts'), h')"
  shows "\<exists>cs. h' = h @ cs \<and> commands cs = wanted_commands dump params \<and> (changed \<longleftrightarrow> updated \<or> wanted_commands dump params \<noteq> [])"
  using assms
proof (induction params arbitrary: updated ts h)
  case Nil
  then show ?case by (simp add: wanted_commands_def)
next
  case (Cons p params)
  obtain sk v where p: "p = (sk, v)" by (cases p)
  obtain s k where sk: "getSectionAndKey sk = (s, k)" by (cases "getSectionAndKey sk")
  show ?case
  proof (cases "dumped_value dump s k = v")
    case True
    with Cons p sk show ?thesis by (simp add: wanted_commands_def)
  next
    case False
    obtain out err h1 where run: "run_state (RunCephToolboxCLI (de_env D) (rook_ns c) (config_command s k v)) h = ((out, err), h1)"
      by (metis prod.exhaust)
    with Cons.prems p sk False have ok: "err = None" by (cases err) auto
    have "config_command s k v \<noteq> []" by (simp add: config_command_def)
    from toolbox_commands [OF run this] ok obtain cs1 where cs1: "h1 = h @ cs1" "commands cs1 = [config_command s k v]" by auto
    obtain ts1 h2 where noted: "run_state (note_update D s k ts) h1 = (ts1, h2)" by (metis prod.exhaust)
    with noted note_update_commands [of D s k ts h1] obtain cs2 where cs2: "h2 = h1 @ cs2" "commands cs2 = []" by auto
    from Cons.prems p sk False run ok noted have "run_state (update_params D c dump params True ts1) h2 = ((Inr changed, ts'), h')" by simp
    from Cons.IH [OF this] obtain cs3 where "h' = h2 @ cs3" "commands cs3 = wanted_commands dump params" "changed" by auto
    with cs1 cs2 p sk False show ?thesis by (intro exI [of _ "cs1 @ cs2 @ cs3"]) (simp add: wanted_commands_def)
  qed
qed



section \<open>Where the code falls short\<close>

text \<open>An override of an option that is meant for the file only is set in the running cluster, and the file keeps
  the default.\<close>

lemma conf_file_override_goes_to_runtime:
  "let (m, params) = getTargetConfigAndRuntime scan dv_config [(''osd|osd_class_dir'', ''/opt/classes'')] (mergeConfig generalConfigOptions [])
   in file_value m ''osd'' ''osd_class_dir'' = Some ''/usr/lib64/rados-classes'' \<and> map_of params ''osd|osd_class_dir'' = Some ''/opt/classes''"
proof -
  have "(let (m, params) = getTargetConfigAndRuntime (\<lambda>_. []) dv_config [(''osd|osd_class_dir'', ''/opt/classes'')] (mergeConfig generalConfigOptions [])
   in file_value m ''osd'' ''osd_class_dir'' = Some ''/usr/lib64/rados-classes'' \<and> map_of params ''osd|osd_class_dir'' = Some ''/opt/classes'')"
    by code_simp
  moreover have "override_option scan base (''osd|osd_class_dir'', v) t = override_option (\<lambda>_. []) base (''osd|osd_class_dir'', v) t" for base v t
    by (simp add: override_option_def getSectionAndKey_def)
  ultimately show ?thesis by (simp add: getTargetConfigAndRuntime_def)
qed

text \<open>The section of an override without one depends on the order in which Go visits the default options:
  with two object stores it may be that of either.\<close>

lemma override_section_depends_on_order:
  assumes "co_key a = key" and "co_key b = key" and "co_section a \<noteq> co_section b"
  shows "default_section [a, b] key \<noteq> default_section [b, a] key"
  using assms by (simp add: default_section_def)

text \<open>If the data of the ConfigMap changes but no annotation does, the time at which it was generated is not
  written.\<close>

lemma generated_time_not_written:
  assumes "\<not> map_eq (kcm_Data cm) (kcm_Data new)"
    and "map_eq (kcm_Annotations cm) (runtime_annotations (keep_runtime_timestamps (kcm_Annotations cm) ts)
           (fst (all_section_annotations now (kcm_Annotations cm) hashes)))"
  shows "\<exists>written. snd (run_state (update_config_map D now cm new hashes changed ts) h) = h @ [Manage (UpdateConfigMap written)] \<and>
    kcm_Data written = kcm_Data new \<and> kcm_Annotations written = kcm_Annotations cm"
  using assms by (simp add: update_config_map_def Let_def split_def)

end
