(* ===== verification/Spec2Isabelle.thy ===== *)
theory Spec2Isabelle
  imports Executor_Theorems Spec_Theorems Task_Theorems Reconcile_Theorems Disk_Theorems Analysis_Theorems
    Deploy_Spec_Theorems Deploy_Version_Theorems Deploy_Evict_Theorems Deploy_Pool_Theorems Deploy_Run_Theorems
    Lcm_Config_Store Deploy_CephConfig_Update
begin

text \<open>
  A model of Pelagia, the controllers that run Ceph on Kubernetes through Rook: the life-cycle management of
  OSDs, the disk daemon, the analysis of the specification, the deployment controller with the Ceph configuration
  it maintains, and the configuration all controllers share, with the theorems that make them correct.

  \<^bold>\<open>The program.\<close> A \<^verbatim>\<open>CephOsdRemoveTask\<close> asks for the removal of OSDs. Its controller
  (\<^verbatim>\<open>src/pkg/controller/osdremove-task\<close>) validates the task against the specification of the cluster
  and the disks the nodes report (\<^verbatim>\<open>spec_handler.go\<close>, \<^verbatim>\<open>helpers.go\<close>, \<^verbatim>\<open>utils.go\<close>), waits for the
  approval of an operator and for the Rook operator to be scaled down (\<^verbatim>\<open>processer.go\<close>), and then
  removes one OSD after the other: out of the cluster, rebalance, purge, a job that wipes its devices,
  removal of the deployment and of the emptied host (\<^verbatim>\<open>executor.go\<close>, \<^verbatim>\<open>cleanup_job.go\<close>). A reconcile
  run (\<^verbatim>\<open>controller.go\<close>) reads the task, makes one step and writes the status back; all state
  between two runs is in the status of the task. The infrastructure controller
  (\<^verbatim>\<open>src/pkg/controller/infra/operator.go\<close>) scales the Rook operator by the phases of all tasks.
  What a node's disks hold is reported by a daemon on the node (\<^verbatim>\<open>src/pkg/disk-daemon\<close>), which
  compares \<^verbatim>\<open>lsblk\<close>, \<^verbatim>\<open>ceph-volume\<close> and the OSD metadata and serves the result to the task
  controller and to the health controller. The latter analyses, node by node and in parallel, whether
  the OSDs that run are the ones the cluster's specification asks for
  (\<^verbatim>\<open>src/pkg/controller/health/spec_osd_verification.go\<close>).
  A \<^verbatim>\<open>CephDeployment\<close> describes the whole cluster. Its controller (\<^verbatim>\<open>src/pkg/controller/deployment\<close>) decodes
  and validates the description, chooses the Ceph image, labels the nodes, evicts volumes from nodes that are
  drained, pauses while a removal task or a maintenance is active, and then creates, updates or removes the
  Rook resources. The controllers meet in the API server: the phase of the deployment that this controller
  writes is what the task controller waits for, and the phases of the tasks are what this controller looks at.
  Every controller takes its parameters from a ConfigMap, which the configuration controller
  (\<^verbatim>\<open>src/pkg/controller/config\<close>) of its process loads into a store with one entry per namespace.

  \<^bold>\<open>The outside world.\<close> A computation is a state monad over the history of the calls issued so far
  (\<open>Cluster_Api\<close>): Kubernetes requests, commands run in the toolbox or disk daemon pod, the clock and
  sleeping. An environment record answers each call as a function of the history, so a theorem that
  holds for every environment holds for every behaviour of the cluster, failures and changes between
  two calls included. The record also holds what the code takes from other libraries: reading JSON,
  label selectors, regular expressions, times. The one law assumed of them is \<open>time_roundtrip\<close>,
  reading back a formatted time. Go maps are association lists with the order of iteration explicit;
  operations that Go performs in map order are modelled on the list order, and
  \<open>Prelude\<close> has the laws of lookup and update. Go errors are values of a sum type; counters and
  identifiers that Go keeps in \<^verbatim>\<open>int\<close> are \<open>int\<close>, since none of them is computed near the bounds of the
  type. Where a number comes from outside and is converted, as the port and the timeout of the
  configuration, the conversion is done on words of 32 and 64 bits.

  \<^bold>\<open>Theories and sources.\<close>
  \<^item> \<open>Prelude\<close>: association lists, string functions, the monad laws for \<open>calls_in\<close>, \<open>returns\<close> and the
    loop combinators with the locale \<open>loop_body\<close> (an invariant of a loop from an invariant of its body).
  \<^item> \<open>Ceph_Types\<close>, \<open>Task_Types\<close>, \<open>Kube_Types\<close>: the structures of \<^verbatim>\<open>pkg/common/ceph_types.go\<close>,
    \<^verbatim>\<open>disk_daemon_types.go\<close>, \<^verbatim>\<open>pkg/apis/.../task_types.go\<close>, \<^verbatim>\<open>health_types.go\<close> and of the Kubernetes and
    Rook objects, one record per structure with the fields that the modelled code uses.
  \<^item> \<open>Cluster_Api\<close>, \<open>Common\<close>: calls, retrying, pod search, device names (\<^verbatim>\<open>pkg/common\<close>).
  \<^item> \<open>Task_Phase\<close> (\<^verbatim>\<open>phase.go\<close>), \<open>Osd_Helpers\<close> (\<^verbatim>\<open>helpers.go\<close>, \<^verbatim>\<open>utils.go\<close>), \<open>Spec_Devices\<close>,
    \<open>Spec_Verify\<close>, \<open>Spec_Find\<close> (the device functions and the two modes of \<^verbatim>\<open>spec_handler.go\<close>),
    \<open>Cleanup_Script\<close> and \<open>Cleanup_Job\<close> (\<^verbatim>\<open>cleanup_job.go\<close>; the shell templates are syntax trees with
    the disk operations they perform), \<open>Executor\<close> (\<^verbatim>\<open>executor.go\<close>), \<open>Processer\<close> (\<^verbatim>\<open>processer.go\<close>),
    \<open>Controller\<close> (\<^verbatim>\<open>controller.go\<close>), \<open>Rook_Operator\<close> (\<^verbatim>\<open>infra/operator.go\<close> and
    \<^verbatim>\<open>common/cephdeployment_utils.go\<close>).
  \<^item> \<open>Disk_Types\<close>, \<open>Disk_Reporter\<close>, \<open>Disk_Osds\<close>, \<open>Disk_Daemon\<close>: \<^verbatim>\<open>utils.go\<close>, \<^verbatim>\<open>disk_reporter.go\<close>,
    \<^verbatim>\<open>osds_reporter.go\<close>, \<^verbatim>\<open>daemon.go\<close> and \<^verbatim>\<open>api_server.go\<close> of the disk daemon. Its state, the last
    report of each kind and the issues found, is a record that one run of the loop updates.
  \<^item> \<open>Spec_Analysis\<close>, \<open>Spec_Osds\<close>, \<open>Spec_Health\<close>: the specification analysis of the health
    controller. The goroutines that prepare the nodes are in \<open>Spec_Threads\<close>: an inductive step
    relation \<open>prep_step\<close> on the list of threads and the shared variables, the reads and writes of an
    unlocked update being two steps.

  \<^item> \<open>Deploy_Types\<close> (\<^verbatim>\<open>deployment_types.go\<close> and the Rook structures it embeds), \<open>Deploy_Env\<close> (the environment of
    the deployment controller, the \<^verbatim>\<open>GetSpec\<close> methods of \<^verbatim>\<open>apis/.../extension.go\<close>, \<^verbatim>\<open>const.go\<close>, \<^verbatim>\<open>opts.go\<close>,
    \<^verbatim>\<open>utils.go\<close>), \<open>Deploy_Nodes\<close> (\<^verbatim>\<open>common/cephdeployment_utils.go\<close>, \<^verbatim>\<open>label.go\<close>, the storage nodes of
    \<^verbatim>\<open>cluster.go\<close>), \<open>Deploy_Validate\<close> (\<^verbatim>\<open>validate.go\<close>), \<open>Deploy_Version\<close> (\<^verbatim>\<open>version.go\<close>, \<^verbatim>\<open>common/version.go\<close>,
    \<^verbatim>\<open>maintenance.go\<close>), \<open>Deploy_Evict\<close> (\<^verbatim>\<open>csi_evict.go\<close>), \<open>Deploy_Pools\<close> (\<^verbatim>\<open>pool.go\<close>, \<^verbatim>\<open>cluster_state.go\<close>),
    \<open>Deploy_Prepare\<close> (\<^verbatim>\<open>deprecation.go\<close>, \<^verbatim>\<open>extension.go\<close> and the smaller functions of \<^verbatim>\<open>controller.go\<close>),
    \<open>Deploy_Align\<close> (\<^verbatim>\<open>alignSpecForAES256k\<close>) and \<open>Deploy_Controller\<close> (applying, removing and \<^verbatim>\<open>Reconcile\<close>). The
    record \<open>deployEnv\<close> extends the environment by the requests of this controller; a node that is read has
    labels and annotations. The steps of the files that are not modelled are the fields of the record
    \<open>deploy_steps\<close>, an argument of \<open>Deploy_Reconcile\<close>; a theorem about a run assumes of them only that they do not
    issue the calls the theorem is about, which \<open>steps_issue\<close> states.
  \<^item> \<open>Deploy_CephConfig\<close> (\<^verbatim>\<open>ceph_config.go\<close>): default options, overrides, the text of the ConfigMap, runtime
    parameters and the timestamps, which \<^verbatim>\<open>resourceUpdateTimestamps\<close> keeps between runs and the model passes
    through. The orders in which Go ranges over maps that the code itself builds are the record
    \<open>rangeOrder\<close>.
  \<^item> \<open>Lcm_Config\<close> (\<^verbatim>\<open>config/config.go\<close>, \<^verbatim>\<open>config/controller.go\<close>): the keys with their parsers, the store, the event
    filter and the reconciler.

  \<^bold>\<open>What is shown.\<close>
  \<^item> \<open>Removal_Steps\<close>, \<open>Removal_Map\<close>, \<open>Removal_Run\<close>, \<open>Removal_Guarantees\<close>, \<open>Removal_Commands\<close> lift the
    effect of one operation of the executor through its loops (locale \<open>osd_loop\<close>, interpreted on
    each of the loop bodies) to one run; \<open>Executor_Theorems\<close> has the resulting properties: the phases an OSD moves
    through, at most one OSD taken out, purge only when in progress, one cleanup job per host, no
    wipe of a disk another OSD uses, a finished run has finished everything.
  \<^item> \<open>Spec_Hosts\<close> (locales \<open>kept_on\<close>, \<open>kept_by\<close>, \<open>kept_by_io\<close>), \<open>Spec_Lemmas\<close>, \<open>Spec_Result\<close>,
    \<open>Spec_Named\<close>, \<open>Spec_Auto\<close> and \<open>Spec_Keep\<close> do the same for the loops of the validation;
    \<open>Spec_Theorems\<close>: zapping only where the device carries nothing else, no specified OSD or host
    planned for removal, the named mode follows the task, the plan is one the executor can start from.
  \<^item> \<open>Task_Machine\<close> has the phases as an inductive step relation, which the handler refines, and
    \<open>Task_Life\<close> the statuses reachable under it; \<open>Task_Calls\<close> which calls each phase may issue.
    \<open>Task_Theorems\<close> composes the three: a reachable task that completes has removed every OSD of
    its approved plan, the executor always starts from a valid map, processing needs approval and a
    stopped operator. \<open>Reconcile_Theorems\<close> adds the loop around the handler and the operator scaling.
  \<^item> \<open>Disk_Lemmas\<close>, \<open>Disk_Report\<close> and \<open>Disk_Theorems\<close>: which devices the daemon reports as whole
    disks, that the map from disks to OSDs is exact, that the search for the disks below a device ends
    on acyclic reports and returns the disks, the report and its aliases, and how the daemon's memory
    of issues and devices behaves over two runs.
  \<^item> \<open>Spec_Aligned\<close>, \<open>Spec_Prepared\<close> and \<open>Analysis_Theorems\<close>: an analysis without issues means that
    every specified device carries the OSDs asked for and no other; under every schedule the threads
    stay within the configured limit, the preparation cannot get stuck and its result is complete
    (locale \<open>prep_invariant\<close>, interpreted on the counters and on the shared results); the issue on
    nodes outside the specification can be lost by the unlocked append.
  \<^item> \<open>Trace_Logic\<close> has triples for computations over the call history, with a guard on every call that
    states what must have been seen before it. \<open>Deploy_Calls\<close> and \<open>Deploy_Run\<close> carry three guards through a
    whole run (locale \<open>call_guard\<close>, interpreted on each of them); \<open>Deploy_Run_Theorems\<close>: a failure is never
    written over the phases the other controllers wait for, pools are written only when no task and no
    maintenance blocks, the cluster is destroyed after its pools and the finalizer goes last.
  \<^item> \<open>Deploy_Valid\<close> states what a valid deployment is and \<open>Deploy_Labels\<close> what the labels of a node should be;
    \<open>Deploy_Spec_Theorems\<close>: the validation accepts exactly the valid deployments, labelling gives exactly the
    wanted labels and its removal the former ones, the OSD label stays while OSDs run.
    \<open>Deploy_Version_Theorems\<close>: versions are read back, the image changes only by at most one release upwards.
    \<open>Deploy_Evict_Theorems\<close>: a node is reported as drained only without CSI pods, and loses its label only
    without volumes. \<open>Deploy_Pool_Theorems\<close>: the requests for pools are the difference between the
    specification and what exists.
  \<^item> \<open>Deploy_CephConfig_Theorems\<close>: the networks cannot be overridden and thread pools stay bounded, for every
    order of the maps; a reader of the format gets back the target configuration.
    \<open>Deploy_CephConfig_Update\<close>: passwords do not reach the ConfigMap, the commands that set runtime
    parameters are exact, and a section's timestamp changes only with its content.
  \<^item> \<open>Lcm_Config_Theorems\<close>: unknown and malformed entries count as absent, numbers keep their value when they
    fit, and a printed configuration is read back. \<open>Lcm_Config_Store\<close> (locale \<open>config_store\<close>, interpreted
    on the store): a controller gets what the last ConfigMap seen gives and never a nil pointer to its
    parameters, and a skipped event changes nothing.
  \<^item> \<open>Deploy_Scenario\<close>, \<open>Scenario\<close>, \<open>Spec_Scenario\<close>, \<open>Task_Example\<close>: concrete clusters and a task carried from creation to
    completion, on which the theorems are applied.

  \<^bold>\<open>Loops and bounds.\<close> Loops over lists and maps are structural, the retry loop counts down its number
  of attempts. The polling helper of the Kubernetes libraries makes as many attempts as the environment
  allows before the time is up, at least one, so what is shown of it holds for every number. The walk to the
  parent disk in \<^verbatim>\<open>FindDiskName\<close> and the disk daemon's
  \<^verbatim>\<open>findDisks\<close> end only when the reported parents are acyclic; both are a \<open>partial_function\<close> in the
  option monad, and that they return is a theorem under that condition. Nothing uses fuel.

  \<^bold>\<open>Not modelled.\<close> Log output, metrics and events; the deep copies and clients generated from the API
  types; start-up and registration with the manager; the building of Rook objects in the remaining files of
  \<^verbatim>\<open>controller/deployment\<close> (the cluster resource itself, gateways, CSI, clients, storage classes, ingress, network
  policies), which are arguments of the modelled run; the rest of the health report in \<^verbatim>\<open>controller/health\<close>, the copies
  of secrets and the connector tool.
\<close>

end
